(* ===== verification/Kmip_Prelude.thy ===== *)
theory Kmip_Prelude
  imports Main "HOL-Library.Word"
begin

text \<open>
  Shared vocabulary of the development: machine integers, the result type of fallible code, the
  two implementation-defined choices of a C++ build that the wire code depends on, \<open>size_t\<close>
  arithmetic with its wrap-around, text and number conversions of the standard library, and the
  generic lemmas about big-endian bytes, padding and result sequencing that every component uses.

  Collections: \<open>kmip_consts\<close> holds the equations of the numeric constants, \<open>res_simps\<close>
  the rewrite rules of the result type.
\<close>

unbundle bit_operations_syntax

named_theorems kmip_consts "equations of the numeric constants"
named_theorems res_simps "rewrite rules for results"

section \<open>Machine integers\<close>

text \<open>
  \<open>std::int32_t\<close> and \<open>std::uint32_t\<close> are both 32-bit words; a signed reading is written out
  with \<open>sint\<close>.  The C++ casts between the two are then the identity, as they are on the machine.
\<close>

type_synonym byte = "8 word"
type_synonym u32 = "32 word"
type_synonym i32 = "32 word"
type_synonym u64 = "64 word"
type_synonym i64 = "64 word"

text \<open>\<open>std::size_t\<close> values are naturals below \<open>2 ^ 64\<close>; sums and products wrap.\<close>

definition sz_add :: "nat \<Rightarrow> nat \<Rightarrow> nat" where
  "sz_add a b = (a + b) mod 2 ^ 64"

lemma sz_add_code [code]: "sz_add a b = nat ((int a + int b) mod 18446744073709551616)"
  by (simp add: sz_add_def nat_mod_distrib nat_add_distrib)

definition sz_mul :: "nat \<Rightarrow> nat \<Rightarrow> nat" where
  "sz_mul a b = (a * b) mod 2 ^ 64"

definition int32_max :: nat where
  [kmip_consts]: "int32_max = 2147483647"

section \<open>Failures and results\<close>

text \<open>
  What a call can do instead of returning: throw one of the two exception classes (the native code
  and the message are kept), index a span out of range, overflow an \<open>int\<close>, which is undefined, trip a library
  precondition check that a hardened build turns into an abort, or not return at all.
\<close>

datatype failure =
    KmipException (exc_code: i32) (exc_msg: string)
  | KmipIOException (exc_code: i32) (exc_msg: string)
  | Out_of_range
  | Int_overflow
  | Assertion_abort
  | Diverges

type_synonym 'a res = "failure + 'a"

definition bind_res :: "'a res \<Rightarrow> ('a \<Rightarrow> 'b res) \<Rightarrow> 'b res" where
  "bind_res r f = (case r of Inl e \<Rightarrow> Inl e | Inr x \<Rightarrow> f x)"

definition guard_res :: "bool \<Rightarrow> failure \<Rightarrow> unit res" where
  "guard_res ok e = (if ok then Inr () else Inl e)"

fun map_res :: "('a \<Rightarrow> 'b res) \<Rightarrow> 'a list \<Rightarrow> 'b list res" where
  "map_res f [] = Inr []"
| "map_res f (x # xs) = bind_res (f x) (\<lambda>y. bind_res (map_res f xs) (\<lambda>ys. Inr (y # ys)))"

fun fold_res :: "('a \<Rightarrow> 's \<Rightarrow> 's res) \<Rightarrow> 'a list \<Rightarrow> 's \<Rightarrow> 's res" where
  "fold_res f [] s = Inr s"
| "fold_res f (x # xs) s = bind_res (f x s) (fold_res f xs)"

text \<open>A pointer that may be null, dereferenced only when it is not.\<close>

definition opt_res :: "('a \<Rightarrow> 'b res) \<Rightarrow> 'a option \<Rightarrow> 'b option res" where
  "opt_res f p = (case p of None \<Rightarrow> Inr None | Some x \<Rightarrow> bind_res (f x) (\<lambda>y. Inr (Some y)))"

section \<open>Implementation-defined choices of the platform\<close>

datatype endian = Little_endian | Big_endian

text \<open>
  \<open>std::endian::native\<close>, and whether the standard library checks the precondition of
  \<open>std::span::operator[]\<close> (a hardened build aborts when the index is not below the size).
\<close>

record platform =
  native_endian :: endian
  hardened :: bool

section \<open>Text and numbers\<close>

definition byte_of_char :: "char \<Rightarrow> byte" where
  "byte_of_char c = word_of_nat (of_char c)"

definition char_of_byte :: "byte \<Rightarrow> char" where
  "char_of_byte b = char_of (unat b)"

definition digit_char :: "nat \<Rightarrow> char" where
  "digit_char d = char_of (48 + d)"

text \<open>\<open>std::to_string\<close> and stream output of integers in base 10.\<close>

fun nat_to_string :: "nat \<Rightarrow> string" where
  "nat_to_string n =
     (if n < 10 then [digit_char n] else nat_to_string (n div 10) @ [digit_char (n mod 10)])"

declare nat_to_string.simps [simp del]

definition int_to_string :: "int \<Rightarrow> string" where
  "int_to_string i =
     (if i < 0 then CHR ''-'' # nat_to_string (nat (- i)) else nat_to_string (nat i))"

text \<open>Stream output in base 16, upper or lower case, and zero fill to a width.\<close>

definition hex_char :: "bool \<Rightarrow> nat \<Rightarrow> char" where
  "hex_char upper d =
     (if d < 10 then char_of (48 + d) else char_of ((if upper then 55 else 87) + d))"

fun nat_to_hex :: "bool \<Rightarrow> nat \<Rightarrow> string" where
  "nat_to_hex upper n =
     (if n < 16 then [hex_char upper n]
      else nat_to_hex upper (n div 16) @ [hex_char upper (n mod 16)])"

declare nat_to_hex.simps [simp del]

definition zero_fill :: "nat \<Rightarrow> string \<Rightarrow> string" where
  "zero_fill w s = replicate (w - length s) (CHR ''0'') @ s"

section \<open>Big-endian bytes\<close>

text \<open>The bytes of a word, most significant first: the reference the wire code is compared with.\<close>

definition be_bytes32 :: "u32 \<Rightarrow> byte list" where
  "be_bytes32 v = [ucast (drop_bit 24 v), ucast (drop_bit 16 v), ucast (drop_bit 8 v), ucast v]"

definition be_bytes64 :: "u64 \<Rightarrow> byte list" where
  "be_bytes64 v =
     [ucast (drop_bit 56 v), ucast (drop_bit 48 v), ucast (drop_bit 40 v), ucast (drop_bit 32 v),
      ucast (drop_bit 24 v), ucast (drop_bit 16 v), ucast (drop_bit 8 v), ucast v]"

definition be_word32 :: "byte \<Rightarrow> byte \<Rightarrow> byte \<Rightarrow> byte \<Rightarrow> u32" where
  "be_word32 a b c d =
     push_bit 24 (ucast a) OR push_bit 16 (ucast b) OR push_bit 8 (ucast c) OR ucast d"

definition be_word64 ::
    "byte \<Rightarrow> byte \<Rightarrow> byte \<Rightarrow> byte \<Rightarrow> byte \<Rightarrow> byte \<Rightarrow> byte \<Rightarrow> byte \<Rightarrow> u64" where
  "be_word64 a b c d e f g h =
     push_bit 56 (ucast a) OR push_bit 48 (ucast b) OR push_bit 40 (ucast c) OR
     push_bit 32 (ucast d) OR push_bit 24 (ucast e) OR push_bit 16 (ucast f) OR
     push_bit 8 (ucast g) OR ucast h"

text \<open>How many zero bytes complete \<open>n\<close> bytes to a multiple of eight.\<close>

definition pad8 :: "nat \<Rightarrow> nat" where
  "pad8 n = (8 - n mod 8) mod 8"

section \<open>Lemmas: results\<close>

lemma bind_res_simps [simp, res_simps]:
  "bind_res (Inl e) f = Inl e"
  "bind_res (Inr x) f = f x"
  by (simp_all add: bind_res_def)

lemma bind_res_cong [fundef_cong]:
  "r = r' \<Longrightarrow> (\<And>x. r' = Inr x \<Longrightarrow> f x = g x) \<Longrightarrow> bind_res r f = bind_res r' g"
  by (auto simp: bind_res_def split: sum.splits)

lemma bind_res_Inr_iff [res_simps]:
  "bind_res r f = Inr y \<longleftrightarrow> (\<exists>x. r = Inr x \<and> f x = Inr y)"
  by (auto simp: bind_res_def split: sum.splits)

lemma bind_res_Inl_iff:
  "bind_res r f = Inl e \<longleftrightarrow> r = Inl e \<or> (\<exists>x. r = Inr x \<and> f x = Inl e)"
  by (auto simp: bind_res_def split: sum.splits)

lemma bind_res_assoc: "bind_res (bind_res r f) g = bind_res r (\<lambda>x. bind_res (f x) g)"
  by (simp add: bind_res_def split: sum.splits)

lemma bind_res_return [simp]: "bind_res r Inr = r"
  by (simp add: bind_res_def split: sum.splits)

lemma guard_res_simps [simp, res_simps]:
  "guard_res True e = Inr ()"
  "guard_res False e = Inl e"
  by (simp_all add: guard_res_def)

lemma guard_res_Inr_iff [res_simps]: "guard_res b e = Inr x \<longleftrightarrow> b"
  by (simp add: guard_res_def)

lemma guard_res_Inl_iff [res_simps]: "guard_res b e = Inl e' \<longleftrightarrow> \<not> b \<and> e = e'"
  by (auto simp: guard_res_def)

lemma opt_res_simps [simp, res_simps]:
  "opt_res f None = Inr None"
  "opt_res f (Some x) = bind_res (f x) (\<lambda>y. Inr (Some y))"
  by (simp_all add: opt_res_def)

lemma map_res_Inr_length: "map_res f xs = Inr ys \<Longrightarrow> length ys = length xs"
  by (induction xs arbitrary: ys) (auto simp: bind_res_Inr_iff)

lemma map_res_map_ok:
  "(\<And>x. x \<in> set xs \<Longrightarrow> f (g x) = Inr x) \<Longrightarrow> map_res f (map g xs) = Inr xs"
  by (induction xs) auto

lemma map_res_Inr_iff:
  "map_res f xs = Inr ys \<longleftrightarrow> list_all2 (\<lambda>x y. f x = Inr y) xs ys"
  by (induction xs arbitrary: ys) (auto simp: bind_res_Inr_iff list_all2_Cons1)

lemma fold_res_append:
  "fold_res f (xs @ ys) s = bind_res (fold_res f xs s) (fold_res f ys)"
proof (induction xs arbitrary: s)
  case Nil
  show ?case by simp
next
  case (Cons x xs)
  have "fold_res f (xs @ ys) = (\<lambda>s. bind_res (fold_res f xs s) (fold_res f ys))"
    using Cons.IH by (rule ext)
  then show ?case by (simp add: bind_res_assoc)
qed

text \<open>An invariant kept by every step of a fold is kept by the fold.\<close>

lemma fold_res_invariant:
  assumes "fold_res f xs s = Inr s'" and "I s"
    and "\<And>x s s'. x \<in> set xs \<Longrightarrow> I s \<Longrightarrow> f x s = Inr s' \<Longrightarrow> I s'"
  shows "I s'"
  using assms
proof (induction xs arbitrary: s)
  case Nil
  then show ?case by simp
next
  case (Cons x xs)
  from Cons.prems(1) obtain t where t: "f x s = Inr t" "fold_res f xs t = Inr s'"
    by (auto simp: bind_res_Inr_iff)
  from Cons.prems(2,3) t(1) have "I t" by auto
  with t(2) Cons.prems(3) show ?case by (auto intro: Cons.IH)
qed

section \<open>Lemmas: text and numbers\<close>

lemma of_char_less_256: "(of_char c :: nat) < 256"
  by (metis char_of_eq_iff of_char_of of_char_mod_256 mod_less_divisor zero_less_numeral)

lemma char_of_byte_of_char [simp]: "char_of_byte (byte_of_char c) = c"
proof -
  have "unat (word_of_nat (of_char c) :: byte) = of_char c"
    using of_char_less_256 [of c] by (simp add: unat_of_nat)
  then show ?thesis by (simp add: char_of_byte_def byte_of_char_def)
qed

lemma byte_of_char_of_byte [simp]: "byte_of_char (char_of_byte b) = b"
proof -
  have "unat b < 256" using unsigned_less [of b] by simp
  then show ?thesis by (simp add: char_of_byte_def byte_of_char_def)
qed

lemma map_char_byte [simp]:
  "map (char_of_byte \<circ> byte_of_char) s = s"
  "map (byte_of_char \<circ> char_of_byte) bs = bs"
  by (simp_all add: comp_def)

lemma inj_byte_of_char: "inj byte_of_char"
  by (rule inj_on_inverseI [where g = char_of_byte]) simp

lemma nat_to_string_nonempty [simp]: "nat_to_string n \<noteq> []"
  by (subst nat_to_string.simps) simp

section \<open>Lemmas: machine integers\<close>

lemma sint_word_of_nat32: "n \<le> 2147483647 \<Longrightarrow> sint (word_of_nat n :: i32) = int n"
  by (simp add: signed_of_nat signed_take_bit_int_eq_self_iff)

section \<open>Lemmas: big-endian bytes\<close>

lemma length_be_bytes [simp]: "length (be_bytes32 v) = 4" "length (be_bytes64 w) = 8"
  by (simp_all add: be_bytes32_def be_bytes64_def)

lemma bit_byte_le: "bit (w :: byte) n \<Longrightarrow> n < 8"
  using bit_imp_le_length by fastforce

lemma be_byte_step:
  "push_bit k (ucast (ucast (drop_bit k v) :: byte)) OR take_bit k v = take_bit (k + 8) (v :: 'a::len word)"
  by (rule bit_word_eqI) (auto simp: bit_simps not_less)

lemma be_byte_last: "ucast (ucast v :: byte) = take_bit 8 (v :: 'a::len word)"
  by (rule bit_word_eqI) (auto simp: bit_simps)

lemma be_word32_bytes [simp]:
  "be_word32 (ucast (drop_bit 24 v)) (ucast (drop_bit 16 v)) (ucast (drop_bit 8 v)) (ucast v) = v"
  using be_byte_step [of 8 v] be_byte_step [of 16 v] be_byte_step [of 24 v] be_byte_last [of v]
  by (simp add: be_word32_def take_bit_word_eq_self)

lemma be_bytes32_word [simp]: "be_bytes32 (be_word32 a b c d) = [a, b, c, d]"
  unfolding be_word32_def be_bytes32_def
  by (simp, intro conjI; rule bit_word_eqI) (auto simp: bit_simps not_less dest: bit_byte_le)

lemma be_word64_bytes [simp]:
  "be_word64 (ucast (drop_bit 56 v)) (ucast (drop_bit 48 v)) (ucast (drop_bit 40 v))
     (ucast (drop_bit 32 v)) (ucast (drop_bit 24 v)) (ucast (drop_bit 16 v))
     (ucast (drop_bit 8 v)) (ucast v) = v"
  using be_byte_step [of 8 v] be_byte_step [of 16 v] be_byte_step [of 24 v] be_byte_step [of 32 v]
    be_byte_step [of 40 v] be_byte_step [of 48 v] be_byte_step [of 56 v] be_byte_last [of v]
  by (simp add: be_word64_def take_bit_word_eq_self)

lemma be_bytes64_word [simp]:
  "be_bytes64 (be_word64 a b c d e f g h) = [a, b, c, d, e, f, g, h]"
  unfolding be_word64_def be_bytes64_def
  by (simp, intro conjI; rule bit_word_eqI) (auto simp: bit_simps not_less dest: bit_byte_le)

section \<open>Lemmas: padding\<close>

lemma pad8_less: "pad8 n < 8"
  by (simp add: pad8_def)

lemma pad8_dvd [simp]: "8 dvd n + pad8 n"
proof (cases "n mod 8 = 0")
  case True
  then show ?thesis by (simp add: pad8_def dvd_eq_mod_eq_0)
next
  case False
  then have "pad8 n = 8 - n mod 8" by (simp add: pad8_def)
  moreover have "n mod 8 < 8" "8 * (n div 8) + n mod 8 = n" by simp_all
  ultimately have "n + pad8 n = 8 * (n div 8) + 8" by linarith
  then show ?thesis by simp
qed

lemma pad8_eq_0_iff [simp]: "pad8 n = 0 \<longleftrightarrow> 8 dvd n"
  unfolding pad8_def by presburger

lemma pad8_add_8 [simp]: "pad8 (8 + n) = pad8 n" "pad8 (n + 8) = pad8 n"
  by (simp_all add: pad8_def)

lemma pad8_add_dvd [simp]: "8 dvd m \<Longrightarrow> pad8 (m + n) = pad8 n"
  by (auto simp: pad8_def dvd_def)

lemma pad8_numerals [simp]: "pad8 0 = 0" "pad8 4 = 4" "pad8 8 = 0"
  by (simp_all add: pad8_def)

end
