(* ===== verification/Kmip_Enums.thy ===== *)
theory Kmip_Enums
  imports Kmip_Prelude
begin

text \<open>
  The enumerations of \<open>src/kmipcore/include/kmipcore/kmip_enums.hpp\<close> that the protocol code
  uses.  A C++ scoped enumeration with underlying type \<open>std::uint32_t\<close> can hold every 32-bit
  value (the wire decoder casts raw words into it), so an enumeration is the type of 32-bit words
  and each enumerator is a constant.  All constants are collected in \<open>kmip_consts\<close>, which
  decides tag and code comparisons by the simplifier.  The second half holds the value tables
  (\<open>state_to_string\<close>, \<open>operation_to_string\<close>, \<open>object_type_to_string\<close>) and the
  \<open>is_valid_\<close> predicates that guard values taken from the wire.
\<close>

section \<open>Limits and internal error codes\<close>

definition KMIP_MAX_MESSAGE_SIZE :: nat where
  [kmip_consts]: "KMIP_MAX_MESSAGE_SIZE = 1024 * 1024"

definition KMIP_MAX_MESSAGE_HARD_LIMIT :: nat where
  [kmip_consts]: "KMIP_MAX_MESSAGE_HARD_LIMIT = 16 * 1024 * 1024"

definition KMIP_MAX_STRUCTURE_DEPTH :: nat where
  [kmip_consts]: "KMIP_MAX_STRUCTURE_DEPTH = 64"

definition KMIP_OK :: i32 where
  [kmip_consts]: "KMIP_OK = 0"

definition KMIP_NOT_IMPLEMENTED :: i32 where
  [kmip_consts]: "KMIP_NOT_IMPLEMENTED = - 1"

definition KMIP_ERROR_BUFFER_FULL :: i32 where
  [kmip_consts]: "KMIP_ERROR_BUFFER_FULL = - 2"

definition KMIP_ERROR_ATTR_UNSUPPORTED :: i32 where
  [kmip_consts]: "KMIP_ERROR_ATTR_UNSUPPORTED = - 3"

definition KMIP_TAG_MISMATCH :: i32 where
  [kmip_consts]: "KMIP_TAG_MISMATCH = - 4"

definition KMIP_TYPE_MISMATCH :: i32 where
  [kmip_consts]: "KMIP_TYPE_MISMATCH = - 5"

definition KMIP_LENGTH_MISMATCH :: i32 where
  [kmip_consts]: "KMIP_LENGTH_MISMATCH = - 6"

definition KMIP_PADDING_MISMATCH :: i32 where
  [kmip_consts]: "KMIP_PADDING_MISMATCH = - 7"

definition KMIP_BOOLEAN_MISMATCH :: i32 where
  [kmip_consts]: "KMIP_BOOLEAN_MISMATCH = - 8"

definition KMIP_ENUM_MISMATCH :: i32 where
  [kmip_consts]: "KMIP_ENUM_MISMATCH = - 9"

definition KMIP_ENUM_UNSUPPORTED :: i32 where
  [kmip_consts]: "KMIP_ENUM_UNSUPPORTED = - 10"

definition KMIP_INVALID_FOR_VERSION :: i32 where
  [kmip_consts]: "KMIP_INVALID_FOR_VERSION = - 11"

definition KMIP_MEMORY_ALLOC_FAILED :: i32 where
  [kmip_consts]: "KMIP_MEMORY_ALLOC_FAILED = - 12"

definition KMIP_IO_FAILURE :: i32 where
  [kmip_consts]: "KMIP_IO_FAILURE = - 13"

definition KMIP_EXCEED_MAX_MESSAGE_SIZE :: i32 where
  [kmip_consts]: "KMIP_EXCEED_MAX_MESSAGE_SIZE = - 14"

definition KMIP_MALFORMED_RESPONSE :: i32 where
  [kmip_consts]: "KMIP_MALFORMED_RESPONSE = - 15"

definition KMIP_OBJECT_MISMATCH :: i32 where
  [kmip_consts]: "KMIP_OBJECT_MISMATCH = - 16"

definition KMIP_ARG_INVALID :: i32 where
  [kmip_consts]: "KMIP_ARG_INVALID = - 17"

definition KMIP_ERROR_BUFFER_UNDERFULL :: i32 where
  [kmip_consts]: "KMIP_ERROR_BUFFER_UNDERFULL = - 18"

definition KMIP_INVALID_ENCODING :: i32 where
  [kmip_consts]: "KMIP_INVALID_ENCODING = - 19"

definition KMIP_INVALID_FIELD :: i32 where
  [kmip_consts]: "KMIP_INVALID_FIELD = - 20"

definition KMIP_INVALID_LENGTH :: i32 where
  [kmip_consts]: "KMIP_INVALID_LENGTH = - 21"

section \<open>\<open>enum class credential_type\<close>\<close>

definition KMIP_CRED_USERNAME_AND_PASSWORD :: u32 where
  [kmip_consts]: "KMIP_CRED_USERNAME_AND_PASSWORD = 0x01"

definition KMIP_CRED_DEVICE :: u32 where
  [kmip_consts]: "KMIP_CRED_DEVICE = 0x02"

definition KMIP_CRED_ATTESTATION :: u32 where
  [kmip_consts]: "KMIP_CRED_ATTESTATION = 0x03"

definition KMIP_CRED_ONE_TIME_PASSWORD :: u32 where
  [kmip_consts]: "KMIP_CRED_ONE_TIME_PASSWORD = 0x04"

definition KMIP_CRED_HASHED_PASSWORD :: u32 where
  [kmip_consts]: "KMIP_CRED_HASHED_PASSWORD = 0x05"

definition KMIP_CRED_TICKET :: u32 where
  [kmip_consts]: "KMIP_CRED_TICKET = 0x06"

section \<open>\<open>enum class cryptographic_algorithm\<close>\<close>

definition KMIP_CRYPTOALG_UNSET :: u32 where
  [kmip_consts]: "KMIP_CRYPTOALG_UNSET = 0x00"

definition KMIP_CRYPTOALG_DES :: u32 where
  [kmip_consts]: "KMIP_CRYPTOALG_DES = 0x01"

definition KMIP_CRYPTOALG_TRIPLE_DES :: u32 where
  [kmip_consts]: "KMIP_CRYPTOALG_TRIPLE_DES = 0x02"

definition KMIP_CRYPTOALG_AES :: u32 where
  [kmip_consts]: "KMIP_CRYPTOALG_AES = 0x03"

definition KMIP_CRYPTOALG_RSA :: u32 where
  [kmip_consts]: "KMIP_CRYPTOALG_RSA = 0x04"

definition KMIP_CRYPTOALG_DSA :: u32 where
  [kmip_consts]: "KMIP_CRYPTOALG_DSA = 0x05"

definition KMIP_CRYPTOALG_ECDSA :: u32 where
  [kmip_consts]: "KMIP_CRYPTOALG_ECDSA = 0x06"

definition KMIP_CRYPTOALG_HMAC_SHA1 :: u32 where
  [kmip_consts]: "KMIP_CRYPTOALG_HMAC_SHA1 = 0x07"

definition KMIP_CRYPTOALG_HMAC_SHA224 :: u32 where
  [kmip_consts]: "KMIP_CRYPTOALG_HMAC_SHA224 = 0x08"

definition KMIP_CRYPTOALG_HMAC_SHA256 :: u32 where
  [kmip_consts]: "KMIP_CRYPTOALG_HMAC_SHA256 = 0x09"

definition KMIP_CRYPTOALG_HMAC_SHA384 :: u32 where
  [kmip_consts]: "KMIP_CRYPTOALG_HMAC_SHA384 = 0x0A"

definition KMIP_CRYPTOALG_HMAC_SHA512 :: u32 where
  [kmip_consts]: "KMIP_CRYPTOALG_HMAC_SHA512 = 0x0B"

definition KMIP_CRYPTOALG_HMAC_MD5 :: u32 where
  [kmip_consts]: "KMIP_CRYPTOALG_HMAC_MD5 = 0x0C"

definition KMIP_CRYPTOALG_DH :: u32 where
  [kmip_consts]: "KMIP_CRYPTOALG_DH = 0x0D"

definition KMIP_CRYPTOALG_ECDH :: u32 where
  [kmip_consts]: "KMIP_CRYPTOALG_ECDH = 0x0E"

definition KMIP_CRYPTOALG_ECMQV :: u32 where
  [kmip_consts]: "KMIP_CRYPTOALG_ECMQV = 0x0F"

definition KMIP_CRYPTOALG_BLOWFISH :: u32 where
  [kmip_consts]: "KMIP_CRYPTOALG_BLOWFISH = 0x10"

definition KMIP_CRYPTOALG_CAMELLIA :: u32 where
  [kmip_consts]: "KMIP_CRYPTOALG_CAMELLIA = 0x11"

definition KMIP_CRYPTOALG_CAST5 :: u32 where
  [kmip_consts]: "KMIP_CRYPTOALG_CAST5 = 0x12"

definition KMIP_CRYPTOALG_IDEA :: u32 where
  [kmip_consts]: "KMIP_CRYPTOALG_IDEA = 0x13"

definition KMIP_CRYPTOALG_MARS :: u32 where
  [kmip_consts]: "KMIP_CRYPTOALG_MARS = 0x14"

definition KMIP_CRYPTOALG_RC2 :: u32 where
  [kmip_consts]: "KMIP_CRYPTOALG_RC2 = 0x15"

definition KMIP_CRYPTOALG_RC4 :: u32 where
  [kmip_consts]: "KMIP_CRYPTOALG_RC4 = 0x16"

definition KMIP_CRYPTOALG_RC5 :: u32 where
  [kmip_consts]: "KMIP_CRYPTOALG_RC5 = 0x17"

definition KMIP_CRYPTOALG_SKIPJACK :: u32 where
  [kmip_consts]: "KMIP_CRYPTOALG_SKIPJACK = 0x18"

definition KMIP_CRYPTOALG_TWOFISH :: u32 where
  [kmip_consts]: "KMIP_CRYPTOALG_TWOFISH = 0x19"

definition KMIP_CRYPTOALG_EC :: u32 where
  [kmip_consts]: "KMIP_CRYPTOALG_EC = 0x1A"

definition KMIP_CRYPTOALG_ONE_TIME_PAD :: u32 where
  [kmip_consts]: "KMIP_CRYPTOALG_ONE_TIME_PAD = 0x1B"

definition KMIP_CRYPTOALG_CHACHA20 :: u32 where
  [kmip_consts]: "KMIP_CRYPTOALG_CHACHA20 = 0x1C"

definition KMIP_CRYPTOALG_POLY1305 :: u32 where
  [kmip_consts]: "KMIP_CRYPTOALG_POLY1305 = 0x1D"

definition KMIP_CRYPTOALG_CHACHA20_POLY1305 :: u32 where
  [kmip_consts]: "KMIP_CRYPTOALG_CHACHA20_POLY1305 = 0x1E"

definition KMIP_CRYPTOALG_SHA3_224 :: u32 where
  [kmip_consts]: "KMIP_CRYPTOALG_SHA3_224 = 0x1F"

definition KMIP_CRYPTOALG_SHA3_256 :: u32 where
  [kmip_consts]: "KMIP_CRYPTOALG_SHA3_256 = 0x20"

definition KMIP_CRYPTOALG_SHA3_384 :: u32 where
  [kmip_consts]: "KMIP_CRYPTOALG_SHA3_384 = 0x21"

definition KMIP_CRYPTOALG_SHA3_512 :: u32 where
  [kmip_consts]: "KMIP_CRYPTOALG_SHA3_512 = 0x22"

definition KMIP_CRYPTOALG_HMAC_SHA3_224 :: u32 where
  [kmip_consts]: "KMIP_CRYPTOALG_HMAC_SHA3_224 = 0x23"

definition KMIP_CRYPTOALG_HMAC_SHA3_256 :: u32 where
  [kmip_consts]: "KMIP_CRYPTOALG_HMAC_SHA3_256 = 0x24"

definition KMIP_CRYPTOALG_HMAC_SHA3_384 :: u32 where
  [kmip_consts]: "KMIP_CRYPTOALG_HMAC_SHA3_384 = 0x25"

definition KMIP_CRYPTOALG_HMAC_SHA3_512 :: u32 where
  [kmip_consts]: "KMIP_CRYPTOALG_HMAC_SHA3_512 = 0x26"

definition KMIP_CRYPTOALG_SHAKE_128 :: u32 where
  [kmip_consts]: "KMIP_CRYPTOALG_SHAKE_128 = 0x27"

definition KMIP_CRYPTOALG_SHAKE_256 :: u32 where
  [kmip_consts]: "KMIP_CRYPTOALG_SHAKE_256 = 0x28"

definition KMIP_CRYPTOALG_ARIA :: u32 where
  [kmip_consts]: "KMIP_CRYPTOALG_ARIA = 0x29"

definition KMIP_CRYPTOALG_SEED :: u32 where
  [kmip_consts]: "KMIP_CRYPTOALG_SEED = 0x2A"

definition KMIP_CRYPTOALG_SM2 :: u32 where
  [kmip_consts]: "KMIP_CRYPTOALG_SM2 = 0x2B"

definition KMIP_CRYPTOALG_SM3 :: u32 where
  [kmip_consts]: "KMIP_CRYPTOALG_SM3 = 0x2C"

definition KMIP_CRYPTOALG_SM4 :: u32 where
  [kmip_consts]: "KMIP_CRYPTOALG_SM4 = 0x2D"

definition KMIP_CRYPTOALG_GOST_R_34_10_2012 :: u32 where
  [kmip_consts]: "KMIP_CRYPTOALG_GOST_R_34_10_2012 = 0x2E"

definition KMIP_CRYPTOALG_GOST_R_34_11_2012 :: u32 where
  [kmip_consts]: "KMIP_CRYPTOALG_GOST_R_34_11_2012 = 0x2F"

definition KMIP_CRYPTOALG_GOST_R_34_13_2015 :: u32 where
  [kmip_consts]: "KMIP_CRYPTOALG_GOST_R_34_13_2015 = 0x30"

definition KMIP_CRYPTOALG_GOST_28147_89 :: u32 where
  [kmip_consts]: "KMIP_CRYPTOALG_GOST_28147_89 = 0x31"

definition KMIP_CRYPTOALG_XMSS :: u32 where
  [kmip_consts]: "KMIP_CRYPTOALG_XMSS = 0x32"

definition KMIP_CRYPTOALG_SPHINCS_256 :: u32 where
  [kmip_consts]: "KMIP_CRYPTOALG_SPHINCS_256 = 0x33"

definition KMIP_CRYPTOALG_MCELIECE :: u32 where
  [kmip_consts]: "KMIP_CRYPTOALG_MCELIECE = 0x34"

definition KMIP_CRYPTOALG_MCELIECE_6960119 :: u32 where
  [kmip_consts]: "KMIP_CRYPTOALG_MCELIECE_6960119 = 0x35"

definition KMIP_CRYPTOALG_MCELIECE_8192128 :: u32 where
  [kmip_consts]: "KMIP_CRYPTOALG_MCELIECE_8192128 = 0x36"

definition KMIP_CRYPTOALG_ED25519 :: u32 where
  [kmip_consts]: "KMIP_CRYPTOALG_ED25519 = 0x37"

definition KMIP_CRYPTOALG_ED448 :: u32 where
  [kmip_consts]: "KMIP_CRYPTOALG_ED448 = 0x38"

section \<open>\<open>enum class cryptographic_usage_mask\<close>\<close>

definition KMIP_CRYPTOMASK_UNSET :: u32 where
  [kmip_consts]: "KMIP_CRYPTOMASK_UNSET = 0x00000000"

definition KMIP_CRYPTOMASK_SIGN :: u32 where
  [kmip_consts]: "KMIP_CRYPTOMASK_SIGN = 0x00000001"

definition KMIP_CRYPTOMASK_VERIFY :: u32 where
  [kmip_consts]: "KMIP_CRYPTOMASK_VERIFY = 0x00000002"

definition KMIP_CRYPTOMASK_ENCRYPT :: u32 where
  [kmip_consts]: "KMIP_CRYPTOMASK_ENCRYPT = 0x00000004"

definition KMIP_CRYPTOMASK_DECRYPT :: u32 where
  [kmip_consts]: "KMIP_CRYPTOMASK_DECRYPT = 0x00000008"

definition KMIP_CRYPTOMASK_WRAP_KEY :: u32 where
  [kmip_consts]: "KMIP_CRYPTOMASK_WRAP_KEY = 0x00000010"

definition KMIP_CRYPTOMASK_UNWRAP_KEY :: u32 where
  [kmip_consts]: "KMIP_CRYPTOMASK_UNWRAP_KEY = 0x00000020"

definition KMIP_CRYPTOMASK_EXPORT :: u32 where
  [kmip_consts]: "KMIP_CRYPTOMASK_EXPORT = 0x00000040"

definition KMIP_CRYPTOMASK_MAC_GENERATE :: u32 where
  [kmip_consts]: "KMIP_CRYPTOMASK_MAC_GENERATE = 0x00000080"

definition KMIP_CRYPTOMASK_MAC_VERIFY :: u32 where
  [kmip_consts]: "KMIP_CRYPTOMASK_MAC_VERIFY = 0x00000100"

definition KMIP_CRYPTOMASK_DERIVE_KEY :: u32 where
  [kmip_consts]: "KMIP_CRYPTOMASK_DERIVE_KEY = 0x00000200"

definition KMIP_CRYPTOMASK_CONTENT_COMMITMENT :: u32 where
  [kmip_consts]: "KMIP_CRYPTOMASK_CONTENT_COMMITMENT = 0x00000400"

definition KMIP_CRYPTOMASK_KEY_AGREEMENT :: u32 where
  [kmip_consts]: "KMIP_CRYPTOMASK_KEY_AGREEMENT = 0x00000800"

definition KMIP_CRYPTOMASK_CERTIFICATE_SIGN :: u32 where
  [kmip_consts]: "KMIP_CRYPTOMASK_CERTIFICATE_SIGN = 0x00001000"

definition KMIP_CRYPTOMASK_CRL_SIGN :: u32 where
  [kmip_consts]: "KMIP_CRYPTOMASK_CRL_SIGN = 0x00002000"

definition KMIP_CRYPTOMASK_GENERATE_CRYPTOGRAM :: u32 where
  [kmip_consts]: "KMIP_CRYPTOMASK_GENERATE_CRYPTOGRAM = 0x00004000"

definition KMIP_CRYPTOMASK_VALIDATE_CRYPTOGRAM :: u32 where
  [kmip_consts]: "KMIP_CRYPTOMASK_VALIDATE_CRYPTOGRAM = 0x00008000"

definition KMIP_CRYPTOMASK_TRANSLATE_ENCRYPT :: u32 where
  [kmip_consts]: "KMIP_CRYPTOMASK_TRANSLATE_ENCRYPT = 0x00010000"

definition KMIP_CRYPTOMASK_TRANSLATE_DECRYPT :: u32 where
  [kmip_consts]: "KMIP_CRYPTOMASK_TRANSLATE_DECRYPT = 0x00020000"

definition KMIP_CRYPTOMASK_TRANSLATE_WRAP :: u32 where
  [kmip_consts]: "KMIP_CRYPTOMASK_TRANSLATE_WRAP = 0x00040000"

definition KMIP_CRYPTOMASK_TRANSLATE_UNWRAP :: u32 where
  [kmip_consts]: "KMIP_CRYPTOMASK_TRANSLATE_UNWRAP = 0x00080000"

definition KMIP_CRYPTOMASK_AUTHENTICATE :: u32 where
  [kmip_consts]: "KMIP_CRYPTOMASK_AUTHENTICATE = 0x00100000"

definition KMIP_CRYPTOMASK_UNRESTRICTED :: u32 where
  [kmip_consts]: "KMIP_CRYPTOMASK_UNRESTRICTED = 0x00200000"

definition KMIP_CRYPTOMASK_FPE_ENCRYPT :: u32 where
  [kmip_consts]: "KMIP_CRYPTOMASK_FPE_ENCRYPT = 0x00400000"

definition KMIP_CRYPTOMASK_FPE_DECRYPT :: u32 where
  [kmip_consts]: "KMIP_CRYPTOMASK_FPE_DECRYPT = 0x00800000"

section \<open>\<open>enum class key_format_type\<close>\<close>

definition KMIP_KEYFORMAT_RAW :: u32 where
  [kmip_consts]: "KMIP_KEYFORMAT_RAW = 0x01"

definition KMIP_KEYFORMAT_OPAQUE :: u32 where
  [kmip_consts]: "KMIP_KEYFORMAT_OPAQUE = 0x02"

definition KMIP_KEYFORMAT_PKCS1 :: u32 where
  [kmip_consts]: "KMIP_KEYFORMAT_PKCS1 = 0x03"

definition KMIP_KEYFORMAT_PKCS8 :: u32 where
  [kmip_consts]: "KMIP_KEYFORMAT_PKCS8 = 0x04"

definition KMIP_KEYFORMAT_X509 :: u32 where
  [kmip_consts]: "KMIP_KEYFORMAT_X509 = 0x05"

definition KMIP_KEYFORMAT_EC_PRIVATE_KEY :: u32 where
  [kmip_consts]: "KMIP_KEYFORMAT_EC_PRIVATE_KEY = 0x06"

definition KMIP_KEYFORMAT_TRANS_SYMMETRIC_KEY :: u32 where
  [kmip_consts]: "KMIP_KEYFORMAT_TRANS_SYMMETRIC_KEY = 0x07"

definition KMIP_KEYFORMAT_TRANS_DSA_PRIVATE_KEY :: u32 where
  [kmip_consts]: "KMIP_KEYFORMAT_TRANS_DSA_PRIVATE_KEY = 0x08"

definition KMIP_KEYFORMAT_TRANS_DSA_PUBLIC_KEY :: u32 where
  [kmip_consts]: "KMIP_KEYFORMAT_TRANS_DSA_PUBLIC_KEY = 0x09"

definition KMIP_KEYFORMAT_TRANS_RSA_PRIVATE_KEY :: u32 where
  [kmip_consts]: "KMIP_KEYFORMAT_TRANS_RSA_PRIVATE_KEY = 0x0A"

definition KMIP_KEYFORMAT_TRANS_RSA_PUBLIC_KEY :: u32 where
  [kmip_consts]: "KMIP_KEYFORMAT_TRANS_RSA_PUBLIC_KEY = 0x0B"

definition KMIP_KEYFORMAT_TRANS_DH_PRIVATE_KEY :: u32 where
  [kmip_consts]: "KMIP_KEYFORMAT_TRANS_DH_PRIVATE_KEY = 0x0C"

definition KMIP_KEYFORMAT_TRANS_DH_PUBLIC_KEY :: u32 where
  [kmip_consts]: "KMIP_KEYFORMAT_TRANS_DH_PUBLIC_KEY = 0x0D"

definition KMIP_KEYFORMAT_TRANS_ECDSA_PRIVATE_KEY :: u32 where
  [kmip_consts]: "KMIP_KEYFORMAT_TRANS_ECDSA_PRIVATE_KEY = 0x0E"

definition KMIP_KEYFORMAT_TRANS_ECDSA_PUBLIC_KEY :: u32 where
  [kmip_consts]: "KMIP_KEYFORMAT_TRANS_ECDSA_PUBLIC_KEY = 0x0F"

definition KMIP_KEYFORMAT_TRANS_ECDH_PRIVATE_KEY :: u32 where
  [kmip_consts]: "KMIP_KEYFORMAT_TRANS_ECDH_PRIVATE_KEY = 0x10"

definition KMIP_KEYFORMAT_TRANS_ECDH_PUBLIC_KEY :: u32 where
  [kmip_consts]: "KMIP_KEYFORMAT_TRANS_ECDH_PUBLIC_KEY = 0x11"

definition KMIP_KEYFORMAT_TRANS_ECMQV_PRIVATE_KEY :: u32 where
  [kmip_consts]: "KMIP_KEYFORMAT_TRANS_ECMQV_PRIVATE_KEY = 0x12"

definition KMIP_KEYFORMAT_TRANS_ECMQV_PUBLIC_KEY :: u32 where
  [kmip_consts]: "KMIP_KEYFORMAT_TRANS_ECMQV_PUBLIC_KEY = 0x13"

definition KMIP_KEYFORMAT_TRANS_EC_PRIVATE_KEY :: u32 where
  [kmip_consts]: "KMIP_KEYFORMAT_TRANS_EC_PRIVATE_KEY = 0x14"

definition KMIP_KEYFORMAT_TRANS_EC_PUBLIC_KEY :: u32 where
  [kmip_consts]: "KMIP_KEYFORMAT_TRANS_EC_PUBLIC_KEY = 0x15"

definition KMIP_KEYFORMAT_PKCS12 :: u32 where
  [kmip_consts]: "KMIP_KEYFORMAT_PKCS12 = 0x16"

definition KMIP_KEYFORMAT_PKCS10 :: u32 where
  [kmip_consts]: "KMIP_KEYFORMAT_PKCS10 = 0x17"

section \<open>\<open>enum class name_type\<close>\<close>

definition KMIP_NAME_UNINTERPRETED_TEXT_STRING :: u32 where
  [kmip_consts]: "KMIP_NAME_UNINTERPRETED_TEXT_STRING = 0x01"

definition KMIP_NAME_URI :: u32 where
  [kmip_consts]: "KMIP_NAME_URI = 0x02"

section \<open>\<open>enum class object_type\<close>\<close>

definition KMIP_OBJTYPE_CERTIFICATE :: u32 where
  [kmip_consts]: "KMIP_OBJTYPE_CERTIFICATE = 0x01"

definition KMIP_OBJTYPE_SYMMETRIC_KEY :: u32 where
  [kmip_consts]: "KMIP_OBJTYPE_SYMMETRIC_KEY = 0x02"

definition KMIP_OBJTYPE_PUBLIC_KEY :: u32 where
  [kmip_consts]: "KMIP_OBJTYPE_PUBLIC_KEY = 0x03"

definition KMIP_OBJTYPE_PRIVATE_KEY :: u32 where
  [kmip_consts]: "KMIP_OBJTYPE_PRIVATE_KEY = 0x04"

definition KMIP_OBJTYPE_SPLIT_KEY :: u32 where
  [kmip_consts]: "KMIP_OBJTYPE_SPLIT_KEY = 0x05"

definition KMIP_OBJTYPE_TEMPLATE :: u32 where
  [kmip_consts]: "KMIP_OBJTYPE_TEMPLATE = 0x06"

definition KMIP_OBJTYPE_SECRET_DATA :: u32 where
  [kmip_consts]: "KMIP_OBJTYPE_SECRET_DATA = 0x07"

definition KMIP_OBJTYPE_OPAQUE_OBJECT :: u32 where
  [kmip_consts]: "KMIP_OBJTYPE_OPAQUE_OBJECT = 0x08"

definition KMIP_OBJTYPE_PGP_KEY :: u32 where
  [kmip_consts]: "KMIP_OBJTYPE_PGP_KEY = 0x09"

definition KMIP_OBJTYPE_CERTIFICATE_REQUEST :: u32 where
  [kmip_consts]: "KMIP_OBJTYPE_CERTIFICATE_REQUEST = 0x0A"

section \<open>\<open>enum class operation\<close>\<close>

definition KMIP_OP_CREATE :: u32 where
  [kmip_consts]: "KMIP_OP_CREATE = 0x01"

definition KMIP_OP_CREATE_KEY_PAIR :: u32 where
  [kmip_consts]: "KMIP_OP_CREATE_KEY_PAIR = 0x02"

definition KMIP_OP_REGISTER :: u32 where
  [kmip_consts]: "KMIP_OP_REGISTER = 0x03"

definition KMIP_OP_REKEY :: u32 where
  [kmip_consts]: "KMIP_OP_REKEY = 0x04"

definition KMIP_OP_DERIVE_KEY :: u32 where
  [kmip_consts]: "KMIP_OP_DERIVE_KEY = 0x05"

definition KMIP_OP_CERTIFY :: u32 where
  [kmip_consts]: "KMIP_OP_CERTIFY = 0x06"

definition KMIP_OP_RECERTIFY :: u32 where
  [kmip_consts]: "KMIP_OP_RECERTIFY = 0x07"

definition KMIP_OP_LOCATE :: u32 where
  [kmip_consts]: "KMIP_OP_LOCATE = 0x08"

definition KMIP_OP_CHECK :: u32 where
  [kmip_consts]: "KMIP_OP_CHECK = 0x09"

definition KMIP_OP_GET :: u32 where
  [kmip_consts]: "KMIP_OP_GET = 0x0A"

definition KMIP_OP_GET_ATTRIBUTES :: u32 where
  [kmip_consts]: "KMIP_OP_GET_ATTRIBUTES = 0x0B"

definition KMIP_OP_GET_ATTRIBUTE_LIST :: u32 where
  [kmip_consts]: "KMIP_OP_GET_ATTRIBUTE_LIST = 0x0C"

definition KMIP_OP_ADD_ATTRIBUTE :: u32 where
  [kmip_consts]: "KMIP_OP_ADD_ATTRIBUTE = 0x0D"

definition KMIP_OP_MODIFY_ATTRIBUTE :: u32 where
  [kmip_consts]: "KMIP_OP_MODIFY_ATTRIBUTE = 0x0E"

definition KMIP_OP_DELETE_ATTRIBUTE :: u32 where
  [kmip_consts]: "KMIP_OP_DELETE_ATTRIBUTE = 0x0F"

definition KMIP_OP_OBTAIN_LEASE :: u32 where
  [kmip_consts]: "KMIP_OP_OBTAIN_LEASE = 0x10"

definition KMIP_OP_GET_USAGE_ALLOCATION :: u32 where
  [kmip_consts]: "KMIP_OP_GET_USAGE_ALLOCATION = 0x11"

definition KMIP_OP_ACTIVATE :: u32 where
  [kmip_consts]: "KMIP_OP_ACTIVATE = 0x12"

definition KMIP_OP_REVOKE :: u32 where
  [kmip_consts]: "KMIP_OP_REVOKE = 0x13"

definition KMIP_OP_DESTROY :: u32 where
  [kmip_consts]: "KMIP_OP_DESTROY = 0x14"

definition KMIP_OP_ARCHIVE :: u32 where
  [kmip_consts]: "KMIP_OP_ARCHIVE = 0x15"

definition KMIP_OP_RECOVER :: u32 where
  [kmip_consts]: "KMIP_OP_RECOVER = 0x16"

definition KMIP_OP_VALIDATE :: u32 where
  [kmip_consts]: "KMIP_OP_VALIDATE = 0x17"

definition KMIP_OP_QUERY :: u32 where
  [kmip_consts]: "KMIP_OP_QUERY = 0x18"

definition KMIP_OP_CANCEL :: u32 where
  [kmip_consts]: "KMIP_OP_CANCEL = 0x19"

definition KMIP_OP_POLL :: u32 where
  [kmip_consts]: "KMIP_OP_POLL = 0x1A"

definition KMIP_OP_NOTIFY :: u32 where
  [kmip_consts]: "KMIP_OP_NOTIFY = 0x1B"

definition KMIP_OP_PUT :: u32 where
  [kmip_consts]: "KMIP_OP_PUT = 0x1C"

definition KMIP_OP_REKEY_KEY_PAIR :: u32 where
  [kmip_consts]: "KMIP_OP_REKEY_KEY_PAIR = 0x1D"

definition KMIP_OP_DISCOVER_VERSIONS :: u32 where
  [kmip_consts]: "KMIP_OP_DISCOVER_VERSIONS = 0x1E"

definition KMIP_OP_ENCRYPT :: u32 where
  [kmip_consts]: "KMIP_OP_ENCRYPT = 0x1F"

definition KMIP_OP_DECRYPT :: u32 where
  [kmip_consts]: "KMIP_OP_DECRYPT = 0x20"

definition KMIP_OP_SIGN :: u32 where
  [kmip_consts]: "KMIP_OP_SIGN = 0x21"

definition KMIP_OP_SIGNATURE_VERIFY :: u32 where
  [kmip_consts]: "KMIP_OP_SIGNATURE_VERIFY = 0x22"

definition KMIP_OP_MAC :: u32 where
  [kmip_consts]: "KMIP_OP_MAC = 0x23"

definition KMIP_OP_MAC_VERIFY :: u32 where
  [kmip_consts]: "KMIP_OP_MAC_VERIFY = 0x24"

definition KMIP_OP_RNG_RETRIEVE :: u32 where
  [kmip_consts]: "KMIP_OP_RNG_RETRIEVE = 0x25"

definition KMIP_OP_RNG_SEED :: u32 where
  [kmip_consts]: "KMIP_OP_RNG_SEED = 0x26"

definition KMIP_OP_HASH :: u32 where
  [kmip_consts]: "KMIP_OP_HASH = 0x27"

definition KMIP_OP_CREATE_SPLIT_KEY :: u32 where
  [kmip_consts]: "KMIP_OP_CREATE_SPLIT_KEY = 0x28"

definition KMIP_OP_JOIN_SPLIT_KEY :: u32 where
  [kmip_consts]: "KMIP_OP_JOIN_SPLIT_KEY = 0x29"

definition KMIP_OP_IMPORT :: u32 where
  [kmip_consts]: "KMIP_OP_IMPORT = 0x2A"

definition KMIP_OP_EXPORT :: u32 where
  [kmip_consts]: "KMIP_OP_EXPORT = 0x2B"

definition KMIP_OP_LOG :: u32 where
  [kmip_consts]: "KMIP_OP_LOG = 0x2C"

definition KMIP_OP_LOGIN :: u32 where
  [kmip_consts]: "KMIP_OP_LOGIN = 0x2D"

definition KMIP_OP_LOGOUT :: u32 where
  [kmip_consts]: "KMIP_OP_LOGOUT = 0x2E"

definition KMIP_OP_DELEGATED_LOGIN :: u32 where
  [kmip_consts]: "KMIP_OP_DELEGATED_LOGIN = 0x2F"

definition KMIP_OP_ADJUST_ATTRIBUTE :: u32 where
  [kmip_consts]: "KMIP_OP_ADJUST_ATTRIBUTE = 0x30"

definition KMIP_OP_SET_ATTRIBUTE :: u32 where
  [kmip_consts]: "KMIP_OP_SET_ATTRIBUTE = 0x31"

definition KMIP_OP_SET_ENDPOINT_ROLE :: u32 where
  [kmip_consts]: "KMIP_OP_SET_ENDPOINT_ROLE = 0x32"

definition KMIP_OP_PKCS_11 :: u32 where
  [kmip_consts]: "KMIP_OP_PKCS_11 = 0x33"

definition KMIP_OP_INTEROP :: u32 where
  [kmip_consts]: "KMIP_OP_INTEROP = 0x34"

definition KMIP_OP_REPROVISION :: u32 where
  [kmip_consts]: "KMIP_OP_REPROVISION = 0x35"

section \<open>\<open>enum class query_function\<close>\<close>

definition KMIP_QUERY_OPERATIONS :: u32 where
  [kmip_consts]: "KMIP_QUERY_OPERATIONS = 0x0001"

definition KMIP_QUERY_OBJECTS :: u32 where
  [kmip_consts]: "KMIP_QUERY_OBJECTS = 0x0002"

definition KMIP_QUERY_SERVER_INFORMATION :: u32 where
  [kmip_consts]: "KMIP_QUERY_SERVER_INFORMATION = 0x0003"

definition KMIP_QUERY_APPLICATION_NAMESPACES :: u32 where
  [kmip_consts]: "KMIP_QUERY_APPLICATION_NAMESPACES = 0x0004"

definition KMIP_QUERY_EXTENSION_LIST :: u32 where
  [kmip_consts]: "KMIP_QUERY_EXTENSION_LIST = 0x0005"

definition KMIP_QUERY_EXTENSION_MAP :: u32 where
  [kmip_consts]: "KMIP_QUERY_EXTENSION_MAP = 0x0006"

definition KMIP_QUERY_ATTESTATION_TYPES :: u32 where
  [kmip_consts]: "KMIP_QUERY_ATTESTATION_TYPES = 0x0007"

definition KMIP_QUERY_RNGS :: u32 where
  [kmip_consts]: "KMIP_QUERY_RNGS = 0x0008"

definition KMIP_QUERY_VALIDATIONS :: u32 where
  [kmip_consts]: "KMIP_QUERY_VALIDATIONS = 0x0009"

definition KMIP_QUERY_PROFILES :: u32 where
  [kmip_consts]: "KMIP_QUERY_PROFILES = 0x000A"

definition KMIP_QUERY_CAPABILITIES :: u32 where
  [kmip_consts]: "KMIP_QUERY_CAPABILITIES = 0x000B"

definition KMIP_QUERY_CLIENT_REGISTRATION_METHODS :: u32 where
  [kmip_consts]: "KMIP_QUERY_CLIENT_REGISTRATION_METHODS = 0x000C"

definition KMIP_QUERY_DEFAULTS_INFORMATION :: u32 where
  [kmip_consts]: "KMIP_QUERY_DEFAULTS_INFORMATION = 0x000D"

definition KMIP_QUERY_STORAGE_PROTECTION_MASKS :: u32 where
  [kmip_consts]: "KMIP_QUERY_STORAGE_PROTECTION_MASKS = 0x000E"

section \<open>\<open>enum class result_reason\<close>\<close>

definition KMIP_REASON_GENERAL_FAILURE :: u32 where
  [kmip_consts]: "KMIP_REASON_GENERAL_FAILURE = 0x0100"

definition KMIP_REASON_ITEM_NOT_FOUND :: u32 where
  [kmip_consts]: "KMIP_REASON_ITEM_NOT_FOUND = 0x0001"

definition KMIP_REASON_RESPONSE_TOO_LARGE :: u32 where
  [kmip_consts]: "KMIP_REASON_RESPONSE_TOO_LARGE = 0x0002"

definition KMIP_REASON_AUTHENTICATION_NOT_SUCCESSFUL :: u32 where
  [kmip_consts]: "KMIP_REASON_AUTHENTICATION_NOT_SUCCESSFUL = 0x0003"

definition KMIP_REASON_INVALID_MESSAGE :: u32 where
  [kmip_consts]: "KMIP_REASON_INVALID_MESSAGE = 0x0004"

definition KMIP_REASON_OPERATION_NOT_SUPPORTED :: u32 where
  [kmip_consts]: "KMIP_REASON_OPERATION_NOT_SUPPORTED = 0x0005"

definition KMIP_REASON_MISSING_DATA :: u32 where
  [kmip_consts]: "KMIP_REASON_MISSING_DATA = 0x0006"

definition KMIP_REASON_INVALID_FIELD :: u32 where
  [kmip_consts]: "KMIP_REASON_INVALID_FIELD = 0x0007"

definition KMIP_REASON_FEATURE_NOT_SUPPORTED :: u32 where
  [kmip_consts]: "KMIP_REASON_FEATURE_NOT_SUPPORTED = 0x0008"

definition KMIP_REASON_OPERATION_CANCELED_BY_REQUESTER :: u32 where
  [kmip_consts]: "KMIP_REASON_OPERATION_CANCELED_BY_REQUESTER = 0x0009"

definition KMIP_REASON_CRYPTOGRAPHIC_FAILURE :: u32 where
  [kmip_consts]: "KMIP_REASON_CRYPTOGRAPHIC_FAILURE = 0x000A"

definition KMIP_REASON_ILLEGAL_OPERATION :: u32 where
  [kmip_consts]: "KMIP_REASON_ILLEGAL_OPERATION = 0x000B"

definition KMIP_REASON_PERMISSION_DENIED :: u32 where
  [kmip_consts]: "KMIP_REASON_PERMISSION_DENIED = 0x000C"

definition KMIP_REASON_OBJECT_ARCHIVED :: u32 where
  [kmip_consts]: "KMIP_REASON_OBJECT_ARCHIVED = 0x000D"

definition KMIP_REASON_INDEX_OUT_OF_BOUNDS :: u32 where
  [kmip_consts]: "KMIP_REASON_INDEX_OUT_OF_BOUNDS = 0x000E"

definition KMIP_REASON_APPLICATION_NAMESPACE_NOT_SUPPORTED :: u32 where
  [kmip_consts]: "KMIP_REASON_APPLICATION_NAMESPACE_NOT_SUPPORTED = 0x000F"

definition KMIP_REASON_KEY_FORMAT_TYPE_NOT_SUPPORTED :: u32 where
  [kmip_consts]: "KMIP_REASON_KEY_FORMAT_TYPE_NOT_SUPPORTED = 0x0010"

definition KMIP_REASON_KEY_COMPRESSION_TYPE_NOT_SUPPORTED :: u32 where
  [kmip_consts]: "KMIP_REASON_KEY_COMPRESSION_TYPE_NOT_SUPPORTED = 0x0011"

definition KMIP_REASON_ENCODING_OPTION_FAILURE :: u32 where
  [kmip_consts]: "KMIP_REASON_ENCODING_OPTION_FAILURE = 0x0012"

definition KMIP_REASON_KEY_VALUE_NOT_PRESENT :: u32 where
  [kmip_consts]: "KMIP_REASON_KEY_VALUE_NOT_PRESENT = 0x0013"

definition KMIP_REASON_ATTESTATION_REQUIRED :: u32 where
  [kmip_consts]: "KMIP_REASON_ATTESTATION_REQUIRED = 0x0014"

definition KMIP_REASON_ATTESTATION_FAILED :: u32 where
  [kmip_consts]: "KMIP_REASON_ATTESTATION_FAILED = 0x0015"

definition KMIP_REASON_SENSITIVE :: u32 where
  [kmip_consts]: "KMIP_REASON_SENSITIVE = 0x0016"

definition KMIP_REASON_NOT_EXTRACTABLE :: u32 where
  [kmip_consts]: "KMIP_REASON_NOT_EXTRACTABLE = 0x0017"

definition KMIP_REASON_OBJECT_ALREADY_EXISTS :: u32 where
  [kmip_consts]: "KMIP_REASON_OBJECT_ALREADY_EXISTS = 0x0018"

definition KMIP_REASON_INVALID_TICKET :: u32 where
  [kmip_consts]: "KMIP_REASON_INVALID_TICKET = 0x0019"

definition KMIP_REASON_USAGE_LIMIT_EXCEEDED :: u32 where
  [kmip_consts]: "KMIP_REASON_USAGE_LIMIT_EXCEEDED = 0x001A"

definition KMIP_REASON_NUMERIC_RANGE :: u32 where
  [kmip_consts]: "KMIP_REASON_NUMERIC_RANGE = 0x001B"

definition KMIP_REASON_INVALID_DATA_TYPE :: u32 where
  [kmip_consts]: "KMIP_REASON_INVALID_DATA_TYPE = 0x001C"

definition KMIP_REASON_READ_ONLY_ATTRIBUTE :: u32 where
  [kmip_consts]: "KMIP_REASON_READ_ONLY_ATTRIBUTE = 0x001D"

definition KMIP_REASON_MULTI_VALUED_ATTRIBUTE :: u32 where
  [kmip_consts]: "KMIP_REASON_MULTI_VALUED_ATTRIBUTE = 0x001E"

definition KMIP_REASON_UNSUPPORTED_ATTRIBUTE :: u32 where
  [kmip_consts]: "KMIP_REASON_UNSUPPORTED_ATTRIBUTE = 0x001F"

definition KMIP_REASON_ATTRIBUTE_INSTANCE_NOT_FOUND :: u32 where
  [kmip_consts]: "KMIP_REASON_ATTRIBUTE_INSTANCE_NOT_FOUND = 0x0020"

definition KMIP_REASON_ATTRIBUTE_NOT_FOUND :: u32 where
  [kmip_consts]: "KMIP_REASON_ATTRIBUTE_NOT_FOUND = 0x0021"

definition KMIP_REASON_ATTRIBUTE_READ_ONLY :: u32 where
  [kmip_consts]: "KMIP_REASON_ATTRIBUTE_READ_ONLY = 0x0022"

definition KMIP_REASON_ATTRIBUTE_SINGLE_VALUED :: u32 where
  [kmip_consts]: "KMIP_REASON_ATTRIBUTE_SINGLE_VALUED = 0x0023"

definition KMIP_REASON_BAD_CRYPTOGRAPHIC_PARAMETERS :: u32 where
  [kmip_consts]: "KMIP_REASON_BAD_CRYPTOGRAPHIC_PARAMETERS = 0x0024"

definition KMIP_REASON_BAD_PASSWORD :: u32 where
  [kmip_consts]: "KMIP_REASON_BAD_PASSWORD = 0x0025"

definition KMIP_REASON_CODEC_ERROR :: u32 where
  [kmip_consts]: "KMIP_REASON_CODEC_ERROR = 0x0026"

definition KMIP_REASON_ILLEGAL_OBJECT_TYPE :: u32 where
  [kmip_consts]: "KMIP_REASON_ILLEGAL_OBJECT_TYPE = 0x0028"

definition KMIP_REASON_INCOMPATIBLE_CRYPTOGRAPHIC_USAGE_MASK :: u32 where
  [kmip_consts]: "KMIP_REASON_INCOMPATIBLE_CRYPTOGRAPHIC_USAGE_MASK = 0x0029"

definition KMIP_REASON_INTERNAL_SERVER_ERROR :: u32 where
  [kmip_consts]: "KMIP_REASON_INTERNAL_SERVER_ERROR = 0x002A"

definition KMIP_REASON_INVALID_ASYNCHRONOUS_CORRELATION_VALUE :: u32 where
  [kmip_consts]: "KMIP_REASON_INVALID_ASYNCHRONOUS_CORRELATION_VALUE = 0x002B"

definition KMIP_REASON_INVALID_ATTRIBUTE :: u32 where
  [kmip_consts]: "KMIP_REASON_INVALID_ATTRIBUTE = 0x002C"

definition KMIP_REASON_INVALID_ATTRIBUTE_VALUE :: u32 where
  [kmip_consts]: "KMIP_REASON_INVALID_ATTRIBUTE_VALUE = 0x002D"

definition KMIP_REASON_INVALID_CORRELATION_VALUE :: u32 where
  [kmip_consts]: "KMIP_REASON_INVALID_CORRELATION_VALUE = 0x002E"

definition KMIP_REASON_INVALID_CSR :: u32 where
  [kmip_consts]: "KMIP_REASON_INVALID_CSR = 0x002F"

definition KMIP_REASON_INVALID_OBJECT_TYPE :: u32 where
  [kmip_consts]: "KMIP_REASON_INVALID_OBJECT_TYPE = 0x0030"

definition KMIP_REASON_KEY_WRAP_TYPE_NOT_SUPPORTED :: u32 where
  [kmip_consts]: "KMIP_REASON_KEY_WRAP_TYPE_NOT_SUPPORTED = 0x0032"

definition KMIP_REASON_MISSING_INITIALIZATION_VECTOR :: u32 where
  [kmip_consts]: "KMIP_REASON_MISSING_INITIALIZATION_VECTOR = 0x0034"

definition KMIP_REASON_NON_UNIQUE_NAME_ATTRIBUTE :: u32 where
  [kmip_consts]: "KMIP_REASON_NON_UNIQUE_NAME_ATTRIBUTE = 0x0035"

definition KMIP_REASON_OBJECT_DESTROYED :: u32 where
  [kmip_consts]: "KMIP_REASON_OBJECT_DESTROYED = 0x0036"

definition KMIP_REASON_OBJECT_NOT_FOUND :: u32 where
  [kmip_consts]: "KMIP_REASON_OBJECT_NOT_FOUND = 0x0037"

definition KMIP_REASON_NOT_AUTHORISED :: u32 where
  [kmip_consts]: "KMIP_REASON_NOT_AUTHORISED = 0x0039"

definition KMIP_REASON_SERVER_LIMIT_EXCEEDED :: u32 where
  [kmip_consts]: "KMIP_REASON_SERVER_LIMIT_EXCEEDED = 0x003A"

definition KMIP_REASON_UNKNOWN_ENUMERATION :: u32 where
  [kmip_consts]: "KMIP_REASON_UNKNOWN_ENUMERATION = 0x003B"

definition KMIP_REASON_UNKNOWN_MESSAGE_EXTENSION :: u32 where
  [kmip_consts]: "KMIP_REASON_UNKNOWN_MESSAGE_EXTENSION = 0x003C"

definition KMIP_REASON_UNKNOWN_TAG :: u32 where
  [kmip_consts]: "KMIP_REASON_UNKNOWN_TAG = 0x003D"

definition KMIP_REASON_UNSUPPORTED_CRYPTOGRAPHIC_PARAMETERS :: u32 where
  [kmip_consts]: "KMIP_REASON_UNSUPPORTED_CRYPTOGRAPHIC_PARAMETERS = 0x003E"

definition KMIP_REASON_UNSUPPORTED_PROTOCOL_VERSION :: u32 where
  [kmip_consts]: "KMIP_REASON_UNSUPPORTED_PROTOCOL_VERSION = 0x003F"

definition KMIP_REASON_WRAPPING_OBJECT_ARCHIVED :: u32 where
  [kmip_consts]: "KMIP_REASON_WRAPPING_OBJECT_ARCHIVED = 0x0040"

definition KMIP_REASON_WRAPPING_OBJECT_DESTROYED :: u32 where
  [kmip_consts]: "KMIP_REASON_WRAPPING_OBJECT_DESTROYED = 0x0041"

definition KMIP_REASON_WRAPPING_OBJECT_NOT_FOUND :: u32 where
  [kmip_consts]: "KMIP_REASON_WRAPPING_OBJECT_NOT_FOUND = 0x0042"

definition KMIP_REASON_WRONG_KEY_LIFECYCLE_STATE :: u32 where
  [kmip_consts]: "KMIP_REASON_WRONG_KEY_LIFECYCLE_STATE = 0x0043"

definition KMIP_REASON_PROTECTION_STORAGE_UNAVAILABLE :: u32 where
  [kmip_consts]: "KMIP_REASON_PROTECTION_STORAGE_UNAVAILABLE = 0x0044"

definition KMIP_REASON_PKCS11_CODEC_ERROR :: u32 where
  [kmip_consts]: "KMIP_REASON_PKCS11_CODEC_ERROR = 0x0045"

definition KMIP_REASON_PKCS11_INVALID_FUNCTION :: u32 where
  [kmip_consts]: "KMIP_REASON_PKCS11_INVALID_FUNCTION = 0x0046"

definition KMIP_REASON_PKCS11_INVALID_INTERFACE :: u32 where
  [kmip_consts]: "KMIP_REASON_PKCS11_INVALID_INTERFACE = 0x0047"

definition KMIP_REASON_PRIVATE_PROTECTION_STORAGE_UNAVAILABLE :: u32 where
  [kmip_consts]: "KMIP_REASON_PRIVATE_PROTECTION_STORAGE_UNAVAILABLE = 0x0048"

definition KMIP_REASON_PUBLIC_PROTECTION_STORAGE_UNAVAILABLE :: u32 where
  [kmip_consts]: "KMIP_REASON_PUBLIC_PROTECTION_STORAGE_UNAVAILABLE = 0x0049"

section \<open>\<open>enum class result_status\<close>\<close>

definition KMIP_STATUS_SUCCESS :: u32 where
  [kmip_consts]: "KMIP_STATUS_SUCCESS = 0x00"

definition KMIP_STATUS_OPERATION_FAILED :: u32 where
  [kmip_consts]: "KMIP_STATUS_OPERATION_FAILED = 0x01"

definition KMIP_STATUS_OPERATION_PENDING :: u32 where
  [kmip_consts]: "KMIP_STATUS_OPERATION_PENDING = 0x02"

definition KMIP_STATUS_OPERATION_UNDONE :: u32 where
  [kmip_consts]: "KMIP_STATUS_OPERATION_UNDONE = 0x03"

section \<open>\<open>enum class state\<close>\<close>

definition KMIP_STATE_PRE_ACTIVE :: u32 where
  [kmip_consts]: "KMIP_STATE_PRE_ACTIVE = 0x01"

definition KMIP_STATE_ACTIVE :: u32 where
  [kmip_consts]: "KMIP_STATE_ACTIVE = 0x02"

definition KMIP_STATE_DEACTIVATED :: u32 where
  [kmip_consts]: "KMIP_STATE_DEACTIVATED = 0x03"

definition KMIP_STATE_COMPROMISED :: u32 where
  [kmip_consts]: "KMIP_STATE_COMPROMISED = 0x04"

definition KMIP_STATE_DESTROYED :: u32 where
  [kmip_consts]: "KMIP_STATE_DESTROYED = 0x05"

definition KMIP_STATE_DESTROYED_COMPROMISED :: u32 where
  [kmip_consts]: "KMIP_STATE_DESTROYED_COMPROMISED = 0x06"

section \<open>\<open>enum class tag\<close>\<close>

definition KMIP_TAG_TAG :: u32 where
  [kmip_consts]: "KMIP_TAG_TAG = 0x000000"

definition KMIP_TAG_TYPE :: u32 where
  [kmip_consts]: "KMIP_TAG_TYPE = 0x000001"

definition KMIP_TAG_DEFAULT :: u32 where
  [kmip_consts]: "KMIP_TAG_DEFAULT = 0x420000"

definition KMIP_TAG_ACTIVATION_DATE :: u32 where
  [kmip_consts]: "KMIP_TAG_ACTIVATION_DATE = 0x420001"

definition KMIP_TAG_APPLICATION_DATA :: u32 where
  [kmip_consts]: "KMIP_TAG_APPLICATION_DATA = 0x420002"

definition KMIP_TAG_APPLICATION_NAMESPACE :: u32 where
  [kmip_consts]: "KMIP_TAG_APPLICATION_NAMESPACE = 0x420003"

definition KMIP_TAG_APPLICATION_SPECIFIC_INFORMATION :: u32 where
  [kmip_consts]: "KMIP_TAG_APPLICATION_SPECIFIC_INFORMATION = 0x420004"

definition KMIP_TAG_ATTRIBUTE_REFERENCE :: u32 where
  [kmip_consts]: "KMIP_TAG_ATTRIBUTE_REFERENCE = 0x420005"

definition KMIP_TAG_ASYNCHRONOUS_CORRELATION_VALUE :: u32 where
  [kmip_consts]: "KMIP_TAG_ASYNCHRONOUS_CORRELATION_VALUE = 0x420006"

definition KMIP_TAG_ASYNCHRONOUS_INDICATOR :: u32 where
  [kmip_consts]: "KMIP_TAG_ASYNCHRONOUS_INDICATOR = 0x420007"

definition KMIP_TAG_ATTRIBUTE :: u32 where
  [kmip_consts]: "KMIP_TAG_ATTRIBUTE = 0x420008"

definition KMIP_TAG_ATTRIBUTE_INDEX :: u32 where
  [kmip_consts]: "KMIP_TAG_ATTRIBUTE_INDEX = 0x420009"

definition KMIP_TAG_ATTRIBUTE_NAME :: u32 where
  [kmip_consts]: "KMIP_TAG_ATTRIBUTE_NAME = 0x42000A"

definition KMIP_TAG_ATTRIBUTE_VALUE :: u32 where
  [kmip_consts]: "KMIP_TAG_ATTRIBUTE_VALUE = 0x42000B"

definition KMIP_TAG_AUTHENTICATION :: u32 where
  [kmip_consts]: "KMIP_TAG_AUTHENTICATION = 0x42000C"

definition KMIP_TAG_BATCH_COUNT :: u32 where
  [kmip_consts]: "KMIP_TAG_BATCH_COUNT = 0x42000D"

definition KMIP_TAG_BATCH_ERROR_CONTINUATION_OPTION :: u32 where
  [kmip_consts]: "KMIP_TAG_BATCH_ERROR_CONTINUATION_OPTION = 0x42000E"

definition KMIP_TAG_BATCH_ITEM :: u32 where
  [kmip_consts]: "KMIP_TAG_BATCH_ITEM = 0x42000F"

definition KMIP_TAG_BATCH_ORDER_OPTION :: u32 where
  [kmip_consts]: "KMIP_TAG_BATCH_ORDER_OPTION = 0x420010"

definition KMIP_TAG_BLOCK_CIPHER_MODE :: u32 where
  [kmip_consts]: "KMIP_TAG_BLOCK_CIPHER_MODE = 0x420011"

definition KMIP_TAG_COMPROMISE_OCCURRANCE_DATE :: u32 where
  [kmip_consts]: "KMIP_TAG_COMPROMISE_OCCURRANCE_DATE = 0x420021"

definition KMIP_TAG_CREDENTIAL :: u32 where
  [kmip_consts]: "KMIP_TAG_CREDENTIAL = 0x420023"

definition KMIP_TAG_CREDENTIAL_TYPE :: u32 where
  [kmip_consts]: "KMIP_TAG_CREDENTIAL_TYPE = 0x420024"

definition KMIP_TAG_CREDENTIAL_VALUE :: u32 where
  [kmip_consts]: "KMIP_TAG_CREDENTIAL_VALUE = 0x420025"

definition KMIP_TAG_CRYPTOGRAPHIC_ALGORITHM :: u32 where
  [kmip_consts]: "KMIP_TAG_CRYPTOGRAPHIC_ALGORITHM = 0x420028"

definition KMIP_TAG_CRYPTOGRAPHIC_LENGTH :: u32 where
  [kmip_consts]: "KMIP_TAG_CRYPTOGRAPHIC_LENGTH = 0x42002A"

definition KMIP_TAG_CRYPTOGRAPHIC_PARAMETERS :: u32 where
  [kmip_consts]: "KMIP_TAG_CRYPTOGRAPHIC_PARAMETERS = 0x42002B"

definition KMIP_TAG_CRYPTOGRAPHIC_USAGE_MASK :: u32 where
  [kmip_consts]: "KMIP_TAG_CRYPTOGRAPHIC_USAGE_MASK = 0x42002C"

definition KMIP_TAG_DEACTIVATION_DATE :: u32 where
  [kmip_consts]: "KMIP_TAG_DEACTIVATION_DATE = 0x42002F"

definition KMIP_TAG_ENCRYPTION_KEY_INFORMATION :: u32 where
  [kmip_consts]: "KMIP_TAG_ENCRYPTION_KEY_INFORMATION = 0x420036"

definition KMIP_TAG_HASHING_ALGORITHM :: u32 where
  [kmip_consts]: "KMIP_TAG_HASHING_ALGORITHM = 0x420038"

definition KMIP_TAG_IV_COUNTER_NONCE :: u32 where
  [kmip_consts]: "KMIP_TAG_IV_COUNTER_NONCE = 0x42003D"

definition KMIP_TAG_KEY :: u32 where
  [kmip_consts]: "KMIP_TAG_KEY = 0x42003F"

definition KMIP_TAG_KEY_BLOCK :: u32 where
  [kmip_consts]: "KMIP_TAG_KEY_BLOCK = 0x420040"

definition KMIP_TAG_KEY_COMPRESSION_TYPE :: u32 where
  [kmip_consts]: "KMIP_TAG_KEY_COMPRESSION_TYPE = 0x420041"

definition KMIP_TAG_KEY_FORMAT_TYPE :: u32 where
  [kmip_consts]: "KMIP_TAG_KEY_FORMAT_TYPE = 0x420042"

definition KMIP_TAG_KEY_MATERIAL :: u32 where
  [kmip_consts]: "KMIP_TAG_KEY_MATERIAL = 0x420043"

definition KMIP_TAG_KEY_VALUE :: u32 where
  [kmip_consts]: "KMIP_TAG_KEY_VALUE = 0x420045"

definition KMIP_TAG_KEY_WRAPPING_DATA :: u32 where
  [kmip_consts]: "KMIP_TAG_KEY_WRAPPING_DATA = 0x420046"

definition KMIP_TAG_KEY_WRAPPING_SPECIFICATION :: u32 where
  [kmip_consts]: "KMIP_TAG_KEY_WRAPPING_SPECIFICATION = 0x420047"

definition KMIP_TAG_MAC_SIGNATURE :: u32 where
  [kmip_consts]: "KMIP_TAG_MAC_SIGNATURE = 0x42004D"

definition KMIP_TAG_MAC_SIGNATURE_KEY_INFORMATION :: u32 where
  [kmip_consts]: "KMIP_TAG_MAC_SIGNATURE_KEY_INFORMATION = 0x42004E"

definition KMIP_TAG_MAXIMUM_ITEMS :: u32 where
  [kmip_consts]: "KMIP_TAG_MAXIMUM_ITEMS = 0x42004F"

definition KMIP_TAG_MAXIMUM_RESPONSE_SIZE :: u32 where
  [kmip_consts]: "KMIP_TAG_MAXIMUM_RESPONSE_SIZE = 0x420050"

definition KMIP_TAG_NAME :: u32 where
  [kmip_consts]: "KMIP_TAG_NAME = 0x420053"

definition KMIP_TAG_NAME_TYPE :: u32 where
  [kmip_consts]: "KMIP_TAG_NAME_TYPE = 0x420054"

definition KMIP_TAG_NAME_VALUE :: u32 where
  [kmip_consts]: "KMIP_TAG_NAME_VALUE = 0x420055"

definition KMIP_TAG_OBJECT_GROUP :: u32 where
  [kmip_consts]: "KMIP_TAG_OBJECT_GROUP = 0x420056"

definition KMIP_TAG_OBJECT_TYPE :: u32 where
  [kmip_consts]: "KMIP_TAG_OBJECT_TYPE = 0x420057"

definition KMIP_TAG_OPERATION :: u32 where
  [kmip_consts]: "KMIP_TAG_OPERATION = 0x42005C"

definition KMIP_TAG_OPERATION_POLICY_NAME :: u32 where
  [kmip_consts]: "KMIP_TAG_OPERATION_POLICY_NAME = 0x42005D"

definition KMIP_TAG_PADDING_METHOD :: u32 where
  [kmip_consts]: "KMIP_TAG_PADDING_METHOD = 0x42005F"

definition KMIP_TAG_PRIVATE_KEY :: u32 where
  [kmip_consts]: "KMIP_TAG_PRIVATE_KEY = 0x420064"

definition KMIP_TAG_PROCESS_START_DATE :: u32 where
  [kmip_consts]: "KMIP_TAG_PROCESS_START_DATE = 0x420067"

definition KMIP_TAG_PROTECT_STOP_DATE :: u32 where
  [kmip_consts]: "KMIP_TAG_PROTECT_STOP_DATE = 0x420068"

definition KMIP_TAG_PROTOCOL_VERSION :: u32 where
  [kmip_consts]: "KMIP_TAG_PROTOCOL_VERSION = 0x420069"

definition KMIP_TAG_PROTOCOL_VERSION_MAJOR :: u32 where
  [kmip_consts]: "KMIP_TAG_PROTOCOL_VERSION_MAJOR = 0x42006A"

definition KMIP_TAG_PROTOCOL_VERSION_MINOR :: u32 where
  [kmip_consts]: "KMIP_TAG_PROTOCOL_VERSION_MINOR = 0x42006B"

definition KMIP_TAG_PUBLIC_KEY :: u32 where
  [kmip_consts]: "KMIP_TAG_PUBLIC_KEY = 0x42006D"

definition KMIP_TAG_QUERY_FUNCTION :: u32 where
  [kmip_consts]: "KMIP_TAG_QUERY_FUNCTION = 0x420074"

definition KMIP_TAG_REQUEST_HEADER :: u32 where
  [kmip_consts]: "KMIP_TAG_REQUEST_HEADER = 0x420077"

definition KMIP_TAG_REQUEST_MESSAGE :: u32 where
  [kmip_consts]: "KMIP_TAG_REQUEST_MESSAGE = 0x420078"

definition KMIP_TAG_REQUEST_PAYLOAD :: u32 where
  [kmip_consts]: "KMIP_TAG_REQUEST_PAYLOAD = 0x420079"

definition KMIP_TAG_RESPONSE_HEADER :: u32 where
  [kmip_consts]: "KMIP_TAG_RESPONSE_HEADER = 0x42007A"

definition KMIP_TAG_RESPONSE_MESSAGE :: u32 where
  [kmip_consts]: "KMIP_TAG_RESPONSE_MESSAGE = 0x42007B"

definition KMIP_TAG_RESPONSE_PAYLOAD :: u32 where
  [kmip_consts]: "KMIP_TAG_RESPONSE_PAYLOAD = 0x42007C"

definition KMIP_TAG_RESULT_MESSAGE :: u32 where
  [kmip_consts]: "KMIP_TAG_RESULT_MESSAGE = 0x42007D"

definition KMIP_TAG_RESULT_REASON :: u32 where
  [kmip_consts]: "KMIP_TAG_RESULT_REASON = 0x42007E"

definition KMIP_TAG_RESULT_STATUS :: u32 where
  [kmip_consts]: "KMIP_TAG_RESULT_STATUS = 0x42007F"

definition KMIP_TAG_REVOKATION_MESSAGE :: u32 where
  [kmip_consts]: "KMIP_TAG_REVOKATION_MESSAGE = 0x420080"

definition KMIP_TAG_REVOCATION_REASON :: u32 where
  [kmip_consts]: "KMIP_TAG_REVOCATION_REASON = 0x420081"

definition KMIP_TAG_REVOCATION_REASON_CODE :: u32 where
  [kmip_consts]: "KMIP_TAG_REVOCATION_REASON_CODE = 0x420082"

definition KMIP_TAG_KEY_ROLE_TYPE :: u32 where
  [kmip_consts]: "KMIP_TAG_KEY_ROLE_TYPE = 0x420083"

definition KMIP_TAG_SALT :: u32 where
  [kmip_consts]: "KMIP_TAG_SALT = 0x420084"

definition KMIP_TAG_SECRET_DATA :: u32 where
  [kmip_consts]: "KMIP_TAG_SECRET_DATA = 0x420085"

definition KMIP_TAG_SECRET_DATA_TYPE :: u32 where
  [kmip_consts]: "KMIP_TAG_SECRET_DATA_TYPE = 0x420086"

definition KMIP_TAG_SERVER_INFORMATION :: u32 where
  [kmip_consts]: "KMIP_TAG_SERVER_INFORMATION = 0x420088"

definition KMIP_TAG_STATE :: u32 where
  [kmip_consts]: "KMIP_TAG_STATE = 0x42008D"

definition KMIP_TAG_STORAGE_STATUS_MASK :: u32 where
  [kmip_consts]: "KMIP_TAG_STORAGE_STATUS_MASK = 0x42008E"

definition KMIP_TAG_SYMMETRIC_KEY :: u32 where
  [kmip_consts]: "KMIP_TAG_SYMMETRIC_KEY = 0x42008F"

definition KMIP_TAG_TEMPLATE_ATTRIBUTE :: u32 where
  [kmip_consts]: "KMIP_TAG_TEMPLATE_ATTRIBUTE = 0x420091"

definition KMIP_TAG_TIME_STAMP :: u32 where
  [kmip_consts]: "KMIP_TAG_TIME_STAMP = 0x420092"

definition KMIP_TAG_UNIQUE_BATCH_ITEM_ID :: u32 where
  [kmip_consts]: "KMIP_TAG_UNIQUE_BATCH_ITEM_ID = 0x420093"

definition KMIP_TAG_UNIQUE_IDENTIFIER :: u32 where
  [kmip_consts]: "KMIP_TAG_UNIQUE_IDENTIFIER = 0x420094"

definition KMIP_TAG_USERNAME :: u32 where
  [kmip_consts]: "KMIP_TAG_USERNAME = 0x420099"

definition KMIP_TAG_VENDOR_IDENTIFICATION :: u32 where
  [kmip_consts]: "KMIP_TAG_VENDOR_IDENTIFICATION = 0x42009D"

definition KMIP_TAG_WRAPPING_METHOD :: u32 where
  [kmip_consts]: "KMIP_TAG_WRAPPING_METHOD = 0x42009E"

definition KMIP_TAG_PASSWORD :: u32 where
  [kmip_consts]: "KMIP_TAG_PASSWORD = 0x4200A1"

definition KMIP_TAG_DEVICE_IDENTIFIER :: u32 where
  [kmip_consts]: "KMIP_TAG_DEVICE_IDENTIFIER = 0x4200A2"

definition KMIP_TAG_ENCODING_OPTION :: u32 where
  [kmip_consts]: "KMIP_TAG_ENCODING_OPTION = 0x4200A3"

definition KMIP_TAG_MACHINE_IDENTIFIER :: u32 where
  [kmip_consts]: "KMIP_TAG_MACHINE_IDENTIFIER = 0x4200A9"

definition KMIP_TAG_MEDIA_IDENTIFIER :: u32 where
  [kmip_consts]: "KMIP_TAG_MEDIA_IDENTIFIER = 0x4200AA"

definition KMIP_TAG_NETWORK_IDENTIFIER :: u32 where
  [kmip_consts]: "KMIP_TAG_NETWORK_IDENTIFIER = 0x4200AB"

definition KMIP_TAG_OBJECT_GROUP_MEMBER :: u32 where
  [kmip_consts]: "KMIP_TAG_OBJECT_GROUP_MEMBER = 0x4200AC"

definition KMIP_TAG_DIGITAL_SIGNATURE_ALGORITHM :: u32 where
  [kmip_consts]: "KMIP_TAG_DIGITAL_SIGNATURE_ALGORITHM = 0x4200AE"

definition KMIP_TAG_DEVICE_SERIAL_NUMBER :: u32 where
  [kmip_consts]: "KMIP_TAG_DEVICE_SERIAL_NUMBER = 0x4200B0"

definition KMIP_TAG_RANDOM_IV :: u32 where
  [kmip_consts]: "KMIP_TAG_RANDOM_IV = 0x4200C5"

definition KMIP_TAG_ATTESTATION_TYPE :: u32 where
  [kmip_consts]: "KMIP_TAG_ATTESTATION_TYPE = 0x4200C7"

definition KMIP_TAG_NONCE :: u32 where
  [kmip_consts]: "KMIP_TAG_NONCE = 0x4200C8"

definition KMIP_TAG_NONCE_ID :: u32 where
  [kmip_consts]: "KMIP_TAG_NONCE_ID = 0x4200C9"

definition KMIP_TAG_NONCE_VALUE :: u32 where
  [kmip_consts]: "KMIP_TAG_NONCE_VALUE = 0x4200CA"

definition KMIP_TAG_ATTESTATION_MEASUREMENT :: u32 where
  [kmip_consts]: "KMIP_TAG_ATTESTATION_MEASUREMENT = 0x4200CB"

definition KMIP_TAG_ATTESTATION_ASSERTION :: u32 where
  [kmip_consts]: "KMIP_TAG_ATTESTATION_ASSERTION = 0x4200CC"

definition KMIP_TAG_IV_LENGTH :: u32 where
  [kmip_consts]: "KMIP_TAG_IV_LENGTH = 0x4200CD"

definition KMIP_TAG_TAG_LENGTH :: u32 where
  [kmip_consts]: "KMIP_TAG_TAG_LENGTH = 0x4200CE"

definition KMIP_TAG_FIXED_FIELD_LENGTH :: u32 where
  [kmip_consts]: "KMIP_TAG_FIXED_FIELD_LENGTH = 0x4200CF"

definition KMIP_TAG_COUNTER_LENGTH :: u32 where
  [kmip_consts]: "KMIP_TAG_COUNTER_LENGTH = 0x4200D0"

definition KMIP_TAG_INITIAL_COUNTER_VALUE :: u32 where
  [kmip_consts]: "KMIP_TAG_INITIAL_COUNTER_VALUE = 0x4200D1"

definition KMIP_TAG_INVOCATION_FIELD_LENGTH :: u32 where
  [kmip_consts]: "KMIP_TAG_INVOCATION_FIELD_LENGTH = 0x4200D2"

definition KMIP_TAG_ATTESTATION_CAPABLE_INDICATOR :: u32 where
  [kmip_consts]: "KMIP_TAG_ATTESTATION_CAPABLE_INDICATOR = 0x4200D3"

definition KMIP_TAG_OFFSET_ITEMS :: u32 where
  [kmip_consts]: "KMIP_TAG_OFFSET_ITEMS = 0x4200D4"

definition KMIP_TAG_LOCATED_ITEMS :: u32 where
  [kmip_consts]: "KMIP_TAG_LOCATED_ITEMS = 0x4200D5"

definition KMIP_TAG_KEY_WRAP_TYPE :: u32 where
  [kmip_consts]: "KMIP_TAG_KEY_WRAP_TYPE = 0x4200F8"

definition KMIP_TAG_SALT_LENGTH :: u32 where
  [kmip_consts]: "KMIP_TAG_SALT_LENGTH = 0x420100"

definition KMIP_TAG_MASK_GENERATOR :: u32 where
  [kmip_consts]: "KMIP_TAG_MASK_GENERATOR = 0x420101"

definition KMIP_TAG_MASK_GENERATOR_HASHING_ALGORITHM :: u32 where
  [kmip_consts]: "KMIP_TAG_MASK_GENERATOR_HASHING_ALGORITHM = 0x420102"

definition KMIP_TAG_P_SOURCE :: u32 where
  [kmip_consts]: "KMIP_TAG_P_SOURCE = 0x420103"

definition KMIP_TAG_TRAILER_FIELD :: u32 where
  [kmip_consts]: "KMIP_TAG_TRAILER_FIELD = 0x420104"

definition KMIP_TAG_CLIENT_CORRELATION_VALUE :: u32 where
  [kmip_consts]: "KMIP_TAG_CLIENT_CORRELATION_VALUE = 0x420105"

definition KMIP_TAG_SERVER_CORRELATION_VALUE :: u32 where
  [kmip_consts]: "KMIP_TAG_SERVER_CORRELATION_VALUE = 0x420106"

definition KMIP_TAG_ATTRIBUTES :: u32 where
  [kmip_consts]: "KMIP_TAG_ATTRIBUTES = 0x420125"

definition KMIP_TAG_SERVER_NAME :: u32 where
  [kmip_consts]: "KMIP_TAG_SERVER_NAME = 0x42012D"

definition KMIP_TAG_SERVER_SERIAL_NUMBER :: u32 where
  [kmip_consts]: "KMIP_TAG_SERVER_SERIAL_NUMBER = 0x42012E"

definition KMIP_TAG_SERVER_VERSION :: u32 where
  [kmip_consts]: "KMIP_TAG_SERVER_VERSION = 0x42012F"

definition KMIP_TAG_SERVER_LOAD :: u32 where
  [kmip_consts]: "KMIP_TAG_SERVER_LOAD = 0x420130"

definition KMIP_TAG_PRODUCT_NAME :: u32 where
  [kmip_consts]: "KMIP_TAG_PRODUCT_NAME = 0x420131"

definition KMIP_TAG_BUILD_LEVEL :: u32 where
  [kmip_consts]: "KMIP_TAG_BUILD_LEVEL = 0x420132"

definition KMIP_TAG_BUILD_DATE :: u32 where
  [kmip_consts]: "KMIP_TAG_BUILD_DATE = 0x420133"

definition KMIP_TAG_CLUSTER_INFO :: u32 where
  [kmip_consts]: "KMIP_TAG_CLUSTER_INFO = 0x420134"

definition KMIP_TAG_ALTERNATE_FAILOVER_ENDPOINTS :: u32 where
  [kmip_consts]: "KMIP_TAG_ALTERNATE_FAILOVER_ENDPOINTS = 0x420135"

definition KMIP_TAG_EPHEMERAL :: u32 where
  [kmip_consts]: "KMIP_TAG_EPHEMERAL = 0x420154"

definition KMIP_TAG_SERVER_HASHED_PASSWORD :: u32 where
  [kmip_consts]: "KMIP_TAG_SERVER_HASHED_PASSWORD = 0x420155"

definition KMIP_TAG_PROTECTION_STORAGE_MASK :: u32 where
  [kmip_consts]: "KMIP_TAG_PROTECTION_STORAGE_MASK = 0x42015E"

definition KMIP_TAG_PROTECTION_STORAGE_MASKS :: u32 where
  [kmip_consts]: "KMIP_TAG_PROTECTION_STORAGE_MASKS = 0x42015F"

definition KMIP_TAG_COMMON_PROTECTION_STORAGE_MASKS :: u32 where
  [kmip_consts]: "KMIP_TAG_COMMON_PROTECTION_STORAGE_MASKS = 0x420163"

definition KMIP_TAG_PRIVATE_PROTECTION_STORAGE_MASKS :: u32 where
  [kmip_consts]: "KMIP_TAG_PRIVATE_PROTECTION_STORAGE_MASKS = 0x420164"

definition KMIP_TAG_PUBLIC_PROTECTION_STORAGE_MASKS :: u32 where
  [kmip_consts]: "KMIP_TAG_PUBLIC_PROTECTION_STORAGE_MASKS = 0x420165"

section \<open>\<open>enum class type\<close>\<close>

definition KMIP_TYPE_STRUCTURE :: u32 where
  [kmip_consts]: "KMIP_TYPE_STRUCTURE = 0x01"

definition KMIP_TYPE_INTEGER :: u32 where
  [kmip_consts]: "KMIP_TYPE_INTEGER = 0x02"

definition KMIP_TYPE_LONG_INTEGER :: u32 where
  [kmip_consts]: "KMIP_TYPE_LONG_INTEGER = 0x03"

definition KMIP_TYPE_BIG_INTEGER :: u32 where
  [kmip_consts]: "KMIP_TYPE_BIG_INTEGER = 0x04"

definition KMIP_TYPE_ENUMERATION :: u32 where
  [kmip_consts]: "KMIP_TYPE_ENUMERATION = 0x05"

definition KMIP_TYPE_BOOLEAN :: u32 where
  [kmip_consts]: "KMIP_TYPE_BOOLEAN = 0x06"

definition KMIP_TYPE_TEXT_STRING :: u32 where
  [kmip_consts]: "KMIP_TYPE_TEXT_STRING = 0x07"

definition KMIP_TYPE_BYTE_STRING :: u32 where
  [kmip_consts]: "KMIP_TYPE_BYTE_STRING = 0x08"

definition KMIP_TYPE_DATE_TIME :: u32 where
  [kmip_consts]: "KMIP_TYPE_DATE_TIME = 0x09"

definition KMIP_TYPE_INTERVAL :: u32 where
  [kmip_consts]: "KMIP_TYPE_INTERVAL = 0x0A"

definition KMIP_TYPE_DATE_TIME_EXTENDED :: u32 where
  [kmip_consts]: "KMIP_TYPE_DATE_TIME_EXTENDED = 0x0B"

section \<open>\<open>enum class revocation_reason_type\<close>\<close>

definition KMIP_REVOKE_UNSPECIFIED :: u32 where
  [kmip_consts]: "KMIP_REVOKE_UNSPECIFIED = 0x01"

definition KMIP_REVOKE_KEY_COMPROMISE :: u32 where
  [kmip_consts]: "KMIP_REVOKE_KEY_COMPROMISE = 0x02"

definition KMIP_REVOKE_CA_COMPROMISE :: u32 where
  [kmip_consts]: "KMIP_REVOKE_CA_COMPROMISE = 0x03"

definition KMIP_REVOKE_AFFILIATION_CHANGED :: u32 where
  [kmip_consts]: "KMIP_REVOKE_AFFILIATION_CHANGED = 0x04"

definition KMIP_REVOKE_SUSPENDED :: u32 where
  [kmip_consts]: "KMIP_REVOKE_SUSPENDED = 0x05"

definition KMIP_REVOKE_CESSATION_OF_OPERATION :: u32 where
  [kmip_consts]: "KMIP_REVOKE_CESSATION_OF_OPERATION = 0x06"

definition KMIP_REVOKE_PRIVILEDGE_WITHDRAWN :: u32 where
  [kmip_consts]: "KMIP_REVOKE_PRIVILEDGE_WITHDRAWN = 0x07"

definition KMIP_REVOKE_EXTENSIONS :: u32 where
  [kmip_consts]: "KMIP_REVOKE_EXTENSIONS = 0x80000000"

section \<open>\<open>enum class secret_data_type\<close>\<close>

definition KMIP_SECDATA_PASSWORD :: u32 where
  [kmip_consts]: "KMIP_SECDATA_PASSWORD = 0x01"

definition KMIP_SECDATA_SEED :: u32 where
  [kmip_consts]: "KMIP_SECDATA_SEED = 0x02"

definition KMIP_SECDATA_EXTENSIONS :: u32 where
  [kmip_consts]: "KMIP_SECDATA_EXTENSIONS = 0x80000000"

section \<open>\<open>state_to_string\<close>\<close>

definition state_to_string :: "u32 \<Rightarrow> string" where
  "state_to_string value =
    (if value = KMIP_STATE_PRE_ACTIVE then ''KMIP_STATE_PRE_ACTIVE''
     else if value = KMIP_STATE_ACTIVE then ''KMIP_STATE_ACTIVE''
     else if value = KMIP_STATE_DEACTIVATED then ''KMIP_STATE_DEACTIVATED''
     else if value = KMIP_STATE_COMPROMISED then ''KMIP_STATE_COMPROMISED''
     else if value = KMIP_STATE_DESTROYED then ''KMIP_STATE_DESTROYED''
     else if value = KMIP_STATE_DESTROYED_COMPROMISED then ''KMIP_STATE_DESTROYED_COMPROMISED''
     else ''UNKNOWN_KMIP_STATE'')"

section \<open>\<open>operation_to_string\<close>\<close>

definition operation_to_string :: "u32 \<Rightarrow> string" where
  "operation_to_string value =
    (if value = KMIP_OP_CREATE then ''Create''
     else if value = KMIP_OP_CREATE_KEY_PAIR then ''Create Key Pair''
     else if value = KMIP_OP_REGISTER then ''Register''
     else if value = KMIP_OP_REKEY then ''Rekey''
     else if value = KMIP_OP_DERIVE_KEY then ''Derive Key''
     else if value = KMIP_OP_CERTIFY then ''Certify''
     else if value = KMIP_OP_RECERTIFY then ''Recertify''
     else if value = KMIP_OP_LOCATE then ''Locate''
     else if value = KMIP_OP_CHECK then ''Check''
     else if value = KMIP_OP_GET then ''Get''
     else if value = KMIP_OP_GET_ATTRIBUTES then ''Get Attributes''
     else if value = KMIP_OP_GET_ATTRIBUTE_LIST then ''Get Attribute List''
     else if value = KMIP_OP_ADD_ATTRIBUTE then ''Add Attribute''
     else if value = KMIP_OP_MODIFY_ATTRIBUTE then ''Modify Attribute''
     else if value = KMIP_OP_DELETE_ATTRIBUTE then ''Delete Attribute''
     else if value = KMIP_OP_OBTAIN_LEASE then ''Obtain Lease''
     else if value = KMIP_OP_GET_USAGE_ALLOCATION then ''Get Usage Allocation''
     else if value = KMIP_OP_ACTIVATE then ''Activate''
     else if value = KMIP_OP_REVOKE then ''Revoke''
     else if value = KMIP_OP_DESTROY then ''Destroy''
     else if value = KMIP_OP_ARCHIVE then ''Archive''
     else if value = KMIP_OP_RECOVER then ''Recover''
     else if value = KMIP_OP_VALIDATE then ''Validate''
     else if value = KMIP_OP_QUERY then ''Query''
     else if value = KMIP_OP_CANCEL then ''Cancel''
     else if value = KMIP_OP_POLL then ''Poll''
     else if value = KMIP_OP_NOTIFY then ''Notify''
     else if value = KMIP_OP_PUT then ''Put''
     else if value = KMIP_OP_REKEY_KEY_PAIR then ''Rekey Key Pair''
     else if value = KMIP_OP_DISCOVER_VERSIONS then ''Discover Versions''
     else if value = KMIP_OP_ENCRYPT then ''Encrypt''
     else if value = KMIP_OP_DECRYPT then ''Decrypt''
     else if value = KMIP_OP_SIGN then ''Sign''
     else if value = KMIP_OP_SIGNATURE_VERIFY then ''Signature Verify''
     else if value = KMIP_OP_MAC then ''MAC''
     else if value = KMIP_OP_MAC_VERIFY then ''MAC Verify''
     else if value = KMIP_OP_RNG_RETRIEVE then ''RNG Retrieve''
     else if value = KMIP_OP_RNG_SEED then ''RNG Seed''
     else if value = KMIP_OP_HASH then ''Hash''
     else if value = KMIP_OP_CREATE_SPLIT_KEY then ''Create Split Key''
     else if value = KMIP_OP_JOIN_SPLIT_KEY then ''Join Split Key''
     else if value = KMIP_OP_IMPORT then ''Import''
     else if value = KMIP_OP_EXPORT then ''Export''
     else if value = KMIP_OP_LOG then ''Log''
     else if value = KMIP_OP_LOGIN then ''Login''
     else if value = KMIP_OP_LOGOUT then ''Logout''
     else if value = KMIP_OP_DELEGATED_LOGIN then ''Delegated Login''
     else if value = KMIP_OP_ADJUST_ATTRIBUTE then ''Adjust Attribute''
     else if value = KMIP_OP_SET_ATTRIBUTE then ''Set Attribute''
     else if value = KMIP_OP_SET_ENDPOINT_ROLE then ''Set Endpoint Role''
     else if value = KMIP_OP_PKCS_11 then ''PKCS#11''
     else if value = KMIP_OP_INTEROP then ''Interop''
     else if value = KMIP_OP_REPROVISION then ''Reprovision''
     else ''Unknown Operation'')"

section \<open>\<open>object_type_to_string\<close>\<close>

definition object_type_to_string :: "u32 \<Rightarrow> string" where
  "object_type_to_string value =
    (if value = KMIP_OBJTYPE_CERTIFICATE then ''Certificate''
     else if value = KMIP_OBJTYPE_SYMMETRIC_KEY then ''Symmetric Key''
     else if value = KMIP_OBJTYPE_PUBLIC_KEY then ''Public Key''
     else if value = KMIP_OBJTYPE_PRIVATE_KEY then ''Private Key''
     else if value = KMIP_OBJTYPE_SPLIT_KEY then ''Split Key''
     else if value = KMIP_OBJTYPE_TEMPLATE then ''Template''
     else if value = KMIP_OBJTYPE_SECRET_DATA then ''Secret Data''
     else if value = KMIP_OBJTYPE_OPAQUE_OBJECT then ''Opaque Object''
     else if value = KMIP_OBJTYPE_PGP_KEY then ''PGP Key''
     else if value = KMIP_OBJTYPE_CERTIFICATE_REQUEST then ''Certificate Request''
     else ''Unknown Object Type'')"

section \<open>Validation of enumeration values from the wire\<close>

definition is_valid_cryptographic_algorithm :: "i32 \<Rightarrow> bool" where
  "is_valid_cryptographic_algorithm value \<longleftrightarrow>
     sint KMIP_CRYPTOALG_UNSET \<le> sint value \<and> sint value \<le> sint KMIP_CRYPTOALG_ED448"

definition is_valid_state :: "i32 \<Rightarrow> bool" where
  "is_valid_state value \<longleftrightarrow>
     sint KMIP_STATE_PRE_ACTIVE \<le> sint value \<and>
     sint value \<le> sint KMIP_STATE_DESTROYED_COMPROMISED"

definition is_valid_secret_data_type :: "i32 \<Rightarrow> bool" where
  "is_valid_secret_data_type value \<longleftrightarrow>
     value = KMIP_SECDATA_PASSWORD \<or> value = KMIP_SECDATA_SEED \<or>
     value = KMIP_SECDATA_EXTENSIONS"

definition is_valid_cryptographic_usage_mask :: "i32 \<Rightarrow> bool" where
  "is_valid_cryptographic_usage_mask value \<longleftrightarrow> value AND NOT 0x00FFFFFF = 0"

section \<open>Lemmas\<close>

lemma sint_range_numeral32:
  "sint (w :: 32 word) = k \<Longrightarrow> w = word_of_int k"
  by auto

text \<open>A state accepted from the wire is one of the six enumerators, so its name is known.\<close>

lemma is_valid_state_iff:
  "is_valid_state v \<longleftrightarrow>
     v \<in> {KMIP_STATE_PRE_ACTIVE, KMIP_STATE_ACTIVE, KMIP_STATE_DEACTIVATED,
          KMIP_STATE_COMPROMISED, KMIP_STATE_DESTROYED, KMIP_STATE_DESTROYED_COMPROMISED}"
proof
  assume "is_valid_state v"
  then have "1 \<le> sint v" "sint v \<le> 6" by (simp_all add: is_valid_state_def kmip_consts)
  then have "sint v = 1 \<or> sint v = 2 \<or> sint v = 3 \<or> sint v = 4 \<or> sint v = 5 \<or> sint v = 6"
    by arith
  then show "v \<in> {KMIP_STATE_PRE_ACTIVE, KMIP_STATE_ACTIVE, KMIP_STATE_DEACTIVATED,
          KMIP_STATE_COMPROMISED, KMIP_STATE_DESTROYED, KMIP_STATE_DESTROYED_COMPROMISED}"
    by (auto simp: kmip_consts dest!: sint_range_numeral32)
qed (auto simp: is_valid_state_def kmip_consts)

lemma is_valid_state_known:
  "is_valid_state v \<Longrightarrow> state_to_string v \<noteq> ''UNKNOWN_KMIP_STATE''"
  by (auto simp: is_valid_state_iff state_to_string_def)

end
