(* ===== verification/Kmip_Errors.thy ===== *)
theory Kmip_Errors
  imports Kmip_Enums
begin

text \<open>
  \<open>src/kmipcore/src/kmip_errors.cpp\<close> and \<open>kmip_errors.hpp\<close>: the tables that turn a
  native error code into text, the two constructors of \<open>KmipException\<close> (a message alone gets
  the code \<open>KMIP_REASON_GENERAL_FAILURE\<close>), and the checked conversions of enumeration values
  that come from the wire.  The lemmas say what the checked conversions let through and that every
  error code has a non-empty text.
\<close>

section \<open>Reason and internal error tables\<close>

record KmipReasonInfo =
  reason_name :: string
  reason_description :: string

definition lookup_kmip_reason_info :: "i32 \<Rightarrow> KmipReasonInfo option" where
  "lookup_kmip_reason_info code =
    (if code = KMIP_REASON_ITEM_NOT_FOUND then
       Some \<lparr>reason_name = ''Item Not Found'',
         reason_description = ''No object with the specified Unique Identifier exists.''\<rparr>
     else if code = KMIP_REASON_RESPONSE_TOO_LARGE then
       Some \<lparr>reason_name = ''Response Too Large'',
         reason_description = ''Maximum Response Size has been exceeded.''\<rparr>
     else if code = KMIP_REASON_AUTHENTICATION_NOT_SUCCESSFUL then
       Some \<lparr>reason_name = ''Authentication Not Successful'',
         reason_description = ''Authentication did not succeed.''\<rparr>
     else if code = KMIP_REASON_INVALID_MESSAGE then
       Some \<lparr>reason_name = ''Invalid Message'',
         reason_description = ''The request message was not syntactically understood by the server.''\<rparr>
     else if code = KMIP_REASON_OPERATION_NOT_SUPPORTED then
       Some \<lparr>reason_name = ''Operation Not Supported'',
         reason_description = ''The operation requested by the request message is not supported by the server.''\<rparr>
     else if code = KMIP_REASON_MISSING_DATA then
       Some \<lparr>reason_name = ''Missing Data'',
         reason_description = ''The operation required additional information in the request, which was not present.''\<rparr>
     else if code = KMIP_REASON_INVALID_FIELD then
       Some \<lparr>reason_name = ''Invalid Field'',
         reason_description = ''The request is syntactically valid but some non-attribute data field is invalid.''\<rparr>
     else if code = KMIP_REASON_FEATURE_NOT_SUPPORTED then
       Some \<lparr>reason_name = ''Feature Not Supported'',
         reason_description = ''The operation is supported, but a specific feature requested is not supported.''\<rparr>
     else if code = KMIP_REASON_OPERATION_CANCELED_BY_REQUESTER then
       Some \<lparr>reason_name = ''Operation Canceled By Requester'',
         reason_description = ''The asynchronous operation was canceled before it completed.''\<rparr>
     else if code = KMIP_REASON_CRYPTOGRAPHIC_FAILURE then
       Some \<lparr>reason_name = ''Cryptographic Failure'',
         reason_description = ''A cryptographic operation failed.''\<rparr>
     else if code = KMIP_REASON_ILLEGAL_OPERATION then
       Some \<lparr>reason_name = ''Illegal Operation'',
         reason_description = ''The requested operation is not legal in the current context.''\<rparr>
     else if code = KMIP_REASON_PERMISSION_DENIED then
       Some \<lparr>reason_name = ''Permission Denied'',
         reason_description = ''Client is not allowed to perform the specified operation.''\<rparr>
     else if code = KMIP_REASON_OBJECT_ARCHIVED then
       Some \<lparr>reason_name = ''Object Archived'',
         reason_description = ''The object must be recovered from archive before this operation.''\<rparr>
     else if code = KMIP_REASON_INDEX_OUT_OF_BOUNDS then
       Some \<lparr>reason_name = ''Index Out Of Bounds'',
         reason_description = ''An index in the request exceeded valid bounds.''\<rparr>
     else if code = KMIP_REASON_APPLICATION_NAMESPACE_NOT_SUPPORTED then
       Some \<lparr>reason_name = ''Application Namespace Not Supported'',
         reason_description = ''The application namespace is not supported by the server.''\<rparr>
     else if code = KMIP_REASON_KEY_FORMAT_TYPE_NOT_SUPPORTED then
       Some \<lparr>reason_name = ''Key Format Type Not Supported'',
         reason_description = ''The server cannot provide the object in the desired Key Format Type.''\<rparr>
     else if code = KMIP_REASON_KEY_COMPRESSION_TYPE_NOT_SUPPORTED then
       Some \<lparr>reason_name = ''Key Compression Type Not Supported'',
         reason_description = ''The server cannot provide the object in the desired Key Compression Type.''\<rparr>
     else if code = KMIP_REASON_ENCODING_OPTION_FAILURE then
       Some \<lparr>reason_name = ''Encoding Option Error'',
         reason_description = ''The requested encoding option failed.''\<rparr>
     else if code = KMIP_REASON_KEY_VALUE_NOT_PRESENT then
       Some \<lparr>reason_name = ''Key Value Not Present'',
         reason_description = ''The key value is not present on the server.''\<rparr>
     else if code = KMIP_REASON_ATTESTATION_REQUIRED then
       Some \<lparr>reason_name = ''Attestation Required'',
         reason_description = ''Attestation is required to complete this request.''\<rparr>
     else if code = KMIP_REASON_ATTESTATION_FAILED then
       Some \<lparr>reason_name = ''Attestation Failed'',
         reason_description = ''Attestation data validation failed.''\<rparr>
     else if code = KMIP_REASON_SENSITIVE then
       Some \<lparr>reason_name = ''Sensitive'',
         reason_description = ''Sensitive keys may not be retrieved unwrapped.''\<rparr>
     else if code = KMIP_REASON_NOT_EXTRACTABLE then
       Some \<lparr>reason_name = ''Not Extractable'',
         reason_description = ''The object is not extractable.''\<rparr>
     else if code = KMIP_REASON_OBJECT_ALREADY_EXISTS then
       Some \<lparr>reason_name = ''Object Already Exists'',
         reason_description = ''An object with the requested identifier already exists.''\<rparr>
     else if code = KMIP_REASON_INVALID_TICKET then
       Some \<lparr>reason_name = ''Invalid Ticket'',
         reason_description = ''The ticket was invalid.''\<rparr>
     else if code = KMIP_REASON_USAGE_LIMIT_EXCEEDED then
       Some \<lparr>reason_name = ''Usage Limit Exceeded'',
         reason_description = ''The usage limit or request count has been exceeded.''\<rparr>
     else if code = KMIP_REASON_NUMERIC_RANGE then
       Some \<lparr>reason_name = ''Numeric Range'',
         reason_description = ''A numeric result is too large or too small for the requested data type.''\<rparr>
     else if code = KMIP_REASON_INVALID_DATA_TYPE then
       Some \<lparr>reason_name = ''Invalid Data Type'',
         reason_description = ''A data type was invalid for the requested operation.''\<rparr>
     else if code = KMIP_REASON_READ_ONLY_ATTRIBUTE then
       Some \<lparr>reason_name = ''Read Only Attribute'',
         reason_description = ''Attempted to set a read-only attribute.''\<rparr>
     else if code = KMIP_REASON_MULTI_VALUED_ATTRIBUTE then
       Some \<lparr>reason_name = ''Multi Valued Attribute'',
         reason_description = ''Attempted to set or adjust an attribute that has multiple values.''\<rparr>
     else if code = KMIP_REASON_UNSUPPORTED_ATTRIBUTE then
       Some \<lparr>reason_name = ''Unsupported Attribute'',
         reason_description = ''Attribute is valid in the specification but unsupported by the server.''\<rparr>
     else if code = KMIP_REASON_ATTRIBUTE_INSTANCE_NOT_FOUND then
       Some \<lparr>reason_name = ''Attribute Instance Not Found'',
         reason_description = ''A specific attribute instance could not be found.''\<rparr>
     else if code = KMIP_REASON_ATTRIBUTE_NOT_FOUND then
       Some \<lparr>reason_name = ''Attribute Not Found'',
         reason_description = ''A requested attribute does not exist on the object.''\<rparr>
     else if code = KMIP_REASON_ATTRIBUTE_READ_ONLY then
       Some \<lparr>reason_name = ''Attribute Read Only'',
         reason_description = ''Attempted to modify an attribute that is read-only.''\<rparr>
     else if code = KMIP_REASON_ATTRIBUTE_SINGLE_VALUED then
       Some \<lparr>reason_name = ''Attribute Single Valued'',
         reason_description = ''Attempted to provide multiple values for a single-valued attribute.''\<rparr>
     else if code = KMIP_REASON_BAD_CRYPTOGRAPHIC_PARAMETERS then
       Some \<lparr>reason_name = ''Bad Cryptographic Parameters'',
         reason_description = ''Cryptographic parameters are invalid for the requested operation.''\<rparr>
     else if code = KMIP_REASON_BAD_PASSWORD then
       Some \<lparr>reason_name = ''Bad Password'',
         reason_description = ''Provided password is invalid.''\<rparr>
     else if code = KMIP_REASON_CODEC_ERROR then
       Some \<lparr>reason_name = ''Codec Error'',
         reason_description = ''A codec error occurred while processing the request.''\<rparr>
     else if code = KMIP_REASON_ILLEGAL_OBJECT_TYPE then
       Some \<lparr>reason_name = ''Illegal Object Type'',
         reason_description = ''This operation cannot be performed on the specified object type.''\<rparr>
     else if code = KMIP_REASON_INCOMPATIBLE_CRYPTOGRAPHIC_USAGE_MASK then
       Some \<lparr>reason_name = ''Incompatible Cryptographic Usage Mask'',
         reason_description = ''Cryptographic parameters or usage mask are incompatible with the operation.''\<rparr>
     else if code = KMIP_REASON_INTERNAL_SERVER_ERROR then
       Some \<lparr>reason_name = ''Internal Server Error'',
         reason_description = ''The server had an internal error and could not process the request.''\<rparr>
     else if code = KMIP_REASON_INVALID_ASYNCHRONOUS_CORRELATION_VALUE then
       Some \<lparr>reason_name = ''Invalid Asynchronous Correlation Value'',
         reason_description = ''No outstanding operation exists for the provided asynchronous correlation value.''\<rparr>
     else if code = KMIP_REASON_INVALID_ATTRIBUTE then
       Some \<lparr>reason_name = ''Invalid Attribute'',
         reason_description = ''An attribute is invalid for this object and operation.''\<rparr>
     else if code = KMIP_REASON_INVALID_ATTRIBUTE_VALUE then
       Some \<lparr>reason_name = ''Invalid Attribute Value'',
         reason_description = ''The supplied value for an attribute is invalid.''\<rparr>
     else if code = KMIP_REASON_INVALID_CORRELATION_VALUE then
       Some \<lparr>reason_name = ''Invalid Correlation Value'',
         reason_description = ''Correlation value is invalid for this request context.''\<rparr>
     else if code = KMIP_REASON_INVALID_CSR then
       Some \<lparr>reason_name = ''Invalid CSR'',
         reason_description = ''Certificate Signing Request is invalid.''\<rparr>
     else if code = KMIP_REASON_INVALID_OBJECT_TYPE then
       Some \<lparr>reason_name = ''Invalid Object Type'',
         reason_description = ''The specified object type is invalid for the operation.''\<rparr>
     else if code = KMIP_REASON_KEY_WRAP_TYPE_NOT_SUPPORTED then
       Some \<lparr>reason_name = ''Key Wrap Type Not Supported'',
         reason_description = ''The key wrap type is not supported by the server.''\<rparr>
     else if code = KMIP_REASON_MISSING_INITIALIZATION_VECTOR then
       Some \<lparr>reason_name = ''Missing Initialization Vector'',
         reason_description = ''Initialization vector is required but missing.''\<rparr>
     else if code = KMIP_REASON_NON_UNIQUE_NAME_ATTRIBUTE then
       Some \<lparr>reason_name = ''Non Unique Name Attribute'',
         reason_description = ''The request violates uniqueness constraints on the Name attribute.''\<rparr>
     else if code = KMIP_REASON_OBJECT_DESTROYED then
       Some \<lparr>reason_name = ''Object Destroyed'',
         reason_description = ''The object exists but has already been destroyed.''\<rparr>
     else if code = KMIP_REASON_OBJECT_NOT_FOUND then
       Some \<lparr>reason_name = ''Object Not Found'',
         reason_description = ''A requested managed object was not found.''\<rparr>
     else if code = KMIP_REASON_NOT_AUTHORISED then
       Some \<lparr>reason_name = ''Not Authorised'',
         reason_description = ''Client is not authorised for the requested operation.''\<rparr>
     else if code = KMIP_REASON_SERVER_LIMIT_EXCEEDED then
       Some \<lparr>reason_name = ''Server Limit Exceeded'',
         reason_description = ''A server-side limit has been exceeded.''\<rparr>
     else if code = KMIP_REASON_UNKNOWN_ENUMERATION then
       Some \<lparr>reason_name = ''Unknown Enumeration'',
         reason_description = ''An enumeration value is not known by the server.''\<rparr>
     else if code = KMIP_REASON_UNKNOWN_MESSAGE_EXTENSION then
       Some \<lparr>reason_name = ''Unknown Message Extension'',
         reason_description = ''The server does not support the supplied message extension.''\<rparr>
     else if code = KMIP_REASON_UNKNOWN_TAG then
       Some \<lparr>reason_name = ''Unknown Tag'',
         reason_description = ''A tag in the request is not known by the server.''\<rparr>
     else if code = KMIP_REASON_UNSUPPORTED_CRYPTOGRAPHIC_PARAMETERS then
       Some \<lparr>reason_name = ''Unsupported Cryptographic Parameters'',
         reason_description = ''Cryptographic parameters are valid in spec but unsupported by server.''\<rparr>
     else if code = KMIP_REASON_UNSUPPORTED_PROTOCOL_VERSION then
       Some \<lparr>reason_name = ''Unsupported Protocol Version'',
         reason_description = ''The operation cannot be performed with the provided protocol version.''\<rparr>
     else if code = KMIP_REASON_WRAPPING_OBJECT_ARCHIVED then
       Some \<lparr>reason_name = ''Wrapping Object Archived'',
         reason_description = ''Wrapping object is archived.''\<rparr>
     else if code = KMIP_REASON_WRAPPING_OBJECT_DESTROYED then
       Some \<lparr>reason_name = ''Wrapping Object Destroyed'',
         reason_description = ''Wrapping object exists but is destroyed.''\<rparr>
     else if code = KMIP_REASON_WRAPPING_OBJECT_NOT_FOUND then
       Some \<lparr>reason_name = ''Wrapping Object Not Found'',
         reason_description = ''Wrapping object does not exist.''\<rparr>
     else if code = KMIP_REASON_WRONG_KEY_LIFECYCLE_STATE then
       Some \<lparr>reason_name = ''Wrong Key Lifecycle State'',
         reason_description = ''Key lifecycle state is invalid for the requested operation.''\<rparr>
     else if code = KMIP_REASON_PROTECTION_STORAGE_UNAVAILABLE then
       Some \<lparr>reason_name = ''Protection Storage Unavailable'',
         reason_description = ''Requested protection storage is unavailable.''\<rparr>
     else if code = KMIP_REASON_PKCS11_CODEC_ERROR then
       Some \<lparr>reason_name = ''PKCS#11 Codec Error'',
         reason_description = ''There is a codec error in PKCS#11 input parameters.''\<rparr>
     else if code = KMIP_REASON_PKCS11_INVALID_FUNCTION then
       Some \<lparr>reason_name = ''PKCS#11 Invalid Function'',
         reason_description = ''The PKCS#11 function is not in the selected interface.''\<rparr>
     else if code = KMIP_REASON_PKCS11_INVALID_INTERFACE then
       Some \<lparr>reason_name = ''PKCS#11 Invalid Interface'',
         reason_description = ''The PKCS#11 interface is unknown or unavailable.''\<rparr>
     else if code = KMIP_REASON_PRIVATE_PROTECTION_STORAGE_UNAVAILABLE then
       Some \<lparr>reason_name = ''Private Protection Storage Unavailable'',
         reason_description = ''Requested private protection storage is unavailable.''\<rparr>
     else if code = KMIP_REASON_PUBLIC_PROTECTION_STORAGE_UNAVAILABLE then
       Some \<lparr>reason_name = ''Public Protection Storage Unavailable'',
         reason_description = ''Requested public protection storage is unavailable.''\<rparr>
     else if code = KMIP_REASON_GENERAL_FAILURE then
       Some \<lparr>reason_name = ''General Failure'',
         reason_description = ''The request failed for a reason outside the other reason codes.''\<rparr>
     else None)"

definition lookup_internal_error_name :: "i32 \<Rightarrow> string option" where
  "lookup_internal_error_name code =
    (if code = KMIP_OK then Some ''OK''
     else if code = KMIP_NOT_IMPLEMENTED then Some ''Not Implemented''
     else if code = KMIP_ERROR_BUFFER_FULL then Some ''Buffer Full''
     else if code = KMIP_ERROR_ATTR_UNSUPPORTED then Some ''Attribute Unsupported''
     else if code = KMIP_TAG_MISMATCH then Some ''Tag Mismatch''
     else if code = KMIP_TYPE_MISMATCH then Some ''Type Mismatch''
     else if code = KMIP_LENGTH_MISMATCH then Some ''Length Mismatch''
     else if code = KMIP_PADDING_MISMATCH then Some ''Padding Mismatch''
     else if code = KMIP_BOOLEAN_MISMATCH then Some ''Boolean Mismatch''
     else if code = KMIP_ENUM_MISMATCH then Some ''Enum Mismatch''
     else if code = KMIP_ENUM_UNSUPPORTED then Some ''Enum Unsupported''
     else if code = KMIP_INVALID_FOR_VERSION then Some ''Invalid For Version''
     else if code = KMIP_MEMORY_ALLOC_FAILED then Some ''Memory Allocation Failed''
     else if code = KMIP_IO_FAILURE then Some ''I/O Failure''
     else if code = KMIP_EXCEED_MAX_MESSAGE_SIZE then Some ''Exceeded Max Message Size''
     else if code = KMIP_MALFORMED_RESPONSE then Some ''Malformed Response''
     else if code = KMIP_OBJECT_MISMATCH then Some ''Object Mismatch''
     else if code = KMIP_ARG_INVALID then Some ''Invalid Argument''
     else if code = KMIP_ERROR_BUFFER_UNDERFULL then Some ''Buffer Underfull''
     else if code = KMIP_INVALID_ENCODING then Some ''Invalid Encoding''
     else if code = KMIP_INVALID_FIELD then Some ''Invalid Field''
     else if code = KMIP_INVALID_LENGTH then Some ''Invalid Length''
     else None)"

definition hex_code :: "i32 \<Rightarrow> string" where
  "hex_code code = ''0x'' @ nat_to_hex True (unat code)"

definition kmip_message_for_code :: "i32 \<Rightarrow> string" where
  "kmip_message_for_code code =
    (case lookup_kmip_reason_info code of
       Some info \<Rightarrow> reason_name info @ '': '' @ reason_description info
     | None \<Rightarrow>
        (case lookup_internal_error_name code of
           Some internal_name \<Rightarrow> internal_name
         | None \<Rightarrow>
            if code = KMIP_STATUS_SUCCESS then ''Success''
            else ''Unknown KMIP error code '' @ hex_code code))"

section \<open>Exceptions\<close>

text \<open>\<open>KmipException(msg)\<close> and \<open>KmipException(code, msg)\<close>; the I/O variants are the
  derived class of \<open>src/kmipclient/include/kmipclient/KmipIOException.hpp\<close>.\<close>

definition kmip_exception :: "string \<Rightarrow> failure" where
  "kmip_exception msg = KmipException KMIP_REASON_GENERAL_FAILURE msg"

definition kmip_exception_code :: "i32 \<Rightarrow> string \<Rightarrow> failure" where
  "kmip_exception_code native_error_code msg = KmipException native_error_code msg"

definition kmip_io_exception :: "string \<Rightarrow> failure" where
  "kmip_io_exception msg = KmipIOException KMIP_REASON_GENERAL_FAILURE msg"

definition kmip_io_exception_code :: "i32 \<Rightarrow> string \<Rightarrow> failure" where
  "kmip_io_exception_code code msg = KmipIOException code msg"

text \<open>\<open>std::system_error::what()\<close>: the message, a colon and the text of the code.\<close>

fun failure_what :: "failure \<Rightarrow> string" where
  "failure_what (KmipException code msg) = msg @ '': '' @ kmip_message_for_code code"
| "failure_what (KmipIOException code msg) = msg @ '': '' @ kmip_message_for_code code"
| "failure_what Out_of_range = []"
| "failure_what Int_overflow = []"
| "failure_what Assertion_abort = []"
| "failure_what Diverges = []"

text \<open>Failures that are C++ exceptions of the library, as opposed to undefined behaviour, an abort
  or a loop without end.\<close>

fun is_exception :: "failure \<Rightarrow> bool" where
  "is_exception (KmipException code msg) = True"
| "is_exception (KmipIOException code msg) = True"
| "is_exception Out_of_range = False"
| "is_exception Int_overflow = False"
| "is_exception Assertion_abort = False"
| "is_exception Diverges = False"

section \<open>Checked conversions\<close>

definition checked_cryptographic_algorithm :: "i32 \<Rightarrow> u32 res" where
  "checked_cryptographic_algorithm value =
    (if \<not> is_valid_cryptographic_algorithm value then
       Inl (kmip_exception_code KMIP_ENUM_UNSUPPORTED
         (''Unknown Cryptographic Algorithm enumeration value: '' @ int_to_string (sint value)))
     else Inr value)"

definition checked_state :: "i32 \<Rightarrow> u32 res" where
  "checked_state value =
    (if \<not> is_valid_state value then
       Inl (kmip_exception_code KMIP_ENUM_UNSUPPORTED
         (''Unknown State enumeration value: '' @ int_to_string (sint value)))
     else Inr value)"

definition checked_secret_data_type :: "i32 \<Rightarrow> u32 res" where
  "checked_secret_data_type value =
    (if \<not> is_valid_secret_data_type value then
       Inl (kmip_exception_code KMIP_ENUM_UNSUPPORTED
         (''Unknown Secret Data Type enumeration value: '' @ int_to_string (sint value)))
     else Inr value)"

definition checked_cryptographic_usage_mask :: "i32 \<Rightarrow> u32 res" where
  "checked_cryptographic_usage_mask value =
    (if \<not> is_valid_cryptographic_usage_mask value then
       Inl (kmip_exception_code KMIP_ENUM_UNSUPPORTED
         (''Invalid Cryptographic Usage Mask value: '' @ int_to_string (sint value)))
     else Inr value)"

section \<open>Lemmas\<close>

lemma is_exception_simps [simp]:
  "is_exception (kmip_exception m)" "is_exception (kmip_exception_code c m)"
  "is_exception (kmip_io_exception m)" "is_exception (kmip_io_exception_code c m)"
  by (simp_all add: kmip_exception_def kmip_exception_code_def kmip_io_exception_def
      kmip_io_exception_code_def)

lemma kmip_exception_neq [simp]:
  "kmip_exception m \<noteq> Out_of_range" "kmip_exception m \<noteq> Assertion_abort"
  "kmip_exception m \<noteq> Diverges"
  "Out_of_range \<noteq> kmip_exception m" "Assertion_abort \<noteq> kmip_exception m"
  "Diverges \<noteq> kmip_exception m"
  by (simp_all add: kmip_exception_def)

lemma checked_Inr_iff [res_simps]:
  "checked_cryptographic_algorithm v = Inr a \<longleftrightarrow> is_valid_cryptographic_algorithm v \<and> a = v"
  "checked_state v = Inr a \<longleftrightarrow> is_valid_state v \<and> a = v"
  "checked_secret_data_type v = Inr a \<longleftrightarrow> is_valid_secret_data_type v \<and> a = v"
  "checked_cryptographic_usage_mask v = Inr a \<longleftrightarrow> is_valid_cryptographic_usage_mask v \<and> a = v"
  by (auto simp: checked_cryptographic_algorithm_def checked_state_def
      checked_secret_data_type_def checked_cryptographic_usage_mask_def)

end
