(* ===== verification/Kmip_Enumerations.thy ===== *)
theory Kmip_Enumerations
  imports Kmip_Errors
begin

text \<open>
  The enumerations of \<open>src/kmipcore/include/kmipcore/kmip_enums.hpp\<close> as tables: each \<open>enum class\<close> with the names and values of
  its enumerators, and the block of constants of the same names that give the enumerators to code written for
  plain integers.  A constant of that block is the value of the enumerator it is cast from, so it is listed with
  the name of that enumerator; \<open>legacy_value\<close> is its value.

  The theorems say that the block repeats the enumerations without a slip, that the constants of \<open>Kmip_Enums\<close> are those of
  the tables, and that the predicates on values from the wire and the tables of names know exactly the
  enumerators.
\<close>

type_synonym enumeration = "(string \<times> u32) list"
type_synonym legacy_constants = "(string \<times> string) list"

section \<open>The enumerations\<close>

definition attestation_type_enum :: enumeration where
  "attestation_type_enum =
    [(''KMIP_ATTEST_TPM_QUOTE'', 0x01), (''KMIP_ATTEST_TCG_INTEGRITY_REPORT'', 0x02),
     (''KMIP_ATTEST_SAML_ASSERTION'', 0x03)]"

definition attribute_type_enum :: enumeration where
  "attribute_type_enum =
    [(''KMIP_ATTR_UNIQUE_IDENTIFIER'', 0x00), (''KMIP_ATTR_NAME'', 0x01), (''KMIP_ATTR_OBJECT_TYPE'', 0x02),
     (''KMIP_ATTR_CRYPTOGRAPHIC_ALGORITHM'', 0x03), (''KMIP_ATTR_CRYPTOGRAPHIC_LENGTH'', 0x04),
     (''KMIP_ATTR_OPERATION_POLICY_NAME'', 0x05), (''KMIP_ATTR_CRYPTOGRAPHIC_USAGE_MASK'', 0x06),
     (''KMIP_ATTR_STATE'', 0x07), (''KMIP_ATTR_APPLICATION_SPECIFIC_INFORMATION'', 0x08),
     (''KMIP_ATTR_OBJECT_GROUP'', 0x09), (''KMIP_ATTR_ACTIVATION_DATE'', 0x0A),
     (''KMIP_ATTR_DEACTIVATION_DATE'', 0x0B), (''KMIP_ATTR_PROCESS_START_DATE'', 0x0C),
     (''KMIP_ATTR_PROTECT_STOP_DATE'', 0x0D), (''KMIP_ATTR_CRYPTOGRAPHIC_PARAMETERS'', 0x0E)]"

definition batch_error_continuation_option_enum :: enumeration where
  "batch_error_continuation_option_enum =
    [(''KMIP_BATCH_CONTINUE'', 0x01), (''KMIP_BATCH_STOP'', 0x02), (''KMIP_BATCH_UNDO'', 0x03)]"

definition block_cipher_mode_enum :: enumeration where
  "block_cipher_mode_enum =
    [(''KMIP_BLOCK_CBC'', 0x01), (''KMIP_BLOCK_ECB'', 0x02), (''KMIP_BLOCK_PCBC'', 0x03), (''KMIP_BLOCK_CFB'', 0x04),
     (''KMIP_BLOCK_OFB'', 0x05), (''KMIP_BLOCK_CTR'', 0x06), (''KMIP_BLOCK_CMAC'', 0x07), (''KMIP_BLOCK_CCM'', 0x08),
     (''KMIP_BLOCK_GCM'', 0x09), (''KMIP_BLOCK_CBC_MAC'', 0x0A), (''KMIP_BLOCK_XTS'', 0x0B),
     (''KMIP_BLOCK_AES_KEY_WRAP_PADDING'', 0x0C), (''KMIP_BLOCK_NIST_KEY_WRAP'', 0x0D),
     (''KMIP_BLOCK_X9102_AESKW'', 0x0E), (''KMIP_BLOCK_X9102_TDKW'', 0x0F), (''KMIP_BLOCK_X9102_AKW1'', 0x10),
     (''KMIP_BLOCK_X9102_AKW2'', 0x11), (''KMIP_BLOCK_AEAD'', 0x12)]"

definition credential_type_enum :: enumeration where
  "credential_type_enum =
    [(''KMIP_CRED_USERNAME_AND_PASSWORD'', 0x01), (''KMIP_CRED_DEVICE'', 0x02), (''KMIP_CRED_ATTESTATION'', 0x03),
     (''KMIP_CRED_ONE_TIME_PASSWORD'', 0x04), (''KMIP_CRED_HASHED_PASSWORD'', 0x05), (''KMIP_CRED_TICKET'', 0x06)]"

definition cryptographic_algorithm_enum :: enumeration where
  "cryptographic_algorithm_enum =
    [(''KMIP_CRYPTOALG_UNSET'', 0x00), (''KMIP_CRYPTOALG_DES'', 0x01), (''KMIP_CRYPTOALG_TRIPLE_DES'', 0x02),
     (''KMIP_CRYPTOALG_AES'', 0x03), (''KMIP_CRYPTOALG_RSA'', 0x04), (''KMIP_CRYPTOALG_DSA'', 0x05),
     (''KMIP_CRYPTOALG_ECDSA'', 0x06), (''KMIP_CRYPTOALG_HMAC_SHA1'', 0x07), (''KMIP_CRYPTOALG_HMAC_SHA224'', 0x08),
     (''KMIP_CRYPTOALG_HMAC_SHA256'', 0x09), (''KMIP_CRYPTOALG_HMAC_SHA384'', 0x0A),
     (''KMIP_CRYPTOALG_HMAC_SHA512'', 0x0B), (''KMIP_CRYPTOALG_HMAC_MD5'', 0x0C), (''KMIP_CRYPTOALG_DH'', 0x0D),
     (''KMIP_CRYPTOALG_ECDH'', 0x0E), (''KMIP_CRYPTOALG_ECMQV'', 0x0F), (''KMIP_CRYPTOALG_BLOWFISH'', 0x10),
     (''KMIP_CRYPTOALG_CAMELLIA'', 0x11), (''KMIP_CRYPTOALG_CAST5'', 0x12), (''KMIP_CRYPTOALG_IDEA'', 0x13),
     (''KMIP_CRYPTOALG_MARS'', 0x14), (''KMIP_CRYPTOALG_RC2'', 0x15), (''KMIP_CRYPTOALG_RC4'', 0x16),
     (''KMIP_CRYPTOALG_RC5'', 0x17), (''KMIP_CRYPTOALG_SKIPJACK'', 0x18), (''KMIP_CRYPTOALG_TWOFISH'', 0x19),
     (''KMIP_CRYPTOALG_EC'', 0x1A), (''KMIP_CRYPTOALG_ONE_TIME_PAD'', 0x1B), (''KMIP_CRYPTOALG_CHACHA20'', 0x1C),
     (''KMIP_CRYPTOALG_POLY1305'', 0x1D), (''KMIP_CRYPTOALG_CHACHA20_POLY1305'', 0x1E),
     (''KMIP_CRYPTOALG_SHA3_224'', 0x1F), (''KMIP_CRYPTOALG_SHA3_256'', 0x20), (''KMIP_CRYPTOALG_SHA3_384'', 0x21),
     (''KMIP_CRYPTOALG_SHA3_512'', 0x22), (''KMIP_CRYPTOALG_HMAC_SHA3_224'', 0x23),
     (''KMIP_CRYPTOALG_HMAC_SHA3_256'', 0x24), (''KMIP_CRYPTOALG_HMAC_SHA3_384'', 0x25),
     (''KMIP_CRYPTOALG_HMAC_SHA3_512'', 0x26), (''KMIP_CRYPTOALG_SHAKE_128'', 0x27),
     (''KMIP_CRYPTOALG_SHAKE_256'', 0x28), (''KMIP_CRYPTOALG_ARIA'', 0x29), (''KMIP_CRYPTOALG_SEED'', 0x2A),
     (''KMIP_CRYPTOALG_SM2'', 0x2B), (''KMIP_CRYPTOALG_SM3'', 0x2C), (''KMIP_CRYPTOALG_SM4'', 0x2D),
     (''KMIP_CRYPTOALG_GOST_R_34_10_2012'', 0x2E), (''KMIP_CRYPTOALG_GOST_R_34_11_2012'', 0x2F),
     (''KMIP_CRYPTOALG_GOST_R_34_13_2015'', 0x30), (''KMIP_CRYPTOALG_GOST_28147_89'', 0x31),
     (''KMIP_CRYPTOALG_XMSS'', 0x32), (''KMIP_CRYPTOALG_SPHINCS_256'', 0x33), (''KMIP_CRYPTOALG_MCELIECE'', 0x34),
     (''KMIP_CRYPTOALG_MCELIECE_6960119'', 0x35), (''KMIP_CRYPTOALG_MCELIECE_8192128'', 0x36),
     (''KMIP_CRYPTOALG_ED25519'', 0x37), (''KMIP_CRYPTOALG_ED448'', 0x38)]"

definition cryptographic_usage_mask_enum :: enumeration where
  "cryptographic_usage_mask_enum =
    [(''KMIP_CRYPTOMASK_UNSET'', 0x00000000), (''KMIP_CRYPTOMASK_SIGN'', 0x00000001),
     (''KMIP_CRYPTOMASK_VERIFY'', 0x00000002), (''KMIP_CRYPTOMASK_ENCRYPT'', 0x00000004),
     (''KMIP_CRYPTOMASK_DECRYPT'', 0x00000008), (''KMIP_CRYPTOMASK_WRAP_KEY'', 0x00000010),
     (''KMIP_CRYPTOMASK_UNWRAP_KEY'', 0x00000020), (''KMIP_CRYPTOMASK_EXPORT'', 0x00000040),
     (''KMIP_CRYPTOMASK_MAC_GENERATE'', 0x00000080), (''KMIP_CRYPTOMASK_MAC_VERIFY'', 0x00000100),
     (''KMIP_CRYPTOMASK_DERIVE_KEY'', 0x00000200), (''KMIP_CRYPTOMASK_CONTENT_COMMITMENT'', 0x00000400),
     (''KMIP_CRYPTOMASK_KEY_AGREEMENT'', 0x00000800), (''KMIP_CRYPTOMASK_CERTIFICATE_SIGN'', 0x00001000),
     (''KMIP_CRYPTOMASK_CRL_SIGN'', 0x00002000), (''KMIP_CRYPTOMASK_GENERATE_CRYPTOGRAM'', 0x00004000),
     (''KMIP_CRYPTOMASK_VALIDATE_CRYPTOGRAM'', 0x00008000), (''KMIP_CRYPTOMASK_TRANSLATE_ENCRYPT'', 0x00010000),
     (''KMIP_CRYPTOMASK_TRANSLATE_DECRYPT'', 0x00020000), (''KMIP_CRYPTOMASK_TRANSLATE_WRAP'', 0x00040000),
     (''KMIP_CRYPTOMASK_TRANSLATE_UNWRAP'', 0x00080000), (''KMIP_CRYPTOMASK_AUTHENTICATE'', 0x00100000),
     (''KMIP_CRYPTOMASK_UNRESTRICTED'', 0x00200000), (''KMIP_CRYPTOMASK_FPE_ENCRYPT'', 0x00400000),
     (''KMIP_CRYPTOMASK_FPE_DECRYPT'', 0x00800000)]"

definition digital_signature_algorithm_enum :: enumeration where
  "digital_signature_algorithm_enum =
    [(''KMIP_DIGITAL_MD2_WITH_RSA'', 0x01), (''KMIP_DIGITAL_MD5_WITH_RSA'', 0x02),
     (''KMIP_DIGITAL_SHA1_WITH_RSA'', 0x03), (''KMIP_DIGITAL_SHA224_WITH_RSA'', 0x04),
     (''KMIP_DIGITAL_SHA256_WITH_RSA'', 0x05), (''KMIP_DIGITAL_SHA384_WITH_RSA'', 0x06),
     (''KMIP_DIGITAL_SHA512_WITH_RSA'', 0x07), (''KMIP_DIGITAL_RSASSA_PSS'', 0x08),
     (''KMIP_DIGITAL_DSA_WITH_SHA1'', 0x09), (''KMIP_DIGITAL_DSA_WITH_SHA224'', 0x0A),
     (''KMIP_DIGITAL_DSA_WITH_SHA256'', 0x0B), (''KMIP_DIGITAL_ECDSA_WITH_SHA1'', 0x0C),
     (''KMIP_DIGITAL_ECDSA_WITH_SHA224'', 0x0D), (''KMIP_DIGITAL_ECDSA_WITH_SHA256'', 0x0E),
     (''KMIP_DIGITAL_ECDSA_WITH_SHA384'', 0x0F), (''KMIP_DIGITAL_ECDSA_WITH_SHA512'', 0x10),
     (''KMIP_DIGITAL_SHA3_256_WITH_RSA'', 0x11), (''KMIP_DIGITAL_SHA3_384_WITH_RSA'', 0x12),
     (''KMIP_DIGITAL_SHA3_512_WITH_RSA'', 0x13)]"

definition encoding_option_enum :: enumeration where
  "encoding_option_enum =
    [(''KMIP_ENCODE_NO_ENCODING'', 0x01), (''KMIP_ENCODE_TTLV_ENCODING'', 0x02)]"

definition hashing_algorithm_enum :: enumeration where
  "hashing_algorithm_enum =
    [(''KMIP_HASH_MD2'', 0x01), (''KMIP_HASH_MD4'', 0x02), (''KMIP_HASH_MD5'', 0x03), (''KMIP_HASH_SHA1'', 0x04),
     (''KMIP_HASH_SHA224'', 0x05), (''KMIP_HASH_SHA256'', 0x06), (''KMIP_HASH_SHA384'', 0x07),
     (''KMIP_HASH_SHA512'', 0x08), (''KMIP_HASH_RIPEMD160'', 0x09), (''KMIP_HASH_TIGER'', 0x0A),
     (''KMIP_HASH_WHIRLPOOL'', 0x0B), (''KMIP_HASH_SHA512_224'', 0x0C), (''KMIP_HASH_SHA512_256'', 0x0D),
     (''KMIP_HASH_SHA3_224'', 0x0E), (''KMIP_HASH_SHA3_256'', 0x0F), (''KMIP_HASH_SHA3_384'', 0x10),
     (''KMIP_HASH_SHA3_512'', 0x11)]"

definition key_compression_type_enum :: enumeration where
  "key_compression_type_enum =
    [(''KMIP_KEYCOMP_EC_PUB_UNCOMPRESSED'', 0x01), (''KMIP_KEYCOMP_EC_PUB_X962_COMPRESSED_PRIME'', 0x02),
     (''KMIP_KEYCOMP_EC_PUB_X962_COMPRESSED_CHAR2'', 0x03), (''KMIP_KEYCOMP_EC_PUB_X962_HYBRID'', 0x04)]"

definition key_format_type_enum :: enumeration where
  "key_format_type_enum =
    [(''KMIP_KEYFORMAT_RAW'', 0x01), (''KMIP_KEYFORMAT_OPAQUE'', 0x02), (''KMIP_KEYFORMAT_PKCS1'', 0x03),
     (''KMIP_KEYFORMAT_PKCS8'', 0x04), (''KMIP_KEYFORMAT_X509'', 0x05), (''KMIP_KEYFORMAT_EC_PRIVATE_KEY'', 0x06),
     (''KMIP_KEYFORMAT_TRANS_SYMMETRIC_KEY'', 0x07), (''KMIP_KEYFORMAT_TRANS_DSA_PRIVATE_KEY'', 0x08),
     (''KMIP_KEYFORMAT_TRANS_DSA_PUBLIC_KEY'', 0x09), (''KMIP_KEYFORMAT_TRANS_RSA_PRIVATE_KEY'', 0x0A),
     (''KMIP_KEYFORMAT_TRANS_RSA_PUBLIC_KEY'', 0x0B), (''KMIP_KEYFORMAT_TRANS_DH_PRIVATE_KEY'', 0x0C),
     (''KMIP_KEYFORMAT_TRANS_DH_PUBLIC_KEY'', 0x0D), (''KMIP_KEYFORMAT_TRANS_ECDSA_PRIVATE_KEY'', 0x0E),
     (''KMIP_KEYFORMAT_TRANS_ECDSA_PUBLIC_KEY'', 0x0F), (''KMIP_KEYFORMAT_TRANS_ECDH_PRIVATE_KEY'', 0x10),
     (''KMIP_KEYFORMAT_TRANS_ECDH_PUBLIC_KEY'', 0x11), (''KMIP_KEYFORMAT_TRANS_ECMQV_PRIVATE_KEY'', 0x12),
     (''KMIP_KEYFORMAT_TRANS_ECMQV_PUBLIC_KEY'', 0x13), (''KMIP_KEYFORMAT_TRANS_EC_PRIVATE_KEY'', 0x14),
     (''KMIP_KEYFORMAT_TRANS_EC_PUBLIC_KEY'', 0x15), (''KMIP_KEYFORMAT_PKCS12'', 0x16),
     (''KMIP_KEYFORMAT_PKCS10'', 0x17)]"

definition key_role_type_enum :: enumeration where
  "key_role_type_enum =
    [(''KMIP_ROLE_BDK'', 0x01), (''KMIP_ROLE_CVK'', 0x02), (''KMIP_ROLE_DEK'', 0x03), (''KMIP_ROLE_MKAC'', 0x04),
     (''KMIP_ROLE_MKSMC'', 0x05), (''KMIP_ROLE_MKSMI'', 0x06), (''KMIP_ROLE_MKDAC'', 0x07),
     (''KMIP_ROLE_MKDN'', 0x08), (''KMIP_ROLE_MKCP'', 0x09), (''KMIP_ROLE_MKOTH'', 0x0A), (''KMIP_ROLE_KEK'', 0x0B),
     (''KMIP_ROLE_MAC16609'', 0x0C), (''KMIP_ROLE_MAC97971'', 0x0D), (''KMIP_ROLE_MAC97972'', 0x0E),
     (''KMIP_ROLE_MAC97973'', 0x0F), (''KMIP_ROLE_MAC97974'', 0x10), (''KMIP_ROLE_MAC97975'', 0x11),
     (''KMIP_ROLE_ZPK'', 0x12), (''KMIP_ROLE_PVKIBM'', 0x13), (''KMIP_ROLE_PVKPVV'', 0x14),
     (''KMIP_ROLE_PVKOTH'', 0x15), (''KMIP_ROLE_DUKPT'', 0x16), (''KMIP_ROLE_IV'', 0x17), (''KMIP_ROLE_TRKBK'', 0x18)]"

definition key_wrap_type_enum :: enumeration where
  "key_wrap_type_enum =
    [(''KMIP_WRAPTYPE_NOT_WRAPPED'', 0x01), (''KMIP_WRAPTYPE_AS_REGISTERED'', 0x02)]"

definition mask_generator_enum :: enumeration where
  "mask_generator_enum =
    [(''KMIP_MASKGEN_MGF1'', 0x01)]"

definition name_type_enum :: enumeration where
  "name_type_enum =
    [(''KMIP_NAME_UNINTERPRETED_TEXT_STRING'', 0x01), (''KMIP_NAME_URI'', 0x02)]"

definition object_type_enum :: enumeration where
  "object_type_enum =
    [(''KMIP_OBJTYPE_CERTIFICATE'', 0x01), (''KMIP_OBJTYPE_SYMMETRIC_KEY'', 0x02),
     (''KMIP_OBJTYPE_PUBLIC_KEY'', 0x03), (''KMIP_OBJTYPE_PRIVATE_KEY'', 0x04), (''KMIP_OBJTYPE_SPLIT_KEY'', 0x05),
     (''KMIP_OBJTYPE_TEMPLATE'', 0x06), (''KMIP_OBJTYPE_SECRET_DATA'', 0x07), (''KMIP_OBJTYPE_OPAQUE_OBJECT'', 0x08),
     (''KMIP_OBJTYPE_PGP_KEY'', 0x09), (''KMIP_OBJTYPE_CERTIFICATE_REQUEST'', 0x0A)]"

definition operation_enum :: enumeration where
  "operation_enum =
    [(''KMIP_OP_CREATE'', 0x01), (''KMIP_OP_CREATE_KEY_PAIR'', 0x02), (''KMIP_OP_REGISTER'', 0x03),
     (''KMIP_OP_REKEY'', 0x04), (''KMIP_OP_DERIVE_KEY'', 0x05), (''KMIP_OP_CERTIFY'', 0x06),
     (''KMIP_OP_RECERTIFY'', 0x07), (''KMIP_OP_LOCATE'', 0x08), (''KMIP_OP_CHECK'', 0x09), (''KMIP_OP_GET'', 0x0A),
     (''KMIP_OP_GET_ATTRIBUTES'', 0x0B), (''KMIP_OP_GET_ATTRIBUTE_LIST'', 0x0C), (''KMIP_OP_ADD_ATTRIBUTE'', 0x0D),
     (''KMIP_OP_MODIFY_ATTRIBUTE'', 0x0E), (''KMIP_OP_DELETE_ATTRIBUTE'', 0x0F), (''KMIP_OP_OBTAIN_LEASE'', 0x10),
     (''KMIP_OP_GET_USAGE_ALLOCATION'', 0x11), (''KMIP_OP_ACTIVATE'', 0x12), (''KMIP_OP_REVOKE'', 0x13),
     (''KMIP_OP_DESTROY'', 0x14), (''KMIP_OP_ARCHIVE'', 0x15), (''KMIP_OP_RECOVER'', 0x16),
     (''KMIP_OP_VALIDATE'', 0x17), (''KMIP_OP_QUERY'', 0x18), (''KMIP_OP_CANCEL'', 0x19), (''KMIP_OP_POLL'', 0x1A),
     (''KMIP_OP_NOTIFY'', 0x1B), (''KMIP_OP_PUT'', 0x1C), (''KMIP_OP_REKEY_KEY_PAIR'', 0x1D),
     (''KMIP_OP_DISCOVER_VERSIONS'', 0x1E), (''KMIP_OP_ENCRYPT'', 0x1F), (''KMIP_OP_DECRYPT'', 0x20),
     (''KMIP_OP_SIGN'', 0x21), (''KMIP_OP_SIGNATURE_VERIFY'', 0x22), (''KMIP_OP_MAC'', 0x23),
     (''KMIP_OP_MAC_VERIFY'', 0x24), (''KMIP_OP_RNG_RETRIEVE'', 0x25), (''KMIP_OP_RNG_SEED'', 0x26),
     (''KMIP_OP_HASH'', 0x27), (''KMIP_OP_CREATE_SPLIT_KEY'', 0x28), (''KMIP_OP_JOIN_SPLIT_KEY'', 0x29),
     (''KMIP_OP_IMPORT'', 0x2A), (''KMIP_OP_EXPORT'', 0x2B), (''KMIP_OP_LOG'', 0x2C), (''KMIP_OP_LOGIN'', 0x2D),
     (''KMIP_OP_LOGOUT'', 0x2E), (''KMIP_OP_DELEGATED_LOGIN'', 0x2F), (''KMIP_OP_ADJUST_ATTRIBUTE'', 0x30),
     (''KMIP_OP_SET_ATTRIBUTE'', 0x31), (''KMIP_OP_SET_ENDPOINT_ROLE'', 0x32), (''KMIP_OP_PKCS_11'', 0x33),
     (''KMIP_OP_INTEROP'', 0x34), (''KMIP_OP_REPROVISION'', 0x35)]"

definition padding_method_enum :: enumeration where
  "padding_method_enum =
    [(''KMIP_PAD_NONE'', 0x01), (''KMIP_PAD_OAEP'', 0x02), (''KMIP_PAD_PKCS5'', 0x03), (''KMIP_PAD_SSL3'', 0x04),
     (''KMIP_PAD_ZEROS'', 0x05), (''KMIP_PAD_ANSI_X923'', 0x06), (''KMIP_PAD_ISO_10126'', 0x07),
     (''KMIP_PAD_PKCS1v15'', 0x08), (''KMIP_PAD_X931'', 0x09), (''KMIP_PAD_PSS'', 0x0A)]"

definition protection_storage_mask_enum :: enumeration where
  "protection_storage_mask_enum =
    [(''KMIP_PROTECT_SOFTWARE'', 0x01), (''KMIP_PROTECT_HARDWARE'', 0x02), (''KMIP_PROTECT_ON_PROCESSOR'', 0x04),
     (''KMIP_PROTECT_ON_SYSTEM'', 0x08), (''KMIP_PROTECT_OFF_SYSTEM'', 0x10), (''KMIP_PROTECT_HYPERVISOR'', 0x20),
     (''KMIP_PROTECT_OPERATING_SYSTEM'', 0x40), (''KMIP_PROTECT_CONTAINER'', 0x80),
     (''KMIP_PROTECT_ON_PREMISES'', 0x100), (''KMIP_PROTECT_OFF_PREMISES'', 0x200),
     (''KMIP_PROTECT_SELF_MANAGED'', 0x400), (''KMIP_PROTECT_OUTSOURCED'', 0x800),
     (''KMIP_PROTECT_VALIDATED'', 0x1000), (''KMIP_PROTECT_SAME_JURISDICTION'', 0x2000)]"

definition query_function_enum :: enumeration where
  "query_function_enum =
    [(''KMIP_QUERY_OPERATIONS'', 0x01), (''KMIP_QUERY_OBJECTS'', 0x02), (''KMIP_QUERY_SERVER_INFORMATION'', 0x03),
     (''KMIP_QUERY_APPLICATION_NAMESPACES'', 0x04), (''KMIP_QUERY_EXTENSION_LIST'', 0x05),
     (''KMIP_QUERY_EXTENSION_MAP'', 0x06), (''KMIP_QUERY_ATTESTATION_TYPES'', 0x07), (''KMIP_QUERY_RNGS'', 0x08),
     (''KMIP_QUERY_VALIDATIONS'', 0x09), (''KMIP_QUERY_PROFILES'', 0x0A), (''KMIP_QUERY_CAPABILITIES'', 0x0B),
     (''KMIP_QUERY_CLIENT_REGISTRATION_METHODS'', 0x0C), (''KMIP_QUERY_DEFAULTS_INFORMATION'', 0x0D),
     (''KMIP_QUERY_STORAGE_PROTECTION_MASKS'', 0x0E)]"

definition result_reason_enum :: enumeration where
  "result_reason_enum =
    [(''KMIP_REASON_GENERAL_FAILURE'', 0x100), (''KMIP_REASON_ITEM_NOT_FOUND'', 0x01),
     (''KMIP_REASON_RESPONSE_TOO_LARGE'', 0x02), (''KMIP_REASON_AUTHENTICATION_NOT_SUCCESSFUL'', 0x03),
     (''KMIP_REASON_INVALID_MESSAGE'', 0x04), (''KMIP_REASON_OPERATION_NOT_SUPPORTED'', 0x05),
     (''KMIP_REASON_MISSING_DATA'', 0x06), (''KMIP_REASON_INVALID_FIELD'', 0x07),
     (''KMIP_REASON_FEATURE_NOT_SUPPORTED'', 0x08), (''KMIP_REASON_OPERATION_CANCELED_BY_REQUESTER'', 0x09),
     (''KMIP_REASON_CRYPTOGRAPHIC_FAILURE'', 0x0A), (''KMIP_REASON_ILLEGAL_OPERATION'', 0x0B),
     (''KMIP_REASON_PERMISSION_DENIED'', 0x0C), (''KMIP_REASON_OBJECT_ARCHIVED'', 0x0D),
     (''KMIP_REASON_INDEX_OUT_OF_BOUNDS'', 0x0E), (''KMIP_REASON_APPLICATION_NAMESPACE_NOT_SUPPORTED'', 0x0F),
     (''KMIP_REASON_KEY_FORMAT_TYPE_NOT_SUPPORTED'', 0x10),
     (''KMIP_REASON_KEY_COMPRESSION_TYPE_NOT_SUPPORTED'', 0x11), (''KMIP_REASON_ENCODING_OPTION_FAILURE'', 0x12),
     (''KMIP_REASON_KEY_VALUE_NOT_PRESENT'', 0x13), (''KMIP_REASON_ATTESTATION_REQUIRED'', 0x14),
     (''KMIP_REASON_ATTESTATION_FAILED'', 0x15), (''KMIP_REASON_SENSITIVE'', 0x16),
     (''KMIP_REASON_NOT_EXTRACTABLE'', 0x17), (''KMIP_REASON_OBJECT_ALREADY_EXISTS'', 0x18),
     (''KMIP_REASON_INVALID_TICKET'', 0x19), (''KMIP_REASON_USAGE_LIMIT_EXCEEDED'', 0x1A),
     (''KMIP_REASON_NUMERIC_RANGE'', 0x1B), (''KMIP_REASON_INVALID_DATA_TYPE'', 0x1C),
     (''KMIP_REASON_READ_ONLY_ATTRIBUTE'', 0x1D), (''KMIP_REASON_MULTI_VALUED_ATTRIBUTE'', 0x1E),
     (''KMIP_REASON_UNSUPPORTED_ATTRIBUTE'', 0x1F), (''KMIP_REASON_ATTRIBUTE_INSTANCE_NOT_FOUND'', 0x20),
     (''KMIP_REASON_ATTRIBUTE_NOT_FOUND'', 0x21), (''KMIP_REASON_ATTRIBUTE_READ_ONLY'', 0x22),
     (''KMIP_REASON_ATTRIBUTE_SINGLE_VALUED'', 0x23), (''KMIP_REASON_BAD_CRYPTOGRAPHIC_PARAMETERS'', 0x24),
     (''KMIP_REASON_BAD_PASSWORD'', 0x25), (''KMIP_REASON_CODEC_ERROR'', 0x26),
     (''KMIP_REASON_ILLEGAL_OBJECT_TYPE'', 0x28), (''KMIP_REASON_INCOMPATIBLE_CRYPTOGRAPHIC_USAGE_MASK'', 0x29),
     (''KMIP_REASON_INTERNAL_SERVER_ERROR'', 0x2A), (''KMIP_REASON_INVALID_ASYNCHRONOUS_CORRELATION_VALUE'', 0x2B),
     (''KMIP_REASON_INVALID_ATTRIBUTE'', 0x2C), (''KMIP_REASON_INVALID_ATTRIBUTE_VALUE'', 0x2D),
     (''KMIP_REASON_INVALID_CORRELATION_VALUE'', 0x2E), (''KMIP_REASON_INVALID_CSR'', 0x2F),
     (''KMIP_REASON_INVALID_OBJECT_TYPE'', 0x30), (''KMIP_REASON_KEY_WRAP_TYPE_NOT_SUPPORTED'', 0x32),
     (''KMIP_REASON_MISSING_INITIALIZATION_VECTOR'', 0x34), (''KMIP_REASON_NON_UNIQUE_NAME_ATTRIBUTE'', 0x35),
     (''KMIP_REASON_OBJECT_DESTROYED'', 0x36), (''KMIP_REASON_OBJECT_NOT_FOUND'', 0x37),
     (''KMIP_REASON_NOT_AUTHORISED'', 0x39), (''KMIP_REASON_SERVER_LIMIT_EXCEEDED'', 0x3A),
     (''KMIP_REASON_UNKNOWN_ENUMERATION'', 0x3B), (''KMIP_REASON_UNKNOWN_MESSAGE_EXTENSION'', 0x3C),
     (''KMIP_REASON_UNKNOWN_TAG'', 0x3D), (''KMIP_REASON_UNSUPPORTED_CRYPTOGRAPHIC_PARAMETERS'', 0x3E),
     (''KMIP_REASON_UNSUPPORTED_PROTOCOL_VERSION'', 0x3F), (''KMIP_REASON_WRAPPING_OBJECT_ARCHIVED'', 0x40),
     (''KMIP_REASON_WRAPPING_OBJECT_DESTROYED'', 0x41), (''KMIP_REASON_WRAPPING_OBJECT_NOT_FOUND'', 0x42),
     (''KMIP_REASON_WRONG_KEY_LIFECYCLE_STATE'', 0x43), (''KMIP_REASON_PROTECTION_STORAGE_UNAVAILABLE'', 0x44),
     (''KMIP_REASON_PKCS11_CODEC_ERROR'', 0x45), (''KMIP_REASON_PKCS11_INVALID_FUNCTION'', 0x46),
     (''KMIP_REASON_PKCS11_INVALID_INTERFACE'', 0x47),
     (''KMIP_REASON_PRIVATE_PROTECTION_STORAGE_UNAVAILABLE'', 0x48),
     (''KMIP_REASON_PUBLIC_PROTECTION_STORAGE_UNAVAILABLE'', 0x49)]"

definition result_status_enum :: enumeration where
  "result_status_enum =
    [(''KMIP_STATUS_SUCCESS'', 0x00), (''KMIP_STATUS_OPERATION_FAILED'', 0x01),
     (''KMIP_STATUS_OPERATION_PENDING'', 0x02), (''KMIP_STATUS_OPERATION_UNDONE'', 0x03)]"

definition state_enum :: enumeration where
  "state_enum =
    [(''KMIP_STATE_PRE_ACTIVE'', 0x01), (''KMIP_STATE_ACTIVE'', 0x02), (''KMIP_STATE_DEACTIVATED'', 0x03),
     (''KMIP_STATE_COMPROMISED'', 0x04), (''KMIP_STATE_DESTROYED'', 0x05),
     (''KMIP_STATE_DESTROYED_COMPROMISED'', 0x06)]"

definition tag_enum :: enumeration where
  "tag_enum =
    [(''KMIP_TAG_TAG'', 0x00000000), (''KMIP_TAG_TYPE'', 0x00000001), (''KMIP_TAG_DEFAULT'', 0x00420000),
     (''KMIP_TAG_ACTIVATION_DATE'', 0x00420001), (''KMIP_TAG_APPLICATION_DATA'', 0x00420002),
     (''KMIP_TAG_APPLICATION_NAMESPACE'', 0x00420003), (''KMIP_TAG_APPLICATION_SPECIFIC_INFORMATION'', 0x00420004),
     (''KMIP_TAG_ATTRIBUTE_REFERENCE'', 0x00420005), (''KMIP_TAG_ASYNCHRONOUS_CORRELATION_VALUE'', 0x00420006),
     (''KMIP_TAG_ASYNCHRONOUS_INDICATOR'', 0x00420007), (''KMIP_TAG_ATTRIBUTE'', 0x00420008),
     (''KMIP_TAG_ATTRIBUTE_INDEX'', 0x00420009), (''KMIP_TAG_ATTRIBUTE_NAME'', 0x0042000A),
     (''KMIP_TAG_ATTRIBUTE_VALUE'', 0x0042000B), (''KMIP_TAG_AUTHENTICATION'', 0x0042000C),
     (''KMIP_TAG_BATCH_COUNT'', 0x0042000D), (''KMIP_TAG_BATCH_ERROR_CONTINUATION_OPTION'', 0x0042000E),
     (''KMIP_TAG_BATCH_ITEM'', 0x0042000F), (''KMIP_TAG_BATCH_ORDER_OPTION'', 0x00420010),
     (''KMIP_TAG_BLOCK_CIPHER_MODE'', 0x00420011), (''KMIP_TAG_COMPROMISE_OCCURRANCE_DATE'', 0x00420021),
     (''KMIP_TAG_CREDENTIAL'', 0x00420023), (''KMIP_TAG_CREDENTIAL_TYPE'', 0x00420024),
     (''KMIP_TAG_CREDENTIAL_VALUE'', 0x00420025), (''KMIP_TAG_CRYPTOGRAPHIC_ALGORITHM'', 0x00420028),
     (''KMIP_TAG_CRYPTOGRAPHIC_LENGTH'', 0x0042002A), (''KMIP_TAG_CRYPTOGRAPHIC_PARAMETERS'', 0x0042002B),
     (''KMIP_TAG_CRYPTOGRAPHIC_USAGE_MASK'', 0x0042002C), (''KMIP_TAG_DEACTIVATION_DATE'', 0x0042002F),
     (''KMIP_TAG_ENCRYPTION_KEY_INFORMATION'', 0x00420036), (''KMIP_TAG_HASHING_ALGORITHM'', 0x00420038),
     (''KMIP_TAG_IV_COUNTER_NONCE'', 0x0042003D), (''KMIP_TAG_KEY'', 0x0042003F),
     (''KMIP_TAG_KEY_BLOCK'', 0x00420040), (''KMIP_TAG_KEY_COMPRESSION_TYPE'', 0x00420041),
     (''KMIP_TAG_KEY_FORMAT_TYPE'', 0x00420042), (''KMIP_TAG_KEY_MATERIAL'', 0x00420043),
     (''KMIP_TAG_KEY_VALUE'', 0x00420045), (''KMIP_TAG_KEY_WRAPPING_DATA'', 0x00420046),
     (''KMIP_TAG_KEY_WRAPPING_SPECIFICATION'', 0x00420047), (''KMIP_TAG_MAC_SIGNATURE'', 0x0042004D),
     (''KMIP_TAG_MAC_SIGNATURE_KEY_INFORMATION'', 0x0042004E), (''KMIP_TAG_MAXIMUM_ITEMS'', 0x0042004F),
     (''KMIP_TAG_MAXIMUM_RESPONSE_SIZE'', 0x00420050), (''KMIP_TAG_NAME'', 0x00420053),
     (''KMIP_TAG_NAME_TYPE'', 0x00420054), (''KMIP_TAG_NAME_VALUE'', 0x00420055),
     (''KMIP_TAG_OBJECT_GROUP'', 0x00420056), (''KMIP_TAG_OBJECT_TYPE'', 0x00420057),
     (''KMIP_TAG_OPERATION'', 0x0042005C), (''KMIP_TAG_OPERATION_POLICY_NAME'', 0x0042005D),
     (''KMIP_TAG_PADDING_METHOD'', 0x0042005F), (''KMIP_TAG_PRIVATE_KEY'', 0x00420064),
     (''KMIP_TAG_PROCESS_START_DATE'', 0x00420067), (''KMIP_TAG_PROTECT_STOP_DATE'', 0x00420068),
     (''KMIP_TAG_PROTOCOL_VERSION'', 0x00420069), (''KMIP_TAG_PROTOCOL_VERSION_MAJOR'', 0x0042006A),
     (''KMIP_TAG_PROTOCOL_VERSION_MINOR'', 0x0042006B), (''KMIP_TAG_PUBLIC_KEY'', 0x0042006D),
     (''KMIP_TAG_QUERY_FUNCTION'', 0x00420074), (''KMIP_TAG_REQUEST_HEADER'', 0x00420077),
     (''KMIP_TAG_REQUEST_MESSAGE'', 0x00420078), (''KMIP_TAG_REQUEST_PAYLOAD'', 0x00420079),
     (''KMIP_TAG_RESPONSE_HEADER'', 0x0042007A), (''KMIP_TAG_RESPONSE_MESSAGE'', 0x0042007B),
     (''KMIP_TAG_RESPONSE_PAYLOAD'', 0x0042007C), (''KMIP_TAG_RESULT_MESSAGE'', 0x0042007D),
     (''KMIP_TAG_RESULT_REASON'', 0x0042007E), (''KMIP_TAG_RESULT_STATUS'', 0x0042007F),
     (''KMIP_TAG_REVOKATION_MESSAGE'', 0x00420080), (''KMIP_TAG_REVOCATION_REASON'', 0x00420081),
     (''KMIP_TAG_REVOCATION_REASON_CODE'', 0x00420082), (''KMIP_TAG_KEY_ROLE_TYPE'', 0x00420083),
     (''KMIP_TAG_SALT'', 0x00420084), (''KMIP_TAG_SECRET_DATA'', 0x00420085),
     (''KMIP_TAG_SECRET_DATA_TYPE'', 0x00420086), (''KMIP_TAG_SERVER_INFORMATION'', 0x00420088),
     (''KMIP_TAG_STATE'', 0x0042008D), (''KMIP_TAG_STORAGE_STATUS_MASK'', 0x0042008E),
     (''KMIP_TAG_SYMMETRIC_KEY'', 0x0042008F), (''KMIP_TAG_TEMPLATE_ATTRIBUTE'', 0x00420091),
     (''KMIP_TAG_TIME_STAMP'', 0x00420092), (''KMIP_TAG_UNIQUE_BATCH_ITEM_ID'', 0x00420093),
     (''KMIP_TAG_UNIQUE_IDENTIFIER'', 0x00420094), (''KMIP_TAG_USERNAME'', 0x00420099),
     (''KMIP_TAG_VENDOR_IDENTIFICATION'', 0x0042009D), (''KMIP_TAG_WRAPPING_METHOD'', 0x0042009E),
     (''KMIP_TAG_PASSWORD'', 0x004200A1), (''KMIP_TAG_DEVICE_IDENTIFIER'', 0x004200A2),
     (''KMIP_TAG_ENCODING_OPTION'', 0x004200A3), (''KMIP_TAG_MACHINE_IDENTIFIER'', 0x004200A9),
     (''KMIP_TAG_MEDIA_IDENTIFIER'', 0x004200AA), (''KMIP_TAG_NETWORK_IDENTIFIER'', 0x004200AB),
     (''KMIP_TAG_OBJECT_GROUP_MEMBER'', 0x004200AC), (''KMIP_TAG_DIGITAL_SIGNATURE_ALGORITHM'', 0x004200AE),
     (''KMIP_TAG_DEVICE_SERIAL_NUMBER'', 0x004200B0), (''KMIP_TAG_RANDOM_IV'', 0x004200C5),
     (''KMIP_TAG_ATTESTATION_TYPE'', 0x004200C7), (''KMIP_TAG_NONCE'', 0x004200C8),
     (''KMIP_TAG_NONCE_ID'', 0x004200C9), (''KMIP_TAG_NONCE_VALUE'', 0x004200CA),
     (''KMIP_TAG_ATTESTATION_MEASUREMENT'', 0x004200CB), (''KMIP_TAG_ATTESTATION_ASSERTION'', 0x004200CC),
     (''KMIP_TAG_IV_LENGTH'', 0x004200CD), (''KMIP_TAG_TAG_LENGTH'', 0x004200CE),
     (''KMIP_TAG_FIXED_FIELD_LENGTH'', 0x004200CF), (''KMIP_TAG_COUNTER_LENGTH'', 0x004200D0),
     (''KMIP_TAG_INITIAL_COUNTER_VALUE'', 0x004200D1), (''KMIP_TAG_INVOCATION_FIELD_LENGTH'', 0x004200D2),
     (''KMIP_TAG_ATTESTATION_CAPABLE_INDICATOR'', 0x004200D3), (''KMIP_TAG_OFFSET_ITEMS'', 0x004200D4),
     (''KMIP_TAG_LOCATED_ITEMS'', 0x004200D5), (''KMIP_TAG_KEY_WRAP_TYPE'', 0x004200F8),
     (''KMIP_TAG_SALT_LENGTH'', 0x00420100), (''KMIP_TAG_MASK_GENERATOR'', 0x00420101),
     (''KMIP_TAG_MASK_GENERATOR_HASHING_ALGORITHM'', 0x00420102), (''KMIP_TAG_P_SOURCE'', 0x00420103),
     (''KMIP_TAG_TRAILER_FIELD'', 0x00420104), (''KMIP_TAG_CLIENT_CORRELATION_VALUE'', 0x00420105),
     (''KMIP_TAG_SERVER_CORRELATION_VALUE'', 0x00420106), (''KMIP_TAG_ATTRIBUTES'', 0x00420125),
     (''KMIP_TAG_SERVER_NAME'', 0x0042012D), (''KMIP_TAG_SERVER_SERIAL_NUMBER'', 0x0042012E),
     (''KMIP_TAG_SERVER_VERSION'', 0x0042012F), (''KMIP_TAG_SERVER_LOAD'', 0x00420130),
     (''KMIP_TAG_PRODUCT_NAME'', 0x00420131), (''KMIP_TAG_BUILD_LEVEL'', 0x00420132),
     (''KMIP_TAG_BUILD_DATE'', 0x00420133), (''KMIP_TAG_CLUSTER_INFO'', 0x00420134),
     (''KMIP_TAG_ALTERNATE_FAILOVER_ENDPOINTS'', 0x00420135), (''KMIP_TAG_EPHEMERAL'', 0x00420154),
     (''KMIP_TAG_SERVER_HASHED_PASSWORD'', 0x00420155), (''KMIP_TAG_PROTECTION_STORAGE_MASK'', 0x0042015E),
     (''KMIP_TAG_PROTECTION_STORAGE_MASKS'', 0x0042015F), (''KMIP_TAG_COMMON_PROTECTION_STORAGE_MASKS'', 0x00420163),
     (''KMIP_TAG_PRIVATE_PROTECTION_STORAGE_MASKS'', 0x00420164),
     (''KMIP_TAG_PUBLIC_PROTECTION_STORAGE_MASKS'', 0x00420165)]"

definition type_enum :: enumeration where
  "type_enum =
    [(''KMIP_TYPE_STRUCTURE'', 0x01), (''KMIP_TYPE_INTEGER'', 0x02), (''KMIP_TYPE_LONG_INTEGER'', 0x03),
     (''KMIP_TYPE_BIG_INTEGER'', 0x04), (''KMIP_TYPE_ENUMERATION'', 0x05), (''KMIP_TYPE_BOOLEAN'', 0x06),
     (''KMIP_TYPE_TEXT_STRING'', 0x07), (''KMIP_TYPE_BYTE_STRING'', 0x08), (''KMIP_TYPE_DATE_TIME'', 0x09),
     (''KMIP_TYPE_INTERVAL'', 0x0A), (''KMIP_TYPE_DATE_TIME_EXTENDED'', 0x0B)]"

definition wrapping_method_enum :: enumeration where
  "wrapping_method_enum =
    [(''KMIP_WRAP_ENCRYPT'', 0x01), (''KMIP_WRAP_MAC_SIGN'', 0x02), (''KMIP_WRAP_ENCRYPT_MAC_SIGN'', 0x03),
     (''KMIP_WRAP_MAC_SIGN_ENCRYPT'', 0x04), (''KMIP_WRAP_TR31'', 0x05)]"

definition revocation_reason_type_enum :: enumeration where
  "revocation_reason_type_enum =
    [(''KMIP_REVOKE_UNSPECIFIED'', 0x00000001), (''KMIP_REVOKE_KEY_COMPROMISE'', 0x00000002),
     (''KMIP_REVOKE_CA_COMPROMISE'', 0x00000003), (''KMIP_REVOKE_AFFILIATION_CHANGED'', 0x00000004),
     (''KMIP_REVOKE_SUSPENDED'', 0x00000005), (''KMIP_REVOKE_CESSATION_OF_OPERATION'', 0x00000006),
     (''KMIP_REVOKE_PRIVILEDGE_WITHDRAWN'', 0x00000007), (''KMIP_REVOKE_EXTENSIONS'', 0x80000000)]"

definition secret_data_type_enum :: enumeration where
  "secret_data_type_enum =
    [(''KMIP_SECDATA_PASSWORD'', 0x00000001), (''KMIP_SECDATA_SEED'', 0x00000002),
     (''KMIP_SECDATA_EXTENSIONS'', 0x80000000)]"

section \<open>The constants for plain integers\<close>

definition attestation_type_constants :: legacy_constants where
  "attestation_type_constants =
    [(''KMIP_ATTEST_TPM_QUOTE'', ''KMIP_ATTEST_TPM_QUOTE''),
     (''KMIP_ATTEST_TCG_INTEGRITY_REPORT'', ''KMIP_ATTEST_TCG_INTEGRITY_REPORT''),
     (''KMIP_ATTEST_SAML_ASSERTION'', ''KMIP_ATTEST_SAML_ASSERTION'')]"

definition attribute_type_constants :: legacy_constants where
  "attribute_type_constants =
    [(''KMIP_ATTR_UNIQUE_IDENTIFIER'', ''KMIP_ATTR_UNIQUE_IDENTIFIER''), (''KMIP_ATTR_NAME'', ''KMIP_ATTR_NAME''),
     (''KMIP_ATTR_OBJECT_TYPE'', ''KMIP_ATTR_OBJECT_TYPE''),
     (''KMIP_ATTR_CRYPTOGRAPHIC_ALGORITHM'', ''KMIP_ATTR_CRYPTOGRAPHIC_ALGORITHM''),
     (''KMIP_ATTR_CRYPTOGRAPHIC_LENGTH'', ''KMIP_ATTR_CRYPTOGRAPHIC_LENGTH''),
     (''KMIP_ATTR_OPERATION_POLICY_NAME'', ''KMIP_ATTR_OPERATION_POLICY_NAME''),
     (''KMIP_ATTR_CRYPTOGRAPHIC_USAGE_MASK'', ''KMIP_ATTR_CRYPTOGRAPHIC_USAGE_MASK''),
     (''KMIP_ATTR_STATE'', ''KMIP_ATTR_STATE''),
     (''KMIP_ATTR_APPLICATION_SPECIFIC_INFORMATION'', ''KMIP_ATTR_APPLICATION_SPECIFIC_INFORMATION''),
     (''KMIP_ATTR_OBJECT_GROUP'', ''KMIP_ATTR_OBJECT_GROUP''),
     (''KMIP_ATTR_ACTIVATION_DATE'', ''KMIP_ATTR_ACTIVATION_DATE''),
     (''KMIP_ATTR_DEACTIVATION_DATE'', ''KMIP_ATTR_DEACTIVATION_DATE''),
     (''KMIP_ATTR_PROCESS_START_DATE'', ''KMIP_ATTR_PROCESS_START_DATE''),
     (''KMIP_ATTR_PROTECT_STOP_DATE'', ''KMIP_ATTR_PROTECT_STOP_DATE''),
     (''KMIP_ATTR_CRYPTOGRAPHIC_PARAMETERS'', ''KMIP_ATTR_CRYPTOGRAPHIC_PARAMETERS'')]"

definition batch_error_continuation_option_constants :: legacy_constants where
  "batch_error_continuation_option_constants =
    [(''KMIP_BATCH_CONTINUE'', ''KMIP_BATCH_CONTINUE''), (''KMIP_BATCH_STOP'', ''KMIP_BATCH_STOP''),
     (''KMIP_BATCH_UNDO'', ''KMIP_BATCH_UNDO'')]"

definition block_cipher_mode_constants :: legacy_constants where
  "block_cipher_mode_constants =
    [(''KMIP_BLOCK_CBC'', ''KMIP_BLOCK_CBC''), (''KMIP_BLOCK_ECB'', ''KMIP_BLOCK_ECB''),
     (''KMIP_BLOCK_PCBC'', ''KMIP_BLOCK_PCBC''), (''KMIP_BLOCK_CFB'', ''KMIP_BLOCK_CFB''),
     (''KMIP_BLOCK_OFB'', ''KMIP_BLOCK_OFB''), (''KMIP_BLOCK_CTR'', ''KMIP_BLOCK_CTR''),
     (''KMIP_BLOCK_CMAC'', ''KMIP_BLOCK_CMAC''), (''KMIP_BLOCK_CCM'', ''KMIP_BLOCK_CCM''),
     (''KMIP_BLOCK_GCM'', ''KMIP_BLOCK_GCM''), (''KMIP_BLOCK_CBC_MAC'', ''KMIP_BLOCK_CBC_MAC''),
     (''KMIP_BLOCK_XTS'', ''KMIP_BLOCK_XTS''),
     (''KMIP_BLOCK_AES_KEY_WRAP_PADDING'', ''KMIP_BLOCK_AES_KEY_WRAP_PADDING''),
     (''KMIP_BLOCK_NIST_KEY_WRAP'', ''KMIP_BLOCK_NIST_KEY_WRAP''),
     (''KMIP_BLOCK_X9102_AESKW'', ''KMIP_BLOCK_X9102_AESKW''),
     (''KMIP_BLOCK_X9102_TDKW'', ''KMIP_BLOCK_X9102_TDKW''), (''KMIP_BLOCK_X9102_AKW1'', ''KMIP_BLOCK_X9102_AKW1''),
     (''KMIP_BLOCK_X9102_AKW2'', ''KMIP_BLOCK_X9102_AKW2''), (''KMIP_BLOCK_AEAD'', ''KMIP_BLOCK_AEAD'')]"

definition credential_type_constants :: legacy_constants where
  "credential_type_constants =
    [(''KMIP_CRED_USERNAME_AND_PASSWORD'', ''KMIP_CRED_USERNAME_AND_PASSWORD''),
     (''KMIP_CRED_DEVICE'', ''KMIP_CRED_DEVICE''), (''KMIP_CRED_ATTESTATION'', ''KMIP_CRED_ATTESTATION''),
     (''KMIP_CRED_ONE_TIME_PASSWORD'', ''KMIP_CRED_ONE_TIME_PASSWORD''),
     (''KMIP_CRED_HASHED_PASSWORD'', ''KMIP_CRED_HASHED_PASSWORD''), (''KMIP_CRED_TICKET'', ''KMIP_CRED_TICKET'')]"

definition cryptographic_algorithm_constants :: legacy_constants where
  "cryptographic_algorithm_constants =
    [(''KMIP_CRYPTOALG_UNSET'', ''KMIP_CRYPTOALG_UNSET''), (''KMIP_CRYPTOALG_DES'', ''KMIP_CRYPTOALG_DES''),
     (''KMIP_CRYPTOALG_TRIPLE_DES'', ''KMIP_CRYPTOALG_TRIPLE_DES''),
     (''KMIP_CRYPTOALG_AES'', ''KMIP_CRYPTOALG_AES''), (''KMIP_CRYPTOALG_RSA'', ''KMIP_CRYPTOALG_RSA''),
     (''KMIP_CRYPTOALG_DSA'', ''KMIP_CRYPTOALG_DSA''), (''KMIP_CRYPTOALG_ECDSA'', ''KMIP_CRYPTOALG_ECDSA''),
     (''KMIP_CRYPTOALG_HMAC_SHA1'', ''KMIP_CRYPTOALG_HMAC_SHA1''),
     (''KMIP_CRYPTOALG_HMAC_SHA224'', ''KMIP_CRYPTOALG_HMAC_SHA224''),
     (''KMIP_CRYPTOALG_HMAC_SHA256'', ''KMIP_CRYPTOALG_HMAC_SHA256''),
     (''KMIP_CRYPTOALG_HMAC_SHA384'', ''KMIP_CRYPTOALG_HMAC_SHA384''),
     (''KMIP_CRYPTOALG_HMAC_SHA512'', ''KMIP_CRYPTOALG_HMAC_SHA512''),
     (''KMIP_CRYPTOALG_HMAC_MD5'', ''KMIP_CRYPTOALG_HMAC_MD5''), (''KMIP_CRYPTOALG_DH'', ''KMIP_CRYPTOALG_DH''),
     (''KMIP_CRYPTOALG_ECDH'', ''KMIP_CRYPTOALG_ECDH''), (''KMIP_CRYPTOALG_ECMQV'', ''KMIP_CRYPTOALG_ECMQV''),
     (''KMIP_CRYPTOALG_BLOWFISH'', ''KMIP_CRYPTOALG_BLOWFISH''),
     (''KMIP_CRYPTOALG_CAMELLIA'', ''KMIP_CRYPTOALG_CAMELLIA''),
     (''KMIP_CRYPTOALG_CAST5'', ''KMIP_CRYPTOALG_CAST5''), (''KMIP_CRYPTOALG_IDEA'', ''KMIP_CRYPTOALG_IDEA''),
     (''KMIP_CRYPTOALG_MARS'', ''KMIP_CRYPTOALG_MARS''), (''KMIP_CRYPTOALG_RC2'', ''KMIP_CRYPTOALG_RC2''),
     (''KMIP_CRYPTOALG_RC4'', ''KMIP_CRYPTOALG_RC4''), (''KMIP_CRYPTOALG_RC5'', ''KMIP_CRYPTOALG_RC5''),
     (''KMIP_CRYPTOALG_SKIPJACK'', ''KMIP_CRYPTOALG_SKIPJACK''),
     (''KMIP_CRYPTOALG_TWOFISH'', ''KMIP_CRYPTOALG_TWOFISH''), (''KMIP_CRYPTOALG_EC'', ''KMIP_CRYPTOALG_EC''),
     (''KMIP_CRYPTOALG_ONE_TIME_PAD'', ''KMIP_CRYPTOALG_ONE_TIME_PAD''),
     (''KMIP_CRYPTOALG_CHACHA20'', ''KMIP_CRYPTOALG_CHACHA20''),
     (''KMIP_CRYPTOALG_POLY1305'', ''KMIP_CRYPTOALG_POLY1305''),
     (''KMIP_CRYPTOALG_CHACHA20_POLY1305'', ''KMIP_CRYPTOALG_CHACHA20_POLY1305''),
     (''KMIP_CRYPTOALG_SHA3_224'', ''KMIP_CRYPTOALG_SHA3_224''),
     (''KMIP_CRYPTOALG_SHA3_256'', ''KMIP_CRYPTOALG_SHA3_256''),
     (''KMIP_CRYPTOALG_SHA3_384'', ''KMIP_CRYPTOALG_SHA3_384''),
     (''KMIP_CRYPTOALG_SHA3_512'', ''KMIP_CRYPTOALG_SHA3_512''),
     (''KMIP_CRYPTOALG_HMAC_SHA3_224'', ''KMIP_CRYPTOALG_HMAC_SHA3_224''),
     (''KMIP_CRYPTOALG_HMAC_SHA3_256'', ''KMIP_CRYPTOALG_HMAC_SHA3_256''),
     (''KMIP_CRYPTOALG_HMAC_SHA3_384'', ''KMIP_CRYPTOALG_HMAC_SHA3_384''),
     (''KMIP_CRYPTOALG_HMAC_SHA3_512'', ''KMIP_CRYPTOALG_HMAC_SHA3_512''),
     (''KMIP_CRYPTOALG_SHAKE_128'', ''KMIP_CRYPTOALG_SHAKE_128''),
     (''KMIP_CRYPTOALG_SHAKE_256'', ''KMIP_CRYPTOALG_SHAKE_256''),
     (''KMIP_CRYPTOALG_ARIA'', ''KMIP_CRYPTOALG_ARIA''), (''KMIP_CRYPTOALG_SEED'', ''KMIP_CRYPTOALG_SEED''),
     (''KMIP_CRYPTOALG_SM2'', ''KMIP_CRYPTOALG_SM2''), (''KMIP_CRYPTOALG_SM3'', ''KMIP_CRYPTOALG_SM3''),
     (''KMIP_CRYPTOALG_SM4'', ''KMIP_CRYPTOALG_SM4''),
     (''KMIP_CRYPTOALG_GOST_R_34_10_2012'', ''KMIP_CRYPTOALG_GOST_R_34_10_2012''),
     (''KMIP_CRYPTOALG_GOST_R_34_11_2012'', ''KMIP_CRYPTOALG_GOST_R_34_11_2012''),
     (''KMIP_CRYPTOALG_GOST_R_34_13_2015'', ''KMIP_CRYPTOALG_GOST_R_34_13_2015''),
     (''KMIP_CRYPTOALG_GOST_28147_89'', ''KMIP_CRYPTOALG_GOST_28147_89''),
     (''KMIP_CRYPTOALG_XMSS'', ''KMIP_CRYPTOALG_XMSS''),
     (''KMIP_CRYPTOALG_SPHINCS_256'', ''KMIP_CRYPTOALG_SPHINCS_256''),
     (''KMIP_CRYPTOALG_MCELIECE'', ''KMIP_CRYPTOALG_MCELIECE''),
     (''KMIP_CRYPTOALG_MCELIECE_6960119'', ''KMIP_CRYPTOALG_MCELIECE_6960119''),
     (''KMIP_CRYPTOALG_MCELIECE_8192128'', ''KMIP_CRYPTOALG_MCELIECE_8192128''),
     (''KMIP_CRYPTOALG_ED25519'', ''KMIP_CRYPTOALG_ED25519''), (''KMIP_CRYPTOALG_ED448'', ''KMIP_CRYPTOALG_ED448'')]"

definition cryptographic_usage_mask_constants :: legacy_constants where
  "cryptographic_usage_mask_constants =
    [(''KMIP_CRYPTOMASK_UNSET'', ''KMIP_CRYPTOMASK_UNSET''), (''KMIP_CRYPTOMASK_SIGN'', ''KMIP_CRYPTOMASK_SIGN''),
     (''KMIP_CRYPTOMASK_VERIFY'', ''KMIP_CRYPTOMASK_VERIFY''),
     (''KMIP_CRYPTOMASK_ENCRYPT'', ''KMIP_CRYPTOMASK_ENCRYPT''),
     (''KMIP_CRYPTOMASK_DECRYPT'', ''KMIP_CRYPTOMASK_DECRYPT''),
     (''KMIP_CRYPTOMASK_WRAP_KEY'', ''KMIP_CRYPTOMASK_WRAP_KEY''),
     (''KMIP_CRYPTOMASK_UNWRAP_KEY'', ''KMIP_CRYPTOMASK_UNWRAP_KEY''),
     (''KMIP_CRYPTOMASK_EXPORT'', ''KMIP_CRYPTOMASK_EXPORT''),
     (''KMIP_CRYPTOMASK_MAC_GENERATE'', ''KMIP_CRYPTOMASK_MAC_GENERATE''),
     (''KMIP_CRYPTOMASK_MAC_VERIFY'', ''KMIP_CRYPTOMASK_MAC_VERIFY''),
     (''KMIP_CRYPTOMASK_DERIVE_KEY'', ''KMIP_CRYPTOMASK_DERIVE_KEY''),
     (''KMIP_CRYPTOMASK_CONTENT_COMMITMENT'', ''KMIP_CRYPTOMASK_CONTENT_COMMITMENT''),
     (''KMIP_CRYPTOMASK_KEY_AGREEMENT'', ''KMIP_CRYPTOMASK_KEY_AGREEMENT''),
     (''KMIP_CRYPTOMASK_CERTIFICATE_SIGN'', ''KMIP_CRYPTOMASK_CERTIFICATE_SIGN''),
     (''KMIP_CRYPTOMASK_CRL_SIGN'', ''KMIP_CRYPTOMASK_CRL_SIGN''),
     (''KMIP_CRYPTOMASK_GENERATE_CRYPTOGRAM'', ''KMIP_CRYPTOMASK_GENERATE_CRYPTOGRAM''),
     (''KMIP_CRYPTOMASK_VALIDATE_CRYPTOGRAM'', ''KMIP_CRYPTOMASK_VALIDATE_CRYPTOGRAM''),
     (''KMIP_CRYPTOMASK_TRANSLATE_ENCRYPT'', ''KMIP_CRYPTOMASK_TRANSLATE_ENCRYPT''),
     (''KMIP_CRYPTOMASK_TRANSLATE_DECRYPT'', ''KMIP_CRYPTOMASK_TRANSLATE_DECRYPT''),
     (''KMIP_CRYPTOMASK_TRANSLATE_WRAP'', ''KMIP_CRYPTOMASK_TRANSLATE_WRAP''),
     (''KMIP_CRYPTOMASK_TRANSLATE_UNWRAP'', ''KMIP_CRYPTOMASK_TRANSLATE_UNWRAP''),
     (''KMIP_CRYPTOMASK_AUTHENTICATE'', ''KMIP_CRYPTOMASK_AUTHENTICATE''),
     (''KMIP_CRYPTOMASK_UNRESTRICTED'', ''KMIP_CRYPTOMASK_UNRESTRICTED''),
     (''KMIP_CRYPTOMASK_FPE_ENCRYPT'', ''KMIP_CRYPTOMASK_FPE_ENCRYPT''),
     (''KMIP_CRYPTOMASK_FPE_DECRYPT'', ''KMIP_CRYPTOMASK_FPE_DECRYPT'')]"

definition digital_signature_algorithm_constants :: legacy_constants where
  "digital_signature_algorithm_constants =
    [(''KMIP_DIGITAL_MD2_WITH_RSA'', ''KMIP_DIGITAL_MD2_WITH_RSA''),
     (''KMIP_DIGITAL_MD5_WITH_RSA'', ''KMIP_DIGITAL_MD5_WITH_RSA''),
     (''KMIP_DIGITAL_SHA1_WITH_RSA'', ''KMIP_DIGITAL_SHA1_WITH_RSA''),
     (''KMIP_DIGITAL_SHA224_WITH_RSA'', ''KMIP_DIGITAL_SHA224_WITH_RSA''),
     (''KMIP_DIGITAL_SHA256_WITH_RSA'', ''KMIP_DIGITAL_SHA256_WITH_RSA''),
     (''KMIP_DIGITAL_SHA384_WITH_RSA'', ''KMIP_DIGITAL_SHA384_WITH_RSA''),
     (''KMIP_DIGITAL_SHA512_WITH_RSA'', ''KMIP_DIGITAL_SHA512_WITH_RSA''),
     (''KMIP_DIGITAL_RSASSA_PSS'', ''KMIP_DIGITAL_RSASSA_PSS''),
     (''KMIP_DIGITAL_DSA_WITH_SHA1'', ''KMIP_DIGITAL_DSA_WITH_SHA1''),
     (''KMIP_DIGITAL_DSA_WITH_SHA224'', ''KMIP_DIGITAL_DSA_WITH_SHA224''),
     (''KMIP_DIGITAL_DSA_WITH_SHA256'', ''KMIP_DIGITAL_DSA_WITH_SHA256''),
     (''KMIP_DIGITAL_ECDSA_WITH_SHA1'', ''KMIP_DIGITAL_ECDSA_WITH_SHA1''),
     (''KMIP_DIGITAL_ECDSA_WITH_SHA224'', ''KMIP_DIGITAL_ECDSA_WITH_SHA224''),
     (''KMIP_DIGITAL_ECDSA_WITH_SHA256'', ''KMIP_DIGITAL_ECDSA_WITH_SHA256''),
     (''KMIP_DIGITAL_ECDSA_WITH_SHA384'', ''KMIP_DIGITAL_ECDSA_WITH_SHA384''),
     (''KMIP_DIGITAL_ECDSA_WITH_SHA512'', ''KMIP_DIGITAL_ECDSA_WITH_SHA512''),
     (''KMIP_DIGITAL_SHA3_256_WITH_RSA'', ''KMIP_DIGITAL_SHA3_256_WITH_RSA''),
     (''KMIP_DIGITAL_SHA3_384_WITH_RSA'', ''KMIP_DIGITAL_SHA3_384_WITH_RSA''),
     (''KMIP_DIGITAL_SHA3_512_WITH_RSA'', ''KMIP_DIGITAL_SHA3_512_WITH_RSA'')]"

definition encoding_option_constants :: legacy_constants where
  "encoding_option_constants =
    [(''KMIP_ENCODE_NO_ENCODING'', ''KMIP_ENCODE_NO_ENCODING''),
     (''KMIP_ENCODE_TTLV_ENCODING'', ''KMIP_ENCODE_TTLV_ENCODING'')]"

definition hashing_algorithm_constants :: legacy_constants where
  "hashing_algorithm_constants =
    [(''KMIP_HASH_MD2'', ''KMIP_HASH_MD2''), (''KMIP_HASH_MD4'', ''KMIP_HASH_MD4''),
     (''KMIP_HASH_MD5'', ''KMIP_HASH_MD5''), (''KMIP_HASH_SHA1'', ''KMIP_HASH_SHA1''),
     (''KMIP_HASH_SHA224'', ''KMIP_HASH_SHA224''), (''KMIP_HASH_SHA256'', ''KMIP_HASH_SHA256''),
     (''KMIP_HASH_SHA384'', ''KMIP_HASH_SHA384''), (''KMIP_HASH_SHA512'', ''KMIP_HASH_SHA512''),
     (''KMIP_HASH_RIPEMD160'', ''KMIP_HASH_RIPEMD160''), (''KMIP_HASH_TIGER'', ''KMIP_HASH_TIGER''),
     (''KMIP_HASH_WHIRLPOOL'', ''KMIP_HASH_WHIRLPOOL''), (''KMIP_HASH_SHA512_224'', ''KMIP_HASH_SHA512_224''),
     (''KMIP_HASH_SHA512_256'', ''KMIP_HASH_SHA512_256''), (''KMIP_HASH_SHA3_224'', ''KMIP_HASH_SHA3_224''),
     (''KMIP_HASH_SHA3_256'', ''KMIP_HASH_SHA3_256''), (''KMIP_HASH_SHA3_384'', ''KMIP_HASH_SHA3_384''),
     (''KMIP_HASH_SHA3_512'', ''KMIP_HASH_SHA3_512'')]"

definition key_compression_type_constants :: legacy_constants where
  "key_compression_type_constants =
    [(''KMIP_KEYCOMP_EC_PUB_UNCOMPRESSED'', ''KMIP_KEYCOMP_EC_PUB_UNCOMPRESSED''),
     (''KMIP_KEYCOMP_EC_PUB_X962_COMPRESSED_PRIME'', ''KMIP_KEYCOMP_EC_PUB_X962_COMPRESSED_PRIME''),
     (''KMIP_KEYCOMP_EC_PUB_X962_COMPRESSED_CHAR2'', ''KMIP_KEYCOMP_EC_PUB_X962_COMPRESSED_CHAR2''),
     (''KMIP_KEYCOMP_EC_PUB_X962_HYBRID'', ''KMIP_KEYCOMP_EC_PUB_X962_HYBRID'')]"

definition key_format_type_constants :: legacy_constants where
  "key_format_type_constants =
    [(''KMIP_KEYFORMAT_RAW'', ''KMIP_KEYFORMAT_RAW''), (''KMIP_KEYFORMAT_OPAQUE'', ''KMIP_KEYFORMAT_OPAQUE''),
     (''KMIP_KEYFORMAT_PKCS1'', ''KMIP_KEYFORMAT_PKCS1''), (''KMIP_KEYFORMAT_PKCS8'', ''KMIP_KEYFORMAT_PKCS8''),
     (''KMIP_KEYFORMAT_X509'', ''KMIP_KEYFORMAT_X509''),
     (''KMIP_KEYFORMAT_EC_PRIVATE_KEY'', ''KMIP_KEYFORMAT_EC_PRIVATE_KEY''),
     (''KMIP_KEYFORMAT_TRANS_SYMMETRIC_KEY'', ''KMIP_KEYFORMAT_TRANS_SYMMETRIC_KEY''),
     (''KMIP_KEYFORMAT_TRANS_DSA_PRIVATE_KEY'', ''KMIP_KEYFORMAT_TRANS_DSA_PRIVATE_KEY''),
     (''KMIP_KEYFORMAT_TRANS_DSA_PUBLIC_KEY'', ''KMIP_KEYFORMAT_TRANS_DSA_PUBLIC_KEY''),
     (''KMIP_KEYFORMAT_TRANS_RSA_PRIVATE_KEY'', ''KMIP_KEYFORMAT_TRANS_RSA_PRIVATE_KEY''),
     (''KMIP_KEYFORMAT_TRANS_RSA_PUBLIC_KEY'', ''KMIP_KEYFORMAT_TRANS_RSA_PUBLIC_KEY''),
     (''KMIP_KEYFORMAT_TRANS_DH_PRIVATE_KEY'', ''KMIP_KEYFORMAT_TRANS_DH_PRIVATE_KEY''),
     (''KMIP_KEYFORMAT_TRANS_DH_PUBLIC_KEY'', ''KMIP_KEYFORMAT_TRANS_DH_PUBLIC_KEY''),
     (''KMIP_KEYFORMAT_TRANS_ECDSA_PRIVATE_KEY'', ''KMIP_KEYFORMAT_TRANS_ECDSA_PRIVATE_KEY''),
     (''KMIP_KEYFORMAT_TRANS_ECDSA_PUBLIC_KEY'', ''KMIP_KEYFORMAT_TRANS_ECDSA_PUBLIC_KEY''),
     (''KMIP_KEYFORMAT_TRANS_ECDH_PRIVATE_KEY'', ''KMIP_KEYFORMAT_TRANS_ECDH_PRIVATE_KEY''),
     (''KMIP_KEYFORMAT_TRANS_ECDH_PUBLIC_KEY'', ''KMIP_KEYFORMAT_TRANS_ECDH_PUBLIC_KEY''),
     (''KMIP_KEYFORMAT_TRANS_ECMQV_PRIVATE_KEY'', ''KMIP_KEYFORMAT_TRANS_ECMQV_PRIVATE_KEY''),
     (''KMIP_KEYFORMAT_TRANS_ECMQV_PUBLIC_KEY'', ''KMIP_KEYFORMAT_TRANS_ECMQV_PUBLIC_KEY''),
     (''KMIP_KEYFORMAT_TRANS_EC_PRIVATE_KEY'', ''KMIP_KEYFORMAT_TRANS_EC_PRIVATE_KEY''),
     (''KMIP_KEYFORMAT_TRANS_EC_PUBLIC_KEY'', ''KMIP_KEYFORMAT_TRANS_EC_PUBLIC_KEY''),
     (''KMIP_KEYFORMAT_PKCS12'', ''KMIP_KEYFORMAT_PKCS12''), (''KMIP_KEYFORMAT_PKCS10'', ''KMIP_KEYFORMAT_PKCS10'')]"

definition key_role_type_constants :: legacy_constants where
  "key_role_type_constants =
    [(''KMIP_ROLE_BDK'', ''KMIP_ROLE_BDK''), (''KMIP_ROLE_CVK'', ''KMIP_ROLE_CVK''),
     (''KMIP_ROLE_DEK'', ''KMIP_ROLE_DEK''), (''KMIP_ROLE_MKAC'', ''KMIP_ROLE_MKAC''),
     (''KMIP_ROLE_MKSMC'', ''KMIP_ROLE_MKSMC''), (''KMIP_ROLE_MKSMI'', ''KMIP_ROLE_MKSMI''),
     (''KMIP_ROLE_MKDAC'', ''KMIP_ROLE_MKDAC''), (''KMIP_ROLE_MKDN'', ''KMIP_ROLE_MKDN''),
     (''KMIP_ROLE_MKCP'', ''KMIP_ROLE_MKCP''), (''KMIP_ROLE_MKOTH'', ''KMIP_ROLE_MKOTH''),
     (''KMIP_ROLE_KEK'', ''KMIP_ROLE_KEK''), (''KMIP_ROLE_MAC16609'', ''KMIP_ROLE_MAC16609''),
     (''KMIP_ROLE_MAC97971'', ''KMIP_ROLE_MAC97971''), (''KMIP_ROLE_MAC97972'', ''KMIP_ROLE_MAC97972''),
     (''KMIP_ROLE_MAC97973'', ''KMIP_ROLE_MAC97973''), (''KMIP_ROLE_MAC97974'', ''KMIP_ROLE_MAC97974''),
     (''KMIP_ROLE_MAC97975'', ''KMIP_ROLE_MAC97975''), (''KMIP_ROLE_ZPK'', ''KMIP_ROLE_ZPK''),
     (''KMIP_ROLE_PVKIBM'', ''KMIP_ROLE_PVKIBM''), (''KMIP_ROLE_PVKPVV'', ''KMIP_ROLE_PVKPVV''),
     (''KMIP_ROLE_PVKOTH'', ''KMIP_ROLE_PVKOTH''), (''KMIP_ROLE_DUKPT'', ''KMIP_ROLE_DUKPT''),
     (''KMIP_ROLE_IV'', ''KMIP_ROLE_IV''), (''KMIP_ROLE_TRKBK'', ''KMIP_ROLE_TRKBK'')]"

definition key_wrap_type_constants :: legacy_constants where
  "key_wrap_type_constants =
    [(''KMIP_WRAPTYPE_NOT_WRAPPED'', ''KMIP_WRAPTYPE_NOT_WRAPPED''),
     (''KMIP_WRAPTYPE_AS_REGISTERED'', ''KMIP_WRAPTYPE_AS_REGISTERED'')]"

definition mask_generator_constants :: legacy_constants where
  "mask_generator_constants =
    [(''KMIP_MASKGEN_MGF1'', ''KMIP_MASKGEN_MGF1'')]"

definition name_type_constants :: legacy_constants where
  "name_type_constants =
    [(''KMIP_NAME_UNINTERPRETED_TEXT_STRING'', ''KMIP_NAME_UNINTERPRETED_TEXT_STRING''),
     (''KMIP_NAME_URI'', ''KMIP_NAME_URI'')]"

definition object_type_constants :: legacy_constants where
  "object_type_constants =
    [(''KMIP_OBJTYPE_CERTIFICATE'', ''KMIP_OBJTYPE_CERTIFICATE''),
     (''KMIP_OBJTYPE_SYMMETRIC_KEY'', ''KMIP_OBJTYPE_SYMMETRIC_KEY''),
     (''KMIP_OBJTYPE_PUBLIC_KEY'', ''KMIP_OBJTYPE_PUBLIC_KEY''),
     (''KMIP_OBJTYPE_PRIVATE_KEY'', ''KMIP_OBJTYPE_PRIVATE_KEY''),
     (''KMIP_OBJTYPE_SPLIT_KEY'', ''KMIP_OBJTYPE_SPLIT_KEY''),
     (''KMIP_OBJTYPE_TEMPLATE'', ''KMIP_OBJTYPE_TEMPLATE''),
     (''KMIP_OBJTYPE_SECRET_DATA'', ''KMIP_OBJTYPE_SECRET_DATA''),
     (''KMIP_OBJTYPE_OPAQUE_OBJECT'', ''KMIP_OBJTYPE_OPAQUE_OBJECT''),
     (''KMIP_OBJTYPE_PGP_KEY'', ''KMIP_OBJTYPE_PGP_KEY''),
     (''KMIP_OBJTYPE_CERTIFICATE_REQUEST'', ''KMIP_OBJTYPE_CERTIFICATE_REQUEST'')]"

definition operation_constants :: legacy_constants where
  "operation_constants =
    [(''KMIP_OP_CREATE'', ''KMIP_OP_CREATE''), (''KMIP_OP_CREATE_KEY_PAIR'', ''KMIP_OP_CREATE_KEY_PAIR''),
     (''KMIP_OP_REGISTER'', ''KMIP_OP_REGISTER''), (''KMIP_OP_REKEY'', ''KMIP_OP_REKEY''),
     (''KMIP_OP_DERIVE_KEY'', ''KMIP_OP_DERIVE_KEY''), (''KMIP_OP_CERTIFY'', ''KMIP_OP_CERTIFY''),
     (''KMIP_OP_RECERTIFY'', ''KMIP_OP_RECERTIFY''), (''KMIP_OP_LOCATE'', ''KMIP_OP_LOCATE''),
     (''KMIP_OP_CHECK'', ''KMIP_OP_CHECK''), (''KMIP_OP_GET'', ''KMIP_OP_GET''),
     (''KMIP_OP_GET_ATTRIBUTES'', ''KMIP_OP_GET_ATTRIBUTES''),
     (''KMIP_OP_GET_ATTRIBUTE_LIST'', ''KMIP_OP_GET_ATTRIBUTE_LIST''),
     (''KMIP_OP_ADD_ATTRIBUTE'', ''KMIP_OP_ADD_ATTRIBUTE''),
     (''KMIP_OP_MODIFY_ATTRIBUTE'', ''KMIP_OP_MODIFY_ATTRIBUTE''),
     (''KMIP_OP_DELETE_ATTRIBUTE'', ''KMIP_OP_DELETE_ATTRIBUTE''),
     (''KMIP_OP_OBTAIN_LEASE'', ''KMIP_OP_OBTAIN_LEASE''),
     (''KMIP_OP_GET_USAGE_ALLOCATION'', ''KMIP_OP_GET_USAGE_ALLOCATION''),
     (''KMIP_OP_ACTIVATE'', ''KMIP_OP_ACTIVATE''), (''KMIP_OP_REVOKE'', ''KMIP_OP_REVOKE''),
     (''KMIP_OP_DESTROY'', ''KMIP_OP_DESTROY''), (''KMIP_OP_ARCHIVE'', ''KMIP_OP_ARCHIVE''),
     (''KMIP_OP_RECOVER'', ''KMIP_OP_RECOVER''), (''KMIP_OP_VALIDATE'', ''KMIP_OP_VALIDATE''),
     (''KMIP_OP_QUERY'', ''KMIP_OP_QUERY''), (''KMIP_OP_CANCEL'', ''KMIP_OP_CANCEL''),
     (''KMIP_OP_POLL'', ''KMIP_OP_POLL''), (''KMIP_OP_NOTIFY'', ''KMIP_OP_NOTIFY''),
     (''KMIP_OP_PUT'', ''KMIP_OP_PUT''), (''KMIP_OP_REKEY_KEY_PAIR'', ''KMIP_OP_REKEY_KEY_PAIR''),
     (''KMIP_OP_DISCOVER_VERSIONS'', ''KMIP_OP_DISCOVER_VERSIONS''), (''KMIP_OP_ENCRYPT'', ''KMIP_OP_ENCRYPT''),
     (''KMIP_OP_DECRYPT'', ''KMIP_OP_DECRYPT''), (''KMIP_OP_SIGN'', ''KMIP_OP_SIGN''),
     (''KMIP_OP_SIGNATURE_VERIFY'', ''KMIP_OP_SIGNATURE_VERIFY''), (''KMIP_OP_MAC'', ''KMIP_OP_MAC''),
     (''KMIP_OP_MAC_VERIFY'', ''KMIP_OP_MAC_VERIFY''), (''KMIP_OP_RNG_RETRIEVE'', ''KMIP_OP_RNG_RETRIEVE''),
     (''KMIP_OP_RNG_SEED'', ''KMIP_OP_RNG_SEED''), (''KMIP_OP_HASH'', ''KMIP_OP_HASH''),
     (''KMIP_OP_CREATE_SPLIT_KEY'', ''KMIP_OP_CREATE_SPLIT_KEY''),
     (''KMIP_OP_JOIN_SPLIT_KEY'', ''KMIP_OP_JOIN_SPLIT_KEY''), (''KMIP_OP_IMPORT'', ''KMIP_OP_IMPORT''),
     (''KMIP_OP_EXPORT'', ''KMIP_OP_EXPORT''), (''KMIP_OP_LOG'', ''KMIP_OP_LOG''),
     (''KMIP_OP_LOGIN'', ''KMIP_OP_LOGIN''), (''KMIP_OP_LOGOUT'', ''KMIP_OP_LOGOUT''),
     (''KMIP_OP_DELEGATED_LOGIN'', ''KMIP_OP_DELEGATED_LOGIN''),
     (''KMIP_OP_ADJUST_ATTRIBUTE'', ''KMIP_OP_ADJUST_ATTRIBUTE''),
     (''KMIP_OP_SET_ATTRIBUTE'', ''KMIP_OP_SET_ATTRIBUTE''),
     (''KMIP_OP_SET_ENDPOINT_ROLE'', ''KMIP_OP_SET_ENDPOINT_ROLE''), (''KMIP_OP_PKCS_11'', ''KMIP_OP_PKCS_11''),
     (''KMIP_OP_INTEROP'', ''KMIP_OP_INTEROP''), (''KMIP_OP_REPROVISION'', ''KMIP_OP_REPROVISION'')]"

definition padding_method_constants :: legacy_constants where
  "padding_method_constants =
    [(''KMIP_PAD_NONE'', ''KMIP_PAD_NONE''), (''KMIP_PAD_OAEP'', ''KMIP_PAD_OAEP''),
     (''KMIP_PAD_PKCS5'', ''KMIP_PAD_PKCS5''), (''KMIP_PAD_SSL3'', ''KMIP_PAD_SSL3''),
     (''KMIP_PAD_ZEROS'', ''KMIP_PAD_ZEROS''), (''KMIP_PAD_ANSI_X923'', ''KMIP_PAD_ANSI_X923''),
     (''KMIP_PAD_ISO_10126'', ''KMIP_PAD_ISO_10126''), (''KMIP_PAD_X931'', ''KMIP_PAD_X931''),
     (''KMIP_PAD_PSS'', ''KMIP_PAD_PSS'')]"

definition protection_storage_mask_constants :: legacy_constants where
  "protection_storage_mask_constants =
    [(''KMIP_PROTECT_SOFTWARE'', ''KMIP_PROTECT_SOFTWARE''), (''KMIP_PROTECT_HARDWARE'', ''KMIP_PROTECT_HARDWARE''),
     (''KMIP_PROTECT_ON_PROCESSOR'', ''KMIP_PROTECT_ON_PROCESSOR''),
     (''KMIP_PROTECT_ON_SYSTEM'', ''KMIP_PROTECT_ON_SYSTEM''),
     (''KMIP_PROTECT_OFF_SYSTEM'', ''KMIP_PROTECT_OFF_SYSTEM''),
     (''KMIP_PROTECT_HYPERVISOR'', ''KMIP_PROTECT_HYPERVISOR''),
     (''KMIP_PROTECT_OPERATING_SYSTEM'', ''KMIP_PROTECT_OPERATING_SYSTEM''),
     (''KMIP_PROTECT_CONTAINER'', ''KMIP_PROTECT_CONTAINER''),
     (''KMIP_PROTECT_ON_PREMISES'', ''KMIP_PROTECT_ON_PREMISES''),
     (''KMIP_PROTECT_OFF_PREMISES'', ''KMIP_PROTECT_OFF_PREMISES''),
     (''KMIP_PROTECT_SELF_MANAGED'', ''KMIP_PROTECT_SELF_MANAGED''),
     (''KMIP_PROTECT_OUTSOURCED'', ''KMIP_PROTECT_OUTSOURCED''),
     (''KMIP_PROTECT_VALIDATED'', ''KMIP_PROTECT_VALIDATED''),
     (''KMIP_PROTECT_SAME_JURISDICTION'', ''KMIP_PROTECT_SAME_JURISDICTION'')]"

definition query_function_constants :: legacy_constants where
  "query_function_constants =
    [(''KMIP_QUERY_OPERATIONS'', ''KMIP_QUERY_OPERATIONS''), (''KMIP_QUERY_OBJECTS'', ''KMIP_QUERY_OBJECTS''),
     (''KMIP_QUERY_SERVER_INFORMATION'', ''KMIP_QUERY_SERVER_INFORMATION''),
     (''KMIP_QUERY_APPLICATION_NAMESPACES'', ''KMIP_QUERY_APPLICATION_NAMESPACES''),
     (''KMIP_QUERY_EXTENSION_LIST'', ''KMIP_QUERY_EXTENSION_LIST''),
     (''KMIP_QUERY_EXTENSION_MAP'', ''KMIP_QUERY_EXTENSION_MAP''),
     (''KMIP_QUERY_ATTESTATION_TYPES'', ''KMIP_QUERY_ATTESTATION_TYPES''),
     (''KMIP_QUERY_RNGS'', ''KMIP_QUERY_RNGS''), (''KMIP_QUERY_VALIDATIONS'', ''KMIP_QUERY_VALIDATIONS''),
     (''KMIP_QUERY_PROFILES'', ''KMIP_QUERY_PROFILES''), (''KMIP_QUERY_CAPABILITIES'', ''KMIP_QUERY_CAPABILITIES''),
     (''KMIP_QUERY_CLIENT_REGISTRATION_METHODS'', ''KMIP_QUERY_CLIENT_REGISTRATION_METHODS''),
     (''KMIP_QUERY_DEFAULTS_INFORMATION'', ''KMIP_QUERY_DEFAULTS_INFORMATION''),
     (''KMIP_QUERY_STORAGE_PROTECTION_MASKS'', ''KMIP_QUERY_STORAGE_PROTECTION_MASKS'')]"

definition result_reason_constants :: legacy_constants where
  "result_reason_constants =
    [(''KMIP_REASON_GENERAL_FAILURE'', ''KMIP_REASON_GENERAL_FAILURE''),
     (''KMIP_REASON_ITEM_NOT_FOUND'', ''KMIP_REASON_ITEM_NOT_FOUND''),
     (''KMIP_REASON_RESPONSE_TOO_LARGE'', ''KMIP_REASON_RESPONSE_TOO_LARGE''),
     (''KMIP_REASON_AUTHENTICATION_NOT_SUCCESSFUL'', ''KMIP_REASON_AUTHENTICATION_NOT_SUCCESSFUL''),
     (''KMIP_REASON_INVALID_MESSAGE'', ''KMIP_REASON_INVALID_MESSAGE''),
     (''KMIP_REASON_OPERATION_NOT_SUPPORTED'', ''KMIP_REASON_OPERATION_NOT_SUPPORTED''),
     (''KMIP_REASON_MISSING_DATA'', ''KMIP_REASON_MISSING_DATA''),
     (''KMIP_REASON_INVALID_FIELD'', ''KMIP_REASON_INVALID_FIELD''),
     (''KMIP_REASON_FEATURE_NOT_SUPPORTED'', ''KMIP_REASON_FEATURE_NOT_SUPPORTED''),
     (''KMIP_REASON_OPERATION_CANCELED_BY_REQUESTER'', ''KMIP_REASON_OPERATION_CANCELED_BY_REQUESTER''),
     (''KMIP_REASON_CRYPTOGRAPHIC_FAILURE'', ''KMIP_REASON_CRYPTOGRAPHIC_FAILURE''),
     (''KMIP_REASON_ILLEGAL_OPERATION'', ''KMIP_REASON_ILLEGAL_OPERATION''),
     (''KMIP_REASON_PERMISSION_DENIED'', ''KMIP_REASON_PERMISSION_DENIED''),
     (''KMIP_REASON_OBJECT_ARCHIVED'', ''KMIP_REASON_OBJECT_ARCHIVED''),
     (''KMIP_REASON_INDEX_OUT_OF_BOUNDS'', ''KMIP_REASON_INDEX_OUT_OF_BOUNDS''),
     (''KMIP_REASON_APPLICATION_NAMESPACE_NOT_SUPPORTED'', ''KMIP_REASON_APPLICATION_NAMESPACE_NOT_SUPPORTED''),
     (''KMIP_REASON_KEY_FORMAT_TYPE_NOT_SUPPORTED'', ''KMIP_REASON_KEY_FORMAT_TYPE_NOT_SUPPORTED''),
     (''KMIP_REASON_KEY_COMPRESSION_TYPE_NOT_SUPPORTED'', ''KMIP_REASON_KEY_COMPRESSION_TYPE_NOT_SUPPORTED''),
     (''KMIP_REASON_ENCODING_OPTION_FAILURE'', ''KMIP_REASON_ENCODING_OPTION_FAILURE''),
     (''KMIP_REASON_KEY_VALUE_NOT_PRESENT'', ''KMIP_REASON_KEY_VALUE_NOT_PRESENT''),
     (''KMIP_REASON_ATTESTATION_REQUIRED'', ''KMIP_REASON_ATTESTATION_REQUIRED''),
     (''KMIP_REASON_ATTESTATION_FAILED'', ''KMIP_REASON_ATTESTATION_FAILED''),
     (''KMIP_REASON_SENSITIVE'', ''KMIP_REASON_SENSITIVE''),
     (''KMIP_REASON_NOT_EXTRACTABLE'', ''KMIP_REASON_NOT_EXTRACTABLE''),
     (''KMIP_REASON_OBJECT_ALREADY_EXISTS'', ''KMIP_REASON_OBJECT_ALREADY_EXISTS''),
     (''KMIP_REASON_INVALID_TICKET'', ''KMIP_REASON_INVALID_TICKET''),
     (''KMIP_REASON_USAGE_LIMIT_EXCEEDED'', ''KMIP_REASON_USAGE_LIMIT_EXCEEDED''),
     (''KMIP_REASON_NUMERIC_RANGE'', ''KMIP_REASON_NUMERIC_RANGE''),
     (''KMIP_REASON_INVALID_DATA_TYPE'', ''KMIP_REASON_INVALID_DATA_TYPE''),
     (''KMIP_REASON_READ_ONLY_ATTRIBUTE'', ''KMIP_REASON_READ_ONLY_ATTRIBUTE''),
     (''KMIP_REASON_MULTI_VALUED_ATTRIBUTE'', ''KMIP_REASON_MULTI_VALUED_ATTRIBUTE''),
     (''KMIP_REASON_UNSUPPORTED_ATTRIBUTE'', ''KMIP_REASON_UNSUPPORTED_ATTRIBUTE''),
     (''KMIP_REASON_ATTRIBUTE_INSTANCE_NOT_FOUND'', ''KMIP_REASON_ATTRIBUTE_INSTANCE_NOT_FOUND''),
     (''KMIP_REASON_ATTRIBUTE_NOT_FOUND'', ''KMIP_REASON_ATTRIBUTE_NOT_FOUND''),
     (''KMIP_REASON_ATTRIBUTE_READ_ONLY'', ''KMIP_REASON_ATTRIBUTE_READ_ONLY''),
     (''KMIP_REASON_ATTRIBUTE_SINGLE_VALUED'', ''KMIP_REASON_ATTRIBUTE_SINGLE_VALUED''),
     (''KMIP_REASON_BAD_CRYPTOGRAPHIC_PARAMETERS'', ''KMIP_REASON_BAD_CRYPTOGRAPHIC_PARAMETERS''),
     (''KMIP_REASON_BAD_PASSWORD'', ''KMIP_REASON_BAD_PASSWORD''),
     (''KMIP_REASON_CODEC_ERROR'', ''KMIP_REASON_CODEC_ERROR''),
     (''KMIP_REASON_ILLEGAL_OBJECT_TYPE'', ''KMIP_REASON_ILLEGAL_OBJECT_TYPE''),
     (''KMIP_REASON_INCOMPATIBLE_CRYPTOGRAPHIC_USAGE_MASK'', ''KMIP_REASON_INCOMPATIBLE_CRYPTOGRAPHIC_USAGE_MASK''),
     (''KMIP_REASON_INTERNAL_SERVER_ERROR'', ''KMIP_REASON_INTERNAL_SERVER_ERROR''),
     (''KMIP_REASON_INVALID_ASYNCHRONOUS_CORRELATION_VALUE'', ''KMIP_REASON_INVALID_ASYNCHRONOUS_CORRELATION_VALUE''),
     (''KMIP_REASON_INVALID_ATTRIBUTE'', ''KMIP_REASON_INVALID_ATTRIBUTE''),
     (''KMIP_REASON_INVALID_ATTRIBUTE_VALUE'', ''KMIP_REASON_INVALID_ATTRIBUTE_VALUE''),
     (''KMIP_REASON_INVALID_CORRELATION_VALUE'', ''KMIP_REASON_INVALID_CORRELATION_VALUE''),
     (''KMIP_REASON_INVALID_CSR'', ''KMIP_REASON_INVALID_CSR''),
     (''KMIP_REASON_INVALID_OBJECT_TYPE'', ''KMIP_REASON_INVALID_OBJECT_TYPE''),
     (''KMIP_REASON_KEY_WRAP_TYPE_NOT_SUPPORTED'', ''KMIP_REASON_KEY_WRAP_TYPE_NOT_SUPPORTED''),
     (''KMIP_REASON_MISSING_INITIALIZATION_VECTOR'', ''KMIP_REASON_MISSING_INITIALIZATION_VECTOR''),
     (''KMIP_REASON_NON_UNIQUE_NAME_ATTRIBUTE'', ''KMIP_REASON_NON_UNIQUE_NAME_ATTRIBUTE''),
     (''KMIP_REASON_OBJECT_DESTROYED'', ''KMIP_REASON_OBJECT_DESTROYED''),
     (''KMIP_REASON_OBJECT_NOT_FOUND'', ''KMIP_REASON_OBJECT_NOT_FOUND''),
     (''KMIP_REASON_NOT_AUTHORISED'', ''KMIP_REASON_NOT_AUTHORISED''),
     (''KMIP_REASON_SERVER_LIMIT_EXCEEDED'', ''KMIP_REASON_SERVER_LIMIT_EXCEEDED''),
     (''KMIP_REASON_UNKNOWN_ENUMERATION'', ''KMIP_REASON_UNKNOWN_ENUMERATION''),
     (''KMIP_REASON_UNKNOWN_MESSAGE_EXTENSION'', ''KMIP_REASON_UNKNOWN_MESSAGE_EXTENSION''),
     (''KMIP_REASON_UNKNOWN_TAG'', ''KMIP_REASON_UNKNOWN_TAG''),
     (''KMIP_REASON_UNSUPPORTED_CRYPTOGRAPHIC_PARAMETERS'', ''KMIP_REASON_UNSUPPORTED_CRYPTOGRAPHIC_PARAMETERS''),
     (''KMIP_REASON_UNSUPPORTED_PROTOCOL_VERSION'', ''KMIP_REASON_UNSUPPORTED_PROTOCOL_VERSION''),
     (''KMIP_REASON_WRAPPING_OBJECT_ARCHIVED'', ''KMIP_REASON_WRAPPING_OBJECT_ARCHIVED''),
     (''KMIP_REASON_WRAPPING_OBJECT_DESTROYED'', ''KMIP_REASON_WRAPPING_OBJECT_DESTROYED''),
     (''KMIP_REASON_WRAPPING_OBJECT_NOT_FOUND'', ''KMIP_REASON_WRAPPING_OBJECT_NOT_FOUND''),
     (''KMIP_REASON_WRONG_KEY_LIFECYCLE_STATE'', ''KMIP_REASON_WRONG_KEY_LIFECYCLE_STATE''),
     (''KMIP_REASON_PROTECTION_STORAGE_UNAVAILABLE'', ''KMIP_REASON_PROTECTION_STORAGE_UNAVAILABLE''),
     (''KMIP_REASON_PKCS11_CODEC_ERROR'', ''KMIP_REASON_PKCS11_CODEC_ERROR''),
     (''KMIP_REASON_PKCS11_INVALID_FUNCTION'', ''KMIP_REASON_PKCS11_INVALID_FUNCTION''),
     (''KMIP_REASON_PKCS11_INVALID_INTERFACE'', ''KMIP_REASON_PKCS11_INVALID_INTERFACE''),
     (''KMIP_REASON_PRIVATE_PROTECTION_STORAGE_UNAVAILABLE'', ''KMIP_REASON_PRIVATE_PROTECTION_STORAGE_UNAVAILABLE''),
     (''KMIP_REASON_PUBLIC_PROTECTION_STORAGE_UNAVAILABLE'', ''KMIP_REASON_PUBLIC_PROTECTION_STORAGE_UNAVAILABLE'')]"

definition result_status_constants :: legacy_constants where
  "result_status_constants =
    [(''KMIP_STATUS_SUCCESS'', ''KMIP_STATUS_SUCCESS''),
     (''KMIP_STATUS_OPERATION_FAILED'', ''KMIP_STATUS_OPERATION_FAILED''),
     (''KMIP_STATUS_OPERATION_PENDING'', ''KMIP_STATUS_OPERATION_PENDING''),
     (''KMIP_STATUS_OPERATION_UNDONE'', ''KMIP_STATUS_OPERATION_UNDONE'')]"

definition state_constants :: legacy_constants where
  "state_constants =
    [(''KMIP_STATE_PRE_ACTIVE'', ''KMIP_STATE_PRE_ACTIVE''), (''KMIP_STATE_ACTIVE'', ''KMIP_STATE_ACTIVE''),
     (''KMIP_STATE_DEACTIVATED'', ''KMIP_STATE_DEACTIVATED''),
     (''KMIP_STATE_COMPROMISED'', ''KMIP_STATE_COMPROMISED''), (''KMIP_STATE_DESTROYED'', ''KMIP_STATE_DESTROYED''),
     (''KMIP_STATE_DESTROYED_COMPROMISED'', ''KMIP_STATE_DESTROYED_COMPROMISED'')]"

definition tag_constants :: legacy_constants where
  "tag_constants =
    [(''KMIP_TAG_TAG'', ''KMIP_TAG_TAG''), (''KMIP_TAG_TYPE'', ''KMIP_TAG_TYPE''),
     (''KMIP_TAG_DEFAULT'', ''KMIP_TAG_DEFAULT''), (''KMIP_TAG_ACTIVATION_DATE'', ''KMIP_TAG_ACTIVATION_DATE''),
     (''KMIP_TAG_APPLICATION_DATA'', ''KMIP_TAG_APPLICATION_DATA''),
     (''KMIP_TAG_APPLICATION_NAMESPACE'', ''KMIP_TAG_APPLICATION_NAMESPACE''),
     (''KMIP_TAG_APPLICATION_SPECIFIC_INFORMATION'', ''KMIP_TAG_APPLICATION_SPECIFIC_INFORMATION''),
     (''KMIP_TAG_ATTRIBUTE_REFERENCE'', ''KMIP_TAG_ATTRIBUTE_REFERENCE''),
     (''KMIP_TAG_ASYNCHRONOUS_CORRELATION_VALUE'', ''KMIP_TAG_ASYNCHRONOUS_CORRELATION_VALUE''),
     (''KMIP_TAG_ASYNCHRONOUS_INDICATOR'', ''KMIP_TAG_ASYNCHRONOUS_INDICATOR''),
     (''KMIP_TAG_ATTRIBUTE'', ''KMIP_TAG_ATTRIBUTE''), (''KMIP_TAG_ATTRIBUTE_INDEX'', ''KMIP_TAG_ATTRIBUTE_INDEX''),
     (''KMIP_TAG_ATTRIBUTE_NAME'', ''KMIP_TAG_ATTRIBUTE_NAME''),
     (''KMIP_TAG_ATTRIBUTE_VALUE'', ''KMIP_TAG_ATTRIBUTE_VALUE''),
     (''KMIP_TAG_AUTHENTICATION'', ''KMIP_TAG_AUTHENTICATION''),
     (''KMIP_TAG_BATCH_COUNT'', ''KMIP_TAG_BATCH_COUNT''),
     (''KMIP_TAG_BATCH_ERROR_CONTINUATION_OPTION'', ''KMIP_TAG_BATCH_ERROR_CONTINUATION_OPTION''),
     (''KMIP_TAG_BATCH_ITEM'', ''KMIP_TAG_BATCH_ITEM''),
     (''KMIP_TAG_BATCH_ORDER_OPTION'', ''KMIP_TAG_BATCH_ORDER_OPTION''),
     (''KMIP_TAG_BLOCK_CIPHER_MODE'', ''KMIP_TAG_BLOCK_CIPHER_MODE''),
     (''KMIP_TAG_COMPROMISE_OCCURRANCE_DATE'', ''KMIP_TAG_COMPROMISE_OCCURRANCE_DATE''),
     (''KMIP_TAG_CREDENTIAL'', ''KMIP_TAG_CREDENTIAL''),
     (''KMIP_TAG_CREDENTIAL_TYPE'', ''KMIP_TAG_CREDENTIAL_TYPE''),
     (''KMIP_TAG_CREDENTIAL_VALUE'', ''KMIP_TAG_CREDENTIAL_VALUE''),
     (''KMIP_TAG_CRYPTOGRAPHIC_ALGORITHM'', ''KMIP_TAG_CRYPTOGRAPHIC_ALGORITHM''),
     (''KMIP_TAG_CRYPTOGRAPHIC_LENGTH'', ''KMIP_TAG_CRYPTOGRAPHIC_LENGTH''),
     (''KMIP_TAG_CRYPTOGRAPHIC_PARAMETERS'', ''KMIP_TAG_CRYPTOGRAPHIC_PARAMETERS''),
     (''KMIP_TAG_CRYPTOGRAPHIC_USAGE_MASK'', ''KMIP_TAG_CRYPTOGRAPHIC_USAGE_MASK''),
     (''KMIP_TAG_DEACTIVATION_DATE'', ''KMIP_TAG_DEACTIVATION_DATE''),
     (''KMIP_TAG_ENCRYPTION_KEY_INFORMATION'', ''KMIP_TAG_ENCRYPTION_KEY_INFORMATION''),
     (''KMIP_TAG_HASHING_ALGORITHM'', ''KMIP_TAG_HASHING_ALGORITHM''),
     (''KMIP_TAG_IV_COUNTER_NONCE'', ''KMIP_TAG_IV_COUNTER_NONCE''), (''KMIP_TAG_KEY'', ''KMIP_TAG_KEY''),
     (''KMIP_TAG_KEY_BLOCK'', ''KMIP_TAG_KEY_BLOCK''),
     (''KMIP_TAG_KEY_COMPRESSION_TYPE'', ''KMIP_TAG_KEY_COMPRESSION_TYPE''),
     (''KMIP_TAG_KEY_FORMAT_TYPE'', ''KMIP_TAG_KEY_FORMAT_TYPE''),
     (''KMIP_TAG_KEY_MATERIAL'', ''KMIP_TAG_KEY_MATERIAL''), (''KMIP_TAG_KEY_VALUE'', ''KMIP_TAG_KEY_VALUE''),
     (''KMIP_TAG_KEY_WRAPPING_DATA'', ''KMIP_TAG_KEY_WRAPPING_DATA''),
     (''KMIP_TAG_KEY_WRAPPING_SPECIFICATION'', ''KMIP_TAG_KEY_WRAPPING_SPECIFICATION''),
     (''KMIP_TAG_MAC_SIGNATURE'', ''KMIP_TAG_MAC_SIGNATURE''),
     (''KMIP_TAG_MAC_SIGNATURE_KEY_INFORMATION'', ''KMIP_TAG_MAC_SIGNATURE_KEY_INFORMATION''),
     (''KMIP_TAG_MAXIMUM_ITEMS'', ''KMIP_TAG_MAXIMUM_ITEMS''),
     (''KMIP_TAG_MAXIMUM_RESPONSE_SIZE'', ''KMIP_TAG_MAXIMUM_RESPONSE_SIZE''),
     (''KMIP_TAG_NAME'', ''KMIP_TAG_NAME''), (''KMIP_TAG_NAME_TYPE'', ''KMIP_TAG_NAME_TYPE''),
     (''KMIP_TAG_NAME_VALUE'', ''KMIP_TAG_NAME_VALUE''), (''KMIP_TAG_OBJECT_GROUP'', ''KMIP_TAG_OBJECT_GROUP''),
     (''KMIP_TAG_OBJECT_TYPE'', ''KMIP_TAG_OBJECT_TYPE''), (''KMIP_TAG_OPERATION'', ''KMIP_TAG_OPERATION''),
     (''KMIP_TAG_OPERATION_POLICY_NAME'', ''KMIP_TAG_OPERATION_POLICY_NAME''),
     (''KMIP_TAG_PADDING_METHOD'', ''KMIP_TAG_PADDING_METHOD''),
     (''KMIP_TAG_PRIVATE_KEY'', ''KMIP_TAG_PRIVATE_KEY''),
     (''KMIP_TAG_PROCESS_START_DATE'', ''KMIP_TAG_PROCESS_START_DATE''),
     (''KMIP_TAG_PROTECT_STOP_DATE'', ''KMIP_TAG_PROTECT_STOP_DATE''),
     (''KMIP_TAG_PROTOCOL_VERSION'', ''KMIP_TAG_PROTOCOL_VERSION''),
     (''KMIP_TAG_PROTOCOL_VERSION_MAJOR'', ''KMIP_TAG_PROTOCOL_VERSION_MAJOR''),
     (''KMIP_TAG_PROTOCOL_VERSION_MINOR'', ''KMIP_TAG_PROTOCOL_VERSION_MINOR''),
     (''KMIP_TAG_PUBLIC_KEY'', ''KMIP_TAG_PUBLIC_KEY''), (''KMIP_TAG_QUERY_FUNCTION'', ''KMIP_TAG_QUERY_FUNCTION''),
     (''KMIP_TAG_REQUEST_HEADER'', ''KMIP_TAG_REQUEST_HEADER''),
     (''KMIP_TAG_REQUEST_MESSAGE'', ''KMIP_TAG_REQUEST_MESSAGE''),
     (''KMIP_TAG_REQUEST_PAYLOAD'', ''KMIP_TAG_REQUEST_PAYLOAD''),
     (''KMIP_TAG_RESPONSE_HEADER'', ''KMIP_TAG_RESPONSE_HEADER''),
     (''KMIP_TAG_RESPONSE_MESSAGE'', ''KMIP_TAG_RESPONSE_MESSAGE''),
     (''KMIP_TAG_RESPONSE_PAYLOAD'', ''KMIP_TAG_RESPONSE_PAYLOAD''),
     (''KMIP_TAG_RESULT_MESSAGE'', ''KMIP_TAG_RESULT_MESSAGE''),
     (''KMIP_TAG_RESULT_REASON'', ''KMIP_TAG_RESULT_REASON''),
     (''KMIP_TAG_RESULT_STATUS'', ''KMIP_TAG_RESULT_STATUS''),
     (''KMIP_TAG_REVOKATION_MESSAGE'', ''KMIP_TAG_REVOKATION_MESSAGE''),
     (''KMIP_TAG_REVOCATION_REASON'', ''KMIP_TAG_REVOCATION_REASON''),
     (''KMIP_TAG_REVOCATION_REASON_CODE'', ''KMIP_TAG_REVOCATION_REASON_CODE''),
     (''KMIP_TAG_KEY_ROLE_TYPE'', ''KMIP_TAG_KEY_ROLE_TYPE''), (''KMIP_TAG_SALT'', ''KMIP_TAG_SALT''),
     (''KMIP_TAG_SECRET_DATA'', ''KMIP_TAG_SECRET_DATA''),
     (''KMIP_TAG_SECRET_DATA_TYPE'', ''KMIP_TAG_SECRET_DATA_TYPE''),
     (''KMIP_TAG_SERVER_INFORMATION'', ''KMIP_TAG_SERVER_INFORMATION''), (''KMIP_TAG_STATE'', ''KMIP_TAG_STATE''),
     (''KMIP_TAG_STORAGE_STATUS_MASK'', ''KMIP_TAG_STORAGE_STATUS_MASK''),
     (''KMIP_TAG_SYMMETRIC_KEY'', ''KMIP_TAG_SYMMETRIC_KEY''),
     (''KMIP_TAG_TEMPLATE_ATTRIBUTE'', ''KMIP_TAG_TEMPLATE_ATTRIBUTE''),
     (''KMIP_TAG_TIME_STAMP'', ''KMIP_TAG_TIME_STAMP''),
     (''KMIP_TAG_UNIQUE_BATCH_ITEM_ID'', ''KMIP_TAG_UNIQUE_BATCH_ITEM_ID''),
     (''KMIP_TAG_UNIQUE_IDENTIFIER'', ''KMIP_TAG_UNIQUE_IDENTIFIER''),
     (''KMIP_TAG_USERNAME'', ''KMIP_TAG_USERNAME''),
     (''KMIP_TAG_VENDOR_IDENTIFICATION'', ''KMIP_TAG_VENDOR_IDENTIFICATION''),
     (''KMIP_TAG_WRAPPING_METHOD'', ''KMIP_TAG_WRAPPING_METHOD''), (''KMIP_TAG_PASSWORD'', ''KMIP_TAG_PASSWORD''),
     (''KMIP_TAG_DEVICE_IDENTIFIER'', ''KMIP_TAG_DEVICE_IDENTIFIER''),
     (''KMIP_TAG_ENCODING_OPTION'', ''KMIP_TAG_ENCODING_OPTION''),
     (''KMIP_TAG_MACHINE_IDENTIFIER'', ''KMIP_TAG_MACHINE_IDENTIFIER''),
     (''KMIP_TAG_MEDIA_IDENTIFIER'', ''KMIP_TAG_MEDIA_IDENTIFIER''),
     (''KMIP_TAG_NETWORK_IDENTIFIER'', ''KMIP_TAG_NETWORK_IDENTIFIER''),
     (''KMIP_TAG_OBJECT_GROUP_MEMBER'', ''KMIP_TAG_OBJECT_GROUP_MEMBER''),
     (''KMIP_TAG_DIGITAL_SIGNATURE_ALGORITHM'', ''KMIP_TAG_DIGITAL_SIGNATURE_ALGORITHM''),
     (''KMIP_TAG_DEVICE_SERIAL_NUMBER'', ''KMIP_TAG_DEVICE_SERIAL_NUMBER''),
     (''KMIP_TAG_RANDOM_IV'', ''KMIP_TAG_RANDOM_IV''),
     (''KMIP_TAG_ATTESTATION_TYPE'', ''KMIP_TAG_ATTESTATION_TYPE''), (''KMIP_TAG_NONCE'', ''KMIP_TAG_NONCE''),
     (''KMIP_TAG_NONCE_ID'', ''KMIP_TAG_NONCE_ID''), (''KMIP_TAG_NONCE_VALUE'', ''KMIP_TAG_NONCE_VALUE''),
     (''KMIP_TAG_ATTESTATION_MEASUREMENT'', ''KMIP_TAG_ATTESTATION_MEASUREMENT''),
     (''KMIP_TAG_ATTESTATION_ASSERTION'', ''KMIP_TAG_ATTESTATION_ASSERTION''),
     (''KMIP_TAG_IV_LENGTH'', ''KMIP_TAG_IV_LENGTH''), (''KMIP_TAG_TAG_LENGTH'', ''KMIP_TAG_TAG_LENGTH''),
     (''KMIP_TAG_FIXED_FIELD_LENGTH'', ''KMIP_TAG_FIXED_FIELD_LENGTH''),
     (''KMIP_TAG_COUNTER_LENGTH'', ''KMIP_TAG_COUNTER_LENGTH''),
     (''KMIP_TAG_INITIAL_COUNTER_VALUE'', ''KMIP_TAG_INITIAL_COUNTER_VALUE''),
     (''KMIP_TAG_INVOCATION_FIELD_LENGTH'', ''KMIP_TAG_INVOCATION_FIELD_LENGTH''),
     (''KMIP_TAG_ATTESTATION_CAPABLE_INDICATOR'', ''KMIP_TAG_ATTESTATION_CAPABLE_INDICATOR''),
     (''KMIP_TAG_OFFSET_ITEMS'', ''KMIP_TAG_OFFSET_ITEMS''),
     (''KMIP_TAG_LOCATED_ITEMS'', ''KMIP_TAG_LOCATED_ITEMS''),
     (''KMIP_TAG_KEY_WRAP_TYPE'', ''KMIP_TAG_KEY_WRAP_TYPE''), (''KMIP_TAG_SALT_LENGTH'', ''KMIP_TAG_SALT_LENGTH''),
     (''KMIP_TAG_MASK_GENERATOR'', ''KMIP_TAG_MASK_GENERATOR''),
     (''KMIP_TAG_MASK_GENERATOR_HASHING_ALGORITHM'', ''KMIP_TAG_MASK_GENERATOR_HASHING_ALGORITHM''),
     (''KMIP_TAG_P_SOURCE'', ''KMIP_TAG_P_SOURCE''), (''KMIP_TAG_TRAILER_FIELD'', ''KMIP_TAG_TRAILER_FIELD''),
     (''KMIP_TAG_CLIENT_CORRELATION_VALUE'', ''KMIP_TAG_CLIENT_CORRELATION_VALUE''),
     (''KMIP_TAG_SERVER_CORRELATION_VALUE'', ''KMIP_TAG_SERVER_CORRELATION_VALUE''),
     (''KMIP_TAG_ATTRIBUTES'', ''KMIP_TAG_ATTRIBUTES''), (''KMIP_TAG_SERVER_NAME'', ''KMIP_TAG_SERVER_NAME''),
     (''KMIP_TAG_SERVER_SERIAL_NUMBER'', ''KMIP_TAG_SERVER_SERIAL_NUMBER''),
     (''KMIP_TAG_SERVER_VERSION'', ''KMIP_TAG_SERVER_VERSION''),
     (''KMIP_TAG_SERVER_LOAD'', ''KMIP_TAG_SERVER_LOAD''), (''KMIP_TAG_PRODUCT_NAME'', ''KMIP_TAG_PRODUCT_NAME''),
     (''KMIP_TAG_BUILD_LEVEL'', ''KMIP_TAG_BUILD_LEVEL''), (''KMIP_TAG_BUILD_DATE'', ''KMIP_TAG_BUILD_DATE''),
     (''KMIP_TAG_CLUSTER_INFO'', ''KMIP_TAG_CLUSTER_INFO''),
     (''KMIP_TAG_ALTERNATE_FAILOVER_ENDPOINTS'', ''KMIP_TAG_ALTERNATE_FAILOVER_ENDPOINTS''),
     (''KMIP_TAG_EPHEMERAL'', ''KMIP_TAG_EPHEMERAL''),
     (''KMIP_TAG_SERVER_HASHED_PASSWORD'', ''KMIP_TAG_SERVER_HASHED_PASSWORD''),
     (''KMIP_TAG_PROTECTION_STORAGE_MASK'', ''KMIP_TAG_PROTECTION_STORAGE_MASK''),
     (''KMIP_TAG_PROTECTION_STORAGE_MASKS'', ''KMIP_TAG_PROTECTION_STORAGE_MASKS''),
     (''KMIP_TAG_COMMON_PROTECTION_STORAGE_MASKS'', ''KMIP_TAG_COMMON_PROTECTION_STORAGE_MASKS''),
     (''KMIP_TAG_PRIVATE_PROTECTION_STORAGE_MASKS'', ''KMIP_TAG_PRIVATE_PROTECTION_STORAGE_MASKS''),
     (''KMIP_TAG_PUBLIC_PROTECTION_STORAGE_MASKS'', ''KMIP_TAG_PUBLIC_PROTECTION_STORAGE_MASKS'')]"

definition type_constants :: legacy_constants where
  "type_constants =
    [(''KMIP_TYPE_STRUCTURE'', ''KMIP_TYPE_STRUCTURE''), (''KMIP_TYPE_INTEGER'', ''KMIP_TYPE_INTEGER''),
     (''KMIP_TYPE_LONG_INTEGER'', ''KMIP_TYPE_LONG_INTEGER''),
     (''KMIP_TYPE_BIG_INTEGER'', ''KMIP_TYPE_BIG_INTEGER''), (''KMIP_TYPE_ENUMERATION'', ''KMIP_TYPE_ENUMERATION''),
     (''KMIP_TYPE_BOOLEAN'', ''KMIP_TYPE_BOOLEAN''), (''KMIP_TYPE_TEXT_STRING'', ''KMIP_TYPE_TEXT_STRING''),
     (''KMIP_TYPE_BYTE_STRING'', ''KMIP_TYPE_BYTE_STRING''), (''KMIP_TYPE_DATE_TIME'', ''KMIP_TYPE_DATE_TIME''),
     (''KMIP_TYPE_INTERVAL'', ''KMIP_TYPE_INTERVAL''),
     (''KMIP_TYPE_DATE_TIME_EXTENDED'', ''KMIP_TYPE_DATE_TIME_EXTENDED'')]"

definition wrapping_method_constants :: legacy_constants where
  "wrapping_method_constants =
    [(''KMIP_WRAP_ENCRYPT'', ''KMIP_WRAP_ENCRYPT''), (''KMIP_WRAP_MAC_SIGN'', ''KMIP_WRAP_MAC_SIGN''),
     (''KMIP_WRAP_ENCRYPT_MAC_SIGN'', ''KMIP_WRAP_ENCRYPT_MAC_SIGN''),
     (''KMIP_WRAP_MAC_SIGN_ENCRYPT'', ''KMIP_WRAP_MAC_SIGN_ENCRYPT''), (''KMIP_WRAP_TR31'', ''KMIP_WRAP_TR31'')]"

definition revocation_reason_type_constants :: legacy_constants where
  "revocation_reason_type_constants =
    [(''KMIP_REVOKE_UNSPECIFIED'', ''KMIP_REVOKE_UNSPECIFIED''),
     (''KMIP_REVOKE_KEY_COMPROMISE'', ''KMIP_REVOKE_KEY_COMPROMISE''),
     (''KMIP_REVOKE_CA_COMPROMISE'', ''KMIP_REVOKE_CA_COMPROMISE''),
     (''KMIP_REVOKE_AFFILIATION_CHANGED'', ''KMIP_REVOKE_AFFILIATION_CHANGED''),
     (''KMIP_REVOKE_SUSPENDED'', ''KMIP_REVOKE_SUSPENDED''),
     (''KMIP_REVOKE_CESSATION_OF_OPERATION'', ''KMIP_REVOKE_CESSATION_OF_OPERATION''),
     (''KMIP_REVOKE_PRIVILEDGE_WITHDRAWN'', ''KMIP_REVOKE_PRIVILEDGE_WITHDRAWN''),
     (''KMIP_REVOKE_EXTENSIONS'', ''KMIP_REVOKE_EXTENSIONS'')]"

definition secret_data_type_constants :: legacy_constants where
  "secret_data_type_constants =
    [(''KMIP_SECDATA_PASSWORD'', ''KMIP_SECDATA_PASSWORD''), (''KMIP_SECDATA_SEED'', ''KMIP_SECDATA_SEED''),
     (''KMIP_SECDATA_EXTENSIONS'', ''KMIP_SECDATA_EXTENSIONS'')]"

definition enumerations :: "(enumeration \<times> legacy_constants) list" where
  "enumerations =
    [(attestation_type_enum, attestation_type_constants), (attribute_type_enum, attribute_type_constants),
     (batch_error_continuation_option_enum, batch_error_continuation_option_constants),
     (block_cipher_mode_enum, block_cipher_mode_constants), (credential_type_enum, credential_type_constants),
     (cryptographic_algorithm_enum, cryptographic_algorithm_constants),
     (cryptographic_usage_mask_enum, cryptographic_usage_mask_constants),
     (digital_signature_algorithm_enum, digital_signature_algorithm_constants),
     (encoding_option_enum, encoding_option_constants), (hashing_algorithm_enum, hashing_algorithm_constants),
     (key_compression_type_enum, key_compression_type_constants), (key_format_type_enum, key_format_type_constants),
     (key_role_type_enum, key_role_type_constants), (key_wrap_type_enum, key_wrap_type_constants),
     (mask_generator_enum, mask_generator_constants), (name_type_enum, name_type_constants),
     (object_type_enum, object_type_constants), (operation_enum, operation_constants),
     (padding_method_enum, padding_method_constants),
     (protection_storage_mask_enum, protection_storage_mask_constants),
     (query_function_enum, query_function_constants), (result_reason_enum, result_reason_constants),
     (result_status_enum, result_status_constants), (state_enum, state_constants), (tag_enum, tag_constants),
     (type_enum, type_constants), (wrapping_method_enum, wrapping_method_constants),
     (revocation_reason_type_enum, revocation_reason_type_constants),
     (secret_data_type_enum, secret_data_type_constants)]"

definition legacy_value :: "enumeration \<Rightarrow> legacy_constants \<Rightarrow> string \<Rightarrow> u32 option" where
  "legacy_value e cs name = Option.bind (map_of cs name) (map_of e)"

abbreviation enum_values :: "enumeration \<Rightarrow> u32 set" where
  "enum_values e \<equiv> snd ` set e"

section \<open>The check of one table\<close>

fun ascending :: "u32 list \<Rightarrow> bool" where
  "ascending (x # y # zs) \<longleftrightarrow> x < y \<and> ascending (y # zs)"
| "ascending _ \<longleftrightarrow> True"

text \<open>The enumerators come in ascending order, but for the first result reason, which is the greatest.  One padding method
  has no constant.\<close>

definition without_constant :: "string list" where
  "without_constant = [''KMIP_PAD_PKCS1v15'']"

definition table_ok :: "enumeration \<Rightarrow> legacy_constants \<Rightarrow> bool" where
  "table_ok e cs \<longleftrightarrow>
     map snd cs = map fst cs \<and> map fst cs = filter (\<lambda>n. n \<notin> set without_constant) (map fst e) \<and>
     (ascending (map snd e) \<or> ascending (rotate1 (map snd e)))"

lemma ascending_distinct: "ascending xs \<Longrightarrow> distinct xs"
proof -
  have "ascending (x # xs) \<Longrightarrow> (\<forall>y \<in> set xs. x < y) \<and> distinct xs" for x and xs :: "u32 list"
  proof (induction xs arbitrary: x)
    case (Cons y xs)
    then show ?case by fastforce
  qed simp
  then show "ascending xs \<Longrightarrow> distinct xs" by (cases xs) fastforce+
qed

lemma map_of_identity: "map snd cs = map fst cs \<Longrightarrow> map_of cs n = (if n \<in> fst ` set cs then Some n else None)"
  by (induction cs) auto

lemma table_ok_values: "table_ok e cs \<Longrightarrow> distinct (map snd e)"
  unfolding table_ok_def using ascending_distinct [of "map snd e"] ascending_distinct [of "rotate1 (map snd e)"] by auto

lemma table_ok_constants:
  assumes "table_ok e cs"
  shows "legacy_value e cs n = (if n \<in> set without_constant then None else map_of e n)"
proof -
  have "map_of cs n = (if n \<in> set (map fst cs) then Some n else None)"
    using assms map_of_identity [of cs n] unfolding table_ok_def set_map by blast
  moreover have "map fst cs = filter (\<lambda>n. n \<notin> set without_constant) (map fst e)" using assms by (simp add: table_ok_def)
  ultimately have "map_of cs n = (if n \<in> set (map fst e) \<and> n \<notin> set without_constant then Some n else None)"
    by (simp only: set_filter mem_Collect_eq)
  moreover have "n \<notin> set (map fst e) \<Longrightarrow> map_of e n = None" by (simp add: map_of_eq_None_iff)
  ultimately show ?thesis by (auto simp: legacy_value_def)
qed

section \<open>The tables are checked\<close>

lemma attestation_type_ok: "table_ok attestation_type_enum attestation_type_constants"
  by (simp add: table_ok_def attestation_type_enum_def attestation_type_constants_def without_constant_def)

lemma attribute_type_ok: "table_ok attribute_type_enum attribute_type_constants"
  by (simp add: table_ok_def attribute_type_enum_def attribute_type_constants_def without_constant_def)

lemma batch_error_continuation_option_ok: "table_ok batch_error_continuation_option_enum batch_error_continuation_option_constants"
  by (simp add: table_ok_def batch_error_continuation_option_enum_def batch_error_continuation_option_constants_def without_constant_def)

lemma block_cipher_mode_ok: "table_ok block_cipher_mode_enum block_cipher_mode_constants"
  by (simp add: table_ok_def block_cipher_mode_enum_def block_cipher_mode_constants_def without_constant_def)

lemma credential_type_ok: "table_ok credential_type_enum credential_type_constants"
  by (simp add: table_ok_def credential_type_enum_def credential_type_constants_def without_constant_def)

lemma cryptographic_algorithm_ok: "table_ok cryptographic_algorithm_enum cryptographic_algorithm_constants"
  by (simp add: table_ok_def cryptographic_algorithm_enum_def cryptographic_algorithm_constants_def without_constant_def)

lemma cryptographic_usage_mask_ok: "table_ok cryptographic_usage_mask_enum cryptographic_usage_mask_constants"
  by (simp add: table_ok_def cryptographic_usage_mask_enum_def cryptographic_usage_mask_constants_def without_constant_def)

lemma digital_signature_algorithm_ok: "table_ok digital_signature_algorithm_enum digital_signature_algorithm_constants"
  by (simp add: table_ok_def digital_signature_algorithm_enum_def digital_signature_algorithm_constants_def without_constant_def)

lemma encoding_option_ok: "table_ok encoding_option_enum encoding_option_constants"
  by (simp add: table_ok_def encoding_option_enum_def encoding_option_constants_def without_constant_def)

lemma hashing_algorithm_ok: "table_ok hashing_algorithm_enum hashing_algorithm_constants"
  by (simp add: table_ok_def hashing_algorithm_enum_def hashing_algorithm_constants_def without_constant_def)

lemma key_compression_type_ok: "table_ok key_compression_type_enum key_compression_type_constants"
  by (simp add: table_ok_def key_compression_type_enum_def key_compression_type_constants_def without_constant_def)

lemma key_format_type_ok: "table_ok key_format_type_enum key_format_type_constants"
  by (simp add: table_ok_def key_format_type_enum_def key_format_type_constants_def without_constant_def)

lemma key_role_type_ok: "table_ok key_role_type_enum key_role_type_constants"
  by (simp add: table_ok_def key_role_type_enum_def key_role_type_constants_def without_constant_def)

lemma key_wrap_type_ok: "table_ok key_wrap_type_enum key_wrap_type_constants"
  by (simp add: table_ok_def key_wrap_type_enum_def key_wrap_type_constants_def without_constant_def)

lemma mask_generator_ok: "table_ok mask_generator_enum mask_generator_constants"
  by (simp add: table_ok_def mask_generator_enum_def mask_generator_constants_def without_constant_def)

lemma name_type_ok: "table_ok name_type_enum name_type_constants"
  by (simp add: table_ok_def name_type_enum_def name_type_constants_def without_constant_def)

lemma object_type_ok: "table_ok object_type_enum object_type_constants"
  by (simp add: table_ok_def object_type_enum_def object_type_constants_def without_constant_def)

lemma operation_ok: "table_ok operation_enum operation_constants"
  by (simp add: table_ok_def operation_enum_def operation_constants_def without_constant_def)

lemma padding_method_ok: "table_ok padding_method_enum padding_method_constants"
  by (simp add: table_ok_def padding_method_enum_def padding_method_constants_def without_constant_def)

lemma protection_storage_mask_ok: "table_ok protection_storage_mask_enum protection_storage_mask_constants"
  by (simp add: table_ok_def protection_storage_mask_enum_def protection_storage_mask_constants_def without_constant_def)

lemma query_function_ok: "table_ok query_function_enum query_function_constants"
  by (simp add: table_ok_def query_function_enum_def query_function_constants_def without_constant_def)

lemma result_reason_ok: "table_ok result_reason_enum result_reason_constants"
  by (simp add: table_ok_def result_reason_enum_def result_reason_constants_def without_constant_def)

lemma result_status_ok: "table_ok result_status_enum result_status_constants"
  by (simp add: table_ok_def result_status_enum_def result_status_constants_def without_constant_def)

lemma state_ok: "table_ok state_enum state_constants"
  by (simp add: table_ok_def state_enum_def state_constants_def without_constant_def)

lemma tag_ok: "table_ok tag_enum tag_constants"
  by (simp add: table_ok_def tag_enum_def tag_constants_def without_constant_def)

lemma type_ok: "table_ok type_enum type_constants"
  by (simp add: table_ok_def type_enum_def type_constants_def without_constant_def)

lemma wrapping_method_ok: "table_ok wrapping_method_enum wrapping_method_constants"
  by (simp add: table_ok_def wrapping_method_enum_def wrapping_method_constants_def without_constant_def)

lemma revocation_reason_type_ok: "table_ok revocation_reason_type_enum revocation_reason_type_constants"
  by (simp add: table_ok_def revocation_reason_type_enum_def revocation_reason_type_constants_def without_constant_def)

lemma secret_data_type_ok: "table_ok secret_data_type_enum secret_data_type_constants"
  by (simp add: table_ok_def secret_data_type_enum_def secret_data_type_constants_def without_constant_def)

lemmas tables_ok =
  attestation_type_ok attribute_type_ok batch_error_continuation_option_ok block_cipher_mode_ok
  credential_type_ok cryptographic_algorithm_ok cryptographic_usage_mask_ok digital_signature_algorithm_ok
  encoding_option_ok hashing_algorithm_ok key_compression_type_ok key_format_type_ok key_role_type_ok
  key_wrap_type_ok mask_generator_ok name_type_ok object_type_ok operation_ok padding_method_ok
  protection_storage_mask_ok query_function_ok result_reason_ok result_status_ok state_ok tag_ok type_ok
  wrapping_method_ok revocation_reason_type_ok secret_data_type_ok

text \<open>The constants that the model uses are the values of the tables.\<close>

lemma credential_type_values:
  "map snd credential_type_enum =
    [KMIP_CRED_USERNAME_AND_PASSWORD, KMIP_CRED_DEVICE, KMIP_CRED_ATTESTATION, KMIP_CRED_ONE_TIME_PASSWORD,
     KMIP_CRED_HASHED_PASSWORD, KMIP_CRED_TICKET]"
  by (simp add: credential_type_enum_def kmip_consts)

lemma cryptographic_algorithm_values:
  "map snd cryptographic_algorithm_enum =
    [KMIP_CRYPTOALG_UNSET, KMIP_CRYPTOALG_DES, KMIP_CRYPTOALG_TRIPLE_DES, KMIP_CRYPTOALG_AES, KMIP_CRYPTOALG_RSA,
     KMIP_CRYPTOALG_DSA, KMIP_CRYPTOALG_ECDSA, KMIP_CRYPTOALG_HMAC_SHA1, KMIP_CRYPTOALG_HMAC_SHA224,
     KMIP_CRYPTOALG_HMAC_SHA256, KMIP_CRYPTOALG_HMAC_SHA384, KMIP_CRYPTOALG_HMAC_SHA512, KMIP_CRYPTOALG_HMAC_MD5,
     KMIP_CRYPTOALG_DH, KMIP_CRYPTOALG_ECDH, KMIP_CRYPTOALG_ECMQV, KMIP_CRYPTOALG_BLOWFISH, KMIP_CRYPTOALG_CAMELLIA,
     KMIP_CRYPTOALG_CAST5, KMIP_CRYPTOALG_IDEA, KMIP_CRYPTOALG_MARS, KMIP_CRYPTOALG_RC2, KMIP_CRYPTOALG_RC4,
     KMIP_CRYPTOALG_RC5, KMIP_CRYPTOALG_SKIPJACK, KMIP_CRYPTOALG_TWOFISH, KMIP_CRYPTOALG_EC,
     KMIP_CRYPTOALG_ONE_TIME_PAD, KMIP_CRYPTOALG_CHACHA20, KMIP_CRYPTOALG_POLY1305, KMIP_CRYPTOALG_CHACHA20_POLY1305,
     KMIP_CRYPTOALG_SHA3_224, KMIP_CRYPTOALG_SHA3_256, KMIP_CRYPTOALG_SHA3_384, KMIP_CRYPTOALG_SHA3_512,
     KMIP_CRYPTOALG_HMAC_SHA3_224, KMIP_CRYPTOALG_HMAC_SHA3_256, KMIP_CRYPTOALG_HMAC_SHA3_384,
     KMIP_CRYPTOALG_HMAC_SHA3_512, KMIP_CRYPTOALG_SHAKE_128, KMIP_CRYPTOALG_SHAKE_256, KMIP_CRYPTOALG_ARIA,
     KMIP_CRYPTOALG_SEED, KMIP_CRYPTOALG_SM2, KMIP_CRYPTOALG_SM3, KMIP_CRYPTOALG_SM4,
     KMIP_CRYPTOALG_GOST_R_34_10_2012, KMIP_CRYPTOALG_GOST_R_34_11_2012, KMIP_CRYPTOALG_GOST_R_34_13_2015,
     KMIP_CRYPTOALG_GOST_28147_89, KMIP_CRYPTOALG_XMSS, KMIP_CRYPTOALG_SPHINCS_256, KMIP_CRYPTOALG_MCELIECE,
     KMIP_CRYPTOALG_MCELIECE_6960119, KMIP_CRYPTOALG_MCELIECE_8192128, KMIP_CRYPTOALG_ED25519, KMIP_CRYPTOALG_ED448]"
  by (simp add: cryptographic_algorithm_enum_def kmip_consts)

lemma cryptographic_usage_mask_values:
  "map snd cryptographic_usage_mask_enum =
    [KMIP_CRYPTOMASK_UNSET, KMIP_CRYPTOMASK_SIGN, KMIP_CRYPTOMASK_VERIFY, KMIP_CRYPTOMASK_ENCRYPT,
     KMIP_CRYPTOMASK_DECRYPT, KMIP_CRYPTOMASK_WRAP_KEY, KMIP_CRYPTOMASK_UNWRAP_KEY, KMIP_CRYPTOMASK_EXPORT,
     KMIP_CRYPTOMASK_MAC_GENERATE, KMIP_CRYPTOMASK_MAC_VERIFY, KMIP_CRYPTOMASK_DERIVE_KEY,
     KMIP_CRYPTOMASK_CONTENT_COMMITMENT, KMIP_CRYPTOMASK_KEY_AGREEMENT, KMIP_CRYPTOMASK_CERTIFICATE_SIGN,
     KMIP_CRYPTOMASK_CRL_SIGN, KMIP_CRYPTOMASK_GENERATE_CRYPTOGRAM, KMIP_CRYPTOMASK_VALIDATE_CRYPTOGRAM,
     KMIP_CRYPTOMASK_TRANSLATE_ENCRYPT, KMIP_CRYPTOMASK_TRANSLATE_DECRYPT, KMIP_CRYPTOMASK_TRANSLATE_WRAP,
     KMIP_CRYPTOMASK_TRANSLATE_UNWRAP, KMIP_CRYPTOMASK_AUTHENTICATE, KMIP_CRYPTOMASK_UNRESTRICTED,
     KMIP_CRYPTOMASK_FPE_ENCRYPT, KMIP_CRYPTOMASK_FPE_DECRYPT]"
  by (simp add: cryptographic_usage_mask_enum_def kmip_consts)

lemma key_format_type_values:
  "map snd key_format_type_enum =
    [KMIP_KEYFORMAT_RAW, KMIP_KEYFORMAT_OPAQUE, KMIP_KEYFORMAT_PKCS1, KMIP_KEYFORMAT_PKCS8, KMIP_KEYFORMAT_X509,
     KMIP_KEYFORMAT_EC_PRIVATE_KEY, KMIP_KEYFORMAT_TRANS_SYMMETRIC_KEY, KMIP_KEYFORMAT_TRANS_DSA_PRIVATE_KEY,
     KMIP_KEYFORMAT_TRANS_DSA_PUBLIC_KEY, KMIP_KEYFORMAT_TRANS_RSA_PRIVATE_KEY, KMIP_KEYFORMAT_TRANS_RSA_PUBLIC_KEY,
     KMIP_KEYFORMAT_TRANS_DH_PRIVATE_KEY, KMIP_KEYFORMAT_TRANS_DH_PUBLIC_KEY, KMIP_KEYFORMAT_TRANS_ECDSA_PRIVATE_KEY,
     KMIP_KEYFORMAT_TRANS_ECDSA_PUBLIC_KEY, KMIP_KEYFORMAT_TRANS_ECDH_PRIVATE_KEY,
     KMIP_KEYFORMAT_TRANS_ECDH_PUBLIC_KEY, KMIP_KEYFORMAT_TRANS_ECMQV_PRIVATE_KEY,
     KMIP_KEYFORMAT_TRANS_ECMQV_PUBLIC_KEY, KMIP_KEYFORMAT_TRANS_EC_PRIVATE_KEY, KMIP_KEYFORMAT_TRANS_EC_PUBLIC_KEY,
     KMIP_KEYFORMAT_PKCS12, KMIP_KEYFORMAT_PKCS10]"
  by (simp add: key_format_type_enum_def kmip_consts)

lemma name_type_values:
  "map snd name_type_enum =
    [KMIP_NAME_UNINTERPRETED_TEXT_STRING, KMIP_NAME_URI]"
  by (simp add: name_type_enum_def kmip_consts)

lemma object_type_values:
  "map snd object_type_enum =
    [KMIP_OBJTYPE_CERTIFICATE, KMIP_OBJTYPE_SYMMETRIC_KEY, KMIP_OBJTYPE_PUBLIC_KEY, KMIP_OBJTYPE_PRIVATE_KEY,
     KMIP_OBJTYPE_SPLIT_KEY, KMIP_OBJTYPE_TEMPLATE, KMIP_OBJTYPE_SECRET_DATA, KMIP_OBJTYPE_OPAQUE_OBJECT,
     KMIP_OBJTYPE_PGP_KEY, KMIP_OBJTYPE_CERTIFICATE_REQUEST]"
  by (simp add: object_type_enum_def kmip_consts)

lemma operation_values:
  "map snd operation_enum =
    [KMIP_OP_CREATE, KMIP_OP_CREATE_KEY_PAIR, KMIP_OP_REGISTER, KMIP_OP_REKEY, KMIP_OP_DERIVE_KEY, KMIP_OP_CERTIFY,
     KMIP_OP_RECERTIFY, KMIP_OP_LOCATE, KMIP_OP_CHECK, KMIP_OP_GET, KMIP_OP_GET_ATTRIBUTES,
     KMIP_OP_GET_ATTRIBUTE_LIST, KMIP_OP_ADD_ATTRIBUTE, KMIP_OP_MODIFY_ATTRIBUTE, KMIP_OP_DELETE_ATTRIBUTE,
     KMIP_OP_OBTAIN_LEASE, KMIP_OP_GET_USAGE_ALLOCATION, KMIP_OP_ACTIVATE, KMIP_OP_REVOKE, KMIP_OP_DESTROY,
     KMIP_OP_ARCHIVE, KMIP_OP_RECOVER, KMIP_OP_VALIDATE, KMIP_OP_QUERY, KMIP_OP_CANCEL, KMIP_OP_POLL, KMIP_OP_NOTIFY,
     KMIP_OP_PUT, KMIP_OP_REKEY_KEY_PAIR, KMIP_OP_DISCOVER_VERSIONS, KMIP_OP_ENCRYPT, KMIP_OP_DECRYPT, KMIP_OP_SIGN,
     KMIP_OP_SIGNATURE_VERIFY, KMIP_OP_MAC, KMIP_OP_MAC_VERIFY, KMIP_OP_RNG_RETRIEVE, KMIP_OP_RNG_SEED, KMIP_OP_HASH,
     KMIP_OP_CREATE_SPLIT_KEY, KMIP_OP_JOIN_SPLIT_KEY, KMIP_OP_IMPORT, KMIP_OP_EXPORT, KMIP_OP_LOG, KMIP_OP_LOGIN,
     KMIP_OP_LOGOUT, KMIP_OP_DELEGATED_LOGIN, KMIP_OP_ADJUST_ATTRIBUTE, KMIP_OP_SET_ATTRIBUTE,
     KMIP_OP_SET_ENDPOINT_ROLE, KMIP_OP_PKCS_11, KMIP_OP_INTEROP, KMIP_OP_REPROVISION]"
  by (simp add: operation_enum_def kmip_consts)

lemma query_function_values:
  "map snd query_function_enum =
    [KMIP_QUERY_OPERATIONS, KMIP_QUERY_OBJECTS, KMIP_QUERY_SERVER_INFORMATION, KMIP_QUERY_APPLICATION_NAMESPACES,
     KMIP_QUERY_EXTENSION_LIST, KMIP_QUERY_EXTENSION_MAP, KMIP_QUERY_ATTESTATION_TYPES, KMIP_QUERY_RNGS,
     KMIP_QUERY_VALIDATIONS, KMIP_QUERY_PROFILES, KMIP_QUERY_CAPABILITIES, KMIP_QUERY_CLIENT_REGISTRATION_METHODS,
     KMIP_QUERY_DEFAULTS_INFORMATION, KMIP_QUERY_STORAGE_PROTECTION_MASKS]"
  by (simp add: query_function_enum_def kmip_consts)

lemma result_reason_values:
  "map snd result_reason_enum =
    [KMIP_REASON_GENERAL_FAILURE, KMIP_REASON_ITEM_NOT_FOUND, KMIP_REASON_RESPONSE_TOO_LARGE,
     KMIP_REASON_AUTHENTICATION_NOT_SUCCESSFUL, KMIP_REASON_INVALID_MESSAGE, KMIP_REASON_OPERATION_NOT_SUPPORTED,
     KMIP_REASON_MISSING_DATA, KMIP_REASON_INVALID_FIELD, KMIP_REASON_FEATURE_NOT_SUPPORTED,
     KMIP_REASON_OPERATION_CANCELED_BY_REQUESTER, KMIP_REASON_CRYPTOGRAPHIC_FAILURE, KMIP_REASON_ILLEGAL_OPERATION,
     KMIP_REASON_PERMISSION_DENIED, KMIP_REASON_OBJECT_ARCHIVED, KMIP_REASON_INDEX_OUT_OF_BOUNDS,
     KMIP_REASON_APPLICATION_NAMESPACE_NOT_SUPPORTED, KMIP_REASON_KEY_FORMAT_TYPE_NOT_SUPPORTED,
     KMIP_REASON_KEY_COMPRESSION_TYPE_NOT_SUPPORTED, KMIP_REASON_ENCODING_OPTION_FAILURE,
     KMIP_REASON_KEY_VALUE_NOT_PRESENT, KMIP_REASON_ATTESTATION_REQUIRED, KMIP_REASON_ATTESTATION_FAILED,
     KMIP_REASON_SENSITIVE, KMIP_REASON_NOT_EXTRACTABLE, KMIP_REASON_OBJECT_ALREADY_EXISTS,
     KMIP_REASON_INVALID_TICKET, KMIP_REASON_USAGE_LIMIT_EXCEEDED, KMIP_REASON_NUMERIC_RANGE,
     KMIP_REASON_INVALID_DATA_TYPE, KMIP_REASON_READ_ONLY_ATTRIBUTE, KMIP_REASON_MULTI_VALUED_ATTRIBUTE,
     KMIP_REASON_UNSUPPORTED_ATTRIBUTE, KMIP_REASON_ATTRIBUTE_INSTANCE_NOT_FOUND, KMIP_REASON_ATTRIBUTE_NOT_FOUND,
     KMIP_REASON_ATTRIBUTE_READ_ONLY, KMIP_REASON_ATTRIBUTE_SINGLE_VALUED, KMIP_REASON_BAD_CRYPTOGRAPHIC_PARAMETERS,
     KMIP_REASON_BAD_PASSWORD, KMIP_REASON_CODEC_ERROR, KMIP_REASON_ILLEGAL_OBJECT_TYPE,
     KMIP_REASON_INCOMPATIBLE_CRYPTOGRAPHIC_USAGE_MASK, KMIP_REASON_INTERNAL_SERVER_ERROR,
     KMIP_REASON_INVALID_ASYNCHRONOUS_CORRELATION_VALUE, KMIP_REASON_INVALID_ATTRIBUTE,
     KMIP_REASON_INVALID_ATTRIBUTE_VALUE, KMIP_REASON_INVALID_CORRELATION_VALUE, KMIP_REASON_INVALID_CSR,
     KMIP_REASON_INVALID_OBJECT_TYPE, KMIP_REASON_KEY_WRAP_TYPE_NOT_SUPPORTED,
     KMIP_REASON_MISSING_INITIALIZATION_VECTOR, KMIP_REASON_NON_UNIQUE_NAME_ATTRIBUTE, KMIP_REASON_OBJECT_DESTROYED,
     KMIP_REASON_OBJECT_NOT_FOUND, KMIP_REASON_NOT_AUTHORISED, KMIP_REASON_SERVER_LIMIT_EXCEEDED,
     KMIP_REASON_UNKNOWN_ENUMERATION, KMIP_REASON_UNKNOWN_MESSAGE_EXTENSION, KMIP_REASON_UNKNOWN_TAG,
     KMIP_REASON_UNSUPPORTED_CRYPTOGRAPHIC_PARAMETERS, KMIP_REASON_UNSUPPORTED_PROTOCOL_VERSION,
     KMIP_REASON_WRAPPING_OBJECT_ARCHIVED, KMIP_REASON_WRAPPING_OBJECT_DESTROYED,
     KMIP_REASON_WRAPPING_OBJECT_NOT_FOUND, KMIP_REASON_WRONG_KEY_LIFECYCLE_STATE,
     KMIP_REASON_PROTECTION_STORAGE_UNAVAILABLE, KMIP_REASON_PKCS11_CODEC_ERROR, KMIP_REASON_PKCS11_INVALID_FUNCTION,
     KMIP_REASON_PKCS11_INVALID_INTERFACE, KMIP_REASON_PRIVATE_PROTECTION_STORAGE_UNAVAILABLE,
     KMIP_REASON_PUBLIC_PROTECTION_STORAGE_UNAVAILABLE]"
  by (simp add: result_reason_enum_def kmip_consts)

lemma result_status_values:
  "map snd result_status_enum =
    [KMIP_STATUS_SUCCESS, KMIP_STATUS_OPERATION_FAILED, KMIP_STATUS_OPERATION_PENDING, KMIP_STATUS_OPERATION_UNDONE]"
  by (simp add: result_status_enum_def kmip_consts)

lemma state_values:
  "map snd state_enum =
    [KMIP_STATE_PRE_ACTIVE, KMIP_STATE_ACTIVE, KMIP_STATE_DEACTIVATED, KMIP_STATE_COMPROMISED, KMIP_STATE_DESTROYED,
     KMIP_STATE_DESTROYED_COMPROMISED]"
  by (simp add: state_enum_def kmip_consts)

lemma tag_values:
  "map snd tag_enum =
    [KMIP_TAG_TAG, KMIP_TAG_TYPE, KMIP_TAG_DEFAULT, KMIP_TAG_ACTIVATION_DATE, KMIP_TAG_APPLICATION_DATA,
     KMIP_TAG_APPLICATION_NAMESPACE, KMIP_TAG_APPLICATION_SPECIFIC_INFORMATION, KMIP_TAG_ATTRIBUTE_REFERENCE,
     KMIP_TAG_ASYNCHRONOUS_CORRELATION_VALUE, KMIP_TAG_ASYNCHRONOUS_INDICATOR, KMIP_TAG_ATTRIBUTE,
     KMIP_TAG_ATTRIBUTE_INDEX, KMIP_TAG_ATTRIBUTE_NAME, KMIP_TAG_ATTRIBUTE_VALUE, KMIP_TAG_AUTHENTICATION,
     KMIP_TAG_BATCH_COUNT, KMIP_TAG_BATCH_ERROR_CONTINUATION_OPTION, KMIP_TAG_BATCH_ITEM,
     KMIP_TAG_BATCH_ORDER_OPTION, KMIP_TAG_BLOCK_CIPHER_MODE, KMIP_TAG_COMPROMISE_OCCURRANCE_DATE,
     KMIP_TAG_CREDENTIAL, KMIP_TAG_CREDENTIAL_TYPE, KMIP_TAG_CREDENTIAL_VALUE, KMIP_TAG_CRYPTOGRAPHIC_ALGORITHM,
     KMIP_TAG_CRYPTOGRAPHIC_LENGTH, KMIP_TAG_CRYPTOGRAPHIC_PARAMETERS, KMIP_TAG_CRYPTOGRAPHIC_USAGE_MASK,
     KMIP_TAG_DEACTIVATION_DATE, KMIP_TAG_ENCRYPTION_KEY_INFORMATION, KMIP_TAG_HASHING_ALGORITHM,
     KMIP_TAG_IV_COUNTER_NONCE, KMIP_TAG_KEY, KMIP_TAG_KEY_BLOCK, KMIP_TAG_KEY_COMPRESSION_TYPE,
     KMIP_TAG_KEY_FORMAT_TYPE, KMIP_TAG_KEY_MATERIAL, KMIP_TAG_KEY_VALUE, KMIP_TAG_KEY_WRAPPING_DATA,
     KMIP_TAG_KEY_WRAPPING_SPECIFICATION, KMIP_TAG_MAC_SIGNATURE, KMIP_TAG_MAC_SIGNATURE_KEY_INFORMATION,
     KMIP_TAG_MAXIMUM_ITEMS, KMIP_TAG_MAXIMUM_RESPONSE_SIZE, KMIP_TAG_NAME, KMIP_TAG_NAME_TYPE, KMIP_TAG_NAME_VALUE,
     KMIP_TAG_OBJECT_GROUP, KMIP_TAG_OBJECT_TYPE, KMIP_TAG_OPERATION, KMIP_TAG_OPERATION_POLICY_NAME,
     KMIP_TAG_PADDING_METHOD, KMIP_TAG_PRIVATE_KEY, KMIP_TAG_PROCESS_START_DATE, KMIP_TAG_PROTECT_STOP_DATE,
     KMIP_TAG_PROTOCOL_VERSION, KMIP_TAG_PROTOCOL_VERSION_MAJOR, KMIP_TAG_PROTOCOL_VERSION_MINOR,
     KMIP_TAG_PUBLIC_KEY, KMIP_TAG_QUERY_FUNCTION, KMIP_TAG_REQUEST_HEADER, KMIP_TAG_REQUEST_MESSAGE,
     KMIP_TAG_REQUEST_PAYLOAD, KMIP_TAG_RESPONSE_HEADER, KMIP_TAG_RESPONSE_MESSAGE, KMIP_TAG_RESPONSE_PAYLOAD,
     KMIP_TAG_RESULT_MESSAGE, KMIP_TAG_RESULT_REASON, KMIP_TAG_RESULT_STATUS, KMIP_TAG_REVOKATION_MESSAGE,
     KMIP_TAG_REVOCATION_REASON, KMIP_TAG_REVOCATION_REASON_CODE, KMIP_TAG_KEY_ROLE_TYPE, KMIP_TAG_SALT,
     KMIP_TAG_SECRET_DATA, KMIP_TAG_SECRET_DATA_TYPE, KMIP_TAG_SERVER_INFORMATION, KMIP_TAG_STATE,
     KMIP_TAG_STORAGE_STATUS_MASK, KMIP_TAG_SYMMETRIC_KEY, KMIP_TAG_TEMPLATE_ATTRIBUTE, KMIP_TAG_TIME_STAMP,
     KMIP_TAG_UNIQUE_BATCH_ITEM_ID, KMIP_TAG_UNIQUE_IDENTIFIER, KMIP_TAG_USERNAME, KMIP_TAG_VENDOR_IDENTIFICATION,
     KMIP_TAG_WRAPPING_METHOD, KMIP_TAG_PASSWORD, KMIP_TAG_DEVICE_IDENTIFIER, KMIP_TAG_ENCODING_OPTION,
     KMIP_TAG_MACHINE_IDENTIFIER, KMIP_TAG_MEDIA_IDENTIFIER, KMIP_TAG_NETWORK_IDENTIFIER,
     KMIP_TAG_OBJECT_GROUP_MEMBER, KMIP_TAG_DIGITAL_SIGNATURE_ALGORITHM, KMIP_TAG_DEVICE_SERIAL_NUMBER,
     KMIP_TAG_RANDOM_IV, KMIP_TAG_ATTESTATION_TYPE, KMIP_TAG_NONCE, KMIP_TAG_NONCE_ID, KMIP_TAG_NONCE_VALUE,
     KMIP_TAG_ATTESTATION_MEASUREMENT, KMIP_TAG_ATTESTATION_ASSERTION, KMIP_TAG_IV_LENGTH, KMIP_TAG_TAG_LENGTH,
     KMIP_TAG_FIXED_FIELD_LENGTH, KMIP_TAG_COUNTER_LENGTH, KMIP_TAG_INITIAL_COUNTER_VALUE,
     KMIP_TAG_INVOCATION_FIELD_LENGTH, KMIP_TAG_ATTESTATION_CAPABLE_INDICATOR, KMIP_TAG_OFFSET_ITEMS,
     KMIP_TAG_LOCATED_ITEMS, KMIP_TAG_KEY_WRAP_TYPE, KMIP_TAG_SALT_LENGTH, KMIP_TAG_MASK_GENERATOR,
     KMIP_TAG_MASK_GENERATOR_HASHING_ALGORITHM, KMIP_TAG_P_SOURCE, KMIP_TAG_TRAILER_FIELD,
     KMIP_TAG_CLIENT_CORRELATION_VALUE, KMIP_TAG_SERVER_CORRELATION_VALUE, KMIP_TAG_ATTRIBUTES, KMIP_TAG_SERVER_NAME,
     KMIP_TAG_SERVER_SERIAL_NUMBER, KMIP_TAG_SERVER_VERSION, KMIP_TAG_SERVER_LOAD, KMIP_TAG_PRODUCT_NAME,
     KMIP_TAG_BUILD_LEVEL, KMIP_TAG_BUILD_DATE, KMIP_TAG_CLUSTER_INFO, KMIP_TAG_ALTERNATE_FAILOVER_ENDPOINTS,
     KMIP_TAG_EPHEMERAL, KMIP_TAG_SERVER_HASHED_PASSWORD, KMIP_TAG_PROTECTION_STORAGE_MASK,
     KMIP_TAG_PROTECTION_STORAGE_MASKS, KMIP_TAG_COMMON_PROTECTION_STORAGE_MASKS,
     KMIP_TAG_PRIVATE_PROTECTION_STORAGE_MASKS, KMIP_TAG_PUBLIC_PROTECTION_STORAGE_MASKS]"
  by (simp add: tag_enum_def kmip_consts)

lemma type_values:
  "map snd type_enum =
    [KMIP_TYPE_STRUCTURE, KMIP_TYPE_INTEGER, KMIP_TYPE_LONG_INTEGER, KMIP_TYPE_BIG_INTEGER, KMIP_TYPE_ENUMERATION,
     KMIP_TYPE_BOOLEAN, KMIP_TYPE_TEXT_STRING, KMIP_TYPE_BYTE_STRING, KMIP_TYPE_DATE_TIME, KMIP_TYPE_INTERVAL,
     KMIP_TYPE_DATE_TIME_EXTENDED]"
  by (simp add: type_enum_def kmip_consts)

lemma revocation_reason_type_values:
  "map snd revocation_reason_type_enum =
    [KMIP_REVOKE_UNSPECIFIED, KMIP_REVOKE_KEY_COMPROMISE, KMIP_REVOKE_CA_COMPROMISE, KMIP_REVOKE_AFFILIATION_CHANGED,
     KMIP_REVOKE_SUSPENDED, KMIP_REVOKE_CESSATION_OF_OPERATION, KMIP_REVOKE_PRIVILEDGE_WITHDRAWN,
     KMIP_REVOKE_EXTENSIONS]"
  by (simp add: revocation_reason_type_enum_def kmip_consts)

lemma secret_data_type_values:
  "map snd secret_data_type_enum =
    [KMIP_SECDATA_PASSWORD, KMIP_SECDATA_SEED, KMIP_SECDATA_EXTENSIONS]"
  by (simp add: secret_data_type_enum_def kmip_consts)

section \<open>Predicates and tables of names\<close>

lemma word_in_range:
  assumes "a \<le> b" "b < 2 ^ 31"
  shows "(v :: u32) \<in> word_of_nat ` {a..<b} \<longleftrightarrow> int a \<le> sint v \<and> sint v < int b"
proof
  assume "v \<in> word_of_nat ` {a..<b}"
  then show "int a \<le> sint v \<and> sint v < int b" using assms by (auto simp: sint_word_of_nat32)
next
  assume v: "int a \<le> sint v \<and> sint v < int b"
  then have "v = word_of_nat (nat (sint v))" by simp
  with v show "v \<in> word_of_nat ` {a..<b}" by (intro image_eqI [of _ _ "nat (sint v)"]) auto
qed

lemma algorithm_range: "enum_values cryptographic_algorithm_enum = word_of_nat ` {0..<57}"
proof -
  have "map snd cryptographic_algorithm_enum = map word_of_nat [0..<57]"
    by (simp add: cryptographic_algorithm_enum_def upt_rec)
  from arg_cong [OF this, of set] show ?thesis by simp
qed

lemma state_range: "enum_values state_enum = word_of_nat ` {1..<7}"
proof -
  have "map snd state_enum = map word_of_nat [1..<7]" by (simp add: state_enum_def upt_rec)
  from arg_cong [OF this, of set] show ?thesis by simp
qed

lemma valid_algorithm_iff: "is_valid_cryptographic_algorithm v \<longleftrightarrow> v \<in> enum_values cryptographic_algorithm_enum"
  by (auto simp: algorithm_range word_in_range is_valid_cryptographic_algorithm_def kmip_consts)

lemma valid_state_enum: "is_valid_state v \<longleftrightarrow> v \<in> enum_values state_enum"
  by (auto simp: state_range word_in_range is_valid_state_def kmip_consts)

lemma valid_secret_enum: "is_valid_secret_data_type v \<longleftrightarrow> v \<in> enum_values secret_data_type_enum"
  by (simp add: is_valid_secret_data_type_def secret_data_type_enum_def kmip_consts)

lemma usage_flags: "fold (OR) (map snd cryptographic_usage_mask_enum) 0 = 0x00FFFFFF"
  by (simp add: cryptographic_usage_mask_enum_def)

lemma known_states: "state_to_string v = ''UNKNOWN_KMIP_STATE'' \<longleftrightarrow> v \<notin> set (map snd state_enum)"
  unfolding state_values by (simp add: state_to_string_def)

lemma known_object_types: "object_type_to_string v = ''Unknown Object Type'' \<longleftrightarrow> v \<notin> set (map snd object_type_enum)"
  unfolding object_type_values by (simp add: object_type_to_string_def)

lemma known_operations: "operation_to_string v = ''Unknown Operation'' \<longleftrightarrow> v \<notin> set (map snd operation_enum)"
  unfolding operation_values by (simp add: operation_to_string_def)

lemma known_reasons: "lookup_kmip_reason_info v = None \<longleftrightarrow> v \<notin> set (map snd result_reason_enum)"
  unfolding result_reason_values by (simp add: lookup_kmip_reason_info_def)

lemma operation_names: "distinct (map operation_to_string (map snd operation_enum))"
  unfolding operation_values by (simp add: operation_to_string_def kmip_consts)

lemma reason_names: "distinct (map (\<lambda>v. map_option reason_name (lookup_kmip_reason_info v)) (map snd result_reason_enum))"
  unfolding result_reason_values by (simp add: lookup_kmip_reason_info_def kmip_consts)

lemma distinct_names_inj: "distinct (map f (map snd e)) \<Longrightarrow> inj_on f (enum_values e)"
  unfolding inj_on_def by (simp add: distinct_map inj_on_def) blast

text \<open>A name spells an enumerator: their letters and digits agree, but for the prefix of the enumeration and for
  upper and lower case.\<close>

primrec upper_letter :: "char \<Rightarrow> char" where
  "upper_letter (Char b0 b1 b2 b3 b4 b5 b6 b7) = Char b0 b1 b2 b3 b4 (b5 \<and> \<not> b6) b6 b7"

definition squeeze :: "string \<Rightarrow> string" where
  "squeeze s = map upper_letter (filter (\<lambda>c. c \<notin> set '' _-#'') s)"

definition spells :: "string \<Rightarrow> string \<Rightarrow> string \<Rightarrow> bool" where
  "spells prefix enumerator name \<longleftrightarrow> squeeze (prefix @ name) = squeeze enumerator"

lemma states_spelled: "list_all (\<lambda>(n, v). state_to_string v = n) state_enum"
  by (simp add: state_enum_def state_to_string_def kmip_consts)

lemma object_types_spelled: "list_all (\<lambda>(n, v). spells ''KMIP_OBJTYPE_'' n (object_type_to_string v)) object_type_enum"
  by code_simp

lemma operations_spelled: "list_all (\<lambda>(n, v). spells ''KMIP_OP_'' n (operation_to_string v)) operation_enum"
  by code_simp

lemma reasons_spelled:
  "list_all (\<lambda>(n, v). case lookup_kmip_reason_info v of None \<Rightarrow> False
     | Some info \<Rightarrow> if n = ''KMIP_REASON_ENCODING_OPTION_FAILURE'' then reason_name info = ''Encoding Option Error''
         else spells ''KMIP_REASON_'' n (reason_name info)) result_reason_enum"
  by code_simp

section \<open>Properties\<close>

text \<open>C35. The constants for plain integers repeat the enumerations: in every one of the 29 enumerations the values are
  distinct, and under every name the block of constants has the value of the enumerator of that name; only one
  padding method has no constant.\<close>

theorem legacy_constants_agree:
  "list_all (\<lambda>(e, cs). distinct (map snd e) \<and>
     (\<forall>n. legacy_value e cs n = (if n \<in> set without_constant then None else map_of e n))) enumerations"
proof -
  have "list_all (\<lambda>(e, cs). table_ok e cs) enumerations"
    by (simp only: enumerations_def list.pred_inject prod.case tables_ok simp_thms)
  then show ?thesis
    by (rule list.pred_mono_strong) (auto simp: table_ok_constants dest: table_ok_values)
qed

text \<open>C28. Predicates and tables know exactly the enumerators: a value from the wire is accepted as algorithm, state or type of secret
  if and only if an enumerator has it, and as usage mask if and only if it combines defined flags.  The string of a state
  is its enumerator; the names of operations, object types and result reasons spell theirs, the same letters
  and digits after the prefix up to case (one reason is called otherwise, and its name is given); no two operations and no two
  reasons share a name; and a value that no enumerator has is unknown.\<close>

theorem enumerations_exact:
  "(is_valid_cryptographic_algorithm v \<longleftrightarrow> v \<in> enum_values cryptographic_algorithm_enum) \<and>
   (is_valid_state v \<longleftrightarrow> v \<in> enum_values state_enum) \<and>
   (is_valid_secret_data_type v \<longleftrightarrow> v \<in> enum_values secret_data_type_enum) \<and>
   (is_valid_cryptographic_usage_mask v \<longleftrightarrow> v AND NOT (fold (OR) (map snd cryptographic_usage_mask_enum) 0) = 0) \<and>
   list_all (\<lambda>(n, u). state_to_string u = n) state_enum \<and>
   list_all (\<lambda>(n, u). spells ''KMIP_OP_'' n (operation_to_string u)) operation_enum \<and>
   list_all (\<lambda>(n, u). spells ''KMIP_OBJTYPE_'' n (object_type_to_string u)) object_type_enum \<and>
   list_all (\<lambda>(n, u). case lookup_kmip_reason_info u of None \<Rightarrow> False
     | Some info \<Rightarrow> if n = ''KMIP_REASON_ENCODING_OPTION_FAILURE'' then reason_name info = ''Encoding Option Error''
         else spells ''KMIP_REASON_'' n (reason_name info)) result_reason_enum \<and>
   (state_to_string v = ''UNKNOWN_KMIP_STATE'' \<longleftrightarrow> v \<notin> enum_values state_enum) \<and>
   (operation_to_string v = ''Unknown Operation'' \<longleftrightarrow> v \<notin> enum_values operation_enum) \<and>
   (object_type_to_string v = ''Unknown Object Type'' \<longleftrightarrow> v \<notin> enum_values object_type_enum) \<and>
   (lookup_kmip_reason_info v = None \<longleftrightarrow> v \<notin> enum_values result_reason_enum) \<and>
   inj_on operation_to_string (enum_values operation_enum) \<and>
   inj_on (\<lambda>r. map_option reason_name (lookup_kmip_reason_info r)) (enum_values result_reason_enum)"
proof (intro conjI)
  show "is_valid_cryptographic_usage_mask v \<longleftrightarrow> v AND NOT (fold (OR) (map snd cryptographic_usage_mask_enum) 0) = 0"
    by (simp only: usage_flags is_valid_cryptographic_usage_mask_def)
qed (use known_states known_operations known_object_types known_reasons in
  \<open>simp_all only: valid_algorithm_iff valid_state_enum valid_secret_enum set_map distinct_names_inj [OF operation_names]
     distinct_names_inj [OF reason_names] states_spelled operations_spelled object_types_spelled reasons_spelled\<close>)

end
