(* ===== verification/Serialization_Buffer.thy ===== *)
theory Serialization_Buffer
  imports Kmip_Errors
begin

text \<open>
  \<open>src/kmipcore/src/serialization_buffer.cpp\<close>: the growable output buffer.  The state is the
  vector (its elements and its capacity) and the write position.  Sizes are \<open>size_t\<close> values, so
  sums and the doubling of the capacity wrap at \<open>2 ^ 64\<close>; the doubling loop may then run for
  ever and is a partial function into \<open>option\<close>, where \<open>None\<close> is not returning.

  The contract of the buffer is \<open>appends\<close>: a write adds its bytes to the view of the buffer, or
  throws when the view would exceed the effective limit.  The locale \<open>buffer_writer\<close> states it
  for any write operation and proves it for sequences of writes; it is interpreted here on
  \<open>writeByte\<close>, \<open>writeBytes\<close> and \<open>writePadded\<close>, and by the TTLV encoder on
  \<open>Element::serialize\<close>.
\<close>

section \<open>State and operations\<close>

definition TTLV_ALIGNMENT :: nat where
  [kmip_consts]: "TTLV_ALIGNMENT = 8"

definition DEFAULT_CAPACITY :: nat where
  [kmip_consts]: "DEFAULT_CAPACITY = 8192"

definition MIN_CAPACITY :: nat where
  [kmip_consts]: "MIN_CAPACITY = 1024"

definition MAX_CAPACITY :: nat where
  [kmip_consts]: "MAX_CAPACITY = 100 * 1024 * 1024"

record serialization_buffer =
  buffer_data :: "byte list"
  buffer_capacity :: nat
  current_offset :: nat

text \<open>The operations of \<open>std::vector\<close> and \<open>memcpy\<close>/\<open>memset\<close> that the buffer uses.  A copy
  beyond the size of the vector is undefined behaviour, here \<open>Out_of_range\<close>.  \<open>reserve\<close> gives
  exactly the requested capacity, as the common standard libraries do.\<close>

definition vec_reserve :: "nat \<Rightarrow> serialization_buffer \<Rightarrow> serialization_buffer" where
  "vec_reserve n buf = buf\<lparr>buffer_capacity := max n (buffer_capacity buf)\<rparr>"

definition vec_resize :: "nat \<Rightarrow> serialization_buffer \<Rightarrow> serialization_buffer" where
  "vec_resize n buf =
     buf\<lparr>buffer_data := take n (buffer_data buf) @ replicate (n - length (buffer_data buf)) 0,
         buffer_capacity := max n (buffer_capacity buf)\<rparr>"

definition vec_put :: "byte list \<Rightarrow> serialization_buffer \<Rightarrow> serialization_buffer res" where
  "vec_put bs buf =
     (let off = current_offset buf; d = buffer_data buf in
      if off + length bs \<le> length d then
        Inr (buf\<lparr>buffer_data := take off d @ bs @ drop (off + length bs) d,
                 current_offset := off + length bs\<rparr>)
      else Inl Out_of_range)"

definition new_buffer :: "nat \<Rightarrow> serialization_buffer" where
  "new_buffer initial_capacity =
     \<lparr>buffer_data = [], buffer_capacity = initial_capacity, current_offset = 0\<rparr>"

text \<open>The loop of \<open>expandCapacity\<close>.\<close>

partial_function (option) double_until :: "nat \<Rightarrow> nat \<Rightarrow> nat option" where
  "double_until new_capacity required =
     (if new_capacity < required then double_until (sz_mul new_capacity 2) required
      else Some new_capacity)"

definition expandCapacity :: "nat \<Rightarrow> serialization_buffer \<Rightarrow> serialization_buffer res" where
  "expandCapacity required buf =
     (let start = (if buffer_capacity buf = 0 then MIN_CAPACITY else buffer_capacity buf) in
      case double_until start required of
        None \<Rightarrow> Inl Diverges
      | Some new_capacity \<Rightarrow>
          if new_capacity > MAX_CAPACITY then
            Inl (kmip_exception ''SerializationBuffer exceeded maximum size of 100 MB'')
          else Inr (vec_reserve new_capacity buf))"

definition ensureSpace :: "nat \<Rightarrow> serialization_buffer \<Rightarrow> serialization_buffer res" where
  "ensureSpace required_bytes buf =
     (if sz_add (current_offset buf) required_bytes \<le> buffer_capacity buf then Inr buf
      else expandCapacity (sz_add (current_offset buf) required_bytes) buf)"

definition writeByte :: "byte \<Rightarrow> serialization_buffer \<Rightarrow> serialization_buffer res" where
  "writeByte value buf =
     bind_res (ensureSpace 1 buf) (\<lambda>buf.
     let buf = (if current_offset buf \<ge> length (buffer_data buf)
                then vec_resize (sz_add (current_offset buf) 1) buf else buf) in
     vec_put [value] buf)"

definition writeBytes :: "byte list \<Rightarrow> serialization_buffer \<Rightarrow> serialization_buffer res" where
  "writeBytes data buf =
     (if data = [] then Inr buf
      else
        let length = length data in
        bind_res (ensureSpace length buf) (\<lambda>buf.
        let buf = (if sz_add (current_offset buf) length > List.length (buffer_data buf)
                   then vec_resize (sz_add (current_offset buf) length) buf else buf) in
        vec_put data buf))"

definition writePadded :: "byte list \<Rightarrow> serialization_buffer \<Rightarrow> serialization_buffer res" where
  "writePadded data buf =
     (let length = length data in
      bind_res (writeBytes data buf) (\<lambda>buf.
      let padding = (TTLV_ALIGNMENT - length mod TTLV_ALIGNMENT) mod TTLV_ALIGNMENT in
      if padding > 0 then
        bind_res (ensureSpace padding buf) (\<lambda>buf.
        let buf = (if sz_add (current_offset buf) padding > List.length (buffer_data buf)
                   then vec_resize (sz_add (current_offset buf) padding) buf else buf) in
        vec_put (replicate padding 0) buf)
      else Inr buf))"

definition buffer_size :: "serialization_buffer \<Rightarrow> nat" where
  "buffer_size buf = current_offset buf"

definition remaining :: "serialization_buffer \<Rightarrow> nat" where
  "remaining buf =
     (if current_offset buf < buffer_capacity buf
      then buffer_capacity buf - current_offset buf else 0)"

definition reset_buffer :: "serialization_buffer \<Rightarrow> serialization_buffer" where
  "reset_buffer buf = buf\<lparr>current_offset := 0\<rparr>"

text \<open>\<open>span()\<close>: exactly the bytes written.\<close>

definition buffer_span :: "serialization_buffer \<Rightarrow> byte list" where
  "buffer_span buf = take (current_offset buf) (buffer_data buf)"

definition release :: "serialization_buffer \<Rightarrow> (byte list \<times> serialization_buffer) res" where
  "release buf =
     (if current_offset buf \<le> length (buffer_data buf) then
        Inr (take (current_offset buf) (buffer_data buf),
             buf\<lparr>buffer_data := [], current_offset := 0\<rparr>)
      else Inl Out_of_range)"

definition shrink :: "serialization_buffer \<Rightarrow> serialization_buffer" where
  "shrink buf = buf\<lparr>buffer_data := [], buffer_capacity := 0, current_offset := 0\<rparr>"

section \<open>The doubling loop\<close>

text \<open>From a positive capacity the loop ends whenever the request is at most \<open>2 ^ 63\<close>, at the
  first doubling that suffices.\<close>

lemma double_until_ge: "required \<le> c \<Longrightarrow> double_until c required = Some c"
  by (subst double_until.simps) simp

lemma double_until_step:
  "c < required \<Longrightarrow> double_until c required = double_until (sz_mul c 2) required"
  by (subst double_until.simps) simp

lemma double_until_returns:
  assumes "0 < c" and "required \<le> 2 ^ 63"
  shows "\<exists>n. double_until c required = Some (c * 2 ^ n) \<and> required \<le> c * 2 ^ n \<and>
             (\<forall>m<n. c * 2 ^ m < required)"
  using assms
proof (induction "required - c" arbitrary: c rule: less_induct)
  case less
  show ?case
  proof (cases "c < required")
    case False
    then show ?thesis by (intro exI [of _ 0]) (simp add: double_until_ge)
  next
    case True
    have mul: "sz_mul c 2 = 2 * c"
      using True less.prems by (simp add: sz_mul_def)
    have "required - 2 * c < required - c" using True less.prems by simp
    from less.hyps [OF this] less.prems obtain n where n:
      "double_until (2 * c) required = Some (2 * c * 2 ^ n)" "required \<le> 2 * c * 2 ^ n"
      "\<forall>m<n. 2 * c * 2 ^ m < required" by auto
    show ?thesis
    proof (intro exI [of _ "Suc n"] conjI allI impI)
      show "double_until c required = Some (c * 2 ^ Suc n)"
        using True n(1) by (simp add: double_until_step mul ac_simps)
      show "required \<le> c * 2 ^ Suc n" using n(2) by (simp add: ac_simps)
      show "c * 2 ^ m < required" if "m < Suc n" for m
        using that True n(3) by (cases m) (auto simp: ac_simps)
    qed
  qed
qed

text \<open>A capacity that wrapped to zero never reaches the request.\<close>

lemma double_until_Some_0: "double_until c r = Some y \<Longrightarrow> c = 0 \<longrightarrow> r = 0"
  by (erule double_until.raw_induct [rotated]) (auto simp: sz_mul_def split: if_splits)

lemma double_until_0: "0 < required \<Longrightarrow> double_until 0 required = None"
  using double_until_Some_0 [of 0 required] by (cases "double_until 0 required") auto

text \<open>From a power of two the loop runs for ever when more than \<open>2 ^ 63\<close> bytes are requested.\<close>

lemma double_until_diverges:
  assumes "k < 64" and "2 ^ 63 < required"
  shows "double_until (2 ^ k) required = None"
  using assms(1)
proof (induction "63 - k" arbitrary: k)
  case 0
  then have "k = 63" by simp
  then have "sz_mul (2 ^ k) 2 = 0" by (simp add: sz_mul_def)
  with assms(2) \<open>k = 63\<close> show ?case
    using double_until_step [of "2 ^ 63" required] by (simp add: double_until_0)
next
  case (Suc x)
  then have "k < 63" by simp
  then have "(2::nat) ^ Suc k < 2 ^ 64" by (intro power_strict_increasing) simp_all
  then have "sz_mul (2 ^ k) 2 = 2 ^ Suc k" by (simp add: sz_mul_def ac_simps)
  moreover have "(2::nat) ^ k < 2 ^ 63" using \<open>k < 63\<close> by (intro power_strict_increasing) simp_all
  ultimately show ?case
    using Suc.hyps(1) [of "Suc k"] Suc.hyps(2) \<open>k < 63\<close> assms(2) by (simp add: double_until_step)
qed

section \<open>Well-formed buffers and the append contract\<close>

text \<open>Capacities that occur: none after \<open>shrink\<close>, otherwise a power of two, because the default
  and the minimum are powers of two and the loop doubles.  The largest such capacity within
  \<open>MAX_CAPACITY\<close> is \<open>2 ^ 26\<close>: the effective limit.\<close>

definition std_capacity :: "nat \<Rightarrow> bool" where
  "std_capacity c \<longleftrightarrow> c = 0 \<or> c \<in> (\<lambda>k. 2 ^ k) ` {10..26}"

definition effective_limit :: nat where
  [kmip_consts]: "effective_limit = 2 ^ 26"

definition buffer_ok :: "serialization_buffer \<Rightarrow> bool" where
  "buffer_ok buf \<longleftrightarrow>
     current_offset buf \<le> length (buffer_data buf) \<and>
     length (buffer_data buf) \<le> buffer_capacity buf \<and> std_capacity (buffer_capacity buf)"

text \<open>The result \<open>r\<close> of a write of the bytes \<open>bs\<close> to \<open>buf\<close>.\<close>

definition appends ::
    "serialization_buffer \<Rightarrow> byte list \<Rightarrow> serialization_buffer res \<Rightarrow> bool" where
  "appends buf bs r \<longleftrightarrow>
     (if length (buffer_span buf) + length bs \<le> effective_limit
      then \<exists>buf'. r = Inr buf' \<and> buffer_ok buf' \<and> buffer_span buf' = buffer_span buf @ bs
      else r = Inl (kmip_exception ''SerializationBuffer exceeded maximum size of 100 MB''))"

lemma appends_return: "buffer_ok buf \<Longrightarrow> appends buf [] (Inr buf)"
  if "length (buffer_span buf) \<le> effective_limit"
  using that by (simp add: appends_def)

text \<open>Sequencing: two writes append the concatenation.\<close>

lemma appends_bind:
  assumes "appends buf bs r"
    and "\<And>buf'. buffer_ok buf' \<Longrightarrow> buffer_span buf' = buffer_span buf @ bs \<Longrightarrow> appends buf' cs (f buf')"
  shows "appends buf (bs @ cs) (bind_res r f)"
proof (cases "length (buffer_span buf) + length bs \<le> effective_limit")
  case True
  with assms(1) obtain buf' where b: "r = Inr buf'" "buffer_ok buf'"
    "buffer_span buf' = buffer_span buf @ bs" by (auto simp: appends_def)
  from assms(2) [OF b(2,3)] b(1,3) show ?thesis
    by (auto simp: appends_def add.assoc split: if_splits)
next
  case False
  with assms(1) show ?thesis by (simp add: appends_def)
qed

lemma std_capacity_le: "std_capacity c \<Longrightarrow> c \<le> effective_limit"
  using power_increasing [of _ 26 "2::nat"] by (auto simp: std_capacity_def effective_limit_def)

lemma buffer_ok_span:
  "buffer_ok buf \<Longrightarrow> length (buffer_span buf) = current_offset buf"
  "buffer_ok buf \<Longrightarrow> current_offset buf \<le> effective_limit"
  using std_capacity_le [of "buffer_capacity buf"] by (auto simp: buffer_ok_def buffer_span_def)

lemma new_buffer_ok [simp]:
  "buffer_ok (new_buffer DEFAULT_CAPACITY)" "buffer_span (new_buffer c) = []"
proof -
  have "(8192::nat) \<in> (\<lambda>k. 2 ^ k) ` {10..26}" by (rule image_eqI [where x = 13]) simp_all
  then show "buffer_ok (new_buffer DEFAULT_CAPACITY)"
    by (simp add: buffer_ok_def new_buffer_def std_capacity_def kmip_consts)
qed (simp add: new_buffer_def buffer_span_def)

text \<open>Growth from a standard capacity: success exactly up to the effective limit.\<close>

lemma power2_26_cases:
  assumes "(2::nat) ^ n \<le> MAX_CAPACITY"
  shows "n \<le> 26"
proof (rule ccontr)
  assume "\<not> n \<le> 26"
  then have "(2::nat) ^ 27 \<le> 2 ^ n" by (intro power_increasing) simp_all
  with assms show False by (simp add: kmip_consts)
qed

lemma expandCapacity_std:
  assumes "std_capacity (buffer_capacity buf)" "buffer_capacity buf < required" "required \<le> 2 ^ 63"
  shows "required \<le> effective_limit \<Longrightarrow>
           \<exists>c. expandCapacity required buf = Inr (buf\<lparr>buffer_capacity := c\<rparr>) \<and>
               std_capacity c \<and> required \<le> c \<and> buffer_capacity buf \<le> c"
    and "effective_limit < required \<Longrightarrow> expandCapacity required buf =
           Inl (kmip_exception ''SerializationBuffer exceeded maximum size of 100 MB'')"
proof -
  define start where
    "start = (if buffer_capacity buf = 0 then MIN_CAPACITY else buffer_capacity buf)"
  have min: "std_capacity MIN_CAPACITY" "MIN_CAPACITY \<noteq> 0"
    by (simp_all add: std_capacity_def kmip_consts image_iff bexI [of _ 10])
  have "std_capacity start" "start \<noteq> 0"
    using assms(1) min by (auto simp: start_def)
  then obtain k where k: "10 \<le> k" "k \<le> 26" "start = 2 ^ k" by (auto simp: std_capacity_def)
  from double_until_returns [of start required] assms(3) k obtain n where n:
    "double_until start required = Some (2 ^ (k + n))" "required \<le> 2 ^ (k + n)"
    "\<forall>m<n. 2 ^ (k + m) < required" by (auto simp: power_add)
  have result: "expandCapacity required buf =
      (if 2 ^ (k + n) > MAX_CAPACITY then
         Inl (kmip_exception ''SerializationBuffer exceeded maximum size of 100 MB'')
       else Inr (vec_reserve (2 ^ (k + n)) buf))"
    using n(1) by (simp add: expandCapacity_def start_def [symmetric])
  {
    assume small: "required \<le> effective_limit"
    have le: "k + n \<le> 26"
    proof (rule ccontr)
      assume "\<not> k + n \<le> 26"
      then have "26 - k < n" "k + (26 - k) = 26" using k by simp_all
      with n(3) have "2 ^ 26 < required" by metis
      with small show False by (simp add: effective_limit_def)
    qed
    then have "(2::nat) ^ (k + n) \<le> 2 ^ 26" by (intro power_increasing) simp_all
    then have "\<not> 2 ^ (k + n) > MAX_CAPACITY" by (simp add: kmip_consts)
    moreover have "std_capacity (2 ^ (k + n))" using le k by (auto simp: std_capacity_def)
    moreover have "max (2 ^ (k + n)) (buffer_capacity buf) = 2 ^ (k + n)" using n(2) assms(2) by simp
    ultimately show "\<exists>c. expandCapacity required buf = Inr (buf\<lparr>buffer_capacity := c\<rparr>) \<and>
               std_capacity c \<and> required \<le> c \<and> buffer_capacity buf \<le> c"
      using result n(2) assms(2) by (intro exI [of _ "2 ^ (k + n)"]) (simp add: vec_reserve_def)
  next
    assume "effective_limit < required"
    then have "2 ^ 26 < (2::nat) ^ (k + n)" using n(2) by (simp add: effective_limit_def)
    then have "\<not> k + n \<le> 26" using power_increasing [of "k + n" 26 "2::nat"] by linarith
    then have "2 ^ (k + n) > MAX_CAPACITY" using power2_26_cases by (meson not_le)
    then show "expandCapacity required buf =
           Inl (kmip_exception ''SerializationBuffer exceeded maximum size of 100 MB'')"
      using result by simp
  }
qed

lemma sz_add_small: "a + b < 2 ^ 64 \<Longrightarrow> sz_add a b = a + b"
  by (simp add: sz_add_def)

lemma ensureSpace_std:
  assumes "buffer_ok buf" "n < 2 ^ 62"
  shows "current_offset buf + n \<le> effective_limit \<Longrightarrow>
           \<exists>c. ensureSpace n buf = Inr (buf\<lparr>buffer_capacity := c\<rparr>) \<and>
               buffer_ok (buf\<lparr>buffer_capacity := c\<rparr>) \<and> current_offset buf + n \<le> c"
    and "effective_limit < current_offset buf + n \<Longrightarrow> ensureSpace n buf =
           Inl (kmip_exception ''SerializationBuffer exceeded maximum size of 100 MB'')"
proof -
  have off: "current_offset buf \<le> 2 ^ 26"
    using buffer_ok_span(2) [OF assms(1)] by (simp add: effective_limit_def)
  then have add: "sz_add (current_offset buf) n = current_offset buf + n"
    and le: "current_offset buf + n \<le> 2 ^ 63"
    using assms(2) by (simp_all add: sz_add_small)
  have std: "std_capacity (buffer_capacity buf)" using assms(1) by (simp add: buffer_ok_def)
  show "\<exists>c. ensureSpace n buf = Inr (buf\<lparr>buffer_capacity := c\<rparr>) \<and>
               buffer_ok (buf\<lparr>buffer_capacity := c\<rparr>) \<and> current_offset buf + n \<le> c"
    if "current_offset buf + n \<le> effective_limit"
  proof (cases "current_offset buf + n \<le> buffer_capacity buf")
    case True
    then show ?thesis using assms(1)
      by (intro exI [of _ "buffer_capacity buf"]) (simp add: ensureSpace_def add)
  next
    case False
    with expandCapacity_std(1) [OF std _ le that] assms(1) show ?thesis
      by (force simp: ensureSpace_def add buffer_ok_def)
  qed
  show "ensureSpace n buf = Inl (kmip_exception ''SerializationBuffer exceeded maximum size of 100 MB'')"
    if "effective_limit < current_offset buf + n"
    using expandCapacity_std(2) [OF std _ le that] std_capacity_le [OF std] that
    by (simp add: ensureSpace_def add)
qed

text \<open>Inside the capacity, growing the size and copying appends the bytes.\<close>

lemma put_after_resize:
  assumes "buffer_ok buf" "current_offset buf + length bs \<le> buffer_capacity buf"
    and "n = current_offset buf + length bs" "grow \<longleftrightarrow> length (buffer_data buf) < n"
  shows "\<exists>buf'. vec_put bs (if grow then vec_resize n buf else buf) = Inr buf' \<and>
           buffer_ok buf' \<and> buffer_span buf' = buffer_span buf @ bs"
  using assms
  by (cases grow; cases bs)
     (auto simp: vec_put_def vec_resize_def buffer_ok_def buffer_span_def Let_def min_def max_def)

lemma write_appends:
  assumes ok: "buffer_ok buf" and small: "length bs < 2 ^ 62"
    and k: "\<And>b. buffer_ok b \<Longrightarrow> current_offset b + length bs \<le> buffer_capacity b \<Longrightarrow>
      k b = vec_put bs (if length (buffer_data b) < current_offset b + length bs
                        then vec_resize (current_offset b + length bs) b else b)"
  shows "appends buf bs (bind_res (ensureSpace (length bs) buf) k)"
proof (cases "current_offset buf + length bs \<le> effective_limit")
  case True
  from ensureSpace_std(1) [OF ok small True] obtain c where c:
    "ensureSpace (length bs) buf = Inr (buf\<lparr>buffer_capacity := c\<rparr>)"
    "buffer_ok (buf\<lparr>buffer_capacity := c\<rparr>)" "current_offset buf + length bs \<le> c" by blast
  let ?b = "buf\<lparr>buffer_capacity := c\<rparr>"
  have "\<exists>buf'. k ?b = Inr buf' \<and> buffer_ok buf' \<and> buffer_span buf' = buffer_span ?b @ bs"
    unfolding k [OF c(2), simplified, OF c(3)] using c(2,3) by (intro put_after_resize) simp_all
  moreover have "buffer_span ?b = buffer_span buf" by (simp add: buffer_span_def)
  ultimately show ?thesis using True c(1) ok by (simp add: appends_def buffer_ok_span)
next
  case False
  with ensureSpace_std(2) [OF ok small] ok show ?thesis by (simp add: appends_def buffer_ok_span)
qed

lemma sz_add_ok:
  "buffer_ok b \<Longrightarrow> current_offset b + n \<le> buffer_capacity b \<Longrightarrow>
     sz_add (current_offset b) n = current_offset b + n"
  using std_capacity_le [of "buffer_capacity b"]
  by (auto simp: buffer_ok_def effective_limit_def intro: sz_add_small)

lemma writeByte_appends: "buffer_ok buf \<Longrightarrow> appends buf [b] (writeByte b buf)"
  unfolding writeByte_def
  using write_appends [of buf "[b]"] sz_add_ok [of _ 1] by (simp add: Let_def less_Suc_eq_le)

lemma writeBytes_appends:
  assumes "buffer_ok buf" "length bs < 2 ^ 62"
  shows "appends buf bs (writeBytes bs buf)"
proof (cases "bs = []")
  case True
  then show ?thesis using assms(1) by (simp add: writeBytes_def appends_return buffer_ok_span)
next
  case False
  then show ?thesis
    unfolding writeBytes_def
    using write_appends [OF assms] sz_add_ok [of _ "length bs"] by (simp add: Let_def)
qed

lemma writePadded_appends:
  assumes "buffer_ok buf" "length bs < 2 ^ 62"
  shows "appends buf (bs @ replicate (pad8 (length bs)) 0) (writePadded bs buf)"
proof -
  have pad: "(TTLV_ALIGNMENT - length bs mod TTLV_ALIGNMENT) mod TTLV_ALIGNMENT = pad8 (length bs)"
    by (simp add: TTLV_ALIGNMENT_def pad8_def)
  show ?thesis
    unfolding writePadded_def Let_def pad
  proof (rule appends_bind [OF writeBytes_appends [OF assms]])
    fix b assume ok: "buffer_ok b"
    show "appends b (replicate (pad8 (length bs)) 0)
       (if 0 < pad8 (length bs) then bind_res (ensureSpace (pad8 (length bs)) b)
          (\<lambda>buf. vec_put (replicate (pad8 (length bs)) 0)
             (if length (buffer_data buf) < sz_add (current_offset buf) (pad8 (length bs))
              then vec_resize (sz_add (current_offset buf) (pad8 (length bs))) buf else buf))
        else Inr b)"
      using write_appends [OF ok, of "replicate (pad8 (length bs)) 0"] pad8_less [of "length bs"]
        sz_add_ok [of _ "pad8 (length bs)"] ok
      by (cases "pad8 (length bs) = 0") (simp_all add: appends_return buffer_ok_span del: pad8_eq_0_iff)
  qed
qed

section \<open>Write operations as a contract\<close>

text \<open>An operation \<open>put\<close> that writes the bytes \<open>emit x\<close> of an admissible item, and what
  follows for a loop of such writes.\<close>

locale buffer_writer =
  fixes put :: "'a \<Rightarrow> serialization_buffer \<Rightarrow> serialization_buffer res"
    and emit :: "'a \<Rightarrow> byte list"
    and admissible :: "'a \<Rightarrow> bool"
  assumes put_appends: "admissible x \<Longrightarrow> buffer_ok buf \<Longrightarrow> appends buf (emit x) (put x buf)"
begin

lemma put_all_appends:
  assumes "list_all admissible xs" "buffer_ok buf"
  shows "appends buf (concat (map emit xs)) (fold_res put xs buf)"
  using assms
proof (induction xs arbitrary: buf)
  case Nil
  then show ?case by (simp add: appends_return buffer_ok_span)
next
  case (Cons x xs)
  then show ?case by (auto intro!: appends_bind [OF put_appends])
qed

text \<open>A fresh buffer receives exactly the emitted bytes, when they fit.\<close>

lemma put_fresh:
  assumes "admissible x" "length (emit x) \<le> effective_limit"
  shows "\<exists>buf. put x (new_buffer DEFAULT_CAPACITY) = Inr buf \<and> buffer_ok buf \<and>
           buffer_span buf = emit x"
  using put_appends [OF assms(1) new_buffer_ok(1)] assms(2) by (simp add: appends_def)

lemma put_exception:
  assumes "admissible x" "buffer_ok buf" "put x buf = Inl e"
  shows "is_exception e"
  using put_appends [OF assms(1,2)] assms(3) by (auto simp: appends_def split: if_splits)

end

interpretation byte_writer: buffer_writer writeByte "\<lambda>b. [b]" "\<lambda>_. True"
  by unfold_locales (rule writeByte_appends)

interpretation bytes_writer: buffer_writer writeBytes "\<lambda>bs. bs" "\<lambda>bs. length bs < 2 ^ 62"
  by unfold_locales (rule writeBytes_appends)

interpretation padded_writer: buffer_writer writePadded
    "\<lambda>bs. bs @ replicate (pad8 (length bs)) 0" "\<lambda>bs. length bs < 2 ^ 62"
  by unfold_locales (rule writePadded_appends)

lemma writeByte_all_appends:
  "buffer_ok buf \<Longrightarrow> appends buf bs (fold_res writeByte bs buf)"
  using byte_writer.put_all_appends [of bs buf] by (simp add: list_all_iff)

section \<open>Release, reset and shrink\<close>

lemma release_ok:
  assumes "buffer_ok buf"
  shows "\<exists>buf'. release buf = Inr (buffer_span buf, buf') \<and> buffer_ok buf' \<and>
           buffer_span buf' = [] \<and> buffer_capacity buf' = buffer_capacity buf"
  using assms by (auto simp: release_def buffer_ok_def buffer_span_def)

lemma reset_shrink_ok:
  "buffer_ok buf \<Longrightarrow> buffer_ok (reset_buffer buf)"
  "buffer_ok (shrink buf)"
  "buffer_span (reset_buffer buf) = []" "buffer_span (shrink buf) = []"
  by (simp_all add: reset_buffer_def shrink_def buffer_ok_def buffer_span_def std_capacity_def)

text \<open>Any mixture of the write operations.\<close>

datatype write_op = Write_byte byte | Write_bytes "byte list" | Write_padded "byte list"

fun run_write :: "write_op \<Rightarrow> serialization_buffer \<Rightarrow> serialization_buffer res" where
  "run_write (Write_byte b) buf = writeByte b buf"
| "run_write (Write_bytes bs) buf = writeBytes bs buf"
| "run_write (Write_padded bs) buf = writePadded bs buf"

fun written :: "write_op \<Rightarrow> byte list" where
  "written (Write_byte b) = [b]"
| "written (Write_bytes bs) = bs"
| "written (Write_padded bs) = bs @ replicate (pad8 (length bs)) 0"

interpretation op_writer: buffer_writer run_write written "\<lambda>op. length (written op) < 2 ^ 62"
proof
  fix op buf assume "length (written op) < 2 ^ 62" "buffer_ok buf"
  then show "appends buf (written op) (run_write op buf)"
    by (cases op) (simp_all add: writeByte_appends writeBytes_appends writePadded_appends)
qed

section \<open>Properties\<close>

text \<open>C33. Every sequence of \<open>writeByte\<close>, \<open>writeBytes\<close> and \<open>writePadded\<close> on a well-formed
  buffer appends exactly the bytes of the operations, padded ones completed with zeros to a multiple
  of eight, keeps the buffer well formed, and throws exactly when the total exceeds the effective
  limit of 64 MiB; it never writes outside the vector and always returns.\<close>

theorem write_sequence_appends:
  assumes "buffer_ok buf" "list_all (\<lambda>op. length (written op) < 2 ^ 62) ops"
  shows "if length (buffer_span buf) + length (concat (map written ops)) \<le> 2 ^ 26
    then \<exists>buf'. fold_res run_write ops buf = Inr buf' \<and> buffer_ok buf' \<and>
           buffer_span buf' = buffer_span buf @ concat (map written ops)
    else fold_res run_write ops buf =
           Inl (kmip_exception ''SerializationBuffer exceeded maximum size of 100 MB'')"
  using op_writer.put_all_appends [OF assms(2,1)] unfolding appends_def effective_limit_def .

theorem write_sequence_appends_witness:
  "\<exists>buf'. fold_res run_write [Write_byte 1, Write_padded [2, 3], Write_bytes [4]]
            (new_buffer DEFAULT_CAPACITY) = Inr buf' \<and>
     buffer_span buf' = [1, 2, 3, 0, 0, 0, 0, 0, 0, 4]"
proof -
  have replicate_6: "replicate 6 (0::byte) = [0, 0, 0, 0, 0, 0]"
    by (simp add: eval_nat_numeral)
  have "written (Write_padded [2, 3]) = [2, 3, 0, 0, 0, 0, 0, 0]"
    using replicate_6 by (simp add: pad8_def)
  then show ?thesis
    using write_sequence_appends [of "new_buffer DEFAULT_CAPACITY"
      "[Write_byte 1, Write_padded [2, 3], Write_bytes [4]]"]
    by (auto simp del: written.simps(3))
qed

text \<open>The doubling loop of \<open>expandCapacity\<close> returns for every positive capacity and every
  request up to \<open>2 ^ 63\<close> bytes, at the least doubling that covers the request.\<close>

theorem expandCapacity_loop_returns:
  assumes "0 < capacity" "required \<le> 2 ^ 63"
  shows "\<exists>n. double_until capacity required = Some (capacity * 2 ^ n) \<and>
           required \<le> capacity * 2 ^ n \<and> (\<forall>m<n. capacity * 2 ^ m < required)"
  using assms by (rule double_until_returns)

theorem expandCapacity_loop_returns_witness:
  "\<exists>n. double_until 8192 20000 = Some (8192 * 2 ^ n) \<and> 20000 \<le> (8192::nat) * 2 ^ n \<and>
       (\<forall>m<n. 8192 * 2 ^ m < (20000::nat))"
  using expandCapacity_loop_returns [of 8192 20000] by simp

text \<open>C39. \<open>ensureSpace\<close> does not return when the bytes in the buffer and the bytes requested are together more than
  \<open>2 ^ 63\<close> and less than \<open>2 ^ 64\<close>, and the capacity is a power of two: the doubled capacity wraps to zero and the size
  check behind the loop is never reached.\<close>

theorem ensureSpace_diverges:
  assumes "buffer_capacity buf = 2 ^ k" "k < 64"
    and "2 ^ 63 < current_offset buf + n" "current_offset buf + n < 2 ^ 64"
  shows "ensureSpace n buf = Inl Diverges"
proof -
  have "(2::nat) ^ k \<le> 2 ^ 63" using assms(2) by (intro power_increasing) simp_all
  then show ?thesis
    using assms double_until_diverges [OF assms(2,3)]
    by (simp add: ensureSpace_def expandCapacity_def sz_add_small)
qed

theorem ensureSpace_diverges_witness:
  "ensureSpace (2 ^ 63 + 1) (new_buffer DEFAULT_CAPACITY) = Inl Diverges"
proof -
  have "buffer_capacity (new_buffer DEFAULT_CAPACITY) = 2 ^ 13"
    by (simp add: new_buffer_def kmip_consts)
  then show ?thesis
    by (rule ensureSpace_diverges) (simp_all add: new_buffer_def)
qed

text \<open>\<open>release\<close> hands out exactly the bytes written so far and leaves an empty buffer that
  keeps its capacity, so the next message starts from scratch.\<close>

theorem release_returns_written:
  assumes "buffer_ok buf"
  shows "\<exists>buf'. release buf = Inr (buffer_span buf, buf') \<and> buffer_ok buf' \<and>
           buffer_span buf' = [] \<and> buffer_capacity buf' = buffer_capacity buf"
  using assms by (rule release_ok)

theorem release_returns_written_witness:
  "\<exists>buf'. release (new_buffer DEFAULT_CAPACITY) = Inr ([], buf') \<and> buffer_capacity buf' = 8192"
  using release_returns_written [OF new_buffer_ok(1)] by (auto simp: new_buffer_def kmip_consts buffer_span_def)

end
