(* ===== verification/Kmip_Basics.thy ===== *)
theory Kmip_Basics
  imports Serialization_Buffer
begin

text \<open>
  \<open>src/kmipcore/src/kmip_basics.cpp\<close> and \<open>kmip_basics.hpp\<close>: TTLV elements, their
  serialization into a buffer and the recursive decoder.  An element keeps tag, type code and value
  variant separately, as the struct does, so an element whose type code contradicts its variant
  can be written down; \<open>ttlv_wf\<close> excludes it.

  \<open>encode\<close> is the abstract wire format (tag, type, length, content, zero padding).  The lemmas
  show that \<open>serialize\<close> appends \<open>encode\<close> to its buffer, on either byte order and up to the
  effective limit; that the decoder inverts \<open>encode\<close> at any position; that whatever it accepts
  is the encoding of the element it returns; and that it never reads outside its input.

  The positions handled by the decoder are at most the size of the input, which is below
  \<open>2 ^ 63\<close>, so its sums are written without wrap-around.
\<close>

section \<open>Elements\<close>

datatype element = Element (elem_tag: u32) (elem_type: u32) (elem_value: ttlv_value)
  and ttlv_value =
    Structure "element list"
  | Integer i32
  | LongInteger i64
  | BigInteger "byte list"
  | Enumeration i32
  | Boolean bool
  | TextString string
  | ByteString "byte list"
  | DateTime i64
  | DateTimeExtended i64
  | Interval u32

section \<open>Byte order\<close>

definition to_be32 :: "platform \<Rightarrow> u32 \<Rightarrow> u32" where
  "to_be32 pl v =
     (if native_endian pl = Big_endian then v
      else push_bit 24 (v AND 0x000000FF) OR push_bit 8 (v AND 0x0000FF00) OR
           drop_bit 8 (v AND 0x00FF0000) OR drop_bit 24 (v AND 0xFF000000))"

definition to_be64 :: "platform \<Rightarrow> u64 \<Rightarrow> u64" where
  "to_be64 pl v =
     (if native_endian pl = Big_endian then v
      else push_bit 32 (ucast (to_be32 pl (ucast v))) OR ucast (to_be32 pl (ucast (drop_bit 32 v))))"

text \<open>\<open>std::as_bytes\<close> of one word: its bytes in memory.\<close>

definition as_bytes32 :: "platform \<Rightarrow> u32 \<Rightarrow> byte list" where
  "as_bytes32 pl v = (if native_endian pl = Big_endian then be_bytes32 v else rev (be_bytes32 v))"

definition as_bytes64 :: "platform \<Rightarrow> u64 \<Rightarrow> byte list" where
  "as_bytes64 pl v = (if native_endian pl = Big_endian then be_bytes64 v else rev (be_bytes64 v))"

text \<open>\<open>data[i]\<close> of a span.\<close>

definition byte_at :: "byte list \<Rightarrow> nat \<Rightarrow> byte res" where
  "byte_at data i = (if i < length data then Inr (data ! i) else Inl Out_of_range)"

definition read_be_u32 :: "byte list \<Rightarrow> nat \<Rightarrow> u32 res" where
  "read_be_u32 data off =
     bind_res (byte_at data off) (\<lambda>a.
     bind_res (byte_at data (off + 1)) (\<lambda>b.
     bind_res (byte_at data (off + 2)) (\<lambda>c.
     bind_res (byte_at data (off + 3)) (\<lambda>d.
     Inr (push_bit 24 (ucast a) OR push_bit 16 (ucast b) OR push_bit 8 (ucast c) OR ucast d)))))"

definition read_be_u64 :: "byte list \<Rightarrow> nat \<Rightarrow> u64 res" where
  "read_be_u64 data off =
     bind_res (byte_at data off) (\<lambda>a.
     bind_res (byte_at data (off + 1)) (\<lambda>b.
     bind_res (byte_at data (off + 2)) (\<lambda>c.
     bind_res (byte_at data (off + 3)) (\<lambda>d.
     bind_res (byte_at data (off + 4)) (\<lambda>e.
     bind_res (byte_at data (off + 5)) (\<lambda>f.
     bind_res (byte_at data (off + 6)) (\<lambda>g.
     bind_res (byte_at data (off + 7)) (\<lambda>h.
     Inr (push_bit 56 (ucast a) OR push_bit 48 (ucast b) OR push_bit 40 (ucast c) OR
          push_bit 32 (ucast d) OR push_bit 24 (ucast e) OR push_bit 16 (ucast f) OR
          push_bit 8 (ucast g) OR ucast h)))))))))"

definition validate_zero_padding :: "byte list \<Rightarrow> nat \<Rightarrow> nat \<Rightarrow> nat \<Rightarrow> unit res" where
  "validate_zero_padding data value_offset value_length padded_length =
     fold_res
       (\<lambda>i _. bind_res (byte_at data i) (\<lambda>b.
          guard_res (b = 0)
            (kmip_exception ''Invalid TTLV padding: non-zero padding byte found'')))
       [value_offset + value_length ..< value_offset + padded_length] ()"

section \<open>Serialization\<close>

lemma fold_res_cong [fundef_cong]:
  "xs = ys \<Longrightarrow> s = t \<Longrightarrow> (\<And>x u. x \<in> set ys \<Longrightarrow> f x u = g x u) \<Longrightarrow> fold_res f xs s = fold_res g ys t"
proof (induction xs arbitrary: ys s t)
  case (Cons x xs)
  then show ?case by (auto intro!: bind_res_cong)
qed simp

text \<open>The end of \<open>serialize\<close>: the length field, the content and the padding.\<close>

definition write_content ::
    "u32 \<Rightarrow> serialization_buffer \<Rightarrow> serialization_buffer \<Rightarrow> serialization_buffer res" where
  "write_content payload_length content_buf buf =
     bind_res (writeByte (ucast (drop_bit 24 payload_length AND 0xFF)) buf) (\<lambda>buf.
     bind_res (writeByte (ucast (drop_bit 16 payload_length AND 0xFF)) buf) (\<lambda>buf.
     bind_res (writeByte (ucast (drop_bit 8 payload_length AND 0xFF)) buf) (\<lambda>buf.
     bind_res (writeByte (ucast (payload_length AND 0xFF)) buf) (\<lambda>buf.
     bind_res
       (if buffer_size content_buf > 0 then writeBytes (buffer_span content_buf) buf else Inr buf)
       (\<lambda>buf.
     let total_so_far = 3 + 1 + 4 + buffer_size content_buf;
         padding = (8 - total_so_far mod 8) mod 8 in
     fold_res writeByte (replicate padding 0) buf)))))"

text \<open>\<open>serialize\<close> and its first pass, which fills the content buffer and computes the declared
  payload length of every variant.  The children of a structure are serialized into the content
  buffer one after the other.\<close>

fun serialize :: "platform \<Rightarrow> element \<Rightarrow> serialization_buffer \<Rightarrow> serialization_buffer res"
  and serialize_content :: "platform \<Rightarrow> ttlv_value \<Rightarrow> (serialization_buffer \<times> u32) res" where
  "serialize pl (Element tag type val) buf =
     bind_res (writeByte (ucast (drop_bit 16 tag AND 0xFF)) buf) (\<lambda>buf.
     bind_res (writeByte (ucast (drop_bit 8 tag AND 0xFF)) buf) (\<lambda>buf.
     bind_res (writeByte (ucast (tag AND 0xFF)) buf) (\<lambda>buf.
     bind_res (writeByte (ucast type) buf) (\<lambda>buf.
     bind_res (serialize_content pl val) (\<lambda>(content_buf, payload_length).
     write_content payload_length content_buf buf)))))"
| "serialize_content pl (Structure items) =
     bind_res (fold_res (\<lambda>item cb. serialize pl item cb) items (new_buffer DEFAULT_CAPACITY)) (\<lambda>cb.
     Inr (cb, word_of_nat (buffer_size cb)))"
| "serialize_content pl (Integer v) =
     bind_res (writeBytes (as_bytes32 pl (to_be32 pl v)) (new_buffer DEFAULT_CAPACITY)) (\<lambda>cb.
     Inr (cb, 4))"
| "serialize_content pl (LongInteger v) =
     bind_res (writeBytes (as_bytes64 pl (to_be64 pl v)) (new_buffer DEFAULT_CAPACITY)) (\<lambda>cb.
     Inr (cb, 8))"
| "serialize_content pl (BigInteger v) =
     bind_res (writeBytes v (new_buffer DEFAULT_CAPACITY)) (\<lambda>cb. Inr (cb, word_of_nat (length v)))"
| "serialize_content pl (Enumeration v) =
     bind_res (writeBytes (as_bytes32 pl (to_be32 pl v)) (new_buffer DEFAULT_CAPACITY)) (\<lambda>cb.
     Inr (cb, 4))"
| "serialize_content pl (Boolean v) =
     bind_res (writeBytes (as_bytes64 pl (to_be64 pl (if v then 1 else 0)))
                 (new_buffer DEFAULT_CAPACITY)) (\<lambda>cb. Inr (cb, 8))"
| "serialize_content pl (TextString v) =
     bind_res (writePadded (map byte_of_char v) (new_buffer DEFAULT_CAPACITY)) (\<lambda>cb.
     Inr (cb, word_of_nat (length v)))"
| "serialize_content pl (ByteString v) =
     bind_res (writePadded v (new_buffer DEFAULT_CAPACITY)) (\<lambda>cb. Inr (cb, word_of_nat (length v)))"
| "serialize_content pl (DateTime v) =
     bind_res (writeBytes (as_bytes64 pl (to_be64 pl v)) (new_buffer DEFAULT_CAPACITY)) (\<lambda>cb.
     Inr (cb, 8))"
| "serialize_content pl (DateTimeExtended v) =
     bind_res (writeBytes (as_bytes64 pl (to_be64 pl v)) (new_buffer DEFAULT_CAPACITY)) (\<lambda>cb.
     Inr (cb, 8))"
| "serialize_content pl (Interval v) =
     bind_res (writeBytes (as_bytes32 pl (to_be32 pl v)) (new_buffer DEFAULT_CAPACITY)) (\<lambda>cb.
     Inr (cb, 4))"

declare serialize.simps [simp del] serialize_content.simps [simp del]

section \<open>Deserialization\<close>

text \<open>The value of a primitive element: the cases of the \<open>switch\<close>.  \<open>&data[offset]\<close> of a text
  string indexes the span also when the string is empty: at the end of the data that breaks the
  precondition of \<open>operator[]\<close>, which a hardened build checks.\<close>

definition byte_subspan :: "byte list \<Rightarrow> nat \<Rightarrow> nat \<Rightarrow> byte list res" where
  "byte_subspan data offset count =
     (if offset + count \<le> length data then Inr (take count (drop offset data))
      else Inl Out_of_range)"

definition deserialize_value :: "platform \<Rightarrow> byte list \<Rightarrow> nat \<Rightarrow> u32 \<Rightarrow> u32 \<Rightarrow> ttlv_value res" where
  "deserialize_value pl data offset type len =
    (if type = KMIP_TYPE_INTEGER then
       if len \<noteq> 4 then Inl (kmip_exception ''Invalid length for Integer'')
       else bind_res (read_be_u32 data offset) (\<lambda>raw. Inr (Integer raw))
     else if type = KMIP_TYPE_LONG_INTEGER then
       if len \<noteq> 8 then Inl (kmip_exception ''Invalid length for Long Integer'')
       else bind_res (read_be_u64 data offset) (\<lambda>raw. Inr (LongInteger raw))
     else if type = KMIP_TYPE_BOOLEAN then
       if len \<noteq> 8 then Inl (kmip_exception ''Invalid length for Boolean'')
       else bind_res (read_be_u64 data offset) (\<lambda>raw.
         if raw \<noteq> 0 \<and> raw \<noteq> 1 then Inl (kmip_exception ''Non-canonical Boolean TTLV value'')
         else Inr (Boolean (raw = 1)))
     else if type = KMIP_TYPE_ENUMERATION then
       if len \<noteq> 4 then Inl (kmip_exception ''Invalid length for Enumeration'')
       else bind_res (read_be_u32 data offset) (\<lambda>raw. Inr (Enumeration raw))
     else if type = KMIP_TYPE_TEXT_STRING then
       if offset \<ge> length data \<and> hardened pl then Inl Assertion_abort
       else bind_res (byte_subspan data offset (unat len)) (\<lambda>s.
         Inr (TextString (map char_of_byte s)))
     else if type = KMIP_TYPE_BYTE_STRING then
       bind_res (byte_subspan data offset (unat len)) (\<lambda>v. Inr (ByteString v))
     else if type = KMIP_TYPE_DATE_TIME then
       if len \<noteq> 8 then Inl (kmip_exception ''Invalid length for DateTime'')
       else bind_res (read_be_u64 data offset) (\<lambda>raw. Inr (DateTime raw))
     else if type = KMIP_TYPE_INTERVAL then
       if len \<noteq> 4 then Inl (kmip_exception ''Invalid length for Interval'')
       else bind_res (read_be_u32 data offset) (\<lambda>raw. Inr (Interval raw))
     else if type = KMIP_TYPE_BIG_INTEGER then
       bind_res (byte_subspan data offset (unat len)) (\<lambda>v. Inr (BigInteger v))
     else if type = KMIP_TYPE_DATE_TIME_EXTENDED then
       if len \<noteq> 8 then Inl (kmip_exception ''Invalid length for DateTimeExtended'')
       else bind_res (read_be_u64 data offset) (\<lambda>raw. Inr (DateTimeExtended raw))
     else Inl (kmip_exception (''Unknown type '' @ nat_to_string (unat type))))"

text \<open>The 8-byte header: tag, type code, declared length.  The sum of the check is one of \<open>size_t\<close> and wraps.  Once the
  header was read, the offset is inside a span, which has fewer than \<open>2 ^ 63\<close> bytes, so that adding a 32-bit
  length to it below does not wrap.\<close>

definition deserialize_header :: "byte list \<Rightarrow> nat \<Rightarrow> (u32 \<times> u32 \<times> u32) res" where
  "deserialize_header data offset =
    (if sz_add offset 8 > length data then Inl (kmip_exception ''Buffer too short for header'')
     else
       bind_res (byte_at data offset) (\<lambda>t0.
       bind_res (byte_at data (offset + 1)) (\<lambda>t1.
       bind_res (byte_at data (offset + 2)) (\<lambda>t2.
       bind_res (byte_at data (offset + 3)) (\<lambda>type.
       bind_res (read_be_u32 data (offset + 4)) (\<lambda>len.
       Inr (push_bit 16 (ucast t0) OR push_bit 8 (ucast t1) OR ucast t2, ucast type, len)))))))"

definition padded_length :: "u32 \<Rightarrow> u32 \<Rightarrow> nat" where
  "padded_length type len =
     (if len mod 8 \<noteq> 0 \<and> type \<noteq> KMIP_TYPE_STRUCTURE
      then unat len + (8 - unat (len mod 8)) else unat len)"

text \<open>\<open>deserialize_impl\<close> and the loop over the body of a structure.  The results carry the new
  offset, which the code returns through its reference parameter.\<close>

function (sequential) deserialize_impl ::
    "platform \<Rightarrow> byte list \<Rightarrow> nat \<Rightarrow> nat \<Rightarrow> (element \<times> nat) res"
  and deserialize_items ::
    "platform \<Rightarrow> byte list \<Rightarrow> nat \<Rightarrow> nat \<Rightarrow> nat \<Rightarrow> nat \<Rightarrow> (element list \<times> nat) res" where
  "deserialize_impl pl data offset depth =
    (if depth > KMIP_MAX_STRUCTURE_DEPTH then
       Inl (kmip_exception ''TTLV structure nesting depth exceeds limit'')
     else
       bind_res (deserialize_header data offset) (\<lambda>(tag, type, len).
       if type = KMIP_TYPE_STRUCTURE then
         if offset + 8 + unat len > length data then
           Inl (kmip_exception ''Buffer too short for structure body'')
         else
           bind_res (deserialize_items pl (take (offset + 8 + unat len) data) (offset + 8) depth
                       (unat len) 0) (\<lambda>(items, offset').
           Inr (Element tag type (Structure items), offset'))
       else
         if offset + 8 + padded_length type len > length data then
           Inl (kmip_exception ''Buffer too short for value'')
         else
           bind_res (deserialize_value pl data (offset + 8) type len) (\<lambda>val.
           bind_res (validate_zero_padding data (offset + 8) (unat len) (padded_length type len))
             (\<lambda>_. Inr (Element tag type val, offset + 8 + padded_length type len)))))"
| "deserialize_items pl struct_view offset depth len current_struct_offset =
    (if current_struct_offset < len then
       bind_res (deserialize_impl pl struct_view offset (depth + 1)) (\<lambda>(child, item_offset).
       bind_res (deserialize_items pl struct_view item_offset depth len
                   (current_struct_offset + (item_offset - offset))) (\<lambda>(rest, offset').
       Inr (child # rest, offset')))
     else Inr ([], offset))"
  by pat_completeness auto


text \<open>Every successful call consumes at least its header, so the loop over a structure advances;
  the depth bounds the recursion.\<close>

lemma deserialize_progress:
  "deserialize_impl_deserialize_items_dom (Inl (pl, data, offset, depth)) \<Longrightarrow>
     deserialize_impl pl data offset depth = Inr (e, offset') \<Longrightarrow> offset + 8 \<le> offset'"
  "deserialize_impl_deserialize_items_dom (Inr (pl, data, offset, depth, len, cur)) \<Longrightarrow>
     deserialize_items pl data offset depth len cur = Inr (es, offset') \<Longrightarrow> offset \<le> offset'"
  by (induction arbitrary: e offset' and es offset'
        rule: deserialize_impl_deserialize_items.pinduct)
     (auto simp: deserialize_impl.psimps deserialize_items.psimps bind_res_Inr_iff
        split: if_splits prod.splits, force+)

termination deserialize_impl
proof (relation "measures
    [\<lambda>x. case x of Inl (pl, data, offset, depth) \<Rightarrow> 2 * (66 - depth)
       | Inr (pl, data, offset, depth, len, cur) \<Rightarrow> max 1 (2 * (66 - depth) - 1),
     \<lambda>x. case x of Inl _ \<Rightarrow> 0 | Inr (pl, data, offset, depth, len, cur) \<Rightarrow> len - cur]",
    goal_cases)
  case 4
  then show ?case by (auto dest!: deserialize_progress(1))
qed (auto simp: KMIP_MAX_STRUCTURE_DEPTH_def)

declare deserialize_impl.simps [simp del] deserialize_items.simps [simp del]

definition deserialize :: "platform \<Rightarrow> byte list \<Rightarrow> nat \<Rightarrow> (element \<times> nat) res" where
  "deserialize pl data offset = deserialize_impl pl data offset 0"

section \<open>Factories and accessors\<close>

definition createStructure :: "u32 \<Rightarrow> element" where
  "createStructure t = Element t KMIP_TYPE_STRUCTURE (Structure [])"

definition createInteger :: "u32 \<Rightarrow> i32 \<Rightarrow> element" where
  "createInteger t v = Element t KMIP_TYPE_INTEGER (Integer v)"

definition createLongInteger :: "u32 \<Rightarrow> i64 \<Rightarrow> element" where
  "createLongInteger t v = Element t KMIP_TYPE_LONG_INTEGER (LongInteger v)"

definition createBoolean :: "u32 \<Rightarrow> bool \<Rightarrow> element" where
  "createBoolean t v = Element t KMIP_TYPE_BOOLEAN (Boolean v)"

definition createEnumeration :: "u32 \<Rightarrow> i32 \<Rightarrow> element" where
  "createEnumeration t v = Element t KMIP_TYPE_ENUMERATION (Enumeration v)"

definition createTextString :: "u32 \<Rightarrow> string \<Rightarrow> element" where
  "createTextString t v = Element t KMIP_TYPE_TEXT_STRING (TextString v)"

definition createByteString :: "u32 \<Rightarrow> byte list \<Rightarrow> element" where
  "createByteString t v = Element t KMIP_TYPE_BYTE_STRING (ByteString v)"

definition createDateTime :: "u32 \<Rightarrow> i64 \<Rightarrow> element" where
  "createDateTime t v = Element t KMIP_TYPE_DATE_TIME (DateTime v)"

definition createDateTimeExtended :: "u32 \<Rightarrow> i64 \<Rightarrow> element" where
  "createDateTimeExtended t v = Element t KMIP_TYPE_DATE_TIME_EXTENDED (DateTimeExtended v)"

definition createInterval :: "u32 \<Rightarrow> u32 \<Rightarrow> element" where
  "createInterval t v = Element t KMIP_TYPE_INTERVAL (Interval v)"

definition createBigInteger :: "u32 \<Rightarrow> byte list \<Rightarrow> element" where
  "createBigInteger t v = Element t KMIP_TYPE_BIG_INTEGER (BigInteger v)"

lemmas create_defs = createStructure_def createInteger_def createLongInteger_def
  createBoolean_def createEnumeration_def createTextString_def createByteString_def
  createDateTime_def createDateTimeExtended_def createInterval_def createBigInteger_def

text \<open>\<open>asStructure()\<close>: the children when the value is a structure.\<close>

definition asStructure :: "element \<Rightarrow> element list option" where
  "asStructure e = (case elem_value e of Structure items \<Rightarrow> Some items | _ \<Rightarrow> None)"

text \<open>\<open>asStructure()->add(child)\<close> on an element that is a structure; elsewhere the pointer is
  null.\<close>

definition add_child :: "element \<Rightarrow> element \<Rightarrow> element" where
  "add_child child e =
     (case elem_value e of
        Structure items \<Rightarrow> Element (elem_tag e) (elem_type e) (Structure (items @ [child]))
      | _ \<Rightarrow> e)"

definition struct_find :: "u32 \<Rightarrow> element list \<Rightarrow> element option" where
  "struct_find child_tag items = find (\<lambda>item. elem_tag item = child_tag) items"

definition struct_findAll :: "u32 \<Rightarrow> element list \<Rightarrow> element list" where
  "struct_findAll child_tag items = filter (\<lambda>item. elem_tag item = child_tag) items"

definition getChild :: "u32 \<Rightarrow> element \<Rightarrow> element option" where
  "getChild child_tag e =
     (case elem_value e of Structure s \<Rightarrow> struct_find child_tag s | _ \<Rightarrow> None)"

definition getChildren :: "u32 \<Rightarrow> element \<Rightarrow> element list" where
  "getChildren child_tag e =
     (case elem_value e of Structure s \<Rightarrow> struct_findAll child_tag s | _ \<Rightarrow> [])"

definition toInt :: "element \<Rightarrow> i32 res" where
  "toInt e = (case elem_value e of Integer v \<Rightarrow> Inr v
     | _ \<Rightarrow> Inl (kmip_exception ''Element is not Integer''))"

definition toLong :: "element \<Rightarrow> i64 res" where
  "toLong e = (case elem_value e of LongInteger v \<Rightarrow> Inr v | DateTime v \<Rightarrow> Inr v
     | DateTimeExtended v \<Rightarrow> Inr v
     | _ \<Rightarrow> Inl (kmip_exception ''Element is not Long/DateTime/DateTimeExtended''))"

definition toBool :: "element \<Rightarrow> bool res" where
  "toBool e = (case elem_value e of Boolean v \<Rightarrow> Inr v
     | _ \<Rightarrow> Inl (kmip_exception ''Element is not Boolean''))"

definition toString :: "element \<Rightarrow> string res" where
  "toString e = (case elem_value e of TextString v \<Rightarrow> Inr v
     | _ \<Rightarrow> Inl (kmip_exception ''Element is not TextString''))"

definition toBytes :: "element \<Rightarrow> byte list res" where
  "toBytes e = (case elem_value e of ByteString v \<Rightarrow> Inr v | BigInteger v \<Rightarrow> Inr v
     | _ \<Rightarrow> Inl (kmip_exception ''Element is not ByteString/BigInteger''))"

definition toEnum :: "element \<Rightarrow> i32 res" where
  "toEnum e = (case elem_value e of Enumeration v \<Rightarrow> Inr v
     | _ \<Rightarrow> Inl (kmip_exception ''Element is not Enumeration''))"

definition toInterval :: "element \<Rightarrow> u32 res" where
  "toInterval e = (case elem_value e of Interval v \<Rightarrow> Inr v
     | _ \<Rightarrow> Inl (kmip_exception ''Element is not Interval''))"

lemmas accessor_defs = toInt_def toLong_def toBool_def toString_def toBytes_def toEnum_def
  toInterval_def

lemma create_fields [simp]:
  "elem_tag (createStructure t) = t" "elem_tag (createInteger t i) = t"
  "elem_tag (createLongInteger t l) = t" "elem_tag (createBoolean t b) = t"
  "elem_tag (createEnumeration t i) = t" "elem_tag (createTextString t s) = t"
  "elem_tag (createByteString t bs) = t" "elem_tag (createDateTime t l) = t"
  "elem_tag (createDateTimeExtended t l) = t" "elem_tag (createInterval t i) = t"
  "elem_tag (createBigInteger t bs) = t"
  "toInt (createInteger t i) = Inr i" "toLong (createLongInteger t l) = Inr l"
  "toLong (createDateTime t l) = Inr l" "toLong (createDateTimeExtended t l) = Inr l"
  "toBool (createBoolean t b) = Inr b" "toEnum (createEnumeration t i) = Inr i"
  "toString (createTextString t s) = Inr s" "toBytes (createByteString t bs) = Inr bs"
  "toBytes (createBigInteger t bs) = Inr bs" "toInterval (createInterval t i) = Inr i"
  by (simp_all add: create_defs accessor_defs)

section \<open>The wire format\<close>

text \<open>Tag in three bytes, type code, length of the content, content, zero padding to a multiple of
  eight.\<close>

fun encode :: "element \<Rightarrow> byte list" where
  "encode (Element tag type val) =
     (let content =
        (case val of
           Structure items \<Rightarrow> concat (map encode items)
         | Integer v \<Rightarrow> be_bytes32 v
         | LongInteger v \<Rightarrow> be_bytes64 v
         | BigInteger v \<Rightarrow> v
         | Enumeration v \<Rightarrow> be_bytes32 v
         | Boolean v \<Rightarrow> be_bytes64 (if v then 1 else 0)
         | TextString v \<Rightarrow> map byte_of_char v
         | ByteString v \<Rightarrow> v
         | DateTime v \<Rightarrow> be_bytes64 v
         | DateTimeExtended v \<Rightarrow> be_bytes64 v
         | Interval v \<Rightarrow> be_bytes32 v)
      in [ucast (drop_bit 16 tag), ucast (drop_bit 8 tag), ucast tag, ucast type] @
         be_bytes32 (word_of_nat (length content)) @
         content @ replicate (pad8 (length content)) 0)"

declare encode.simps [simp del]

definition content :: "ttlv_value \<Rightarrow> byte list" where
  "content val =
     (case val of
        Structure items \<Rightarrow> concat (map encode items)
      | Integer v \<Rightarrow> be_bytes32 v
      | LongInteger v \<Rightarrow> be_bytes64 v
      | BigInteger v \<Rightarrow> v
      | Enumeration v \<Rightarrow> be_bytes32 v
      | Boolean v \<Rightarrow> be_bytes64 (if v then 1 else 0)
      | TextString v \<Rightarrow> map byte_of_char v
      | ByteString v \<Rightarrow> v
      | DateTime v \<Rightarrow> be_bytes64 v
      | DateTimeExtended v \<Rightarrow> be_bytes64 v
      | Interval v \<Rightarrow> be_bytes32 v)"

lemma encode_eq:
  "encode (Element tag type val) =
     [ucast (drop_bit 16 tag), ucast (drop_bit 8 tag), ucast tag, ucast type] @
     be_bytes32 (word_of_nat (length (content val))) @
     content val @ replicate (pad8 (length (content val))) 0"
  by (simp add: encode.simps content_def Let_def)

lemma content_simps [simp]:
  "content (Structure items) = concat (map encode items)"
  "content (Integer i) = be_bytes32 i" "content (LongInteger l) = be_bytes64 l"
  "content (BigInteger bs) = bs" "content (Enumeration i) = be_bytes32 i"
  "content (Boolean b) = be_bytes64 (if b then 1 else 0)"
  "content (TextString s) = map byte_of_char s" "content (ByteString bs) = bs"
  "content (DateTime l) = be_bytes64 l" "content (DateTimeExtended l) = be_bytes64 l"
  "content (Interval i) = be_bytes32 i"
  by (simp_all add: content_def)

lemma length_encode:
  "length (encode (Element t ty v)) = 8 + length (content v) + pad8 (length (content v))"
  by (simp add: encode_eq)

lemma length_encode_ge: "8 \<le> length (encode e)"
  by (cases e) (simp add: length_encode)

lemma encode_nonempty [simp]: "encode e \<noteq> []"
  using length_encode_ge [of e] by auto

lemma encode_aligned [simp]: "8 dvd length (encode e)"
  using pad8_dvd by (cases e) (simp add: length_encode add.assoc)

lemma concat_encode_aligned [simp]: "8 dvd length (concat (map encode es))"
  by (induction es) simp_all

text \<open>The type code that belongs to a variant.\<close>

definition type_of_value :: "ttlv_value \<Rightarrow> u32" where
  "type_of_value val =
     (case val of
        Structure _ \<Rightarrow> KMIP_TYPE_STRUCTURE
      | Integer _ \<Rightarrow> KMIP_TYPE_INTEGER
      | LongInteger _ \<Rightarrow> KMIP_TYPE_LONG_INTEGER
      | BigInteger _ \<Rightarrow> KMIP_TYPE_BIG_INTEGER
      | Enumeration _ \<Rightarrow> KMIP_TYPE_ENUMERATION
      | Boolean _ \<Rightarrow> KMIP_TYPE_BOOLEAN
      | TextString _ \<Rightarrow> KMIP_TYPE_TEXT_STRING
      | ByteString _ \<Rightarrow> KMIP_TYPE_BYTE_STRING
      | DateTime _ \<Rightarrow> KMIP_TYPE_DATE_TIME
      | DateTimeExtended _ \<Rightarrow> KMIP_TYPE_DATE_TIME_EXTENDED
      | Interval _ \<Rightarrow> KMIP_TYPE_INTERVAL)"

text \<open>Well-formed elements: a 24-bit tag, the type code of the variant, a content whose length fits
  the 32-bit length field.\<close>

fun ttlv_wf :: "element \<Rightarrow> bool" where
  "ttlv_wf (Element tag type val) \<longleftrightarrow>
     tag < 2 ^ 24 \<and> type = type_of_value val \<and> length (content val) < 2 ^ 32 \<and>
     (case val of Structure items \<Rightarrow> list_all ttlv_wf items | _ \<Rightarrow> True)"

fun height :: "element \<Rightarrow> nat" where
  "height (Element tag type val) =
     (case val of Structure items \<Rightarrow> Suc (fold max (map height items) 0) | _ \<Rightarrow> 1)"

declare ttlv_wf.simps [simp del] height.simps [simp del]

text \<open>Vectors and strings whose size a \<open>size_t\<close> sum with a buffer position cannot wrap: every
  vector of a machine with less than \<open>2 ^ 62\<close> bytes of memory.\<close>

fun vectors_fit :: "element \<Rightarrow> bool" where
  "vectors_fit (Element tag type val) \<longleftrightarrow>
     (case val of
        Structure items \<Rightarrow> list_all vectors_fit items
      | BigInteger v \<Rightarrow> length v < 2 ^ 62
      | TextString v \<Rightarrow> length v < 2 ^ 62
      | ByteString v \<Rightarrow> length v < 2 ^ 62
      | _ \<Rightarrow> True)"

declare vectors_fit.simps [simp del]

section \<open>Serialization refines the wire format\<close>

lemma ucast_and_FF: "ucast (w AND 0xFF :: u32) = (ucast w :: byte)"
proof (rule bit_word_eqI)
  fix n assume "n < LENGTH(8)"
  moreover have "bit (0xFF :: u32) n" if "n < 8" for n
    using that by (simp add: numeral_eq_Suc less_Suc_eq) (auto simp: bit_simps)
  ultimately show "bit (ucast (w AND 0xFF :: u32) :: byte) n = bit (ucast w :: byte) n"
    by (simp add: bit_simps)
qed

lemma as_bytes32_to_be32 [simp]: "as_bytes32 pl (to_be32 pl v) = be_bytes32 v"
proof (cases "native_endian pl")
  case Little_endian
  have masks: "(0x000000FF :: u32) = push_bit 0 (mask 8)" "(0x0000FF00 :: u32) = push_bit 8 (mask 8)"
    "(0x00FF0000 :: u32) = push_bit 16 (mask 8)" "(0xFF000000 :: u32) = push_bit 24 (mask 8)"
    by (simp_all add: mask_eq_exp_minus_1 push_bit_eq_mult)
  define w where "w = push_bit 24 (v AND push_bit 0 (mask 8)) OR push_bit 8 (v AND push_bit 8 (mask 8)) OR
      drop_bit 8 (v AND push_bit 16 (mask 8)) OR drop_bit 24 (v AND push_bit 24 (mask 8))"
  have "to_be32 pl v = w"
    using Little_endian unfolding to_be32_def masks w_def by simp
  moreover have "ucast (drop_bit 24 w) = (ucast v :: byte)"
    "ucast (drop_bit 16 w) = (ucast (drop_bit 8 v) :: byte)"
    "ucast (drop_bit 8 w) = (ucast (drop_bit 16 v) :: byte)"
    "ucast w = (ucast (drop_bit 24 v) :: byte)"
    unfolding w_def by (rule bit_word_eqI; auto simp: bit_simps not_less)+
  ultimately show ?thesis
    using Little_endian by (simp add: as_bytes32_def be_bytes32_def)
qed (simp add: as_bytes32_def to_be32_def)

lemma as_bytes64_to_be64 [simp]: "as_bytes64 pl (to_be64 pl v) = be_bytes64 v"
proof (cases "native_endian pl")
  case Little_endian
  have split: "be_bytes64 w = be_bytes32 (ucast (drop_bit 32 w)) @ be_bytes32 (ucast w)" for w
    unfolding be_bytes64_def be_bytes32_def
    by (simp, intro conjI; rule bit_word_eqI) (auto simp: bit_simps)
  have halves: "ucast (drop_bit 32 (push_bit 32 (ucast a) OR ucast b :: u64)) = a"
    "ucast (push_bit 32 (ucast a) OR ucast b :: u64) = b" for a b :: u32
    by (rule bit_word_eqI; auto simp: bit_simps dest: bit_imp_le_length)+
  have rev32: "rev (be_bytes32 (to_be32 pl w)) = be_bytes32 w" for w
    using as_bytes32_to_be32 [of pl w] Little_endian by (simp add: as_bytes32_def)
  have "to_be64 pl v =
      push_bit 32 (ucast (to_be32 pl (ucast v))) OR ucast (to_be32 pl (ucast (drop_bit 32 v)))"
    using Little_endian by (simp add: to_be64_def)
  then have "be_bytes64 (to_be64 pl v) =
      be_bytes32 (to_be32 pl (ucast v)) @ be_bytes32 (to_be32 pl (ucast (drop_bit 32 v)))"
    by (simp only: split halves)
  then show ?thesis
    using Little_endian by (simp add: as_bytes64_def rev32 split [of v])
qed (simp add: as_bytes64_def to_be64_def)

text \<open>Bytes collected in a separate buffer first: an overflow there is an overflow of the whole.\<close>

lemma appends_content:
  assumes "appends (new_buffer DEFAULT_CAPACITY) cs r"
    and "\<And>cb. buffer_ok cb \<Longrightarrow> buffer_span cb = cs \<Longrightarrow> appends buf bs (f cb)"
    and "length cs \<le> length bs"
  shows "appends buf bs (bind_res r f)"
proof (cases "length cs \<le> effective_limit")
  case True
  with assms(1,2) show ?thesis by (auto simp: appends_def [of "new_buffer _"])
next
  case False
  with assms(1,3) show ?thesis by (simp add: appends_def)
qed

lemma buffer_size_span: "buffer_ok cb \<Longrightarrow> buffer_size cb = length (buffer_span cb)"
  by (simp add: buffer_size_def buffer_ok_span)

lemma write_content_appends:
  assumes "buffer_ok buf" "buffer_ok cb"
  shows "appends buf (be_bytes32 payload_length @ buffer_span cb @
             replicate (pad8 (length (buffer_span cb))) 0) (write_content payload_length cb buf)"
proof -
  have size: "buffer_size cb = length (buffer_span cb)" "length (buffer_span cb) < 2 ^ 62"
    using assms(2) buffer_ok_span [OF assms(2)] by (simp_all add: buffer_size_def kmip_consts)
  have pad: "(8 - (3 + 1 + 4 + n) mod 8) mod 8 = pad8 n" for n
    using pad8_add_8(1) [of n] by (simp add: pad8_def)
  have content: "appends b (buffer_span cb)
      (if 0 < length (buffer_span cb) then writeBytes (buffer_span cb) b else Inr b)"
    if "buffer_ok b" for b
    using that size(2) writeBytes_appends [OF that, of "buffer_span cb"]
    by (auto simp: appends_return buffer_ok_span)
  have split: "be_bytes32 payload_length @ bs = [ucast (drop_bit 24 payload_length)] @
      [ucast (drop_bit 16 payload_length)] @ [ucast (drop_bit 8 payload_length)] @
      [ucast payload_length] @ bs" for bs
    by (simp add: be_bytes32_def)
  show ?thesis
    unfolding write_content_def split ucast_and_FF Let_def pad size(1)
    by (intro appends_bind writeByte_appends writeByte_all_appends assms(1) content)
qed

text \<open>What the first pass hands over: a content buffer with the content, for some variants already
  padded, and the length of the content.\<close>

definition content_written :: "byte list \<Rightarrow> (serialization_buffer \<times> u32) res \<Rightarrow> bool" where
  "content_written bs r \<longleftrightarrow>
     (\<exists>k\<le>pad8 (length bs). appends (new_buffer DEFAULT_CAPACITY) (bs @ replicate k 0)
        (bind_res r (\<lambda>(cb, n). Inr cb)) \<and>
      (k = 0 \<or> k = pad8 (length bs)) \<and>
      (\<forall>cb n. r = Inr (cb, n) \<longrightarrow> n = word_of_nat (length bs)))"

lemma content_writtenI:
  assumes "appends (new_buffer DEFAULT_CAPACITY) (bs @ replicate k 0) r"
    and "k = 0 \<or> k = pad8 (length bs)"
    and "\<And>cb. buffer_ok cb \<Longrightarrow> buffer_span cb = bs @ replicate k 0 \<Longrightarrow> plen cb = word_of_nat (length bs)"
  shows "content_written bs (bind_res r (\<lambda>cb. Inr (cb, plen cb)))"
  unfolding content_written_def
  using assms
  by (intro exI [of _ k]) (auto simp: appends_def bind_res_Inr_iff bind_res_assoc split: if_splits)

lemma content_then_rest:
  assumes "content_written bs r" "buffer_ok buf"
  shows "appends buf (be_bytes32 (word_of_nat (length bs)) @ bs @ replicate (pad8 (length bs)) 0)
     (bind_res r (\<lambda>(cb, n). write_content n cb buf))"
proof -
  from assms(1) obtain k where k: "k \<le> pad8 (length bs)" "k = 0 \<or> k = pad8 (length bs)"
    and app: "appends (new_buffer DEFAULT_CAPACITY) (bs @ replicate k 0) (bind_res r (\<lambda>(cb, n). Inr cb))"
    and n: "\<And>cb n. r = Inr (cb, n) \<Longrightarrow> n = word_of_nat (length bs)"
    by (auto simp: content_written_def)
  have pad: "replicate k 0 @ replicate (pad8 (length bs + k)) 0 = replicate (pad8 (length bs)) (0::byte)"
    using k(2) by auto
  have "bind_res r (\<lambda>(cb, n). write_content n cb buf) =
    bind_res (bind_res r (\<lambda>(cb, n). Inr cb)) (\<lambda>cb. write_content (word_of_nat (length bs)) cb buf)"
    unfolding bind_res_assoc by (rule bind_res_cong) (auto dest: n)
  moreover have "appends buf (be_bytes32 (word_of_nat (length bs)) @ bs @ replicate (pad8 (length bs)) 0)
    (bind_res (bind_res r (\<lambda>(cb, n). Inr cb)) (\<lambda>cb. write_content (word_of_nat (length bs)) cb buf))"
  proof (rule appends_content [OF app])
    fix cb assume cb: "buffer_ok cb" "buffer_span cb = bs @ replicate k 0"
    show "appends buf (be_bytes32 (word_of_nat (length bs)) @ bs @ replicate (pad8 (length bs)) 0)
       (write_content (word_of_nat (length bs)) cb buf)"
      using write_content_appends [OF assms(2) cb(1)] pad by (simp add: cb(2))
  qed (use k(1) in simp)
  ultimately show ?thesis by simp
qed

lemma serialize_appends_aux:
  "vectors_fit e \<Longrightarrow> buffer_ok buf \<Longrightarrow> appends buf (encode e) (serialize pl e buf)"
  "vectors_fit (Element tag type val) \<Longrightarrow> content_written (content val) (serialize_content pl val)"
proof (induction e and val arbitrary: buf and tag type rule: element.induct ttlv_value.induct)
  case (Element tag' type' val')
  have enc: "encode (Element tag' type' val') =
     [ucast (drop_bit 16 tag')] @ [ucast (drop_bit 8 tag')] @ [ucast tag'] @ [ucast type'] @
     be_bytes32 (word_of_nat (length (content val'))) @
     content val' @ replicate (pad8 (length (content val'))) 0"
    by (simp add: encode_eq)
  have "content_written (content val') (serialize_content pl val')"
    using Element by blast
  then show ?case
    unfolding enc serialize.simps ucast_and_FF
    by (intro appends_bind writeByte_appends Element.prems(2) content_then_rest)
next
  case (Structure items)
  have "buffer_writer (serialize pl) encode (\<lambda>x. x \<in> set items)"
    using Structure by unfold_locales (auto simp: vectors_fit.simps list_all_iff)
  then have "appends (new_buffer DEFAULT_CAPACITY) (concat (map encode items))
      (fold_res (serialize pl) items (new_buffer DEFAULT_CAPACITY))"
    by (rule buffer_writer.put_all_appends) (simp_all add: list_all_iff)
  then show ?case
    unfolding serialize_content.simps
    by (intro content_writtenI [where k = 0]) (simp_all add: buffer_size_span)
next
  case (TextString s)
  then show ?case
    by (auto simp: serialize_content.simps vectors_fit.simps
        intro!: content_writtenI [OF writePadded_appends])
next
  case (ByteString bs)
  then show ?case
    by (auto simp: serialize_content.simps vectors_fit.simps
        intro!: content_writtenI [OF writePadded_appends])
qed (auto simp: serialize_content.simps vectors_fit.simps writeBytes_appends
       intro!: content_writtenI [where k = 0])

lemmas serialize_appends = serialize_appends_aux(1)

interpretation element_writer: buffer_writer "serialize pl" encode vectors_fit
  by unfold_locales (rule serialize_appends)

section \<open>The primitive readers\<close>

lemma byte_at_Inr [simp]: "i < length data \<Longrightarrow> byte_at data i = Inr (data ! i)"
  by (simp add: byte_at_def)

lemma take_drop_nth:
  assumes "off + n \<le> length data"
  shows "take n (drop off data) = map (\<lambda>i. data ! (off + i)) [0..<n]"
  using assms by (intro nth_equalityI) simp_all

lemma be_word32_eq_iff: "be_word32 a b c d = w \<longleftrightarrow> [a, b, c, d] = be_bytes32 w"
proof
  show "be_word32 a b c d = w \<Longrightarrow> [a, b, c, d] = be_bytes32 w" by auto
  show "[a, b, c, d] = be_bytes32 w \<Longrightarrow> be_word32 a b c d = w" by (auto simp: be_bytes32_def)
qed

lemma be_word64_eq_iff: "be_word64 a b c d e f g h = w \<longleftrightarrow> [a, b, c, d, e, f, g, h] = be_bytes64 w"
proof
  show "be_word64 a b c d e f g h = w \<Longrightarrow> [a, b, c, d, e, f, g, h] = be_bytes64 w" by auto
  show "[a, b, c, d, e, f, g, h] = be_bytes64 w \<Longrightarrow> be_word64 a b c d e f g h = w"
    by (auto simp: be_bytes64_def)
qed

lemma read_be_u32_iff:
  assumes "off + 4 \<le> length data"
  shows "read_be_u32 data off = Inr w \<longleftrightarrow> take 4 (drop off data) = be_bytes32 w"
proof -
  have "read_be_u32 data off =
      Inr (be_word32 (data ! off) (data ! (off + 1)) (data ! (off + 2)) (data ! (off + 3)))"
    using assms by (simp add: read_be_u32_def be_word32_def)
  moreover have "take 4 (drop off data) = [data ! off, data ! (off + 1), data ! (off + 2), data ! (off + 3)]"
    unfolding take_drop_nth [OF assms] by (simp add: upt_rec eval_nat_numeral)
  ultimately show ?thesis by (simp add: be_word32_eq_iff)
qed

lemma read_be_u64_iff:
  assumes "off + 8 \<le> length data"
  shows "read_be_u64 data off = Inr w \<longleftrightarrow> take 8 (drop off data) = be_bytes64 w"
proof -
  have "read_be_u64 data off =
      Inr (be_word64 (data ! off) (data ! (off + 1)) (data ! (off + 2)) (data ! (off + 3))
             (data ! (off + 4)) (data ! (off + 5)) (data ! (off + 6)) (data ! (off + 7)))"
    using assms by (simp add: read_be_u64_def be_word64_def)
  moreover have "take 8 (drop off data) = [data ! off, data ! (off + 1), data ! (off + 2),
      data ! (off + 3), data ! (off + 4), data ! (off + 5), data ! (off + 6), data ! (off + 7)]"
    unfolding take_drop_nth [OF assms] by (simp add: upt_rec eval_nat_numeral)
  ultimately show ?thesis by (simp add: be_word64_eq_iff)
qed

lemma read_be_returns:
  "off + 4 \<le> length data \<Longrightarrow> \<exists>w. read_be_u32 data off = Inr w"
  "off + 8 \<le> length data \<Longrightarrow> \<exists>w. read_be_u64 data off = Inr w"
  by (simp_all add: read_be_u32_def read_be_u64_def)

lemma u32_take_bit_iff:
  "take_bit 24 (t :: u32) = t \<longleftrightarrow> t < 2 ^ 24" "take_bit 8 t = t \<longleftrightarrow> t < 2 ^ 8"
  by (simp_all add: word_less_nat_alt unsigned_take_bit_eq take_bit_nat_eq_self_iff
      word_unat_eq_iff)

text \<open>A 24-bit tag is determined by its three bytes.\<close>

lemma tag24_iff:
  fixes t :: u32 and a b c :: byte
  shows "push_bit 16 (ucast a) OR push_bit 8 (ucast b) OR ucast c = t \<longleftrightarrow>
     t < 2 ^ 24 \<and> [a, b, c] = [ucast (drop_bit 16 t), ucast (drop_bit 8 t), ucast t]"
proof
  assume t: "push_bit 16 (ucast a) OR push_bit 8 (ucast b) OR ucast c = t"
  have "take_bit 24 t = t"
    unfolding t [symmetric] by (rule bit_word_eqI) (auto simp: bit_simps not_less dest: bit_byte_le)
  then have "t < 2 ^ 24" using u32_take_bit_iff(1) [of t] by simp
  moreover have "a = ucast (drop_bit 16 t)" "b = ucast (drop_bit 8 t)" "c = ucast t"
    unfolding t [symmetric]
    by (rule bit_word_eqI; auto simp: bit_simps not_less dest: bit_byte_le)+
  ultimately show "t < 2 ^ 24 \<and> [a, b, c] = [ucast (drop_bit 16 t), ucast (drop_bit 8 t), ucast t]"
    by simp
next
  assume r: "t < 2 ^ 24 \<and> [a, b, c] = [ucast (drop_bit 16 t), ucast (drop_bit 8 t), ucast t]"
  then have "take_bit 24 t = t" using u32_take_bit_iff(1) [of t] by simp
  with r show "push_bit 16 (ucast a) OR push_bit 8 (ucast b) OR ucast c = t"
    using be_byte_step [of 8 t] be_byte_step [of 16 t] be_byte_last [of t] by simp
qed

lemma type_byte_iff: "ucast (b :: byte) = (ty :: u32) \<longleftrightarrow> ty < 2 ^ 8 \<and> b = ucast ty"
proof
  assume e: "ucast b = ty"
  have "take_bit 8 ty = ty"
    unfolding e [symmetric] by (rule bit_word_eqI) (auto simp: bit_simps dest: bit_byte_le)
  then have "ty < 2 ^ 8" by (simp add: u32_take_bit_iff)
  moreover have "b = ucast ty"
    unfolding e [symmetric] by (rule bit_word_eqI) (auto simp: bit_simps)
  ultimately show "ty < 2 ^ 8 \<and> b = ucast ty" by simp
next
  assume "ty < 2 ^ 8 \<and> b = ucast ty"
  then show "ucast b = ty"
    using be_byte_last [of ty] u32_take_bit_iff(2) [of ty] by simp
qed

lemma sz_add_le: "a + b \<le> n \<Longrightarrow> sz_add a b \<le> n"
  unfolding sz_add_def by (meson le_trans mod_less_eq_dividend)

lemma deserialize_header_iff:
  assumes "off + 8 \<le> length data"
  shows "deserialize_header data off = Inr (tag, type, len) \<longleftrightarrow>
     tag < 2 ^ 24 \<and> type < 2 ^ 8 \<and>
     take 8 (drop off data) =
       [ucast (drop_bit 16 tag), ucast (drop_bit 8 tag), ucast tag, ucast type] @ be_bytes32 len"
proof -
  have bytes: "take 8 (drop off data) =
      [data ! off, data ! (off + 1), data ! (off + 2), data ! (off + 3)] @ take 4 (drop (off + 4) data)"
    using take_drop_nth [OF assms] take_drop_nth [of "off + 4" 4 data] assms
    by (simp add: upt_rec eval_nat_numeral)
  have "off + 4 + 4 \<le> length data" using assms by simp
  from read_be_returns(1) [OF this] obtain w where w: "read_be_u32 data (off + 4) = Inr w" by blast
  with read_be_u32_iff [of "off + 4" data w] assms have len: "take 4 (drop (off + 4) data) = be_bytes32 w"
    by simp
  have inj: "be_bytes32 w = be_bytes32 len \<longleftrightarrow> w = len"
    by (metis be_word32_eq_iff be_word32_bytes be_bytes32_def)
  show ?thesis
    unfolding bytes len deserialize_header_def
    using assms sz_add_le [OF assms] w tag24_iff [of "data ! off" "data ! (off + 1)" "data ! (off + 2)" tag]
      type_byte_iff [of "data ! (off + 3)" type]
    by (auto simp: inj)
qed

lemma deserialize_header_cases:
  "off + 8 \<le> length data \<Longrightarrow> \<exists>h. deserialize_header data off = Inr h"
  "\<not> off + 8 \<le> length data \<Longrightarrow> off + 8 < 2 ^ 64 \<Longrightarrow>
     deserialize_header data off = Inl (kmip_exception ''Buffer too short for header'')"
  "deserialize_header data off = Inr h \<Longrightarrow> off + 8 \<le> length data"
  using read_be_returns(1) [of "off + 4" data] sz_add_le [of off 8 "length data"]
  by (auto simp: deserialize_header_def sz_add_small read_be_u32_def byte_at_def bind_res_Inr_iff split: if_splits)

lemma validate_zero_padding_iff:
  assumes "off + padded \<le> length data" "len \<le> padded"
  shows "validate_zero_padding data off len padded = Inr u \<longleftrightarrow>
     take (padded - len) (drop (off + len) data) = replicate (padded - len) 0"
proof -
  have fold: "fold_res (\<lambda>i _. bind_res (byte_at data i) (\<lambda>b. guard_res (b = 0) ex)) is () = Inr () \<longleftrightarrow>
      (\<forall>i\<in>set is. data ! i = 0)" if "\<forall>i\<in>set is. i < length data" for "is" ex
    using that by (induction "is") (auto simp: bind_res_Inr_iff guard_res_Inr_iff)
  have "validate_zero_padding data off len padded = Inr () \<longleftrightarrow>
      (\<forall>i\<in>{off + len ..< off + padded}. data ! i = 0)"
    unfolding validate_zero_padding_def using assms by (subst fold) auto
  also have "\<dots> \<longleftrightarrow> (\<forall>j < padded - len. data ! (off + len + j) = 0)"
  proof
    assume "\<forall>i\<in>{off + len ..< off + padded}. data ! i = 0"
    then show "\<forall>j < padded - len. data ! (off + len + j) = 0" using assms by auto
  next
    assume r: "\<forall>j < padded - len. data ! (off + len + j) = 0"
    show "\<forall>i\<in>{off + len ..< off + padded}. data ! i = 0"
    proof
      fix i assume "i \<in> {off + len ..< off + padded}"
      moreover from this have "i - (off + len) < padded - len" by auto
      ultimately show "data ! i = 0" using r [rule_format, of "i - (off + len)"] by simp
    qed
  qed
  also have "\<dots> \<longleftrightarrow> take (padded - len) (drop (off + len) data) = replicate (padded - len) 0"
    using assms by (subst take_drop_nth) (auto simp: list_eq_iff_nth_eq)
  finally show ?thesis by (cases u) simp
qed

lemma validate_zero_padding_Inl:
  assumes "off + padded \<le> length data" "validate_zero_padding data off len padded = Inl e"
  shows "is_exception e"
proof -
  have "is_exception e" if "\<forall>i\<in>set is. i < length data"
    "fold_res (\<lambda>i _. bind_res (byte_at data i) (\<lambda>b. guard_res (b = 0) (kmip_exception m))) is () = Inl e" for "is" m
    using that by (induction "is") (auto simp: bind_res_Inl_iff guard_res_Inl_iff)
  from this [OF _ assms(2) [unfolded validate_zero_padding_def]] assms(1) show ?thesis by auto
qed

lemma padded_length_eq:
  "type \<noteq> KMIP_TYPE_STRUCTURE \<Longrightarrow> padded_length type len = unat len + pad8 (unat len)"
proof -
  have m: "unat (len mod 8) = unat len mod 8" by (simp add: unat_mod)
  then have "len mod 8 \<noteq> 0 \<longleftrightarrow> unat len mod 8 \<noteq> 0" by (metis unat_0 unat_eq_zero)
  moreover assume "type \<noteq> KMIP_TYPE_STRUCTURE"
  ultimately show ?thesis by (auto simp: padded_length_def m pad8_def)
qed

lemma text_bytes_iff: "map char_of_byte bs = s \<longleftrightarrow> bs = map byte_of_char s"
  by (auto simp: comp_def)

text \<open>The \<open>switch\<close>, one case at a time.\<close>

lemma deserialize_value_cases:
  "deserialize_value pl data off KMIP_TYPE_INTEGER len =
     (if len \<noteq> 4 then Inl (kmip_exception ''Invalid length for Integer'')
      else bind_res (read_be_u32 data off) (\<lambda>raw. Inr (Integer raw)))"
  "deserialize_value pl data off KMIP_TYPE_LONG_INTEGER len =
     (if len \<noteq> 8 then Inl (kmip_exception ''Invalid length for Long Integer'')
      else bind_res (read_be_u64 data off) (\<lambda>raw. Inr (LongInteger raw)))"
  "deserialize_value pl data off KMIP_TYPE_BOOLEAN len =
     (if len \<noteq> 8 then Inl (kmip_exception ''Invalid length for Boolean'')
      else bind_res (read_be_u64 data off) (\<lambda>raw.
        if raw \<noteq> 0 \<and> raw \<noteq> 1 then Inl (kmip_exception ''Non-canonical Boolean TTLV value'')
        else Inr (Boolean (raw = 1))))"
  "deserialize_value pl data off KMIP_TYPE_ENUMERATION len =
     (if len \<noteq> 4 then Inl (kmip_exception ''Invalid length for Enumeration'')
      else bind_res (read_be_u32 data off) (\<lambda>raw. Inr (Enumeration raw)))"
  "deserialize_value pl data off KMIP_TYPE_TEXT_STRING len =
     (if off \<ge> length data \<and> hardened pl then Inl Assertion_abort
      else bind_res (byte_subspan data off (unat len)) (\<lambda>s. Inr (TextString (map char_of_byte s))))"
  "deserialize_value pl data off KMIP_TYPE_BYTE_STRING len =
     bind_res (byte_subspan data off (unat len)) (\<lambda>v. Inr (ByteString v))"
  "deserialize_value pl data off KMIP_TYPE_DATE_TIME len =
     (if len \<noteq> 8 then Inl (kmip_exception ''Invalid length for DateTime'')
      else bind_res (read_be_u64 data off) (\<lambda>raw. Inr (DateTime raw)))"
  "deserialize_value pl data off KMIP_TYPE_INTERVAL len =
     (if len \<noteq> 4 then Inl (kmip_exception ''Invalid length for Interval'')
      else bind_res (read_be_u32 data off) (\<lambda>raw. Inr (Interval raw)))"
  "deserialize_value pl data off KMIP_TYPE_BIG_INTEGER len =
     bind_res (byte_subspan data off (unat len)) (\<lambda>v. Inr (BigInteger v))"
  "deserialize_value pl data off KMIP_TYPE_DATE_TIME_EXTENDED len =
     (if len \<noteq> 8 then Inl (kmip_exception ''Invalid length for DateTimeExtended'')
      else bind_res (read_be_u64 data off) (\<lambda>raw. Inr (DateTimeExtended raw)))"
  by (simp_all add: deserialize_value_def kmip_consts)

lemma deserialize_value_unknown:
  assumes "\<And>v. type \<noteq> type_of_value v"
  shows "deserialize_value pl data off type len =
           Inl (kmip_exception (''Unknown type '' @ nat_to_string (unat type)))"
  using assms [of "Integer 0"] assms [of "LongInteger 0"] assms [of "BigInteger []"]
    assms [of "Enumeration 0"] assms [of "Boolean True"] assms [of "TextString []"]
    assms [of "ByteString []"] assms [of "DateTime 0"] assms [of "DateTimeExtended 0"]
    assms [of "Interval 0"]
  by (simp add: deserialize_value_def type_of_value_def)

lemma deserialize_value_Structure:
  "deserialize_value pl data off KMIP_TYPE_STRUCTURE len =
     Inl (kmip_exception (''Unknown type '' @ nat_to_string (unat KMIP_TYPE_STRUCTURE)))"
  by (simp add: deserialize_value_def kmip_consts)

lemma type_of_value_simps [simp]:
  "type_of_value (Structure items) = KMIP_TYPE_STRUCTURE"
  "type_of_value (Integer i) = KMIP_TYPE_INTEGER"
  "type_of_value (LongInteger l) = KMIP_TYPE_LONG_INTEGER"
  "type_of_value (BigInteger bs) = KMIP_TYPE_BIG_INTEGER"
  "type_of_value (Enumeration i) = KMIP_TYPE_ENUMERATION"
  "type_of_value (Boolean b) = KMIP_TYPE_BOOLEAN"
  "type_of_value (TextString s) = KMIP_TYPE_TEXT_STRING"
  "type_of_value (ByteString bs) = KMIP_TYPE_BYTE_STRING"
  "type_of_value (DateTime l) = KMIP_TYPE_DATE_TIME"
  "type_of_value (DateTimeExtended l) = KMIP_TYPE_DATE_TIME_EXTENDED"
  "type_of_value (Interval i) = KMIP_TYPE_INTERVAL"
  by (simp_all add: type_of_value_def)

lemma type_distinct [simp]:
  "KMIP_TYPE_INTEGER \<noteq> KMIP_TYPE_STRUCTURE" "KMIP_TYPE_LONG_INTEGER \<noteq> KMIP_TYPE_STRUCTURE"
  "KMIP_TYPE_BIG_INTEGER \<noteq> KMIP_TYPE_STRUCTURE" "KMIP_TYPE_ENUMERATION \<noteq> KMIP_TYPE_STRUCTURE"
  "KMIP_TYPE_BOOLEAN \<noteq> KMIP_TYPE_STRUCTURE" "KMIP_TYPE_TEXT_STRING \<noteq> KMIP_TYPE_STRUCTURE"
  "KMIP_TYPE_BYTE_STRING \<noteq> KMIP_TYPE_STRUCTURE" "KMIP_TYPE_DATE_TIME \<noteq> KMIP_TYPE_STRUCTURE"
  "KMIP_TYPE_DATE_TIME_EXTENDED \<noteq> KMIP_TYPE_STRUCTURE" "KMIP_TYPE_INTERVAL \<noteq> KMIP_TYPE_STRUCTURE"
  by (simp_all add: kmip_consts)

lemma type_of_value_eq:
  "type_of_value v = KMIP_TYPE_INTEGER \<longleftrightarrow> (\<exists>x. v = Integer x)"
  "type_of_value v = KMIP_TYPE_LONG_INTEGER \<longleftrightarrow> (\<exists>x. v = LongInteger x)"
  "type_of_value v = KMIP_TYPE_BIG_INTEGER \<longleftrightarrow> (\<exists>x. v = BigInteger x)"
  "type_of_value v = KMIP_TYPE_ENUMERATION \<longleftrightarrow> (\<exists>x. v = Enumeration x)"
  "type_of_value v = KMIP_TYPE_BOOLEAN \<longleftrightarrow> (\<exists>x. v = Boolean x)"
  "type_of_value v = KMIP_TYPE_TEXT_STRING \<longleftrightarrow> (\<exists>x. v = TextString x)"
  "type_of_value v = KMIP_TYPE_BYTE_STRING \<longleftrightarrow> (\<exists>x. v = ByteString x)"
  "type_of_value v = KMIP_TYPE_DATE_TIME \<longleftrightarrow> (\<exists>x. v = DateTime x)"
  "type_of_value v = KMIP_TYPE_DATE_TIME_EXTENDED \<longleftrightarrow> (\<exists>x. v = DateTimeExtended x)"
  "type_of_value v = KMIP_TYPE_INTERVAL \<longleftrightarrow> (\<exists>x. v = Interval x)"
  "type_of_value v = KMIP_TYPE_STRUCTURE \<longleftrightarrow> (\<exists>x. v = Structure x)"
  by (cases v; simp add: type_of_value_def kmip_consts)+

lemmas type_of_value_eq_sym = type_of_value_eq [THEN trans [OF eq_commute]]

lemma be_bytes64_inject: "be_bytes64 v = be_bytes64 w \<longleftrightarrow> v = w"
  by (metis be_word64_eq_iff be_word64_bytes be_bytes64_def)

lemma deserialize_value_iff:
  assumes fits: "off + unat len \<le> length data"
    and inside: "hardened pl \<Longrightarrow> type = KMIP_TYPE_TEXT_STRING \<Longrightarrow> off < length data"
  shows "deserialize_value pl data off type len = Inr v \<longleftrightarrow>
     type = type_of_value v \<and> type \<noteq> KMIP_TYPE_STRUCTURE \<and>
     take (unat len) (drop off data) = content v \<and> unat len = length (content v)"
proof -
  have n: "unat len = 4 \<longleftrightarrow> len = 4" "unat len = 8 \<longleftrightarrow> len = 8"
    by (simp_all add: word_unat_eq_iff)
  have r32: "read_be_u32 data off = Inr w \<longleftrightarrow> take 4 (drop off data) = be_bytes32 w" if "len = 4" for w
    using that fits by (intro read_be_u32_iff) simp
  have r64: "read_be_u64 data off = Inr w \<longleftrightarrow> take 8 (drop off data) = be_bytes64 w" if "len = 8" for w
    using that fits by (intro read_be_u64_iff) simp
  note facts = deserialize_value_cases deserialize_value_Structure type_of_value_eq
    type_of_value_eq_sym n r32 r64 bind_res_Inr_iff
  consider w where "type = type_of_value w" | "\<And>w. type \<noteq> type_of_value w" by blast
  then show ?thesis
  proof cases
    case 1
    define T where "T = take (unat len) (drop off data)"
    have T: "byte_subspan data off (unat len) = Inr T" "length T = unat len"
      using fits by (simp_all add: byte_subspan_def T_def)
    note string = deserialize_value_cases type_of_value_eq_sym text_bytes_iff
    show ?thesis
    proof (cases w)
      case (TextString s)
      with 1 inside T show ?thesis unfolding T_def [symmetric] by (auto simp: string)
    next
      case (ByteString bs)
      with 1 T show ?thesis unfolding T_def [symmetric] by (auto simp: string)
    next
      case (BigInteger bs)
      with 1 T show ?thesis unfolding T_def [symmetric] by (auto simp: string)
    next
      case (Boolean b)
      show ?thesis
      proof (cases "len = 8")
        case True
        then obtain W where W: "read_be_u64 data off = Inr W" "take 8 (drop off data) = be_bytes64 W"
          using read_be_returns(2) [of off data] fits r64 by force
        with 1 Boolean True show ?thesis
          by (auto simp: deserialize_value_cases type_of_value_eq_sym be_bytes64_inject
              split: if_splits)
      qed (use 1 Boolean in \<open>auto simp: deserialize_value_cases type_of_value_eq_sym n\<close>)
    qed (use 1 in \<open>auto simp: facts\<close>)
  next
    case 2
    then show ?thesis by (simp add: deserialize_value_unknown)
  qed
qed

lemma deserialize_value_Inl:
  assumes "off + unat len \<le> length data" "deserialize_value pl data off type len = Inl e"
  shows "is_exception e \<or> hardened pl \<and> e = Assertion_abort"
proof -
  have r: "len = 4 \<Longrightarrow> \<exists>w. read_be_u32 data off = Inr w" "len = 8 \<Longrightarrow> \<exists>w. read_be_u64 data off = Inr w"
    using assms(1) read_be_returns [of off data] by auto
  consider w where "type = type_of_value w" | "\<And>w. type \<noteq> type_of_value w" by blast
  then show ?thesis
  proof cases
    case 1
    then show ?thesis
      using r assms
      by (cases w) (auto simp: deserialize_value_cases deserialize_value_Structure
          byte_subspan_def bind_res_Inl_iff split: if_splits)
  next
    case 2
    then show ?thesis using assms(2) by (auto simp: deserialize_value_unknown)
  qed
qed

section \<open>The decoder accepts exactly the encodings\<close>

lemma height_Structure_le_iff:
  "height (Element t ty (Structure items)) \<le> Suc n \<longleftrightarrow> (\<forall>x\<in>set items. height x \<le> n)"
proof -
  have "fold max ns m \<le> n \<longleftrightarrow> m \<le> n \<and> (\<forall>k\<in>set ns. k \<le> n)" for ns and m :: nat
    by (induction ns arbitrary: m) auto
  then show ?thesis by (simp add: height.simps)
qed

lemma height_primitive: "\<forall>items. v \<noteq> Structure items \<Longrightarrow> height (Element t ty v) = 1"
  by (cases v) (simp_all add: height.simps)

lemma type_of_value_less: "type_of_value v < 2 ^ 8"
  by (cases v) (simp_all add: type_of_value_def kmip_consts)

lemma ttlv_wf_primitive:
  "\<forall>items. v \<noteq> Structure items \<Longrightarrow> ttlv_wf (Element t ty v) \<longleftrightarrow>
     t < 2 ^ 24 \<and> ty = type_of_value v \<and> length (content v) < 2 ^ 32"
  by (cases v) (simp_all add: ttlv_wf.simps)

lemma ttlv_wf_Structure:
  "ttlv_wf (Element t ty (Structure items)) \<longleftrightarrow>
     t < 2 ^ 24 \<and> ty = KMIP_TYPE_STRUCTURE \<and> length (concat (map encode items)) < 2 ^ 32 \<and>
     list_all ttlv_wf items"
  by (auto simp: ttlv_wf.simps type_of_value_def)

lemma unat_u32_less: "unat (w :: u32) < 2 ^ 32"
  using unsigned_less [of w] by simp

lemma word_of_nat_unat_len: "unat (len :: u32) = n \<Longrightarrow> word_of_nat n = len"
  by auto

lemma drop_split: "drop off data = take n (drop off data) @ drop (off + n) data"
  by (simp add: add.commute flip: drop_drop)

text \<open>A step of the decoder, split into the cases of its header.\<close>

lemma deserialize_primitive_sound:
  assumes "deserialize_header data off = Inr (tag, type, len)" "type \<noteq> KMIP_TYPE_STRUCTURE"
    and fits: "off + 8 + padded_length type len \<le> length data"
    and val: "deserialize_value pl data (off + 8) type len = Inr v"
    and pad: "validate_zero_padding data (off + 8) (unat len) (padded_length type len) = Inr u"
  shows "(\<exists>post. drop off data = encode (Element tag type v) @ post) \<and>
     ttlv_wf (Element tag type v) \<and> height (Element tag type v) = 1 \<and>
     off + 8 + padded_length type len = off + length (encode (Element tag type v))"
proof -
  have le: "off + 8 \<le> length data" "off + 8 + unat len \<le> length data"
    using fits assms(2) by (simp_all add: padded_length_eq)
  have inside: "hardened pl \<Longrightarrow> type = KMIP_TYPE_TEXT_STRING \<Longrightarrow> off + 8 < length data"
    using val by (auto simp: deserialize_value_def kmip_consts split: if_splits)
  from deserialize_header_iff [OF le(1), of tag type len] assms(1) have hd: "tag < 2 ^ 24"
    "take 8 (drop off data) =
       [ucast (drop_bit 16 tag), ucast (drop_bit 8 tag), ucast tag, ucast type] @ be_bytes32 len"
    by simp_all
  have v: "type = type_of_value v" "take (unat len) (drop (off + 8) data) = content v"
    "unat len = length (content v)"
    using iffD1 [OF deserialize_value_iff [OF le(2) inside] val] by blast+
  have prim: "\<forall>items. v \<noteq> Structure items" using assms(2) v(1) by auto
  from validate_zero_padding_iff [of "off + 8" "padded_length type len" data "unat len"] pad fits
  have z: "take (pad8 (unat len)) (drop (off + 8 + unat len) data) = replicate (pad8 (unat len)) 0"
    using assms(2) by (simp add: padded_length_eq)
  have "drop off data = take 8 (drop off data) @ take (unat len) (drop (off + 8) data) @
      take (pad8 (unat len)) (drop (off + 8 + unat len) data) @
      drop (off + 8 + unat len + pad8 (unat len)) data"
    by (simp only: drop_split [symmetric])
  then have "drop off data = encode (Element tag type v) @
      drop (off + 8 + unat len + pad8 (unat len)) data"
    unfolding hd(2) v(2) z by (simp add: encode_eq flip: v(3))
  moreover have "ttlv_wf (Element tag type v)"
    using hd(1) v prim unat_u32_less [of len] by (simp add: ttlv_wf_primitive)
  ultimately show ?thesis
    using assms(2) v(3) prim by (auto simp: height_primitive length_encode padded_length_eq)
qed

text \<open>Soundness: what the decoder accepts is the encoding of what it returns, and the loop over a
  structure body consumes it exactly.\<close>

lemma deserialize_sound_aux:
  "deserialize_impl pl data off depth = Inr (e, off') \<Longrightarrow>
     (\<exists>post. drop off data = encode e @ post) \<and> ttlv_wf e \<and> depth + height e \<le> 65 \<and>
     off' = off + length (encode e)"
  "deserialize_items pl view off depth len cur = Inr (es, off') \<Longrightarrow>
     off + (len - cur) = length view \<Longrightarrow> cur \<le> len \<Longrightarrow>
     drop off view = concat (map encode es) \<and> list_all ttlv_wf es \<and>
     (\<forall>x\<in>set es. depth + 1 + height x \<le> 65) \<and> off' = length view"
proof (induction pl data off depth and pl view off depth len cur arbitrary: e off' and es off'
    rule: deserialize_impl_deserialize_items.induct)
  case (1 pl data off depth)
  from 1(2) obtain tag type len where d: "\<not> depth > KMIP_MAX_STRUCTURE_DEPTH"
    and hd: "deserialize_header data off = Inr (tag, type, len)"
    by (subst (asm) deserialize_impl.simps) (auto simp: bind_res_Inr_iff split: if_splits)
  have le: "off + 8 \<le> length data"
    using hd by (rule deserialize_header_cases(3))
  show ?case
  proof (cases "type = KMIP_TYPE_STRUCTURE")
    case False
    from 1(2) d hd False obtain v u where "off + 8 + padded_length type len \<le> length data"
      "deserialize_value pl data (off + 8) type len = Inr v"
      "validate_zero_padding data (off + 8) (unat len) (padded_length type len) = Inr u"
      "e = Element tag type v" "off' = off + 8 + padded_length type len"
      by (subst (asm) deserialize_impl.simps) (auto simp: bind_res_Inr_iff split: if_splits)
    with deserialize_primitive_sound [OF hd False] d show ?thesis
      by (simp add: KMIP_MAX_STRUCTURE_DEPTH_def)
  next
    case True
    let ?view = "take (off + 8 + unat len) data"
    from 1(2) d hd True obtain items where
      fits: "off + 8 + unat len \<le> length data" and
      items: "deserialize_items pl ?view (off + 8) depth (unat len) 0 = Inr (items, off')" and
      e: "e = Element tag type (Structure items)"
      by (subst (asm) deserialize_impl.simps) (auto simp: bind_res_Inr_iff split: if_splits)
    from 1(1) [OF d hd refl refl True _ items] fits
    have body: "drop (off + 8) ?view = concat (map encode items)" "list_all ttlv_wf items"
      "\<forall>x\<in>set items. depth + 1 + height x \<le> 65" "off' = length ?view" by auto
    have len: "unat len = length (concat (map encode items))"
      using arg_cong [OF body(1), of length] fits by simp
    from deserialize_header_iff [OF le, of tag type len] hd have h: "tag < 2 ^ 24"
      "take 8 (drop off data) =
         [ucast (drop_bit 16 tag), ucast (drop_bit 8 tag), ucast tag, ucast type] @ be_bytes32 len"
      by simp_all
    have "take (unat len) (drop (off + 8) data) = drop (off + 8) ?view" by (simp add: take_drop add.commute)
    then have "drop off data = encode e @ drop (off + 8 + unat len) data"
      using drop_split [of off data 8] drop_split [of "off + 8" data "unat len"] body(1)
      unfolding h(2) e using concat_encode_aligned [of items] by (simp add: encode_eq flip: len)
    moreover have "height e \<le> Suc (64 - depth)"
      unfolding e height_Structure_le_iff using body(3) by auto
    moreover have "ttlv_wf e"
      using h(1) True body(2) unat_u32_less [of len] by (simp add: e ttlv_wf_Structure len)
    ultimately show ?thesis
      using body(4) fits d len by (auto simp: e length_encode KMIP_MAX_STRUCTURE_DEPTH_def)
  qed
next
  case (2 pl view off depth len cur)
  show ?case
  proof (cases "cur < len")
    case False
    with 2(3-5) show ?thesis by (subst (asm) deserialize_items.simps) auto
  next
    case True
    from 2(3) True obtain child item_off rest where
      child: "deserialize_impl pl view off (depth + 1) = Inr (child, item_off)" and
      rest: "deserialize_items pl view item_off depth len (cur + (item_off - off)) = Inr (rest, off')" and
      es: "es = child # rest"
      by (subst (asm) deserialize_items.simps) (auto simp: bind_res_Inr_iff split: if_splits)
    from 2(1) [OF True child] obtain post where c: "drop off view = encode child @ post"
      "ttlv_wf child" "depth + 1 + height child \<le> 65" "item_off = off + length (encode child)" by auto
    have "length (encode child) \<le> len - cur"
      using arg_cong [OF c(1), of length] 2(4) by simp
    with c(4) 2(4) True have "item_off + (len - (cur + (item_off - off))) = length view"
      "cur + (item_off - off) \<le> len" by simp_all
    with 2(2) [OF True child refl rest] have "drop item_off view = concat (map encode rest)"
      "list_all ttlv_wf rest" "\<forall>x\<in>set rest. depth + 1 + height x \<le> 65" "off' = length view"
      by simp_all
    moreover have "drop item_off view = post"
      using c(1,4) by (metis add.commute append_eq_conv_conj drop_drop)
    ultimately show ?thesis using c es by simp
  qed
qed

text \<open>A text string whose first byte would lie behind the data, in a place where a hardened build
  aborts: the last child of a structure.\<close>

definition empty_text :: "element \<Rightarrow> bool" where
  "empty_text e \<longleftrightarrow> elem_value e = TextString []"

fun no_trailing_empty_text :: "element \<Rightarrow> bool" where
  "no_trailing_empty_text (Element tag type val) \<longleftrightarrow>
     (case val of
        Structure items \<Rightarrow>
          (items \<noteq> [] \<longrightarrow> \<not> empty_text (last items)) \<and> list_all no_trailing_empty_text items
      | _ \<Rightarrow> True)"

declare no_trailing_empty_text.simps [simp del]

text \<open>Completeness for one element that is not a structure.\<close>

lemma encode_header:
  assumes "drop off data = encode (Element tag type v) @ post" "ttlv_wf (Element tag type v)"
  shows "off + length (encode (Element tag type v)) \<le> length data"
    and "deserialize_header data off = Inr (tag, type, word_of_nat (length (content v)))"
    and "unat (word_of_nat (length (content v)) :: u32) = length (content v)"
    and "drop (off + 8) data = content v @ replicate (pad8 (length (content v))) 0 @ post"
proof -
  have wf: "tag < 2 ^ 24" "type < 2 ^ 8" "length (content v) < 2 ^ 32"
    using assms(2) type_of_value_less [of v] by (auto simp: ttlv_wf.simps)
  show le: "off + length (encode (Element tag type v)) \<le> length data"
    using arg_cong [OF assms(1), of length] length_encode_ge [of "Element tag type v"] by simp
  then have le8: "off + 8 \<le> length data" by (simp add: length_encode)
  have "take 8 (drop off data) =
      [ucast (drop_bit 16 tag), ucast (drop_bit 8 tag), ucast tag, ucast type] @
      be_bytes32 (word_of_nat (length (content v)))"
    unfolding assms(1) by (simp add: encode_eq be_bytes32_def)
  then show "deserialize_header data off = Inr (tag, type, word_of_nat (length (content v)))"
    using deserialize_header_iff [OF le8] wf by simp
  show "unat (word_of_nat (length (content v)) :: u32) = length (content v)"
    using wf(3) by (simp add: unat_of_nat)
  have "drop (off + 8) data = drop 8 (drop off data)" by (simp add: add.commute)
  then show "drop (off + 8) data = content v @ replicate (pad8 (length (content v))) 0 @ post"
    unfolding assms(1) by (simp add: encode_eq be_bytes32_def)
qed

lemma deserialize_primitive_complete:
  assumes "drop off data = encode (Element tag type v) @ post" "ttlv_wf (Element tag type v)"
    and prim: "\<forall>items. v \<noteq> Structure items" and "depth \<le> 64"
    and safe: "hardened pl \<Longrightarrow> v = TextString [] \<Longrightarrow> post \<noteq> []"
  shows "deserialize_impl pl data off depth =
     Inr (Element tag type v, off + length (encode (Element tag type v)))"
proof -
  note h = encode_header [OF assms(1,2)]
  let ?len = "word_of_nat (length (content v)) :: u32"
  have ty: "type = type_of_value v" "type \<noteq> KMIP_TYPE_STRUCTURE"
    using assms(2) prim by (auto simp: ttlv_wf.simps type_of_value_eq)
  have pl: "padded_length type ?len = length (content v) + pad8 (length (content v))"
    using ty(2) h(3) by (simp add: padded_length_eq)
  have le: "off + 8 + padded_length type ?len \<le> length data"
    using h(1) by (simp add: pl length_encode)
  have inside: "off + 8 < length data" if "hardened pl" "type = KMIP_TYPE_TEXT_STRING"
  proof -
    from that(2) ty(1) obtain s where s: "v = TextString s" by (auto simp: type_of_value_eq)
    have "drop (off + 8) data \<noteq> []"
      unfolding h(4) using s safe [OF that(1)] by (cases s) auto
    then show ?thesis by simp
  qed
  have "deserialize_value pl data (off + 8) type ?len = Inr v"
    by (subst deserialize_value_iff) (use le pl h(3,4) ty inside in \<open>auto\<close>)
  moreover have "validate_zero_padding data (off + 8) (unat ?len) (padded_length type ?len) = Inr ()"
  proof (subst validate_zero_padding_iff)
    have "drop (off + 8 + unat ?len) data = drop (length (content v)) (drop (off + 8) data)"
      by (simp add: h(3) ac_simps)
    then show "take (padded_length type ?len - unat ?len) (drop (off + 8 + unat ?len) data) =
        replicate (padded_length type ?len - unat ?len) 0"
      unfolding h(4) by (simp add: pl h(3))
  qed (use le pl h(3) in simp_all)
  ultimately show ?thesis
    using assms(4) h(2) ty(2) le
    by (subst deserialize_impl.simps)
       (simp add: KMIP_MAX_STRUCTURE_DEPTH_def pl length_encode)
qed

lemma deserialize_complete:
  assumes "drop off data = encode e @ post" "ttlv_wf e" "depth + height e \<le> 65"
    and "hardened pl \<Longrightarrow> no_trailing_empty_text e \<and> (empty_text e \<longrightarrow> post \<noteq> [])"
  shows "deserialize_impl pl data off depth = Inr (e, off + length (encode e))"
  using assms
proof (induction e arbitrary: data off depth post rule: measure_induct_rule [of size])
  case (less e)
  obtain tag type v where e: "e = Element tag type v" by (cases e)
  show ?case
  proof (cases "\<exists>items. v = Structure items")
    case False
    then have "height e = 1" using e by (simp add: height_primitive)
    with less.prems False show ?thesis
      unfolding e by (intro deserialize_primitive_complete) (auto simp: empty_text_def)
  next
    case True
    then obtain items where v: "v = Structure items" by blast
    note pre = less.prems(1,2) [unfolded e]
    note h = encode_header [OF pre]
    let ?len = "word_of_nat (length (content v)) :: u32"
    let ?view = "take (off + 8 + length (content v)) data"
    have ty: "type = KMIP_TYPE_STRUCTURE" "list_all ttlv_wf items"
      using less.prems(2) by (simp_all add: e v ttlv_wf_Structure)
    have depth: "depth \<le> 64" "\<forall>x\<in>set items. depth + 1 + height x \<le> 65"
    proof -
      have "height e \<ge> 1" by (simp add: e v height.simps)
      with less.prems(3) show d: "depth \<le> 64" by simp
      have "height e \<le> Suc (64 - depth)" using less.prems(3) d by simp
      then show "\<forall>x\<in>set items. depth + 1 + height x \<le> 65"
        unfolding e v height_Structure_le_iff using d by fastforce
    qed
    have le: "off + 8 + length (content v) \<le> length data" using h(1) by (simp add: length_encode)
    have body: "drop (off + 8) ?view = concat (map encode items)"
      using h(4) by (simp add: v drop_take)
    have loop: "deserialize_items pl ?view pos depth n cur = Inr (es, length ?view)"
      if "drop pos ?view = concat (map encode es)" "pos + (n - cur) = length ?view" "cur \<le> n"
        "\<exists>xs. items = xs @ es" for pos n cur es
      using that
    proof (induction es arbitrary: pos cur)
      case Nil
      then have "length ?view \<le> pos" by simp
      then have "pos = length ?view" "cur = n" using Nil.prems(2,3) by simp_all
      then show ?case by (subst deserialize_items.simps) simp
    next
      case (Cons x xs)
      have x: "x \<in> set items" "xs = [] \<longrightarrow> last items = x" using Cons.prems(4) by auto
      have dx: "drop pos ?view = encode x @ concat (map encode xs)" using Cons.prems(1) by simp
      have "length (encode x) + length (concat (map encode xs)) = length ?view - pos"
        using arg_cong [OF dx, of length] by simp
      then have n: "cur < n" "cur + length (encode x) \<le> n"
        "pos + length (encode x) + (n - (cur + length (encode x))) = length ?view"
        using length_encode_ge [of x] Cons.prems(2) by simp_all
      have "hardened pl \<Longrightarrow> no_trailing_empty_text x \<and>
          (empty_text x \<longrightarrow> concat (map encode xs) \<noteq> [])"
        using less.prems(4) x
        by (cases xs) (auto simp: e v no_trailing_empty_text.simps list_all_iff)
      moreover have "size x < size e"
        using size_list_estimation' [OF x(1), of "size x" size] by (simp add: e v)
      moreover have "ttlv_wf x" "depth + 1 + height x \<le> 65"
        using x(1) ty(2) depth(2) by (auto simp: list_all_iff)
      ultimately have cx: "deserialize_impl pl ?view pos (depth + 1) = Inr (x, pos + length (encode x))"
        by (intro less.IH [OF _ dx])
      have "drop (pos + length (encode x)) ?view = concat (map encode xs)"
        using dx by (metis add.commute append_eq_conv_conj drop_drop)
      with Cons.IH [of "pos + length (encode x)" "cur + length (encode x)"] n Cons.prems(4)
      have "deserialize_items pl ?view (pos + length (encode x)) depth n (cur + length (encode x)) =
          Inr (xs, length ?view)" by auto
      with cx n(1) show ?case by (subst deserialize_items.simps) simp
    qed
    have "deserialize_items pl ?view (off + 8) depth (unat ?len) 0 = Inr (items, length ?view)"
      using le h(3) body by (intro loop) (simp_all add: v)
    then show ?thesis
      using h(2,3) depth(1) ty(1) le unfolding e
      by (subst deserialize_impl.simps)
         (simp add: v KMIP_MAX_STRUCTURE_DEPTH_def length_encode)
  qed
qed

text \<open>Safety: no read outside the data, as long as the sum of the header check does not wrap.\<close>

lemma deserialize_inside:
  assumes "deserialize_impl pl data off depth = Inr (e, off')"
  shows "off + 8 \<le> off'" "off' \<le> length data"
proof -
  from deserialize_sound_aux(1) [OF assms] obtain post where
    d: "drop off data = encode e @ post" "off' = off + length (encode e)"
    by auto
  have "length data - off = length (encode e) + length post" by (metis d(1) length_append length_drop)
  then show "off + 8 \<le> off'" "off' \<le> length data"
    using d(2) length_encode_ge [of e] by simp_all
qed

lemma deserialize_safe_aux:
  "deserialize_impl pl data off depth = Inl err \<Longrightarrow> length data < 2 ^ 63 \<Longrightarrow> off + 8 < 2 ^ 64 \<Longrightarrow>
     is_exception err \<or> hardened pl \<and> err = Assertion_abort"
  "deserialize_items pl view off depth len cur = Inl err \<Longrightarrow> length view < 2 ^ 63 \<Longrightarrow> off \<le> length view \<Longrightarrow>
     is_exception err \<or> hardened pl \<and> err = Assertion_abort"
proof (induction pl data off depth and pl view off depth len cur
    rule: deserialize_impl_deserialize_items.induct)
  case (1 pl data off depth)
  show ?case
  proof (cases "depth > KMIP_MAX_STRUCTURE_DEPTH \<or> \<not> off + 8 \<le> length data")
    case True
    with 1(2,4) deserialize_header_cases(2) [of off data] show ?thesis
      by (subst (asm) deserialize_impl.simps) (auto split: if_splits)
  next
    case False
    with deserialize_header_cases(1) [of off data] obtain tag type len where
      hd: "deserialize_header data off = Inr (tag, type, len)" by auto
    have pl: "unat len \<le> padded_length type len" by (simp add: padded_length_def)
    have val: "is_exception e \<or> hardened pl \<and> e = Assertion_abort"
      if "\<not> length data < off + 8 + padded_length type len"
        "deserialize_value pl data (off + 8) type len = Inl e" for e
      using that pl by (intro deserialize_value_Inl [of "off + 8" len data pl type]) simp_all
    have pad: "is_exception e" if "\<not> length data < off + 8 + padded_length type len"
        "validate_zero_padding data (off + 8) (unat len) (padded_length type len) = Inl e" for e
      using that by (intro validate_zero_padding_Inl [of "off + 8" _ data]) simp_all
    from False have d: "\<not> depth > KMIP_MAX_STRUCTURE_DEPTH" by simp
    have items: "is_exception err \<or> hardened pl \<and> err = Assertion_abort"
      if "type = KMIP_TYPE_STRUCTURE" "\<not> length data < off + 8 + unat len"
        "deserialize_items pl (take (off + 8 + unat len) data) (off + 8) depth (unat len) 0 = Inl err"
      using 1(1) [OF d hd refl refl that(1)] that 1(3) False by simp
    from 1(2) d hd items val pad show ?thesis
      by (subst (asm) deserialize_impl.simps) (auto simp: bind_res_Inl_iff split: if_splits)
  qed
next
  case (2 pl view off depth len cur)
  have off: "off + 8 < 2 ^ 64" using 2(4,5) by simp
  have child: "is_exception err \<or> hardened pl \<and> err = Assertion_abort"
    if "cur < len" "deserialize_impl pl view off (depth + 1) = Inl err"
    using 2(1) [OF that 2(4) off] .
  have rest: "is_exception err \<or> hardened pl \<and> err = Assertion_abort"
    if "cur < len" "deserialize_impl pl view off (depth + 1) = Inr (c, pos)"
      "deserialize_items pl view pos depth len (cur + (pos - off)) = Inl err" for c pos
    using 2(2) [OF that(1,2) refl that(3) 2(4) deserialize_inside(2) [OF that(2)]] .
  from 2(3) show ?case
    by (subst (asm) deserialize_items.simps) (auto simp: bind_res_Inl_iff split: if_splits dest: child rest)
qed


text \<open>Equal encodings come from equal elements.\<close>

lemma encode_inject:
  assumes "ttlv_wf a" "ttlv_wf b" "height a \<le> 65" "height b \<le> 65" "encode a = encode b"
  shows "a = b"
proof -
  let ?pl = "\<lparr>native_endian = Little_endian, hardened = False\<rparr>"
  have a: "deserialize_impl ?pl (encode a) 0 0 = Inr (a, length (encode a))"
    using deserialize_complete [of 0 "encode a" a "[]" 0 ?pl] assms(1,3) by simp
  have b: "deserialize_impl ?pl (encode b) 0 0 = Inr (b, length (encode b))"
    using deserialize_complete [of 0 "encode b" b "[]" 0 ?pl] assms(2,4) by simp
  have "(Inr (a, length (encode a)) :: (element \<times> nat) res) = Inr (b, length (encode b))"
    using a b assms(5) by (metis (no_types))
  then show ?thesis by simp
qed

lemma elem_wf_simps [simp]:
  "ttlv_wf (createInteger t i) \<longleftrightarrow> t < 2 ^ 24" "ttlv_wf (createLongInteger t l) \<longleftrightarrow> t < 2 ^ 24"
  "ttlv_wf (createBoolean t b) \<longleftrightarrow> t < 2 ^ 24" "ttlv_wf (createEnumeration t i) \<longleftrightarrow> t < 2 ^ 24"
  "ttlv_wf (createTextString t s) \<longleftrightarrow> t < 2 ^ 24 \<and> length s < 2 ^ 32"
  "ttlv_wf (createByteString t bs) \<longleftrightarrow> t < 2 ^ 24 \<and> length bs < 2 ^ 32"
  "ttlv_wf (createBigInteger t bs) \<longleftrightarrow> t < 2 ^ 24 \<and> length bs < 2 ^ 32"
  "ttlv_wf (createDateTime t l) \<longleftrightarrow> t < 2 ^ 24" "ttlv_wf (createInterval t i) \<longleftrightarrow> t < 2 ^ 24"
  "ttlv_wf (createDateTimeExtended t l) \<longleftrightarrow> t < 2 ^ 24"
  by (simp_all add: create_defs ttlv_wf.simps)

section \<open>Properties\<close>

text \<open>C17. Serializing an element into a fresh buffer yields exactly its wire format, on a little-endian
  and on a big-endian machine, and throws exactly when the encoding exceeds the effective limit of
  64 MiB.\<close>

theorem serialize_refines_encode:
  assumes "vectors_fit e"
  shows "if length (encode e) \<le> 2 ^ 26
    then \<exists>buf. serialize pl e (new_buffer DEFAULT_CAPACITY) = Inr buf \<and> buffer_span buf = encode e
    else serialize pl e (new_buffer DEFAULT_CAPACITY) =
           Inl (kmip_exception ''SerializationBuffer exceeded maximum size of 100 MB'')"
  using serialize_appends [OF assms new_buffer_ok(1), of pl]
  by (auto simp: appends_def effective_limit_def split: if_splits)

theorem serialize_refines_encode_witness:
  "\<exists>buf. serialize \<lparr>native_endian = Little_endian, hardened = True\<rparr>
            (createInteger KMIP_TAG_BATCH_COUNT 1) (new_buffer DEFAULT_CAPACITY) = Inr buf \<and>
     buffer_span buf = [0x42, 0, 0x0D, 2, 0, 0, 0, 4, 0, 0, 0, 1, 0, 0, 0, 0]"
proof -
  have "encode (createInteger KMIP_TAG_BATCH_COUNT 1) =
      [0x42, 0, 0x0D, 2, 0, 0, 0, 4, 0, 0, 0, 1] @ replicate 4 0"
    by (simp add: createInteger_def encode_eq be_bytes32_def kmip_consts drop_bit_eq_div pad8_def)
  moreover have "replicate 4 (0::byte) = [0, 0, 0, 0]"
    by (simp add: eval_nat_numeral)
  ultimately show ?thesis
    using serialize_refines_encode [of "createInteger KMIP_TAG_BATCH_COUNT 1"]
    by (simp add: createInteger_def vectors_fit.simps)
qed

text \<open>C16. Round trip at any position: the decoder reads back every well-formed element of at most 65
  levels from its encoding, wherever the encoding stands in the data, and leaves the offset just
  behind it.  A hardened build needs that no empty text string is the last thing in its structure or
  in the data.\<close>

theorem deserialize_encode:
  assumes "ttlv_wf e" "height e \<le> 65"
    and "hardened pl \<longrightarrow> no_trailing_empty_text e \<and> (empty_text e \<longrightarrow> post \<noteq> [])"
  shows "deserialize pl (pre @ encode e @ post) (length pre) = Inr (e, length pre + length (encode e))"
  using assms deserialize_complete [of "length pre" "pre @ encode e @ post" e post 0 pl]
  by (simp add: deserialize_def)

theorem deserialize_encode_witness:
  "deserialize \<lparr>native_endian = Little_endian, hardened = True\<rparr>
     ([7] @ encode (createTextString KMIP_TAG_UNIQUE_IDENTIFIER ''id'') @ []) (length [7 :: byte]) =
   Inr (createTextString KMIP_TAG_UNIQUE_IDENTIFIER ''id'', 17)"
proof -
  have len: "length (encode (createTextString KMIP_TAG_UNIQUE_IDENTIFIER ''id'')) = 16"
    by (simp add: createTextString_def length_encode pad8_def)
  have "ttlv_wf (createTextString KMIP_TAG_UNIQUE_IDENTIFIER ''id'')"
    "height (createTextString KMIP_TAG_UNIQUE_IDENTIFIER ''id'') \<le> 65"
    "no_trailing_empty_text (createTextString KMIP_TAG_UNIQUE_IDENTIFIER ''id'')"
    "\<not> empty_text (createTextString KMIP_TAG_UNIQUE_IDENTIFIER ''id'')"
    by (simp_all add: createTextString_def ttlv_wf.simps height.simps
        no_trailing_empty_text.simps empty_text_def kmip_consts)
  then show ?thesis
    using deserialize_encode [of "createTextString KMIP_TAG_UNIQUE_IDENTIFIER ''id''"
        "\<lparr>native_endian = Little_endian, hardened = True\<rparr>" "[]" "[7]"] len by simp
qed

text \<open>C6. Canonicity: whatever the decoder accepts is byte for byte the encoding of the element it
  returns, that element is well formed with at most 65 levels, and the new offset is behind the
  encoding and inside the data.  So no two byte sequences decode to the same element, and no child of
  a structure reaches into its siblings.\<close>

theorem deserialize_canonical:
  assumes "deserialize pl data off = Inr (e, off')"
  shows "take (off' - off) (drop off data) = encode e \<and> ttlv_wf e \<and> height e \<le> 65 \<and>
         off' = off + length (encode e) \<and> off' \<le> length data"
proof -
  from deserialize_sound_aux(1) [OF assms [unfolded deserialize_def]] obtain post where
    d: "drop off data = encode e @ post" "ttlv_wf e" "height e \<le> 65" "off' = off + length (encode e)"
    by auto
  moreover have "off + length (encode e) \<le> length data"
    using arg_cong [OF d(1), of length] length_encode_ge [of e] by simp
  ultimately show ?thesis by simp
qed

theorem deserialize_canonical_witness:
  "\<exists>e off'. deserialize \<lparr>native_endian = Little_endian, hardened = False\<rparr>
       [0x42, 0, 0x0D, 6, 0, 0, 0, 8, 0, 0, 0, 0, 0, 0, 0, 1] 0 = Inr (e, off') \<and>
     encode e = [0x42, 0, 0x0D, 6, 0, 0, 0, 8, 0, 0, 0, 0, 0, 0, 0, 1] \<and> ttlv_wf e"
proof -
  let ?pl = "\<lparr>native_endian = Little_endian, hardened = False\<rparr>"
  let ?d = "[0x42, 0, 0x0D, 6, 0, 0, 0, 8, 0, 0, 0, 0, 0, 0, 0, 1] :: byte list"
  have "deserialize ?pl ?d 0 = Inr (createBoolean KMIP_TAG_BATCH_COUNT True, 16)"
    by code_simp
  from this deserialize_canonical [OF this] show ?thesis by auto
qed

text \<open>C23. Memory safety and totality of the decoder, on any bytes of a span (fewer than \<open>2 ^ 63\<close>) and at any position: it
  returns an element and a position behind it and inside the data, or a failure.  A failure is a library
  exception, never a read outside the data; a hardened build can also stop on the precondition check of an
  empty text string.  The one exception are positions within eight of \<open>2 ^ 64\<close>: there the sum of the header check
  wraps, and the first byte is read outside the data.\<close>

theorem deserialize_safe:
  assumes "length data < 2 ^ 63" "off < 2 ^ 64"
  shows "case deserialize pl data off of
     Inr (e, off') \<Rightarrow> off + 8 \<le> off' \<and> off' \<le> length data
   | Inl err \<Rightarrow>
       if off + 8 < 2 ^ 64 then is_exception err \<or> hardened pl \<and> err = Assertion_abort
       else 8 \<le> length data \<longrightarrow> err = Out_of_range"
proof (cases "deserialize pl data off")
  case (Inr r)
  then show ?thesis using deserialize_inside [of pl data off 0] by (cases r) (simp add: deserialize_def)
next
  case (Inl err)
  show ?thesis
  proof (cases "off + 8 < 2 ^ 64")
    case True
    then show ?thesis using Inl deserialize_safe_aux(1) assms by (simp add: deserialize_def)
  next
    case False
    have "err = Out_of_range" if "8 \<le> length data"
    proof -
      have "(off + 8) mod 2 ^ 64 = off + 8 - 2 ^ 64" using False assms(2) by (subst le_mod_geq) simp_all
      then have "sz_add off 8 \<le> length data" using assms(2) that by (simp add: sz_add_def)
      moreover have "\<not> off < length data" using False assms(1) by simp
      ultimately have "deserialize_header data off = Inl Out_of_range"
        by (simp add: deserialize_header_def byte_at_def)
      with Inl show ?thesis
        unfolding deserialize_def by (subst (asm) deserialize_impl.simps) (simp add: KMIP_MAX_STRUCTURE_DEPTH_def)
    qed
    with False Inl show ?thesis by simp
  qed
qed

theorem deserialize_safe_witness:
  "\<exists>err. deserialize \<lparr>native_endian = Little_endian, hardened = False\<rparr> [0x42, 0] 0 = Inl err \<and> is_exception err \<and>
     deserialize \<lparr>native_endian = Little_endian, hardened = False\<rparr> [0, 0, 0, 0, 0, 0, 0, 0] (2 ^ 64 - 8) = Inl Out_of_range"
proof -
  let ?pl = "\<lparr>native_endian = Little_endian, hardened = False\<rparr>" and ?z = "[0, 0, 0, 0, 0, 0, 0, 0] :: byte list"
  have d: "deserialize ?pl [0x42, 0] 0 = Inl (kmip_exception ''Buffer too short for header'')" by code_simp
  have "deserialize ?pl ?z (2 ^ 64 - 8) = Inl Out_of_range"
    using deserialize_safe [of ?z "2 ^ 64 - 8" ?pl] by (auto split: sum.splits)
  with d deserialize_safe [of "[0x42, 0]" 0 ?pl] show ?thesis by simp
qed

text \<open>C40. An empty text string as the last child of a structure stops a hardened build, although the
  same bytes are a well-formed message that any other build decodes.\<close>

theorem empty_text_aborts_hardened:
  assumes "t < 2 ^ 24" "t' < 2 ^ 24"
  shows "deserialize \<lparr>native_endian = en, hardened = True\<rparr>
             (encode (Element t KMIP_TYPE_STRUCTURE (Structure [createTextString t' []]))) 0 =
           Inl Assertion_abort \<and>
         deserialize \<lparr>native_endian = en, hardened = False\<rparr>
             (encode (Element t KMIP_TYPE_STRUCTURE (Structure [createTextString t' []]))) 0 =
           Inr (Element t KMIP_TYPE_STRUCTURE (Structure [createTextString t' []]), 16)"
proof -
  let ?c = "Element t' KMIP_TYPE_TEXT_STRING (TextString [])"
  let ?e = "Element t KMIP_TYPE_STRUCTURE (Structure [?c])"
  let ?h = "\<lparr>native_endian = en, hardened = True\<rparr>"
  have wf: "ttlv_wf ?c" "ttlv_wf ?e" "height ?e \<le> 65"
    using assms by (simp_all add: ttlv_wf.simps height.simps length_encode)
  have len: "length (encode ?c) = 8" "length (encode ?e) = 16" by (simp_all add: length_encode)
  note he = encode_header [of 0 "encode ?e" t KMIP_TYPE_STRUCTURE "Structure [?c]" "[]"]
  have body: "drop 8 (encode ?e) = encode ?c @ []" using he(4) wf(2) by simp
  note hc = encode_header [OF body wf(1)]
  have "deserialize_impl ?h (encode ?e) 8 1 = Inl Assertion_abort"
    using hc(2) len(2)
    by (subst deserialize_impl.simps)
       (simp add: KMIP_MAX_STRUCTURE_DEPTH_def padded_length_def deserialize_value_cases
          type_distinct)
  then have "deserialize_items ?h (encode ?e) 8 0 8 0 = Inl Assertion_abort"
    by (subst deserialize_items.simps) simp
  then have "deserialize ?h (encode ?e) 0 = Inl Assertion_abort"
    using he(2,3) wf(2) len unfolding deserialize_def
    by (subst deserialize_impl.simps) (simp add: KMIP_MAX_STRUCTURE_DEPTH_def)
  moreover have "deserialize \<lparr>native_endian = en, hardened = False\<rparr> (encode ?e) 0 = Inr (?e, 16)"
    using deserialize_complete [of 0 "encode ?e" ?e "[]" 0 "\<lparr>native_endian = en, hardened = False\<rparr>"]
      wf len by (simp add: deserialize_def)
  ultimately show ?thesis by (simp add: createTextString_def)
qed

theorem empty_text_aborts_hardened_witness:
  "deserialize \<lparr>native_endian = Little_endian, hardened = True\<rparr>
     (encode (Element KMIP_TAG_BATCH_ITEM KMIP_TYPE_STRUCTURE
        (Structure [createTextString KMIP_TAG_RESULT_MESSAGE []]))) 0 = Inl Assertion_abort"
  using empty_text_aborts_hardened [of KMIP_TAG_BATCH_ITEM KMIP_TAG_RESULT_MESSAGE Little_endian]
  by (simp add: kmip_consts)

end
