(* ===== verification/Kmip_Protocol.thy ===== *)
theory Kmip_Protocol
  imports Kmip_Basics
begin

text \<open>
  \<open>src/kmipcore/src/kmip_protocol.cpp\<close> and \<open>kmip_protocol.hpp\<close>: protocol version, request and
  response headers, batch items and messages, with their conversions to and from TTLV elements and
  the serialization of a request.  A class is a record of its members; a \<open>shared_ptr\<close> parameter
  that may be null is an option.

  The locale \<open>wire_codec\<close> is the contract of a pair \<open>toElement\<close>/\<open>fromElement\<close>: on valid
  objects the second inverts the first.  It is interpreted on every
  class of the file; \<open>wire_message\<close> adds well-formedness of the element and gives the round trip
  down to bytes.
\<close>

section \<open>Structures as the code builds them\<close>

text \<open>\<open>createStructure(tag)\<close> followed by \<open>asStructure()->add(child)\<close> for each child; an optional
  member adds a child only when it is present.\<close>

definition make_structure :: "u32 \<Rightarrow> element list \<Rightarrow> element" where
  "make_structure tag children = fold add_child children (createStructure tag)"

definition opt_child :: "('a \<Rightarrow> element) \<Rightarrow> 'a option \<Rightarrow> element list" where
  "opt_child f m = (case m of None \<Rightarrow> [] | Some x \<Rightarrow> [f x])"

text \<open>The guard at the head of every \<open>fromElement\<close>.\<close>

definition check_structure :: "u32 \<Rightarrow> string \<Rightarrow> element option \<Rightarrow> element res" where
  "check_structure expected msg p =
     (case p of
        None \<Rightarrow> Inl (kmip_exception msg)
      | Some e \<Rightarrow>
          if elem_tag e \<noteq> expected \<or> elem_type e \<noteq> KMIP_TYPE_STRUCTURE
          then Inl (kmip_exception msg) else Inr e)"

lemma make_structure_eq:
  "make_structure tag children = Element tag KMIP_TYPE_STRUCTURE (Structure children)"
proof -
  have "fold add_child cs (Element t ty (Structure xs)) = Element t ty (Structure (xs @ cs))"
    for cs t ty xs by (induction cs arbitrary: xs) (simp_all add: add_child_def)
  then show ?thesis by (simp add: make_structure_def createStructure_def)
qed

lemma make_structure_simps [simp]:
  "elem_tag (make_structure t cs) = t" "elem_type (make_structure t cs) = KMIP_TYPE_STRUCTURE"
  "elem_value (make_structure t cs) = Structure cs" "asStructure (make_structure t cs) = Some cs"
  "getChild u (make_structure t cs) = struct_find u cs"
  "getChildren u (make_structure t cs) = struct_findAll u cs"
  by (simp_all add: make_structure_eq asStructure_def getChild_def getChildren_def)

lemma opt_child_simps [simp]: "opt_child f None = []" "opt_child f (Some x) = [f x]"
  by (simp_all add: opt_child_def)

lemma struct_find_simps [simp]:
  "struct_find t [] = None"
  "struct_find t (x # xs) = (if elem_tag x = t then Some x else struct_find t xs)"
  by (simp_all add: struct_find_def)

lemma struct_find_append [simp]:
  "struct_find t (xs @ ys) = (case struct_find t xs of None \<Rightarrow> struct_find t ys | Some x \<Rightarrow> Some x)"
  by (induction xs) simp_all

lemma struct_find_opt_child:
  "(\<And>x. elem_tag (f x) = u) \<Longrightarrow>
     struct_find t (opt_child f m) = (if t = u then map_option f m else None)"
  by (cases m) auto

lemma check_structure_simps [simp]:
  "check_structure t msg None = Inl (kmip_exception msg)"
  "check_structure t msg (Some (make_structure u cs)) =
     (if u = t then Inr (make_structure u cs) else Inl (kmip_exception msg))"
  by (auto simp: check_structure_def)

lemma struct_findAll_simps [simp]:
  "struct_findAll t [] = []"
  "struct_findAll t (x # xs) = (if elem_tag x = t then x # struct_findAll t xs else struct_findAll t xs)"
  "struct_findAll t (xs @ ys) = struct_findAll t xs @ struct_findAll t ys"
  by (simp_all add: struct_findAll_def)

section \<open>Protocol version\<close>

record ProtocolVersion =
  pv_major :: i32
  pv_minor :: i32

definition default_ProtocolVersion :: ProtocolVersion where
  "default_ProtocolVersion = \<lparr>pv_major = 1, pv_minor = 4\<rparr>"

definition KMIP_VERSION_1_4 :: ProtocolVersion where
  "KMIP_VERSION_1_4 = \<lparr>pv_major = 1, pv_minor = 4\<rparr>"

definition KMIP_VERSION_2_0 :: ProtocolVersion where
  "KMIP_VERSION_2_0 = \<lparr>pv_major = 2, pv_minor = 0\<rparr>"

definition is_at_least :: "ProtocolVersion \<Rightarrow> i32 \<Rightarrow> i32 \<Rightarrow> bool" where
  "is_at_least v major minor \<longleftrightarrow>
     sint (pv_major v) > sint major \<or> (pv_major v = major \<and> sint (pv_minor v) \<ge> sint minor)"

definition ProtocolVersion_toElement :: "ProtocolVersion \<Rightarrow> element" where
  "ProtocolVersion_toElement v =
     make_structure KMIP_TAG_PROTOCOL_VERSION
       [createInteger KMIP_TAG_PROTOCOL_VERSION_MAJOR (pv_major v),
        createInteger KMIP_TAG_PROTOCOL_VERSION_MINOR (pv_minor v)]"

text \<open>Reading an optional child into a member: absent keeps the default.\<close>

definition read_or :: "'a \<Rightarrow> (element \<Rightarrow> 'a res) \<Rightarrow> element option \<Rightarrow> 'a res" where
  "read_or dflt f p = (case p of None \<Rightarrow> Inr dflt | Some e \<Rightarrow> f e)"

lemma read_or_simps [simp]: "read_or d f None = Inr d" "read_or d f (Some e) = f e"
  by (simp_all add: read_or_def)

definition ProtocolVersion_fromElement :: "element option \<Rightarrow> ProtocolVersion res" where
  "ProtocolVersion_fromElement p =
     bind_res (check_structure KMIP_TAG_PROTOCOL_VERSION ''Invalid ProtocolVersion element'' p)
       (\<lambda>element.
     bind_res (read_or (pv_major default_ProtocolVersion) toInt
                 (getChild KMIP_TAG_PROTOCOL_VERSION_MAJOR element)) (\<lambda>maj.
     bind_res (read_or (pv_minor default_ProtocolVersion) toInt
                 (getChild KMIP_TAG_PROTOCOL_VERSION_MINOR element)) (\<lambda>min.
     Inr \<lparr>pv_major = maj, pv_minor = min\<rparr>)))"

section \<open>Types allowed by a version\<close>

definition supports_date_time_extended :: "ProtocolVersion \<Rightarrow> bool" where
  "supports_date_time_extended version \<longleftrightarrow> is_at_least version 2 0"

fun validate_element_types_for_version :: "element \<Rightarrow> ProtocolVersion \<Rightarrow> unit res" where
  "validate_element_types_for_version (Element tag type val) version =
     bind_res
       (guard_res (\<not> (type = KMIP_TYPE_DATE_TIME_EXTENDED \<and> \<not> supports_date_time_extended version))
          (kmip_exception ''DateTimeExtended requires KMIP 2.0 or later''))
       (\<lambda>_. case val of
          Structure items \<Rightarrow>
            fold_res (\<lambda>child _. validate_element_types_for_version child version) items ()
        | _ \<Rightarrow> Inr ())"

declare validate_element_types_for_version.simps [simp del]

section \<open>Batch item identifiers\<close>

definition encode_batch_item_id :: "u32 \<Rightarrow> byte list" where
  "encode_batch_item_id item_id =
     [ucast (drop_bit 24 item_id AND 0xFF), ucast (drop_bit 16 item_id AND 0xFF),
      ucast (drop_bit 8 item_id AND 0xFF), ucast (item_id AND 0xFF)]"

definition decode_batch_item_id :: "byte list \<Rightarrow> u32 option" where
  "decode_batch_item_id encoded =
     (if encoded = [] \<or> length encoded > 4 then None
      else Some (fold (\<lambda>byte decoded. push_bit 8 decoded OR ucast byte) encoded 0))"

section \<open>Request header\<close>

record RequestHeader =
  rqh_protocolVersion :: ProtocolVersion
  rqh_batchCount :: i32
  rqh_maximumResponseSize :: "i32 option"
  rqh_timeStamp :: "i64 option"
  rqh_batchOrderOption :: "bool option"
  rqh_userName :: "string option"
  rqh_password :: "string option"

definition default_RequestHeader :: RequestHeader where
  "default_RequestHeader =
     \<lparr>rqh_protocolVersion = default_ProtocolVersion, rqh_batchCount = 0,
      rqh_maximumResponseSize = None, rqh_timeStamp = None, rqh_batchOrderOption = None,
      rqh_userName = None, rqh_password = None\<rparr>"

definition credential_element :: "string option \<Rightarrow> string option \<Rightarrow> element" where
  "credential_element userName password =
     make_structure KMIP_TAG_AUTHENTICATION
       [make_structure KMIP_TAG_CREDENTIAL
          [createEnumeration KMIP_TAG_CREDENTIAL_TYPE KMIP_CRED_USERNAME_AND_PASSWORD,
           make_structure KMIP_TAG_CREDENTIAL_VALUE
             (opt_child (createTextString KMIP_TAG_USERNAME) userName @
              opt_child (createTextString KMIP_TAG_PASSWORD) password)]]"

definition RequestHeader_toElement :: "RequestHeader \<Rightarrow> element" where
  "RequestHeader_toElement rh =
     make_structure KMIP_TAG_REQUEST_HEADER
       ([ProtocolVersion_toElement (rqh_protocolVersion rh)] @
        opt_child (createInteger KMIP_TAG_MAXIMUM_RESPONSE_SIZE) (rqh_maximumResponseSize rh) @
        opt_child (createBoolean KMIP_TAG_BATCH_ORDER_OPTION) (rqh_batchOrderOption rh) @
        opt_child (createDateTime KMIP_TAG_TIME_STAMP) (rqh_timeStamp rh) @
        (if rqh_userName rh \<noteq> None \<or> rqh_password rh \<noteq> None
         then [credential_element (rqh_userName rh) (rqh_password rh)] else []) @
        [createInteger KMIP_TAG_BATCH_COUNT (rqh_batchCount rh)])"

text \<open>The authentication part of \<open>fromElement\<close>: user name and password of the credential.\<close>

definition read_authentication :: "element option \<Rightarrow> (string option \<times> string option) res" where
  "read_authentication p =
     (case p of
        None \<Rightarrow> Inr (None, None)
      | Some authentication \<Rightarrow>
          (case getChild KMIP_TAG_CREDENTIAL authentication of
             None \<Rightarrow> Inl (kmip_exception ''Missing Credential in Authentication'')
           | Some credential \<Rightarrow>
               (case (getChild KMIP_TAG_CREDENTIAL_TYPE credential,
                      getChild KMIP_TAG_CREDENTIAL_VALUE credential) of
                  (Some credentialType, Some credentialValue) \<Rightarrow>
                    bind_res (toEnum credentialType) (\<lambda>ty.
                    if ty = KMIP_CRED_USERNAME_AND_PASSWORD then
                      bind_res (opt_res toString (getChild KMIP_TAG_USERNAME credentialValue)) (\<lambda>userName.
                      bind_res (opt_res toString (getChild KMIP_TAG_PASSWORD credentialValue)) (\<lambda>password.
                      Inr (userName, password)))
                    else Inr (None, None))
                | _ \<Rightarrow> Inl (kmip_exception ''Invalid Credential in Authentication''))))"

definition RequestHeader_fromElement :: "element option \<Rightarrow> RequestHeader res" where
  "RequestHeader_fromElement p =
     bind_res (check_structure KMIP_TAG_REQUEST_HEADER ''Invalid RequestHeader element'' p)
       (\<lambda>element.
     bind_res (case getChild KMIP_TAG_PROTOCOL_VERSION element of
          Some pv \<Rightarrow> ProtocolVersion_fromElement (Some pv)
        | None \<Rightarrow> Inl (kmip_exception ''Missing ProtocolVersion in header'')) (\<lambda>version.
     bind_res (opt_res toInt (getChild KMIP_TAG_MAXIMUM_RESPONSE_SIZE element)) (\<lambda>maxResponseSize.
     bind_res (opt_res toLong (getChild KMIP_TAG_TIME_STAMP element)) (\<lambda>timeStamp.
     bind_res (opt_res toBool (getChild KMIP_TAG_BATCH_ORDER_OPTION element)) (\<lambda>batchOrderOption.
     bind_res (read_authentication (getChild KMIP_TAG_AUTHENTICATION element)) (\<lambda>(userName, password).
     bind_res (read_or (rqh_batchCount default_RequestHeader) toInt
                 (getChild KMIP_TAG_BATCH_COUNT element)) (\<lambda>bc.
     Inr \<lparr>rqh_protocolVersion = version, rqh_batchCount = bc,
          rqh_maximumResponseSize = maxResponseSize, rqh_timeStamp = timeStamp,
          rqh_batchOrderOption = batchOrderOption, rqh_userName = userName,
          rqh_password = password\<rparr>)))))))"

section \<open>Request batch item\<close>

record RequestBatchItem =
  rqb_uniqueBatchItemId :: u32
  rqb_operation :: i32
  rqb_requestPayload :: "element option"

definition RequestBatchItem_toElement :: "RequestBatchItem \<Rightarrow> element" where
  "RequestBatchItem_toElement rbi =
     make_structure KMIP_TAG_BATCH_ITEM
       ([createEnumeration KMIP_TAG_OPERATION (rqb_operation rbi)] @
        (if rqb_uniqueBatchItemId rbi \<noteq> 0
         then [createByteString KMIP_TAG_UNIQUE_BATCH_ITEM_ID
                 (encode_batch_item_id (rqb_uniqueBatchItemId rbi))] else []) @
        opt_child (\<lambda>payload. payload) (rqb_requestPayload rbi))"

text \<open>The identifier of a batch item: absent or undecodable leaves the default 0.\<close>

definition read_batch_item_id :: "element option \<Rightarrow> u32 res" where
  "read_batch_item_id p =
     read_or 0 (\<lambda>id. bind_res (toBytes id) (\<lambda>bytes.
       Inr (case decode_batch_item_id bytes of Some decoded_id \<Rightarrow> decoded_id | None \<Rightarrow> 0))) p"

definition RequestBatchItem_fromElement :: "element option \<Rightarrow> RequestBatchItem res" where
  "RequestBatchItem_fromElement p =
     bind_res (check_structure KMIP_TAG_BATCH_ITEM ''Invalid RequestBatchItem element'' p)
       (\<lambda>element.
     bind_res (case getChild KMIP_TAG_OPERATION element of
          Some op \<Rightarrow> toEnum op
        | None \<Rightarrow> Inl (kmip_exception ''Missing Operation'')) (\<lambda>operation.
     bind_res (read_batch_item_id (getChild KMIP_TAG_UNIQUE_BATCH_ITEM_ID element)) (\<lambda>id.
     Inr \<lparr>rqb_uniqueBatchItemId = id, rqb_operation = operation,
          rqb_requestPayload = getChild KMIP_TAG_REQUEST_PAYLOAD element\<rparr>)))"

section \<open>Request message\<close>

record RequestMessage =
  rqm_header :: RequestHeader
  rqm_batchItems :: "RequestBatchItem list"
  rqm_nextBatchItemId :: u32

definition DEFAULT_MAX_RESPONSE_SIZE :: nat where
  [kmip_consts]: "DEFAULT_MAX_RESPONSE_SIZE = KMIP_MAX_MESSAGE_SIZE"

definition setMaxResponseSize :: "nat \<Rightarrow> RequestMessage \<Rightarrow> RequestMessage res" where
  "setMaxResponseSize sz rm =
     (if sz > int32_max then
        Inl (kmip_exception (''setMaxResponseSize: size_t value '' @ nat_to_string sz @
          '' exceeds int32_t maximum ('' @ nat_to_string int32_max @ '')''))
      else Inr (rm\<lparr>rqm_header := (rqm_header rm)
        \<lparr>rqh_maximumResponseSize := Some (word_of_nat sz)\<rparr>\<rparr>))"

definition new_RequestMessage :: "ProtocolVersion \<Rightarrow> nat \<Rightarrow> RequestMessage res" where
  "new_RequestMessage version maxResponseSize =
     setMaxResponseSize maxResponseSize
       \<lparr>rqm_header = default_RequestHeader\<lparr>rqh_protocolVersion := version\<rparr>,
        rqm_batchItems = [], rqm_nextBatchItemId = 1\<rparr>"

definition add_batch_item :: "RequestBatchItem \<Rightarrow> RequestMessage \<Rightarrow> u32 \<times> RequestMessage" where
  "add_batch_item item rm =
     (let id = rqm_nextBatchItemId rm in
      (id, rm\<lparr>rqm_nextBatchItemId := id + 1,
              rqm_batchItems := rqm_batchItems rm @ [item\<lparr>rqb_uniqueBatchItemId := id\<rparr>]\<rparr>))"

definition clearBatchItems :: "RequestMessage \<Rightarrow> RequestMessage" where
  "clearBatchItems rm = rm\<lparr>rqm_batchItems := [], rqm_nextBatchItemId := 1\<rparr>"

definition setBatchItems :: "RequestBatchItem list \<Rightarrow> RequestMessage \<Rightarrow> RequestMessage" where
  "setBatchItems items rm =
     fold (\<lambda>item rm. snd (add_batch_item item rm)) items (clearBatchItems rm)"

definition getMaxResponseSize :: "RequestMessage \<Rightarrow> nat" where
  "getMaxResponseSize rm =
     (case rqh_maximumResponseSize (rqm_header rm) of
        Some maxResponseSize \<Rightarrow> unat (scast maxResponseSize :: 64 word)
      | None \<Rightarrow> DEFAULT_MAX_RESPONSE_SIZE)"

definition RequestMessage_toElement :: "RequestMessage \<Rightarrow> element res" where
  "RequestMessage_toElement rm =
     (let structure = make_structure KMIP_TAG_REQUEST_MESSAGE
        (RequestHeader_toElement (rqm_header rm) #
         map RequestBatchItem_toElement (rqm_batchItems rm)) in
      bind_res (validate_element_types_for_version structure (rqh_protocolVersion (rqm_header rm)))
        (\<lambda>_. Inr structure))"

text \<open>The header that \<open>serialize\<close> sends: batch count, order option and time stamp are set on a
  copy of the message.  The current time is an argument.\<close>

definition prepare_request :: "i64 \<Rightarrow> RequestMessage \<Rightarrow> RequestMessage" where
  "prepare_request now rm =
     (let n = length (rqm_batchItems rm);
          header = (rqm_header rm)\<lparr>rqh_batchCount := word_of_nat n\<rparr>;
          header = (if n > 1 \<and> rqh_batchOrderOption header = None
                    then header\<lparr>rqh_batchOrderOption := Some True\<rparr> else header) in
      rm\<lparr>rqm_header := header\<lparr>rqh_timeStamp := Some now\<rparr>\<rparr>)"

definition RequestMessage_serialize :: "platform \<Rightarrow> i64 \<Rightarrow> RequestMessage \<Rightarrow> byte list res" where
  "RequestMessage_serialize pl now rm =
     (if rqm_batchItems rm = [] then
        Inl (kmip_exception ''Cannot serialize RequestMessage with no batch items'')
      else
        bind_res (RequestMessage_toElement (prepare_request now rm)) (\<lambda>element.
        bind_res (serialize pl element (new_buffer DEFAULT_CAPACITY)) (\<lambda>buf.
        bind_res (release buf) (\<lambda>(bytes, _). Inr bytes))))"

text \<open>The structure behind a message element, and the items of a batch.\<close>

definition message_items :: "string \<Rightarrow> element \<Rightarrow> element list res" where
  "message_items msg element =
     (case asStructure element of Some items \<Rightarrow> Inr items | None \<Rightarrow> Inl (kmip_exception msg))"

definition RequestMessage_fromElement :: "element option \<Rightarrow> RequestMessage res" where
  "RequestMessage_fromElement p =
     bind_res (check_structure KMIP_TAG_REQUEST_MESSAGE ''Invalid RequestMessage element'' p)
       (\<lambda>element.
     bind_res (message_items ''RequestMessage element does not hold a Structure'' element) (\<lambda>items.
     bind_res (case getChild KMIP_TAG_REQUEST_HEADER element of
          Some hdr \<Rightarrow> RequestHeader_fromElement (Some hdr)
        | None \<Rightarrow> Inl (kmip_exception ''Missing Request Header'')) (\<lambda>header.
     bind_res (validate_element_types_for_version element (rqh_protocolVersion header)) (\<lambda>_.
     bind_res (map_res (\<lambda>child. RequestBatchItem_fromElement (Some child))
                 (filter (\<lambda>child. elem_tag child = KMIP_TAG_BATCH_ITEM) items)) (\<lambda>batchItems.
     if rqh_batchCount header \<noteq> word_of_nat (length batchItems) then
       Inl (kmip_exception ''Request Header Batch Count does not match number of Batch Items'')
     else
       Inr \<lparr>rqm_header = header, rqm_batchItems = batchItems,
            rqm_nextBatchItemId = word_of_nat (length batchItems + 1)\<rparr>)))))"

section \<open>Response header, batch item and message\<close>

record ResponseHeader =
  rsh_protocolVersion :: ProtocolVersion
  rsh_timeStamp :: i64
  rsh_batchCount :: i32

definition default_ResponseHeader :: ResponseHeader where
  "default_ResponseHeader =
     \<lparr>rsh_protocolVersion = default_ProtocolVersion, rsh_timeStamp = 0, rsh_batchCount = 0\<rparr>"

definition ResponseHeader_toElement :: "ResponseHeader \<Rightarrow> element" where
  "ResponseHeader_toElement rh =
     make_structure KMIP_TAG_RESPONSE_HEADER
       [ProtocolVersion_toElement (rsh_protocolVersion rh),
        createDateTime KMIP_TAG_TIME_STAMP (rsh_timeStamp rh),
        createInteger KMIP_TAG_BATCH_COUNT (rsh_batchCount rh)]"

definition ResponseHeader_fromElement :: "element option \<Rightarrow> ResponseHeader res" where
  "ResponseHeader_fromElement p =
     bind_res (check_structure KMIP_TAG_RESPONSE_HEADER ''Invalid ResponseHeader element'' p)
       (\<lambda>element.
     bind_res (case getChild KMIP_TAG_PROTOCOL_VERSION element of
          Some pv \<Rightarrow> ProtocolVersion_fromElement (Some pv)
        | None \<Rightarrow> Inl (kmip_exception ''Missing ProtocolVersion'')) (\<lambda>version.
     bind_res (read_or (rsh_timeStamp default_ResponseHeader) toLong
                 (getChild KMIP_TAG_TIME_STAMP element)) (\<lambda>ts.
     bind_res (read_or (rsh_batchCount default_ResponseHeader) toInt
                 (getChild KMIP_TAG_BATCH_COUNT element)) (\<lambda>bc.
     Inr \<lparr>rsh_protocolVersion = version, rsh_timeStamp = ts, rsh_batchCount = bc\<rparr>))))"

record ResponseBatchItem =
  rsb_uniqueBatchItemId :: u32
  rsb_operation :: i32
  rsb_resultStatus :: i32
  rsb_resultReason :: "i32 option"
  rsb_resultMessage :: "string option"
  rsb_responsePayload :: "element option"

definition ResponseBatchItem_toElement :: "ResponseBatchItem \<Rightarrow> element" where
  "ResponseBatchItem_toElement rbi =
     make_structure KMIP_TAG_BATCH_ITEM
       ([createEnumeration KMIP_TAG_OPERATION (rsb_operation rbi)] @
        (if rsb_uniqueBatchItemId rbi \<noteq> 0
         then [createByteString KMIP_TAG_UNIQUE_BATCH_ITEM_ID
                 (encode_batch_item_id (rsb_uniqueBatchItemId rbi))] else []) @
        [createEnumeration KMIP_TAG_RESULT_STATUS (rsb_resultStatus rbi)] @
        opt_child (createEnumeration KMIP_TAG_RESULT_REASON) (rsb_resultReason rbi) @
        opt_child (createTextString KMIP_TAG_RESULT_MESSAGE) (rsb_resultMessage rbi) @
        opt_child (\<lambda>payload. payload) (rsb_responsePayload rbi))"

definition ResponseBatchItem_fromElement :: "element option \<Rightarrow> ResponseBatchItem res" where
  "ResponseBatchItem_fromElement p =
     bind_res (check_structure KMIP_TAG_BATCH_ITEM ''Invalid ResponseBatchItem element'' p)
       (\<lambda>element.
     bind_res (read_or 0 toEnum (getChild KMIP_TAG_OPERATION element)) (\<lambda>operation.
     bind_res (read_batch_item_id (getChild KMIP_TAG_UNIQUE_BATCH_ITEM_ID element)) (\<lambda>id.
     bind_res (case getChild KMIP_TAG_RESULT_STATUS element of
          Some status \<Rightarrow> toEnum status
        | None \<Rightarrow> Inl (kmip_exception ''Missing Result Status'')) (\<lambda>resultStatus.
     bind_res (opt_res toEnum (getChild KMIP_TAG_RESULT_REASON element)) (\<lambda>resultReason.
     if resultStatus = KMIP_STATUS_OPERATION_FAILED \<and> resultReason = None then
       Inl (kmip_exception ''Missing Result Reason for failed response batch item'')
     else
       bind_res (opt_res toString (getChild KMIP_TAG_RESULT_MESSAGE element)) (\<lambda>resultMessage.
       Inr \<lparr>rsb_uniqueBatchItemId = id, rsb_operation = operation,
            rsb_resultStatus = resultStatus, rsb_resultReason = resultReason,
            rsb_resultMessage = resultMessage,
            rsb_responsePayload = getChild KMIP_TAG_RESPONSE_PAYLOAD element\<rparr>))))))"

record ResponseMessage =
  rsm_header :: ResponseHeader
  rsm_batchItems :: "ResponseBatchItem list"

definition ResponseMessage_toElement :: "ResponseMessage \<Rightarrow> element res" where
  "ResponseMessage_toElement rm =
     (let structure = make_structure KMIP_TAG_RESPONSE_MESSAGE
        (ResponseHeader_toElement (rsm_header rm) #
         map ResponseBatchItem_toElement (rsm_batchItems rm)) in
      bind_res (validate_element_types_for_version structure (rsh_protocolVersion (rsm_header rm)))
        (\<lambda>_. Inr structure))"

definition ResponseMessage_fromElement :: "element option \<Rightarrow> ResponseMessage res" where
  "ResponseMessage_fromElement p =
     bind_res (check_structure KMIP_TAG_RESPONSE_MESSAGE ''Invalid ResponseMessage element'' p)
       (\<lambda>element.
     bind_res (message_items ''ResponseMessage element does not hold a Structure'' element) (\<lambda>items.
     bind_res (case getChild KMIP_TAG_RESPONSE_HEADER element of
          Some hdr \<Rightarrow> ResponseHeader_fromElement (Some hdr)
        | None \<Rightarrow> Inl (kmip_exception ''Missing Response Header'')) (\<lambda>header.
     bind_res (validate_element_types_for_version element (rsh_protocolVersion header)) (\<lambda>_.
     bind_res (map_res (\<lambda>child. ResponseBatchItem_fromElement (Some child))
                 (filter (\<lambda>child. elem_tag child = KMIP_TAG_BATCH_ITEM) items)) (\<lambda>batchItems.
     if sint (word_of_nat (length batchItems) :: i32) > sint (rsh_batchCount header) then
       Inl (kmip_exception ''Response Header Batch Count does not match number of Batch Items'')
     else Inr \<lparr>rsm_header = header, rsm_batchItems = batchItems\<rparr>)))))"

section \<open>Codec contracts\<close>

text \<open>A class with \<open>toElement\<close> and \<open>fromElement\<close>.  \<open>valid\<close> says which objects survive the
  trip.\<close>

locale wire_codec =
  fixes to_element :: "'a \<Rightarrow> element res"
    and from_element :: "element \<Rightarrow> 'a res"
    and valid :: "'a \<Rightarrow> bool"
  assumes from_to: "valid x \<Longrightarrow> to_element x = Inr e \<Longrightarrow> from_element e = Inr x"
    and to_ok: "valid x \<Longrightarrow> \<exists>e. to_element x = Inr e"
begin

lemma to_inject:
  assumes "valid x" "valid y" "to_element x = to_element y"
  shows "x = y"
proof -
  obtain e where e: "to_element x = Inr e" using to_ok assms(1) by blast
  have "Inr x = from_element e" using from_to [OF assms(1) e] by simp
  also have "\<dots> = Inr y" using from_to [OF assms(2)] assms(3) e by simp
  finally show ?thesis by simp
qed

lemma from_to_bind: "valid x \<Longrightarrow> bind_res (to_element x) (\<lambda>e. from_element e) = Inr x"
  using to_ok [of x] from_to [of x] by auto

lemma from_to_list:
  "list_all valid xs \<Longrightarrow>
     bind_res (map_res to_element xs) (map_res from_element) = Inr xs"
proof (induction xs)
  case (Cons x xs)
  then obtain e where e: "to_element x = Inr e" "from_element e = Inr x"
    using to_ok [of x] from_to [of x] by auto
  obtain es where es: "map_res to_element xs = Inr es"
    using Cons by (auto simp: bind_res_Inr_iff)
  with Cons e show ?case by simp
qed simp

end

text \<open>A codec whose elements the wire format can carry: the round trip through bytes.\<close>

locale wire_message = wire_codec +
  assumes element_wf: "valid x \<Longrightarrow> to_element x = Inr e \<Longrightarrow> ttlv_wf e \<and> height e \<le> 65"
begin

lemma bytes_round_trip:
  assumes "valid x" "to_element x = Inr e"
    and "hardened pl \<longrightarrow> no_trailing_empty_text e \<and> \<not> empty_text e"
  shows "bind_res (deserialize pl (encode e) 0) (\<lambda>(e, _). from_element e) = Inr x"
proof -
  have "deserialize pl (encode e) 0 = Inr (e, length (encode e))"
    using deserialize_complete [of 0 "encode e" e "[]" 0 pl] element_wf [OF assms(1,2)] assms(3)
    by (simp add: deserialize_def)
  then show ?thesis using from_to [OF assms(1,2)] by simp
qed

text \<open>Two valid objects with the same bytes are equal.\<close>

lemma bytes_inject:
  assumes "valid x" "valid y" "to_element x = Inr e" "to_element y = Inr f" "encode e = encode f"
  shows "x = y"
proof -
  have "e = f"
    using element_wf [OF assms(1,3)] element_wf [OF assms(2,4)] assms(5)
    by (intro encode_inject) simp_all
  then show ?thesis using assms(3,4) by (intro to_inject [OF assms(1,2)]) simp
qed

end

section \<open>Shape of elements\<close>

text \<open>Tags and types are right throughout; with a bounded total length the element is then well
  formed.\<close>

fun ttlv_shape :: "element \<Rightarrow> bool" where
  "ttlv_shape (Element tag type val) \<longleftrightarrow>
     tag < 2 ^ 24 \<and> type = type_of_value val \<and>
     (case val of Structure items \<Rightarrow> list_all ttlv_shape items | _ \<Rightarrow> True)"

declare ttlv_shape.simps [simp del]

lemma length_encode_child: "x \<in> set xs \<Longrightarrow> length (encode x) \<le> length (concat (map encode xs))"
  by (induction xs) auto

lemma ttlv_wf_shape: "ttlv_shape e \<Longrightarrow> length (encode e) < 2 ^ 32 \<Longrightarrow> ttlv_wf e"
proof (induction e rule: measure_induct_rule [of size])
  case (less e)
  obtain tag type val where e: "e = Element tag type val" by (cases e)
  have len: "length (content val) < 2 ^ 32"
    using less.prems(2) by (simp add: e length_encode)
  have "ttlv_wf x" if "val = Structure items" "x \<in> set items" for items x
  proof (rule less.IH)
    show "size x < size e"
      using size_list_estimation' [OF that(2), of "size x" size] by (simp add: e that(1))
    show "ttlv_shape x"
      using less.prems(1) that by (simp add: e ttlv_shape.simps list_all_iff)
    show "length (encode x) < 2 ^ 32"
      using length_encode_child [OF that(2)] len that(1) by simp
  qed
  then show ?case
    using less.prems(1) len
    by (cases val) (auto simp: e ttlv_shape.simps ttlv_wf.simps list_all_iff)
qed

lemma vectors_fit_length: "length (encode e) < 2 ^ 62 \<Longrightarrow> vectors_fit e"
proof (induction e rule: measure_induct_rule [of size])
  case (less e)
  obtain tag type val where e: "e = Element tag type val" by (cases e)
  have len: "length (content val) < 2 ^ 62" using less.prems by (simp add: e length_encode)
  have "vectors_fit x" if "val = Structure items" "x \<in> set items" for items x
  proof (rule less.IH)
    show "size x < size e"
      using size_list_estimation' [OF that(2), of "size x" size] by (simp add: e that(1))
    show "length (encode x) < 2 ^ 62"
      using length_encode_child [OF that(2)] len that(1) by simp
  qed
  then show ?case using len by (cases val) (auto simp: e vectors_fit.simps list_all_iff)
qed

lemma shape_create [simp]:
  "ttlv_shape (createInteger t i) \<longleftrightarrow> t < 2 ^ 24" "ttlv_shape (createLongInteger t l) \<longleftrightarrow> t < 2 ^ 24"
  "ttlv_shape (createBoolean t b) \<longleftrightarrow> t < 2 ^ 24" "ttlv_shape (createEnumeration t i) \<longleftrightarrow> t < 2 ^ 24"
  "ttlv_shape (createTextString t s) \<longleftrightarrow> t < 2 ^ 24" "ttlv_shape (createByteString t bs) \<longleftrightarrow> t < 2 ^ 24"
  "ttlv_shape (createBigInteger t bs) \<longleftrightarrow> t < 2 ^ 24" "ttlv_shape (createDateTime t l) \<longleftrightarrow> t < 2 ^ 24"
  "ttlv_shape (createInterval t i) \<longleftrightarrow> t < 2 ^ 24"
  "ttlv_shape (createDateTimeExtended t l) \<longleftrightarrow> t < 2 ^ 24"
  "ttlv_shape (make_structure t cs) \<longleftrightarrow> t < 2 ^ 24 \<and> list_all ttlv_shape cs"
  by (simp_all add: create_defs make_structure_eq ttlv_shape.simps)

lemma height_create [simp]:
  "height (createInteger t i) = 1" "height (createLongInteger t l) = 1"
  "height (createBoolean t b) = 1" "height (createEnumeration t i) = 1"
  "height (createTextString t s) = 1" "height (createByteString t bs) = 1"
  "height (createBigInteger t bs) = 1" "height (createDateTime t l) = 1"
  "height (createInterval t i) = 1" "height (createDateTimeExtended t l) = 1"
  by (simp_all add: create_defs height.simps)

lemma height_make_structure_le:
  "height (make_structure t cs) \<le> Suc n \<longleftrightarrow> (\<forall>x\<in>set cs. height x \<le> n)"
  by (simp add: make_structure_eq height_Structure_le_iff)

lemma in_opt_child [simp]: "x \<in> set (opt_child f m) \<longleftrightarrow> (\<exists>y. m = Some y \<and> x = f y)"
  by (cases m) auto

lemma list_all_opt_child [simp]: "list_all P (opt_child f m) \<longleftrightarrow> (\<forall>y. m = Some y \<longrightarrow> P (f y))"
  by (cases m) auto

section \<open>Codecs of the protocol classes\<close>

lemma decode_encode_batch_item_id [simp]:
  "decode_batch_item_id (encode_batch_item_id n) = Some n"
proof -
  have "fold (\<lambda>byte decoded. push_bit 8 decoded OR ucast byte) [a, b, c, d] (0 :: u32) =
      be_word32 a b c d" for a b c d
    by (simp add: be_word32_def push_bit_or push_bit_push_bit or.assoc)
  then show ?thesis
    by (simp add: decode_batch_item_id_def encode_batch_item_id_def ucast_and_FF)
qed

interpretation version_codec: wire_codec
  "\<lambda>v. Inr (ProtocolVersion_toElement v)" "\<lambda>e. ProtocolVersion_fromElement (Some e)" "\<lambda>_. True"
  by unfold_locales
     (auto simp: ProtocolVersion_toElement_def ProtocolVersion_fromElement_def kmip_consts)

lemmas version_from_to [simp] = version_codec.from_to [OF TrueI refl]

lemma ProtocolVersion_tag [simp]:
  "elem_tag (ProtocolVersion_toElement v) = KMIP_TAG_PROTOCOL_VERSION"
  by (simp add: ProtocolVersion_toElement_def)

lemma read_authentication_credential:
  "read_authentication (Some (credential_element u p)) = Inr (u, p)"
  by (cases u; cases p)
     (simp_all add: read_authentication_def credential_element_def struct_find_opt_child kmip_consts)

lemma read_authentication_None: "read_authentication None = Inr (None, None)"
  by (simp add: read_authentication_def)

lemma RequestHeader_from_to: "RequestHeader_fromElement (Some (RequestHeader_toElement rh)) = Inr rh"
proof -
  have tag: "elem_tag (credential_element u p) = KMIP_TAG_AUTHENTICATION" for u p
    by (simp add: credential_element_def)
  note find = struct_find_opt_child [where f = "createInteger t" for t, OF create_fields(2)]
    struct_find_opt_child [where f = "createBoolean t" for t, OF create_fields(4)]
    struct_find_opt_child [where f = "createDateTime t" for t, OF create_fields(8)]
  show ?thesis
    unfolding RequestHeader_toElement_def RequestHeader_fromElement_def
    by (cases "rqh_maximumResponseSize rh"; cases "rqh_batchOrderOption rh"; cases "rqh_timeStamp rh";
        cases "rqh_userName rh"; cases "rqh_password rh")
       (simp_all add: find tag read_authentication_credential read_authentication_None kmip_consts)
qed

interpretation request_header_codec: wire_codec
  "\<lambda>rh. Inr (RequestHeader_toElement rh)" "\<lambda>e. RequestHeader_fromElement (Some e)" "\<lambda>_. True"
  by unfold_locales (auto simp: RequestHeader_from_to)

definition payload_tagged :: "u32 \<Rightarrow> element option \<Rightarrow> bool" where
  "payload_tagged tag p \<longleftrightarrow> (\<forall>e. p = Some e \<longrightarrow> elem_tag e = tag)"

text \<open>A request item is valid when its payload carries the payload tag, by which it is found
  again.\<close>

definition request_item_valid :: "RequestBatchItem \<Rightarrow> bool" where
  "request_item_valid rbi \<longleftrightarrow> payload_tagged KMIP_TAG_REQUEST_PAYLOAD (rqb_requestPayload rbi)"

lemma read_batch_item_id_simps [simp]:
  "read_batch_item_id None = Inr 0"
  "read_batch_item_id (Some (createByteString t (encode_batch_item_id n))) = Inr n"
  by (simp_all add: read_batch_item_id_def)

lemma RequestBatchItem_from_to:
  assumes "request_item_valid rbi"
  shows "RequestBatchItem_fromElement (Some (RequestBatchItem_toElement rbi)) = Inr rbi"
  using assms
  by (cases "rqb_requestPayload rbi"; cases "rqb_uniqueBatchItemId rbi = 0")
     (simp_all add: request_item_valid_def payload_tagged_def RequestBatchItem_toElement_def
        RequestBatchItem_fromElement_def kmip_consts)

interpretation request_item_codec: wire_codec
  "\<lambda>rbi. Inr (RequestBatchItem_toElement rbi)" "\<lambda>e. RequestBatchItem_fromElement (Some e)" request_item_valid
  by unfold_locales (auto simp: RequestBatchItem_from_to)

interpretation response_header_codec: wire_codec
  "\<lambda>rh. Inr (ResponseHeader_toElement rh)" "\<lambda>e. ResponseHeader_fromElement (Some e)" "\<lambda>_. True"
  by unfold_locales
     (auto simp: ResponseHeader_toElement_def ResponseHeader_fromElement_def kmip_consts)

text \<open>A response item is valid when its payload carries the payload tag and a failure has a
  reason.\<close>

definition response_item_valid :: "ResponseBatchItem \<Rightarrow> bool" where
  "response_item_valid rbi \<longleftrightarrow>
     payload_tagged KMIP_TAG_RESPONSE_PAYLOAD (rsb_responsePayload rbi) \<and>
     (rsb_resultStatus rbi = KMIP_STATUS_OPERATION_FAILED \<longrightarrow> rsb_resultReason rbi \<noteq> None)"

lemma ResponseBatchItem_from_to:
  assumes "response_item_valid rbi"
  shows "ResponseBatchItem_fromElement (Some (ResponseBatchItem_toElement rbi)) = Inr rbi"
  using assms
  by (cases "rsb_responsePayload rbi"; cases "rsb_uniqueBatchItemId rbi = 0";
      cases "rsb_resultReason rbi"; cases "rsb_resultMessage rbi")
     (simp_all add: response_item_valid_def payload_tagged_def ResponseBatchItem_toElement_def
        ResponseBatchItem_fromElement_def kmip_consts)

interpretation response_item_codec: wire_codec
  "\<lambda>rbi. Inr (ResponseBatchItem_toElement rbi)" "\<lambda>e. ResponseBatchItem_fromElement (Some e)" response_item_valid
  by unfold_locales (auto simp: ResponseBatchItem_from_to)

section \<open>Messages\<close>

text \<open>The version check as a predicate on the tree.\<close>

fun allowed_types :: "ProtocolVersion \<Rightarrow> element \<Rightarrow> bool" where
  "allowed_types version (Element tag type val) \<longleftrightarrow>
     (type = KMIP_TYPE_DATE_TIME_EXTENDED \<longrightarrow> supports_date_time_extended version) \<and>
     (case val of Structure items \<Rightarrow> list_all (allowed_types version) items | _ \<Rightarrow> True)"

declare allowed_types.simps [simp del]

lemma fold_res_unit_iff:
  "fold_res (\<lambda>x _. f x) xs () = Inr () \<longleftrightarrow> (\<forall>x\<in>set xs. f x = Inr ())"
  by (induction xs) (auto simp: bind_res_Inr_iff)

lemma validate_iff:
  "validate_element_types_for_version e v = Inr () \<longleftrightarrow> allowed_types v e"
proof (induction e rule: measure_induct_rule [of size])
  case (less e)
  obtain tag type val where e: "e = Element tag type val" by (cases e)
  have "size x < size e" if "val = Structure items" "x \<in> set items" for items x
    using size_list_estimation' [OF that(2), of "size x" size] by (simp add: e that(1))
  with less.IH show ?case
    by (cases val)
       (auto simp: e validate_element_types_for_version.simps allowed_types.simps bind_res_Inr_iff
          guard_res_Inr_iff fold_res_unit_iff list_all_iff)
qed

lemma validate_Inl:
  "validate_element_types_for_version e v = Inl err \<Longrightarrow>
     err = kmip_exception ''DateTimeExtended requires KMIP 2.0 or later''"
proof (induction e rule: measure_induct_rule [of size])
  case (less e)
  obtain tag type val where e: "e = Element tag type val" by (cases e)
  have sz: "size x < size e" if "val = Structure items" "x \<in> set items" for items x
    using size_list_estimation' [OF that(2), of "size x" size] by (simp add: e that(1))
  have "fold_res (\<lambda>x _. validate_element_types_for_version x v) xs () = Inl err \<Longrightarrow>
      \<exists>x\<in>set xs. validate_element_types_for_version x v = Inl err" for xs
    by (induction xs) (auto simp: bind_res_Inl_iff)
  with less sz show ?case
    by (cases val)
       (fastforce simp: e validate_element_types_for_version.simps bind_res_Inl_iff
          guard_res_Inl_iff split: if_splits)+
qed

lemma allowed_create [simp]:
  "allowed_types v (createInteger t i)" "allowed_types v (createBoolean t b)"
  "allowed_types v (createEnumeration t i)" "allowed_types v (createTextString t s)"
  "allowed_types v (createByteString t bs)" "allowed_types v (createDateTime t l)"
  "allowed_types v (make_structure t cs) \<longleftrightarrow> list_all (allowed_types v) cs"
  by (simp_all add: create_defs make_structure_eq allowed_types.simps kmip_consts)

lemma header_allowed [simp]:
  "allowed_types v (ProtocolVersion_toElement pv)" "allowed_types v (RequestHeader_toElement rh)"
  "allowed_types v (ResponseHeader_toElement sh)"
  by (auto simp: ProtocolVersion_toElement_def RequestHeader_toElement_def
      ResponseHeader_toElement_def credential_element_def)

lemma item_tag [simp]:
  "elem_tag (RequestBatchItem_toElement rbi) = KMIP_TAG_BATCH_ITEM"
  "elem_tag (ResponseBatchItem_toElement sbi) = KMIP_TAG_BATCH_ITEM"
  "elem_tag (RequestHeader_toElement rh) = KMIP_TAG_REQUEST_HEADER"
  "elem_tag (ResponseHeader_toElement sh) = KMIP_TAG_RESPONSE_HEADER"
  by (simp_all add: RequestBatchItem_toElement_def ResponseBatchItem_toElement_def
      RequestHeader_toElement_def ResponseHeader_toElement_def)

lemma item_allowed:
  "allowed_types v (RequestBatchItem_toElement rbi) \<longleftrightarrow>
     (\<forall>e. rqb_requestPayload rbi = Some e \<longrightarrow> allowed_types v e)"
  "allowed_types v (ResponseBatchItem_toElement sbi) \<longleftrightarrow>
     (\<forall>e. rsb_responsePayload sbi = Some e \<longrightarrow> allowed_types v e)"
  by (auto simp: RequestBatchItem_toElement_def ResponseBatchItem_toElement_def)

text \<open>A request message that survives the trip: its batch count is the number of items, the next
  identifier is the one after the last item, and no payload uses a type its version forbids.\<close>

definition request_message_valid :: "RequestMessage \<Rightarrow> bool" where
  "request_message_valid rm \<longleftrightarrow>
     list_all request_item_valid (rqm_batchItems rm) \<and>
     rqh_batchCount (rqm_header rm) = word_of_nat (length (rqm_batchItems rm)) \<and>
     rqm_nextBatchItemId rm = word_of_nat (length (rqm_batchItems rm) + 1) \<and>
     list_all (\<lambda>i. \<forall>e. rqb_requestPayload i = Some e \<longrightarrow>
        allowed_types (rqh_protocolVersion (rqm_header rm)) e) (rqm_batchItems rm)"

definition request_element :: "RequestMessage \<Rightarrow> element" where
  "request_element rm =
     make_structure KMIP_TAG_REQUEST_MESSAGE
       (RequestHeader_toElement (rqm_header rm) #
        map RequestBatchItem_toElement (rqm_batchItems rm))"

lemma filter_items:
  "filter (\<lambda>c. elem_tag c = KMIP_TAG_BATCH_ITEM) (map RequestBatchItem_toElement xs) =
     map RequestBatchItem_toElement xs"
  "filter (\<lambda>c. elem_tag c = KMIP_TAG_BATCH_ITEM) (map ResponseBatchItem_toElement ys) =
     map ResponseBatchItem_toElement ys"
  by (simp_all add: filter_map comp_def)

lemma RequestMessage_toElement_eq:
  "RequestMessage_toElement rm =
     (if list_all (\<lambda>i. \<forall>e. rqb_requestPayload i = Some e \<longrightarrow>
           allowed_types (rqh_protocolVersion (rqm_header rm)) e) (rqm_batchItems rm)
      then Inr (request_element rm)
      else Inl (kmip_exception ''DateTimeExtended requires KMIP 2.0 or later''))"
proof -
  let ?v = "validate_element_types_for_version (request_element rm) (rqh_protocolVersion (rqm_header rm))"
  have iff: "?v = Inr () \<longleftrightarrow> list_all (\<lambda>i. \<forall>e. rqb_requestPayload i = Some e \<longrightarrow>
      allowed_types (rqh_protocolVersion (rqm_header rm)) e) (rqm_batchItems rm)"
    by (simp add: validate_iff request_element_def list_all_iff item_allowed)
  have "RequestMessage_toElement rm = bind_res ?v (\<lambda>_. Inr (request_element rm))"
    by (simp add: RequestMessage_toElement_def request_element_def Let_def)
  with iff show ?thesis
    using validate_Inl by (cases ?v) auto
qed

lemma RequestMessage_from_to:
  assumes "request_message_valid rm"
  shows "RequestMessage_fromElement (Some (request_element rm)) = Inr rm"
proof -
  have items: "map_res (\<lambda>c. RequestBatchItem_fromElement (Some c))
      (map RequestBatchItem_toElement (rqm_batchItems rm)) = Inr (rqm_batchItems rm)"
    using assms by (intro map_res_map_ok RequestBatchItem_from_to)
      (simp add: request_message_valid_def list_all_iff)
  have "validate_element_types_for_version (request_element rm)
      (rqh_protocolVersion (rqm_header rm)) = Inr ()"
    using assms
    by (simp add: validate_iff request_element_def list_all_iff item_allowed request_message_valid_def)
  with items assms show ?thesis
    by (simp add: RequestMessage_fromElement_def request_element_def message_items_def filter_items
        RequestHeader_from_to request_message_valid_def) (simp add: kmip_consts)
qed

interpretation request_message_codec: wire_codec
  RequestMessage_toElement "\<lambda>e. RequestMessage_fromElement (Some e)" request_message_valid
proof unfold_locales
  fix x e assume x: "request_message_valid x" and e: "RequestMessage_toElement x = Inr e"
  have "e = request_element x"
    using e by (auto simp: RequestMessage_toElement_eq split: if_splits)
  then show "RequestMessage_fromElement (Some e) = Inr x"
    using RequestMessage_from_to [OF x] by simp
next
  fix x assume "request_message_valid x"
  then show "\<exists>e. RequestMessage_toElement x = Inr e"
    by (simp add: RequestMessage_toElement_eq request_message_valid_def)
qed

text \<open>Responses.  The number of items may be below the declared count, never above it.\<close>

definition response_items_valid :: "ResponseMessage \<Rightarrow> bool" where
  "response_items_valid rm \<longleftrightarrow>
     list_all response_item_valid (rsm_batchItems rm) \<and>
     list_all (\<lambda>i. \<forall>e. rsb_responsePayload i = Some e \<longrightarrow>
        allowed_types (rsh_protocolVersion (rsm_header rm)) e) (rsm_batchItems rm)"

definition response_message_valid :: "ResponseMessage \<Rightarrow> bool" where
  "response_message_valid rm \<longleftrightarrow>
     response_items_valid rm \<and>
     sint (word_of_nat (length (rsm_batchItems rm)) :: i32) \<le> sint (rsh_batchCount (rsm_header rm))"

definition response_element :: "ResponseMessage \<Rightarrow> element" where
  "response_element rm =
     make_structure KMIP_TAG_RESPONSE_MESSAGE
       (ResponseHeader_toElement (rsm_header rm) #
        map ResponseBatchItem_toElement (rsm_batchItems rm))"

lemma response_allowed:
  "validate_element_types_for_version (response_element rm)
     (rsh_protocolVersion (rsm_header rm)) = Inr () \<longleftrightarrow>
   list_all (\<lambda>i. \<forall>e. rsb_responsePayload i = Some e \<longrightarrow>
        allowed_types (rsh_protocolVersion (rsm_header rm)) e) (rsm_batchItems rm)"
  by (simp add: validate_iff response_element_def list_all_iff item_allowed)

lemma ResponseMessage_toElement_Inr:
  "ResponseMessage_toElement rm = Inr e \<longleftrightarrow>
     e = response_element rm \<and>
     list_all (\<lambda>i. \<forall>e. rsb_responsePayload i = Some e \<longrightarrow>
        allowed_types (rsh_protocolVersion (rsm_header rm)) e) (rsm_batchItems rm)"
proof -
  have "ResponseMessage_toElement rm =
      bind_res (validate_element_types_for_version (response_element rm)
        (rsh_protocolVersion (rsm_header rm))) (\<lambda>_. Inr (response_element rm))"
    by (simp add: ResponseMessage_toElement_def response_element_def Let_def)
  then show ?thesis by (auto simp: bind_res_Inr_iff simp flip: response_allowed)
qed

lemma ResponseMessage_from_to:
  assumes "response_items_valid rm"
  shows "ResponseMessage_fromElement (Some (response_element rm)) =
    (if sint (word_of_nat (length (rsm_batchItems rm)) :: i32) > sint (rsh_batchCount (rsm_header rm))
     then Inl (kmip_exception ''Response Header Batch Count does not match number of Batch Items'')
     else Inr rm)"
proof -
  have items: "map_res (\<lambda>c. ResponseBatchItem_fromElement (Some c))
      (map ResponseBatchItem_toElement (rsm_batchItems rm)) = Inr (rsm_batchItems rm)"
    using assms by (intro map_res_map_ok ResponseBatchItem_from_to)
      (simp add: response_items_valid_def list_all_iff)
  have hdr: "ResponseHeader_fromElement (Some (ResponseHeader_toElement h)) = Inr h" for h
    using response_header_codec.from_to by simp
  have "validate_element_types_for_version (response_element rm)
      (rsh_protocolVersion (rsm_header rm)) = Inr ()"
    using assms by (simp add: response_allowed response_items_valid_def)
  with items show ?thesis
    by (simp add: ResponseMessage_fromElement_def response_element_def message_items_def filter_items
        hdr) (simp add: kmip_consts)
qed

interpretation response_message_codec: wire_codec
  ResponseMessage_toElement "\<lambda>e. ResponseMessage_fromElement (Some e)" response_message_valid
  by unfold_locales
     (auto simp: ResponseMessage_toElement_Inr ResponseMessage_from_to response_message_valid_def
        response_items_valid_def)

text \<open>Wire fitness of whole messages: payloads of the right shape and depth, and a total length the
  length fields can express.\<close>

definition payload_fits :: "element option \<Rightarrow> bool" where
  "payload_fits p \<longleftrightarrow> (\<forall>e. p = Some e \<longrightarrow> ttlv_shape e \<and> height e \<le> 63)"

definition request_wire_valid :: "RequestMessage \<Rightarrow> bool" where
  "request_wire_valid rm \<longleftrightarrow>
     request_message_valid rm \<and> list_all (payload_fits \<circ> rqb_requestPayload) (rqm_batchItems rm) \<and>
     length (encode (request_element rm)) < 2 ^ 32"

definition response_wire_valid :: "ResponseMessage \<Rightarrow> bool" where
  "response_wire_valid rm \<longleftrightarrow>
     response_message_valid rm \<and> list_all (payload_fits \<circ> rsb_responsePayload) (rsm_batchItems rm) \<and>
     length (encode (response_element rm)) < 2 ^ 32"

lemma header_shape [simp]:
  "ttlv_shape (ProtocolVersion_toElement pv)" "ttlv_shape (RequestHeader_toElement rh)"
  "ttlv_shape (ResponseHeader_toElement sh)"
  by (auto simp: ProtocolVersion_toElement_def RequestHeader_toElement_def
      ResponseHeader_toElement_def credential_element_def kmip_consts)

lemma height_make_structureI:
  "(\<And>x. x \<in> set cs \<Longrightarrow> height x \<le> n) \<Longrightarrow> Suc n \<le> m \<Longrightarrow> height (make_structure t cs) \<le> m"
  using height_make_structure_le [of t cs n] by auto

lemma header_height:
  "height (ProtocolVersion_toElement pv) \<le> 2"
  "height (RequestHeader_toElement rh) \<le> 5" "height (ResponseHeader_toElement sh) \<le> 3"
proof -
  show pv: "height (ProtocolVersion_toElement v) \<le> 2" for v
    by (auto simp: ProtocolVersion_toElement_def intro!: height_make_structureI [where n = 1])
  show "height (ResponseHeader_toElement sh) \<le> 3"
    using pv by (auto simp: ResponseHeader_toElement_def intro!: height_make_structureI [where n = 2])
  have cred: "height (credential_element u p) \<le> 4" for u p
  proof -
    have "height (make_structure KMIP_TAG_CREDENTIAL_VALUE
        (opt_child (createTextString KMIP_TAG_USERNAME) u @
         opt_child (createTextString KMIP_TAG_PASSWORD) p)) \<le> 2"
      by (rule height_make_structureI [where n = 1]) auto
    then show ?thesis
      unfolding credential_element_def
      by (auto intro!: height_make_structureI [where n = 3] height_make_structureI [where n = 2 and m = 3])
  qed
  show "height (RequestHeader_toElement rh) \<le> 5"
    unfolding RequestHeader_toElement_def
    using cred order_trans [OF pv, of 4]
    by (intro height_make_structureI [where n = 4]) (auto split: if_splits)
qed

lemma item_shape:
  "payload_fits (rqb_requestPayload rbi) \<Longrightarrow>
     ttlv_shape (RequestBatchItem_toElement rbi) \<and> height (RequestBatchItem_toElement rbi) \<le> 64"
  "payload_fits (rsb_responsePayload sbi) \<Longrightarrow>
     ttlv_shape (ResponseBatchItem_toElement sbi) \<and> height (ResponseBatchItem_toElement sbi) \<le> 64"
  by (auto simp: payload_fits_def RequestBatchItem_toElement_def ResponseBatchItem_toElement_def
      kmip_consts intro!: height_make_structureI [where n = 63] split: if_splits)

lemma request_element_shape:
  assumes "list_all (payload_fits \<circ> rqb_requestPayload) (rqm_batchItems rm)"
  shows "ttlv_shape (request_element rm) \<and> height (request_element rm) \<le> 65"
  using assms item_shape(1) header_height(2) [of "rqm_header rm"]
  unfolding request_element_def
  by (auto simp: list_all_iff kmip_consts intro!: height_make_structureI [where n = 64])

lemma response_element_shape:
  assumes "list_all (payload_fits \<circ> rsb_responsePayload) (rsm_batchItems rm)"
  shows "ttlv_shape (response_element rm) \<and> height (response_element rm) \<le> 65"
  using assms item_shape(2) header_height(3) [of "rsm_header rm"]
  unfolding response_element_def
  by (auto simp: list_all_iff kmip_consts intro!: height_make_structureI [where n = 64])

interpretation request_wire: wire_message
  RequestMessage_toElement "\<lambda>e. RequestMessage_fromElement (Some e)" request_wire_valid
proof unfold_locales
  show "request_wire_valid x \<Longrightarrow> RequestMessage_toElement x = Inr e \<Longrightarrow>
      RequestMessage_fromElement (Some e) = Inr x" for x e
    using request_message_codec.from_to by (simp add: request_wire_valid_def)
  show "request_wire_valid x \<Longrightarrow> \<exists>e. RequestMessage_toElement x = Inr e" for x
    using request_message_codec.to_ok by (simp add: request_wire_valid_def)
  show "request_wire_valid x \<Longrightarrow> RequestMessage_toElement x = Inr e \<Longrightarrow> ttlv_wf e \<and> height e \<le> 65"
    for x e
    using request_element_shape [of x]
    by (auto simp: request_wire_valid_def RequestMessage_toElement_eq ttlv_wf_shape split: if_splits)
qed

interpretation response_wire: wire_message
  ResponseMessage_toElement "\<lambda>e. ResponseMessage_fromElement (Some e)" response_wire_valid
proof unfold_locales
  show "response_wire_valid x \<Longrightarrow> ResponseMessage_toElement x = Inr e \<Longrightarrow>
      ResponseMessage_fromElement (Some e) = Inr x" for x e
    using response_message_codec.from_to by (simp add: response_wire_valid_def)
  show "response_wire_valid x \<Longrightarrow> \<exists>e. ResponseMessage_toElement x = Inr e" for x
    using response_message_codec.to_ok by (simp add: response_wire_valid_def)
  show "response_wire_valid x \<Longrightarrow> ResponseMessage_toElement x = Inr e \<Longrightarrow> ttlv_wf e \<and> height e \<le> 65"
    for x e
    using response_element_shape [of x]
    by (auto simp: response_wire_valid_def ResponseMessage_toElement_Inr ttlv_wf_shape)
qed

section \<open>Batch identifiers and the serialized request\<close>

text \<open>Items are numbered from 1 in the order they were added.\<close>

definition batch_numbered :: "RequestMessage \<Rightarrow> bool" where
  "batch_numbered rm \<longleftrightarrow>
     map rqb_uniqueBatchItemId (rqm_batchItems rm) =
       map word_of_nat [1..<Suc (length (rqm_batchItems rm))] \<and>
     rqm_nextBatchItemId rm = word_of_nat (Suc (length (rqm_batchItems rm)))"

lemma batch_numbered_clear [simp]: "batch_numbered (clearBatchItems rm)"
  by (simp add: batch_numbered_def clearBatchItems_def)

lemma batch_numbered_new: "new_RequestMessage v n = Inr rm \<Longrightarrow> batch_numbered rm"
  by (auto simp: new_RequestMessage_def setMaxResponseSize_def batch_numbered_def split: if_splits)

lemma batch_numbered_add:
  "batch_numbered rm \<Longrightarrow> add_batch_item item rm = (n, rm') \<Longrightarrow> batch_numbered rm'"
  by (auto simp: batch_numbered_def add_batch_item_def Let_def)

lemma add_batch_item_items:
  "rqm_batchItems (snd (add_batch_item item rm)) =
     rqm_batchItems rm @ [item\<lparr>rqb_uniqueBatchItemId := rqm_nextBatchItemId rm\<rparr>]"
  by (simp add: add_batch_item_def Let_def)

lemma fold_add_numbered:
  "batch_numbered rm \<Longrightarrow> batch_numbered (fold (\<lambda>item rm. snd (add_batch_item item rm)) items rm)"
proof (induction items arbitrary: rm)
  case (Cons item items)
  have "batch_numbered (snd (add_batch_item item rm))"
    using batch_numbered_add [OF Cons.prems prod.collapse [symmetric]] .
  with Cons.IH show ?case by simp
qed simp

lemma fold_add_length:
  "length (rqm_batchItems (fold (\<lambda>item rm. snd (add_batch_item item rm)) items rm)) =
     length (rqm_batchItems rm) + length items"
  by (induction items arbitrary: rm) (simp_all add: add_batch_item_items)

lemma unat_word_of_nat32: "n < 2 ^ 32 \<Longrightarrow> unat (word_of_nat n :: u32) = n"
  by (simp add: unat_of_nat)

lemma word_of_nat_inj_on: "n \<le> 2 ^ 32 \<Longrightarrow> inj_on (word_of_nat :: nat \<Rightarrow> u32) {..<n}"
  by (rule inj_on_inverseI [where g = unat]) (simp add: unat_of_nat)

lemma numbered_distinct:
  assumes "batch_numbered rm" "length (rqm_batchItems rm) < 2 ^ 32"
  shows "distinct (map rqb_uniqueBatchItemId (rqm_batchItems rm)) \<and>
         0 \<notin> set (map rqb_uniqueBatchItemId (rqm_batchItems rm))"
proof -
  let ?n = "length (rqm_batchItems rm)"
  have ids: "map rqb_uniqueBatchItemId (rqm_batchItems rm) = map word_of_nat [1..<Suc ?n]"
    using assms(1) by (simp add: batch_numbered_def)
  have "inj_on (word_of_nat :: nat \<Rightarrow> u32) {..<Suc ?n}"
    using assms(2) by (intro word_of_nat_inj_on) simp
  then have "inj_on (word_of_nat :: nat \<Rightarrow> u32) {1..<Suc ?n}" by (rule inj_on_subset) auto
  then have "distinct (map (word_of_nat :: nat \<Rightarrow> u32) [1..<Suc ?n])"
    by (simp add: distinct_map del: upt_Suc)
  moreover have "0 \<notin> (word_of_nat :: nat \<Rightarrow> u32) ` {1..<Suc ?n}"
  proof
    assume "0 \<in> (word_of_nat :: nat \<Rightarrow> u32) ` {1..<Suc ?n}"
    then obtain k where k: "1 \<le> k" "k < Suc ?n" "0 = (word_of_nat k :: u32)" by auto
    have "unat (word_of_nat k :: u32) = k" using k(2) assms(2) by (intro unat_word_of_nat32) simp
    with k(1,3) show False by simp
  qed
  ultimately show ?thesis unfolding ids by (simp del: upt_Suc)
qed

lemma prepare_request_simps [simp]:
  "rqm_batchItems (prepare_request now rm) = rqm_batchItems rm"
  "rqm_nextBatchItemId (prepare_request now rm) = rqm_nextBatchItemId rm"
  "rqh_batchCount (rqm_header (prepare_request now rm)) = word_of_nat (length (rqm_batchItems rm))"
  "rqh_timeStamp (rqm_header (prepare_request now rm)) = Some now"
  "rqh_protocolVersion (rqm_header (prepare_request now rm)) = rqh_protocolVersion (rqm_header rm)"
  by (simp_all add: prepare_request_def Let_def)

text \<open>A request that can be sent: numbered items with tagged payloads that the version allows and the
  wire can carry, within the effective buffer limit.\<close>

definition sendable :: "i64 \<Rightarrow> RequestMessage \<Rightarrow> bool" where
  "sendable now rm \<longleftrightarrow>
     rqm_batchItems rm \<noteq> [] \<and> batch_numbered rm \<and>
     list_all (\<lambda>i. request_item_valid i \<and> payload_fits (rqb_requestPayload i) \<and>
       (\<forall>e. rqb_requestPayload i = Some e \<longrightarrow>
          allowed_types (rqh_protocolVersion (rqm_header rm)) e)) (rqm_batchItems rm) \<and>
     length (encode (request_element (prepare_request now rm))) \<le> 2 ^ 26"

lemma sendable_wire_valid: "sendable now rm \<Longrightarrow> request_wire_valid (prepare_request now rm)"
  by (auto simp: sendable_def request_wire_valid_def request_message_valid_def batch_numbered_def
      list_all_iff)

lemma RequestMessage_serialize_eq:
  assumes "sendable now rm"
  shows "RequestMessage_serialize pl now rm = Inr (encode (request_element (prepare_request now rm)))"
proof -
  let ?e = "request_element (prepare_request now rm)"
  have e: "RequestMessage_toElement (prepare_request now rm) = Inr ?e"
    using assms by (auto simp: RequestMessage_toElement_eq sendable_def list_all_iff)
  have len: "length (encode ?e) \<le> effective_limit"
    using assms by (simp add: sendable_def effective_limit_def)
  then have "vectors_fit ?e" by (intro vectors_fit_length) (simp add: effective_limit_def)
  from element_writer.put_fresh [OF this len] obtain buf where
    buf: "serialize pl ?e (new_buffer DEFAULT_CAPACITY) = Inr buf" "buffer_ok buf"
      "buffer_span buf = encode ?e" by blast
  from release_ok [OF buf(2)] buf(3) obtain buf' where "release buf = Inr (encode ?e, buf')" by auto
  with e buf(1) assms show ?thesis by (simp add: RequestMessage_serialize_def sendable_def)
qed

text \<open>A query with one batch item, used to show that the hypotheses below can hold.\<close>

definition sample_request :: RequestMessage where
  "sample_request =
     \<lparr>rqm_header = default_RequestHeader,
      rqm_batchItems = [\<lparr>rqb_uniqueBatchItemId = 1, rqb_operation = KMIP_OP_QUERY,
         rqb_requestPayload = Some (make_structure KMIP_TAG_REQUEST_PAYLOAD [])\<rparr>],
      rqm_nextBatchItemId = 2\<rparr>"

lemma sample_request_sendable: "sendable 7 sample_request"
proof -
  have "length (encode (request_element (prepare_request 7 sample_request))) \<le> 2 ^ 26"
    by (simp add: sample_request_def request_element_def prepare_request_def
        RequestHeader_toElement_def ProtocolVersion_toElement_def RequestBatchItem_toElement_def
        default_RequestHeader_def encode_batch_item_id_def make_structure_eq create_defs
        length_encode pad8_def)
  then show ?thesis
    by (simp add: sendable_def sample_request_def batch_numbered_def request_item_valid_def
        payload_tagged_def payload_fits_def make_structure_eq ttlv_shape.simps height.simps
        allowed_types.simps kmip_consts)
qed

section \<open>Properties\<close>

text \<open>C7. End to end: a sendable request is serialized, and decoding the bytes on any machine and
  parsing the element gives back the very message that was prepared, with batch count, time stamp and
  order option filled in.\<close>

theorem request_bytes_round_trip:
  assumes "sendable now rm" "\<not> hardened pl'"
  shows "\<exists>bytes. RequestMessage_serialize pl now rm = Inr bytes \<and>
     bind_res (deserialize pl' bytes 0) (\<lambda>(e, _). RequestMessage_fromElement (Some e)) =
       Inr (prepare_request now rm)"
proof -
  have "request_wire_valid (prepare_request now rm)" using assms(1) by (rule sendable_wire_valid)
  moreover from this have "RequestMessage_toElement (prepare_request now rm) =
      Inr (request_element (prepare_request now rm))"
    by (auto simp: RequestMessage_toElement_eq request_wire_valid_def request_message_valid_def)
  ultimately show ?thesis
    using request_wire.bytes_round_trip [of "prepare_request now rm"] assms
    by (simp add: RequestMessage_serialize_eq)
qed

theorem request_bytes_round_trip_witness:
  "\<exists>bytes. RequestMessage_serialize \<lparr>native_endian = Big_endian, hardened = False\<rparr> 7 sample_request =
       Inr bytes \<and>
     bind_res (deserialize \<lparr>native_endian = Little_endian, hardened = False\<rparr> bytes 0)
       (\<lambda>(e, _). RequestMessage_fromElement (Some e)) = Inr (prepare_request 7 sample_request)"
  using request_bytes_round_trip [OF sample_request_sendable,
      of "\<lparr>native_endian = Little_endian, hardened = False\<rparr>"
         "\<lparr>native_endian = Big_endian, hardened = False\<rparr>"] by simp

text \<open>A response whose items are valid is accepted exactly when it carries at most as many items as
  its header declares: missing items are tolerated, surplus items are refused; what is accepted is the
  message itself.\<close>

theorem response_count_check:
  assumes "response_items_valid rm" "length (rsm_batchItems rm) < 2 ^ 31"
  shows "ResponseMessage_fromElement (Some (response_element rm)) =
    (if int (length (rsm_batchItems rm)) \<le> sint (rsh_batchCount (rsm_header rm)) then Inr rm
     else Inl (kmip_exception ''Response Header Batch Count does not match number of Batch Items''))"
proof -
  have "sint (word_of_nat (length (rsm_batchItems rm)) :: i32) = int (length (rsm_batchItems rm))"
    using assms(2)
    by (simp add: signed_of_nat signed_take_bit_int_eq_self_iff)
  then show ?thesis using ResponseMessage_from_to [OF assms(1)] by (auto simp: not_less)
qed

theorem response_count_check_witness:
  "ResponseMessage_fromElement (Some (response_element
     \<lparr>rsm_header = default_ResponseHeader\<lparr>rsh_batchCount := 3\<rparr>,
      rsm_batchItems = [\<lparr>rsb_uniqueBatchItemId = 1, rsb_operation = KMIP_OP_GET, rsb_resultStatus = 0,
        rsb_resultReason = None, rsb_resultMessage = None, rsb_responsePayload = None\<rparr>]\<rparr>)) =
   Inr \<lparr>rsm_header = default_ResponseHeader\<lparr>rsh_batchCount := 3\<rparr>,
      rsm_batchItems = [\<lparr>rsb_uniqueBatchItemId = 1, rsb_operation = KMIP_OP_GET, rsb_resultStatus = 0,
        rsb_resultReason = None, rsb_resultMessage = None, rsb_responsePayload = None\<rparr>]\<rparr>"
  by (subst response_count_check)
     (simp_all add: response_items_valid_def response_item_valid_def payload_tagged_def kmip_consts)

text \<open>Batch identifiers: after \<open>setBatchItems\<close> and any further \<open>add_batch_item\<close> calls the
  items of a message carry the identifiers 1, 2, 3, ... in order, pairwise different and never the
  reserved 0, as long as there are fewer than \<open>2 ^ 32\<close> of them; and the identifier survives its
  four-byte encoding.\<close>

theorem batch_ids_unique:
  assumes "length items + length added < 2 ^ 32"
    and rm'_def: "rm' = fold (\<lambda>item rm. snd (add_batch_item item rm)) added (setBatchItems items rm)"
  shows "map rqb_uniqueBatchItemId (rqm_batchItems rm') =
           map word_of_nat [1..<Suc (length items + length added)] \<and>
         distinct (map rqb_uniqueBatchItemId (rqm_batchItems rm')) \<and>
         0 \<notin> set (map rqb_uniqueBatchItemId (rqm_batchItems rm')) \<and>
         map (decode_batch_item_id \<circ> encode_batch_item_id \<circ> rqb_uniqueBatchItemId) (rqm_batchItems rm') =
           map (Some \<circ> rqb_uniqueBatchItemId) (rqm_batchItems rm')"
proof -
  have num: "batch_numbered rm'"
    unfolding rm'_def setBatchItems_def by (intro fold_add_numbered batch_numbered_clear)
  have len: "length (rqm_batchItems rm') = length items + length added"
    by (simp add: rm'_def setBatchItems_def fold_add_length clearBatchItems_def)
  have ids: "map rqb_uniqueBatchItemId (rqm_batchItems rm') =
      map word_of_nat [1..<Suc (length items + length added)]"
    using num len by (simp add: batch_numbered_def)
  then show ?thesis using numbered_distinct [OF num] len assms(1) by (simp add: comp_def)
qed

theorem batch_ids_unique_witness:
  "map rqb_uniqueBatchItemId (rqm_batchItems
     (snd (add_batch_item \<lparr>rqb_uniqueBatchItemId = 9, rqb_operation = KMIP_OP_GET, rqb_requestPayload = None\<rparr>
        (setBatchItems [\<lparr>rqb_uniqueBatchItemId = 9, rqb_operation = KMIP_OP_GET, rqb_requestPayload = None\<rparr>]
           sample_request)))) = [1, 2]"
  using batch_ids_unique [of
      "[\<lparr>rqb_uniqueBatchItemId = 9, rqb_operation = KMIP_OP_GET, rqb_requestPayload = None\<rparr>]"
      "[\<lparr>rqb_uniqueBatchItemId = 9, rqb_operation = KMIP_OP_GET, rqb_requestPayload = None\<rparr>]",
      OF _ refl, of sample_request]
  by simp

text \<open>No forbidden type leaves the client: whenever a request is serialized, none of its payloads
  contains a DateTimeExtended element unless the protocol version is at least 2.0.\<close>

theorem serialize_respects_version:
  assumes "RequestMessage_serialize pl now rm = Inr bytes"
  shows "list_all (\<lambda>i. \<forall>e. rqb_requestPayload i = Some e \<longrightarrow>
     allowed_types (rqh_protocolVersion (rqm_header rm)) e) (rqm_batchItems rm)"
  using assms
  by (auto simp: RequestMessage_serialize_def RequestMessage_toElement_eq bind_res_Inr_iff
      split: if_splits)

theorem serialize_respects_version_witness:
  "list_all (\<lambda>i. \<forall>e. rqb_requestPayload i = Some e \<longrightarrow>
     allowed_types (rqh_protocolVersion (rqm_header sample_request)) e)
     (rqm_batchItems sample_request)"
  using serialize_respects_version [OF RequestMessage_serialize_eq [OF sample_request_sendable]] .

end
