(* ===== verification/Kmip_Formatter.thy ===== *)
theory Kmip_Formatter
  imports Kmip_Protocol
begin

text \<open>
  \<open>src/kmipcore/src/kmip_formatter.cpp\<close>: the text rendering of elements and messages for logs.
  Values under sensitive tags are replaced by a summary.  The output stream is the returned string;
  accessors that throw make the whole rendering fail, and \<open>format_ttlv\<close> turns that failure into a
  fixed notice.

  \<open>redact\<close> is the specification of what may be shown: every sensitive value is erased, up to its
  length for strings.  The lemmas show that the rendering only depends on the redacted element, so
  credentials of a request never influence what is logged.
\<close>

section \<open>Calendar dates\<close>

text \<open>\<open>gmtime_r\<close> with \<open>std::put_time(..., "%Y-%m-%dT%H:%M:%SZ")\<close>: the proleptic Gregorian
  calendar from the days since 1970-01-01.  A year that does not fit the \<open>int\<close> member of
  \<open>std::tm\<close> leaves the zero-initialised structure, which prints as day 0 of January 1900.\<close>

definition civil_from_days :: "int \<Rightarrow> int \<times> int \<times> int" where
  "civil_from_days days =
     (let z = days + 719468;
          era = z div 146097;
          doe = z mod 146097;
          yoe = (doe - doe div 1460 + doe div 36524 - doe div 146096) div 365;
          doy = doe - (365 * yoe + yoe div 4 - yoe div 100);
          mp = (5 * doy + 2) div 153;
          d = doy - (153 * mp + 2) div 5 + 1;
          m = (if mp < 10 then mp + 3 else mp - 9);
          y = yoe + era * 400 + (if m \<le> 2 then 1 else 0)
      in (y, m, d))"

definition two_digits :: "int \<Rightarrow> string" where
  "two_digits i = zero_fill 2 (int_to_string i)"

definition iso_datetime :: "int \<Rightarrow> string" where
  "iso_datetime seconds =
     (let (y, m, d) = civil_from_days (seconds div 86400);
          rest = seconds mod 86400;
          fits = - 2147483648 \<le> y - 1900 \<and> y - 1900 \<le> 2147483647;
          (y, m, d, rest) = (if fits then (y, m, d, rest) else (1900, 1, 0, 0))
      in int_to_string y @ ''-'' @ two_digits m @ ''-'' @ two_digits d @ ''T'' @
         two_digits (rest div 3600) @ '':'' @ two_digits (rest mod 3600 div 60) @ '':'' @
         two_digits (rest mod 60) @ ''Z'')"

section \<open>Numbers, bytes and strings\<close>

definition indent :: "nat \<Rightarrow> string" where
  "indent level = replicate (level * 2) (CHR '' '')"

definition format_hex_uint :: "nat \<Rightarrow> nat \<Rightarrow> string" where
  "format_hex_uint val width = ''0x'' @ zero_fill width (nat_to_hex True val)"

definition hex_byte :: "byte \<Rightarrow> string" where
  "hex_byte b = zero_fill 2 (nat_to_hex True (unat b))"

fun format_bytes_hex :: "byte list \<Rightarrow> string" where
  "format_bytes_hex [] = []"
| "format_bytes_hex [b] = hex_byte b"
| "format_bytes_hex (b # bs) = hex_byte b @ '' '' @ format_bytes_hex bs"

definition escape_char :: "char \<Rightarrow> string" where
  "escape_char ch =
    (if ch = CHR 0x5C then [CHR 0x5C, CHR 0x5C]
     else if ch = CHR 0x22 then [CHR 0x5C, CHR 0x22]
     else if ch = CHR 0x0A then [CHR 0x5C, CHR ''n'']
     else if ch = CHR 0x0D then [CHR 0x5C, CHR ''r'']
     else if ch = CHR 0x09 then [CHR 0x5C, CHR ''t'']
     else [ch])"

definition quote_string :: "string \<Rightarrow> string" where
  "quote_string val = [CHR 0x22] @ concat (map escape_char val) @ [CHR 0x22]"

definition format_datetime :: "i64 \<Rightarrow> string" where
  "format_datetime seconds =
     iso_datetime (sint seconds) @ '' ('' @ int_to_string (sint seconds) @ '')''"

section \<open>Name tables\<close>

definition type_name :: "u32 \<Rightarrow> string" where
  "type_name ty =
    (if ty = KMIP_TYPE_STRUCTURE then ''Structure''
     else if ty = KMIP_TYPE_INTEGER then ''Integer''
     else if ty = KMIP_TYPE_LONG_INTEGER then ''LongInteger''
     else if ty = KMIP_TYPE_BIG_INTEGER then ''BigInteger''
     else if ty = KMIP_TYPE_ENUMERATION then ''Enumeration''
     else if ty = KMIP_TYPE_BOOLEAN then ''Boolean''
     else if ty = KMIP_TYPE_TEXT_STRING then ''TextString''
     else if ty = KMIP_TYPE_BYTE_STRING then ''ByteString''
     else if ty = KMIP_TYPE_DATE_TIME then ''DateTime''
     else if ty = KMIP_TYPE_INTERVAL then ''Interval''
     else if ty = KMIP_TYPE_DATE_TIME_EXTENDED then ''DateTimeExtended''
     else ''UnknownType'')"

definition tag_name :: "u32 \<Rightarrow> string option" where
  "tag_name tag =
    (if tag = KMIP_TAG_ATTRIBUTE then Some ''Attribute''
     else if tag = KMIP_TAG_ATTRIBUTE_NAME then Some ''AttributeName''
     else if tag = KMIP_TAG_ATTRIBUTE_VALUE then Some ''AttributeValue''
     else if tag = KMIP_TAG_BATCH_COUNT then Some ''BatchCount''
     else if tag = KMIP_TAG_BATCH_ITEM then Some ''BatchItem''
     else if tag = KMIP_TAG_BATCH_ORDER_OPTION then Some ''BatchOrderOption''
     else if tag = KMIP_TAG_COMPROMISE_OCCURRANCE_DATE then Some ''CompromiseOccurrenceDate''
     else if tag = KMIP_TAG_CRYPTOGRAPHIC_ALGORITHM then Some ''CryptographicAlgorithm''
     else if tag = KMIP_TAG_CRYPTOGRAPHIC_LENGTH then Some ''CryptographicLength''
     else if tag = KMIP_TAG_CRYPTOGRAPHIC_USAGE_MASK then Some ''CryptographicUsageMask''
     else if tag = KMIP_TAG_KEY_BLOCK then Some ''KeyBlock''
     else if tag = KMIP_TAG_KEY_FORMAT_TYPE then Some ''KeyFormatType''
     else if tag = KMIP_TAG_KEY_MATERIAL then Some ''KeyMaterial''
     else if tag = KMIP_TAG_KEY_VALUE then Some ''KeyValue''
     else if tag = KMIP_TAG_LOCATED_ITEMS then Some ''LocatedItems''
     else if tag = KMIP_TAG_MAXIMUM_ITEMS then Some ''MaximumItems''
     else if tag = KMIP_TAG_MAXIMUM_RESPONSE_SIZE then Some ''MaximumResponseSize''
     else if tag = KMIP_TAG_NAME then Some ''Name''
     else if tag = KMIP_TAG_NAME_TYPE then Some ''NameType''
     else if tag = KMIP_TAG_NAME_VALUE then Some ''NameValue''
     else if tag = KMIP_TAG_OBJECT_GROUP then Some ''ObjectGroup''
     else if tag = KMIP_TAG_OBJECT_TYPE then Some ''ObjectType''
     else if tag = KMIP_TAG_OFFSET_ITEMS then Some ''OffsetItems''
     else if tag = KMIP_TAG_OPERATION then Some ''Operation''
     else if tag = KMIP_TAG_PROTOCOL_VERSION then Some ''ProtocolVersion''
     else if tag = KMIP_TAG_PROTOCOL_VERSION_MAJOR then Some ''ProtocolVersionMajor''
     else if tag = KMIP_TAG_PROTOCOL_VERSION_MINOR then Some ''ProtocolVersionMinor''
     else if tag = KMIP_TAG_REQUEST_HEADER then Some ''RequestHeader''
     else if tag = KMIP_TAG_REQUEST_MESSAGE then Some ''RequestMessage''
     else if tag = KMIP_TAG_REQUEST_PAYLOAD then Some ''RequestPayload''
     else if tag = KMIP_TAG_RESPONSE_HEADER then Some ''ResponseHeader''
     else if tag = KMIP_TAG_RESPONSE_MESSAGE then Some ''ResponseMessage''
     else if tag = KMIP_TAG_RESPONSE_PAYLOAD then Some ''ResponsePayload''
     else if tag = KMIP_TAG_RESULT_MESSAGE then Some ''ResultMessage''
     else if tag = KMIP_TAG_RESULT_REASON then Some ''ResultReason''
     else if tag = KMIP_TAG_RESULT_STATUS then Some ''ResultStatus''
     else if tag = KMIP_TAG_REVOKATION_MESSAGE then Some ''RevocationMessage''
     else if tag = KMIP_TAG_REVOCATION_REASON then Some ''RevocationReason''
     else if tag = KMIP_TAG_REVOCATION_REASON_CODE then Some ''RevocationReasonCode''
     else if tag = KMIP_TAG_SECRET_DATA then Some ''SecretData''
     else if tag = KMIP_TAG_SECRET_DATA_TYPE then Some ''SecretDataType''
     else if tag = KMIP_TAG_STATE then Some ''State''
     else if tag = KMIP_TAG_SYMMETRIC_KEY then Some ''SymmetricKey''
     else if tag = KMIP_TAG_TEMPLATE_ATTRIBUTE then Some ''TemplateAttribute''
     else if tag = KMIP_TAG_TIME_STAMP then Some ''TimeStamp''
     else if tag = KMIP_TAG_UNIQUE_BATCH_ITEM_ID then Some ''UniqueBatchItemId''
     else if tag = KMIP_TAG_UNIQUE_IDENTIFIER then Some ''UniqueIdentifier''
     else if tag = KMIP_TAG_USERNAME then Some ''Username''
     else if tag = KMIP_TAG_PASSWORD then Some ''Password''
     else None)"

definition operation_name :: "i32 \<Rightarrow> string option" where
  "operation_name val =
    (if val = KMIP_OP_CREATE then Some ''Create''
     else if val = KMIP_OP_REGISTER then Some ''Register''
     else if val = KMIP_OP_LOCATE then Some ''Locate''
     else if val = KMIP_OP_GET then Some ''Get''
     else if val = KMIP_OP_GET_ATTRIBUTES then Some ''GetAttributes''
     else if val = KMIP_OP_GET_ATTRIBUTE_LIST then Some ''GetAttributeList''
     else if val = KMIP_OP_ACTIVATE then Some ''Activate''
     else if val = KMIP_OP_REVOKE then Some ''Revoke''
     else if val = KMIP_OP_DESTROY then Some ''Destroy''
     else if val = KMIP_OP_QUERY then Some ''Query''
     else if val = KMIP_OP_DISCOVER_VERSIONS then Some ''DiscoverVersions''
     else None)"

definition object_type_name :: "i32 \<Rightarrow> string option" where
  "object_type_name val =
    (if val = KMIP_OBJTYPE_CERTIFICATE then Some ''Certificate''
     else if val = KMIP_OBJTYPE_SYMMETRIC_KEY then Some ''SymmetricKey''
     else if val = KMIP_OBJTYPE_PUBLIC_KEY then Some ''PublicKey''
     else if val = KMIP_OBJTYPE_PRIVATE_KEY then Some ''PrivateKey''
     else if val = KMIP_OBJTYPE_SECRET_DATA then Some ''SecretData''
     else if val = KMIP_OBJTYPE_OPAQUE_OBJECT then Some ''OpaqueObject''
     else None)"

definition result_status_name :: "i32 \<Rightarrow> string option" where
  "result_status_name val =
    (if val = KMIP_STATUS_SUCCESS then Some ''Success''
     else if val = KMIP_STATUS_OPERATION_FAILED then Some ''OperationFailed''
     else if val = KMIP_STATUS_OPERATION_PENDING then Some ''OperationPending''
     else if val = KMIP_STATUS_OPERATION_UNDONE then Some ''OperationUndone''
     else None)"

definition crypto_algorithm_name :: "i32 \<Rightarrow> string option" where
  "crypto_algorithm_name val =
    (if val = KMIP_CRYPTOALG_DES then Some ''DES''
     else if val = KMIP_CRYPTOALG_TRIPLE_DES then Some ''3DES''
     else if val = KMIP_CRYPTOALG_AES then Some ''AES''
     else if val = KMIP_CRYPTOALG_RSA then Some ''RSA''
     else if val = KMIP_CRYPTOALG_DSA then Some ''DSA''
     else if val = KMIP_CRYPTOALG_ECDSA then Some ''ECDSA''
     else if val = KMIP_CRYPTOALG_HMAC_SHA1 then Some ''HMAC-SHA1''
     else if val = KMIP_CRYPTOALG_HMAC_SHA224 then Some ''HMAC-SHA224''
     else if val = KMIP_CRYPTOALG_HMAC_SHA256 then Some ''HMAC-SHA256''
     else if val = KMIP_CRYPTOALG_HMAC_SHA384 then Some ''HMAC-SHA384''
     else if val = KMIP_CRYPTOALG_HMAC_SHA512 then Some ''HMAC-SHA512''
     else None)"

definition name_type_name :: "i32 \<Rightarrow> string option" where
  "name_type_name val =
    (if val = KMIP_NAME_UNINTERPRETED_TEXT_STRING then Some ''UninterpretedTextString''
     else if val = KMIP_NAME_URI then Some ''URI''
     else None)"

definition key_format_type_name :: "i32 \<Rightarrow> string option" where
  "key_format_type_name val =
    (if val = KMIP_KEYFORMAT_RAW then Some ''Raw''
     else if val = KMIP_KEYFORMAT_OPAQUE then Some ''Opaque''
     else if val = KMIP_KEYFORMAT_PKCS1 then Some ''PKCS1''
     else if val = KMIP_KEYFORMAT_PKCS8 then Some ''PKCS8''
     else if val = KMIP_KEYFORMAT_X509 then Some ''X509''
     else None)"

definition secret_data_type_name :: "i32 \<Rightarrow> string option" where
  "secret_data_type_name val =
    (if val = KMIP_SECDATA_PASSWORD then Some ''Password''
     else if val = KMIP_SECDATA_SEED then Some ''Seed''
     else None)"

definition revocation_reason_name :: "i32 \<Rightarrow> string option" where
  "revocation_reason_name val =
    (if val = KMIP_REVOKE_UNSPECIFIED then Some ''Unspecified''
     else if val = KMIP_REVOKE_KEY_COMPROMISE then Some ''KeyCompromise''
     else if val = KMIP_REVOKE_CA_COMPROMISE then Some ''CACompromise''
     else if val = KMIP_REVOKE_AFFILIATION_CHANGED then Some ''AffiliationChanged''
     else if val = KMIP_REVOKE_SUSPENDED then Some ''Suspended''
     else if val = KMIP_REVOKE_CESSATION_OF_OPERATION then Some ''CessationOfOperation''
     else if val = KMIP_REVOKE_PRIVILEDGE_WITHDRAWN then Some ''PrivilegeWithdrawn''
     else if val = KMIP_REVOKE_EXTENSIONS then Some ''Extensions''
     else None)"

definition is_sensitive_tag :: "u32 \<Rightarrow> bool" where
  "is_sensitive_tag tag \<longleftrightarrow>
     tag = KMIP_TAG_CREDENTIAL_VALUE \<or> tag = KMIP_TAG_IV_COUNTER_NONCE \<or>
     tag = KMIP_TAG_KEY_MATERIAL \<or> tag = KMIP_TAG_KEY_VALUE \<or> tag = KMIP_TAG_MAC_SIGNATURE \<or>
     tag = KMIP_TAG_NONCE_VALUE \<or> tag = KMIP_TAG_PASSWORD \<or> tag = KMIP_TAG_SALT \<or>
     tag = KMIP_TAG_SECRET_DATA \<or> tag = KMIP_TAG_USERNAME"

definition enum_value_name :: "u32 \<Rightarrow> i32 \<Rightarrow> string" where
  "enum_value_name tag val =
     (let name =
        (if tag = KMIP_TAG_OPERATION then operation_name val
         else if tag = KMIP_TAG_OBJECT_TYPE then object_type_name val
         else if tag = KMIP_TAG_RESULT_STATUS then result_status_name val
         else if tag = KMIP_TAG_CRYPTOGRAPHIC_ALGORITHM then crypto_algorithm_name val
         else if tag = KMIP_TAG_NAME_TYPE then name_type_name val
         else if tag = KMIP_TAG_KEY_FORMAT_TYPE then key_format_type_name val
         else if tag = KMIP_TAG_SECRET_DATA_TYPE then secret_data_type_name val
         else if tag = KMIP_TAG_STATE then Some (state_to_string val)
         else if tag = KMIP_TAG_REVOCATION_REASON_CODE then revocation_reason_name val
         else None)
      in case name of
           Some name \<Rightarrow> name @ '' ('' @ int_to_string (sint val) @ '')''
         | None \<Rightarrow> int_to_string (sint val) @ '' / '' @ format_hex_uint (unat val) 8)"

section \<open>Redaction\<close>

definition should_redact_subtree :: "element \<Rightarrow> bool" where
  "should_redact_subtree element \<longleftrightarrow>
     is_sensitive_tag (elem_tag element) \<and> elem_type element = KMIP_TYPE_STRUCTURE"

definition redacted_value_length :: "element \<Rightarrow> nat option res" where
  "redacted_value_length element =
    (if elem_type element = KMIP_TYPE_BIG_INTEGER \<or> elem_type element = KMIP_TYPE_BYTE_STRING
     then bind_res (toBytes element) (\<lambda>bs. Inr (Some (length bs)))
     else if elem_type element = KMIP_TYPE_TEXT_STRING
     then bind_res (toString element) (\<lambda>s. Inr (Some (length s)))
     else Inr None)"

definition redacted_value_summary :: "element \<Rightarrow> string res" where
  "redacted_value_summary element =
     bind_res (redacted_value_length element) (\<lambda>len.
     Inr (''<redacted sensitive '' @ type_name (elem_type element) @
       (case len of Some n \<Rightarrow> '', len='' @ nat_to_string n | None \<Rightarrow> []) @ ''>''))"

section \<open>Elements\<close>

text \<open>The value of an element that is not a structure: the \<open>switch\<close> at the end of
  \<open>format_element_impl\<close>.\<close>

definition format_value :: "element \<Rightarrow> string res" where
  "format_value element =
    (let ty = elem_type element;
         hex = bind_res (toBytes element) (\<lambda>bs.
           Inr (''len='' @ nat_to_string (length bs) @ '', hex=['' @ format_bytes_hex bs @ '']'')) in
     if ty = KMIP_TYPE_INTEGER then
       bind_res (toInt element) (\<lambda>v. Inr (int_to_string (sint v)))
     else if ty = KMIP_TYPE_LONG_INTEGER then
       bind_res (toLong element) (\<lambda>v. Inr (int_to_string (sint v)))
     else if ty = KMIP_TYPE_BIG_INTEGER then hex
     else if ty = KMIP_TYPE_ENUMERATION then
       bind_res (toEnum element) (\<lambda>v. Inr (enum_value_name (elem_tag element) v))
     else if ty = KMIP_TYPE_BOOLEAN then
       bind_res (toBool element) (\<lambda>v. Inr (if v then ''true'' else ''false''))
     else if ty = KMIP_TYPE_TEXT_STRING then
       bind_res (toString element) (\<lambda>v. Inr (quote_string v))
     else if ty = KMIP_TYPE_BYTE_STRING then hex
     else if ty = KMIP_TYPE_DATE_TIME then
       bind_res (toLong element) (\<lambda>v. Inr (format_datetime v))
     else if ty = KMIP_TYPE_INTERVAL then
       bind_res (toInterval element) (\<lambda>v. Inr (nat_to_string (unat v)))
     else Inr ''<unhandled>'')"

definition newline :: string where
  "newline = [CHR 0x0A]"

definition element_head :: "element \<Rightarrow> nat \<Rightarrow> string" where
  "element_head element depth =
     indent depth @
     (case tag_name (elem_tag element) of Some n \<Rightarrow> n | None \<Rightarrow> ''UnknownTag'') @ '' ('' @
     format_hex_uint (unat (elem_tag element)) 6 @ '') ['' @ type_name (elem_type element) @ '']''"

lemma map_res_cong [fundef_cong]:
  "xs = ys \<Longrightarrow> (\<And>x. x \<in> set ys \<Longrightarrow> f x = g x) \<Longrightarrow> map_res f xs = map_res g ys"
  by (induction xs arbitrary: ys) auto

fun format_element_impl :: "element \<Rightarrow> nat \<Rightarrow> string res" where
  "format_element_impl (Element tag type val) depth =
     (let element = Element tag type val; head = element_head element depth in
      if should_redact_subtree element then
        Inr (head @ '' = <redacted sensitive subtree>'' @ newline)
      else if is_sensitive_tag tag then
        bind_res (redacted_value_summary element) (\<lambda>s. Inr (head @ '' = '' @ s @ newline))
      else
        (case val of
           Structure items \<Rightarrow>
             bind_res (map_res (\<lambda>child. format_element_impl child (depth + 1)) items) (\<lambda>texts.
             Inr (head @ newline @
               (if items = [] then indent (depth + 1) @ ''<empty>'' @ newline else []) @
               concat texts))
         | _ \<Rightarrow>
             bind_res (format_value element) (\<lambda>s. Inr (head @ '' = '' @ s @ newline))))"

declare format_element_impl.simps [simp del]

definition format_element :: "element option \<Rightarrow> string res" where
  "format_element p =
     (case p of None \<Rightarrow> Inr (indent 0 @ ''<null>'' @ newline) | Some e \<Rightarrow> format_element_impl e 0)"

definition format_request :: "RequestMessage \<Rightarrow> string res" where
  "format_request request =
     bind_res (RequestMessage_toElement request) (\<lambda>e. format_element (Some e))"

definition format_response :: "ResponseMessage \<Rightarrow> string res" where
  "format_response response =
     bind_res (ResponseMessage_toElement response) (\<lambda>e. format_element (Some e))"

text \<open>\<open>catch (const std::exception &e)\<close>: library exceptions become a notice; an abort is not
  caught.\<close>

definition format_ttlv :: "platform \<Rightarrow> byte list \<Rightarrow> string res" where
  "format_ttlv pl ttlv =
    (if ttlv = [] then Inr (''<empty KMIP TTLV>'' @ newline)
     else
       (case bind_res (deserialize pl ttlv 0) (\<lambda>(root, offset).
             bind_res (format_element (Some root)) (\<lambda>formatted.
             if offset \<noteq> length ttlv then
               Inr (formatted @ ''Trailing bytes: '' @ nat_to_string (length ttlv - offset) @ newline)
             else Inr formatted)) of
          Inr s \<Rightarrow> Inr s
        | Inl err \<Rightarrow>
            if is_exception err then
              Inr (''Unable to format KMIP TTLV safely: '' @ failure_what err @
                ''. Raw payload omitted to avoid leaking sensitive data.'' @ newline)
            else Inl err))"

section \<open>Usage masks\<close>

definition usage_flags :: "(u32 \<times> string) list" where
  "usage_flags =
     [(0x00000001, ''SIGN''), (0x00000002, ''VERIFY''), (0x00000004, ''ENCRYPT''),
      (0x00000008, ''DECRYPT''), (0x00000010, ''WRAP_KEY''), (0x00000020, ''UNWRAP_KEY''),
      (0x00000040, ''EXPORT''), (0x00000080, ''MAC_GENERATE''), (0x00000100, ''MAC_VERIFY''),
      (0x00000200, ''DERIVE_KEY''), (0x00000400, ''CONTENT_COMMITMENT''),
      (0x00000800, ''KEY_AGREEMENT''), (0x00001000, ''CERTIFICATE_SIGN''),
      (0x00002000, ''CRL_SIGN''), (0x00004000, ''GENERATE_CRYPTOGRAM''),
      (0x00008000, ''VALIDATE_CRYPTOGRAM''), (0x00010000, ''TRANSLATE_ENCRYPT''),
      (0x00020000, ''TRANSLATE_DECRYPT''), (0x00040000, ''TRANSLATE_WRAP''),
      (0x00080000, ''TRANSLATE_UNWRAP''), (0x00100000, ''AUTHENTICATE''),
      (0x00200000, ''UNRESTRICTED''), (0x00400000, ''FPE_ENCRYPT''), (0x00800000, ''FPE_DECRYPT'')]"

text \<open>The loop over the flags: text so far, whether nothing was written yet, the bits left.\<close>

definition usage_step :: "u32 \<Rightarrow> u32 \<times> string \<Rightarrow> string \<times> bool \<times> u32 \<Rightarrow> string \<times> bool \<times> u32" where
  "usage_step bits = (\<lambda>(b, name) (oss, first, remaining).
     if bits AND b \<noteq> 0
     then (oss @ (if first then [] else '', '') @ name, False, remaining AND NOT b)
     else (oss, first, remaining))"

definition usage_mask_to_string :: "u32 \<Rightarrow> string" where
  "usage_mask_to_string bits =
    (if bits = 0 then ''UNSET''
     else
       (let (oss, first, remaining) = fold (usage_step bits) usage_flags ([], True, bits) in
        if remaining \<noteq> 0 then
          oss @ (if first then [] else '', '') @ ''UNKNOWN_BITS('' @
            zero_fill 8 (nat_to_hex False (unat remaining)) @ '')''
        else oss))"

section \<open>What a rendering may depend on\<close>

text \<open>The value of a sensitive element with its secret erased; only the variant and, for strings, the
  length are left.\<close>

fun erase_value :: "ttlv_value \<Rightarrow> ttlv_value" where
  "erase_value (Structure items) = Structure []"
| "erase_value (Integer i) = Integer 0"
| "erase_value (LongInteger l) = LongInteger 0"
| "erase_value (BigInteger bs) = BigInteger (replicate (length bs) 0)"
| "erase_value (Enumeration i) = Enumeration 0"
| "erase_value (Boolean b) = Boolean False"
| "erase_value (TextString s) = TextString (replicate (length s) (CHR ''*''))"
| "erase_value (ByteString bs) = ByteString (replicate (length bs) 0)"
| "erase_value (DateTime l) = DateTime 0"
| "erase_value (DateTimeExtended l) = DateTimeExtended 0"
| "erase_value (Interval i) = Interval 0"

text \<open>The tags whose content is secret: credentials, passwords, key material and values, secret data,
  message authentication codes, nonces and salts.\<close>

definition secret_tags :: "u32 set" where
  "secret_tags =
     {KMIP_TAG_CREDENTIAL_VALUE, KMIP_TAG_USERNAME, KMIP_TAG_PASSWORD, KMIP_TAG_KEY_MATERIAL,
      KMIP_TAG_KEY_VALUE, KMIP_TAG_SECRET_DATA, KMIP_TAG_MAC_SIGNATURE, KMIP_TAG_IV_COUNTER_NONCE,
      KMIP_TAG_NONCE_VALUE, KMIP_TAG_SALT}"

lemma is_sensitive_tag_iff: "is_sensitive_tag tag \<longleftrightarrow> tag \<in> secret_tags"
  by (auto simp: is_sensitive_tag_def secret_tags_def)

text \<open>What a log shows of a message: below the secret tags the type of a value and the length of a byte string, text or
  big integer.\<close>

fun redact :: "element \<Rightarrow> element" where
  "redact (Element tag type val) =
    (if tag \<in> secret_tags then
       Element tag type (if type = KMIP_TYPE_STRUCTURE then Structure [] else erase_value val)
     else
       Element tag type (case val of Structure items \<Rightarrow> Structure (map redact items) | _ \<Rightarrow> val))"

declare redact.simps [simp del]

lemma redacted_summary_erase:
  "redacted_value_summary (Element tag type (erase_value val)) =
     redacted_value_summary (Element tag type val)"
  by (cases val)
     (simp_all add: redacted_value_summary_def redacted_value_length_def toBytes_def toString_def)

lemma map_res_map_eq:
  "(\<And>x. x \<in> set xs \<Longrightarrow> f (g x) = f x) \<Longrightarrow> map_res f (map g xs) = map_res f xs"
  by (induction xs) auto

lemma format_redact: "format_element_impl (redact e) depth = format_element_impl e depth"
proof (induction e arbitrary: depth rule: measure_induct_rule [of size])
  case (less e)
  obtain tag type val where e: "e = Element tag type val" by (cases e)
  show ?case
  proof (cases "tag \<in> secret_tags")
    case True
    then show ?thesis
      by (cases "type = KMIP_TYPE_STRUCTURE")
         (simp_all add: e is_sensitive_tag_iff element_head_def redacted_summary_erase Let_def redact.simps format_element_impl.simps should_redact_subtree_def)
  next
    case False
    show ?thesis
    proof (cases "\<exists>items. val = Structure items")
      case True
      then obtain items where v: "val = Structure items" by blast
      have "map_res (\<lambda>c. format_element_impl c (depth + 1)) (map redact items) =
          map_res (\<lambda>c. format_element_impl c (depth + 1)) items"
      proof (rule map_res_map_eq)
        fix x assume "x \<in> set items"
        then have "size x < size e"
          using size_list_estimation' [of x items "size x" size] by (simp add: e v)
        then show "format_element_impl (redact x) (depth + 1) = format_element_impl x (depth + 1)"
          by (rule less.IH)
      qed
      then show ?thesis
        using False
        by (simp add: e v is_sensitive_tag_iff element_head_def Let_def redact.simps format_element_impl.simps should_redact_subtree_def)
    next
      case prim: False
      have "redact e = e" using False prim by (cases val) (simp_all add: e redact.simps)
      then show ?thesis by simp
    qed
  qed
qed

text \<open>A rendering fails only with a library exception.\<close>

lemma accessor_Inl:
  "toInt e = Inl err \<Longrightarrow> is_exception err" "toLong e = Inl err \<Longrightarrow> is_exception err"
  "toBool e = Inl err \<Longrightarrow> is_exception err" "toString e = Inl err \<Longrightarrow> is_exception err"
  "toBytes e = Inl err \<Longrightarrow> is_exception err" "toEnum e = Inl err \<Longrightarrow> is_exception err"
  "toInterval e = Inl err \<Longrightarrow> is_exception err"
  by (auto simp: accessor_defs split: ttlv_value.splits)

lemma map_res_Inl: "map_res f xs = Inl err \<Longrightarrow> \<exists>x\<in>set xs. f x = Inl err"
  by (induction xs) (auto simp: bind_res_Inl_iff)

lemma format_element_impl_Inl: "format_element_impl e depth = Inl err \<Longrightarrow> is_exception err"
proof (induction e arbitrary: depth rule: measure_induct_rule [of size])
  case (less e)
  obtain tag type val where e: "e = Element tag type val" by (cases e)
  have val: "format_value e = Inl err \<Longrightarrow> is_exception err"
    by (auto simp: format_value_def Let_def bind_res_Inl_iff dest: accessor_Inl split: if_splits)
  have summary: "redacted_value_summary e = Inl err \<Longrightarrow> is_exception err"
    by (auto simp: redacted_value_summary_def redacted_value_length_def bind_res_Inl_iff
        dest: accessor_Inl split: if_splits)
  have items: "is_exception err"
    if "val = Structure items" "map_res (\<lambda>c. format_element_impl c (depth + 1)) items = Inl err" for items
  proof -
    from map_res_Inl [OF that(2)] obtain x where x: "x \<in> set items"
      "format_element_impl x (depth + 1) = Inl err" by blast
    have "size x < size e"
      using size_list_estimation' [OF x(1), of "size x" size] by (simp add: e that(1))
    with less.IH x(2) show ?thesis by blast
  qed
  from less.prems val summary items show ?case
    unfolding e
    by (cases val)
       (auto simp: format_element_impl.simps Let_def bind_res_Inl_iff split: if_splits)
qed

text \<open>The mask loop keeps the names of the flags seen so far, joined with commas, and clears their
  bits.\<close>

fun join_comma :: "string list \<Rightarrow> string" where
  "join_comma [] = []"
| "join_comma [s] = s"
| "join_comma (s # ss) = s @ '', '' @ join_comma ss"

lemma join_comma_snoc:
  "join_comma (ss @ [s]) = (if ss = [] then s else join_comma ss @ '', '' @ s)"
  by (induction ss rule: join_comma.induct) simp_all

lemma usage_fold:
  "fold (usage_step bits) flags (join_comma names, names = [], rest) =
     (let new = map snd (filter (\<lambda>(b, _). bits AND b \<noteq> 0) flags) in
      (join_comma (names @ new), names @ new = [],
       fold (\<lambda>(b, _) r. if bits AND b \<noteq> 0 then r AND NOT b else r) flags rest))"
proof (induction flags arbitrary: names rest)
  case Nil
  show ?case by simp
next
  case (Cons flag flags)
  obtain b n where flag: "flag = (b, n)" by (cases flag)
  show ?case
  proof (cases "bits AND b = 0")
    case True
    then show ?thesis using Cons.IH [of names rest] by (simp add: flag usage_step_def Let_def)
  next
    case False
    have "usage_step bits flag (join_comma names, names = [], rest) =
        (join_comma (names @ [n]), names @ [n] = [], rest AND NOT b)"
      using False by (auto simp: flag usage_step_def join_comma_snoc)
    then show ?thesis
      using Cons.IH [of "names @ [n]" "rest AND NOT b"] False by (simp add: flag Let_def)
  qed
qed

lemma clear_flags:
  fixes bits seen :: u32
  shows "fold (\<lambda>(b, _) r. if bits AND b \<noteq> 0 then r AND NOT b else r) flags (bits AND NOT seen) =
     bits AND NOT (fold (\<lambda>(b, _) r. r OR b) flags seen)"
proof (induction flags arbitrary: seen)
  case (Cons flag flags)
  obtain b n where flag: "flag = (b, n)" by (cases flag)
  have "(if bits AND b \<noteq> 0 then bits AND NOT seen AND NOT b else bits AND NOT seen) =
      bits AND NOT (seen OR b)"
  proof (cases "bits AND b = 0")
    case True
    have "bits AND NOT seen = bits AND NOT (seen OR b)"
    proof (rule bit_word_eqI)
      fix n assume "n < LENGTH(32)"
      moreover have "\<not> (bit bits n \<and> bit b n)"
        using arg_cong [OF True, of "\<lambda>w. bit w n"] by (simp add: bit_simps)
      ultimately show "bit (bits AND NOT seen) n = bit (bits AND NOT (seen OR b)) n"
        by (auto simp: bit_simps)
    qed
    with True show ?thesis by simp
  next
    case False
    then show ?thesis by (simp add: and.assoc)
  qed
  then show ?case using Cons.IH [of "seen OR b"] by (auto simp: flag and.assoc)
qed simp

section \<open>Properties\<close>

text \<open>Redaction: the rendering of an element is a function of its redacted form, in which every
  value below a sensitive tag (credentials, key material, key values, passwords, secret data, nonces,
  salts) is erased up to the length of strings.  Two elements with the same redacted form are logged
  identically.\<close>

theorem format_element_redacts:
  assumes "redact e = redact e'"
  shows "format_element (Some e) = format_element (Some e')"
  using format_redact [of e 0] format_redact [of e' 0] assms by (simp add: format_element_def)

theorem format_element_redacts_witness:
  "format_element (Some (createByteString KMIP_TAG_KEY_MATERIAL [1, 2, 3])) =
   format_element (Some (createByteString KMIP_TAG_KEY_MATERIAL [7, 8, 9]))"
  by (rule format_element_redacts)
     (simp add: createByteString_def redact.simps secret_tags_def kmip_consts)

text \<open>User name and password of a request never reach the log: requests that differ only in
  present credentials are rendered to the same text.\<close>

theorem format_request_hides_credentials:
  "format_request (rm\<lparr>rqm_header := (rqm_header rm)\<lparr>rqh_userName := Some u, rqh_password := Some p\<rparr>\<rparr>) =
   format_request (rm\<lparr>rqm_header := (rqm_header rm)\<lparr>rqh_userName := Some u', rqh_password := Some p'\<rparr>\<rparr>)"
proof -
  let ?rm = "\<lambda>u p. rm\<lparr>rqm_header := (rqm_header rm)\<lparr>rqh_userName := Some u, rqh_password := Some p\<rparr>\<rparr>"
  have cred: "redact (credential_element (Some u) (Some p)) = redact (credential_element (Some u') (Some p'))"
    for u p u' p'
    by (simp add: credential_element_def make_structure_eq create_defs redact.simps secret_tags_def
        kmip_consts)
  have "redact (request_element (?rm u p)) = redact (request_element (?rm u' p'))"
    using cred [of u p u' p']
    by (simp add: request_element_def RequestHeader_toElement_def make_structure_eq redact.simps
        secret_tags_def kmip_consts del: credential_element_def)
  then have "format_element_impl (request_element (?rm u p)) 0 = format_element_impl (request_element (?rm u' p')) 0"
    using format_redact by metis
  then show ?thesis
    by (simp add: format_request_def RequestMessage_toElement_eq format_element_def)
qed

text \<open>\<open>format_ttlv\<close> never throws: on any bytes of a span it returns a text, unless a hardened build stops
  in the decoder.\<close>

theorem format_ttlv_total:
  assumes "\<not> hardened pl" "length ttlv < 2 ^ 63"
  shows "\<exists>s. format_ttlv pl ttlv = Inr s"
proof -
  have "is_exception err" if "deserialize pl ttlv 0 = Inl err" for err
    using deserialize_safe_aux(1) [of pl ttlv 0 0 err] that assms by (simp add: deserialize_def)
  moreover have "is_exception err" if "format_element (Some e) = Inl err" for e err
    using that by (simp add: format_element_def format_element_impl_Inl)
  ultimately show ?thesis
    by (auto simp: format_ttlv_def bind_res_Inl_iff split: sum.splits if_splits)
qed

lemma format_ttlv_Inl: "format_ttlv pl ttlv = Inl err \<Longrightarrow> length ttlv < 2 ^ 63 \<Longrightarrow> err = Assertion_abort"
  using deserialize_safe_aux(1) [of pl ttlv 0 0] format_element_impl_Inl
  by (fastforce simp: format_ttlv_def format_element_def deserialize_def bind_res_Inl_iff split: sum.splits if_splits)

theorem format_ttlv_total_witness:
  "\<exists>s. format_ttlv \<lparr>native_endian = Little_endian, hardened = False\<rparr> [0x42, 0] = Inr s"
  using format_ttlv_total [of "\<lparr>native_endian = Little_endian, hardened = False\<rparr>" "[0x42, 0]"] by simp

text \<open>\<open>usage_mask_to_string\<close> lists exactly the names of the flags that are set, in order and
  separated by commas, and reports any bits beyond the 24 known ones in a final entry.\<close>

theorem usage_mask_to_string_lists:
  assumes "bits \<noteq> 0"
  shows "usage_mask_to_string bits =
    join_comma (map snd (filter (\<lambda>(b, _). bits AND b \<noteq> 0) usage_flags) @
      (if bits AND NOT 0xFFFFFF \<noteq> 0
       then [''UNKNOWN_BITS('' @ zero_fill 8 (nat_to_hex False (unat (bits AND NOT 0xFFFFFF))) @ '')'']
       else []))"
proof -
  have all: "fold (\<lambda>(b, _) r. r OR b) usage_flags 0 = (0xFFFFFF :: u32)"
    by (simp add: usage_flags_def)
  have rest: "fold (\<lambda>(b, _) r. if bits AND b \<noteq> 0 then r AND NOT b else r) usage_flags bits =
      bits AND NOT 0xFFFFFF"
    using clear_flags [of bits usage_flags 0] unfolding all by simp
  show ?thesis
    using usage_fold [of bits usage_flags "[]" bits] assms
    by (simp add: usage_mask_to_string_def rest Let_def join_comma_snoc)
qed

theorem usage_mask_to_string_lists_witness:
  "usage_mask_to_string 0x0C = ''ENCRYPT, DECRYPT''"
  using usage_mask_to_string_lists [of "0x0C"] by (simp add: usage_flags_def)

end
