(* ===== verification/Kmip_Attributes.thy ===== *)
theory Kmip_Attributes
  imports Kmip_Formatter "HOL-Library.AList"
begin

text \<open>
  \<open>src/kmipcore/src/kmip_attributes.cpp\<close>: the attribute bag of managed objects.  Four well-known
  attributes are typed optional fields, all others live in a map from names to variants.

  The \<open>std::unordered_map\<close> is an association list with distinct keys whose order is the
  (unspecified) iteration order; statements quantify over every such list.  \<open>strtol\<close> is modelled for
  a 64-bit \<open>long\<close>, with the conversion to the first null character and the range error.

  \<open>routed\<close> says that no well-known name is shadowed in the generic map.  Under it the string
  snapshot is a faithful view of the bag: \<open>merge\<close> is map override and a generic \<open>set\<close> is map update
  (locale \<open>attribute_setter\<close>).
\<close>

section \<open>Attribute names\<close>

definition KMIP_ATTR_NAME_NAME :: string where
  [kmip_consts]: "KMIP_ATTR_NAME_NAME = ''Name''"

definition KMIP_ATTR_NAME_GROUP :: string where
  [kmip_consts]: "KMIP_ATTR_NAME_GROUP = ''Object Group''"

definition KMIP_ATTR_NAME_STATE :: string where
  [kmip_consts]: "KMIP_ATTR_NAME_STATE = ''State''"

definition KMIP_ATTR_NAME_UNIQUE_IDENTIFIER :: string where
  [kmip_consts]: "KMIP_ATTR_NAME_UNIQUE_IDENTIFIER = ''Unique Identifier''"

definition KMIP_ATTR_NAME_UNIQUE_IDENTIFIER_ALT :: string where
  [kmip_consts]: "KMIP_ATTR_NAME_UNIQUE_IDENTIFIER_ALT = ''UniqueID''"

definition KMIP_ATTR_NAME_ACTIVATION_DATE :: string where
  [kmip_consts]: "KMIP_ATTR_NAME_ACTIVATION_DATE = ''Activation Date''"

definition KMIP_ATTR_NAME_PROCESS_START_DATE :: string where
  [kmip_consts]: "KMIP_ATTR_NAME_PROCESS_START_DATE = ''Process Start Date''"

definition KMIP_ATTR_NAME_PROTECT_STOP_DATE :: string where
  [kmip_consts]: "KMIP_ATTR_NAME_PROTECT_STOP_DATE = ''Protect Stop Date''"

definition KMIP_ATTR_NAME_DEACTIVATION_DATE :: string where
  [kmip_consts]: "KMIP_ATTR_NAME_DEACTIVATION_DATE = ''Deactivation Date''"

definition KMIP_ATTR_NAME_CRYPTO_ALG :: string where
  [kmip_consts]: "KMIP_ATTR_NAME_CRYPTO_ALG = ''Cryptographic Algorithm''"

definition KMIP_ATTR_NAME_CRYPTO_LEN :: string where
  [kmip_consts]: "KMIP_ATTR_NAME_CRYPTO_LEN = ''Cryptographic Length''"

definition KMIP_ATTR_NAME_CRYPTO_USAGE_MASK :: string where
  [kmip_consts]: "KMIP_ATTR_NAME_CRYPTO_USAGE_MASK = ''Cryptographic Usage Mask''"

definition KMIP_ATTR_NAME_OPERATION_POLICY_NAME :: string where
  [kmip_consts]: "KMIP_ATTR_NAME_OPERATION_POLICY_NAME = ''Operation Policy Name''"

section \<open>Text to numbers\<close>

definition is_space :: "char \<Rightarrow> bool" where
  "is_space c \<longleftrightarrow> c = CHR '' '' \<or> 9 \<le> (of_char c :: nat) \<and> (of_char c :: nat) \<le> 13"

definition is_digit :: "char \<Rightarrow> bool" where
  "is_digit c \<longleftrightarrow> 48 \<le> (of_char c :: nat) \<and> (of_char c :: nat) \<le> 57"

definition digits_value :: "string \<Rightarrow> nat" where
  "digits_value ds = foldl (\<lambda>n c. 10 * n + (of_char c - 48)) 0 ds"

definition strip_sign :: "string \<Rightarrow> bool \<times> string" where
  "strip_sign s =
     (case s of [] \<Rightarrow> (False, [])
      | c # r \<Rightarrow> if c = CHR ''-'' then (True, r) else if c = CHR ''+'' then (False, r) else (False, s))"

text \<open>\<open>strtol(s.c_str(), &end, 10)\<close> with the test \<open>errno == 0 && end != s.c_str() && *end == '\0'\<close>:
  the value, when the whole text up to the first null character is a number in the range of \<open>long\<close>.\<close>

definition strtol :: "string \<Rightarrow> int option" where
  "strtol s =
     (let (neg, ds) = strip_sign (dropWhile is_space (takeWhile (\<lambda>c. c \<noteq> CHR 0x00) s));
          v = (if neg then - int (digits_value ds) else int (digits_value ds))
      in if ds \<noteq> [] \<and> list_all is_digit ds \<and> - (2 ^ 63) \<le> v \<and> v < 2 ^ 63 then Some v else None)"

section \<open>Conversions of algorithm and state\<close>

definition algorithm_to_string :: "u32 \<Rightarrow> string" where
  "algorithm_to_string alg =
    (if alg = KMIP_CRYPTOALG_DES then ''DES''
     else if alg = KMIP_CRYPTOALG_TRIPLE_DES then ''3DES''
     else if alg = KMIP_CRYPTOALG_AES then ''AES''
     else if alg = KMIP_CRYPTOALG_RSA then ''RSA''
     else if alg = KMIP_CRYPTOALG_DSA then ''DSA''
     else if alg = KMIP_CRYPTOALG_ECDSA then ''ECDSA''
     else if alg = KMIP_CRYPTOALG_HMAC_SHA1 then ''HMAC-SHA1''
     else if alg = KMIP_CRYPTOALG_HMAC_SHA224 then ''HMAC-SHA224''
     else if alg = KMIP_CRYPTOALG_HMAC_SHA256 then ''HMAC-SHA256''
     else if alg = KMIP_CRYPTOALG_HMAC_SHA384 then ''HMAC-SHA384''
     else if alg = KMIP_CRYPTOALG_HMAC_SHA512 then ''HMAC-SHA512''
     else if alg = KMIP_CRYPTOALG_HMAC_MD5 then ''HMAC-MD5''
     else if alg = KMIP_CRYPTOALG_DH then ''DH''
     else if alg = KMIP_CRYPTOALG_ECDH then ''ECDH''
     else nat_to_string (unat alg))"

definition parse_algorithm_string :: "string \<Rightarrow> u32 option" where
  "parse_algorithm_string s =
    (if s = ''AES'' then Some KMIP_CRYPTOALG_AES
     else if s = ''RSA'' then Some KMIP_CRYPTOALG_RSA
     else if s = ''DSA'' then Some KMIP_CRYPTOALG_DSA
     else if s = ''ECDSA'' then Some KMIP_CRYPTOALG_ECDSA
     else if s = ''DES'' then Some KMIP_CRYPTOALG_DES
     else if s = ''3DES'' then Some KMIP_CRYPTOALG_TRIPLE_DES
     else if s = ''DH'' then Some KMIP_CRYPTOALG_DH
     else if s = ''ECDH'' then Some KMIP_CRYPTOALG_ECDH
     else if s = ''HMAC-SHA1'' then Some KMIP_CRYPTOALG_HMAC_SHA1
     else if s = ''HMAC-SHA224'' then Some KMIP_CRYPTOALG_HMAC_SHA224
     else if s = ''HMAC-SHA256'' then Some KMIP_CRYPTOALG_HMAC_SHA256
     else if s = ''HMAC-SHA384'' then Some KMIP_CRYPTOALG_HMAC_SHA384
     else if s = ''HMAC-SHA512'' then Some KMIP_CRYPTOALG_HMAC_SHA512
     else if s = ''HMAC-MD5'' then Some KMIP_CRYPTOALG_HMAC_MD5
     else if s = [] then None
     else map_option word_of_int (strtol s))"

definition parse_state_string :: "string \<Rightarrow> u32 option" where
  "parse_state_string str =
    (let s = (if take 11 str = ''KMIP_STATE_'' then drop 11 str else str) in
     if s = ''PRE_ACTIVE'' then Some KMIP_STATE_PRE_ACTIVE
     else if s = ''ACTIVE'' then Some KMIP_STATE_ACTIVE
     else if s = ''DEACTIVATED'' then Some KMIP_STATE_DEACTIVATED
     else if s = ''COMPROMISED'' then Some KMIP_STATE_COMPROMISED
     else if s = ''DESTROYED'' then Some KMIP_STATE_DESTROYED
     else if s = ''DESTROYED_COMPROMISED'' then Some KMIP_STATE_DESTROYED_COMPROMISED
     else None)"

section \<open>The attribute bag\<close>

datatype AttributeValue =
    AV_string string
  | AV_int32 i32
  | AV_int64 i64
  | AV_bool bool

fun value_to_string :: "AttributeValue \<Rightarrow> string" where
  "value_to_string (AV_string s) = s"
| "value_to_string (AV_int32 i) = int_to_string (sint i)"
| "value_to_string (AV_int64 i) = int_to_string (sint i)"
| "value_to_string (AV_bool b) = (if b then ''true'' else ''false'')"

record Attributes =
  attr_algo :: "u32 option"
  attr_crypto_length :: "i32 option"
  attr_usage_mask :: "u32 option"
  attr_state :: "u32 option"
  attr_generic :: "(string \<times> AttributeValue) list"

definition no_attributes :: Attributes where
  "no_attributes = \<lparr>attr_algo = None, attr_crypto_length = None, attr_usage_mask = None,
     attr_state = None, attr_generic = []\<rparr>"

definition attr_algorithm :: "Attributes \<Rightarrow> u32" where
  "attr_algorithm a = (case attr_algo a of Some v \<Rightarrow> v | None \<Rightarrow> KMIP_CRYPTOALG_UNSET)"

definition attr_usage :: "Attributes \<Rightarrow> u32" where
  "attr_usage a = (case attr_usage_mask a of Some v \<Rightarrow> v | None \<Rightarrow> KMIP_CRYPTOMASK_UNSET)"

definition object_state :: "Attributes \<Rightarrow> u32" where
  "object_state a = (case attr_state a of Some v \<Rightarrow> v | None \<Rightarrow> KMIP_STATE_PRE_ACTIVE)"

definition set_algorithm :: "u32 \<Rightarrow> Attributes \<Rightarrow> Attributes" where
  "set_algorithm alg a =
     a\<lparr>attr_algo := (if alg = KMIP_CRYPTOALG_UNSET then None else Some alg)\<rparr>"

definition set_crypto_length :: "i32 \<Rightarrow> Attributes \<Rightarrow> Attributes" where
  "set_crypto_length len a = a\<lparr>attr_crypto_length := Some len\<rparr>"

definition clear_crypto_length :: "Attributes \<Rightarrow> Attributes" where
  "clear_crypto_length a = a\<lparr>attr_crypto_length := None\<rparr>"

definition set_usage_mask :: "u32 \<Rightarrow> Attributes \<Rightarrow> Attributes" where
  "set_usage_mask bits a =
     a\<lparr>attr_usage_mask := (if bits = KMIP_CRYPTOMASK_UNSET then None else Some bits)\<rparr>"

definition set_state :: "u32 \<Rightarrow> Attributes \<Rightarrow> Attributes" where
  "set_state st a = a\<lparr>attr_state := Some st\<rparr>"

definition put_generic :: "string \<Rightarrow> AttributeValue \<Rightarrow> Attributes \<Rightarrow> Attributes" where
  "put_generic name v a = a\<lparr>attr_generic := AList.update name v (attr_generic a)\<rparr>"

definition set_string :: "string \<Rightarrow> string \<Rightarrow> Attributes \<Rightarrow> Attributes" where
  "set_string name val a =
    (if name = KMIP_ATTR_NAME_CRYPTO_ALG then
       (case parse_algorithm_string val of Some alg \<Rightarrow> a\<lparr>attr_algo := Some alg\<rparr> | None \<Rightarrow> a)
     else if name = KMIP_ATTR_NAME_CRYPTO_LEN then
       (case strtol val of Some v \<Rightarrow> a\<lparr>attr_crypto_length := Some (word_of_int v)\<rparr> | None \<Rightarrow> a)
     else if name = KMIP_ATTR_NAME_CRYPTO_USAGE_MASK then
       (case strtol val of
          Some v \<Rightarrow> if word_of_int v \<noteq> KMIP_CRYPTOMASK_UNSET
            then a\<lparr>attr_usage_mask := Some (word_of_int v)\<rparr> else a
        | None \<Rightarrow> a)
     else if name = KMIP_ATTR_NAME_STATE then
       (case parse_state_string val of Some st \<Rightarrow> a\<lparr>attr_state := Some st\<rparr> | None \<Rightarrow> a)
     else put_generic name (AV_string val) a)"

definition set_int32 :: "string \<Rightarrow> i32 \<Rightarrow> Attributes \<Rightarrow> Attributes" where
  "set_int32 name val a =
    (if name = KMIP_ATTR_NAME_CRYPTO_LEN then a\<lparr>attr_crypto_length := Some val\<rparr>
     else if name = KMIP_ATTR_NAME_CRYPTO_USAGE_MASK then
       (if val \<noteq> KMIP_CRYPTOMASK_UNSET then a\<lparr>attr_usage_mask := Some val\<rparr> else a)
     else if name = KMIP_ATTR_NAME_CRYPTO_ALG then
       (if val \<noteq> KMIP_CRYPTOALG_UNSET then a\<lparr>attr_algo := Some val\<rparr> else a)
     else if name = KMIP_ATTR_NAME_STATE then a\<lparr>attr_state := Some val\<rparr>
     else put_generic name (AV_int32 val) a)"

definition set_int64 :: "string \<Rightarrow> i64 \<Rightarrow> Attributes \<Rightarrow> Attributes" where
  "set_int64 name val a = put_generic name (AV_int64 val) a"

definition set_bool :: "string \<Rightarrow> bool \<Rightarrow> Attributes \<Rightarrow> Attributes" where
  "set_bool name val a = put_generic name (AV_bool val) a"

definition remove_attribute :: "string \<Rightarrow> Attributes \<Rightarrow> Attributes" where
  "remove_attribute name a = a\<lparr>attr_generic := AList.delete name (attr_generic a)\<rparr>"

definition has_attribute :: "string \<Rightarrow> Attributes \<Rightarrow> bool" where
  "has_attribute name a \<longleftrightarrow>
    (if name = KMIP_ATTR_NAME_CRYPTO_ALG then attr_algo a \<noteq> None
     else if name = KMIP_ATTR_NAME_CRYPTO_LEN then attr_crypto_length a \<noteq> None
     else if name = KMIP_ATTR_NAME_CRYPTO_USAGE_MASK then attr_usage_mask a \<noteq> None
     else if name = KMIP_ATTR_NAME_STATE then attr_state a \<noteq> None
     else map_of (attr_generic a) name \<noteq> None)"

definition get_string :: "string \<Rightarrow> Attributes \<Rightarrow> string" where
  "get_string name a =
    (case map_of (attr_generic a) name of Some (AV_string s) \<Rightarrow> s | _ \<Rightarrow> [])"

definition get_as_string :: "string \<Rightarrow> Attributes \<Rightarrow> string option" where
  "get_as_string name a = map_option value_to_string (map_of (attr_generic a) name)"

definition get_int :: "string \<Rightarrow> Attributes \<Rightarrow> i32 option" where
  "get_int name a =
    (case map_of (attr_generic a) name of Some (AV_int32 i) \<Rightarrow> Some i | _ \<Rightarrow> None)"

definition get_long :: "string \<Rightarrow> Attributes \<Rightarrow> i64 option" where
  "get_long name a =
    (case map_of (attr_generic a) name of Some (AV_int64 i) \<Rightarrow> Some i | _ \<Rightarrow> None)"

definition put_text :: "string \<Rightarrow> string option \<Rightarrow> (string \<times> string) list \<Rightarrow> (string \<times> string) list" where
  "put_text name v m = (case v of Some s \<Rightarrow> AList.update name s m | None \<Rightarrow> m)"

definition as_string_map :: "Attributes \<Rightarrow> (string \<times> string) list" where
  "as_string_map a =
    (let m0 = fold (\<lambda>(k, v) r. AList.update k (value_to_string v) r) (attr_generic a) [];
         m1 = put_text KMIP_ATTR_NAME_CRYPTO_ALG (map_option algorithm_to_string (attr_algo a)) m0;
         m2 = put_text KMIP_ATTR_NAME_CRYPTO_LEN
           (map_option (\<lambda>l. int_to_string (sint l)) (attr_crypto_length a)) m1;
         m3 = put_text KMIP_ATTR_NAME_CRYPTO_USAGE_MASK
           (map_option usage_mask_to_string (attr_usage_mask a)) m2
     in put_text KMIP_ATTR_NAME_STATE (map_option state_to_string (attr_state a)) m3)"

definition merge :: "Attributes \<Rightarrow> Attributes \<Rightarrow> Attributes" where
  "merge this other =
    \<lparr>attr_algo = (if attr_algo other \<noteq> None then attr_algo other else attr_algo this),
     attr_crypto_length = (if attr_crypto_length other \<noteq> None then attr_crypto_length other
       else attr_crypto_length this),
     attr_usage_mask = (if attr_usage_mask other \<noteq> None then attr_usage_mask other
       else attr_usage_mask this),
     attr_state = (if attr_state other \<noteq> None then attr_state other else attr_state this),
     attr_generic = fold (\<lambda>(k, v) g. AList.update k v g) (attr_generic other) (attr_generic this)\<rparr>"


section \<open>Lemmas: text and numbers\<close>

lemma is_digit_digit_char: "d < 10 \<Longrightarrow> is_digit (digit_char d) \<and> of_char (digit_char d) - 48 = d"
  by (simp add: is_digit_def digit_char_def)

lemma digits_value_snoc: "digits_value (ds @ [c]) = 10 * digits_value ds + (of_char c - 48)"
  by (simp add: digits_value_def)

lemma nat_to_string_digits:
  "list_all is_digit (nat_to_string n) \<and> digits_value (nat_to_string n) = n"
proof (induction n rule: nat_to_string.induct)
  case (1 n)
  show ?case
  proof (cases "n < 10")
    case True
    then show ?thesis
      using is_digit_digit_char [OF True] by (simp add: nat_to_string.simps [of n] digits_value_def)
  next
    case False
    have "n mod 10 < 10" by simp
    from is_digit_digit_char [OF this] 1 [OF False] False show ?thesis
      by (simp add: nat_to_string.simps [of n] digits_value_snoc del: of_char_mod_256)
  qed
qed

lemma is_digit_plain:
  assumes "is_digit c"
  shows "c \<noteq> CHR 0x00" "\<not> is_space c" "c \<noteq> CHR ''-''" "c \<noteq> CHR ''+''"
  using assms by (auto simp: is_digit_def is_space_def)

lemma digits_plain:
  assumes "list_all is_digit ds"
  shows "takeWhile (\<lambda>c. c \<noteq> CHR 0x00) ds = ds" "dropWhile is_space ds = ds" "strip_sign ds = (False, ds)"
proof -
  show "takeWhile (\<lambda>c. c \<noteq> CHR 0x00) ds = ds"
    using assms by (simp add: takeWhile_eq_all_conv list_all_iff is_digit_plain(1))
  show "dropWhile is_space ds = ds" "strip_sign ds = (False, ds)"
    using assms by (cases ds; simp add: strip_sign_def is_digit_plain)+
qed

lemma strtol_int_to_string:
  assumes "- (2 ^ 63) \<le> i" "i < 2 ^ 63"
  shows "strtol (int_to_string i) = Some i"
proof (cases "i < 0")
  case True
  have "dropWhile is_space (CHR ''-'' # s) = CHR ''-'' # s" for s by (simp add: is_space_def)
  then show ?thesis
    using True assms nat_to_string_digits [of "nat (- i)"]
    by (simp add: strtol_def int_to_string_def strip_sign_def digits_plain(1))
next
  case False
  then show ?thesis
    using assms nat_to_string_digits [of "nat i"]
    by (simp add: strtol_def int_to_string_def digits_plain)
qed

lemma strtol_nat_to_string: "n < 2 ^ 63 \<Longrightarrow> strtol (nat_to_string n) = Some (int n)"
  using strtol_int_to_string [of "int n"] by (simp add: int_to_string_def)

lemma nat_to_string_not_named: "\<not> list_all is_digit s \<Longrightarrow> nat_to_string n \<noteq> s"
  using nat_to_string_digits [of n] by auto

lemma parse_algorithm_to_string [simp]: "parse_algorithm_string (algorithm_to_string alg) = Some alg"
proof -
  have "unat alg < 2 ^ 32" using unsigned_less [of alg] by simp
  then have num: "parse_algorithm_string (nat_to_string (unat alg)) = Some alg"
    by (simp add: parse_algorithm_string_def nat_to_string_not_named is_digit_def strtol_nat_to_string)
  have named:
    "parse_algorithm_string ''DES'' = Some KMIP_CRYPTOALG_DES"
    "parse_algorithm_string ''3DES'' = Some KMIP_CRYPTOALG_TRIPLE_DES"
    "parse_algorithm_string ''AES'' = Some KMIP_CRYPTOALG_AES"
    "parse_algorithm_string ''RSA'' = Some KMIP_CRYPTOALG_RSA"
    "parse_algorithm_string ''DSA'' = Some KMIP_CRYPTOALG_DSA"
    "parse_algorithm_string ''ECDSA'' = Some KMIP_CRYPTOALG_ECDSA"
    "parse_algorithm_string ''HMAC-SHA1'' = Some KMIP_CRYPTOALG_HMAC_SHA1"
    "parse_algorithm_string ''HMAC-SHA224'' = Some KMIP_CRYPTOALG_HMAC_SHA224"
    "parse_algorithm_string ''HMAC-SHA256'' = Some KMIP_CRYPTOALG_HMAC_SHA256"
    "parse_algorithm_string ''HMAC-SHA384'' = Some KMIP_CRYPTOALG_HMAC_SHA384"
    "parse_algorithm_string ''HMAC-SHA512'' = Some KMIP_CRYPTOALG_HMAC_SHA512"
    "parse_algorithm_string ''HMAC-MD5'' = Some KMIP_CRYPTOALG_HMAC_MD5"
    "parse_algorithm_string ''DH'' = Some KMIP_CRYPTOALG_DH"
    "parse_algorithm_string ''ECDH'' = Some KMIP_CRYPTOALG_ECDH"
    by (simp_all add: parse_algorithm_string_def)
  show ?thesis by (simp add: algorithm_to_string_def num named)
qed

lemma parse_state_to_string [simp]:
  "is_valid_state st \<Longrightarrow> parse_state_string (state_to_string st) = Some st"
  by (auto simp: is_valid_state_iff state_to_string_def parse_state_string_def kmip_consts)

section \<open>Lemmas: the string view\<close>

definition well_known :: "string set" where
  "well_known = {KMIP_ATTR_NAME_CRYPTO_ALG, KMIP_ATTR_NAME_CRYPTO_LEN,
     KMIP_ATTR_NAME_CRYPTO_USAGE_MASK, KMIP_ATTR_NAME_STATE}"

text \<open>No well-known name is shadowed in the generic map, whose keys are distinct.\<close>

definition routed :: "Attributes \<Rightarrow> bool" where
  "routed a \<longleftrightarrow> distinct (map fst (attr_generic a)) \<and> fst ` set (attr_generic a) \<inter> well_known = {}"

abbreviation string_view :: "Attributes \<Rightarrow> string \<rightharpoonup> string" where
  "string_view a \<equiv> map_of (as_string_map a)"

definition typed_text :: "Attributes \<Rightarrow> string \<rightharpoonup> string" where
  "typed_text a n =
    (if n = KMIP_ATTR_NAME_CRYPTO_ALG then map_option algorithm_to_string (attr_algo a)
     else if n = KMIP_ATTR_NAME_CRYPTO_LEN then
       map_option (\<lambda>l. int_to_string (sint l)) (attr_crypto_length a)
     else if n = KMIP_ATTR_NAME_CRYPTO_USAGE_MASK then
       map_option usage_mask_to_string (attr_usage_mask a)
     else if n = KMIP_ATTR_NAME_STATE then map_option state_to_string (attr_state a)
     else None)"

lemma well_known_distinct [simp]:
  "KMIP_ATTR_NAME_CRYPTO_ALG \<noteq> KMIP_ATTR_NAME_CRYPTO_LEN"
  "KMIP_ATTR_NAME_CRYPTO_ALG \<noteq> KMIP_ATTR_NAME_CRYPTO_USAGE_MASK"
  "KMIP_ATTR_NAME_CRYPTO_ALG \<noteq> KMIP_ATTR_NAME_STATE"
  "KMIP_ATTR_NAME_CRYPTO_LEN \<noteq> KMIP_ATTR_NAME_CRYPTO_ALG"
  "KMIP_ATTR_NAME_CRYPTO_LEN \<noteq> KMIP_ATTR_NAME_CRYPTO_USAGE_MASK"
  "KMIP_ATTR_NAME_CRYPTO_LEN \<noteq> KMIP_ATTR_NAME_STATE"
  "KMIP_ATTR_NAME_CRYPTO_USAGE_MASK \<noteq> KMIP_ATTR_NAME_CRYPTO_ALG"
  "KMIP_ATTR_NAME_CRYPTO_USAGE_MASK \<noteq> KMIP_ATTR_NAME_CRYPTO_LEN"
  "KMIP_ATTR_NAME_CRYPTO_USAGE_MASK \<noteq> KMIP_ATTR_NAME_STATE"
  "KMIP_ATTR_NAME_STATE \<noteq> KMIP_ATTR_NAME_CRYPTO_ALG"
  "KMIP_ATTR_NAME_STATE \<noteq> KMIP_ATTR_NAME_CRYPTO_LEN"
  "KMIP_ATTR_NAME_STATE \<noteq> KMIP_ATTR_NAME_CRYPTO_USAGE_MASK"
  by (simp_all add: kmip_consts)

lemma map_of_fold_update:
  "map_of (fold (\<lambda>(k, v) r. AList.update k (f v) r) xs m) = map_of m ++ (map_option f \<circ> map_of (rev xs))"
proof (induction xs arbitrary: m)
  case (Cons x xs)
  obtain k v where "x = (k, v)" by (cases x)
  with Cons.IH [of "AList.update k (f v) m"] show ?case
    by (auto simp: update_conv' map_add_def fun_eq_iff split: option.splits)
qed (simp add: fun_eq_iff map_add_def)

lemma map_of_rev_distinct: "distinct (map fst xs) \<Longrightarrow> map_of (rev xs) = map_of xs"
  by (rule map_of_eqI) (auto simp: map_of_eq_Some_iff rev_map [symmetric])

lemma map_of_put_text: "map_of (put_text n v m) = map_of m ++ (\<lambda>x. if x = n then v else None)"
  by (auto simp: put_text_def update_conv' map_add_def fun_eq_iff split: option.splits)

lemma distinct_fold_update:
  "distinct (map fst m) \<Longrightarrow> distinct (map fst (fold (\<lambda>(k, v) r. AList.update k (f v) r) xs m))"
  by (induction xs arbitrary: m) (auto simp: distinct_update)

lemma keys_fold_update:
  "fst ` set (fold (\<lambda>(k, v) r. AList.update k (f v) r) xs m) = fst ` set m \<union> fst ` set xs"
  by (induction xs arbitrary: m) (simp_all add: AList.dom_update case_prod_beta Un_left_commute)

lemma string_view_eq:
  assumes "distinct (map fst (attr_generic a))"
  shows "string_view a = (map_option value_to_string \<circ> map_of (attr_generic a)) ++ typed_text a"
  using assms
  by (auto simp: as_string_map_def Let_def map_of_put_text map_of_fold_update map_of_rev_distinct
      map_add_def typed_text_def fun_eq_iff split: option.splits)

lemma routed_generic_None: "routed a \<Longrightarrow> n \<in> well_known \<Longrightarrow> map_of (attr_generic a) n = None"
  by (auto simp: routed_def map_of_eq_None_iff)

lemma typed_text_other: "n \<notin> well_known \<Longrightarrow> typed_text a n = None"
  by (simp add: typed_text_def well_known_def)

lemma string_view_app:
  assumes "routed a"
  shows "string_view a n =
    (if n \<in> well_known then typed_text a n else map_option value_to_string (map_of (attr_generic a) n))"
  using assms routed_generic_None [OF assms]
  by (auto simp: string_view_eq routed_def map_add_def typed_text_other split: option.splits)

lemma routed_no_attributes [simp]: "routed no_attributes"
  by (simp add: routed_def no_attributes_def)

lemma routed_put_generic: "routed a \<Longrightarrow> n \<notin> well_known \<Longrightarrow> routed (put_generic n v a)"
  by (auto simp: routed_def put_generic_def distinct_update dom_update)

lemma string_view_put_generic:
  assumes "routed a" "n \<notin> well_known"
  shows "string_view (put_generic n v a) = (string_view a)(n \<mapsto> value_to_string v)"
proof
  fix x
  have "typed_text (put_generic n v a) x = typed_text a x"
    by (simp add: typed_text_def put_generic_def)
  then show "string_view (put_generic n v a) x = ((string_view a)(n \<mapsto> value_to_string v)) x"
    using assms unfolding fun_upd_apply string_view_app [OF routed_put_generic [OF assms]]
      string_view_app [OF assms(1)] by (auto simp: put_generic_def update_conv')
qed

lemma routed_fields [simp]:
  "routed (a\<lparr>attr_algo := x\<rparr>) = routed a" "routed (a\<lparr>attr_crypto_length := l\<rparr>) = routed a"
  "routed (a\<lparr>attr_usage_mask := u\<rparr>) = routed a" "routed (a\<lparr>attr_state := s\<rparr>) = routed a"
  by (simp_all add: routed_def)

lemma routed_typed [simp]:
  "routed (set_algorithm x a) = routed a" "routed (set_crypto_length l a) = routed a"
  "routed (clear_crypto_length a) = routed a"
  "routed (set_usage_mask u a) = routed a" "routed (set_state s a) = routed a"
  by (simp_all add: set_algorithm_def set_crypto_length_def clear_crypto_length_def
      set_usage_mask_def set_state_def)

lemma routed_set_string [simp]: "routed a \<Longrightarrow> routed (set_string n s a)"
  by (auto simp: set_string_def routed_put_generic well_known_def split: option.splits)

lemma routed_set_int32 [simp]: "routed a \<Longrightarrow> routed (set_int32 n i a)"
  by (auto simp: set_int32_def routed_put_generic well_known_def)

lemma routed_remove: "routed a \<Longrightarrow> routed (remove_attribute n a)"
  using AList.dom_delete_subset [of n "attr_generic a"]
  by (auto simp: routed_def remove_attribute_def distinct_delete)

lemma routed_merge: "routed a \<Longrightarrow> routed b \<Longrightarrow> routed (merge a b)"
  using distinct_fold_update [of "attr_generic a" "\<lambda>v. v" "attr_generic b"]
    keys_fold_update [of "\<lambda>v. v" "attr_generic b" "attr_generic a"]
  by (auto simp: routed_def merge_def)

section \<open>The interface of the generic setters\<close>

text \<open>What a parser relies on when it stores a value under a name that is not well known: the view
  gains exactly that entry and the bag stays routed.\<close>

locale attribute_setter =
  fixes put :: "string \<Rightarrow> 'v \<Rightarrow> Attributes \<Rightarrow> Attributes" and render :: "'v \<Rightarrow> string"
  assumes put_routed: "routed a \<Longrightarrow> n \<notin> well_known \<Longrightarrow> routed (put n v a)"
    and put_view: "routed a \<Longrightarrow> n \<notin> well_known \<Longrightarrow>
      string_view (put n v a) = (string_view a)(n \<mapsto> render v)"
begin

definition put_all :: "(string \<times> 'v) list \<Rightarrow> Attributes \<Rightarrow> Attributes" where
  "put_all ps a = fold (\<lambda>(n, v) r. put n v r) ps a"

lemma put_all_view:
  assumes "routed a" "fst ` set ps \<inter> well_known = {}"
  shows "routed (put_all ps a) \<and>
    string_view (put_all ps a) = string_view a ++ (map_option render \<circ> map_of (rev ps))"
  using assms
proof (induction ps arbitrary: a)
  case (Cons p ps)
  obtain n v where p: "p = (n, v)" by (cases p)
  have n: "n \<notin> well_known" using Cons.prems(2) p by auto
  have "routed (put n v a)" using Cons.prems(1) n by (rule put_routed)
  with Cons.IH [of "put n v a"] Cons.prems p show ?case
    by (auto simp: put_all_def put_view n map_add_def fun_eq_iff split: option.splits)
qed (simp add: put_all_def fun_eq_iff map_add_def)

lemma put_twice:
  assumes "routed a" "n \<notin> well_known"
  shows "string_view (put n v (put n u a)) = string_view (put n v a)"
  using assms by (simp add: put_view put_routed)

lemma put_commute:
  assumes "routed a" "n \<notin> well_known" "m \<notin> well_known" "n \<noteq> m"
  shows "string_view (put n v (put m u a)) = string_view (put m u (put n v a))"
  using assms by (simp add: put_view put_routed fun_upd_twist)

end

lemma setters_generic:
  assumes "n \<notin> well_known"
  shows "set_string n s a = put_generic n (AV_string s) a" "set_int32 n i a = put_generic n (AV_int32 i) a"
  using assms by (simp_all add: set_string_def set_int32_def well_known_def)

interpretation string_setter: attribute_setter set_string "\<lambda>s. s"
  by unfold_locales (simp_all add: setters_generic routed_put_generic string_view_put_generic)

interpretation int32_setter: attribute_setter set_int32 "\<lambda>i. int_to_string (sint i)"
  by unfold_locales (simp_all add: setters_generic routed_put_generic string_view_put_generic)

interpretation int64_setter: attribute_setter set_int64 "\<lambda>i. int_to_string (sint i)"
  by unfold_locales (simp_all add: set_int64_def routed_put_generic string_view_put_generic)

interpretation bool_setter: attribute_setter set_bool "\<lambda>b. if b then ''true'' else ''false''"
  by unfold_locales (simp_all add: set_bool_def routed_put_generic string_view_put_generic)

section \<open>Lemmas: rebuilding a bag from its snapshot\<close>

text \<open>The effect of a sequence of string assignments with distinct names on each typed field.\<close>

lemma fold_set_string_algo:
  assumes "distinct (map fst ps)"
  shows "attr_algo (fold (\<lambda>(n, s) a. set_string n s a) ps a) =
    (case map_of ps KMIP_ATTR_NAME_CRYPTO_ALG of None \<Rightarrow> attr_algo a
     | Some s \<Rightarrow> (case parse_algorithm_string s of None \<Rightarrow> attr_algo a | Some alg \<Rightarrow> Some alg))"
  using assms
proof (induction ps arbitrary: a)
  case (Cons p ps)
  obtain n s where p: "p = (n, s)" by (cases p)
  have "map_of ps n = None" using Cons.prems p by (simp add: map_of_eq_None_iff)
  with Cons.IH [of "set_string n s a"] Cons.prems p show ?case
    by (auto simp: set_string_def put_generic_def split: option.splits if_splits)
qed simp

lemma fold_set_string_length:
  assumes "distinct (map fst ps)"
  shows "attr_crypto_length (fold (\<lambda>(n, s) a. set_string n s a) ps a) =
    (case map_of ps KMIP_ATTR_NAME_CRYPTO_LEN of None \<Rightarrow> attr_crypto_length a
     | Some s \<Rightarrow> (case strtol s of None \<Rightarrow> attr_crypto_length a | Some v \<Rightarrow> Some (word_of_int v)))"
  using assms
proof (induction ps arbitrary: a)
  case (Cons p ps)
  obtain n s where p: "p = (n, s)" by (cases p)
  have "map_of ps n = None" using Cons.prems p by (simp add: map_of_eq_None_iff)
  with Cons.IH [of "set_string n s a"] Cons.prems p show ?case
    by (auto simp: set_string_def put_generic_def split: option.splits if_splits)
qed simp

lemma fold_set_string_state:
  assumes "distinct (map fst ps)"
  shows "attr_state (fold (\<lambda>(n, s) a. set_string n s a) ps a) =
    (case map_of ps KMIP_ATTR_NAME_STATE of None \<Rightarrow> attr_state a
     | Some s \<Rightarrow> (case parse_state_string s of None \<Rightarrow> attr_state a | Some st \<Rightarrow> Some st))"
  using assms
proof (induction ps arbitrary: a)
  case (Cons p ps)
  obtain n s where p: "p = (n, s)" by (cases p)
  have "map_of ps n = None" using Cons.prems p by (simp add: map_of_eq_None_iff)
  with Cons.IH [of "set_string n s a"] Cons.prems p show ?case
    by (auto simp: set_string_def put_generic_def split: option.splits if_splits)
qed simp

lemma fold_set_string_generic:
  assumes "n \<notin> well_known" "distinct (map fst ps)"
  shows "map_of (attr_generic (fold (\<lambda>(n, s) a. set_string n s a) ps a)) n =
    (case map_of ps n of None \<Rightarrow> map_of (attr_generic a) n | Some s \<Rightarrow> Some (AV_string s))"
  using assms(2)
proof (induction ps arbitrary: a)
  case (Cons p ps)
  obtain k s where p: "p = (k, s)" by (cases p)
  have "map_of ps k = None" using Cons.prems p by (simp add: map_of_eq_None_iff)
  with Cons.IH [of "set_string k s a"] Cons.prems p assms(1) show ?case
    by (auto simp: set_string_def put_generic_def update_conv' well_known_def
        split: option.splits if_splits)
qed simp

lemma distinct_as_string_map: "distinct (map fst (as_string_map a))"
proof -
  have put: "distinct (map fst m) \<Longrightarrow> distinct (map fst (put_text n v m))" for n v m
    by (simp add: put_text_def distinct_update split: option.splits)
  show ?thesis
    unfolding as_string_map_def Let_def by (intro put distinct_fold_update) simp
qed

lemma word_of_sint32 [simp]: "strtol (int_to_string (sint (l :: i32))) = Some (sint l)"
  using sint_range_size [of l] by (intro strtol_int_to_string) (simp_all add: word_size)

section \<open>Properties\<close>

text \<open>C34. Merging is map override: for bags in which no well-known name hides in the generic map, the
  string snapshot of \<open>merge\<close> is the snapshot of the receiver overridden by that of the argument, the
  result is such a bag again, and an attribute is reported present exactly when the snapshot has it.\<close>

theorem merge_view:
  assumes "routed this" "routed other"
  shows "routed (merge this other) \<and>
    map_of (as_string_map (merge this other)) =
      map_of (as_string_map this) ++ map_of (as_string_map other) \<and>
    (\<forall>n. has_attribute n (merge this other) \<longleftrightarrow> has_attribute n this \<or> has_attribute n other)"
proof (intro conjI allI)
  show r: "routed (merge this other)" using assms by (rule routed_merge)
  have gen: "map_of (attr_generic (merge this other)) =
      map_of (attr_generic this) ++ map_of (attr_generic other)"
    using map_of_fold_update [of "\<lambda>v. v" "attr_generic other" "attr_generic this"] assms(2)
    by (simp add: merge_def map_of_rev_distinct routed_def option.map_ident comp_def)
  have typed: "typed_text (merge this other) = typed_text this ++ typed_text other"
    by (auto simp: typed_text_def merge_def map_add_def fun_eq_iff split: option.splits)
  show "string_view (merge this other) = string_view this ++ string_view other"
    by (rule ext) (simp add: string_view_app r assms gen typed map_add_def split: option.split)
  show "has_attribute n (merge this other) \<longleftrightarrow> has_attribute n this \<or> has_attribute n other" for n
    by (auto simp: has_attribute_def gen) (auto simp: merge_def)
qed

theorem merge_view_witness:
  "map_of (as_string_map (merge (set_string ''Name'' ''k'' (set_state KMIP_STATE_ACTIVE no_attributes))
      (set_algorithm KMIP_CRYPTOALG_AES (set_int64 ''Lease'' 5 no_attributes)))) =
   map_of (as_string_map (set_string ''Name'' ''k'' (set_state KMIP_STATE_ACTIVE no_attributes))) ++
   map_of (as_string_map (set_algorithm KMIP_CRYPTOALG_AES (set_int64 ''Lease'' 5 no_attributes)))"
proof -
  have "routed (set_int64 ''Lease'' 5 no_attributes)"
    by (rule int64_setter.put_routed) (simp_all add: well_known_def kmip_consts)
  then show ?thesis
    using merge_view [of "set_string ''Name'' ''k'' (set_state KMIP_STATE_ACTIVE no_attributes)"
        "set_algorithm KMIP_CRYPTOALG_AES (set_int64 ''Lease'' 5 no_attributes)"]
    by simp
qed

text \<open>Rebuilding from the snapshot: assigning every entry of \<open>as_string_map\<close> to an empty bag, in
  whatever order the map is iterated, restores algorithm, length and lifecycle state exactly, for every
  32-bit algorithm number and every length, and each generic attribute with its text.\<close>

theorem snapshot_rebuild:
  assumes "routed a" "\<forall>st. attr_state a = Some st \<longrightarrow> is_valid_state st"
    and "set ps = set (as_string_map a)" "distinct (map fst ps)"
    and r_def: "r = fold (\<lambda>(n, s) b. set_string n s b) ps no_attributes"
  shows "attr_algo r = attr_algo a \<and> attr_crypto_length r = attr_crypto_length a \<and>
    attr_state r = attr_state a \<and>
    (\<forall>n. n \<notin> well_known \<longrightarrow> get_as_string n r = get_as_string n a)"
proof -
  have view: "map_of ps = string_view a"
    using assms(3,4) distinct_as_string_map by (rule map_of_inject_set [THEN iffD2, rotated 2])
  show ?thesis
    unfolding r_def get_as_string_def
    using assms(2) routed_generic_None [OF assms(1)]
    by (auto simp: fold_set_string_algo fold_set_string_length fold_set_string_state
        fold_set_string_generic view string_view_app [OF assms(1)] assms(4) typed_text_def
        no_attributes_def well_known_def split: option.splits)
qed

theorem snapshot_rebuild_witness:
  "attr_algo (fold (\<lambda>(n, s) b. set_string n s b)
      (as_string_map (set_algorithm 0x1F (set_crypto_length (- 8) no_attributes))) no_attributes) = Some 0x1F"
  using snapshot_rebuild [OF _ _ refl distinct_as_string_map refl,
      of "set_algorithm 0x1F (set_crypto_length (- 8) no_attributes)"]
  by (simp add: set_algorithm_def set_crypto_length_def no_attributes_def routed_def kmip_consts)

text \<open>The 64-bit and boolean overloads bypass the routing: an attribute stored under a well-known
  name through them appears in the snapshot while \<open>has_attribute\<close> still denies it, and the typed field
  is unchanged.\<close>

theorem wide_setters_not_routed:
  "map_of (as_string_map (set_int64 KMIP_ATTR_NAME_CRYPTO_LEN v no_attributes)) KMIP_ATTR_NAME_CRYPTO_LEN =
     Some (int_to_string (sint v)) \<and>
   \<not> has_attribute KMIP_ATTR_NAME_CRYPTO_LEN (set_int64 KMIP_ATTR_NAME_CRYPTO_LEN v no_attributes) \<and>
   attr_crypto_length (set_int64 KMIP_ATTR_NAME_CRYPTO_LEN v no_attributes) = None \<and>
   map_of (as_string_map (set_bool KMIP_ATTR_NAME_STATE b no_attributes)) KMIP_ATTR_NAME_STATE =
     Some (if b then ''true'' else ''false'') \<and>
   \<not> has_attribute KMIP_ATTR_NAME_STATE (set_bool KMIP_ATTR_NAME_STATE b no_attributes)"
  by (simp add: set_int64_def set_bool_def put_generic_def no_attributes_def as_string_map_def
      put_text_def has_attribute_def)

end
