(* ===== verification/Attributes_Parser.thy ===== *)
theory Attributes_Parser
  imports Kmip_Attributes
begin

text \<open>
  \<open>src/kmipcore/src/attributes_parser.cpp\<close>: from attribute elements to an attribute bag, for the
  name/value structures of KMIP 1.x and the typed elements of KMIP 2.0.  A pointer of the argument
  vector may be null; the first accessor or check that throws ends the whole parse.

  \<open>attrs_valid\<close> is what every caller may assume of a parsed bag.  The functional lemmas describe the
  bag through its string view, using the setter contract of \<open>Kmip_Attributes\<close>.
\<close>

section \<open>Rendering of values\<close>

definition date_to_string :: "i64 \<Rightarrow> string" where
  "date_to_string seconds = iso_datetime (sint seconds)"

fun bytes_to_hex :: "byte list \<Rightarrow> string" where
  "bytes_to_hex [] = []"
| "bytes_to_hex [b] = hex_byte b"
| "bytes_to_hex (b # bs) = hex_byte b @ '' '' @ bytes_to_hex bs"

definition generic_name_for_tag :: "u32 \<Rightarrow> string" where
  "generic_name_for_tag tag_value = ''Tag(0x'' @ zero_fill 6 (nat_to_hex True (unat tag_value)) @ '')''"

section \<open>Storing one attribute\<close>

definition store_generic :: "Attributes \<Rightarrow> string \<Rightarrow> element option \<Rightarrow> Attributes res" where
  "store_generic result name p =
    (case p of None \<Rightarrow> Inr result
     | Some e \<Rightarrow>
       if elem_type e = KMIP_TYPE_TEXT_STRING then
         bind_res (toString e) (\<lambda>s. Inr (set_string name s result))
       else if elem_type e = KMIP_TYPE_INTEGER then
         bind_res (toInt e) (\<lambda>i. Inr (set_int32 name i result))
       else if elem_type e = KMIP_TYPE_ENUMERATION then
         bind_res (toEnum e) (\<lambda>i. Inr (set_int32 name i result))
       else if elem_type e = KMIP_TYPE_LONG_INTEGER then
         bind_res (toLong e) (\<lambda>l. Inr (set_int64 name l result))
       else if elem_type e = KMIP_TYPE_DATE_TIME then
         bind_res (toLong e) (\<lambda>l. Inr (set_string name (date_to_string l) result))
       else if elem_type e = KMIP_TYPE_DATE_TIME_EXTENDED then
         bind_res (toLong e) (\<lambda>l. Inr (set_int64 name l result))
       else if elem_type e = KMIP_TYPE_BOOLEAN then
         bind_res (toBool e) (\<lambda>b. Inr (set_bool name b result))
       else if elem_type e = KMIP_TYPE_BYTE_STRING \<or> elem_type e = KMIP_TYPE_BIG_INTEGER then
         bind_res (toBytes e) (\<lambda>bs. Inr (set_string name (bytes_to_hex bs) result))
       else if elem_type e = KMIP_TYPE_INTERVAL then
         bind_res (toInterval e) (\<lambda>i. Inr (set_int64 name (ucast i) result))
       else if elem_type e = KMIP_TYPE_STRUCTURE then
         (case getChild KMIP_TAG_NAME_VALUE e of
            Some name_val \<Rightarrow> bind_res (toString name_val) (\<lambda>s. Inr (set_string name s result))
          | None \<Rightarrow> Inr (set_string name ''<STRUCTURE>'' result))
       else Inr result)"

text \<open>The default branch for typed elements without a name of their own.\<close>

definition store_unmapped :: "Attributes \<Rightarrow> element \<Rightarrow> Attributes res" where
  "store_unmapped result e =
    (let name = generic_name_for_tag (elem_tag e) in
     if elem_type e = KMIP_TYPE_TEXT_STRING then
       bind_res (toString e) (\<lambda>s. Inr (set_string name s result))
     else if elem_type e = KMIP_TYPE_INTEGER then
       bind_res (toInt e) (\<lambda>i. Inr (set_int32 name i result))
     else if elem_type e = KMIP_TYPE_ENUMERATION then
       bind_res (toEnum e) (\<lambda>i. Inr (set_int32 name i result))
     else if elem_type e = KMIP_TYPE_LONG_INTEGER \<or> elem_type e = KMIP_TYPE_DATE_TIME \<or>
         elem_type e = KMIP_TYPE_DATE_TIME_EXTENDED then
       bind_res (toLong e) (\<lambda>l. Inr (set_int64 name l result))
     else if elem_type e = KMIP_TYPE_BOOLEAN then
       bind_res (toBool e) (\<lambda>b. Inr (set_bool name b result))
     else if elem_type e = KMIP_TYPE_BYTE_STRING \<or> elem_type e = KMIP_TYPE_BIG_INTEGER then
       bind_res (toBytes e) (\<lambda>bs. Inr (set_string name (bytes_to_hex bs) result))
     else if elem_type e = KMIP_TYPE_INTERVAL then
       bind_res (toInterval e) (\<lambda>i. Inr (set_int64 name (ucast i) result))
     else if elem_type e = KMIP_TYPE_STRUCTURE then Inr (set_string name ''<STRUCTURE>'' result)
     else Inr result)"

definition parse_v2_typed_attribute :: "Attributes \<Rightarrow> element \<Rightarrow> Attributes res" where
  "parse_v2_typed_attribute result e =
    (if elem_tag e = KMIP_TAG_CRYPTOGRAPHIC_ALGORITHM then
       bind_res (toEnum e) (\<lambda>i. bind_res (checked_cryptographic_algorithm i)
         (\<lambda>alg. Inr (set_algorithm alg result)))
     else if elem_tag e = KMIP_TAG_CRYPTOGRAPHIC_LENGTH then
       bind_res (toInt e) (\<lambda>i. Inr (set_crypto_length i result))
     else if elem_tag e = KMIP_TAG_CRYPTOGRAPHIC_USAGE_MASK then
       bind_res (toInt e) (\<lambda>i. bind_res (checked_cryptographic_usage_mask i)
         (\<lambda>bits. Inr (set_usage_mask bits result)))
     else if elem_tag e = KMIP_TAG_STATE then
       bind_res (toEnum e) (\<lambda>i. bind_res (checked_state i) (\<lambda>st. Inr (set_state st result)))
     else if elem_tag e = KMIP_TAG_NAME then
       (case getChild KMIP_TAG_NAME_VALUE e of
          Some name_val \<Rightarrow>
            bind_res (toString name_val) (\<lambda>s. Inr (set_string KMIP_ATTR_NAME_NAME s result))
        | None \<Rightarrow> Inr result)
     else if elem_tag e = KMIP_TAG_OBJECT_GROUP then
       bind_res (toString e) (\<lambda>s. Inr (set_string KMIP_ATTR_NAME_GROUP s result))
     else if elem_tag e = KMIP_TAG_UNIQUE_IDENTIFIER then
       bind_res (toString e) (\<lambda>s. Inr (set_string KMIP_ATTR_NAME_UNIQUE_IDENTIFIER s result))
     else if elem_tag e = KMIP_TAG_ACTIVATION_DATE then
       bind_res (toLong e)
         (\<lambda>l. Inr (set_string KMIP_ATTR_NAME_ACTIVATION_DATE (date_to_string l) result))
     else if elem_tag e = KMIP_TAG_DEACTIVATION_DATE then
       bind_res (toLong e)
         (\<lambda>l. Inr (set_string KMIP_ATTR_NAME_DEACTIVATION_DATE (date_to_string l) result))
     else if elem_tag e = KMIP_TAG_PROCESS_START_DATE then
       bind_res (toLong e)
         (\<lambda>l. Inr (set_string KMIP_ATTR_NAME_PROCESS_START_DATE (date_to_string l) result))
     else if elem_tag e = KMIP_TAG_PROTECT_STOP_DATE then
       bind_res (toLong e)
         (\<lambda>l. Inr (set_string KMIP_ATTR_NAME_PROTECT_STOP_DATE (date_to_string l) result))
     else store_unmapped result e)"

section \<open>Parsing a list of attributes\<close>

definition parse_named_attribute ::
    "string \<Rightarrow> element option \<Rightarrow> Attributes \<Rightarrow> Attributes res" where
  "parse_named_attribute raw_name p result =
    (if raw_name = ''Cryptographic Algorithm'' then
       (case p of None \<Rightarrow> Inr result
        | Some e \<Rightarrow> bind_res (toEnum e) (\<lambda>i. bind_res (checked_cryptographic_algorithm i)
            (\<lambda>alg. Inr (set_algorithm alg result))))
     else if raw_name = ''Cryptographic Length'' then
       (case p of None \<Rightarrow> Inr result
        | Some e \<Rightarrow> bind_res (toInt e) (\<lambda>i. Inr (set_crypto_length i result)))
     else if raw_name = ''Cryptographic Usage Mask'' then
       (case p of None \<Rightarrow> Inr result
        | Some e \<Rightarrow> bind_res (toInt e) (\<lambda>i. bind_res (checked_cryptographic_usage_mask i)
            (\<lambda>bits. Inr (set_usage_mask bits result))))
     else if raw_name = ''State'' then
       (case p of None \<Rightarrow> Inr result
        | Some e \<Rightarrow> bind_res (toEnum e) (\<lambda>i. bind_res (checked_state i)
            (\<lambda>st. Inr (set_state st result))))
     else
       store_generic result
         (if raw_name = ''UniqueID'' then KMIP_ATTR_NAME_UNIQUE_IDENTIFIER else raw_name) p)"

definition parse_attribute :: "element option \<Rightarrow> Attributes \<Rightarrow> Attributes res" where
  "parse_attribute p result =
    (case p of None \<Rightarrow> Inr result
     | Some attribute \<Rightarrow>
       if elem_tag attribute = KMIP_TAG_ATTRIBUTE then
         (case getChild KMIP_TAG_ATTRIBUTE_NAME attribute of None \<Rightarrow> Inr result
          | Some attr_name_elem \<Rightarrow>
            bind_res (toString attr_name_elem) (\<lambda>raw_name.
              parse_named_attribute raw_name (getChild KMIP_TAG_ATTRIBUTE_VALUE attribute) result))
       else parse_v2_typed_attribute result attribute)"

definition AttributesParser_parse :: "element option list \<Rightarrow> Attributes res" where
  "AttributesParser_parse attributes = fold_res parse_attribute attributes no_attributes"

section \<open>Lemmas: what a parsed bag satisfies\<close>

definition attrs_valid :: "Attributes \<Rightarrow> bool" where
  "attrs_valid a \<longleftrightarrow> routed a \<and>
     (\<forall>alg. attr_algo a = Some alg \<longrightarrow> is_valid_cryptographic_algorithm alg \<and> alg \<noteq> KMIP_CRYPTOALG_UNSET) \<and>
     (\<forall>bits. attr_usage_mask a = Some bits \<longrightarrow>
        is_valid_cryptographic_usage_mask bits \<and> bits \<noteq> KMIP_CRYPTOMASK_UNSET) \<and>
     (\<forall>st. attr_state a = Some st \<longrightarrow> is_valid_state st)"

lemma put_generic_typed [simp]:
  "attr_algo (put_generic n v a) = attr_algo a"
  "attr_crypto_length (put_generic n v a) = attr_crypto_length a"
  "attr_usage_mask (put_generic n v a) = attr_usage_mask a"
  "attr_state (put_generic n v a) = attr_state a"
  by (simp_all add: put_generic_def)

lemma attrs_valid_no_attributes [simp]: "attrs_valid no_attributes"
  by (simp add: attrs_valid_def) (simp add: no_attributes_def)

lemma attrs_valid_put_generic: "attrs_valid a \<Longrightarrow> n \<notin> well_known \<Longrightarrow> attrs_valid (put_generic n v a)"
  by (simp add: attrs_valid_def routed_put_generic)

lemma attrs_valid_setters:
  assumes "attrs_valid a" "n \<notin> well_known"
  shows "attrs_valid (set_string n s a)" "attrs_valid (set_int32 n i a)"
    "attrs_valid (set_int64 n l a)" "attrs_valid (set_bool n b a)"
  using assms by (simp_all add: setters_generic set_int64_def set_bool_def attrs_valid_put_generic)

lemma attrs_valid_typed:
  "attrs_valid a \<Longrightarrow> is_valid_cryptographic_algorithm alg \<Longrightarrow> attrs_valid (set_algorithm alg a)"
  "attrs_valid a \<Longrightarrow> attrs_valid (set_crypto_length len a)"
  "attrs_valid a \<Longrightarrow> is_valid_cryptographic_usage_mask bits \<Longrightarrow> attrs_valid (set_usage_mask bits a)"
  "attrs_valid a \<Longrightarrow> is_valid_state st \<Longrightarrow> attrs_valid (set_state st a)"
  by (simp_all add: attrs_valid_def)
     (simp_all add: set_algorithm_def set_crypto_length_def set_usage_mask_def set_state_def)

lemma other_names:
  "KMIP_ATTR_NAME_NAME \<notin> well_known" "KMIP_ATTR_NAME_GROUP \<notin> well_known"
  "KMIP_ATTR_NAME_UNIQUE_IDENTIFIER \<notin> well_known" "KMIP_ATTR_NAME_ACTIVATION_DATE \<notin> well_known"
  "KMIP_ATTR_NAME_DEACTIVATION_DATE \<notin> well_known" "KMIP_ATTR_NAME_PROCESS_START_DATE \<notin> well_known"
  "KMIP_ATTR_NAME_PROTECT_STOP_DATE \<notin> well_known" "generic_name_for_tag t \<notin> well_known"
  by (simp_all add: well_known_def generic_name_for_tag_def kmip_consts)

lemma store_generic_valid:
  "attrs_valid a \<Longrightarrow> n \<notin> well_known \<Longrightarrow> store_generic a n p = Inr r \<Longrightarrow> attrs_valid r"
  by (auto simp: store_generic_def bind_res_Inr_iff attrs_valid_setters
      split: option.splits if_splits)

lemma store_unmapped_valid: "attrs_valid a \<Longrightarrow> store_unmapped a e = Inr r \<Longrightarrow> attrs_valid r"
  by (auto simp: store_unmapped_def Let_def bind_res_Inr_iff attrs_valid_setters other_names
      split: if_splits)

lemma parse_v2_valid: "attrs_valid a \<Longrightarrow> parse_v2_typed_attribute a e = Inr r \<Longrightarrow> attrs_valid r"
  unfolding parse_v2_typed_attribute_def
  by (auto simp: bind_res_Inr_iff checked_Inr_iff attrs_valid_setters attrs_valid_typed other_names
      dest: store_unmapped_valid split: option.splits if_splits)

lemma parse_named_valid:
  "attrs_valid a \<Longrightarrow> parse_named_attribute n p a = Inr r \<Longrightarrow> attrs_valid r"
  unfolding parse_named_attribute_def
  by (auto simp: bind_res_Inr_iff checked_Inr_iff attrs_valid_typed well_known_def kmip_consts
      dest!: store_generic_valid [rotated 2] split: option.splits if_splits)

lemma parse_attribute_valid:
  "attrs_valid a \<Longrightarrow> parse_attribute p a = Inr r \<Longrightarrow> attrs_valid r"
  by (auto simp: parse_attribute_def bind_res_Inr_iff
      dest: parse_named_valid parse_v2_valid split: option.splits if_splits)

text \<open>Every failure of the parser is a library exception.\<close>

lemma checked_Inl:
  "checked_cryptographic_algorithm i = Inl err \<Longrightarrow> is_exception err"
  "checked_cryptographic_usage_mask i = Inl err \<Longrightarrow> is_exception err"
  "checked_state i = Inl err \<Longrightarrow> is_exception err"
  by (auto simp: checked_cryptographic_algorithm_def checked_cryptographic_usage_mask_def
      checked_state_def split: if_splits)

lemma store_generic_Inl: "store_generic a n p = Inl err \<Longrightarrow> is_exception err"
  by (auto simp: store_generic_def bind_res_Inl_iff dest: accessor_Inl
      split: option.splits if_splits)

lemma store_unmapped_Inl: "store_unmapped a e = Inl err \<Longrightarrow> is_exception err"
  by (auto simp: store_unmapped_def Let_def bind_res_Inl_iff dest: accessor_Inl split: if_splits)

lemma parse_v2_Inl: "parse_v2_typed_attribute a e = Inl err \<Longrightarrow> is_exception err"
  unfolding parse_v2_typed_attribute_def
  by (auto simp: bind_res_Inl_iff dest: accessor_Inl checked_Inl store_unmapped_Inl
      split: option.splits if_splits)

lemma parse_named_Inl: "parse_named_attribute n p a = Inl err \<Longrightarrow> is_exception err"
  unfolding parse_named_attribute_def
  by (auto simp: bind_res_Inl_iff dest: accessor_Inl checked_Inl store_generic_Inl
      split: option.splits if_splits)

lemma parse_attribute_Inl: "parse_attribute p a = Inl err \<Longrightarrow> is_exception err"
  by (auto simp: parse_attribute_def bind_res_Inl_iff
      dest: accessor_Inl parse_named_Inl parse_v2_Inl split: option.splits if_splits)

lemma fold_parse_Inl: "fold_res parse_attribute ps a = Inl err \<Longrightarrow> is_exception err"
  by (induction ps arbitrary: a) (auto simp: bind_res_Inl_iff dest: parse_attribute_Inl)

section \<open>Lemmas: the view of generic attributes\<close>

text \<open>The text under which a value of each type is stored, and the values that can be stored: the
  type code matches the variant and the Name Value child of a structure is a text string.\<close>

definition attribute_text :: "element \<Rightarrow> string" where
  "attribute_text e =
    (case elem_value e of
       TextString s \<Rightarrow> s
     | Integer i \<Rightarrow> int_to_string (sint i)
     | Enumeration i \<Rightarrow> int_to_string (sint i)
     | LongInteger l \<Rightarrow> int_to_string (sint l)
     | DateTime l \<Rightarrow> iso_datetime (sint l)
     | DateTimeExtended l \<Rightarrow> int_to_string (sint l)
     | Boolean b \<Rightarrow> if b then ''true'' else ''false''
     | ByteString bs \<Rightarrow> bytes_to_hex bs
     | BigInteger bs \<Rightarrow> bytes_to_hex bs
     | Interval i \<Rightarrow> int_to_string (int (unat i))
     | Structure cs \<Rightarrow> (case struct_find KMIP_TAG_NAME_VALUE cs of
         Some (Element _ _ (TextString s)) \<Rightarrow> s | _ \<Rightarrow> ''<STRUCTURE>''))"

definition storable :: "element \<Rightarrow> bool" where
  "storable e \<longleftrightarrow> elem_type e = type_of_value (elem_value e) \<and>
     (\<forall>c. getChild KMIP_TAG_NAME_VALUE e = Some c \<longrightarrow> (\<exists>s. elem_value c = TextString s))"

lemma sint_ucast_u32: "sint (ucast (i :: u32) :: i64) = int (unat i)"
proof -
  have "uint i < 4294967296" using uint_bounded [of i] by simp
  moreover have "0 \<le> uint i" by (rule uint_ge_0)
  ultimately have "- 9223372036854775808 \<le> uint i \<and> uint i < 9223372036854775808" by linarith
  then show ?thesis by (simp add: signed_ucast_eq signed_take_bit_int_eq_self_iff)
qed

lemma store_generic_view:
  assumes "routed a" "n \<notin> well_known" "storable e"
  shows "\<exists>r. store_generic a n (Some e) = Inr r \<and> routed r \<and>
    string_view r = (string_view a)(n \<mapsto> attribute_text e)"
proof (cases "elem_value e")
  case (Structure cs)
  show ?thesis
  proof (cases "struct_find KMIP_TAG_NAME_VALUE cs")
    case (Some c)
    then obtain t ty s where "c = Element t ty (TextString s)"
      using assms(3) Structure by (cases c) (auto simp: storable_def getChild_def)
    with Some Structure assms show ?thesis
      by (simp add: store_generic_def storable_def type_of_value_def getChild_def toString_def
          attribute_text_def string_setter.put_view kmip_consts)
  qed (use Structure assms in \<open>simp add: store_generic_def storable_def type_of_value_def getChild_def
      attribute_text_def string_setter.put_view kmip_consts\<close>)
qed (use assms in \<open>simp_all add: store_generic_def storable_def type_of_value_def accessor_defs
    attribute_text_def date_to_string_def sint_ucast_u32 string_setter.put_view int32_setter.put_view
    int64_setter.put_view bool_setter.put_view int64_setter.put_routed bool_setter.put_routed
    kmip_consts\<close>)

text \<open>A KMIP 1.x attribute structure, as a server sends it.\<close>

definition v1_attribute :: "string \<times> element \<Rightarrow> element" where
  "v1_attribute = (\<lambda>(n, e). make_structure KMIP_TAG_ATTRIBUTE [createTextString KMIP_TAG_ATTRIBUTE_NAME n, e])"

definition generic_attribute :: "string \<times> element \<Rightarrow> bool" where
  "generic_attribute = (\<lambda>(n, e). n \<notin> well_known \<and> n \<noteq> ''UniqueID'' \<and>
     elem_tag e = KMIP_TAG_ATTRIBUTE_VALUE \<and> storable e)"

lemma parse_attribute_v1:
  assumes "elem_tag e = KMIP_TAG_ATTRIBUTE_VALUE"
  shows "parse_attribute (Some (v1_attribute (n, e))) a = parse_named_attribute n (Some e) a"
  using assms by (simp add: parse_attribute_def v1_attribute_def kmip_consts)

lemma parse_named_generic:
  "n \<notin> well_known \<Longrightarrow> n \<noteq> ''UniqueID'' \<Longrightarrow> parse_named_attribute n p a = store_generic a n p"
  by (simp add: parse_named_attribute_def well_known_def kmip_consts)

lemma fold_parse_generic:
  assumes "list_all generic_attribute ps" "routed a"
  shows "\<exists>r. fold_res parse_attribute (map (Some \<circ> v1_attribute) ps) a = Inr r \<and> routed r \<and>
    string_view r = string_view a ++ map_of (rev (map (\<lambda>(n, e). (n, attribute_text e)) ps))"
  using assms
proof (induction ps arbitrary: a)
  case (Cons p ps)
  obtain n e where p: "p = (n, e)" by (cases p)
  have g: "n \<notin> well_known" "n \<noteq> ''UniqueID''" "elem_tag e = KMIP_TAG_ATTRIBUTE_VALUE" "storable e"
    using Cons.prems(1) p by (auto simp: generic_attribute_def)
  obtain r where r: "store_generic a n (Some e) = Inr r" "routed r"
      "string_view r = (string_view a)(n \<mapsto> attribute_text e)"
    using store_generic_view [OF Cons.prems(2) g(1,4)] by blast
  have "list_all generic_attribute ps" using Cons.prems(1) by simp
  from Cons.IH [OF this r(2)] obtain r' where r': "fold_res parse_attribute (map (Some \<circ> v1_attribute) ps) r = Inr r'"
      "routed r'" "string_view r' = string_view r ++ map_of (rev (map (\<lambda>(n, e). (n, attribute_text e)) ps))"
    by blast
  have "string_view r' = string_view a ++ map_of (rev (map (\<lambda>(n, e). (n, attribute_text e)) (p # ps)))"
    unfolding r'(3) r(3) p by simp
  with r(1) r'(1,2) g show ?case by (auto simp: p parse_attribute_v1 parse_named_generic comp_def)
qed simp

section \<open>Properties\<close>

text \<open>C29. The attribute parser is total and its result can be relied on: any list of elements, null
  pointers included, either raises a library exception or gives a bag in which no well-known name hides
  in the generic map and every typed field holds a value that its enumeration defines.\<close>

theorem parse_attributes_total:
  "case AttributesParser_parse attributes of Inl err \<Rightarrow> is_exception err | Inr r \<Rightarrow> attrs_valid r"
proof (cases "AttributesParser_parse attributes")
  case (Inl err)
  then show ?thesis by (auto simp: AttributesParser_parse_def dest: fold_parse_Inl)
next
  case (Inr r)
  then have "attrs_valid r"
    using fold_res_invariant [of parse_attribute attributes no_attributes r attrs_valid]
    by (simp add: AttributesParser_parse_def parse_attribute_valid)
  then show ?thesis by (simp add: Inr)
qed

text \<open>No attribute of a KMIP 1.x response is lost: a list of named attributes of any TTLV type is
  parsed into a bag whose snapshot maps each name to the text of its last value, and nothing else.\<close>

theorem parse_keeps_generic:
  assumes "list_all generic_attribute ps"
  shows "\<exists>r. AttributesParser_parse (map (Some \<circ> v1_attribute) ps) = Inr r \<and>
    map_of (as_string_map r) = map_of (rev (map (\<lambda>(n, e). (n, attribute_text e)) ps))"
proof -
  have "string_view no_attributes = Map.empty"
    by (simp add: as_string_map_def no_attributes_def put_text_def)
  then show ?thesis
    using fold_parse_generic [OF assms routed_no_attributes] by (auto simp: AttributesParser_parse_def)
qed

theorem parse_keeps_generic_witness:
  "\<exists>r. AttributesParser_parse (map (Some \<circ> v1_attribute)
       [(''x-count'', createInteger KMIP_TAG_ATTRIBUTE_VALUE 3), (''x-blob'', createByteString KMIP_TAG_ATTRIBUTE_VALUE [1, 255]),
        (''x-count'', createBoolean KMIP_TAG_ATTRIBUTE_VALUE True)]) = Inr r \<and>
     map_of (as_string_map r) = map_of [(''x-count'', ''true''), (''x-blob'', bytes_to_hex [1, 255]),
        (''x-count'', ''3'')]"
proof -
  have three: "int_to_string 3 = ''3''"
    by code_simp
  show ?thesis
    using parse_keeps_generic [of "[(''x-count'', createInteger KMIP_TAG_ATTRIBUTE_VALUE 3),
        (''x-blob'', createByteString KMIP_TAG_ATTRIBUTE_VALUE [1, 255]),
        (''x-count'', createBoolean KMIP_TAG_ATTRIBUTE_VALUE True)]"]
    by (simp add: generic_attribute_def storable_def well_known_def create_defs type_of_value_def
        getChild_def attribute_text_def three kmip_consts)
qed

end
