(* ===== verification/Kmip_Objects.thy ===== *)
theory Kmip_Objects
  imports Attributes_Parser
begin

text \<open>
  \<open>src/kmipcore/include/kmipcore/managed_object.hpp\<close>, \<open>key.hpp\<close> and \<open>secret.hpp\<close>: the values the
  protocol layer exchanges with its client.  A class is a record of its members; the wiping of key
  bytes on destruction has no counterpart in a pure model.
\<close>

datatype KeyType = KT_UNSET | SYMMETRIC_KEY | PUBLIC_KEY | PRIVATE_KEY | CERTIFICATE

record Key =
  key_value :: "byte list"
  key_attributes :: Attributes
  key_type :: KeyType
  key_format :: "i32 option"

definition new_Key :: "byte list \<Rightarrow> KeyType \<Rightarrow> Attributes \<Rightarrow> Key" where
  "new_Key val k_type attrs =
     \<lparr>key_value = val, key_attributes = attrs, key_type = k_type, key_format = None\<rparr>"

record Secret =
  secret_value :: "byte list"
  secret_attributes :: Attributes
  secret_type :: u32

definition new_Secret :: "byte list \<Rightarrow> u32 \<Rightarrow> Attributes \<Rightarrow> Secret" where
  "new_Secret val kind attrs = \<lparr>secret_value = val, secret_attributes = attrs, secret_type = kind\<rparr>"

text \<open>The setters and text helpers of \<open>ManagedObject\<close>, for either kind of object.\<close>

definition key_set_value :: "byte list \<Rightarrow> Key \<Rightarrow> Key" where
  "key_set_value val k = k\<lparr>key_value := val\<rparr>"

definition key_set_attribute :: "string \<Rightarrow> string \<Rightarrow> Key \<Rightarrow> Key" where
  "key_set_attribute name val k = k\<lparr>key_attributes := set_string name val (key_attributes k)\<rparr>"

definition key_attribute_value :: "string \<Rightarrow> Key \<Rightarrow> string" where
  "key_attribute_value name k = get_string name (key_attributes k)"

definition key_set_key_format :: "i32 option \<Rightarrow> Key \<Rightarrow> Key" where
  "key_set_key_format fmt k = k\<lparr>key_format := fmt\<rparr>"

definition secret_set_value :: "byte list \<Rightarrow> Secret \<Rightarrow> Secret" where
  "secret_set_value val s = s\<lparr>secret_value := val\<rparr>"

definition secret_set_attribute :: "string \<Rightarrow> string \<Rightarrow> Secret \<Rightarrow> Secret" where
  "secret_set_attribute name val s = s\<lparr>secret_attributes := set_string name val (secret_attributes s)\<rparr>"

definition secret_attribute_value :: "string \<Rightarrow> Secret \<Rightarrow> string" where
  "secret_attribute_value name s = get_string name (secret_attributes s)"

definition set_secret_type :: "u32 \<Rightarrow> Secret \<Rightarrow> Secret" where
  "set_secret_type kind s = s\<lparr>secret_type := kind\<rparr>"

definition secret_get_state :: "Secret \<Rightarrow> u32" where
  "secret_get_state s = object_state (secret_attributes s)"

definition secret_set_state :: "u32 \<Rightarrow> Secret \<Rightarrow> Secret" where
  "secret_set_state st s = s\<lparr>secret_attributes := set_state st (secret_attributes s)\<rparr>"

definition secret_from_text :: "string \<Rightarrow> u32 \<Rightarrow> u32 \<Rightarrow> Secret" where
  "secret_from_text str kind st =
     new_Secret (map byte_of_char str) kind (set_state st no_attributes)"

definition secret_as_text :: "Secret \<Rightarrow> string" where
  "secret_as_text s = map char_of_byte (secret_value s)"

lemma secret_text_round_trip [simp]: "secret_as_text (secret_from_text str kind st) = str"
  by (simp add: secret_as_text_def secret_from_text_def new_Secret_def)

text \<open>The text helpers read back what they set, except under a well-known name: there the setter routes the
  text to a typed field, which the reader does not look up.\<close>

lemma get_set_string: "n \<notin> well_known \<Longrightarrow> get_string n (set_string n val a) = val"
  by (simp add: setters_generic get_string_def put_generic_def update_conv')

lemma attribute_helpers:
  assumes "n \<notin> well_known"
  shows "key_attribute_value n (key_set_attribute n val k) = val" "secret_attribute_value n (secret_set_attribute n val s) = val"
  using assms
  by (simp_all add: key_attribute_value_def key_set_attribute_def secret_attribute_value_def secret_set_attribute_def get_set_string)

lemma attribute_helpers_well_known:
  assumes "routed (key_attributes k)" "n \<in> well_known"
  shows "key_attribute_value n (key_set_attribute n val k) = []"
proof -
  have "routed (set_string n val (key_attributes k))" using assms(1) by simp
  then show ?thesis
    using assms(2) by (auto simp: key_attribute_value_def key_set_attribute_def get_string_def routed_def split: option.split dest!: map_of_SomeD)
qed

lemma secret_state_round_trip [simp]: "secret_get_state (secret_set_state st s) = st"
  by (simp add: secret_get_state_def secret_set_state_def object_state_def set_state_def)

end
