(* ===== verification/Kmip_Payloads.thy ===== *)
theory Kmip_Payloads
  imports Kmip_Protocol
begin

text \<open>
  \<open>src/kmipcore/src/kmip_payloads.cpp\<close>: the attribute of KMIP 1.x and the payloads of the Locate
  operation.  The parsers walk over the children and keep the last value of a repeated field, so they
  are folds over the items.  Each class is an instance of \<open>wire_codec\<close>.
\<close>

record Attribute =
  attr_name :: string
  attr_value :: string

definition Attribute_toElement :: "Attribute \<Rightarrow> element" where
  "Attribute_toElement attr =
     make_structure KMIP_TAG_ATTRIBUTE
       [createTextString KMIP_TAG_ATTRIBUTE_NAME (attr_name attr),
        createTextString KMIP_TAG_ATTRIBUTE_VALUE (attr_value attr)]"

definition Attribute_fromElement :: "element option \<Rightarrow> Attribute res" where
  "Attribute_fromElement p =
     (case p of
        None \<Rightarrow> Inl (kmip_exception ''Invalid Attribute element'')
      | Some element \<Rightarrow>
          if elem_tag element \<noteq> KMIP_TAG_ATTRIBUTE then
            Inl (kmip_exception ''Invalid Attribute element'')
          else
            bind_res (read_or [] toString (getChild KMIP_TAG_ATTRIBUTE_NAME element)) (\<lambda>name.
            bind_res (read_or [] toString (getChild KMIP_TAG_ATTRIBUTE_VALUE element)) (\<lambda>val.
            Inr \<lparr>attr_name = name, attr_value = val\<rparr>)))"

record LocateRequestPayload =
  lrq_maximumItems :: i32
  lrq_offsetItems :: i32
  lrq_attributes :: "Attribute list"

definition default_LocateRequestPayload :: LocateRequestPayload where
  "default_LocateRequestPayload = \<lparr>lrq_maximumItems = 0, lrq_offsetItems = 0, lrq_attributes = []\<rparr>"

definition LocateRequestPayload_toElement :: "LocateRequestPayload \<Rightarrow> element" where
  "LocateRequestPayload_toElement req =
     make_structure KMIP_TAG_REQUEST_PAYLOAD
       ((if sint (lrq_maximumItems req) > 0
         then [createInteger KMIP_TAG_MAXIMUM_ITEMS (lrq_maximumItems req)] else []) @
        (if sint (lrq_offsetItems req) > 0
         then [createInteger KMIP_TAG_OFFSET_ITEMS (lrq_offsetItems req)] else []) @
        map Attribute_toElement (lrq_attributes req))"

definition LocateRequestPayload_fromElement :: "element \<Rightarrow> LocateRequestPayload res" where
  "LocateRequestPayload_fromElement element =
     (case asStructure element of
        None \<Rightarrow> Inl (kmip_exception ''Payload is not a structure'')
      | Some items \<Rightarrow>
          fold_res (\<lambda>child req.
            if elem_tag child = KMIP_TAG_MAXIMUM_ITEMS then
              bind_res (toInt child) (\<lambda>v. Inr (req\<lparr>lrq_maximumItems := v\<rparr>))
            else if elem_tag child = KMIP_TAG_OFFSET_ITEMS then
              bind_res (toInt child) (\<lambda>v. Inr (req\<lparr>lrq_offsetItems := v\<rparr>))
            else if elem_tag child = KMIP_TAG_ATTRIBUTE then
              bind_res (Attribute_fromElement (Some child)) (\<lambda>a.
              Inr (req\<lparr>lrq_attributes := lrq_attributes req @ [a]\<rparr>))
            else Inr req) items default_LocateRequestPayload)"

record LocateResponsePayload =
  lrs_locatedItems :: "i32 option"
  lrs_uniqueIdentifiers :: "string list"

definition LocateResponsePayload_toElement :: "LocateResponsePayload \<Rightarrow> element" where
  "LocateResponsePayload_toElement resp =
     make_structure KMIP_TAG_RESPONSE_PAYLOAD
       (opt_child (createInteger KMIP_TAG_LOCATED_ITEMS) (lrs_locatedItems resp) @
        map (createTextString KMIP_TAG_UNIQUE_IDENTIFIER) (lrs_uniqueIdentifiers resp))"

definition LocateResponsePayload_fromElement :: "element \<Rightarrow> LocateResponsePayload res" where
  "LocateResponsePayload_fromElement element =
     (case asStructure element of
        None \<Rightarrow> Inl (kmip_exception ''Response Payload is not a structure'')
      | Some items \<Rightarrow>
          fold_res (\<lambda>child resp.
            if elem_tag child = KMIP_TAG_LOCATED_ITEMS then
              bind_res (toInt child) (\<lambda>v. Inr (resp\<lparr>lrs_locatedItems := Some v\<rparr>))
            else if elem_tag child = KMIP_TAG_UNIQUE_IDENTIFIER then
              bind_res (toString child) (\<lambda>s.
              Inr (resp\<lparr>lrs_uniqueIdentifiers := lrs_uniqueIdentifiers resp @ [s]\<rparr>))
            else Inr resp) items \<lparr>lrs_locatedItems = None, lrs_uniqueIdentifiers = []\<rparr>)"

section \<open>Codecs\<close>

lemma Attribute_from_to [simp]: "Attribute_fromElement (Some (Attribute_toElement a)) = Inr a"
  by (simp add: Attribute_fromElement_def Attribute_toElement_def kmip_consts)

lemma Attribute_tag [simp]: "elem_tag (Attribute_toElement a) = KMIP_TAG_ATTRIBUTE"
  by (simp add: Attribute_toElement_def)

interpretation attribute_codec: wire_codec
  "\<lambda>a. Inr (Attribute_toElement a)" "\<lambda>e. Attribute_fromElement (Some e)" "\<lambda>_. True"
  by unfold_locales auto

text \<open>A repeated field is collected by the fold.\<close>

lemma fold_res_collect:
  assumes "\<And>x s. x \<in> set xs \<Longrightarrow> f (g x) s = Inr (upd x s)"
  shows "fold_res f (map g xs) s = Inr (fold upd xs s)"
  using assms by (induction xs arbitrary: s) auto

lemma fold_attributes:
  "fold (\<lambda>a req. req\<lparr>lrq_attributes := lrq_attributes req @ [a]\<rparr>) xs req =
     req\<lparr>lrq_attributes := lrq_attributes req @ xs\<rparr>"
  by (induction xs arbitrary: req) simp_all

lemma fold_identifiers:
  "fold (\<lambda>s resp. resp\<lparr>lrs_uniqueIdentifiers := lrs_uniqueIdentifiers resp @ [s]\<rparr>) xs resp =
     resp\<lparr>lrs_uniqueIdentifiers := lrs_uniqueIdentifiers resp @ xs\<rparr>"
  by (induction xs arbitrary: resp) simp_all

definition locate_request_valid :: "LocateRequestPayload \<Rightarrow> bool" where
  "locate_request_valid req \<longleftrightarrow> 0 \<le> sint (lrq_maximumItems req) \<and> 0 \<le> sint (lrq_offsetItems req)"

lemma sint_zero_iff: "0 \<le> sint (w :: i32) \<Longrightarrow> \<not> 0 < sint w \<Longrightarrow> w = 0"
proof -
  assume "0 \<le> sint w" "\<not> 0 < sint w"
  then have "sint w = 0" by linarith
  then show "w = 0" by (simp only: signed_eq_0_iff)
qed

lemma LocateRequestPayload_from_to:
  assumes "locate_request_valid req"
  shows "LocateRequestPayload_fromElement (LocateRequestPayload_toElement req) = Inr req"
proof -
  have attrs: "fold_res (\<lambda>child req.
            if elem_tag child = KMIP_TAG_MAXIMUM_ITEMS then
              bind_res (toInt child) (\<lambda>v. Inr (req\<lparr>lrq_maximumItems := v\<rparr>))
            else if elem_tag child = KMIP_TAG_OFFSET_ITEMS then
              bind_res (toInt child) (\<lambda>v. Inr (req\<lparr>lrq_offsetItems := v\<rparr>))
            else if elem_tag child = KMIP_TAG_ATTRIBUTE then
              bind_res (Attribute_fromElement (Some child)) (\<lambda>a.
              Inr (req\<lparr>lrq_attributes := lrq_attributes req @ [a]\<rparr>))
            else Inr req) (map Attribute_toElement xs) r = Inr (r\<lparr>lrq_attributes := lrq_attributes r @ xs\<rparr>)"
    for xs and r :: LocateRequestPayload
    by (subst fold_res_collect [where upd = "\<lambda>a req. req\<lparr>lrq_attributes := lrq_attributes req @ [a]\<rparr>"])
       (simp_all add: fold_attributes kmip_consts)
  show ?thesis
    using assms sint_zero_iff [of "lrq_maximumItems req"] sint_zero_iff [of "lrq_offsetItems req"]
    by (auto simp: LocateRequestPayload_fromElement_def LocateRequestPayload_toElement_def
        locate_request_valid_def default_LocateRequestPayload_def attrs)
       (simp_all add: kmip_consts)
qed

interpretation locate_request_codec: wire_codec
  "\<lambda>req. Inr (LocateRequestPayload_toElement req)" LocateRequestPayload_fromElement locate_request_valid
  by unfold_locales (auto simp: LocateRequestPayload_from_to)

lemma LocateResponsePayload_from_to:
  "LocateResponsePayload_fromElement (LocateResponsePayload_toElement resp) = Inr resp"
proof -
  have ids: "fold_res (\<lambda>child resp.
            if elem_tag child = KMIP_TAG_LOCATED_ITEMS then
              bind_res (toInt child) (\<lambda>v. Inr (resp\<lparr>lrs_locatedItems := Some v\<rparr>))
            else if elem_tag child = KMIP_TAG_UNIQUE_IDENTIFIER then
              bind_res (toString child) (\<lambda>s.
              Inr (resp\<lparr>lrs_uniqueIdentifiers := lrs_uniqueIdentifiers resp @ [s]\<rparr>))
            else Inr resp) (map (createTextString KMIP_TAG_UNIQUE_IDENTIFIER) xs) r =
          Inr (r\<lparr>lrs_uniqueIdentifiers := lrs_uniqueIdentifiers r @ xs\<rparr>)"
    for xs and r :: LocateResponsePayload
    by (subst fold_res_collect
          [where upd = "\<lambda>s resp. resp\<lparr>lrs_uniqueIdentifiers := lrs_uniqueIdentifiers resp @ [s]\<rparr>"])
       (simp_all add: fold_identifiers kmip_consts)
  show ?thesis
    by (cases "lrs_locatedItems resp")
       (simp_all add: LocateResponsePayload_fromElement_def LocateResponsePayload_toElement_def ids)
qed

interpretation locate_response_codec: wire_codec
  "\<lambda>resp. Inr (LocateResponsePayload_toElement resp)" LocateResponsePayload_fromElement "\<lambda>_. True"
  by unfold_locales (auto simp: LocateResponsePayload_from_to)

section \<open>Properties\<close>

text \<open>A Locate response payload is read back with all its identifiers, in order and including
  repeated ones, and with its optional item count.\<close>

theorem locate_response_round_trip:
  "LocateResponsePayload_fromElement (LocateResponsePayload_toElement resp) = Inr resp"
  by (rule LocateResponsePayload_from_to)

end
