(* ===== verification/Kmip_Requests.thy ===== *)
theory Kmip_Requests
  imports Kmip_Objects Kmip_Payloads
begin

text \<open>
  \<open>src/kmipcore/src/kmip_requests.cpp\<close> and \<open>kmip_requests.hpp\<close>: the request batch items the client
  sends.  Each constructor is a function to \<open>RequestBatchItem\<close>, or to a result where it can throw.
  The KMIP 1.x form wraps attributes by name in a template, the KMIP 2.0 form uses typed elements in
  an Attributes container.

  The lemmas relate what is sent to what a reader obtains: both forms carry the same attribute bag,
  the key block and the attributes agree on algorithm and length, and every payload can be carried by
  the wire format.
\<close>

section \<open>Attribute elements\<close>

definition use_attributes_container :: "ProtocolVersion \<Rightarrow> bool" where
  "use_attributes_container version \<longleftrightarrow> is_at_least version 2 0"

definition standard_attribute_name_to_tag :: "string \<Rightarrow> u32 option" where
  "standard_attribute_name_to_tag name =
    (if name = KMIP_ATTR_NAME_NAME then Some KMIP_TAG_NAME
     else if name = KMIP_ATTR_NAME_GROUP then Some KMIP_TAG_OBJECT_GROUP
     else if name = KMIP_ATTR_NAME_STATE then Some KMIP_TAG_STATE
     else if name = KMIP_ATTR_NAME_UNIQUE_IDENTIFIER \<or> name = KMIP_ATTR_NAME_UNIQUE_IDENTIFIER_ALT
       then Some KMIP_TAG_UNIQUE_IDENTIFIER
     else if name = KMIP_ATTR_NAME_ACTIVATION_DATE then Some KMIP_TAG_ACTIVATION_DATE
     else if name = KMIP_ATTR_NAME_DEACTIVATION_DATE then Some KMIP_TAG_DEACTIVATION_DATE
     else if name = KMIP_ATTR_NAME_PROCESS_START_DATE then Some KMIP_TAG_PROCESS_START_DATE
     else if name = KMIP_ATTR_NAME_PROTECT_STOP_DATE then Some KMIP_TAG_PROTECT_STOP_DATE
     else if name = KMIP_ATTR_NAME_CRYPTO_ALG then Some KMIP_TAG_CRYPTOGRAPHIC_ALGORITHM
     else if name = KMIP_ATTR_NAME_CRYPTO_LEN then Some KMIP_TAG_CRYPTOGRAPHIC_LENGTH
     else if name = KMIP_ATTR_NAME_CRYPTO_USAGE_MASK then Some KMIP_TAG_CRYPTOGRAPHIC_USAGE_MASK
     else if name = KMIP_ATTR_NAME_OPERATION_POLICY_NAME then Some KMIP_TAG_OPERATION_POLICY_NAME
     else None)"

definition make_v2_attribute_reference :: "string \<Rightarrow> element" where
  "make_v2_attribute_reference attribute_name =
     make_structure KMIP_TAG_ATTRIBUTE_REFERENCE
       [case standard_attribute_name_to_tag attribute_name of
          Some tag_value \<Rightarrow> createEnumeration KMIP_TAG_ATTRIBUTE_REFERENCE tag_value
        | None \<Rightarrow> createTextString KMIP_TAG_ATTRIBUTE_NAME attribute_name]"

definition make_text_attribute :: "string \<Rightarrow> string \<Rightarrow> element" where
  "make_text_attribute attribute_name val =
     make_structure KMIP_TAG_ATTRIBUTE
       [createTextString KMIP_TAG_ATTRIBUTE_NAME attribute_name,
        createTextString KMIP_TAG_ATTRIBUTE_VALUE val]"

definition make_enum_attribute :: "string \<Rightarrow> i32 \<Rightarrow> element" where
  "make_enum_attribute attribute_name val =
     make_structure KMIP_TAG_ATTRIBUTE
       [createTextString KMIP_TAG_ATTRIBUTE_NAME attribute_name,
        createEnumeration KMIP_TAG_ATTRIBUTE_VALUE val]"

definition make_integer_attribute :: "string \<Rightarrow> i32 \<Rightarrow> element" where
  "make_integer_attribute attribute_name val =
     make_structure KMIP_TAG_ATTRIBUTE
       [createTextString KMIP_TAG_ATTRIBUTE_NAME attribute_name,
        createInteger KMIP_TAG_ATTRIBUTE_VALUE val]"

definition make_name_attribute :: "string \<Rightarrow> element" where
  "make_name_attribute val =
     (let attribute_value = make_structure KMIP_TAG_ATTRIBUTE_VALUE
        [createTextString KMIP_TAG_NAME_VALUE val,
         createEnumeration KMIP_TAG_NAME_TYPE KMIP_NAME_UNINTERPRETED_TEXT_STRING]
      in make_structure KMIP_TAG_ATTRIBUTE
           [createTextString KMIP_TAG_ATTRIBUTE_NAME ''Name'', attribute_value])"

definition make_template_attribute :: "element list \<Rightarrow> element" where
  "make_template_attribute attributes = make_structure KMIP_TAG_TEMPLATE_ATTRIBUTE attributes"

definition make_attributes_container :: "ProtocolVersion \<Rightarrow> element list \<Rightarrow> element" where
  "make_attributes_container version attributes =
     (if use_attributes_container version then make_structure KMIP_TAG_ATTRIBUTES attributes
      else make_template_attribute attributes)"

section \<open>Key blocks\<close>

definition make_key_value :: "byte list \<Rightarrow> element" where
  "make_key_value bytes =
     make_structure KMIP_TAG_KEY_VALUE [createByteString KMIP_TAG_KEY_MATERIAL bytes]"

definition make_key_block :: "i32 \<Rightarrow> byte list \<Rightarrow> i32 option \<Rightarrow> i32 option \<Rightarrow> element" where
  "make_key_block key_format_type bytes algorithm cryptographic_length =
     make_structure KMIP_TAG_KEY_BLOCK
       ([createEnumeration KMIP_TAG_KEY_FORMAT_TYPE key_format_type, make_key_value bytes] @
        opt_child (createEnumeration KMIP_TAG_CRYPTOGRAPHIC_ALGORITHM) algorithm @
        opt_child (createInteger KMIP_TAG_CRYPTOGRAPHIC_LENGTH) cryptographic_length)"

definition last_crypto_algorithm :: "ProtocolVersion \<Rightarrow> i32" where
  "last_crypto_algorithm version =
     (if is_at_least version 2 0 then word_of_nat int32_max
      else if is_at_least version 1 4 then KMIP_CRYPTOALG_SHAKE_256
      else if is_at_least version 1 3 then KMIP_CRYPTOALG_ONE_TIME_PAD
      else if is_at_least version 1 2 then KMIP_CRYPTOALG_EC
      else KMIP_CRYPTOALG_TWOFISH)"

record AlgorithmAndLength =
  al_algorithm :: i32
  al_length :: i32

definition algorithm_and_length :: "Key \<Rightarrow> ProtocolVersion \<Rightarrow> AlgorithmAndLength option" where
  "algorithm_and_length key version =
     (let algorithm = attr_algorithm (key_attributes key) in
      if algorithm = KMIP_CRYPTOALG_UNSET \<or> sint algorithm > sint (last_crypto_algorithm version)
      then None
      else
        let len = (if attr_crypto_length (key_attributes key) = None \<and>
              key_type key = SYMMETRIC_KEY \<and> length (key_value key) \<le> int32_max div 8
            then Some (word_of_nat (sz_mul (length (key_value key)) 8))
            else attr_crypto_length (key_attributes key))
        in case len of None \<Rightarrow> None
           | Some l \<Rightarrow> if sint l \<le> 0 then None else Some \<lparr>al_algorithm = algorithm, al_length = l\<rparr>)"

definition symmetric_key_without_algorithm_and_length :: "Key \<Rightarrow> ProtocolVersion \<Rightarrow> string" where
  "symmetric_key_without_algorithm_and_length key version =
     (let algorithm = attr_algorithm (key_attributes key) in
      if algorithm = KMIP_CRYPTOALG_UNSET then
        ''Cannot register a symmetric key without a Cryptographic Algorithm: raw key material does not carry it''
      else if sint algorithm > sint (last_crypto_algorithm version) then
        ''Cannot register a symmetric key with Cryptographic Algorithm '' @
        int_to_string (sint algorithm) @ '', which KMIP '' @ int_to_string (sint (pv_major version)) @
        ''.'' @ int_to_string (sint (pv_minor version)) @ '' does not define''
      else case attr_crypto_length (key_attributes key) of
          Some len \<Rightarrow> ''Cannot register a symmetric key with Cryptographic Length '' @
            int_to_string (sint len) @ '': it must be positive''
        | None \<Rightarrow>
          if key_value key = [] then
            ''Cannot register a symmetric key without a Cryptographic Length (an empty value and no length set)''
          else ''Cannot register a symmetric key of '' @ nat_to_string (length (key_value key)) @
            '' bytes: its length in bits does not fit a Cryptographic Length'')"

definition make_key_object_from_key :: "Key \<Rightarrow> ProtocolVersion \<Rightarrow> element res" where
  "make_key_object_from_key key version =
     (let pair = algorithm_and_length key version;
          key_alg = map_option al_algorithm pair;
          key_len = map_option al_length pair;
          format_or = (\<lambda>default_format. case key_format key of Some f \<Rightarrow> f | None \<Rightarrow> default_format)
      in case key_type key of
           SYMMETRIC_KEY \<Rightarrow>
             if pair = None then
               Inl (kmip_exception_code KMIP_INVALID_FIELD
                 (symmetric_key_without_algorithm_and_length key version))
             else Inr (make_structure KMIP_TAG_SYMMETRIC_KEY
               [make_key_block (format_or KMIP_KEYFORMAT_RAW) (key_value key) key_alg key_len])
         | PRIVATE_KEY \<Rightarrow> Inr (make_structure KMIP_TAG_PRIVATE_KEY
               [make_key_block (format_or KMIP_KEYFORMAT_PKCS8) (key_value key) key_alg key_len])
         | PUBLIC_KEY \<Rightarrow> Inr (make_structure KMIP_TAG_PUBLIC_KEY
               [make_key_block (format_or KMIP_KEYFORMAT_X509) (key_value key) key_alg key_len])
         | CERTIFICATE \<Rightarrow> Inl (kmip_exception_code KMIP_NOT_IMPLEMENTED
               ''Certificate registration is not yet supported'')
         | KT_UNSET \<Rightarrow> Inl (kmip_exception_code KMIP_INVALID_FIELD
               ''Unsupported key type for Register''))"

definition object_type_from_key_type :: "KeyType \<Rightarrow> i32 res" where
  "object_type_from_key_type k_type =
     (case k_type of
        SYMMETRIC_KEY \<Rightarrow> Inr KMIP_OBJTYPE_SYMMETRIC_KEY
      | PRIVATE_KEY \<Rightarrow> Inr KMIP_OBJTYPE_PRIVATE_KEY
      | PUBLIC_KEY \<Rightarrow> Inr KMIP_OBJTYPE_PUBLIC_KEY
      | CERTIFICATE \<Rightarrow> Inr KMIP_OBJTYPE_CERTIFICATE
      | KT_UNSET \<Rightarrow> Inl (kmip_exception_code KMIP_INVALID_FIELD ''Unsupported key type for Register''))"

definition make_symmetric_key :: "byte list \<Rightarrow> element" where
  "make_symmetric_key val =
     make_structure KMIP_TAG_SYMMETRIC_KEY
       [make_key_block KMIP_KEYFORMAT_RAW val (Some KMIP_CRYPTOALG_AES)
          (Some (word_of_nat (sz_mul (length val) 8)))]"

definition make_secret_data :: "byte list \<Rightarrow> u32 \<Rightarrow> element" where
  "make_secret_data secret kind =
     make_structure KMIP_TAG_SECRET_DATA
       [createEnumeration KMIP_TAG_SECRET_DATA_TYPE kind,
        make_key_block KMIP_KEYFORMAT_OPAQUE secret None None]"

section \<open>Typed attributes of KMIP 2.0\<close>

definition make_v2_name_struct :: "string \<Rightarrow> element" where
  "make_v2_name_struct val =
     make_structure KMIP_TAG_NAME
       [createTextString KMIP_TAG_NAME_VALUE val,
        createEnumeration KMIP_TAG_NAME_TYPE KMIP_NAME_UNINTERPRETED_TEXT_STRING]"

text \<open>\<open>if (!group.empty())\<close>: a child that is added for a non-empty text.\<close>

definition nonempty_child :: "(string \<Rightarrow> element) \<Rightarrow> string \<Rightarrow> element list" where
  "nonempty_child f grp = (if grp \<noteq> [] then [f grp] else [])"

definition make_v2_create_symmetric_attrs :: "string \<Rightarrow> string \<Rightarrow> i32 \<Rightarrow> u32 \<Rightarrow> element" where
  "make_v2_create_symmetric_attrs name grp key_bits usage_mask =
     make_structure KMIP_TAG_ATTRIBUTES
       ([createEnumeration KMIP_TAG_CRYPTOGRAPHIC_ALGORITHM KMIP_CRYPTOALG_AES,
         createInteger KMIP_TAG_CRYPTOGRAPHIC_LENGTH key_bits,
         createInteger KMIP_TAG_CRYPTOGRAPHIC_USAGE_MASK usage_mask,
         make_v2_name_struct name] @
        nonempty_child (createTextString KMIP_TAG_OBJECT_GROUP) grp)"

definition make_v2_register_symmetric_attrs :: "string \<Rightarrow> string \<Rightarrow> i32 \<Rightarrow> i32 \<Rightarrow> element" where
  "make_v2_register_symmetric_attrs name grp key_bits usage_mask_bits =
     make_structure KMIP_TAG_ATTRIBUTES
       ([createEnumeration KMIP_TAG_CRYPTOGRAPHIC_ALGORITHM KMIP_CRYPTOALG_AES,
         createInteger KMIP_TAG_CRYPTOGRAPHIC_LENGTH key_bits,
         createInteger KMIP_TAG_CRYPTOGRAPHIC_USAGE_MASK usage_mask_bits,
         make_v2_name_struct name] @
        nonempty_child (createTextString KMIP_TAG_OBJECT_GROUP) grp)"

definition make_v2_register_secret_attrs :: "string \<Rightarrow> string \<Rightarrow> element" where
  "make_v2_register_secret_attrs name grp =
     make_structure KMIP_TAG_ATTRIBUTES
       ([createInteger KMIP_TAG_CRYPTOGRAPHIC_USAGE_MASK
           (KMIP_CRYPTOMASK_DERIVE_KEY OR KMIP_CRYPTOMASK_EXPORT),
         make_v2_name_struct name] @
        nonempty_child (createTextString KMIP_TAG_OBJECT_GROUP) grp)"

definition make_v2_register_key_attrs :: "string \<Rightarrow> string \<Rightarrow> Key \<Rightarrow> ProtocolVersion \<Rightarrow> element" where
  "make_v2_register_key_attrs name grp key version =
     make_structure KMIP_TAG_ATTRIBUTES
       ([make_v2_name_struct name] @
        nonempty_child (createTextString KMIP_TAG_OBJECT_GROUP) grp @
        (case algorithm_and_length key version of
           Some pair \<Rightarrow> [createEnumeration KMIP_TAG_CRYPTOGRAPHIC_ALGORITHM (al_algorithm pair),
             createInteger KMIP_TAG_CRYPTOGRAPHIC_LENGTH (al_length pair)]
         | None \<Rightarrow> []) @
        (if attr_usage (key_attributes key) \<noteq> KMIP_CRYPTOMASK_UNSET
         then [createInteger KMIP_TAG_CRYPTOGRAPHIC_USAGE_MASK (attr_usage (key_attributes key))]
         else []))"

section \<open>Requests\<close>

definition make_request :: "i32 \<Rightarrow> element list \<Rightarrow> RequestBatchItem" where
  "make_request operation children =
     \<lparr>rqb_uniqueBatchItemId = 0, rqb_operation = operation,
      rqb_requestPayload = Some (make_structure KMIP_TAG_REQUEST_PAYLOAD children)\<rparr>"

definition SimpleIdRequest :: "i32 \<Rightarrow> string \<Rightarrow> RequestBatchItem" where
  "SimpleIdRequest OpCode unique_id =
     make_request OpCode [createTextString KMIP_TAG_UNIQUE_IDENTIFIER unique_id]"

definition ActivateRequest :: "string \<Rightarrow> RequestBatchItem" where
  "ActivateRequest = SimpleIdRequest KMIP_OP_ACTIVATE"

definition DestroyRequest :: "string \<Rightarrow> RequestBatchItem" where
  "DestroyRequest = SimpleIdRequest KMIP_OP_DESTROY"

definition GetAttributeListRequest :: "string \<Rightarrow> RequestBatchItem" where
  "GetAttributeListRequest = SimpleIdRequest KMIP_OP_GET_ATTRIBUTE_LIST"

definition GetRequest :: "string \<Rightarrow> i32 option \<Rightarrow> RequestBatchItem" where
  "GetRequest unique_id key_format_type =
     make_request KMIP_OP_GET
       ([createTextString KMIP_TAG_UNIQUE_IDENTIFIER unique_id] @
        opt_child (createEnumeration KMIP_TAG_KEY_FORMAT_TYPE) key_format_type)"

text \<open>The loop over the requested names with the \<open>seen\<close> set.\<close>

definition unique_names_step ::
    "string \<Rightarrow> string list \<times> string list \<Rightarrow> string list \<times> string list" where
  "unique_names_step sel_name st =
     (let (unique_names, seen) = st in
      if sel_name \<in> set seen then (unique_names, seen)
      else (unique_names @ [sel_name], sel_name # seen))"

definition unique_names :: "string list \<Rightarrow> string list" where
  "unique_names attribute_names = fst (fold unique_names_step attribute_names ([], []))"

definition GetAttributesRequest ::
    "string \<Rightarrow> string list \<Rightarrow> ProtocolVersion \<Rightarrow> bool \<Rightarrow> RequestBatchItem" where
  "GetAttributesRequest unique_id attribute_names version legacy_attribute_names_for_v2 =
     make_request KMIP_OP_GET_ATTRIBUTES
       ([createTextString KMIP_TAG_UNIQUE_IDENTIFIER unique_id] @
        map (if use_attributes_container version \<and> \<not> legacy_attribute_names_for_v2
             then make_v2_attribute_reference else createTextString KMIP_TAG_ATTRIBUTE_NAME)
          (unique_names attribute_names))"

definition CreateSymmetricKeyRequest ::
    "string \<Rightarrow> string \<Rightarrow> i32 \<Rightarrow> u32 \<Rightarrow> ProtocolVersion \<Rightarrow> RequestBatchItem" where
  "CreateSymmetricKeyRequest name grp key_bits usage_mask version =
     make_request KMIP_OP_CREATE
       [createEnumeration KMIP_TAG_OBJECT_TYPE KMIP_OBJTYPE_SYMMETRIC_KEY,
        if use_attributes_container version
        then make_v2_create_symmetric_attrs name grp key_bits usage_mask
        else make_template_attribute
          ([make_enum_attribute ''Cryptographic Algorithm'' KMIP_CRYPTOALG_AES,
            make_integer_attribute ''Cryptographic Length'' key_bits,
            make_integer_attribute ''Cryptographic Usage Mask'' usage_mask,
            make_name_attribute name] @
           nonempty_child (make_text_attribute ''Object Group'') grp)]"

definition RegisterSymmetricKeyRequest ::
    "string \<Rightarrow> string \<Rightarrow> byte list \<Rightarrow> ProtocolVersion \<Rightarrow> RequestBatchItem" where
  "RegisterSymmetricKeyRequest name grp val version =
     (let key_bits = word_of_nat (sz_mul (length val) 8) in
      make_request KMIP_OP_REGISTER
        [createEnumeration KMIP_TAG_OBJECT_TYPE KMIP_OBJTYPE_SYMMETRIC_KEY,
         if use_attributes_container version
         then make_v2_register_symmetric_attrs name grp key_bits
           (KMIP_CRYPTOMASK_ENCRYPT OR KMIP_CRYPTOMASK_DECRYPT)
         else make_template_attribute
           ([make_enum_attribute ''Cryptographic Algorithm'' KMIP_CRYPTOALG_AES,
             make_integer_attribute ''Cryptographic Length'' key_bits,
             make_integer_attribute ''Cryptographic Usage Mask''
               (KMIP_CRYPTOMASK_ENCRYPT OR KMIP_CRYPTOMASK_DECRYPT),
             make_name_attribute name] @
            nonempty_child (make_text_attribute ''Object Group'') grp),
         make_symmetric_key val])"

definition v1_register_key_attrs :: "string \<Rightarrow> string \<Rightarrow> Key \<Rightarrow> ProtocolVersion \<Rightarrow> element list" where
  "v1_register_key_attrs name grp key version =
     [make_name_attribute name] @
     nonempty_child (make_text_attribute ''Object Group'') grp @
     (case algorithm_and_length key version of
        Some pair \<Rightarrow> [make_enum_attribute ''Cryptographic Algorithm'' (al_algorithm pair),
          make_integer_attribute ''Cryptographic Length'' (al_length pair)]
      | None \<Rightarrow> []) @
     (if attr_usage (key_attributes key) \<noteq> KMIP_CRYPTOMASK_UNSET
      then [make_integer_attribute ''Cryptographic Usage Mask'' (attr_usage (key_attributes key))]
      else []) @
     map (\<lambda>(sel_name, attr_val). make_text_attribute sel_name (value_to_string attr_val))
       (filter (\<lambda>(sel_name, _). sel_name \<noteq> ''Name'' \<and> sel_name \<noteq> ''Object Group'')
         (attr_generic (key_attributes key)))"

definition RegisterKeyRequest ::
    "string \<Rightarrow> string \<Rightarrow> Key \<Rightarrow> ProtocolVersion \<Rightarrow> RequestBatchItem res" where
  "RegisterKeyRequest name grp key version =
     bind_res (object_type_from_key_type (key_type key)) (\<lambda>obj_type.
     bind_res (make_key_object_from_key key version) (\<lambda>key_object.
     Inr (make_request KMIP_OP_REGISTER
       [createEnumeration KMIP_TAG_OBJECT_TYPE obj_type,
        if use_attributes_container version then make_v2_register_key_attrs name grp key version
        else make_template_attribute (v1_register_key_attrs name grp key version),
        key_object])))"

definition RegisterSecretRequest ::
    "string \<Rightarrow> string \<Rightarrow> byte list \<Rightarrow> u32 \<Rightarrow> ProtocolVersion \<Rightarrow> RequestBatchItem" where
  "RegisterSecretRequest name grp secret kind version =
     make_request KMIP_OP_REGISTER
       [createEnumeration KMIP_TAG_OBJECT_TYPE KMIP_OBJTYPE_SECRET_DATA,
        if use_attributes_container version then make_v2_register_secret_attrs name grp
        else make_template_attribute
          ([make_integer_attribute ''Cryptographic Usage Mask''
              (KMIP_CRYPTOMASK_DERIVE_KEY OR KMIP_CRYPTOMASK_EXPORT),
            make_name_attribute name] @
           nonempty_child (make_text_attribute ''Object Group'') grp),
        make_secret_data secret kind]"

definition LocateRequest ::
    "bool \<Rightarrow> string \<Rightarrow> u32 \<Rightarrow> nat \<Rightarrow> nat \<Rightarrow> ProtocolVersion \<Rightarrow> RequestBatchItem res" where
  "LocateRequest locate_by_group name obj_type max_items offset version =
     bind_res (guard_res (max_items \<le> int32_max)
       (kmip_exception (''LocateRequest: max_items value '' @ nat_to_string max_items @
          '' exceeds int32_t maximum ('' @ nat_to_string int32_max @ '')''))) (\<lambda>_.
     bind_res (guard_res (offset \<le> int32_max)
       (kmip_exception (''LocateRequest: offset value '' @ nat_to_string offset @
          '' exceeds int32_t maximum ('' @ nat_to_string int32_max @ '')''))) (\<lambda>_.
     Inr (make_request KMIP_OP_LOCATE
       ((if max_items > 0 then [createInteger KMIP_TAG_MAXIMUM_ITEMS (word_of_nat max_items)] else []) @
        (if offset > 0 then [createInteger KMIP_TAG_OFFSET_ITEMS (word_of_nat offset)] else []) @
        (if use_attributes_container version then
           [make_structure KMIP_TAG_ATTRIBUTES
              ([createEnumeration KMIP_TAG_OBJECT_TYPE obj_type] @
               nonempty_child (if locate_by_group then createTextString KMIP_TAG_OBJECT_GROUP
                 else make_v2_name_struct) name)]
         else
           [make_enum_attribute ''Object Type'' obj_type] @
           nonempty_child (if locate_by_group then make_text_attribute ''Object Group''
             else make_name_attribute) name)))))"

definition RevokeRequest :: "string \<Rightarrow> u32 \<Rightarrow> string \<Rightarrow> i64 \<Rightarrow> RequestBatchItem" where
  "RevokeRequest unique_id reason message occurrence_time =
     make_request KMIP_OP_REVOKE
       ([createTextString KMIP_TAG_UNIQUE_IDENTIFIER unique_id,
         make_structure KMIP_TAG_REVOCATION_REASON
           ([createEnumeration KMIP_TAG_REVOCATION_REASON_CODE reason] @
            nonempty_child (createTextString KMIP_TAG_REVOKATION_MESSAGE) message)] @
        (if sint occurrence_time > 0
         then [createDateTime KMIP_TAG_COMPROMISE_OCCURRANCE_DATE occurrence_time] else []))"


section \<open>Lemmas: what a reader of the request obtains\<close>

text \<open>The receiving side: the attributes of a Create or Register payload, from the container of either
  protocol generation, through the library's own attribute parser.\<close>

definition container_children :: "u32 \<Rightarrow> element \<Rightarrow> element list" where
  "container_children tag payload =
     (case getChild tag payload of None \<Rightarrow> [] | Some e \<Rightarrow>
        (case asStructure e of None \<Rightarrow> [] | Some cs \<Rightarrow> cs))"

definition request_attributes :: "RequestBatchItem \<Rightarrow> Attributes res" where
  "request_attributes item =
     (case rqb_requestPayload item of None \<Rightarrow> Inr no_attributes
      | Some payload \<Rightarrow> AttributesParser_parse (map Some
          (container_children KMIP_TAG_ATTRIBUTES payload @
           container_children KMIP_TAG_TEMPLATE_ATTRIBUTE payload)))"

named_theorems request_read "reading back the elements of a request"

lemma parse_v1_elements [request_read]:
  "parse_attribute (Some (make_name_attribute name)) a = Inr (set_string ''Name'' name a)"
  "parse_attribute (Some (make_text_attribute ''Object Group'' name)) a = Inr (set_string ''Object Group'' name a)"
  "parse_attribute (Some (make_integer_attribute ''Cryptographic Length'' i)) a = Inr (set_crypto_length i a)"
  "is_valid_cryptographic_usage_mask i \<Longrightarrow>
     parse_attribute (Some (make_integer_attribute ''Cryptographic Usage Mask'' i)) a = Inr (set_usage_mask i a)"
  "is_valid_cryptographic_algorithm i \<Longrightarrow>
     parse_attribute (Some (make_enum_attribute ''Cryptographic Algorithm'' i)) a = Inr (set_algorithm i a)"
  by (simp_all add: parse_attribute_def make_name_attribute_def make_text_attribute_def
      make_integer_attribute_def make_enum_attribute_def parse_named_attribute_def store_generic_def
      create_defs accessor_defs checked_Inr_iff bind_res_Inr_iff kmip_consts)

lemma parse_v1_text:
  assumes "n \<notin> well_known" "n \<noteq> ''UniqueID''"
  shows "parse_attribute (Some (make_text_attribute n s)) a = Inr (set_string n s a)"
  using assms parse_named_generic [OF assms]
  by (simp add: parse_attribute_def make_text_attribute_def store_generic_def create_defs
      accessor_defs kmip_consts)

lemma parse_v2_elements [request_read]:
  "parse_attribute (Some (make_v2_name_struct name)) a = Inr (set_string ''Name'' name a)"
  "parse_attribute (Some (createTextString KMIP_TAG_OBJECT_GROUP name)) a = Inr (set_string ''Object Group'' name a)"
  "parse_attribute (Some (createInteger KMIP_TAG_CRYPTOGRAPHIC_LENGTH i)) a = Inr (set_crypto_length i a)"
  "is_valid_cryptographic_usage_mask i \<Longrightarrow>
     parse_attribute (Some (createInteger KMIP_TAG_CRYPTOGRAPHIC_USAGE_MASK i)) a = Inr (set_usage_mask i a)"
  "is_valid_cryptographic_algorithm i \<Longrightarrow>
     parse_attribute (Some (createEnumeration KMIP_TAG_CRYPTOGRAPHIC_ALGORITHM i)) a = Inr (set_algorithm i a)"
  by (simp_all add: parse_attribute_def make_v2_name_struct_def parse_v2_typed_attribute_def
      checked_Inr_iff bind_res_Inr_iff kmip_consts)

lemma fixed_values_valid [request_read]:
  "is_valid_cryptographic_algorithm KMIP_CRYPTOALG_AES"
  "is_valid_cryptographic_usage_mask (KMIP_CRYPTOMASK_ENCRYPT OR KMIP_CRYPTOMASK_DECRYPT)"
  "is_valid_cryptographic_usage_mask (KMIP_CRYPTOMASK_DERIVE_KEY OR KMIP_CRYPTOMASK_EXPORT)"
  by (simp_all add: is_valid_cryptographic_algorithm_def is_valid_cryptographic_usage_mask_def kmip_consts)

lemma nonempty_child_simps [simp]:
  "nonempty_child f [] = []" "s \<noteq> [] \<Longrightarrow> nonempty_child f s = [f s]"
  by (simp_all add: nonempty_child_def)

lemma in_nonempty_child [simp]: "x \<in> set (nonempty_child f s) \<longleftrightarrow> s \<noteq> [] \<and> x = f s"
  by (auto simp: nonempty_child_def)

lemma fold_group [request_read]:
  "fold_res parse_attribute (map Some (nonempty_child (make_text_attribute ''Object Group'') grp)) a =
     Inr (if grp = [] then a else set_string ''Object Group'' grp a)"
  "fold_res parse_attribute (map Some (nonempty_child (createTextString KMIP_TAG_OBJECT_GROUP) grp)) a =
     Inr (if grp = [] then a else set_string ''Object Group'' grp a)"
  by (simp_all add: nonempty_child_def parse_v1_elements parse_v2_elements)

lemma container_tags [request_read]:
  "KMIP_TAG_OBJECT_TYPE \<noteq> KMIP_TAG_ATTRIBUTES" "KMIP_TAG_OBJECT_TYPE \<noteq> KMIP_TAG_TEMPLATE_ATTRIBUTE"
  "KMIP_TAG_ATTRIBUTES \<noteq> KMIP_TAG_TEMPLATE_ATTRIBUTE" "KMIP_TAG_TEMPLATE_ATTRIBUTE \<noteq> KMIP_TAG_ATTRIBUTES"
  "KMIP_TAG_SYMMETRIC_KEY \<noteq> KMIP_TAG_ATTRIBUTES" "KMIP_TAG_SYMMETRIC_KEY \<noteq> KMIP_TAG_TEMPLATE_ATTRIBUTE"
  "KMIP_TAG_PRIVATE_KEY \<noteq> KMIP_TAG_ATTRIBUTES" "KMIP_TAG_PRIVATE_KEY \<noteq> KMIP_TAG_TEMPLATE_ATTRIBUTE"
  "KMIP_TAG_PUBLIC_KEY \<noteq> KMIP_TAG_ATTRIBUTES" "KMIP_TAG_PUBLIC_KEY \<noteq> KMIP_TAG_TEMPLATE_ATTRIBUTE"
  "KMIP_TAG_SECRET_DATA \<noteq> KMIP_TAG_ATTRIBUTES" "KMIP_TAG_SECRET_DATA \<noteq> KMIP_TAG_TEMPLATE_ATTRIBUTE"
  by (simp_all add: kmip_consts)

lemma container_children_simps [simp]:
  "container_children t (make_structure u cs) =
     (case struct_find t cs of None \<Rightarrow> [] | Some e \<Rightarrow>
        (case asStructure e of None \<Rightarrow> [] | Some cs \<Rightarrow> cs))"
  by (simp add: container_children_def)

text \<open>Name and optional group, as both forms carry them.\<close>

definition with_name_group :: "string \<Rightarrow> string \<Rightarrow> Attributes \<Rightarrow> Attributes" where
  "with_name_group name grp a =
     (let named = set_string ''Name'' name a in if grp = [] then named else set_string ''Object Group'' grp named)"

lemma request_attributes_create:
  assumes "is_valid_cryptographic_usage_mask bits"
  shows "request_attributes (CreateSymmetricKeyRequest name grp key_bits bits version) =
    Inr (with_name_group name grp (set_usage_mask bits (set_crypto_length key_bits
      (set_algorithm KMIP_CRYPTOALG_AES no_attributes))))"
  using assms
  by (simp add: request_attributes_def CreateSymmetricKeyRequest_def make_request_def
      make_v2_create_symmetric_attrs_def make_template_attribute_def AttributesParser_parse_def
      with_name_group_def Let_def request_read)

lemma make_key_objects_tag [simp]:
  "elem_tag (make_symmetric_key val) = KMIP_TAG_SYMMETRIC_KEY"
  "elem_tag (make_secret_data val kind) = KMIP_TAG_SECRET_DATA"
  by (simp_all add: make_symmetric_key_def make_secret_data_def)

lemma request_attributes_register_symmetric:
  "request_attributes (RegisterSymmetricKeyRequest name grp val version) =
    Inr (with_name_group name grp (set_usage_mask (KMIP_CRYPTOMASK_ENCRYPT OR KMIP_CRYPTOMASK_DECRYPT)
      (set_crypto_length (word_of_nat (sz_mul (length val) 8))
        (set_algorithm KMIP_CRYPTOALG_AES no_attributes))))"
  by (simp add: request_attributes_def RegisterSymmetricKeyRequest_def make_request_def
      make_v2_register_symmetric_attrs_def make_template_attribute_def AttributesParser_parse_def
      with_name_group_def Let_def request_read)

lemma request_attributes_register_secret:
  "request_attributes (RegisterSecretRequest name grp secret kind version) =
    Inr (with_name_group name grp
      (set_usage_mask (KMIP_CRYPTOMASK_DERIVE_KEY OR KMIP_CRYPTOMASK_EXPORT) no_attributes))"
  by (simp add: request_attributes_def RegisterSecretRequest_def make_request_def
      make_v2_register_secret_attrs_def make_template_attribute_def AttributesParser_parse_def
      with_name_group_def Let_def request_read)

section \<open>Lemmas: registering a key\<close>

definition sent_key_block :: "RequestBatchItem \<Rightarrow> element option" where
  "sent_key_block item =
     (case rqb_requestPayload item of None \<Rightarrow> None
      | Some payload \<Rightarrow>
        (case filter (\<lambda>c. elem_tag c \<in> {KMIP_TAG_SYMMETRIC_KEY, KMIP_TAG_PRIVATE_KEY, KMIP_TAG_PUBLIC_KEY})
            (case asStructure payload of None \<Rightarrow> [] | Some cs \<Rightarrow> cs) of
           [] \<Rightarrow> None | c # _ \<Rightarrow> getChild KMIP_TAG_KEY_BLOCK c))"

text \<open>Two bags that agree on the typed fields and on the object name and group.\<close>

definition same_head :: "Attributes \<Rightarrow> Attributes \<Rightarrow> bool" where
  "same_head a b \<longleftrightarrow> attr_algo a = attr_algo b \<and> attr_crypto_length a = attr_crypto_length b \<and>
     attr_usage_mask a = attr_usage_mask b \<and> attr_state a = attr_state b \<and>
     get_string ''Name'' a = get_string ''Name'' b \<and> get_string ''Object Group'' a = get_string ''Object Group'' b"

lemma same_head_refl [simp]: "same_head a a"
  by (simp add: same_head_def)

lemma parse_text_head:
  assumes "n \<notin> well_known" "n \<noteq> ''Name''" "n \<noteq> ''Object Group''"
  shows "\<exists>r. parse_attribute (Some (make_text_attribute n s)) a = Inr r \<and> same_head r a"
proof -
  define m where "m = (if n = ''UniqueID'' then KMIP_ATTR_NAME_UNIQUE_IDENTIFIER else n)"
  have m: "m \<notin> well_known" using assms(1) other_names(3) by (simp add: m_def)
  have m': "m \<noteq> ''Name''" "m \<noteq> ''Object Group''"
    using assms(2,3) by (simp_all add: m_def KMIP_ATTR_NAME_UNIQUE_IDENTIFIER_def)
  have "parse_named_attribute n (Some (createTextString KMIP_TAG_ATTRIBUTE_VALUE s)) a =
      Inr (set_string m s a)"
    using assms(1) by (simp add: parse_named_attribute_def well_known_def store_generic_def m_def
        create_defs accessor_defs kmip_consts)
  then have "parse_attribute (Some (make_text_attribute n s)) a = Inr (set_string m s a)"
    by (simp add: parse_attribute_def make_text_attribute_def kmip_consts)
  moreover have "same_head (set_string m s a) a"
    using m m' by (simp add: setters_generic same_head_def get_string_def)
      (simp add: put_generic_def update_conv')
  ultimately show ?thesis by blast
qed

lemma same_head_trans: "same_head a b \<Longrightarrow> same_head b c \<Longrightarrow> same_head a c"
  by (simp add: same_head_def)

lemma fold_generic_head:
  assumes "list_all (\<lambda>(n, _). n \<notin> well_known \<and> n \<noteq> ''Name'' \<and> n \<noteq> ''Object Group'') ps"
  shows "\<exists>r. fold_res parse_attribute
      (map Some (map (\<lambda>(n, v). make_text_attribute n (value_to_string v)) ps)) a = Inr r \<and> same_head r a"
  using assms
proof (induction ps arbitrary: a)
  case (Cons p ps)
  obtain n v where p: "p = (n, v)" by (cases p)
  from Cons.prems p obtain b where
    b: "parse_attribute (Some (make_text_attribute n (value_to_string v))) a = Inr b" "same_head b a"
    using parse_text_head [of n "value_to_string v" a] by auto
  from Cons.IH [of b] Cons.prems obtain r where
    "fold_res parse_attribute
      (map Some (map (\<lambda>(n, v). make_text_attribute n (value_to_string v)) ps)) b = Inr r" "same_head r b"
    by auto
  with b same_head_trans show ?case by (auto simp: p)
qed simp

lemma algorithm_and_length_SomeD:
  assumes "algorithm_and_length key version = Some pair"
  shows "al_algorithm pair = attr_algorithm (key_attributes key)"
    "al_algorithm pair \<noteq> KMIP_CRYPTOALG_UNSET" "0 < sint (al_length pair)"
    "sint (al_algorithm pair) \<le> sint (last_crypto_algorithm version)"
  using assms by (auto simp: algorithm_and_length_def Let_def split: if_splits option.splits)

lemma pair_algorithm_valid:
  assumes "algorithm_and_length key version = Some pair" "attrs_valid (key_attributes key)"
  shows "is_valid_cryptographic_algorithm (al_algorithm pair)"
  using algorithm_and_length_SomeD(1,2) [OF assms(1)] assms(2)
  by (auto simp: attr_algorithm_def attrs_valid_def split: option.splits)

text \<open>The typed fields sent for a key, the same in both forms.\<close>

definition sent_typed :: "Key \<Rightarrow> ProtocolVersion \<Rightarrow> Attributes \<Rightarrow> Attributes" where
  "sent_typed key version a =
     set_usage_mask (attr_usage (key_attributes key))
       (case algorithm_and_length key version of None \<Rightarrow> a
        | Some pair \<Rightarrow> set_crypto_length (al_length pair) (set_algorithm (al_algorithm pair) a))"

lemma set_usage_unset: "attr_usage_mask a = None \<Longrightarrow> set_usage_mask KMIP_CRYPTOMASK_UNSET a = a"
  by (simp add: set_usage_mask_def)

lemma usage_valid:
  "attrs_valid a \<Longrightarrow> attr_usage a \<noteq> KMIP_CRYPTOMASK_UNSET \<Longrightarrow> is_valid_cryptographic_usage_mask (attr_usage a)"
  by (auto simp: attrs_valid_def attr_usage_def split: option.splits)

lemma with_name_group_head [simp]:
  "attr_algo (with_name_group name grp a) = attr_algo a"
  "attr_crypto_length (with_name_group name grp a) = attr_crypto_length a"
  "attr_usage_mask (with_name_group name grp a) = attr_usage_mask a"
  "attr_state (with_name_group name grp a) = attr_state a"
  "get_string ''Name'' (with_name_group name grp a) = name"
  "get_string ''Object Group'' (with_name_group name grp no_attributes) = grp"
  by (simp_all add: with_name_group_def Let_def set_string_def put_generic_def get_string_def
      update_conv' no_attributes_def kmip_consts)

lemma typed_setter_fields [simp]:
  "attr_usage_mask (set_algorithm alg a) = attr_usage_mask a"
  "attr_usage_mask (set_crypto_length l a) = attr_usage_mask a"
  "attr_usage_mask no_attributes = None"
  by (simp_all add: set_algorithm_def set_crypto_length_def no_attributes_def)

lemma get_string_fields [simp]:
  "get_string n (set_algorithm alg a) = get_string n a" "get_string n (set_crypto_length l a) = get_string n a"
  "get_string n (set_usage_mask bits a) = get_string n a"
  by (simp_all add: get_string_def set_algorithm_def set_crypto_length_def set_usage_mask_def)

lemma fold_name_group [request_read]:
  "fold_res parse_attribute (map Some ([make_name_attribute name] @
     nonempty_child (make_text_attribute ''Object Group'') grp)) a = Inr (with_name_group name grp a)"
  "fold_res parse_attribute (map Some ([make_v2_name_struct name] @
     nonempty_child (createTextString KMIP_TAG_OBJECT_GROUP) grp)) a = Inr (with_name_group name grp a)"
  by (simp_all add: with_name_group_def Let_def request_read)

lemma fold_sent_typed:
  assumes "attrs_valid (key_attributes key)" "attr_usage_mask a = None"
  shows "fold_res parse_attribute (map Some ((case algorithm_and_length key version of
        Some pair \<Rightarrow> [make_enum_attribute ''Cryptographic Algorithm'' (al_algorithm pair),
          make_integer_attribute ''Cryptographic Length'' (al_length pair)]
      | None \<Rightarrow> []) @
     (if attr_usage (key_attributes key) \<noteq> KMIP_CRYPTOMASK_UNSET
      then [make_integer_attribute ''Cryptographic Usage Mask'' (attr_usage (key_attributes key))]
      else []))) a = Inr (sent_typed key version a)"
    and "fold_res parse_attribute (map Some ((case algorithm_and_length key version of
        Some pair \<Rightarrow> [createEnumeration KMIP_TAG_CRYPTOGRAPHIC_ALGORITHM (al_algorithm pair),
             createInteger KMIP_TAG_CRYPTOGRAPHIC_LENGTH (al_length pair)]
      | None \<Rightarrow> []) @
     (if attr_usage (key_attributes key) \<noteq> KMIP_CRYPTOMASK_UNSET
      then [createInteger KMIP_TAG_CRYPTOGRAPHIC_USAGE_MASK (attr_usage (key_attributes key))]
      else []))) a = Inr (sent_typed key version a)"
  using pair_algorithm_valid [OF _ assms(1), of version] usage_valid [OF assms(1)] assms(2)
  by (cases "algorithm_and_length key version"; cases "attr_usage (key_attributes key) = KMIP_CRYPTOMASK_UNSET";
      simp add: sent_typed_def set_usage_unset request_read)+

lemma fold_v1_typed:
  assumes "attrs_valid (key_attributes key)"
  shows "\<exists>r. fold_res parse_attribute (map Some (v1_register_key_attrs name grp key version)) no_attributes = Inr r \<and>
    same_head r (sent_typed key version (with_name_group name grp no_attributes))"
proof -
  let ?ps = "filter (\<lambda>(sel_name, _). sel_name \<noteq> ''Name'' \<and> sel_name \<noteq> ''Object Group'')
         (attr_generic (key_attributes key))"
  let ?gen = "map (\<lambda>(n, v). make_text_attribute n (value_to_string v)) ?ps"
  let ?a = "sent_typed key version (with_name_group name grp no_attributes)"
  have "fold_res parse_attribute (map Some (v1_register_key_attrs name grp key version)) no_attributes =
      fold_res parse_attribute (map Some ?gen) ?a"
    unfolding v1_register_key_attrs_def
    using fold_sent_typed(1) [OF assms, of "with_name_group name grp no_attributes" version]
      fold_name_group(1) [of name grp no_attributes]
    by (simp only: append_assoc [symmetric] map_append fold_res_append) simp
  moreover have "list_all (\<lambda>(n, _). n \<notin> well_known \<and> n \<noteq> ''Name'' \<and> n \<noteq> ''Object Group'') ?ps"
    using assms by (auto simp: attrs_valid_def routed_def list_all_iff)
  ultimately show ?thesis using fold_generic_head by simp
qed

lemma fold_v2_typed:
  assumes "attrs_valid (key_attributes key)"
  shows "\<exists>cs. make_v2_register_key_attrs name grp key version = make_structure KMIP_TAG_ATTRIBUTES cs \<and>
    fold_res parse_attribute (map Some cs) no_attributes =
      Inr (sent_typed key version (with_name_group name grp no_attributes))"
proof -
  obtain cs where cs: "make_v2_register_key_attrs name grp key version = make_structure KMIP_TAG_ATTRIBUTES cs"
    "cs = [make_v2_name_struct name] @ nonempty_child (createTextString KMIP_TAG_OBJECT_GROUP) grp @
      (case algorithm_and_length key version of
        Some pair \<Rightarrow> [createEnumeration KMIP_TAG_CRYPTOGRAPHIC_ALGORITHM (al_algorithm pair),
             createInteger KMIP_TAG_CRYPTOGRAPHIC_LENGTH (al_length pair)]
      | None \<Rightarrow> []) @
      (if attr_usage (key_attributes key) \<noteq> KMIP_CRYPTOMASK_UNSET
      then [createInteger KMIP_TAG_CRYPTOGRAPHIC_USAGE_MASK (attr_usage (key_attributes key))]
      else [])"
    by (simp add: make_v2_register_key_attrs_def)
  have "fold_res parse_attribute (map Some cs) no_attributes =
      Inr (sent_typed key version (with_name_group name grp no_attributes))"
    unfolding cs(2)
    using fold_sent_typed(2) [OF assms, of "with_name_group name grp no_attributes" version]
      fold_name_group(2) [of name grp no_attributes]
    by (simp only: append_assoc [symmetric] map_append fold_res_append) simp
  with cs(1) show ?thesis by blast
qed


lemma request_attributes_register_key:
  assumes "attrs_valid (key_attributes key)"
    and "tag = KMIP_TAG_SYMMETRIC_KEY \<or> tag = KMIP_TAG_PRIVATE_KEY \<or> tag = KMIP_TAG_PUBLIC_KEY"
  shows "\<exists>r. request_attributes (make_request op [createEnumeration KMIP_TAG_OBJECT_TYPE obj_type,
        if use_attributes_container version then make_v2_register_key_attrs name grp key version
        else make_template_attribute (v1_register_key_attrs name grp key version), make_structure tag cs]) = Inr r \<and>
    same_head r (sent_typed key version (with_name_group name grp no_attributes))"
proof (cases "use_attributes_container version")
  case True
  obtain as where "make_v2_register_key_attrs name grp key version = make_structure KMIP_TAG_ATTRIBUTES as"
    "fold_res parse_attribute (map Some as) no_attributes =
       Inr (sent_typed key version (with_name_group name grp no_attributes))"
    using fold_v2_typed [OF assms(1)] by blast
  with True assms(2) show ?thesis
    by (elim disjE) (simp_all add: request_attributes_def make_request_def AttributesParser_parse_def request_read)
next
  case False
  with fold_v1_typed [OF assms(1), of name grp version] assms(2) show ?thesis
    by (elim disjE) (simp_all add: request_attributes_def make_request_def AttributesParser_parse_def
        make_template_attribute_def request_read)
qed

section \<open>The contract of request constructors\<close>

text \<open>An element the wire format carries within \<open>n\<close> levels and every protocol version allows.\<close>

definition fits :: "nat \<Rightarrow> element \<Rightarrow> bool" where
  "fits n e \<longleftrightarrow> ttlv_shape e \<and> height e \<le> n \<and> (\<forall>version. allowed_types version e)"

lemma fits_create [simp]:
  "0 < n \<Longrightarrow> fits n (createInteger t i) \<longleftrightarrow> t < 2 ^ 24"
  "0 < n \<Longrightarrow> fits n (createEnumeration t i) \<longleftrightarrow> t < 2 ^ 24"
  "0 < n \<Longrightarrow> fits n (createTextString t s) \<longleftrightarrow> t < 2 ^ 24"
  "0 < n \<Longrightarrow> fits n (createByteString t bs) \<longleftrightarrow> t < 2 ^ 24"
  "0 < n \<Longrightarrow> fits n (createDateTime t l) \<longleftrightarrow> t < 2 ^ 24"
  by (auto simp: fits_def create_defs allowed_types.simps ttlv_shape.simps height.simps
      type_of_value_def kmip_consts)

lemma fits_structure [simp]:
  "fits (Suc n) (make_structure t cs) \<longleftrightarrow> t < 2 ^ 24 \<and> list_all (fits n) cs"
  "fits (numeral k) (make_structure t cs) \<longleftrightarrow> t < 2 ^ 24 \<and> list_all (fits (pred_numeral k)) cs"
proof -
  have "fits (Suc n) (make_structure t cs) \<longleftrightarrow> t < 2 ^ 24 \<and> list_all (fits n) cs" for n
    unfolding fits_def by (auto simp: height_make_structure_le list_all_iff)
  then show "fits (Suc n) (make_structure t cs) \<longleftrightarrow> t < 2 ^ 24 \<and> list_all (fits n) cs"
    "fits (numeral k) (make_structure t cs) \<longleftrightarrow> t < 2 ^ 24 \<and> list_all (fits (pred_numeral k)) cs"
    by (simp_all add: numeral_eq_Suc)
qed

lemma list_all_nonempty_child [simp]: "list_all P (nonempty_child f s) \<longleftrightarrow> (s \<noteq> [] \<longrightarrow> P (f s))"
  by (simp add: nonempty_child_def)

lemmas attribute_element_defs = make_name_attribute_def make_text_attribute_def
  make_integer_attribute_def make_enum_attribute_def make_template_attribute_def
  make_v2_name_struct_def make_v2_attribute_reference_def make_key_block_def make_key_value_def

lemma make_request_inject [simp]:
  "make_request op cs = make_request op' cs' \<longleftrightarrow> op = op' \<and> cs = cs'"
  by (simp add: make_request_def make_structure_eq)

locale request_builder =
  fixes build :: "'a \<Rightarrow> RequestBatchItem res" and operation :: i32
  assumes build_payload: "build x = Inr item \<Longrightarrow>
    \<exists>cs. item = make_request operation cs \<and> list_all (fits 5) cs"
begin

lemma build_item:
  assumes "build x = Inr item"
  shows "request_item_valid item" "payload_fits (rqb_requestPayload item)"
    "rqb_requestPayload item = Some e \<Longrightarrow> allowed_types version e"
proof -
  from build_payload [OF assms] obtain cs where
    cs: "rqb_requestPayload item = Some (make_structure KMIP_TAG_REQUEST_PAYLOAD cs)"
      "list_all (fits 5) cs" by (auto simp: make_request_def)
  then have "fits 6 (make_structure KMIP_TAG_REQUEST_PAYLOAD cs)" by (simp add: kmip_consts)
  with cs(1) show "request_item_valid item" "payload_fits (rqb_requestPayload item)"
    "rqb_requestPayload item = Some e \<Longrightarrow> allowed_types version e"
    by (auto simp: request_item_valid_def payload_tagged_def payload_fits_def fits_def)
qed

end

interpretation id_request: request_builder "\<lambda>unique_id. Inr (SimpleIdRequest op unique_id)" op for op
  by unfold_locales (auto simp: SimpleIdRequest_def kmip_consts)

interpretation get_request: request_builder "\<lambda>(unique_id, fmt). Inr (GetRequest unique_id fmt)" KMIP_OP_GET
  by unfold_locales (auto simp: GetRequest_def kmip_consts)

interpretation get_attributes_request: request_builder
  "\<lambda>(unique_id, names, version, legacy). Inr (GetAttributesRequest unique_id names version legacy)"
  KMIP_OP_GET_ATTRIBUTES
  by unfold_locales
     (auto simp: GetAttributesRequest_def attribute_element_defs list_all_iff
        kmip_consts split: option.splits)

interpretation create_request: request_builder
  "\<lambda>(name, grp, key_bits, bits, version). Inr (CreateSymmetricKeyRequest name grp key_bits bits version)"
  KMIP_OP_CREATE
  by unfold_locales
     (auto simp: CreateSymmetricKeyRequest_def make_v2_create_symmetric_attrs_def
        attribute_element_defs kmip_consts)

interpretation register_symmetric_request: request_builder
  "\<lambda>(name, grp, val, version). Inr (RegisterSymmetricKeyRequest name grp val version)" KMIP_OP_REGISTER
  by unfold_locales
     (auto simp: RegisterSymmetricKeyRequest_def make_v2_register_symmetric_attrs_def
        make_symmetric_key_def attribute_element_defs Let_def kmip_consts)

interpretation register_secret_request: request_builder
  "\<lambda>(name, grp, secret, kind, version). Inr (RegisterSecretRequest name grp secret kind version)"
  KMIP_OP_REGISTER
  by unfold_locales
     (auto simp: RegisterSecretRequest_def make_v2_register_secret_attrs_def
        make_secret_data_def attribute_element_defs kmip_consts)

interpretation locate_request: request_builder
  "\<lambda>(by_group, name, obj_type, max_items, offset, version).
     LocateRequest by_group name obj_type max_items offset version" KMIP_OP_LOCATE
  by unfold_locales
     (auto simp: LocateRequest_def attribute_element_defs bind_res_Inr_iff
        kmip_consts)

interpretation revoke_request: request_builder
  "\<lambda>(unique_id, reason, message, at). Inr (RevokeRequest unique_id reason message at)" KMIP_OP_REVOKE
  by unfold_locales (auto simp: RevokeRequest_def kmip_consts)

lemma key_object_fits: "make_key_object_from_key key version = Inr obj \<Longrightarrow> fits 4 obj"
  by (auto simp: make_key_object_from_key_def Let_def attribute_element_defs kmip_consts
      split: KeyType.splits if_splits)

lemma register_key_attrs_fit:
  "fits 5 (make_v2_register_key_attrs name grp key version)"
  "fits 5 (make_template_attribute (v1_register_key_attrs name grp key version))"
  by (auto simp: make_v2_register_key_attrs_def v1_register_key_attrs_def attribute_element_defs
      list_all_iff kmip_consts split: option.splits)

lemma fits_mono: "fits m e \<Longrightarrow> m \<le> n \<Longrightarrow> fits n e"
  by (auto simp: fits_def)

interpretation register_key_request: request_builder
  "\<lambda>(name, grp, key, version). RegisterKeyRequest name grp key version" KMIP_OP_REGISTER
  by unfold_locales
     (auto simp: RegisterKeyRequest_def bind_res_Inr_iff register_key_attrs_fit
        fits_mono [OF key_object_fits] kmip_consts)

lemma make_request_item:
  assumes "list_all (fits 5) cs"
  shows "request_item_valid (make_request op cs) \<and> payload_fits (rqb_requestPayload (make_request op cs)) \<and>
    (\<forall>e version. rqb_requestPayload (make_request op cs) = Some e \<longrightarrow> allowed_types version e)"
proof -
  have "fits 6 (make_structure KMIP_TAG_REQUEST_PAYLOAD cs)" using assms by (simp add: kmip_consts)
  then show ?thesis
    by (auto simp: make_request_def request_item_valid_def payload_tagged_def payload_fits_def fits_def)
qed

text \<open>The requests the library can build: one rule per constructor, and the two that \<open>op_discover_versions\<close> and \<open>op_query\<close> of
  \<open>KmipClient.cpp\<close> put together themselves.\<close>

inductive library_request :: "RequestBatchItem \<Rightarrow> bool" where
  simple_id: "library_request (SimpleIdRequest op unique_id)"
| get: "library_request (GetRequest unique_id fmt)"
| get_attributes: "library_request (GetAttributesRequest unique_id names version legacy)"
| create: "library_request (CreateSymmetricKeyRequest name grp key_bits bits version)"
| register_symmetric: "library_request (RegisterSymmetricKeyRequest name grp val version)"
| register_key: "RegisterKeyRequest name grp key version = Inr item \<Longrightarrow> library_request item"
| register_secret: "library_request (RegisterSecretRequest name grp secret kind version)"
| locate: "LocateRequest by_group name obj_type max_items offset version = Inr item \<Longrightarrow>
    library_request item"
| revoke: "library_request (RevokeRequest unique_id reason message at)"
| discover_versions: "library_request (make_request KMIP_OP_DISCOVER_VERSIONS [])"
| query: "library_request (make_request KMIP_OP_QUERY
    [createEnumeration KMIP_TAG_QUERY_FUNCTION KMIP_QUERY_OPERATIONS,
     createEnumeration KMIP_TAG_QUERY_FUNCTION KMIP_QUERY_OBJECTS,
     createEnumeration KMIP_TAG_QUERY_FUNCTION KMIP_QUERY_SERVER_INFORMATION])"

lemma library_request_item:
  assumes "library_request item"
  shows "request_item_valid item \<and> payload_fits (rqb_requestPayload item) \<and>
    (\<forall>e version. rqb_requestPayload item = Some e \<longrightarrow> allowed_types version e)"
  using assms
proof (induction rule: library_request.induct)
  case simple_id
  show ?case using id_request.build_item [OF refl] by blast
next
  case (get unique_id fmt)
  show ?case using get_request.build_item [of "(unique_id, fmt)"] by auto
next
  case (get_attributes unique_id names version legacy)
  show ?case using get_attributes_request.build_item [of "(unique_id, names, version, legacy)"] by auto
next
  case (create name grp key_bits bits version)
  show ?case using create_request.build_item [of "(name, grp, key_bits, bits, version)"] by auto
next
  case (register_symmetric name grp val version)
  show ?case using register_symmetric_request.build_item [of "(name, grp, val, version)"] by auto
next
  case (register_key name grp key version item)
  then show ?case using register_key_request.build_item [of "(name, grp, key, version)" item] by auto
next
  case (register_secret name grp secret kind version)
  show ?case using register_secret_request.build_item [of "(name, grp, secret, kind, version)"] by auto
next
  case (locate by_group name obj_type max_items offset version item)
  then show ?case
    using locate_request.build_item [of "(by_group, name, obj_type, max_items, offset, version)" item] by auto
next
  case (revoke unique_id reason message at)
  show ?case using revoke_request.build_item [of "(unique_id, reason, message, at)"] by auto
next
  case discover_versions
  show ?case by (rule make_request_item) simp
next
  case query
  show ?case by (rule make_request_item) (simp add: kmip_consts)
qed

lemma fold_add_payload_map:
  "map rqb_requestPayload (rqm_batchItems (fold (\<lambda>item rm. snd (add_batch_item item rm)) xs r)) =
     map rqb_requestPayload (rqm_batchItems r) @ map rqb_requestPayload xs"
  by (induction xs arbitrary: r) (simp_all add: add_batch_item_items)

lemma library_message_sendable:
  assumes "items \<noteq> []" "list_all library_request items" "rm = setBatchItems items rm0"
    and "length (encode (request_element (prepare_request now rm))) \<le> 2 ^ 26"
  shows "sendable now rm"
proof -
  define P where "P p \<longleftrightarrow> payload_tagged KMIP_TAG_REQUEST_PAYLOAD p \<and> payload_fits p \<and>
    (\<forall>e version. p = Some e \<longrightarrow> allowed_types version e)" for p
  have "list_all P (map rqb_requestPayload items)"
    using assms(2) library_request_item by (auto simp: list_all_iff P_def request_item_valid_def)
  then have "list_all P (map rqb_requestPayload (rqm_batchItems rm))"
    by (simp add: assms(3) setBatchItems_def fold_add_payload_map clearBatchItems_def)
  moreover have "batch_numbered rm"
    unfolding assms(3) setBatchItems_def by (intro fold_add_numbered batch_numbered_clear)
  moreover have "length (rqm_batchItems rm) = length items"
    unfolding assms(3) setBatchItems_def by (simp add: fold_add_length clearBatchItems_def)
  ultimately show ?thesis
    using assms(1,4) by (auto simp: sendable_def list_all_iff P_def request_item_valid_def)
qed

lemma word32_of_nat_mod: "word_of_nat (n mod 2 ^ 64) = (word_of_nat n :: 32 word)"
  by (simp only: word_of_nat_eq_iff take_bit_eq_mod [symmetric]) simp

lemma unique_names_fold:
  "set seen = set ys \<Longrightarrow> distinct ys \<Longrightarrow>
     fst (fold unique_names_step xs (ys, seen)) = ys @ rev (remdups (rev (filter (\<lambda>x. x \<notin> set ys) xs)))"
proof (induction xs arbitrary: ys seen)
  case (Cons x xs)
  show ?case
  proof (cases "x \<in> set ys")
    case True
    then show ?thesis using Cons by (simp add: unique_names_step_def)
  next
    case False
    have "rev (remdups (rev (filter (\<lambda>z. z \<notin> set ys) (x # xs)))) =
        x # rev (remdups (rev (filter (\<lambda>z. z \<notin> set (ys @ [x])) xs)))"
    proof -
      have "remdups (zs @ [x]) = remdups (filter (\<lambda>z. z \<noteq> x) zs) @ [x]" for zs
        by (induction zs) auto
      with False show ?thesis by (simp add: rev_filter [symmetric] conj_commute)
    qed
    with False Cons.IH [of "x # seen" "ys @ [x]"] Cons.prems show ?thesis
      by (simp add: unique_names_step_def)
  qed
qed simp

section \<open>Properties\<close>



text \<open>C37. Both protocol generations say the same: the attributes of a Create, a symmetric Register or a
  secret Register, read back through the attribute parser, do not depend on the protocol version, and
  are exactly the algorithm, length, usage mask, name and optional group of the call.\<close>

theorem request_attributes_version_independent:
  assumes "is_valid_cryptographic_usage_mask bits"
  shows "request_attributes (CreateSymmetricKeyRequest name grp key_bits bits version) =
      Inr (with_name_group name grp (set_usage_mask bits (set_crypto_length key_bits
        (set_algorithm KMIP_CRYPTOALG_AES no_attributes)))) \<and>
    request_attributes (RegisterSymmetricKeyRequest name grp val version) =
      request_attributes (CreateSymmetricKeyRequest name grp (word_of_nat (8 * length val))
        (KMIP_CRYPTOMASK_ENCRYPT OR KMIP_CRYPTOMASK_DECRYPT) version') \<and>
    request_attributes (RegisterSecretRequest name grp secret kind version) =
      request_attributes (RegisterSecretRequest name grp secret' kind' version')"
proof -
  have "(word_of_nat (sz_mul (length val) 8) :: i32) = word_of_nat (8 * length val)"
    using word32_of_nat_mod [of "length val * 8"] by (simp add: sz_mul_def mult.commute)
  then show ?thesis
    using assms
    by (simp add: request_attributes_create request_attributes_register_symmetric
        request_attributes_register_secret fixed_values_valid)
qed

theorem request_attributes_version_independent_witness:
  "request_attributes (CreateSymmetricKeyRequest ''k'' [] 256 12 KMIP_VERSION_2_0) =
      Inr (with_name_group ''k'' [] (set_usage_mask 12 (set_crypto_length 256
        (set_algorithm KMIP_CRYPTOALG_AES no_attributes))))"
  using request_attributes_version_independent [of 12 "''k''" "[]" 256 KMIP_VERSION_2_0]
  by (simp add: is_valid_cryptographic_usage_mask_def)

text \<open>C27. What Register sends for a key whose attributes are valid, with well-known names in the typed fields only and values in
  range, never disagrees with itself: the algorithm and length in the key
  block are those in the attributes, both present or both absent, the key material is unchanged, and
  name, group and usage mask are those of the call.\<close>

theorem register_key_consistent:
  assumes "RegisterKeyRequest name grp key version = Inr item" "attrs_valid (key_attributes key)"
  shows "\<exists>r fmt. request_attributes item = Inr r \<and>
    sent_key_block item = Some (make_key_block fmt (key_value key) (attr_algo r) (attr_crypto_length r)) \<and>
    (attr_algo r = None \<longleftrightarrow> attr_crypto_length r = None) \<and>
    attr_usage_mask r = attr_usage_mask (key_attributes key) \<and>
    get_string ''Name'' r = name \<and> get_string ''Object Group'' r = grp"
proof -
  obtain obj_type obj where o: "make_key_object_from_key key version = Inr obj"
    and item: "item = make_request KMIP_OP_REGISTER [createEnumeration KMIP_TAG_OBJECT_TYPE obj_type,
        if use_attributes_container version then make_v2_register_key_attrs name grp key version
        else make_template_attribute (v1_register_key_attrs name grp key version), obj]"
    using assms(1) by (auto simp: RegisterKeyRequest_def bind_res_Inr_iff)
  obtain tag fmt where obj: "obj = make_structure tag [make_key_block fmt (key_value key)
      (map_option al_algorithm (algorithm_and_length key version))
      (map_option al_length (algorithm_and_length key version))]"
    and tag: "tag = KMIP_TAG_SYMMETRIC_KEY \<or> tag = KMIP_TAG_PRIVATE_KEY \<or> tag = KMIP_TAG_PUBLIC_KEY"
    using o by (auto simp: make_key_object_from_key_def Let_def split: KeyType.splits if_splits)
  let ?a = "sent_typed key version (with_name_group name grp no_attributes)"
  obtain r where r: "request_attributes item = Inr r" "same_head r ?a"
    using request_attributes_register_key [OF assms(2) tag] unfolding item obj by blast
  have "sent_key_block item = Some (make_key_block fmt (key_value key)
      (map_option al_algorithm (algorithm_and_length key version))
      (map_option al_length (algorithm_and_length key version)))"
    using tag
    by (auto simp: sent_key_block_def item make_request_def obj make_v2_register_key_attrs_def
        make_template_attribute_def make_key_block_def kmip_consts)
  moreover have "attr_algo ?a = map_option al_algorithm (algorithm_and_length key version)"
    "attr_crypto_length ?a = map_option al_length (algorithm_and_length key version)"
    using algorithm_and_length_SomeD(2) [of key version]
    by (auto simp: sent_typed_def set_usage_mask_def set_algorithm_def set_crypto_length_def
        no_attributes_def split: option.split)
  moreover have "get_string ''Name'' ?a = name" "get_string ''Object Group'' ?a = grp"
    by (simp_all add: sent_typed_def split: option.split)
  moreover have "attr_usage_mask ?a = attr_usage_mask (key_attributes key)"
    using assms(2)
    by (simp add: sent_typed_def set_usage_mask_def attr_usage_def attrs_valid_def split: option.split)
  ultimately show ?thesis using r by (auto simp: same_head_def)
qed

theorem register_key_consistent_witness:
  "\<exists>r fmt. request_attributes
       (case RegisterKeyRequest ''n'' ''g'' (new_Key [1, 2] PRIVATE_KEY no_attributes) KMIP_VERSION_1_4 of Inr item \<Rightarrow> item) = Inr r \<and>
     sent_key_block
       (case RegisterKeyRequest ''n'' ''g'' (new_Key [1, 2] PRIVATE_KEY no_attributes) KMIP_VERSION_1_4 of Inr item \<Rightarrow> item) =
       Some (make_key_block fmt [1, 2] (attr_algo r) (attr_crypto_length r)) \<and> get_string ''Name'' r = ''n''"
proof -
  obtain item where item: "RegisterKeyRequest ''n'' ''g'' (new_Key [1, 2] PRIVATE_KEY no_attributes) KMIP_VERSION_1_4 = Inr item"
    by (simp add: RegisterKeyRequest_def new_Key_def object_type_from_key_type_def
        make_key_object_from_key_def Let_def)
  have "attrs_valid (key_attributes (new_Key [1, 2] PRIVATE_KEY no_attributes))" by (simp add: new_Key_def)
  from register_key_consistent [OF item this] show ?thesis unfolding item by (auto simp: new_Key_def)
qed

text \<open>A symmetric key is registered exactly when its algorithm is set and defined in the protocol
  version and a positive length is known, either given or computed from the value; the computed length
  is eight times the number of bytes without wrap-around, and otherwise the call fails with
  \<open>KMIP_INVALID_FIELD\<close>.\<close>

theorem register_symmetric_iff:
  assumes "key_type key = SYMMETRIC_KEY"
  shows "case RegisterKeyRequest name grp key version of
      Inr item \<Rightarrow> \<exists>pair. algorithm_and_length key version = Some pair \<and>
        attr_algo (key_attributes key) = Some (al_algorithm pair) \<and>
        sint (al_algorithm pair) \<le> sint (last_crypto_algorithm version) \<and>
        sint (al_length pair) = (case attr_crypto_length (key_attributes key) of
           Some l \<Rightarrow> sint l | None \<Rightarrow> 8 * int (length (key_value key))) \<and> 0 < sint (al_length pair)
    | Inl err \<Rightarrow> exc_code err = KMIP_INVALID_FIELD \<and>
        (attr_algorithm (key_attributes key) = KMIP_CRYPTOALG_UNSET \<or>
         sint (attr_algorithm (key_attributes key)) > sint (last_crypto_algorithm version) \<or>
         (case attr_crypto_length (key_attributes key) of
            Some l \<Rightarrow> sint l \<le> 0 | None \<Rightarrow> key_value key = [] \<or> 8 * length (key_value key) > int32_max))"
proof -
  have bits: "sint (word_of_nat (sz_mul n 8) :: i32) = 8 * int n" if "n \<le> 268435455" for n
  proof -
    have "sz_mul n 8 = 8 * n" using that by (simp add: sz_mul_def)
    then show ?thesis using that by (simp only: sint_word_of_nat32 [of "8 * n"])
  qed
  show ?thesis
    using assms bits [of "length (key_value key)"]
    by (auto simp: RegisterKeyRequest_def make_key_object_from_key_def object_type_from_key_type_def
        algorithm_and_length_def Let_def attr_algorithm_def kmip_exception_code_def int32_max_def
        KMIP_CRYPTOALG_UNSET_def split: option.splits if_splits)
qed

theorem register_symmetric_iff_witness:
  "\<exists>pair. algorithm_and_length (new_Key (replicate 16 0) SYMMETRIC_KEY
       (set_algorithm KMIP_CRYPTOALG_AES no_attributes)) KMIP_VERSION_1_4 = Some pair \<and> sint (al_length pair) = 128"
proof -
  let ?key = "new_Key (replicate 16 0) SYMMETRIC_KEY (set_algorithm KMIP_CRYPTOALG_AES no_attributes)"
  obtain item where "RegisterKeyRequest [] [] ?key KMIP_VERSION_1_4 = Inr item"
    by (simp add: RegisterKeyRequest_def make_key_object_from_key_def object_type_from_key_type_def
        algorithm_and_length_def Let_def new_Key_def set_algorithm_def attr_algorithm_def no_attributes_def
        last_crypto_algorithm_def is_at_least_def KMIP_VERSION_1_4_def sz_mul_def kmip_consts)
  with register_symmetric_iff [of ?key, where name = "[]" and grp = "[]" and version = KMIP_VERSION_1_4] show ?thesis
    by (auto simp: new_Key_def set_algorithm_def no_attributes_def)
qed

text \<open>Attribute selectors: the names of a Get Attributes request are sent once each, in the order of
  their first occurrence, as references in KMIP 2.0 (unless the legacy form is asked for) and as names
  otherwise.\<close>

theorem get_attributes_selectors:
  "GetAttributesRequest unique_id names version legacy =
     make_request KMIP_OP_GET_ATTRIBUTES (createTextString KMIP_TAG_UNIQUE_IDENTIFIER unique_id #
       map (if is_at_least version 2 0 \<and> \<not> legacy then make_v2_attribute_reference
            else createTextString KMIP_TAG_ATTRIBUTE_NAME) (rev (remdups (rev names)))) \<and>
   distinct (unique_names names) \<and> set (unique_names names) = set names"
  using unique_names_fold [of "[]" "[]" names]
  by (simp add: GetAttributesRequest_def unique_names_def use_attributes_container_def)

text \<open>Paging limits: a Locate request is built exactly when both numbers fit a signed 32-bit field,
  and then the payload carries them unchanged; a request beyond the limits raises an exception.\<close>

theorem locate_request_bounds:
  "(if max_items \<le> int32_max \<and> offset \<le> int32_max
    then \<exists>cs. LocateRequest by_group name obj_type max_items offset version = Inr (make_request KMIP_OP_LOCATE cs) \<and>
       bind_res (read_or 0 toInt (struct_find KMIP_TAG_MAXIMUM_ITEMS cs)) (\<lambda>v. Inr (sint v)) = Inr (int max_items) \<and>
       bind_res (read_or 0 toInt (struct_find KMIP_TAG_OFFSET_ITEMS cs)) (\<lambda>v. Inr (sint v)) = Inr (int offset)
    else \<exists>err. LocateRequest by_group name obj_type max_items offset version = Inl err \<and> is_exception err)"
proof (cases "max_items \<le> int32_max \<and> offset \<le> int32_max")
  case True
  with sint_word_of_nat32 [of max_items] sint_word_of_nat32 [of offset] show ?thesis
    by (auto simp: LocateRequest_def int32_max_def attribute_element_defs nonempty_child_def kmip_consts)
next
  case False
  then show ?thesis
    unfolding LocateRequest_def by (cases "max_items \<le> int32_max") simp_all
qed

text \<open>The library's own payload reader does not accept the Locate requests it builds for KMIP 1.x:
  the Object Type filter is an enumeration, while the reader takes every attribute value for a text
  string.  For KMIP 2.0 it reads the paging numbers and drops the filter.\<close>

theorem locate_payload_reader:
  assumes "LocateRequest by_group name obj_type max_items offset version = Inr item"
    and "rqb_requestPayload item = Some payload"
  shows "LocateRequestPayload_fromElement payload =
    (if is_at_least version 2 0
     then Inr \<lparr>lrq_maximumItems = word_of_nat max_items, lrq_offsetItems = word_of_nat offset, lrq_attributes = []\<rparr>
     else Inl (kmip_exception ''Element is not TextString''))"
  using assms
  by (auto simp: LocateRequest_def bind_res_Inr_iff make_request_def use_attributes_container_def
      LocateRequestPayload_fromElement_def Attribute_fromElement_def default_LocateRequestPayload_def
      attribute_element_defs create_defs accessor_defs kmip_consts)

theorem locate_payload_reader_witness:
  "case LocateRequest False ''k'' KMIP_OBJTYPE_SYMMETRIC_KEY 10 0 KMIP_VERSION_1_4 of
     Inl _ \<Rightarrow> False
   | Inr item \<Rightarrow> bind_res (Inr (the (rqb_requestPayload item))) LocateRequestPayload_fromElement =
       Inl (kmip_exception ''Element is not TextString'')"
proof -
  obtain item where item: "LocateRequest False ''k'' KMIP_OBJTYPE_SYMMETRIC_KEY 10 0 KMIP_VERSION_1_4 = Inr item"
    by (simp add: LocateRequest_def int32_max_def)
  then obtain payload where "rqb_requestPayload item = Some payload"
    by (auto simp: LocateRequest_def bind_res_Inr_iff make_request_def)
  from locate_payload_reader [OF item this] this item show ?thesis
    by (simp add: is_at_least_def KMIP_VERSION_1_4_def)
qed

end
