(* ===== verification/Kmip_Responses.thy ===== *)
theory Kmip_Responses
  imports Kmip_Requests
begin

text \<open>
  \<open>src/kmipcore/src/kmip_responses.cpp\<close> and \<open>kmip_responses.hpp\<close>: typed views of response batch
  items.  A class derived from \<open>ResponseBatchItem\<close> is a record extension of it; \<open>fromBatchItem\<close> checks
  the operation and reads the payload, throwing where a required field is missing.

  The locale \<open>typed_response\<close> states what the response parser relies on: a view keeps the batch item
  it was made from, is only made for its own operation, and fails with a library exception.
\<close>

section \<open>Common checks\<close>

definition expect_operation :: "'a ResponseBatchItem_scheme \<Rightarrow> i32 \<Rightarrow> string \<Rightarrow> unit res" where
  "expect_operation item expectedOperation className =
     guard_res (rsb_operation item = expectedOperation)
       (kmip_exception (className @ '': unexpected operation in response batch item''))"

definition require_response_payload :: "'a ResponseBatchItem_scheme \<Rightarrow> string \<Rightarrow> element res" where
  "require_response_payload item className =
     (case rsb_responsePayload item of
        None \<Rightarrow> Inl (kmip_exception (className @ '': missing response payload''))
      | Some payload \<Rightarrow> Inr payload)"

section \<open>Responses that carry an identifier\<close>

record SimpleIdResponseBatchItem = ResponseBatchItem +
  sid_uniqueIdentifier :: string

definition SimpleIdResponse_fromBatchItem ::
    "i32 \<Rightarrow> ResponseBatchItem \<Rightarrow> SimpleIdResponseBatchItem res" where
  "SimpleIdResponse_fromBatchItem OpCode item =
     bind_res (expect_operation item OpCode ''SimpleIdResponseBatchItem'') (\<lambda>_.
     bind_res (require_response_payload item ''SimpleIdResponseBatchItem'') (\<lambda>payload.
     case getChild KMIP_TAG_UNIQUE_IDENTIFIER payload of
       None \<Rightarrow> Inl (kmip_exception
         ''SimpleIdResponseBatchItem: missing unique identifier in response payload'')
     | Some uid \<Rightarrow> bind_res (toString uid) (\<lambda>s.
         Inr (ResponseBatchItem.extend item (SimpleIdResponseBatchItem.fields s)))))"

section \<open>Get\<close>

definition get_object_element_for_type :: "element \<Rightarrow> i32 \<Rightarrow> element option" where
  "get_object_element_for_type payload objectType =
     (if objectType = KMIP_OBJTYPE_SYMMETRIC_KEY then getChild KMIP_TAG_SYMMETRIC_KEY payload
      else if objectType = KMIP_OBJTYPE_SECRET_DATA then getChild KMIP_TAG_SECRET_DATA payload
      else if objectType = KMIP_OBJTYPE_PRIVATE_KEY then getChild KMIP_TAG_PRIVATE_KEY payload
      else if objectType = KMIP_OBJTYPE_PUBLIC_KEY then getChild KMIP_TAG_PUBLIC_KEY payload
      else None)"

record GetResponseBatchItem = ResponseBatchItem +
  get_uniqueIdentifier :: string
  get_objectType :: i32
  get_objectElement :: "element option"

definition GetResponse_fromBatchItem :: "ResponseBatchItem \<Rightarrow> GetResponseBatchItem res" where
  "GetResponse_fromBatchItem item =
     bind_res (expect_operation item KMIP_OP_GET ''GetResponseBatchItem'') (\<lambda>_.
     bind_res (require_response_payload item ''GetResponseBatchItem'') (\<lambda>payload.
     case getChild KMIP_TAG_UNIQUE_IDENTIFIER payload of
       None \<Rightarrow> Inl (kmip_exception
         ''GetResponseBatchItem: missing unique identifier in response payload'')
     | Some uniqueIdentifier \<Rightarrow>
       bind_res (toString uniqueIdentifier) (\<lambda>uid.
       case getChild KMIP_TAG_OBJECT_TYPE payload of
         None \<Rightarrow> Inl (kmip_exception ''GetResponseBatchItem: missing object type in response payload'')
       | Some objectType \<Rightarrow>
         bind_res (toEnum objectType) (\<lambda>obj_type.
         case get_object_element_for_type payload obj_type of
           None \<Rightarrow> Inl (kmip_exception ''GetResponseBatchItem: missing object payload for object type'')
         | Some obj \<Rightarrow>
           Inr (ResponseBatchItem.extend item (GetResponseBatchItem.fields uid obj_type (Some obj)))))))"

section \<open>Attributes and attribute lists\<close>

record GetAttributesResponseBatchItem = ResponseBatchItem +
  gat_attributes :: "element list"

definition GetAttributesResponse_fromBatchItem ::
    "ResponseBatchItem \<Rightarrow> GetAttributesResponseBatchItem res" where
  "GetAttributesResponse_fromBatchItem item =
     bind_res (expect_operation item KMIP_OP_GET_ATTRIBUTES ''GetAttributesResponseBatchItem'') (\<lambda>_.
     bind_res (require_response_payload item ''GetAttributesResponseBatchItem'') (\<lambda>payload.
     let direct = getChildren KMIP_TAG_ATTRIBUTE payload;
         found = (if direct \<noteq> [] then direct
           else case getChild KMIP_TAG_ATTRIBUTES payload of None \<Rightarrow> []
             | Some attributes \<Rightarrow>
               let wrapped = getChildren KMIP_TAG_ATTRIBUTE attributes in
               if wrapped \<noteq> [] then wrapped
               else case asStructure attributes of None \<Rightarrow> [] | Some items \<Rightarrow> items)
     in Inr (ResponseBatchItem.extend item (GetAttributesResponseBatchItem.fields found))))"

definition attribute_name_from_tag_code :: "i32 \<Rightarrow> string option" where
  "attribute_name_from_tag_code tag_code =
    (if tag_code = KMIP_TAG_NAME then Some KMIP_ATTR_NAME_NAME
     else if tag_code = KMIP_TAG_OBJECT_GROUP then Some KMIP_ATTR_NAME_GROUP
     else if tag_code = KMIP_TAG_STATE then Some KMIP_ATTR_NAME_STATE
     else if tag_code = KMIP_TAG_UNIQUE_IDENTIFIER then Some KMIP_ATTR_NAME_UNIQUE_IDENTIFIER
     else if tag_code = KMIP_TAG_ACTIVATION_DATE then Some KMIP_ATTR_NAME_ACTIVATION_DATE
     else if tag_code = KMIP_TAG_DEACTIVATION_DATE then Some KMIP_ATTR_NAME_DEACTIVATION_DATE
     else if tag_code = KMIP_TAG_PROCESS_START_DATE then Some KMIP_ATTR_NAME_PROCESS_START_DATE
     else if tag_code = KMIP_TAG_PROTECT_STOP_DATE then Some KMIP_ATTR_NAME_PROTECT_STOP_DATE
     else if tag_code = KMIP_TAG_CRYPTOGRAPHIC_ALGORITHM then Some KMIP_ATTR_NAME_CRYPTO_ALG
     else if tag_code = KMIP_TAG_CRYPTOGRAPHIC_LENGTH then Some KMIP_ATTR_NAME_CRYPTO_LEN
     else if tag_code = KMIP_TAG_CRYPTOGRAPHIC_USAGE_MASK then Some KMIP_ATTR_NAME_CRYPTO_USAGE_MASK
     else if tag_code = KMIP_TAG_OPERATION_POLICY_NAME then Some KMIP_ATTR_NAME_OPERATION_POLICY_NAME
     else None)"

definition push_mapped :: "i32 \<Rightarrow> string list \<Rightarrow> string list" where
  "push_mapped tag_code out_names =
     (case attribute_name_from_tag_code tag_code of Some mapped \<Rightarrow> out_names @ [mapped]
      | None \<Rightarrow> out_names)"

definition collect_attribute_list_entries_from_reference ::
    "element \<Rightarrow> string list \<Rightarrow> string list res" where
  "collect_attribute_list_entries_from_reference attribute_reference out_names =
    (if elem_type attribute_reference = KMIP_TYPE_ENUMERATION then
       bind_res (toEnum attribute_reference) (\<lambda>code. Inr (push_mapped code out_names))
     else if elem_type attribute_reference \<noteq> KMIP_TYPE_STRUCTURE then Inr out_names
     else case getChild KMIP_TAG_ATTRIBUTE_NAME attribute_reference of
         Some a_name \<Rightarrow> bind_res (toString a_name) (\<lambda>s. Inr (out_names @ [s]))
       | None \<Rightarrow>
         (case getChild KMIP_TAG_ATTRIBUTE_REFERENCE attribute_reference of
            Some attr_tag \<Rightarrow> bind_res (toEnum attr_tag) (\<lambda>code. Inr (push_mapped code out_names))
          | None \<Rightarrow> Inr out_names))"

record GetAttributeListResponseBatchItem = ResponseBatchItem +
  gal_attributeNames :: "string list"

definition GetAttributeListResponse_fromBatchItem ::
    "ResponseBatchItem \<Rightarrow> GetAttributeListResponseBatchItem res" where
  "GetAttributeListResponse_fromBatchItem item =
     bind_res (expect_operation item KMIP_OP_GET_ATTRIBUTE_LIST ''GetAttributeListResponseBatchItem'') (\<lambda>_.
     bind_res (require_response_payload item ''GetAttributeListResponseBatchItem'') (\<lambda>payload.
     bind_res (map_res toString (getChildren KMIP_TAG_ATTRIBUTE_NAME payload)) (\<lambda>names.
     bind_res (if names \<noteq> [] then Inr names
        else fold_res collect_attribute_list_entries_from_reference
          (getChildren KMIP_TAG_ATTRIBUTE_REFERENCE payload) []) (\<lambda>found.
     Inr (ResponseBatchItem.extend item (GetAttributeListResponseBatchItem.fields found))))))"

section \<open>Locate, Discover Versions and Query\<close>

record LocateResponseBatchItem = ResponseBatchItem +
  loc_locatePayload :: LocateResponsePayload

definition LocateResponse_fromBatchItem :: "ResponseBatchItem \<Rightarrow> LocateResponseBatchItem res" where
  "LocateResponse_fromBatchItem item =
     bind_res (expect_operation item KMIP_OP_LOCATE ''LocateResponseBatchItem'') (\<lambda>_.
     bind_res (require_response_payload item ''LocateResponseBatchItem'') (\<lambda>payload.
     bind_res (LocateResponsePayload_fromElement payload) (\<lambda>locatePayload.
     Inr (ResponseBatchItem.extend item (LocateResponseBatchItem.fields locatePayload)))))"

record DiscoverVersionsResponseBatchItem = ResponseBatchItem +
  dv_protocolVersions :: "ProtocolVersion list"

definition DiscoverVersionsResponse_fromBatchItem ::
    "ResponseBatchItem \<Rightarrow> DiscoverVersionsResponseBatchItem res" where
  "DiscoverVersionsResponse_fromBatchItem item =
     bind_res (expect_operation item KMIP_OP_DISCOVER_VERSIONS ''DiscoverVersionsResponseBatchItem'') (\<lambda>_.
     bind_res (case rsb_responsePayload item of None \<Rightarrow> Inr []
        | Some payload \<Rightarrow> map_res (\<lambda>pvElement. ProtocolVersion_fromElement (Some pvElement))
            (getChildren KMIP_TAG_PROTOCOL_VERSION payload)) (\<lambda>versions.
     Inr (ResponseBatchItem.extend item (DiscoverVersionsResponseBatchItem.fields versions))))"

record QueryResponseBatchItem = ResponseBatchItem +
  q_operations :: "i32 list"
  q_objectTypes :: "i32 list"
  q_vendorIdentification :: string
  q_serverName :: string
  q_productName :: string
  q_serverVersion :: string
  q_buildLevel :: string
  q_buildDate :: string
  q_serverSerialNumber :: string
  q_serverLoad :: string
  q_clusterInfo :: string

definition QueryResponse_fromBatchItem :: "ResponseBatchItem \<Rightarrow> QueryResponseBatchItem res" where
  "QueryResponse_fromBatchItem item =
     bind_res (expect_operation item KMIP_OP_QUERY ''QueryResponseBatchItem'') (\<lambda>_.
     case rsb_responsePayload item of
       None \<Rightarrow> Inr (ResponseBatchItem.extend item
         (QueryResponseBatchItem.fields [] [] [] [] [] [] [] [] [] [] []))
     | Some payload \<Rightarrow>
       bind_res (map_res toEnum (getChildren KMIP_TAG_OPERATION payload)) (\<lambda>operations.
       bind_res (map_res toEnum (getChildren KMIP_TAG_OBJECT_TYPE payload)) (\<lambda>objectTypes.
       bind_res (read_or [] toString (getChild KMIP_TAG_VENDOR_IDENTIFICATION payload)) (\<lambda>vendor.
       let serverInfo = (case getChild KMIP_TAG_SERVER_INFORMATION payload of
             Some info \<Rightarrow> if asStructure info \<noteq> None then Some info else None
           | None \<Rightarrow> None);
           field = (\<lambda>tag. case serverInfo of None \<Rightarrow> Inr []
             | Some info \<Rightarrow> read_or [] toString (getChild tag info))
       in
       bind_res (field KMIP_TAG_SERVER_NAME) (\<lambda>serverName.
       bind_res (field KMIP_TAG_SERVER_SERIAL_NUMBER) (\<lambda>serial.
       bind_res (field KMIP_TAG_SERVER_VERSION) (\<lambda>version.
       bind_res (field KMIP_TAG_SERVER_LOAD) (\<lambda>load.
       bind_res (field KMIP_TAG_PRODUCT_NAME) (\<lambda>product.
       bind_res (field KMIP_TAG_BUILD_LEVEL) (\<lambda>buildLevel.
       bind_res (field KMIP_TAG_BUILD_DATE) (\<lambda>buildDate.
       bind_res (field KMIP_TAG_CLUSTER_INFO) (\<lambda>clusterInfo.
       Inr (ResponseBatchItem.extend item
         (QueryResponseBatchItem.fields operations objectTypes vendor serverName product version
            buildLevel buildDate serial load clusterInfo))))))))))))))"

section \<open>The contract of typed responses\<close>

abbreviation base_item :: "'a ResponseBatchItem_scheme \<Rightarrow> ResponseBatchItem" where
  "base_item \<equiv> ResponseBatchItem.truncate"

locale typed_response =
  fixes from_item :: "ResponseBatchItem \<Rightarrow> 'a ResponseBatchItem_scheme res" and operation :: i32
  assumes keeps_item: "from_item item = Inr r \<Longrightarrow> base_item r = item \<and> rsb_operation item = operation"
    and fails_with: "from_item item = Inl err \<Longrightarrow> is_exception err"
begin

lemma wrong_operation:
  assumes "rsb_operation item \<noteq> operation"
  shows "\<exists>err. from_item item = Inl err \<and> is_exception err"
  using assms keeps_item fails_with by (cases "from_item item") auto

end

lemma extend_truncate [simp]: "ResponseBatchItem.truncate (ResponseBatchItem.extend item f) = item"
  by (cases item) (simp add: ResponseBatchItem.defs)

lemma extend_fields [simp]:
  "rsb_operation (ResponseBatchItem.extend item f) = rsb_operation item"
  "rsb_responsePayload (ResponseBatchItem.extend item f) = rsb_responsePayload item"
  "sid_uniqueIdentifier (ResponseBatchItem.extend item (SimpleIdResponseBatchItem.fields s)) = s"
  "get_uniqueIdentifier (ResponseBatchItem.extend item (GetResponseBatchItem.fields s t p)) = s"
  "get_objectType (ResponseBatchItem.extend item (GetResponseBatchItem.fields s t p)) = t"
  "get_objectElement (ResponseBatchItem.extend item (GetResponseBatchItem.fields s t p)) = p"
  "gat_attributes (ResponseBatchItem.extend item (GetAttributesResponseBatchItem.fields es)) = es"
  "gal_attributeNames (ResponseBatchItem.extend item (GetAttributeListResponseBatchItem.fields ns)) = ns"
  "loc_locatePayload (ResponseBatchItem.extend item (LocateResponseBatchItem.fields lp)) = lp"
  "dv_protocolVersions (ResponseBatchItem.extend item (DiscoverVersionsResponseBatchItem.fields vs)) = vs"
  by (simp_all add: ResponseBatchItem.defs SimpleIdResponseBatchItem.defs GetResponseBatchItem.defs
      GetAttributesResponseBatchItem.defs GetAttributeListResponseBatchItem.defs
      LocateResponseBatchItem.defs DiscoverVersionsResponseBatchItem.defs)

text \<open>The readers these views are built from fail with library exceptions only.\<close>

named_theorems reader_Inl "failures of readers are library exceptions"

lemma checks_Inl [reader_Inl]:
  "expect_operation item op c = Inl err \<Longrightarrow> is_exception err"
  "require_response_payload item c = Inl err \<Longrightarrow> is_exception err"
  "check_structure t m p = Inl err \<Longrightarrow> is_exception err"
  by (auto simp: expect_operation_def require_response_payload_def check_structure_def guard_res_def
      split: option.splits if_splits)

lemmas accessor_Inl' [reader_Inl] = accessor_Inl

lemma read_or_Inl: "read_or d f p = Inl err \<Longrightarrow> (\<And>e. f e = Inl err \<Longrightarrow> is_exception err) \<Longrightarrow> is_exception err"
  by (cases p) auto

lemma read_or_accessor_Inl [reader_Inl]:
  "read_or s toString p = Inl err \<Longrightarrow> is_exception err" "read_or i toInt p = Inl err \<Longrightarrow> is_exception err"
  by (erule read_or_Inl, erule accessor_Inl)+

lemma map_res_accessor_Inl [reader_Inl]:
  "map_res toString es = Inl err \<Longrightarrow> is_exception err" "map_res toEnum es = Inl err \<Longrightarrow> is_exception err"
  by (auto dest!: map_res_Inl dest: accessor_Inl)

lemma ProtocolVersion_fromElement_Inl [reader_Inl]:
  "ProtocolVersion_fromElement p = Inl err \<Longrightarrow> is_exception err"
  by (auto simp: ProtocolVersion_fromElement_def bind_res_Inl_iff dest: reader_Inl)

lemma map_res_version_Inl [reader_Inl]:
  "map_res (\<lambda>e. ProtocolVersion_fromElement (Some e)) es = Inl err \<Longrightarrow> is_exception err"
  by (auto dest!: map_res_Inl dest: ProtocolVersion_fromElement_Inl)

lemma fold_res_Inl: "fold_res f xs s = Inl err \<Longrightarrow> \<exists>x\<in>set xs. \<exists>s. f x s = Inl err"
  by (induction xs arbitrary: s) (auto simp: bind_res_Inl_iff)

lemma LocateResponsePayload_fromElement_Inl [reader_Inl]:
  "LocateResponsePayload_fromElement e = Inl err \<Longrightarrow> is_exception err"
  by (auto simp: LocateResponsePayload_fromElement_def bind_res_Inl_iff dest!: fold_res_Inl
      dest: accessor_Inl split: option.splits if_splits)

lemma collect_reference_Inl:
  "collect_attribute_list_entries_from_reference e ns = Inl err \<Longrightarrow> is_exception err"
  by (auto simp: collect_attribute_list_entries_from_reference_def bind_res_Inl_iff
      dest: accessor_Inl split: option.splits if_splits)

lemma fold_collect_Inl [reader_Inl]:
  "fold_res collect_attribute_list_entries_from_reference es ns = Inl err \<Longrightarrow> is_exception err"
  by (auto dest!: fold_res_Inl dest: collect_reference_Inl)

interpretation simple_id_response: typed_response "SimpleIdResponse_fromBatchItem op" op for op
  by unfold_locales
     (auto simp: SimpleIdResponse_fromBatchItem_def expect_operation_def bind_res_Inr_iff
        guard_res_Inr_iff bind_res_Inl_iff guard_res_Inl_iff dest: reader_Inl split: option.splits)

interpretation get_response: typed_response GetResponse_fromBatchItem KMIP_OP_GET
  by unfold_locales
     (auto simp: GetResponse_fromBatchItem_def expect_operation_def bind_res_Inr_iff
        guard_res_Inr_iff bind_res_Inl_iff guard_res_Inl_iff dest: reader_Inl dest!: accessor_Inl split: option.splits)

interpretation get_attributes_response: typed_response GetAttributesResponse_fromBatchItem KMIP_OP_GET_ATTRIBUTES
  by unfold_locales
     (auto simp: GetAttributesResponse_fromBatchItem_def expect_operation_def bind_res_Inr_iff
        guard_res_Inr_iff bind_res_Inl_iff guard_res_Inl_iff Let_def dest: reader_Inl)

interpretation get_attribute_list_response: typed_response
  GetAttributeListResponse_fromBatchItem KMIP_OP_GET_ATTRIBUTE_LIST
  by unfold_locales
     (auto simp: GetAttributeListResponse_fromBatchItem_def expect_operation_def bind_res_Inr_iff
        guard_res_Inr_iff bind_res_Inl_iff guard_res_Inl_iff dest: reader_Inl split: if_splits)

interpretation locate_response: typed_response LocateResponse_fromBatchItem KMIP_OP_LOCATE
  by unfold_locales
     (auto simp: LocateResponse_fromBatchItem_def expect_operation_def bind_res_Inr_iff
        guard_res_Inr_iff bind_res_Inl_iff guard_res_Inl_iff dest: reader_Inl)

interpretation discover_versions_response: typed_response
  DiscoverVersionsResponse_fromBatchItem KMIP_OP_DISCOVER_VERSIONS
  by unfold_locales
     (auto simp: DiscoverVersionsResponse_fromBatchItem_def expect_operation_def bind_res_Inr_iff
        guard_res_Inr_iff bind_res_Inl_iff guard_res_Inl_iff dest: reader_Inl split: option.splits)

interpretation query_response: typed_response QueryResponse_fromBatchItem KMIP_OP_QUERY
  by unfold_locales
     (auto simp: QueryResponse_fromBatchItem_def expect_operation_def bind_res_Inr_iff Let_def
        guard_res_Inr_iff bind_res_Inl_iff guard_res_Inl_iff dest: reader_Inl split: option.splits if_splits)

section \<open>Properties\<close>

text \<open>Attribute references are understood: every attribute name a client selects in KMIP 2.0 form is
  read back by the attribute-list reader as that name, the legacy \<open>UniqueID\<close> as \<open>Unique Identifier\<close>, in
  the order sent and behind the names already collected.\<close>

theorem attribute_reference_round_trip:
  "fold_res collect_attribute_list_entries_from_reference (map make_v2_attribute_reference names) out_names =
     Inr (out_names @ map (\<lambda>n. if n = ''UniqueID'' then ''Unique Identifier'' else n) names)"
proof (induction names arbitrary: out_names)
  case (Cons n names)
  have "collect_attribute_list_entries_from_reference (make_v2_attribute_reference n) out_names =
      Inr (out_names @ [if n = ''UniqueID'' then ''Unique Identifier'' else n])"
    unfolding make_v2_attribute_reference_def standard_attribute_name_to_tag_def
    by (auto simp: collect_attribute_list_entries_from_reference_def push_mapped_def
        attribute_name_from_tag_code_def kmip_consts)
  with Cons.IH show ?case by simp
qed simp

end
