(* ===== verification/Key_Parser.thy ===== *)
theory Key_Parser
  imports Kmip_Responses
begin

text \<open>
  \<open>src/kmipcore/src/key_parser.cpp\<close>: from the payload of a Get response to a key or a secret.  The
  lemmas follow the branches of the code; the properties close the loop with the request side: what
  Register sends for a key or secret is what Get returns of it.
\<close>

definition secure_key_material :: "element \<Rightarrow> byte list res" where
  "secure_key_material key_material =
     (case elem_value key_material of ByteString bytes \<Rightarrow> Inr bytes
      | _ \<Rightarrow> Inl (kmip_exception_code KMIP_INVALID_ENCODING ''Key Material is not a byte string.''))"

text \<open>A child that must be present.\<close>

definition require_child :: "i32 \<Rightarrow> string \<Rightarrow> element option \<Rightarrow> element res" where
  "require_child code msg p =
     (case p of Some e \<Rightarrow> Inr e | None \<Rightarrow> Inl (kmip_exception_code code msg))"

text \<open>Algorithm and length may also appear directly in the key block.\<close>

definition read_block_algorithm :: "element \<Rightarrow> Attributes \<Rightarrow> Attributes res" where
  "read_block_algorithm key_block key_attrs =
     (case getChild KMIP_TAG_CRYPTOGRAPHIC_ALGORITHM key_block of None \<Rightarrow> Inr key_attrs
      | Some alg_elem \<Rightarrow> bind_res (toEnum alg_elem) (\<lambda>i.
          bind_res (checked_cryptographic_algorithm i) (\<lambda>alg. Inr (set_algorithm alg key_attrs))))"

definition read_block_length :: "element \<Rightarrow> Attributes \<Rightarrow> Attributes res" where
  "read_block_length key_block key_attrs =
     (case getChild KMIP_TAG_CRYPTOGRAPHIC_LENGTH key_block of None \<Rightarrow> Inr key_attrs
      | Some len_elem \<Rightarrow> bind_res (toInt len_elem) (\<lambda>i. Inr (set_crypto_length i key_attrs)))"

definition parse_key_from_key_block_holder :: "element \<Rightarrow> KeyType \<Rightarrow> string \<Rightarrow> Key res" where
  "parse_key_from_key_block_holder object_element k_type tname =
     bind_res (require_child KMIP_INVALID_ENCODING (''Missing Key Block in '' @ tname @ '' response.'')
       (getChild KMIP_TAG_KEY_BLOCK object_element)) (\<lambda>key_block.
     bind_res (require_child KMIP_INVALID_ENCODING (''Missing Key Value in '' @ tname @ '' response.'')
       (getChild KMIP_TAG_KEY_VALUE key_block)) (\<lambda>kvalue.
     bind_res (require_child KMIP_INVALID_ENCODING (''Missing Key Material in '' @ tname @ '' response.'')
       (getChild KMIP_TAG_KEY_MATERIAL kvalue)) (\<lambda>key_material.
     bind_res (require_child KMIP_INVALID_ENCODING (''Missing Key Format Type in '' @ tname @ '' response.'')
       (getChild KMIP_TAG_KEY_FORMAT_TYPE key_block)) (\<lambda>kformat.
     bind_res (if asStructure key_material \<noteq> None then
         bind_res (toEnum kformat) (\<lambda>f. Inl (kmip_exception_code KMIP_NOT_IMPLEMENTED
           (''Key Material of the '' @ tname @ '' is a structure (Key Format Type '' @
            int_to_string (sint f) @ ''); only byte-string Key Format Types are supported.'')))
       else Inr ()) (\<lambda>_.
     bind_res (secure_key_material key_material) (\<lambda>kv.
     bind_res (AttributesParser_parse (map Some (getChildren KMIP_TAG_ATTRIBUTE kvalue))) (\<lambda>key_attrs.
     bind_res (read_block_algorithm key_block key_attrs) (\<lambda>key_attrs.
     bind_res (read_block_length key_block key_attrs) (\<lambda>key_attrs.
     bind_res (toEnum kformat) (\<lambda>f.
     Inr ((new_Key kv k_type key_attrs)\<lparr>key_format := Some f\<rparr>)))))))))))"

text \<open>The table of \<open>KeyParser::parseResponse\<close>.\<close>

definition key_mappings :: "(i32 \<times> u32 \<times> KeyType \<times> string) list" where
  "key_mappings =
     [(KMIP_OBJTYPE_SYMMETRIC_KEY, KMIP_TAG_SYMMETRIC_KEY, SYMMETRIC_KEY, ''Symmetric Key''),
      (KMIP_OBJTYPE_PRIVATE_KEY, KMIP_TAG_PRIVATE_KEY, PRIVATE_KEY, ''Private Key''),
      (KMIP_OBJTYPE_PUBLIC_KEY, KMIP_TAG_PUBLIC_KEY, PUBLIC_KEY, ''Public Key'')]"

text \<open>Symmetric keys require the raw format.\<close>

definition check_raw_format :: "i32 \<Rightarrow> element \<Rightarrow> unit res" where
  "check_raw_format obj_type object_element =
     (if obj_type = KMIP_OBJTYPE_SYMMETRIC_KEY then
        (case getChild KMIP_TAG_KEY_BLOCK object_element of None \<Rightarrow> Inr ()
         | Some key_block \<Rightarrow>
           (case getChild KMIP_TAG_KEY_FORMAT_TYPE key_block of
              None \<Rightarrow> Inl (kmip_exception_code KMIP_INVALID_ENCODING ''Invalid response object format.'')
            | Some kformat \<Rightarrow> bind_res (toEnum kformat) (\<lambda>f.
                guard_res (f = KMIP_KEYFORMAT_RAW)
                  (kmip_exception_code KMIP_INVALID_ENCODING ''Invalid response object format.''))))
      else Inr ())"

definition KeyParser_parseResponse :: "element option \<Rightarrow> Key res" where
  "KeyParser_parseResponse p =
     bind_res (require_child KMIP_INVALID_ENCODING ''Missing response payload.'' p) (\<lambda>payload.
     bind_res (require_child KMIP_INVALID_ENCODING ''Missing Object Type in Get response.''
       (getChild KMIP_TAG_OBJECT_TYPE payload)) (\<lambda>object_type.
     bind_res (toEnum object_type) (\<lambda>obj_type_val.
     case find (\<lambda>(obj_type, _). obj_type_val = obj_type) key_mappings of
       Some (obj_type, wrapper_tag, k_type, name) \<Rightarrow>
         bind_res (require_child KMIP_INVALID_ENCODING (''Missing '' @ name @ '' object in Get response.'')
           (getChild wrapper_tag payload)) (\<lambda>object_element.
         bind_res (check_raw_format obj_type object_element) (\<lambda>_.
         parse_key_from_key_block_holder object_element k_type name))
     | None \<Rightarrow>
         if obj_type_val = KMIP_OBJTYPE_CERTIFICATE then
           Inl (kmip_exception_code KMIP_NOT_IMPLEMENTED
             ''Certificate object type parsing is not yet supported.'')
         else Inl (kmip_exception_code KMIP_NOT_IMPLEMENTED
             (''Unsupported object type: '' @ int_to_string (sint obj_type_val))))))"

definition parseGetKeyResponse :: "GetResponseBatchItem \<Rightarrow> Key res" where
  "parseGetKeyResponse item = KeyParser_parseResponse (rsb_responsePayload item)"

definition keyFormatType :: "GetResponseBatchItem \<Rightarrow> i32 option res" where
  "keyFormatType item =
     (case Option.bind (Option.bind (get_objectElement item) (getChild KMIP_TAG_KEY_BLOCK))
        (getChild KMIP_TAG_KEY_FORMAT_TYPE) of
        None \<Rightarrow> Inr None
      | Some kformat \<Rightarrow> bind_res (toEnum kformat) (\<lambda>f. Inr (Some f)))"

definition parseGetSecretResponse :: "GetResponseBatchItem \<Rightarrow> Secret res" where
  "parseGetSecretResponse item =
     bind_res (guard_res (get_objectType item = KMIP_OBJTYPE_SECRET_DATA)
       (kmip_exception_code KMIP_REASON_INVALID_DATA_TYPE ''Secret data expected in Get response.'')) (\<lambda>_.
     bind_res (require_child KMIP_INVALID_ENCODING ''Missing Secret Data object in response.''
       (get_objectElement item)) (\<lambda>object.
     bind_res (require_child KMIP_INVALID_ENCODING ''Secret data key block format mismatch''
       (getChild KMIP_TAG_SECRET_DATA_TYPE object)) (\<lambda>stype.
     bind_res (require_child KMIP_INVALID_ENCODING ''Secret data key block format mismatch''
       (getChild KMIP_TAG_KEY_BLOCK object)) (\<lambda>key_block.
     bind_res (require_child KMIP_OBJECT_MISMATCH ''Secret data key block format mismatch''
       (getChild KMIP_TAG_KEY_FORMAT_TYPE key_block)) (\<lambda>kformat.
     bind_res (toEnum kformat) (\<lambda>f.
     bind_res (guard_res (f = KMIP_KEYFORMAT_OPAQUE \<or> f = KMIP_KEYFORMAT_RAW)
       (kmip_exception_code KMIP_OBJECT_MISMATCH ''Secret data key block format mismatch'')) (\<lambda>_.
     bind_res (require_child KMIP_INVALID_ENCODING ''Missing secret key value.''
       (getChild KMIP_TAG_KEY_VALUE key_block)) (\<lambda>kvalue.
     bind_res (require_child KMIP_INVALID_ENCODING ''Missing secret key material.''
       (getChild KMIP_TAG_KEY_MATERIAL kvalue)) (\<lambda>key_material.
     bind_res (secure_key_material key_material) (\<lambda>kv.
     bind_res (toEnum stype) (\<lambda>i.
     bind_res (checked_secret_data_type i) (\<lambda>kind.
     Inr (new_Secret kv kind no_attributes)))))))))))))"

section \<open>Lemmas\<close>

lemma require_child_simps [simp]:
  "require_child code msg (Some e) = Inr e"
  "require_child code msg None = Inl (kmip_exception_code code msg)"
  by (simp_all add: require_child_def)

text \<open>The payload of a Get response for an object the server holds.\<close>

definition get_payload :: "string \<Rightarrow> i32 \<Rightarrow> element \<Rightarrow> element" where
  "get_payload uid obj_type obj =
     make_structure KMIP_TAG_RESPONSE_PAYLOAD
       [createEnumeration KMIP_TAG_OBJECT_TYPE obj_type, createTextString KMIP_TAG_UNIQUE_IDENTIFIER uid, obj]"

definition success_item :: "i32 \<Rightarrow> element \<Rightarrow> ResponseBatchItem" where
  "success_item op payload =
     \<lparr>rsb_uniqueBatchItemId = 1, rsb_operation = op, rsb_resultStatus = KMIP_STATUS_SUCCESS,
      rsb_resultReason = None, rsb_resultMessage = None, rsb_responsePayload = Some payload\<rparr>"

lemma secure_key_material_bytes [simp]: "secure_key_material (createByteString t bs) = Inr bs"
  by (simp add: secure_key_material_def create_defs)

lemma AttributesParser_parse_Nil [simp]: "AttributesParser_parse [] = Inr no_attributes"
  by (simp add: AttributesParser_parse_def)

lemma getChild_key_block:
  "getChild KMIP_TAG_KEY_FORMAT_TYPE (make_key_block f bs alg len) = Some (createEnumeration KMIP_TAG_KEY_FORMAT_TYPE f)"
  "getChild KMIP_TAG_KEY_VALUE (make_key_block f bs alg len) = Some (make_key_value bs)"
  "getChild KMIP_TAG_CRYPTOGRAPHIC_ALGORITHM (make_key_block f bs alg len) =
     map_option (createEnumeration KMIP_TAG_CRYPTOGRAPHIC_ALGORITHM) alg"
  "getChild KMIP_TAG_CRYPTOGRAPHIC_LENGTH (make_key_block f bs alg len) =
     map_option (createInteger KMIP_TAG_CRYPTOGRAPHIC_LENGTH) len"
  "getChild KMIP_TAG_KEY_MATERIAL (make_key_value bs) = Some (createByteString KMIP_TAG_KEY_MATERIAL bs)"
  "getChildren KMIP_TAG_ATTRIBUTE (make_key_value bs) = []"
  by (cases alg; cases len; simp add: make_key_block_def make_key_value_def kmip_consts)+

lemma parse_key_block:
  assumes "\<And>a. alg = Some a \<Longrightarrow> is_valid_cryptographic_algorithm a \<and> a \<noteq> KMIP_CRYPTOALG_UNSET"
  shows "parse_key_from_key_block_holder (make_structure t [make_key_block f bs alg len]) k_type tname =
    Inr ((new_Key bs k_type (no_attributes\<lparr>attr_algo := alg, attr_crypto_length := len\<rparr>))\<lparr>key_format := Some f\<rparr>)"
proof -
  have "getChild KMIP_TAG_KEY_BLOCK (make_structure t [make_key_block f bs alg len]) =
      Some (make_key_block f bs alg len)" by (simp add: make_key_block_def)
  moreover have "asStructure (createByteString KMIP_TAG_KEY_MATERIAL bs) = None"
    by (simp add: asStructure_def create_defs)
  ultimately show ?thesis
    using assms
    by (cases alg; cases len)
       (auto simp: parse_key_from_key_block_holder_def read_block_algorithm_def read_block_length_def
          getChild_key_block set_algorithm_def
          set_crypto_length_def checked_Inr_iff bind_res_Inr_iff no_attributes_def)
qed

lemma require_child_Inl [reader_Inl]: "require_child c m p = Inl err \<Longrightarrow> is_exception err"
  by (cases p) auto

lemma secure_key_material_Inl [reader_Inl]: "secure_key_material e = Inl err \<Longrightarrow> is_exception err"
  by (auto simp: secure_key_material_def split: ttlv_value.splits)

lemma parse_attributes_Inl [reader_Inl]: "AttributesParser_parse ps = Inl err \<Longrightarrow> is_exception err"
  by (auto simp: AttributesParser_parse_def dest: fold_parse_Inl)

lemma parse_attributes_valid: "AttributesParser_parse ps = Inr a \<Longrightarrow> attrs_valid a"
  using fold_res_invariant [of parse_attribute ps no_attributes a attrs_valid]
  by (simp add: AttributesParser_parse_def parse_attribute_valid)

lemma read_block_Inl [reader_Inl]:
  "read_block_algorithm b a = Inl err \<Longrightarrow> is_exception err" "read_block_length b a = Inl err \<Longrightarrow> is_exception err"
  by (auto simp: read_block_algorithm_def read_block_length_def bind_res_Inl_iff
      dest: accessor_Inl checked_Inl split: option.splits)

lemma read_block_valid:
  "attrs_valid a \<Longrightarrow> read_block_algorithm b a = Inr a' \<Longrightarrow> attrs_valid a'"
  "attrs_valid a \<Longrightarrow> read_block_length b a = Inr a' \<Longrightarrow> attrs_valid a'"
  by (auto simp: read_block_algorithm_def read_block_length_def bind_res_Inr_iff checked_Inr_iff
      attrs_valid_typed split: option.splits)

lemma parse_key_block_Inl [reader_Inl]:
  "parse_key_from_key_block_holder e k n = Inl err \<Longrightarrow> is_exception err"
  unfolding parse_key_from_key_block_holder_def bind_res_Inl_iff
  by (elim disjE exE conjE; auto simp: bind_res_Inl_iff dest: reader_Inl split: if_splits)

lemma parse_key_block_valid:
  assumes "parse_key_from_key_block_holder e k n = Inr key"
  shows "attrs_valid (key_attributes key) \<and> key_type key = k \<and>
    (\<exists>b f i. getChild KMIP_TAG_KEY_BLOCK e = Some b \<and> getChild KMIP_TAG_KEY_FORMAT_TYPE b = Some f \<and>
       toEnum f = Inr i \<and> key_format key = Some i)"
proof -
  obtain b kv f a a' a'' i bs where
    b: "getChild KMIP_TAG_KEY_BLOCK e = Some b" "getChild KMIP_TAG_KEY_FORMAT_TYPE b = Some f"
      "toEnum f = Inr i"
    and a: "AttributesParser_parse (map Some (getChildren KMIP_TAG_ATTRIBUTE kv)) = Inr a"
      "read_block_algorithm b a = Inr a'" "read_block_length b a' = Inr a''"
    and key: "key = (new_Key bs k a'')\<lparr>key_format := Some i\<rparr>"
    using assms unfolding parse_key_from_key_block_holder_def bind_res_Inr_iff
    by (auto simp: require_child_def split: option.splits)
  have "attrs_valid a''"
    using read_block_valid(2) [OF read_block_valid(1) [OF parse_attributes_valid [OF a(1)] a(2)] a(3)] .
  with b show ?thesis by (simp add: key new_Key_def)
qed

lemma check_raw_format_Inl [reader_Inl]: "check_raw_format ot e = Inl err \<Longrightarrow> is_exception err"
  by (auto simp: check_raw_format_def bind_res_Inl_iff guard_res_Inl_iff dest: accessor_Inl
      split: option.splits if_splits)

lemma check_raw_format_Inr:
  "check_raw_format ot e = Inr u \<Longrightarrow> ot = KMIP_OBJTYPE_SYMMETRIC_KEY \<Longrightarrow>
     getChild KMIP_TAG_KEY_BLOCK e = Some b \<Longrightarrow> getChild KMIP_TAG_KEY_FORMAT_TYPE b = Some f \<Longrightarrow>
     toEnum f = Inr KMIP_KEYFORMAT_RAW"
  by (auto simp: check_raw_format_def bind_res_Inr_iff guard_res_Inr_iff)

text \<open>The object a server stores from a Register request, with its type.\<close>

definition registered_object :: "RequestBatchItem \<Rightarrow> (i32 \<times> element) option" where
  "registered_object item =
     (case rqb_requestPayload item of None \<Rightarrow> None
      | Some payload \<Rightarrow>
        (case (asStructure payload, getChild KMIP_TAG_OBJECT_TYPE payload) of
           (Some cs, Some t) \<Rightarrow> (case toEnum t of Inr i \<Rightarrow> if cs = [] then None else Some (i, last cs) | _ \<Rightarrow> None)
         | _ \<Rightarrow> None))"

lemma get_response_of_payload:
  assumes "get_object_element_for_type (get_payload uid ot obj) ot = Some obj"
  shows "\<exists>r. GetResponse_fromBatchItem (success_item KMIP_OP_GET (get_payload uid ot obj)) = Inr r \<and>
    get_uniqueIdentifier r = uid \<and> get_objectType r = ot \<and> get_objectElement r = Some obj \<and>
    rsb_responsePayload r = Some (get_payload uid ot obj)"
proof -
  have "getChild KMIP_TAG_UNIQUE_IDENTIFIER (get_payload uid ot obj) = Some (createTextString KMIP_TAG_UNIQUE_IDENTIFIER uid)"
    "getChild KMIP_TAG_OBJECT_TYPE (get_payload uid ot obj) = Some (createEnumeration KMIP_TAG_OBJECT_TYPE ot)"
    by (simp_all add: get_payload_def kmip_consts)
  with assms show ?thesis
    by (simp add: GetResponse_fromBatchItem_def success_item_def expect_operation_def
        require_response_payload_def)
qed

lemma get_object_tags:
  "get_object_element_for_type (get_payload uid KMIP_OBJTYPE_SYMMETRIC_KEY (make_structure KMIP_TAG_SYMMETRIC_KEY cs))
     KMIP_OBJTYPE_SYMMETRIC_KEY = Some (make_structure KMIP_TAG_SYMMETRIC_KEY cs)"
  "get_object_element_for_type (get_payload uid KMIP_OBJTYPE_PRIVATE_KEY (make_structure KMIP_TAG_PRIVATE_KEY cs))
     KMIP_OBJTYPE_PRIVATE_KEY = Some (make_structure KMIP_TAG_PRIVATE_KEY cs)"
  "get_object_element_for_type (get_payload uid KMIP_OBJTYPE_PUBLIC_KEY (make_structure KMIP_TAG_PUBLIC_KEY cs))
     KMIP_OBJTYPE_PUBLIC_KEY = Some (make_structure KMIP_TAG_PUBLIC_KEY cs)"
  "get_object_element_for_type (get_payload uid KMIP_OBJTYPE_SECRET_DATA (make_structure KMIP_TAG_SECRET_DATA cs))
     KMIP_OBJTYPE_SECRET_DATA = Some (make_structure KMIP_TAG_SECRET_DATA cs)"
  by (simp_all add: get_object_element_for_type_def get_payload_def kmip_consts)

text \<open>Object type, wrapper tag and key type belong together.\<close>

definition key_kind :: "i32 \<Rightarrow> u32 \<Rightarrow> KeyType \<Rightarrow> string \<Rightarrow> bool" where
  "key_kind ot tag k name \<longleftrightarrow> (ot, tag, k, name) \<in> set key_mappings"

lemma parse_get_payload:
  assumes "key_kind ot tag k name" "k = SYMMETRIC_KEY \<longrightarrow> f = KMIP_KEYFORMAT_RAW"
  shows "KeyParser_parseResponse (Some (get_payload uid ot (make_structure tag [make_key_block f bs alg len]))) =
    parse_key_from_key_block_holder (make_structure tag [make_key_block f bs alg len]) k name"
proof -
  have block: "getChild KMIP_TAG_KEY_BLOCK (make_structure tag [make_key_block f bs alg len]) =
      Some (make_key_block f bs alg len)" by (simp add: make_key_block_def)
  have "getChild KMIP_TAG_OBJECT_TYPE (get_payload uid ot obj) = Some (createEnumeration KMIP_TAG_OBJECT_TYPE ot)" for obj
    by (simp add: get_payload_def)
  moreover have "getChild tag (get_payload uid ot (make_structure tag cs)) = Some (make_structure tag cs)" for cs
    using assms(1) by (auto simp: key_kind_def key_mappings_def get_payload_def kmip_consts)
  moreover have "find (\<lambda>(obj_type, _). ot = obj_type) key_mappings = Some (ot, tag, k, name)"
    using assms(1) by (auto simp: key_kind_def key_mappings_def kmip_consts)
  moreover have "ot = KMIP_OBJTYPE_SYMMETRIC_KEY \<Longrightarrow> f = KMIP_KEYFORMAT_RAW"
    using assms by (auto simp: key_kind_def key_mappings_def kmip_consts)
  ultimately show ?thesis
    by (simp add: KeyParser_parseResponse_def check_raw_format_def block getChild_key_block)
qed

lemma key_object_cases:
  assumes "make_key_object_from_key key version = Inr obj" "object_type_from_key_type (key_type key) = Inr ot"
  obtains tag name dflt where "key_kind ot tag (key_type key) name"
    "obj = make_structure tag [make_key_block (case key_format key of Some f \<Rightarrow> f | None \<Rightarrow> dflt)
       (key_value key) (map_option al_algorithm (algorithm_and_length key version))
       (map_option al_length (algorithm_and_length key version))]"
    "key_type key = SYMMETRIC_KEY \<Longrightarrow> dflt = KMIP_KEYFORMAT_RAW"
proof (cases "key_type key")
  case SYMMETRIC_KEY
  then show thesis
    using assms that [of KMIP_TAG_SYMMETRIC_KEY "''Symmetric Key''" KMIP_KEYFORMAT_RAW]
    by (simp add: make_key_object_from_key_def object_type_from_key_type_def Let_def key_kind_def
        key_mappings_def split: if_splits)
next
  case PRIVATE_KEY
  then show thesis
    using assms that [of KMIP_TAG_PRIVATE_KEY "''Private Key''" KMIP_KEYFORMAT_PKCS8]
    by (simp add: make_key_object_from_key_def object_type_from_key_type_def Let_def key_kind_def
        key_mappings_def)
next
  case PUBLIC_KEY
  then show thesis
    using assms that [of KMIP_TAG_PUBLIC_KEY "''Public Key''" KMIP_KEYFORMAT_X509]
    by (simp add: make_key_object_from_key_def object_type_from_key_type_def Let_def key_kind_def
        key_mappings_def)
qed (use assms in \<open>simp_all add: make_key_object_from_key_def object_type_from_key_type_def Let_def\<close>)

lemma get_object_of_kind:
  "key_kind ot tag k name \<Longrightarrow>
     get_object_element_for_type (get_payload uid ot (make_structure tag cs)) ot = Some (make_structure tag cs)"
  by (auto simp: key_kind_def key_mappings_def get_object_tags)

text \<open>What is registered comes back: when a server stores the object of a Register request and
  returns it in a Get response, the key parser yields a key with the same bytes, type and format, and
  the algorithm and length that were sent.\<close>

lemma registered_key_parsed:
  assumes "RegisterKeyRequest name grp key version = Inr item" "attrs_valid (key_attributes key)"
    and "key_type key = SYMMETRIC_KEY \<Longrightarrow> key_format key \<in> {None, Some KMIP_KEYFORMAT_RAW}"
  shows "\<exists>ot obj r key'. registered_object item = Some (ot, obj) \<and>
    GetResponse_fromBatchItem (success_item KMIP_OP_GET (get_payload uid ot obj)) = Inr r \<and>
    get_uniqueIdentifier r = uid \<and> get_objectType r = ot \<and> object_type_from_key_type (key_type key) = Inr ot \<and> parseGetKeyResponse r = Inr key' \<and>
    key_value key' = key_value key \<and> key_type key' = key_type key \<and>
    key_format key \<in> {None, key_format key'} \<and> keyFormatType r = Inr (key_format key') \<and>
    attr_algo (key_attributes key') = map_option al_algorithm (algorithm_and_length key version) \<and>
    attr_crypto_length (key_attributes key') = map_option al_length (algorithm_and_length key version)"
proof -
  obtain ot obj where ot: "object_type_from_key_type (key_type key) = Inr ot"
    and o: "make_key_object_from_key key version = Inr obj"
    and item: "registered_object item = Some (ot, obj)"
    using assms(1)
    by (auto simp: RegisterKeyRequest_def bind_res_Inr_iff registered_object_def make_request_def)
  obtain tag kname dflt where kind: "key_kind ot tag (key_type key) kname"
    and obj: "obj = make_structure tag [make_key_block (case key_format key of Some f \<Rightarrow> f | None \<Rightarrow> dflt)
       (key_value key) (map_option al_algorithm (algorithm_and_length key version))
       (map_option al_length (algorithm_and_length key version))]"
    and dflt: "key_type key = SYMMETRIC_KEY \<Longrightarrow> dflt = KMIP_KEYFORMAT_RAW"
    using key_object_cases [OF o ot] by metis
  define f where "f = (case key_format key of Some f \<Rightarrow> f | None \<Rightarrow> dflt)"
  obtain r where r: "GetResponse_fromBatchItem (success_item KMIP_OP_GET (get_payload uid ot obj)) = Inr r"
    "get_uniqueIdentifier r = uid" "get_objectElement r = Some obj" "get_objectType r = ot"
    "rsb_responsePayload r = Some (get_payload uid ot obj)"
    using get_response_of_payload [OF get_object_of_kind [OF kind]] unfolding obj by metis
  have "key_type key = SYMMETRIC_KEY \<longrightarrow> f = KMIP_KEYFORMAT_RAW"
    using assms(3) dflt by (auto simp: f_def split: option.split)
  then have parse: "parseGetKeyResponse r = parse_key_from_key_block_holder obj (key_type key) kname"
    unfolding parseGetKeyResponse_def r(5) obj f_def [symmetric] by (intro parse_get_payload kind)
  have "is_valid_cryptographic_algorithm a \<and> a \<noteq> KMIP_CRYPTOALG_UNSET"
    if "map_option al_algorithm (algorithm_and_length key version) = Some a" for a
    using that pair_algorithm_valid [OF _ assms(2)] algorithm_and_length_SomeD(2) by auto
  then obtain key' where key': "parseGetKeyResponse r = Inr key'" "key_value key' = key_value key"
      "key_type key' = key_type key" "key_format key' = Some f"
      "attr_algo (key_attributes key') = map_option al_algorithm (algorithm_and_length key version)"
      "attr_crypto_length (key_attributes key') = map_option al_length (algorithm_and_length key version)"
    unfolding parse obj f_def [symmetric] by (simp add: parse_key_block new_Key_def)
  have "keyFormatType r = Inr (Some f)"
    by (simp add: keyFormatType_def r(3) obj f_def [symmetric])
       (simp add: make_key_block_def kmip_consts)
  moreover have "key_format key \<in> {None, Some f}" by (auto simp: f_def split: option.split)
  ultimately show ?thesis
    using item r(1,2,4) ot key' by (intro exI [of _ ot] exI [of _ obj] exI [of _ r] exI [of _ key']) simp
qed

lemma parsed_key_valid:
  assumes "KeyParser_parseResponse p = Inr key"
  shows "attrs_valid (key_attributes key) \<and> key_format key \<noteq> None \<and>
    (key_type key = SYMMETRIC_KEY \<and> key_format key = Some KMIP_KEYFORMAT_RAW \<or>
     key_type key = PRIVATE_KEY \<or> key_type key = PUBLIC_KEY)"
proof -
  obtain v where "\<exists>p. find (\<lambda>(obj_type, _). v = obj_type) key_mappings = Some p \<and>
      (\<exists>e. check_raw_format (fst p) e = Inr () \<and>
         parse_key_from_key_block_holder e (fst (snd (snd p))) (snd (snd (snd p))) = Inr key)"
    using assms unfolding KeyParser_parseResponse_def bind_res_Inr_iff
    by (fastforce simp: bind_res_Inr_iff split: option.splits if_splits prod.splits)
  then obtain ot tag k name e where m: "(ot, tag, k, name) \<in> set key_mappings"
    and raw: "check_raw_format ot e = Inr ()"
    and parsed: "parse_key_from_key_block_holder e k name = Inr key"
    by (auto simp: find_Some_iff) (metis nth_mem)
  show ?thesis
    using parse_key_block_valid [OF parsed] check_raw_format_Inr [OF raw] m
    by (auto simp: key_mappings_def)
qed

section \<open>Properties\<close>

text \<open>Secrets through Register and Get: a registered secret of a defined type is read back with its bytes and
  its type.\<close>

theorem register_then_get_secret:
  assumes "is_valid_secret_data_type kind"
  shows "\<exists>ot obj r. registered_object (RegisterSecretRequest name grp secret kind version) = Some (ot, obj) \<and>
    GetResponse_fromBatchItem (success_item KMIP_OP_GET (get_payload uid ot obj)) = Inr r \<and>
    parseGetSecretResponse r = Inr (new_Secret secret kind no_attributes)"
proof -
  have reg: "registered_object (RegisterSecretRequest name grp secret kind version) =
      Some (KMIP_OBJTYPE_SECRET_DATA, make_secret_data secret kind)"
    by (simp add: RegisterSecretRequest_def registered_object_def make_request_def)
  obtain r where r: "GetResponse_fromBatchItem (success_item KMIP_OP_GET
      (get_payload uid KMIP_OBJTYPE_SECRET_DATA (make_secret_data secret kind))) = Inr r"
    "get_objectType r = KMIP_OBJTYPE_SECRET_DATA" "get_objectElement r = Some (make_secret_data secret kind)"
    using get_response_of_payload [OF get_object_tags(4)] unfolding make_secret_data_def by metis
  have "getChild KMIP_TAG_SECRET_DATA_TYPE (make_secret_data secret kind) =
      Some (createEnumeration KMIP_TAG_SECRET_DATA_TYPE kind)"
    "getChild KMIP_TAG_KEY_BLOCK (make_secret_data secret kind) =
      Some (make_key_block KMIP_KEYFORMAT_OPAQUE secret None None)"
    by (simp_all add: make_secret_data_def make_key_block_def kmip_consts)
  then have "parseGetSecretResponse r = Inr (new_Secret secret kind no_attributes)"
    using assms by (simp add: parseGetSecretResponse_def r(2,3) getChild_key_block checked_Inr_iff bind_res_Inr_iff)
  with reg r(1) show ?thesis by blast
qed

theorem register_then_get_secret_witness:
  "\<exists>ot obj r. registered_object (RegisterSecretRequest ''n'' [] [1, 2] KMIP_SECDATA_PASSWORD KMIP_VERSION_1_4) = Some (ot, obj) \<and>
     GetResponse_fromBatchItem (success_item KMIP_OP_GET (get_payload ''7'' ot obj)) = Inr r \<and>
     parseGetSecretResponse r = Inr (new_Secret [1, 2] KMIP_SECDATA_PASSWORD no_attributes)"
  by (rule register_then_get_secret) (simp add: is_valid_secret_data_type_def)

text \<open>The key parser can be relied on: any payload either raises a library exception or gives a key
  with valid attributes that is a raw symmetric key, a private key or a public key.\<close>

theorem parse_key_total:
  "case KeyParser_parseResponse p of
     Inl err \<Rightarrow> is_exception err
   | Inr key \<Rightarrow> attrs_valid (key_attributes key) \<and>
       (key_type key = SYMMETRIC_KEY \<and> key_format key = Some KMIP_KEYFORMAT_RAW \<or>
        key_type key = PRIVATE_KEY \<or> key_type key = PUBLIC_KEY)"
proof (cases "KeyParser_parseResponse p")
  case (Inl err)
  then have "is_exception err"
    unfolding KeyParser_parseResponse_def bind_res_Inl_iff
    by (elim disjE exE conjE; auto simp: bind_res_Inl_iff dest: reader_Inl
        split: option.splits if_splits prod.splits)
  then show ?thesis by (simp add: Inl)
qed (use parsed_key_valid in auto)

end
