(* ===== verification/Response_Parser.thy ===== *)
theory Response_Parser
  imports Key_Parser
begin

text \<open>
  \<open>src/kmipcore/src/response_parser.cpp\<close> and \<open>response_parser.hpp\<close>: lazy decoding of a response,
  lookup of its batch items by index and by identifier, and the conversion of failed items into
  exceptions.  A member function is a state transformer that returns its result together with the
  parser, so that the cached message is visible on error paths too.  The template argument of
  \<open>getResponse\<close> is the \<open>fromBatchItem\<close> function of the requested view.

  \<open>decode_response\<close> is the stateless specification.  The locale \<open>cached_query\<close> says that a query is a
  function of the construction arguments alone; every member satisfies it, so queries can be made in
  any order and repeated.
\<close>

section \<open>State\<close>

record OperationResult =
  or_operation :: i32
  or_resultStatus :: i32
  or_resultReason :: i32
  or_resultMessage :: string

record ResponseParser =
  rp_responseBytes :: "byte list"
  rp_responseMessage :: ResponseMessage
  rp_isParsed :: bool
  rp_operationHints :: "(u32 \<times> i32) list"
  rp_batchItemPositions :: "(u32 \<times> nat) list"

type_synonym 'a query = "ResponseParser \<Rightarrow> 'a res \<times> ResponseParser"

definition new_ResponseParser :: "byte list \<Rightarrow> ResponseParser" where
  "new_ResponseParser bytes =
     \<lparr>rp_responseBytes = bytes,
      rp_responseMessage = \<lparr>rsm_header = default_ResponseHeader, rsm_batchItems = []\<rparr>,
      rp_isParsed = False, rp_operationHints = [], rp_batchItemPositions = []\<rparr>"

text \<open>The loop over the batch items of the request.\<close>

fun record_items :: "RequestBatchItem list \<Rightarrow> nat \<Rightarrow> ResponseParser \<Rightarrow> ResponseParser" where
  "record_items [] pos p = p"
| "record_items (item # items) pos p =
     record_items items (pos + 1)
       (p\<lparr>rp_operationHints := AList.update (rqb_uniqueBatchItemId item) (rqb_operation item) (rp_operationHints p),
          rp_batchItemPositions := AList.update (rqb_uniqueBatchItemId item) pos (rp_batchItemPositions p)\<rparr>)"

definition new_ResponseParser_for :: "byte list \<Rightarrow> RequestMessage \<Rightarrow> ResponseParser" where
  "new_ResponseParser_for bytes request = record_items (rqm_batchItems request) 0 (new_ResponseParser bytes)"

section \<open>Decoding\<close>

definition parseResponse :: "platform \<Rightarrow> unit query" where
  "parseResponse pl p =
     (if rp_responseBytes p = [] then (Inl (kmip_exception ''Empty response from the server.''), p)
      else case deserialize pl (rp_responseBytes p) 0 of
          Inl err \<Rightarrow> (Inl err, p)
        | Inr (root, offset) \<Rightarrow>
          if offset \<noteq> length (rp_responseBytes p) then
            (Inl (kmip_exception ''Trailing bytes found after KMIP response message.''), p)
          else case ResponseMessage_fromElement (Some root) of
              Inl err \<Rightarrow> (Inl err, p)
            | Inr message \<Rightarrow> (Inr (), p\<lparr>rp_responseMessage := message, rp_isParsed := True\<rparr>))"

definition ensureParsed :: "platform \<Rightarrow> unit query" where
  "ensureParsed pl p = (if \<not> rp_isParsed p then parseResponse pl p else (Inr (), p))"

text \<open>Sequencing of queries: a failure ends the call and keeps the state reached.\<close>

definition bind_query :: "'a query \<Rightarrow> ('a \<Rightarrow> ResponseParser \<Rightarrow> 'b res) \<Rightarrow> 'b query" where
  "bind_query q f p = (case q p of (Inl err, p') \<Rightarrow> (Inl err, p') | (Inr x, p') \<Rightarrow> (f x p', p'))"

section \<open>Items\<close>

definition getResponseItem :: "platform \<Rightarrow> int \<Rightarrow> ResponseBatchItem query" where
  "getResponseItem pl itemIdx = bind_query (ensureParsed pl) (\<lambda>_ p.
     let items = rsm_batchItems (rp_responseMessage p) in
     if items = [] then Inl (kmip_exception ''No response batch items from the server.'')
     else if itemIdx < 0 \<or> nat itemIdx \<ge> length items then
       Inl (kmip_exception ''Response batch item index is out of range.'')
     else Inr (items ! nat itemIdx))"

definition item_by_id :: "ResponseBatchItem list \<Rightarrow> (u32 \<times> nat) list \<Rightarrow> u32 \<Rightarrow> ResponseBatchItem res" where
  "item_by_id items positions batchItemId =
     (case find (\<lambda>item. rsb_uniqueBatchItemId item = batchItemId) items of
        Some item \<Rightarrow> Inr item
      | None \<Rightarrow>
        (case map_of positions batchItemId of
           Some pos \<Rightarrow> if pos < length items then Inr (items ! pos)
             else Inl (kmip_exception ''Response batch item id was not found.'')
         | None \<Rightarrow> Inl (kmip_exception ''Response batch item id was not found.'')))"

definition getResponseItemByBatchItemId :: "platform \<Rightarrow> u32 \<Rightarrow> ResponseBatchItem query" where
  "getResponseItemByBatchItemId pl batchItemId = bind_query (ensureParsed pl) (\<lambda>_ p.
     item_by_id (rsm_batchItems (rp_responseMessage p)) (rp_batchItemPositions p) batchItemId)"

definition effectiveOperation :: "ResponseParser \<Rightarrow> ResponseBatchItem \<Rightarrow> u32 option \<Rightarrow> i32" where
  "effectiveOperation p item requestedBatchItemId =
     (let op = rsb_operation item in
      if op \<noteq> 0 then op
      else case map_of (rp_operationHints p) (rsb_uniqueBatchItemId item) of
          Some hint \<Rightarrow> hint
        | None \<Rightarrow>
          (case requestedBatchItemId of
             Some requested \<Rightarrow>
               (case map_of (rp_operationHints p) requested of Some hint \<Rightarrow> hint | None \<Rightarrow> 0)
           | None \<Rightarrow> 0))"

definition get_result_reason_or_default :: "ResponseBatchItem \<Rightarrow> i32" where
  "get_result_reason_or_default item =
     (case rsb_resultReason item of Some reason \<Rightarrow> reason | None \<Rightarrow> KMIP_REASON_GENERAL_FAILURE)"

definition result_message_or_empty :: "ResponseBatchItem \<Rightarrow> string" where
  "result_message_or_empty item = (case rsb_resultMessage item of Some m \<Rightarrow> m | None \<Rightarrow> [])"

definition getBatchItemCount :: "platform \<Rightarrow> nat query" where
  "getBatchItemCount pl = bind_query (ensureParsed pl) (\<lambda>_ p.
     Inr (length (rsm_batchItems (rp_responseMessage p))))"

definition isSuccess :: "platform \<Rightarrow> int \<Rightarrow> bool query" where
  "isSuccess pl itemIdx = bind_query (getResponseItem pl itemIdx) (\<lambda>item _.
     Inr (rsb_resultStatus item = KMIP_STATUS_SUCCESS))"

definition operation_result :: "ResponseParser \<Rightarrow> ResponseBatchItem \<Rightarrow> u32 option \<Rightarrow> OperationResult" where
  "operation_result p item requested =
     \<lparr>or_operation = effectiveOperation p item requested, or_resultStatus = rsb_resultStatus item,
      or_resultReason = get_result_reason_or_default item,
      or_resultMessage = result_message_or_empty item\<rparr>"

definition getOperationResult :: "platform \<Rightarrow> int \<Rightarrow> OperationResult query" where
  "getOperationResult pl itemIdx = bind_query (getResponseItem pl itemIdx) (\<lambda>item p.
     Inr (operation_result p item None))"

definition getOperationResultByBatchItemId :: "platform \<Rightarrow> u32 \<Rightarrow> OperationResult query" where
  "getOperationResultByBatchItemId pl batchItemId =
     bind_query (getResponseItemByBatchItemId pl batchItemId) (\<lambda>item p.
       Inr (operation_result p item (Some batchItemId)))"

section \<open>Failed items\<close>

definition resultStatusToString :: "i32 \<Rightarrow> string" where
  "resultStatusToString status =
    (if status = KMIP_STATUS_SUCCESS then ''Success''
     else if status = KMIP_STATUS_OPERATION_FAILED then ''Operation Failed''
     else if status = KMIP_STATUS_OPERATION_PENDING then ''Operation Pending''
     else if status = KMIP_STATUS_OPERATION_UNDONE then ''Operation Undone''
     else ''Unknown'')"

definition formatOperationResult :: "ResponseBatchItem \<Rightarrow> i32 \<Rightarrow> string" where
  "formatOperationResult item operation =
     ''Message: '' @ result_message_or_empty item @ newline @
     ''Operation: '' @ operation_to_string operation @
     ''; Result status: '' @ resultStatusToString (rsb_resultStatus item) @
     ''; Result reason: '' @ kmip_message_for_code (get_result_reason_or_default item) @ '' ('' @
     int_to_string (sint (get_result_reason_or_default item)) @ '')''"

definition ensureSuccess :: "ResponseParser \<Rightarrow> ResponseBatchItem \<Rightarrow> u32 option \<Rightarrow> unit res" where
  "ensureSuccess p item requestedBatchItemId =
     guard_res (rsb_resultStatus item = KMIP_STATUS_SUCCESS)
       (kmip_exception_code (get_result_reason_or_default item)
         (formatOperationResult item (effectiveOperation p item requestedBatchItemId)))"

definition getResponse :: "(ResponseBatchItem \<Rightarrow> 'a res) \<Rightarrow> platform \<Rightarrow> int \<Rightarrow> 'a query" where
  "getResponse fromBatchItem pl itemIdx = bind_query (getResponseItem pl itemIdx) (\<lambda>item p.
     bind_res (ensureSuccess p item None) (\<lambda>_. fromBatchItem item))"

definition getResponseByBatchItemId :: "(ResponseBatchItem \<Rightarrow> 'a res) \<Rightarrow> platform \<Rightarrow> u32 \<Rightarrow> 'a query" where
  "getResponseByBatchItemId fromBatchItem pl batchItemId =
     bind_query (getResponseItemByBatchItemId pl batchItemId) (\<lambda>item p.
       bind_res (ensureSuccess p item (Some batchItemId)) (\<lambda>_. fromBatchItem item))"

section \<open>The stateless view\<close>

definition decode_response :: "platform \<Rightarrow> byte list \<Rightarrow> ResponseMessage res" where
  "decode_response pl bytes =
     bind_res (guard_res (bytes \<noteq> []) (kmip_exception ''Empty response from the server.'')) (\<lambda>_.
     bind_res (deserialize pl bytes 0) (\<lambda>(root, offset).
     bind_res (guard_res (offset = length bytes)
       (kmip_exception ''Trailing bytes found after KMIP response message.'')) (\<lambda>_.
     ResponseMessage_fromElement (Some root))))"

text \<open>The cached message, when there is one, is the decoded response.\<close>

definition cache_ok :: "platform \<Rightarrow> ResponseParser \<Rightarrow> bool" where
  "cache_ok pl p \<longleftrightarrow> (rp_isParsed p \<longrightarrow> decode_response pl (rp_responseBytes p) = Inr (rp_responseMessage p))"

text \<open>What a parser was constructed from.\<close>

definition same_source :: "ResponseParser \<Rightarrow> ResponseParser \<Rightarrow> bool" where
  "same_source p q \<longleftrightarrow> rp_responseBytes p = rp_responseBytes q \<and>
     rp_operationHints p = rp_operationHints q \<and> rp_batchItemPositions p = rp_batchItemPositions q"

lemma same_source_refl [simp]: "same_source p p"
  by (simp add: same_source_def)

lemma same_source_trans: "same_source p q \<Longrightarrow> same_source q r \<Longrightarrow> same_source p r"
  by (simp add: same_source_def)

locale cached_query =
  fixes pl :: platform and q :: "'a query" and spec :: "ResponseParser \<Rightarrow> 'a res"
  assumes query_spec: "cache_ok pl p \<Longrightarrow> fst (q p) = spec p"
    and query_state: "cache_ok pl p \<Longrightarrow> cache_ok pl (snd (q p)) \<and> same_source (snd (q p)) p"
    and spec_source: "same_source p p' \<Longrightarrow> spec p = spec p'"
begin

text \<open>A query gives the same answer after any other query, itself included.\<close>

lemma query_after:
  assumes "cache_ok pl p" "cache_ok pl p'" "same_source p' p"
  shows "fst (q p') = fst (q p)"
  using query_spec [OF assms(1)] query_spec [OF assms(2)] spec_source [OF assms(3)] by simp

lemma query_again: "cache_ok pl p \<Longrightarrow> fst (q (snd (q p))) = fst (q p)"
  using query_after query_state by blast

end

lemma ensureParsed_spec:
  assumes "cache_ok pl p"
  shows "fst (ensureParsed pl p) = bind_res (decode_response pl (rp_responseBytes p)) (\<lambda>_. Inr ())"
    "cache_ok pl (snd (ensureParsed pl p))" "same_source (snd (ensureParsed pl p)) p"
    "fst (ensureParsed pl p) = Inr () \<Longrightarrow>
       decode_response pl (rp_responseBytes p) = Inr (rp_responseMessage (snd (ensureParsed pl p)))"
  using assms
  by (auto simp: ensureParsed_def parseResponse_def decode_response_def cache_ok_def same_source_def
      bind_res_def guard_res_def split: sum.splits prod.splits if_splits)

text \<open>Every query that reads the decoded message and the construction arguments is a cached query.\<close>

lemma bind_parsed_query:
  assumes "\<And>p p'. same_source p p' \<Longrightarrow> f (rp_responseMessage p) p = f (rp_responseMessage p) p'"
  shows "cached_query pl (bind_query (ensureParsed pl) (\<lambda>_ p. f (rp_responseMessage p) p))
    (\<lambda>p. bind_res (decode_response pl (rp_responseBytes p)) (\<lambda>m. f m p))"
proof
  fix p assume ok: "cache_ok pl p"
  note e = ensureParsed_spec [OF ok]
  obtain r p' where ep: "ensureParsed pl p = (r, p')" by (cases "ensureParsed pl p")
  show "fst (bind_query (ensureParsed pl) (\<lambda>_ p. f (rp_responseMessage p) p) p) =
      bind_res (decode_response pl (rp_responseBytes p)) (\<lambda>m. f m p)"
    using e assms [of p' p] ep
    by (cases "decode_response pl (rp_responseBytes p)") (auto simp: bind_query_def)
  show "cache_ok pl (snd (bind_query (ensureParsed pl) (\<lambda>_ p. f (rp_responseMessage p) p) p)) \<and>
      same_source (snd (bind_query (ensureParsed pl) (\<lambda>_ p. f (rp_responseMessage p) p) p)) p"
    using e ep by (auto simp: bind_query_def split: sum.split)
next
  fix p p' assume "same_source p p'"
  then have "f m p = f m p'" for m
    using assms [of "p\<lparr>rp_responseMessage := m\<rparr>" "p'"] assms [of "p\<lparr>rp_responseMessage := m\<rparr>" p]
    by (simp add: same_source_def)
  then show "bind_res (decode_response pl (rp_responseBytes p)) (\<lambda>m. f m p) =
      bind_res (decode_response pl (rp_responseBytes p')) (\<lambda>m. f m p')"
    using \<open>same_source p p'\<close> by (simp add: same_source_def)
qed

lemma bind_query_assoc:
  "bind_query (bind_query q g) f = bind_query q (\<lambda>x p. bind_res (g x p) (\<lambda>y. f y p))"
  by (rule ext) (auto simp: bind_query_def bind_res_def split: sum.splits prod.splits)

lemma source_fields:
  "same_source p p' \<Longrightarrow> rp_batchItemPositions p = rp_batchItemPositions p'"
  "same_source p p' \<Longrightarrow> effectiveOperation p item r = effectiveOperation p' item r"
  "same_source p p' \<Longrightarrow> ensureSuccess p item r = ensureSuccess p' item r"
  "same_source p p' \<Longrightarrow> operation_result p item r = operation_result p' item r"
  by (simp_all add: same_source_def effectiveOperation_def ensureSuccess_def operation_result_def Let_def
      cong: option.case_cong)

text \<open>The stateless lookups.\<close>

definition item_at :: "ResponseMessage \<Rightarrow> int \<Rightarrow> ResponseBatchItem res" where
  "item_at m itemIdx =
     (if rsm_batchItems m = [] then Inl (kmip_exception ''No response batch items from the server.'')
      else if itemIdx < 0 \<or> nat itemIdx \<ge> length (rsm_batchItems m) then
        Inl (kmip_exception ''Response batch item index is out of range.'')
      else Inr (rsm_batchItems m ! nat itemIdx))"

lemma getResponseItem_eq:
  "getResponseItem pl i = bind_query (ensureParsed pl) (\<lambda>_ p. item_at (rp_responseMessage p) i)"
  by (simp add: getResponseItem_def item_at_def Let_def)

lemmas query_eqs = getResponseItem_eq getResponseItemByBatchItemId_def getBatchItemCount_def
  isSuccess_def getOperationResult_def getOperationResultByBatchItemId_def getResponse_def
  getResponseByBatchItemId_def bind_query_assoc

interpretation item_query: cached_query pl "getResponseItem pl i"
  "\<lambda>p. bind_res (decode_response pl (rp_responseBytes p)) (\<lambda>m. item_at m i)" for pl i
  unfolding query_eqs by (rule bind_parsed_query) simp

interpretation item_id_query: cached_query pl "getResponseItemByBatchItemId pl n"
  "\<lambda>p. bind_res (decode_response pl (rp_responseBytes p)) (\<lambda>m.
     item_by_id (rsm_batchItems m) (rp_batchItemPositions p) n)" for pl n
  unfolding query_eqs
  by (rule bind_parsed_query [where f = "\<lambda>m p. item_by_id (rsm_batchItems m) (rp_batchItemPositions p) n"])
     (simp add: source_fields)

interpretation count_query: cached_query pl "getBatchItemCount pl"
  "\<lambda>p. bind_res (decode_response pl (rp_responseBytes p)) (\<lambda>m. Inr (length (rsm_batchItems m)))" for pl
  unfolding query_eqs by (rule bind_parsed_query) simp

interpretation success_query: cached_query pl "isSuccess pl i"
  "\<lambda>p. bind_res (decode_response pl (rp_responseBytes p)) (\<lambda>m.
     bind_res (item_at m i) (\<lambda>item. Inr (rsb_resultStatus item = KMIP_STATUS_SUCCESS)))" for pl i
  unfolding query_eqs by (rule bind_parsed_query) simp

interpretation result_query: cached_query pl "getOperationResult pl i"
  "\<lambda>p. bind_res (decode_response pl (rp_responseBytes p)) (\<lambda>m.
     bind_res (item_at m i) (\<lambda>item. Inr (operation_result p item None)))" for pl i
  unfolding query_eqs
  by (rule bind_parsed_query [where f = "\<lambda>m p. bind_res (item_at m i) (\<lambda>item. Inr (operation_result p item None))"])
     (simp add: source_fields(4))

interpretation result_id_query: cached_query pl "getOperationResultByBatchItemId pl n"
  "\<lambda>p. bind_res (decode_response pl (rp_responseBytes p)) (\<lambda>m.
     bind_res (item_by_id (rsm_batchItems m) (rp_batchItemPositions p) n) (\<lambda>item.
       Inr (operation_result p item (Some n))))" for pl n
  unfolding query_eqs
  by (rule bind_parsed_query [where f = "\<lambda>m p. bind_res (item_by_id (rsm_batchItems m) (rp_batchItemPositions p) n)
       (\<lambda>item. Inr (operation_result p item (Some n)))"])
     (simp add: source_fields(1) source_fields(4))

interpretation response_query: cached_query pl "getResponse from_item pl i"
  "\<lambda>p. bind_res (decode_response pl (rp_responseBytes p)) (\<lambda>m.
     bind_res (item_at m i) (\<lambda>item. bind_res (ensureSuccess p item None) (\<lambda>_. from_item item)))"
  for from_item pl i
  unfolding query_eqs
  by (rule bind_parsed_query [where f = "\<lambda>m p. bind_res (item_at m i)
       (\<lambda>item. bind_res (ensureSuccess p item None) (\<lambda>_. from_item item))"])
     (simp add: source_fields(3))

interpretation response_id_query: cached_query pl "getResponseByBatchItemId from_item pl n"
  "\<lambda>p. bind_res (decode_response pl (rp_responseBytes p)) (\<lambda>m.
     bind_res (item_by_id (rsm_batchItems m) (rp_batchItemPositions p) n) (\<lambda>item.
       bind_res (ensureSuccess p item (Some n)) (\<lambda>_. from_item item)))"
  for from_item pl n
  unfolding query_eqs
  by (rule bind_parsed_query [where f = "\<lambda>m p. bind_res (item_by_id (rsm_batchItems m) (rp_batchItemPositions p) n)
       (\<lambda>item. bind_res (ensureSuccess p item (Some n)) (\<lambda>_. from_item item))"])
     (simp add: source_fields(1) source_fields(3))

section \<open>Lemmas: positions of the request\<close>

lemma record_items_source [simp]:
  "rp_responseBytes (record_items items pos p) = rp_responseBytes p"
  "rp_isParsed (record_items items pos p) = rp_isParsed p"
  by (induction items pos p rule: record_items.induct) simp_all

lemma cache_ok_new [simp]:
  "cache_ok pl (new_ResponseParser bytes)" "cache_ok pl (new_ResponseParser_for bytes request)"
  by (simp_all add: cache_ok_def new_ResponseParser_def new_ResponseParser_for_def)

lemma record_items_positions:
  assumes "distinct (map rqb_uniqueBatchItemId items)" "n < length items"
  shows "map_of (rp_batchItemPositions (record_items items pos p)) (rqb_uniqueBatchItemId (items ! n)) = Some (pos + n)"
  using assms
proof (induction items pos p arbitrary: n rule: record_items.induct)
  case (2 item items pos p)
  have keep: "map_of (rp_batchItemPositions (record_items xs k q)) i = map_of (rp_batchItemPositions q) i"
    if "i \<notin> rqb_uniqueBatchItemId ` set xs" for xs k q i
    using that by (induction xs k q rule: record_items.induct) (auto simp: update_conv')
  show ?case
  proof (cases n)
    case 0
    have "rqb_uniqueBatchItemId item \<notin> rqb_uniqueBatchItemId ` set items" using 2(2) by simp
    then show ?thesis using 0 by (simp add: keep update_conv')
  next
    case (Suc m)
    then show ?thesis using 2(1) [of m] 2(2,3) by simp
  qed
qed simp

lemma decode_response_encode:
  assumes "response_wire_valid rm" "\<not> hardened pl"
  shows "decode_response pl (encode (response_element rm)) = Inr rm"
proof -
  have e: "ResponseMessage_toElement rm = Inr (response_element rm)"
    using response_wire.to_ok [OF assms(1)] by (auto simp: ResponseMessage_toElement_Inr)
  have wf: "ttlv_wf (response_element rm)" "height (response_element rm) \<le> 65"
    using response_wire.element_wf [OF assms(1) e] by simp_all
  have "deserialize pl (encode (response_element rm)) 0 =
      Inr (response_element rm, length (encode (response_element rm)))"
    using deserialize_complete [of 0 "encode (response_element rm)" "response_element rm" "[]" 0 pl] wf assms(2)
    by (simp add: deserialize_def)
  moreover have "encode (response_element rm) \<noteq> []"
    using length_encode_ge [of "response_element rm"] by auto
  ultimately show ?thesis
    using response_wire.from_to [OF assms(1) e] by (simp add: decode_response_def)
qed

section \<open>Properties\<close>

text \<open>Decoding once is enough: on a parser for any bytes and any request, each query returns what
  the stateless lookup on the decoded response gives, whatever other queries were made before, and the
  parser stays one for the same response.\<close>

theorem parser_queries_stateless:
  assumes "cache_ok pl p"
  shows "fst (getResponseItem pl i p) =
      bind_res (decode_response pl (rp_responseBytes p)) (\<lambda>m. item_at m i) \<and>
    fst (getResponseItemByBatchItemId pl n p) =
      bind_res (decode_response pl (rp_responseBytes p)) (\<lambda>m.
        item_by_id (rsm_batchItems m) (rp_batchItemPositions p) n) \<and>
    cache_ok pl (snd (getResponseItem pl i p)) \<and> cache_ok pl (snd (getResponseItemByBatchItemId pl n p)) \<and>
    fst (getResponseItem pl i (snd (getResponseItemByBatchItemId pl n p))) = fst (getResponseItem pl i p) \<and>
    fst (getResponseItemByBatchItemId pl n (snd (getResponseItem pl i p))) =
      fst (getResponseItemByBatchItemId pl n p)"
  using item_query.query_spec [OF assms] item_id_query.query_spec [OF assms]
    item_query.query_state [OF assms, of i] item_id_query.query_state [OF assms, of n]
    item_query.query_after [OF assms, of "snd (getResponseItemByBatchItemId pl n p)" i]
    item_id_query.query_after [OF assms, of "snd (getResponseItem pl i p)" n]
  by simp

theorem parser_queries_stateless_witness:
  "fst (getResponseItem \<lparr>native_endian = Big_endian, hardened = False\<rparr> 0 (new_ResponseParser [])) =
     Inl (kmip_exception ''Empty response from the server.'')"
  using parser_queries_stateless [OF cache_ok_new(1), of "\<lparr>native_endian = Big_endian, hardened = False\<rparr>" 0 "[]" 0]
  by (simp add: decode_response_def new_ResponseParser_def)

text \<open>Nothing rides along: a response is accepted only when its bytes are, without remainder, the
  encoding of one well-formed element that is a response message.\<close>

theorem response_bytes_canonical:
  assumes "decode_response pl bytes = Inr m"
  shows "\<exists>e. encode e = bytes \<and> ttlv_wf e \<and> height e \<le> 65 \<and> ResponseMessage_fromElement (Some e) = Inr m"
proof -
  obtain e where e: "deserialize pl bytes 0 = Inr (e, length bytes)" "ResponseMessage_fromElement (Some e) = Inr m"
    using assms by (auto simp: decode_response_def bind_res_Inr_iff guard_res_Inr_iff)
  from deserialize_sound_aux(1) [OF e(1) [unfolded deserialize_def]] show ?thesis
    using e(2) by auto
qed

theorem response_bytes_canonical_witness:
  "\<exists>e. encode e = encode (response_element \<lparr>rsm_header = default_ResponseHeader, rsm_batchItems = []\<rparr>) \<and>
     ResponseMessage_fromElement (Some e) = Inr \<lparr>rsm_header = default_ResponseHeader, rsm_batchItems = []\<rparr>"
proof -
  have "decode_response \<lparr>native_endian = Big_endian, hardened = False\<rparr>
      (encode (response_element \<lparr>rsm_header = default_ResponseHeader, rsm_batchItems = []\<rparr>)) =
      Inr \<lparr>rsm_header = default_ResponseHeader, rsm_batchItems = []\<rparr>"
    by (rule decode_response_encode)
       (simp_all add: response_wire_valid_def response_message_valid_def response_items_valid_def
          response_element_def ResponseHeader_toElement_def ProtocolVersion_toElement_def
          default_ResponseHeader_def make_structure_eq create_defs length_encode pad8_def)
  from response_bytes_canonical [OF this] show ?thesis by blast
qed

text \<open>A response with one successful Destroy, used as a concrete input.\<close>

definition destroyed_item :: ResponseBatchItem where
  "destroyed_item = success_item KMIP_OP_DESTROY (make_structure KMIP_TAG_RESPONSE_PAYLOAD
     [createTextString KMIP_TAG_UNIQUE_IDENTIFIER ''k''])"

definition destroyed_response :: ResponseMessage where
  "destroyed_response =
     \<lparr>rsm_header = default_ResponseHeader\<lparr>rsh_batchCount := 1\<rparr>, rsm_batchItems = [destroyed_item]\<rparr>"

lemma destroyed_response_valid: "response_wire_valid destroyed_response"
  by (simp add: destroyed_response_def destroyed_item_def response_wire_valid_def
      response_message_valid_def response_items_valid_def
      response_item_valid_def payload_tagged_def payload_fits_def success_item_def response_element_def
      ResponseHeader_toElement_def ProtocolVersion_toElement_def ResponseBatchItem_toElement_def
      default_ResponseHeader_def encode_batch_item_id_def make_structure_eq create_defs length_encode
      allowed_types.simps ttlv_shape.simps height.simps type_of_value_def pad8_def kmip_consts)

text \<open>C8. Each answer goes to its question: for a request with numbered items and a response that either
  echoes the identifiers or echoes none of them, possibly cut short, the lookup by the identifier of the
  \<open>n\<close>-th request item returns the \<open>n\<close>-th response item.\<close>

theorem batch_item_lookup:
  assumes "response_wire_valid rm" "\<not> hardened pl" "batch_numbered request"
    and "length (rqm_batchItems request) < 2 ^ 32" "length (rsm_batchItems rm) \<le> length (rqm_batchItems request)"
    and "map rsb_uniqueBatchItemId (rsm_batchItems rm) \<in>
      {take (length (rsm_batchItems rm)) (map rqb_uniqueBatchItemId (rqm_batchItems request)),
       replicate (length (rsm_batchItems rm)) 0}"
    and "n < length (rsm_batchItems rm)"
  shows "fst (getResponseItemByBatchItemId pl (rqb_uniqueBatchItemId (rqm_batchItems request ! n))
      (new_ResponseParser_for (encode (response_element rm)) request)) = Inr (rsm_batchItems rm ! n)"
proof -
  let ?p = "new_ResponseParser_for (encode (response_element rm)) request"
  let ?ids = "map rqb_uniqueBatchItemId (rqm_batchItems request)"
  have dist: "distinct ?ids" "0 \<notin> set ?ids" using numbered_distinct [OF assms(3,4)] by simp_all
  have n: "n < length (rqm_batchItems request)" using assms(5,7) by simp
  have pos: "map_of (rp_batchItemPositions ?p) (?ids ! n) = Some n"
    using record_items_positions [OF dist(1) n, of 0] n by (simp add: new_ResponseParser_for_def)
  have "item_by_id (rsm_batchItems rm) (rp_batchItemPositions ?p) (?ids ! n) = Inr (rsm_batchItems rm ! n)"
  proof (cases "map rsb_uniqueBatchItemId (rsm_batchItems rm) = replicate (length (rsm_batchItems rm)) 0")
    case True
    have "rsb_uniqueBatchItemId item \<noteq> ?ids ! n" if "item \<in> set (rsm_batchItems rm)" for item
    proof -
      have "rsb_uniqueBatchItemId item \<in> set (replicate (length (rsm_batchItems rm)) (0 :: u32))"
        unfolding True [symmetric] using that by simp
      moreover have "?ids ! n \<in> set ?ids" using n by (intro nth_mem) simp
      ultimately show ?thesis using dist(2) by (auto split: if_splits)
    qed
    then have "find (\<lambda>item. rsb_uniqueBatchItemId item = ?ids ! n) (rsm_batchItems rm) = None"
      by (auto simp: find_None_iff)
    then show ?thesis using pos assms(7) by (simp add: item_by_id_def)
  next
    case False
    then have echo: "rsb_uniqueBatchItemId (rsm_batchItems rm ! k) = ?ids ! k" if "k < length (rsm_batchItems rm)" for k
      using assms(5,6) that nth_map [OF that, of rsb_uniqueBatchItemId] by (simp del: nth_map)
    have "find (\<lambda>item. rsb_uniqueBatchItemId item = ?ids ! n) (rsm_batchItems rm) = Some (rsm_batchItems rm ! n)"
      unfolding find_Some_iff
    proof (intro exI [of _ n] conjI allI impI)
      show "rsb_uniqueBatchItemId (rsm_batchItems rm ! j) \<noteq> ?ids ! n" if "j < n" for j
        using echo [of j] that assms(7) n nth_eq_iff_index_eq [OF dist(1), of j n] by simp
    qed (use assms(7) echo in auto)
    then show ?thesis by (simp add: item_by_id_def)
  qed
  moreover have "rp_responseBytes ?p = encode (response_element rm)"
    by (simp add: new_ResponseParser_for_def new_ResponseParser_def)
  ultimately show ?thesis
    using n by (simp add: item_id_query.query_spec decode_response_encode [OF assms(1,2)])
qed

theorem batch_item_lookup_witness:
  "fst (getResponseItemByBatchItemId \<lparr>native_endian = Little_endian, hardened = False\<rparr>
      (rqb_uniqueBatchItemId (rqm_batchItems (setBatchItems [DestroyRequest ''k''] sample_request) ! 0))
      (new_ResponseParser_for (encode (response_element destroyed_response))
         (setBatchItems [DestroyRequest ''k''] sample_request))) =
   Inr (rsm_batchItems destroyed_response ! 0)"
proof (rule batch_item_lookup)
  show "batch_numbered (setBatchItems [DestroyRequest ''k''] sample_request)"
    unfolding setBatchItems_def by (intro fold_add_numbered batch_numbered_clear)
qed (use destroyed_response_valid in \<open>simp_all add: destroyed_response_def destroyed_item_def success_item_def
      setBatchItems_def clearBatchItems_def add_batch_item_def\<close>)

text \<open>C38. The positional fallback can misattribute an answer.  When no item of the response is marked with the requested
  identifier, the lookup returns whatever item stands at the position of the request, and throws when there is
  none.  So when the response answers all requests but one and echoes their identifiers, the lookup of the missing answer
  returns the answer to the next request, whose identifier is another one, unless the last answer is missing.\<close>

theorem batch_item_misattributed:
  assumes "response_wire_valid rm" "\<not> hardened pl" "batch_numbered request"
    and "ids = map rqb_uniqueBatchItemId (rqm_batchItems request)" "length ids < 2 ^ 32" "n < length ids"
    and "map rsb_uniqueBatchItemId (rsm_batchItems rm) = take n ids @ drop (Suc n) ids"
  shows "fst (getResponseItemByBatchItemId pl (ids ! n) (new_ResponseParser_for (encode (response_element rm)) request)) =
      (if Suc n < length ids then Inr (rsm_batchItems rm ! n)
       else Inl (kmip_exception ''Response batch item id was not found.'')) \<and>
    (Suc n < length ids \<longrightarrow> rsb_uniqueBatchItemId (rsm_batchItems rm ! n) = ids ! Suc n \<and> ids ! Suc n \<noteq> ids ! n)"
proof -
  let ?p = "new_ResponseParser_for (encode (response_element rm)) request"
  have dist: "distinct ids" using numbered_distinct [OF assms(3)] assms(4,5) by simp
  have len: "length (rsm_batchItems rm) = length ids - 1"
    using arg_cong [OF assms(7), of length] assms(6) by simp
  have "rsb_uniqueBatchItemId item \<noteq> ids ! n" if "item \<in> set (rsm_batchItems rm)" for item
  proof -
    have "rsb_uniqueBatchItemId item \<in> set (take n ids @ drop (Suc n) ids)" unfolding assms(7) [symmetric] using that by simp
    moreover have "distinct (take n ids @ ids ! n # drop (Suc n) ids)" using dist assms(6) by (simp add: id_take_nth_drop [symmetric])
    ultimately show ?thesis by auto
  qed
  then have "find (\<lambda>item. rsb_uniqueBatchItemId item = ids ! n) (rsm_batchItems rm) = None" by (auto simp: find_None_iff)
  moreover have "map_of (rp_batchItemPositions ?p) (ids ! n) = Some n"
    using record_items_positions [of "rqm_batchItems request" n 0] dist assms(4,6) by (simp add: new_ResponseParser_for_def)
  moreover have "rp_responseBytes ?p = encode (response_element rm)"
    by (simp add: new_ResponseParser_for_def new_ResponseParser_def)
  ultimately have "fst (getResponseItemByBatchItemId pl (ids ! n) ?p) =
      (if Suc n < length ids then Inr (rsm_batchItems rm ! n) else Inl (kmip_exception ''Response batch item id was not found.''))"
    using len assms(6) by (auto simp: item_id_query.query_spec decode_response_encode [OF assms(1,2)] item_by_id_def)
  moreover have "rsb_uniqueBatchItemId (rsm_batchItems rm ! n) = ids ! Suc n \<and> ids ! Suc n \<noteq> ids ! n" if "Suc n < length ids"
    using that len dist nth_map [of n "rsm_batchItems rm" rsb_uniqueBatchItemId] nth_eq_iff_index_eq [OF dist, of "Suc n" n]
    by (simp add: assms(7) nth_append)
  ultimately show ?thesis by blast
qed

text \<open>A response to the second of two requests only.\<close>

definition second_answer :: ResponseMessage where
  "second_answer = destroyed_response\<lparr>rsm_batchItems := [destroyed_item\<lparr>rsb_uniqueBatchItemId := 2\<rparr>]\<rparr>"

lemma second_answer_valid: "response_wire_valid second_answer"
  by (simp add: second_answer_def destroyed_response_def destroyed_item_def response_wire_valid_def
      response_message_valid_def response_items_valid_def
      response_item_valid_def payload_tagged_def payload_fits_def success_item_def response_element_def
      ResponseHeader_toElement_def ProtocolVersion_toElement_def ResponseBatchItem_toElement_def
      default_ResponseHeader_def encode_batch_item_id_def make_structure_eq create_defs length_encode
      allowed_types.simps ttlv_shape.simps height.simps type_of_value_def pad8_def kmip_consts)

theorem batch_item_misattributed_witness:
  "fst (getResponseItemByBatchItemId \<lparr>native_endian = Little_endian, hardened = False\<rparr> 1
      (new_ResponseParser_for (encode (response_element second_answer))
         (setBatchItems [DestroyRequest ''a'', DestroyRequest ''b''] sample_request))) =
   Inr (destroyed_item\<lparr>rsb_uniqueBatchItemId := 2\<rparr>)"
proof -
  let ?request = "setBatchItems [DestroyRequest ''a'', DestroyRequest ''b''] sample_request"
  have "batch_numbered ?request" unfolding setBatchItems_def by (intro fold_add_numbered batch_numbered_clear)
  moreover have ids: "map rqb_uniqueBatchItemId (rqm_batchItems ?request) = [1, 2]"
    by (simp add: setBatchItems_def clearBatchItems_def add_batch_item_def)
  ultimately show ?thesis
    using batch_item_misattributed [OF second_answer_valid, of "\<lparr>native_endian = Little_endian, hardened = False\<rparr>" ?request "[1, 2]" 0]
    by (simp add: second_answer_def)
qed

text \<open>A failed operation never yields a typed result: looking up an item whose status is not success
  raises an exception that carries the result reason, or General Failure when there is none, and a
  successful item is handed to the typed view unchanged.\<close>

theorem typed_lookup_checks_status:
  assumes "cache_ok pl p" "decode_response pl (rp_responseBytes p) = Inr m"
    and "item_by_id (rsm_batchItems m) (rp_batchItemPositions p) n = Inr item"
  shows "fst (getResponseByBatchItemId from_item pl n p) =
    (if rsb_resultStatus item = KMIP_STATUS_SUCCESS then from_item item
     else Inl (KmipException
       (case rsb_resultReason item of Some reason \<Rightarrow> reason | None \<Rightarrow> KMIP_REASON_GENERAL_FAILURE)
       (formatOperationResult item (effectiveOperation p item (Some n)))))"
  using assms
  by (simp add: response_id_query.query_spec ensureSuccess_def kmip_exception_code_def
      get_result_reason_or_default_def)

theorem typed_lookup_checks_status_witness:
  "fst (getResponseByBatchItemId (SimpleIdResponse_fromBatchItem KMIP_OP_DESTROY)
      \<lparr>native_endian = Big_endian, hardened = False\<rparr> 1
      (new_ResponseParser (encode (response_element destroyed_response)))) =
   SimpleIdResponse_fromBatchItem KMIP_OP_DESTROY destroyed_item"
  (is "fst (getResponseByBatchItemId _ ?pl 1 ?p) = _")
proof -
  have "decode_response ?pl (rp_responseBytes ?p) = Inr destroyed_response"
    by (simp add: new_ResponseParser_def decode_response_encode [OF destroyed_response_valid])
  moreover have "cache_ok ?pl ?p" by (simp add: cache_ok_def new_ResponseParser_def)
  moreover have "item_by_id (rsm_batchItems destroyed_response) (rp_batchItemPositions ?p) 1 = Inr destroyed_item"
    by (simp add: item_by_id_def destroyed_response_def destroyed_item_def success_item_def)
  ultimately show ?thesis
    using typed_lookup_checks_status
      [of ?pl ?p destroyed_response 1 destroyed_item "SimpleIdResponse_fromBatchItem KMIP_OP_DESTROY"]
    by (simp add: destroyed_item_def success_item_def)
qed

end
