(* ===== verification/Client_Keys.thy ===== *)
theory Client_Keys
  imports Kmip_Objects
begin

text \<open>
  \<open>src/kmipclient/src/Key.cpp\<close>, \<open>KeyBase.hpp\<close> and the four key classes derived from it.  An object of
  the class hierarchy is a record that carries its dynamic class; the virtual \<open>type()\<close> is a function of
  that class.  Copies (\<open>clone\<close>) are the value itself.
\<close>

datatype key_class = SymmetricKey | PublicKey | PrivateKey | X509Certificate

record ClientKey =
  ck_class :: key_class
  ck_value :: "byte list"
  ck_attributes :: Attributes
  ck_format :: "i32 option"

definition new_ClientKey :: "key_class \<Rightarrow> byte list \<Rightarrow> Attributes \<Rightarrow> ClientKey" where
  "new_ClientKey cls val attrs =
     \<lparr>ck_class = cls, ck_value = val, ck_attributes = attrs, ck_format = None\<rparr>"

text \<open>The overrides of \<open>type()\<close>.\<close>

fun class_type :: "key_class \<Rightarrow> KeyType" where
  "class_type SymmetricKey = SYMMETRIC_KEY"
| "class_type PublicKey = PUBLIC_KEY"
| "class_type PrivateKey = PRIVATE_KEY"
| "class_type X509Certificate = CERTIFICATE"

definition ck_type :: "ClientKey \<Rightarrow> KeyType" where
  "ck_type key = class_type (ck_class key)"

definition set_key_format :: "i32 option \<Rightarrow> ClientKey \<Rightarrow> ClientKey" where
  "set_key_format fmt key = key\<lparr>ck_format := fmt\<rparr>"

text \<open>The text helpers and typed accessors of the base class.\<close>

definition ck_attribute_value :: "string \<Rightarrow> ClientKey \<Rightarrow> string" where
  "ck_attribute_value name key = get_string name (ck_attributes key)"

definition ck_set_attribute :: "string \<Rightarrow> string \<Rightarrow> ClientKey \<Rightarrow> ClientKey" where
  "ck_set_attribute name val key = key\<lparr>ck_attributes := set_string name val (ck_attributes key)\<rparr>"

definition ck_algorithm :: "ClientKey \<Rightarrow> u32" where
  "ck_algorithm key = attr_algorithm (ck_attributes key)"

definition ck_crypto_length :: "ClientKey \<Rightarrow> i32 option" where
  "ck_crypto_length key = attr_crypto_length (ck_attributes key)"

definition ck_usage_mask :: "ClientKey \<Rightarrow> u32" where
  "ck_usage_mask key = attr_usage (ck_attributes key)"

definition ck_state :: "ClientKey \<Rightarrow> u32" where
  "ck_state key = object_state (ck_attributes key)"

definition to_core_key :: "ClientKey \<Rightarrow> Key" where
  "to_core_key key = (new_Key (ck_value key) (ck_type key) (ck_attributes key))\<lparr>key_format := ck_format key\<rparr>"

definition client_key_of_type :: "Key \<Rightarrow> ClientKey res" where
  "client_key_of_type core_key =
     (case key_type core_key of
        SYMMETRIC_KEY \<Rightarrow> Inr (new_ClientKey SymmetricKey (key_value core_key) (key_attributes core_key))
      | PUBLIC_KEY \<Rightarrow> Inr (new_ClientKey PublicKey (key_value core_key) (key_attributes core_key))
      | PRIVATE_KEY \<Rightarrow> Inr (new_ClientKey PrivateKey (key_value core_key) (key_attributes core_key))
      | CERTIFICATE \<Rightarrow> Inr (new_ClientKey X509Certificate (key_value core_key) (key_attributes core_key))
      | KT_UNSET \<Rightarrow> Inl (kmip_exception ''Unsupported key type in core->client conversion''))"

definition from_core_key :: "Key \<Rightarrow> ClientKey res" where
  "from_core_key core_key =
     bind_res (client_key_of_type core_key) (\<lambda>key. Inr (set_key_format (key_format core_key) key))"

section \<open>The bridge to the protocol layer\<close>

lemma from_to_core_key [simp]: "from_core_key (to_core_key key) = Inr key"
  by (cases key; cases "ck_class key")
     (simp_all add: from_core_key_def to_core_key_def client_key_of_type_def new_Key_def ck_type_def
        new_ClientKey_def set_key_format_def)

lemma from_core_key_Inr:
  "from_core_key core = Inr key \<longleftrightarrow> key_type core \<noteq> KT_UNSET \<and> core = to_core_key key"
proof
  assume "from_core_key core = Inr key"
  then show "key_type core \<noteq> KT_UNSET \<and> core = to_core_key key"
    by (cases core; cases "key_type core")
       (auto simp: from_core_key_def to_core_key_def client_key_of_type_def new_Key_def ck_type_def
          new_ClientKey_def set_key_format_def)
qed auto

lemma to_core_key_fields [simp]:
  "key_value (to_core_key key) = ck_value key" "key_attributes (to_core_key key) = ck_attributes key"
  "key_type (to_core_key key) = ck_type key" "key_format (to_core_key key) = ck_format key"
  by (simp_all add: to_core_key_def new_Key_def)

text \<open>Attributes set on a client key are set on the core key it becomes.\<close>

lemma set_attribute_core [simp]:
  "to_core_key (ck_set_attribute n val key) = key_set_attribute n val (to_core_key key)"
  "key_attribute_value n (to_core_key key) = ck_attribute_value n key"
  by (simp_all add: to_core_key_def ck_set_attribute_def key_set_attribute_def new_Key_def ck_type_def
      key_attribute_value_def ck_attribute_value_def)

text \<open>The client and the protocol layer exchange keys without loss: a core key becomes a client key
  exactly when its type is set, and the client key it becomes is the only one that is converted back to
  it, with the same bytes, attributes, class and format.\<close>

theorem core_key_bridge:
  "(from_core_key core = Inr key \<longleftrightarrow> key_type core \<noteq> KT_UNSET \<and> core = to_core_key key) \<and>
   from_core_key (to_core_key key) = Inr key"
  by (simp add: from_core_key_Inr)

end
