(* ===== verification/Kmip_Encoding.thy ===== *)
theory Kmip_Encoding
  imports Kmip_Errors
begin

text \<open>
  \<open>src/kmiputil/src/Encoding.cpp\<close>: hexadecimal and Base64 text of key bytes.  The accumulator \<open>val\<close> of
  \<open>from_base64\<close> is a signed 32-bit integer that the loop shifts without bound; in C++20 the shift drops
  the high bits, which is the shift of a 32-bit word.

  The main results are exact: \<open>from_hex\<close> and \<open>from_base64\<close> accept the text of a byte sequence and, up to
  letter case and white space, no other text.
\<close>

section \<open>Operations\<close>

definition kHexDigits :: string where
  "kHexDigits = ''0123456789abcdef''"

definition kBase64Alphabet :: string where
  "kBase64Alphabet = ''ABCDEFGHIJKLMNOPQRSTUVWXYZabcdefghijklmnopqrstuvwxyz0123456789+/''"

definition hex_value :: "char \<Rightarrow> byte res" where
  "hex_value c =
     (if of_char c \<ge> (48 :: nat) \<and> of_char c \<le> (57 :: nat) then Inr (word_of_nat (of_char c - 48))
      else if of_char c \<ge> (65 :: nat) \<and> of_char c \<le> (70 :: nat) then Inr (word_of_nat (of_char c - 65 + 10))
      else if of_char c \<ge> (97 :: nat) \<and> of_char c \<le> (102 :: nat) then Inr (word_of_nat (of_char c - 97 + 10))
      else Inl (kmip_exception ''Invalid hex character.''))"

definition is_base64_whitespace :: "char \<Rightarrow> bool" where
  "is_base64_whitespace c \<longleftrightarrow> c \<in> {CHR '' '', CHR 0x09, CHR 0x0D, CHR 0x0A}"

text \<open>The loop over the pairs of digits; the length is even when it is entered.\<close>

fun hex_pairs :: "string \<Rightarrow> byte list res" where
  "hex_pairs (a # b # rest) =
     bind_res (hex_value a) (\<lambda>hi. bind_res (hex_value b) (\<lambda>lo.
     bind_res (hex_pairs rest) (\<lambda>bytes. Inr ((hi * 16 + lo) # bytes))))"
| "hex_pairs _ = Inr []"

definition from_hex :: "string \<Rightarrow> byte list res" where
  "from_hex hex =
     (if hex = [] \<or> length hex mod 2 \<noteq> 0 then Inl (kmip_exception ''Invalid hex string length.'')
      else hex_pairs hex)"

definition to_hex :: "byte list \<Rightarrow> string" where
  "to_hex bytes = concat (map (\<lambda>b. [kHexDigits ! unat (drop_bit 4 b), kHexDigits ! unat (b AND 0x0F)]) bytes)"

text \<open>The table that \<open>from_base64\<close> fills once: \<open>-1\<close> everywhere, then the positions in the alphabet.\<close>

definition base64_lookup :: "char \<Rightarrow> i32" where
  "base64_lookup = fold (\<lambda>(i, c) l. l(c := word_of_nat i)) (enumerate 0 kBase64Alphabet) (\<lambda>_. - 1)"

record base64_state =
  b64_out :: "byte list"
  b64_val :: i32
  b64_val_b :: int
  b64_symbols :: nat
  b64_padding :: nat

definition base64_start :: base64_state where
  "base64_start = \<lparr>b64_out = [], b64_val = 0, b64_val_b = - 8, b64_symbols = 0, b64_padding = 0\<rparr>"

definition base64_step :: "char \<Rightarrow> base64_state \<Rightarrow> base64_state res" where
  "base64_step c s =
     (if is_base64_whitespace c then Inr s
      else let s = s\<lparr>b64_symbols := b64_symbols s + 1\<rparr> in
      if c = CHR ''='' then Inr (s\<lparr>b64_padding := b64_padding s + 1\<rparr>)
      else if base64_lookup c = - 1 then Inl (kmip_exception ''Invalid Base64 character.'')
      else if b64_padding s > 0 then Inl (kmip_exception ''Invalid Base64: data after padding.'')
      else let val = push_bit 6 (b64_val s) + base64_lookup c; val_b = b64_val_b s + 6 in
      if val_b \<ge> 0 then
        Inr (s\<lparr>b64_out := b64_out s @ [ucast (signed_drop_bit (nat val_b) val AND 0xFF)],
               b64_val := val, b64_val_b := val_b - 8\<rparr>)
      else Inr (s\<lparr>b64_val := val, b64_val_b := val_b\<rparr>))"

definition base64_finish :: "base64_state \<Rightarrow> byte list res" where
  "base64_finish s =
     (if b64_symbols s mod 4 \<noteq> 0 \<or> b64_padding s > 2 then
        Inl (kmip_exception ''Invalid Base64 length or padding.'')
      else let unused_bits = b64_val_b s + 8 in
      if unused_bits > 0 \<and> b64_val s AND (push_bit (nat unused_bits) 1 - 1) \<noteq> 0 then
        Inl (kmip_exception ''Non-canonical Base64 padding bits.'')
      else Inr (b64_out s))"

definition from_base64 :: "string \<Rightarrow> byte list res" where
  "from_base64 base64 = bind_res (fold_res base64_step base64 base64_start) base64_finish"

definition base64_char :: "u32 \<Rightarrow> nat \<Rightarrow> char" where
  "base64_char n k = kBase64Alphabet ! unat (drop_bit k n AND 0x3F)"

text \<open>The loop over whole groups of three bytes and the rest of one or two.\<close>

fun to_base64 :: "byte list \<Rightarrow> string" where
  "to_base64 (a # b # c # rest) =
     (let n = push_bit 16 (ucast a) OR push_bit 8 (ucast b) OR ucast c in
      [base64_char n 18, base64_char n 12, base64_char n 6, base64_char n 0] @ to_base64 rest)"
| "to_base64 [a, b] =
     (let n = push_bit 16 (ucast a) OR push_bit 8 (ucast b) in
      [base64_char n 18, base64_char n 12, base64_char n 6, CHR ''=''])"
| "to_base64 [a] =
     (let n = push_bit 16 (ucast a) in [base64_char n 18, base64_char n 12, CHR ''='', CHR ''=''])"
| "to_base64 [] = []"

section \<open>The alphabet\<close>

lemma table_fold_notin:
  "c \<notin> set xs \<Longrightarrow> fold (\<lambda>(i, c) l. l(c := f i)) (enumerate k xs) l c = l c"
  by (induction xs arbitrary: k l) auto

lemma table_fold_nth:
  "distinct xs \<Longrightarrow> i < length xs \<Longrightarrow> fold (\<lambda>(i, c) l. l(c := f i)) (enumerate k xs) l (xs ! i) = f (k + i)"
proof (induction xs arbitrary: k l i)
  case (Cons x xs)
  then show ?case by (cases i) (simp_all add: table_fold_notin del: fun_upd_apply, simp)
qed simp

lemma alphabet_facts:
  "distinct kBase64Alphabet" "length kBase64Alphabet = 64" "CHR ''='' \<notin> set kBase64Alphabet"
  "\<forall>c\<in>set kBase64Alphabet. \<not> is_base64_whitespace c" "\<not> is_base64_whitespace CHR ''=''"
  by code_simp+

lemma base64_lookup_nth: "i < 64 \<Longrightarrow> base64_lookup (kBase64Alphabet ! i) = word_of_nat i"
  unfolding base64_lookup_def using alphabet_facts(1,2) table_fold_nth [of kBase64Alphabet i word_of_nat 0] by simp

lemma base64_lookup_none: "c \<notin> set kBase64Alphabet \<Longrightarrow> base64_lookup c = - 1"
  unfolding base64_lookup_def by (rule table_fold_notin)

section \<open>Groups of six and eight bits\<close>

text \<open>A word of six bits.\<close>

abbreviation sextet :: "u32 \<Rightarrow> bool" where
  "sextet p \<equiv> take_bit 6 p = p"

lemma sextet_bit: "sextet p \<Longrightarrow> bit p n \<Longrightarrow> n < 6"
  by (metis bit_take_bit_iff)

definition shift6 :: "u32 \<Rightarrow> u32 \<Rightarrow> u32" where
  "shift6 v p = push_bit 6 v OR p"

lemma shift_in: "sextet p \<Longrightarrow> push_bit 6 v + p = shift6 v p"
  unfolding shift6_def by (rule disjunctive_add_eq_or, rule bit_word_eqI) (auto simp: bit_simps dest: sextet_bit)

lemma sextet_high: "sextet p \<Longrightarrow> 6 \<le> n \<Longrightarrow> \<not> bit p n"
  using sextet_bit linorder_not_le by blast

lemma byte_bits_eqI:
  assumes "bit a 0 = bit b 0" "bit a 1 = bit b 1" "bit a 2 = bit b 2" "bit a 3 = bit b 3"
    "bit a 4 = bit b 4" "bit a 5 = bit b 5" "bit a 6 = bit b 6" "bit a 7 = bit b 7"
  shows "a = (b :: byte)"
proof (rule bit_word_eqI)
  fix n assume "n < LENGTH(8)"
  then have "n \<in> {0, 1, 2, 3, 4, 5, 6, 7}" by auto
  with assms show "bit a n = bit b n" by auto
qed

definition quad_word :: "u32 \<Rightarrow> u32 \<Rightarrow> u32 \<Rightarrow> u32 \<Rightarrow> u32" where
  "quad_word p q r t = push_bit 18 p OR push_bit 12 q OR push_bit 6 r OR t"

lemma out_bytes:
  assumes "sextet p" "sextet q" "sextet r" "sextet t"
  shows
   "(ucast (signed_drop_bit 4 (shift6 (shift6 v p) q) AND 0xFF) :: byte) = ucast (drop_bit 16 (quad_word p q r t))"
   "(ucast (signed_drop_bit 2 (shift6 (shift6 w q) r) AND 0xFF) :: byte) = ucast (drop_bit 8 (quad_word p q r t))"
   "(ucast (signed_drop_bit 0 (shift6 (shift6 x r) t) AND 0xFF) :: byte) = ucast (quad_word p q r t)"
  unfolding quad_word_def shift6_def
  by (rule byte_bits_eqI; simp add: bit_simps sextet_high [OF assms(1)] sextet_high [OF assms(2)]
      sextet_high [OF assms(3)] sextet_high [OF assms(4)])+


definition sext :: "u32 \<Rightarrow> nat \<Rightarrow> u32" where
  "sext n k = drop_bit k n AND 0x3F"

definition triple_word :: "byte \<Rightarrow> byte \<Rightarrow> byte \<Rightarrow> u32" where
  "triple_word a b c = push_bit 16 (ucast a) OR push_bit 8 (ucast b) OR ucast c"

definition alph :: "u32 \<Rightarrow> char" where
  "alph p = kBase64Alphabet ! unat p"

lemma mask63: "(x AND 0x3F :: u32) = take_bit 6 x"
proof -
  have "(0x3F :: u32) = mask 6" by (simp add: mask_eq_exp_minus_1)
  then show ?thesis by (simp add: take_bit_eq_mask)
qed

lemma sextet_sext [simp]: "sextet (sext n k)"
  by (simp add: sext_def mask63)

lemma base64_char_alph: "base64_char n k = alph (sext n k)"
  by (simp add: base64_char_def alph_def sext_def)

lemma bit_byte_high: "8 \<le> n \<Longrightarrow> \<not> bit (a :: byte) n"
  using bit_byte_le linorder_not_le by blast

lemma bytes_of_triple:
  "(ucast (drop_bit 16 (triple_word a b c)) :: byte) = a"
  "(ucast (drop_bit 8 (triple_word a b c)) :: byte) = b"
  "(ucast (triple_word a b c) :: byte) = c"
  unfolding triple_word_def by (rule byte_bits_eqI; simp add: bit_simps bit_byte_high)+

lemma quad_sext: "quad_word (sext n 18) (sext n 12) (sext n 6) (sext n 0) = take_bit 24 n"
  unfolding quad_word_def sext_def mask63
proof (rule bit_word_eqI)
  fix i assume "i < LENGTH(32)"
  consider "i < 6" | "6 \<le> i" "i < 12" | "12 \<le> i" "i < 18" | "18 \<le> i" by linarith
  then show "bit (push_bit 18 (take_bit 6 (drop_bit 18 n)) OR push_bit 12 (take_bit 6 (drop_bit 12 n)) OR
      push_bit 6 (take_bit 6 (drop_bit 6 n)) OR take_bit 6 (drop_bit 0 n)) i = bit (take_bit 24 n) i"
    using \<open>i < LENGTH(32)\<close> by cases (auto simp: bit_simps)
qed

lemma triple_bytes: "triple_word (ucast (drop_bit 16 w)) (ucast (drop_bit 8 w)) (ucast w) = take_bit 24 (w :: u32)"
  unfolding triple_word_def
proof (rule bit_word_eqI)
  fix i assume "i < LENGTH(32)"
  consider "i < 8" | "8 \<le> i" "i < 16" | "16 \<le> i" by linarith
  then show "bit (push_bit 16 (ucast (ucast (drop_bit 16 w) :: byte) :: u32) OR
      push_bit 8 (ucast (ucast (drop_bit 8 w) :: byte)) OR ucast (ucast w :: byte)) i = bit (take_bit 24 w) i"
    using \<open>i < LENGTH(32)\<close> by cases (auto simp: bit_simps)
qed

lemma sext_quad:
  assumes "sextet p" "sextet q" "sextet r" "sextet t"
  shows "sext (quad_word p q r t) 18 = p" "sext (quad_word p q r t) 12 = q"
    "sext (quad_word p q r t) 6 = r" "sext (quad_word p q r t) 0 = t"
  unfolding quad_word_def sext_def mask63
  by (rule bit_word_eqI; auto simp: bit_simps dest: sextet_bit [OF assms(1)] sextet_bit [OF assms(2)]
      sextet_bit [OF assms(3)] sextet_bit [OF assms(4)])+

lemma take_quad:
  assumes "sextet p" "sextet q" "sextet r" "sextet t"
  shows "take_bit 24 (quad_word p q r t) = quad_word p q r t"
  unfolding quad_word_def
  by (rule bit_word_eqI; auto simp: bit_simps dest: sextet_bit [OF assms(1)] sextet_bit [OF assms(2)]
      sextet_bit [OF assms(3)] sextet_bit [OF assms(4)])


section \<open>The decoding loop\<close>

lemma sextet_unat: "sextet p \<Longrightarrow> unat p < 64"
proof -
  assume "sextet p"
  then have "unat p = take_bit 6 (unat p)" by (metis unsigned_take_bit_eq)
  also have "\<dots> < 2 ^ 6" by (rule take_bit_nat_less_exp)
  finally show ?thesis by simp
qed

lemma alph_lookup:
  assumes "sextet p"
  shows "base64_lookup (alph p) = p" "base64_lookup (alph p) \<noteq> - 1" "alph p \<noteq> CHR ''=''"
    "\<not> is_base64_whitespace (alph p)"
proof -
  have lt: "unat p < 64" by (rule sextet_unat [OF assms])
  then have "alph p \<in> set kBase64Alphabet" by (simp add: alph_def alphabet_facts(2))
  then show "alph p \<noteq> CHR ''=''" "\<not> is_base64_whitespace (alph p)" using alphabet_facts(3,4) by auto
  show p: "base64_lookup (alph p) = p" by (simp add: alph_def base64_lookup_nth [OF lt])
  have "p \<noteq> - 1" using sextet_high [OF assms, of 6] by auto
  then show "base64_lookup (alph p) \<noteq> - 1" by (simp add: p)
qed

lemma symbol_cases:
  assumes "base64_lookup c \<noteq> - 1"
  obtains p where "sextet p" "c = alph p"
proof -
  have "c \<in> set kBase64Alphabet" using assms base64_lookup_none by blast
  then obtain i where i: "i < 64" "c = kBase64Alphabet ! i"
    by (metis in_set_conv_nth alphabet_facts(2))
  have u: "unat (word_of_nat i :: u32) = i" using i(1) by (simp add: unat_of_nat)
  have "take_bit 6 (word_of_nat i :: u32) = word_of_nat i"
    using i(1) by (simp add: word_unat_eq_iff u unsigned_take_bit_eq take_bit_nat_eq_self)
  moreover have "c = alph (word_of_nat i)" by (simp add: alph_def u i(2))
  ultimately show ?thesis by (rule that)
qed

lemma base64_step_alph:
  assumes "sextet p" "b64_padding s = 0"
  shows "base64_step (alph p) s =
    (let s = s\<lparr>b64_symbols := b64_symbols s + 1\<rparr>; v = shift6 (b64_val s) p; val_b = b64_val_b s + 6 in
     Inr (if val_b \<ge> 0 then s\<lparr>b64_out := b64_out s @ [ucast (signed_drop_bit (nat val_b) v AND 0xFF)],
               b64_val := v, b64_val_b := val_b - 8\<rparr>
      else s\<lparr>b64_val := v, b64_val_b := val_b\<rparr>))"
  using assms by (simp add: base64_step_def alph_lookup(1,3,4) shift_in Let_def alph_lookup(2) [OF assms(1), unfolded alph_lookup(1) [OF assms(1)]])

lemma base64_step_pad:
  "base64_step CHR ''='' s = Inr (s\<lparr>b64_symbols := b64_symbols s + 1, b64_padding := b64_padding s + 1\<rparr>)"
  by (simp add: base64_step_def alphabet_facts(5))

definition base64_run :: "string \<Rightarrow> base64_state \<Rightarrow> byte list res" where
  "base64_run t s = bind_res (fold_res base64_step t s) base64_finish"

lemma base64_run_Cons: "base64_run (c # t) s = bind_res (base64_step c s) (base64_run t)"
  by (simp add: base64_run_def [abs_def] bind_res_assoc)

lemma base64_run_Nil: "base64_run [] s = base64_finish s"
  by (simp add: base64_run_def)

abbreviation aligned_state :: "byte list \<Rightarrow> i32 \<Rightarrow> nat \<Rightarrow> base64_state" where
  "aligned_state out v n \<equiv> \<lparr>b64_out = out, b64_val = v, b64_val_b = - 8, b64_symbols = n, b64_padding = 0\<rparr>"

lemmas base64_run_simps = base64_run_Cons base64_run_Nil base64_step_pad base64_step_alph

lemma run_quad:
  assumes "sextet p" "sextet q" "sextet r" "sextet t"
  defines "w \<equiv> quad_word p q r t"
  shows "\<exists>v'. base64_run (alph p # alph q # alph r # alph t # rest) (aligned_state out v n) =
    base64_run rest (aligned_state (out @ [ucast (drop_bit 16 w), ucast (drop_bit 8 w), ucast w]) v' (n + 4))"
  unfolding w_def using out_bytes [OF assms(1-4)] assms(1-4) by (auto simp: base64_run_simps Let_def numeral_eq_Suc)

lemma low_bits_zero:
  assumes "sextet q"
  shows "shift6 v q AND 15 = 0 \<longleftrightarrow> take_bit 4 q = 0"
    "shift6 v q AND 3 = 0 \<longleftrightarrow> take_bit 2 q = (0 :: u32)"
proof -
  have "take_bit 4 (shift6 v q) = take_bit 4 q" "take_bit 2 (shift6 v q) = take_bit 2 q"
    unfolding shift6_def by (rule bit_word_eqI, auto simp: bit_simps)+
  moreover have "(15 :: u32) = mask 4" "(3 :: u32) = mask 2" by (simp_all add: mask_eq_exp_minus_1)
  ultimately have "shift6 v q AND 15 = take_bit 4 q" "shift6 v q AND 3 = take_bit 2 q"
    by (simp_all add: take_bit_eq_mask)
  then show "shift6 v q AND 15 = 0 \<longleftrightarrow> take_bit 4 q = 0"
    "shift6 v q AND 3 = 0 \<longleftrightarrow> take_bit 2 q = 0" by simp_all
qed

lemma run_three:
  assumes "sextet p" "sextet q" "sextet r" "4 dvd n"
  defines "w \<equiv> quad_word p q r 0"
  shows "base64_run [alph p, alph q, alph r, CHR ''=''] (aligned_state out v n) =
    (if take_bit 2 r = 0 then Inr (out @ [ucast (drop_bit 16 w), ucast (drop_bit 8 w)])
     else Inl (kmip_exception ''Non-canonical Base64 padding bits.''))"
  unfolding w_def using out_bytes [of p q r 0] assms(1-4)
  by (simp add: base64_run_simps Let_def base64_finish_def low_bits_zero mod_add_left_eq [symmetric])

lemma run_two:
  assumes "sextet p" "sextet q" "4 dvd n"
  defines "w \<equiv> quad_word p q 0 0"
  shows "base64_run [alph p, alph q, CHR ''='', CHR ''=''] (aligned_state out v n) =
    (if take_bit 4 q = 0 then Inr (out @ [ucast (drop_bit 16 w)])
     else Inl (kmip_exception ''Non-canonical Base64 padding bits.''))"
  unfolding w_def using out_bytes [of p q 0 0] assms(1-3)
  by (simp add: base64_run_simps Let_def base64_finish_def low_bits_zero)


lemma run_encoded: "4 dvd n \<Longrightarrow> base64_run (to_base64 bs) (aligned_state out v n) = Inr (out @ bs)"
proof (induction bs arbitrary: out v n rule: to_base64.induct)
  case (1 a b c rest)
  let ?w = "triple_word a b c"
  have t: "take_bit 24 ?w = ?w" using triple_bytes [of ?w] by (simp add: bytes_of_triple)
  obtain v' where "base64_run (to_base64 (a # b # c # rest)) (aligned_state out v n) =
      base64_run (to_base64 rest) (aligned_state (out @ [a, b, c]) v' (n + 4))"
    using run_quad [of "sext ?w 18" "sext ?w 12" "sext ?w 6" "sext ?w 0" "to_base64 rest" out v n]
    by (auto simp: base64_char_alph quad_sext t bytes_of_triple triple_word_def [symmetric] Let_def)
  with 1 show ?case by (simp add: triple_word_def Let_def)
next
  case (2 a b)
  let ?w = "triple_word a b 0"
  have w: "push_bit 16 (ucast a) OR push_bit 8 (ucast b) = ?w" by (simp add: triple_word_def)
  have t: "take_bit 24 ?w = ?w" using triple_bytes [of ?w] by (simp add: bytes_of_triple)
  have z: "sext ?w 0 = 0" "take_bit 2 (sext ?w 6) = 0"
    unfolding sext_def mask63 triple_word_def by (rule bit_word_eqI, auto simp: bit_simps)+
  show ?case
    using run_three [of "sext ?w 18" "sext ?w 12" "sext ?w 6" n out v] quad_sext [of ?w] 2
    by (simp add: w base64_char_alph z t bytes_of_triple Let_def)
next
  case (3 a)
  let ?w = "triple_word a 0 0"
  have w: "push_bit 16 (ucast a) = ?w" by (simp add: triple_word_def)
  have t: "take_bit 24 ?w = ?w" using triple_bytes [of ?w] by (simp add: bytes_of_triple)
  have z: "sext ?w 0 = 0" "sext ?w 6 = 0" "take_bit 4 (sext ?w 12) = 0"
    unfolding sext_def mask63 triple_word_def by (rule bit_word_eqI, auto simp: bit_simps)+
  show ?case
    using run_two [of "sext ?w 18" "sext ?w 12" n out v] quad_sext [of ?w] 3
    by (simp add: w base64_char_alph z t bytes_of_triple Let_def)
next
  case 4
  then show ?case by (simp add: base64_run_Nil base64_finish_def)
qed

text \<open>Once a padding character was read, only padding may follow.\<close>

lemma run_padded:
  assumes "base64_run t s = Inr res" "b64_padding s > 0" "\<forall>c\<in>set t. \<not> is_base64_whitespace c"
  shows "t = replicate (length t) CHR ''='' \<and> b64_padding s + length t \<le> 2 \<and> 4 dvd b64_symbols s + length t"
  using assms
proof (induction t arbitrary: s)
  case Nil
  then show ?case by (auto simp: base64_run_Nil base64_finish_def dvd_eq_mod_eq_0 Let_def split: if_splits)
next
  case (Cons c t)
  from Cons.prems have c: "c = CHR ''=''"
    by (auto simp: base64_run_Cons base64_step_def bind_res_Inr_iff Let_def split: if_splits)
  from Cons.IH [of "s\<lparr>b64_symbols := b64_symbols s + 1, b64_padding := b64_padding s + 1\<rparr>"] Cons.prems
  show ?case unfolding c by (simp add: base64_run_Cons base64_step_pad)
qed

lemma run_symbol_cases:
  assumes "base64_run (c # t) s = Inr res" "\<not> is_base64_whitespace c" "b64_padding s = 0"
  obtains p where "sextet p" "c = alph p" | "c = CHR ''=''"
    "base64_run t (s\<lparr>b64_symbols := b64_symbols s + 1, b64_padding := 1\<rparr>) = Inr res"
  using assms by (auto simp: base64_run_Cons base64_step_def bind_res_Inr_iff Let_def
      split: if_splits elim: symbol_cases)


lemma run_short:
  assumes "base64_run [] s = Inr res"
  shows "4 dvd b64_symbols s"
  using assms by (auto simp: base64_run_Nil base64_finish_def dvd_eq_mod_eq_0 split: if_splits)

lemma run_data:
  assumes "base64_run (alph p # t) s = Inr res" "sextet p" "b64_padding s = 0"
  obtains s' where "base64_run t s' = Inr res" "b64_padding s' = 0" "b64_symbols s' = b64_symbols s + 1"
  using assms by (auto simp: base64_run_Cons base64_step_alph Let_def split: if_splits)

text \<open>The first two symbols of a group are data.\<close>

lemma run_head:
  assumes run: "base64_run t s = Inr res" and pad: "b64_padding s = 0"
    and ws: "\<forall>c\<in>set t. \<not> is_base64_whitespace c" and "t \<noteq> []" "b64_symbols s mod 4 = 0 \<or> b64_symbols s mod 4 = 1"
  obtains p t' s' where "sextet p" "t = alph p # t'" "base64_run t' s' = Inr res" "b64_padding s' = 0"
    "b64_symbols s' = b64_symbols s + 1"
proof -
  from \<open>t \<noteq> []\<close> obtain c t' where t: "t = c # t'" by (cases t) auto
  from ws t have "\<not> is_base64_whitespace c" by simp
  from run [unfolded t] this pad show ?thesis
  proof (cases rule: run_symbol_cases)
    case (1 p)
    from run [unfolded t 1(2)] 1(1) pad obtain s' where "base64_run t' s' = Inr res" "b64_padding s' = 0"
      "b64_symbols s' = b64_symbols s + 1" by (rule run_data)
    then show ?thesis by (rule that [OF 1(1) t [unfolded 1(2)]])
  next
    case 2
    from run_padded [OF 2(2)] ws t have "length t' \<le> 1" "4 dvd b64_symbols s + 1 + length t'" by simp_all
    with assms(5) have False by presburger
    then show ?thesis ..
  qed
qed

text \<open>A text that is accepted from an aligned state starts with one encoded group and goes on from there.\<close>

lemma run_group:
  assumes run: "base64_run t (aligned_state out v n) = Inr res" and "4 dvd n"
    and ws: "\<forall>c\<in>set t. \<not> is_base64_whitespace c" and "t \<noteq> []"
  obtains p q r u rest where "sextet p" "sextet q" "sextet r" "sextet u" "t = alph p # alph q # alph r # alph u # rest"
  | p q r where "sextet p" "sextet q" "sextet r" "t = [alph p, alph q, alph r, CHR ''='']"
  | p q where "sextet p" "sextet q" "t = [alph p, alph q, CHR ''='', CHR ''='']"
proof -
  have n: "n mod 4 = 0" using assms(2) by simp
  then have "(n + 1) mod 4 = 1" "(n + 2) mod 4 = 2" "(n + 3) mod 4 = 3" by presburger+
  note n = n this
  obtain p t1 s1 where 1: "sextet p" "t = alph p # t1" "base64_run t1 s1 = Inr res" "b64_padding s1 = 0"
      "b64_symbols s1 = n + 1"
    by (rule run_head [OF run _ ws assms(4)]) (simp_all add: n)
  have "t1 \<noteq> []" using 1 run_short [of s1 res] n by (auto simp: dvd_eq_mod_eq_0)
  have ws1: "\<forall>c\<in>set t1. \<not> is_base64_whitespace c" using ws 1(2) by simp
  obtain q t2 s2 where 2: "sextet q" "t1 = alph q # t2" "base64_run t2 s2 = Inr res" "b64_padding s2 = 0"
      "b64_symbols s2 = n + 2"
    by (rule run_head [OF 1(3,4) ws1 \<open>t1 \<noteq> []\<close>]) (simp_all add: n(2) 1(5) del: add_2_eq_Suc' Suc_eq_plus1 One_nat_def)
  obtain c3 t3 where t2: "t2 = c3 # t3" using 2 run_short [of s2 res] n by (cases t2) (auto simp: dvd_eq_mod_eq_0)
  have ws2: "\<forall>c\<in>set t2. \<not> is_base64_whitespace c" using ws 1 2 by simp
  then have "\<not> is_base64_whitespace c3" by (simp add: t2)
  from 2(3) [unfolded t2] this 2(4) show ?thesis
  proof (cases rule: run_symbol_cases)
    case (1 r)
    from 2(3) [unfolded t2 1(2)] 1(1) 2(4) obtain s3 where "base64_run t3 s3 = Inr res" "b64_padding s3 = 0"
      "b64_symbols s3 = b64_symbols s2 + 1" by (rule run_data)
    then have 3: "base64_run t3 s3 = Inr res" "b64_padding s3 = 0" "b64_symbols s3 = n + 3" by (simp_all add: 2(5))
    obtain c4 t4 where t3: "t3 = c4 # t4" using 3 run_short [of s3 res] n by (cases t3) (auto simp: dvd_eq_mod_eq_0)
    have "\<not> is_base64_whitespace c4" using ws2 by (simp add: t2 t3)
    from 3(1) [unfolded t3] this 3(2) show ?thesis
    proof (cases rule: run_symbol_cases)
      case (1 u)
      with that(1) \<open>sextet p\<close> 2 \<open>sextet r\<close> \<open>c3 = alph r\<close> \<open>t = _\<close> show ?thesis by (simp add: t2 t3)
    next
      case 4: 2
      from run_padded [OF 4(2)] ws2 3 have "length t4 \<le> 1" "4 dvd 4 + n + length t4"
        by (simp_all add: t2 t3)
      with n have "length t4 = 0" by presburger
      with that(2) \<open>sextet p\<close> 2 \<open>sextet r\<close> \<open>c3 = alph r\<close> \<open>t = _\<close> 4(1) show ?thesis by (simp add: t2 t3)
    qed
  next
    case 3: 2
    from run_padded [OF 3(2)] ws2 2 have r: "t3 = replicate (length t3) CHR ''=''" "length t3 \<le> 1" "4 dvd Suc (Suc (Suc (n + length t3)))"
      by (simp_all add: t2)
    with n have "length t3 = 1" by presburger
    with r(1) have "t3 = [CHR ''='']" by simp
    with that(3) 1 2 3(1) show ?thesis by (simp add: t2)
  qed
qed


lemma run_decoded:
  assumes "base64_run t (aligned_state out v n) = Inr res" "4 dvd n"
    and "\<forall>c\<in>set t. \<not> is_base64_whitespace c"
  shows "\<exists>bs. res = out @ bs \<and> t = to_base64 bs"
  using assms
proof (induction "length t" arbitrary: t out v n rule: less_induct)
  case less
  show ?case
  proof (cases "t = []")
    case True
    with less.prems show ?thesis
      by (intro exI [of _ "[]"]) (auto simp: base64_run_Nil base64_finish_def split: if_splits)
  next
    case False
    with less.prems show ?thesis
    proof (rule run_group)
      fix p q r u rest
      assume s: "sextet p" "sextet q" "sextet r" "sextet u" and t: "t = alph p # alph q # alph r # alph u # rest"
      let ?w = "quad_word p q r u"
      let ?bs = "[ucast (drop_bit 16 ?w), ucast (drop_bit 8 ?w), ucast ?w] :: byte list"
      obtain v' where "base64_run rest (aligned_state (out @ ?bs) v' (n + 4)) = Inr res"
        using run_quad [OF s] less.prems(1) unfolding t by metis
      then obtain bs where "res = (out @ ?bs) @ bs" "rest = to_base64 bs"
        using less.hyps [of rest "out @ ?bs" v' "n + 4"] less.prems(2,3) by (auto simp: t)
      moreover have "to_base64 (?bs @ bs) = [alph p, alph q, alph r, alph u] @ to_base64 bs"
        using triple_bytes [of ?w]
        by (simp add: Let_def base64_char_alph triple_word_def [symmetric] take_quad [OF s] sext_quad [OF s])
      ultimately show ?thesis unfolding t by (intro exI [of _ "?bs @ bs"]) simp
    next
      fix p q r
      assume s: "sextet p" "sextet q" "sextet r" and t: "t = [alph p, alph q, alph r, CHR ''='']"
      let ?w = "quad_word p q r 0"
      from run_three [OF s less.prems(2), of out v] less.prems(1)
      have z: "take_bit 2 r = 0" and res: "res = out @ [ucast (drop_bit 16 ?w), ucast (drop_bit 8 ?w)]"
        unfolding t by (auto split: if_splits)
      have "(ucast ?w :: byte) = 0"
        using z unfolding quad_word_def by (auto simp: bit_eq_iff bit_simps)
      then show ?thesis using triple_bytes [of ?w] res
        by (intro exI [of _ "[ucast (drop_bit 16 ?w), ucast (drop_bit 8 ?w)]"])
           (simp add: t Let_def base64_char_alph triple_word_def take_quad [OF s] sext_quad [OF s])
    next
      fix p q
      assume s: "sextet p" "sextet q" and t: "t = [alph p, alph q, CHR ''='', CHR ''='']"
      let ?w = "quad_word p q 0 0"
      from run_two [OF s less.prems(2), of out v] less.prems(1)
      have z: "take_bit 4 q = 0" and res: "res = out @ [ucast (drop_bit 16 ?w)]"
        unfolding t by (auto split: if_splits)
      have "(ucast ?w :: byte) = 0" "(ucast (drop_bit 8 ?w) :: byte) = 0"
        using z unfolding quad_word_def by (auto simp: bit_eq_iff bit_simps)
      then show ?thesis using triple_bytes [of ?w] res
        by (intro exI [of _ "[ucast (drop_bit 16 ?w)]"])
           (simp add: t Let_def base64_char_alph triple_word_def take_quad [OF s] sext_quad [OF s])
    qed
  qed
qed

lemma fold_whitespace:
  "fold_res base64_step t s = fold_res base64_step (filter (\<lambda>c. \<not> is_base64_whitespace c) t) s"
proof (induction t arbitrary: s)
  case (Cons c t)
  have "fold_res base64_step t = fold_res base64_step (filter (\<lambda>c. \<not> is_base64_whitespace c) t)"
    using Cons.IH by (rule ext)
  moreover have "is_base64_whitespace c \<Longrightarrow> base64_step c s = Inr s" by (simp add: base64_step_def)
  ultimately show ?case by simp
qed simp

lemma from_base64_iff:
  "from_base64 base64 = Inr bytes \<longleftrightarrow>
   filter (\<lambda>c. \<not> is_base64_whitespace c) base64 = to_base64 bytes"
proof -
  have *: "from_base64 base64 = base64_run (filter (\<lambda>c. \<not> is_base64_whitespace c) base64) (aligned_state [] 0 0)"
    by (simp add: from_base64_def base64_run_def base64_start_def fold_whitespace [of base64])
  show ?thesis
  proof
    assume "from_base64 base64 = Inr bytes"
    from run_decoded [OF this [unfolded *]]
    show "filter (\<lambda>c. \<not> is_base64_whitespace c) base64 = to_base64 bytes" by simp
  next
    assume "filter (\<lambda>c. \<not> is_base64_whitespace c) base64 = to_base64 bytes"
    then show "from_base64 base64 = Inr bytes" by (simp only: * run_encoded dvd_0_right append_Nil)
  qed
qed

text \<open>C19. \<open>from_base64\<close> is the exact inverse of \<open>to_base64\<close>: a text is decoded to some bytes exactly when it
  is, apart from white space, the canonical padded Base64 text of these bytes, so no other alphabet
  character, padding or unused bit is accepted.\<close>

theorem base64_exact:
  "from_base64 base64 = Inr bytes \<longleftrightarrow>
   filter (\<lambda>c. \<not> is_base64_whitespace c) base64 = to_base64 bytes"
  by (rule from_base64_iff)

section \<open>Hexadecimal text\<close>

definition hex_lower :: "char \<Rightarrow> char" where
  "hex_lower c = (if of_char c \<ge> (65 :: nat) \<and> of_char c \<le> (70 :: nat) then char_of (of_char c + 32 :: nat) else c)"

lemma hex_value_table:
  "\<forall>c. case hex_value c of Inr v \<Rightarrow> unat v < 16 \<and> hex_lower c = kHexDigits ! unat v
     | Inl e \<Rightarrow> hex_lower c \<notin> set kHexDigits"
  by code_simp


lemma hex_value_iff: "hex_value c = Inr v \<longleftrightarrow> unat v < 16 \<and> hex_lower c = kHexDigits ! unat v"
proof -
  have d: "distinct kHexDigits" "length kHexDigits = 16" by code_simp+
  then have "kHexDigits ! i \<in> set kHexDigits" if "i < 16" for i using that by simp
  then show ?thesis
    using hex_value_table [rule_format, of c] d
    by (auto split: sum.splits simp: nth_eq_iff_index_eq word_unat_eq_iff)
qed

lemma nibbles:
  assumes "unat hi < 16" "unat lo < 16"
  shows "unat (drop_bit 4 (hi * 16 + lo :: byte)) = unat hi" "unat ((hi * 16 + lo :: byte) AND 0x0F) = unat lo"
proof -
  have u: "unat (hi * 16 + lo :: byte) = unat hi * 16 + unat lo"
    using assms by (simp add: unat_word_ariths)
  have m: "(0x0F :: byte) = mask 4" by (simp add: mask_eq_exp_minus_1)
  show "unat (drop_bit 4 (hi * 16 + lo :: byte)) = unat hi"
    using assms by (simp only: unsigned_drop_bit_eq u) (simp add: drop_bit_eq_div take_bit_nat_eq_self)
  show "unat ((hi * 16 + lo :: byte) AND 0x0F) = unat lo"
    unfolding m using assms by (simp only: take_bit_eq_mask [symmetric] unsigned_take_bit_eq u) (simp add: take_bit_eq_mod)
qed

lemma join_nibbles: "\<exists>hi lo. b = hi * 16 + (lo :: byte) \<and> unat hi < 16 \<and> unat lo < 16"
proof (intro exI conjI)
  have lt: "unat b < 256" using unsigned_less [of b] by simp
  show "b = word_of_nat (unat b div 16) * 16 + word_of_nat (unat b mod 16)"
  proof -
    have "b = word_of_nat (unat b div 16 * 16 + unat b mod 16)" by (simp only: div_mult_mod_eq) simp
    then show ?thesis by (simp only: of_nat_add of_nat_mult of_nat_numeral)
  qed
  show "unat (word_of_nat (unat b div 16) :: byte) < 16" "unat (word_of_nat (unat b mod 16) :: byte) < 16"
    using lt by (simp_all add: unat_of_nat)
qed

lemma hex_pairs_iff:
  "even (length hex) \<and> hex_pairs hex = Inr bytes \<longleftrightarrow> map hex_lower hex = to_hex bytes"
proof (induction hex arbitrary: bytes rule: induct_list012)
  case (3 a b rest)
  show ?case
  proof (cases bytes)
    case Nil
    then show ?thesis by (auto simp: bind_res_Inr_iff to_hex_def)
  next
    case (Cons x xs)
    obtain hi lo where x: "x = hi * 16 + lo" "unat hi < 16" "unat lo < 16" using join_nibbles [of x] by blast
    have "hi' * 16 + lo' = x \<longleftrightarrow> hi' = hi \<and> lo' = lo" if "unat hi' < 16" "unat lo' < 16" for hi' lo'
      using nibbles [OF x(2,3)] nibbles [OF that] unfolding x(1) by (metis word_unat_eq_iff)
    then have "(\<exists>h l. hex_value a = Inr h \<and> hex_value b = Inr l \<and> h * 16 + l = x) \<longleftrightarrow>
        hex_value a = Inr hi \<and> hex_value b = Inr lo"
      using x by (auto simp: hex_value_iff)
    then have "hex_pairs (a # b # rest) = Inr (x # xs) \<longleftrightarrow>
        hex_value a = Inr hi \<and> hex_value b = Inr lo \<and> hex_pairs rest = Inr xs"
      by (auto simp: bind_res_Inr_iff)
    then show ?thesis using 3(1) [of xs] x nibbles [OF x(2,3)]
      by (auto simp: Cons hex_value_iff to_hex_def)
  qed
next
  case (2 x)
  show ?case by (cases bytes) (auto simp: to_hex_def)
qed (auto simp: to_hex_def neq_Nil_conv)

text \<open>\<open>from_hex\<close> accepts exactly the non-empty texts that are, up to the case of the letters, the
  hexadecimal text of the bytes it returns.\<close>

theorem hex_exact:
  "from_hex hex = Inr bytes \<longleftrightarrow> hex \<noteq> [] \<and> map hex_lower hex = to_hex bytes"
  using hex_pairs_iff [of hex bytes] by (auto simp: from_hex_def mod_2_eq_odd)

lemma to_hex_lower [simp]: "map hex_lower (to_hex bytes) = to_hex bytes"
proof -
  have d: "\<forall>i<16. hex_lower (kHexDigits ! i) = kHexDigits ! i" by code_simp
  have "unat (drop_bit 4 b) < 16 \<and> unat (b AND 0x0F) < 16" for b :: byte
    using join_nibbles [of b] nibbles by metis
  with d show ?thesis by (simp add: to_hex_def map_concat comp_def)
qed

end
