(* ===== verification/Key_Files.thy ===== *)
theory Key_Files
  imports Client_Keys Kmip_Encoding
begin

text \<open>
  \<open>src/kmiputil\<close>: \<open>AesKey.cpp\<close>, \<open>KeyReader.cpp\<close>, \<open>KeyWriter.cpp\<close> and \<open>KeyGenerator.cpp\<close>, which turn hexadecimal,
  Base64 and PEM text into client keys and back.

  OpenSSL is not part of the sources: the record \<open>openssl\<close> holds the results of the calls the code
  makes, as functions of their input.  A buffer filled by an \<open>i2d\<close> call is a byte list, empty when the
  call failed; a \<open>d2i\<close> call returns the object and the number of bytes it consumed.  The opaque types
  of certificates, keys and PKCS#8 structures are the type variables.
\<close>

datatype evp_pkey_id =
    EVP_PKEY_RSA | EVP_PKEY_RSA_PSS | EVP_PKEY_DSA | EVP_PKEY_DH | EVP_PKEY_EC
  | EVP_PKEY_ED25519 | EVP_PKEY_ED448 | EVP_PKEY_OTHER int

record ('x, 'k, 'p) openssl =
  PEM_read_bio_X509 :: "string \<Rightarrow> 'x option"
  i2d_X509 :: "'x \<Rightarrow> byte list"
  X509_get0_pubkey :: "'x \<Rightarrow> 'k option"
  PEM_read_bio_PrivateKey :: "string \<Rightarrow> 'k option"
  EVP_PKEY2PKCS8 :: "'k \<Rightarrow> 'p option"
  i2d_PKCS8_PRIV_KEY_INFO :: "'p \<Rightarrow> byte list"
  PEM_read_bio_PUBKEY :: "string \<Rightarrow> 'k option"
  i2d_PUBKEY :: "'k \<Rightarrow> byte list"
  EVP_PKEY_base_id :: "'k \<Rightarrow> evp_pkey_id"
  EVP_PKEY_bits :: "'k \<Rightarrow> i32"
  d2i_X509 :: "byte list \<Rightarrow> ('x \<times> nat) option"
  PEM_write_bio_X509 :: "'x \<Rightarrow> string option"
  d2i_AutoPrivateKey :: "byte list \<Rightarrow> ('k \<times> nat) option"
  PEM_write_bio_PrivateKey :: "'k \<Rightarrow> string option"
  d2i_PUBKEY :: "byte list \<Rightarrow> ('k \<times> nat) option"
  d2i_PublicKey_RSA :: "byte list \<Rightarrow> ('k \<times> nat) option"
  PEM_write_bio_PUBKEY :: "'k \<Rightarrow> string option"
  BIO_new_mem_buf_ok :: bool
  BIO_new_secmem_ok :: bool
  RAND_bytes :: "nat \<Rightarrow> byte list option"
  last_error :: string

section \<open>AES keys\<close>

definition make_aes_key :: "byte list \<Rightarrow> ClientKey res" where
  "make_aes_key bytes =
     (let n = length bytes in
      if n \<noteq> 16 \<and> n \<noteq> 24 \<and> n \<noteq> 32 then
        Inl (kmip_exception (''Invalid AES key length: '' @ nat_to_string (sz_mul n 8) @
          '' bits. Should be 128, 192 or 256 bits''))
      else Inr (new_ClientKey SymmetricKey bytes
        (set_usage_mask (KMIP_CRYPTOMASK_ENCRYPT OR KMIP_CRYPTOMASK_DECRYPT)
          (set_crypto_length (word_of_nat (n * 8)) (set_algorithm KMIP_CRYPTOALG_AES no_attributes)))))"

definition aes_from_hex :: "string \<Rightarrow> ClientKey res" where
  "aes_from_hex hex = bind_res (from_hex hex) make_aes_key"

definition aes_from_base64 :: "string \<Rightarrow> ClientKey res" where
  "aes_from_base64 base64 = bind_res (from_base64 base64) make_aes_key"

definition aes_from_value :: "byte list \<Rightarrow> ClientKey res" where
  "aes_from_value val = make_aes_key val"

datatype aes_key_size = AES_128 | AES_192 | AES_256

fun aes_bits :: "aes_key_size \<Rightarrow> nat" where
  "aes_bits AES_128 = 128"
| "aes_bits AES_192 = 192"
| "aes_bits AES_256 = 256"

definition generate_aes :: "('x, 'k, 'p) openssl \<Rightarrow> aes_key_size \<Rightarrow> ClientKey res" where
  "generate_aes ssl key_size =
     (case RAND_bytes ssl (aes_bits key_size div 8) of
        None \<Rightarrow> Inl (kmip_exception (''OpenSSL RAND_bytes failed: '' @ last_error ssl))
      | Some buf \<Rightarrow> make_aes_key buf)"

section \<open>Reading PEM\<close>

definition kmip_algorithm :: "evp_pkey_id \<Rightarrow> u32" where
  "kmip_algorithm pkey_id =
     (case pkey_id of
        EVP_PKEY_RSA \<Rightarrow> KMIP_CRYPTOALG_RSA | EVP_PKEY_RSA_PSS \<Rightarrow> KMIP_CRYPTOALG_RSA
      | EVP_PKEY_DSA \<Rightarrow> KMIP_CRYPTOALG_DSA | EVP_PKEY_DH \<Rightarrow> KMIP_CRYPTOALG_DH
      | EVP_PKEY_EC \<Rightarrow> KMIP_CRYPTOALG_EC | EVP_PKEY_ED25519 \<Rightarrow> KMIP_CRYPTOALG_ED25519
      | EVP_PKEY_ED448 \<Rightarrow> KMIP_CRYPTOALG_ED448 | EVP_PKEY_OTHER _ \<Rightarrow> KMIP_CRYPTOALG_UNSET)"

definition key_length_bits :: "('x, 'k, 'p) openssl \<Rightarrow> 'k \<Rightarrow> i32" where
  "key_length_bits ssl pkey =
     (case EVP_PKEY_base_id ssl pkey of
        EVP_PKEY_ED25519 \<Rightarrow> 256 | EVP_PKEY_ED448 \<Rightarrow> 456 | _ \<Rightarrow> EVP_PKEY_bits ssl pkey)"

definition pkey_attributes :: "('x, 'k, 'p) openssl \<Rightarrow> 'k option \<Rightarrow> string \<Rightarrow> Attributes" where
  "pkey_attributes ssl pkey name =
     (let attrs = set_string KMIP_ATTR_NAME_NAME name no_attributes in
      case pkey of
        None \<Rightarrow> attrs
      | Some k \<Rightarrow>
        let alg = kmip_algorithm (EVP_PKEY_base_id ssl k); bits = key_length_bits ssl k in
        if alg \<noteq> KMIP_CRYPTOALG_UNSET \<and> sint bits > 0 then set_crypto_length bits (set_algorithm alg attrs)
        else attrs)"

definition try_parse_x509_certificate :: "('x, 'k, 'p) openssl \<Rightarrow> string \<Rightarrow> ClientKey option" where
  "try_parse_x509_certificate ssl bio =
     (case PEM_read_bio_X509 ssl bio of
        None \<Rightarrow> None
      | Some cert \<Rightarrow>
        let buf = i2d_X509 ssl cert; attrs = pkey_attributes ssl (X509_get0_pubkey ssl cert) ''certificate'' in
        if buf = [] then None else Some (new_ClientKey X509Certificate buf attrs))"

definition try_parse_private_key :: "('x, 'k, 'p) openssl \<Rightarrow> string \<Rightarrow> ClientKey option" where
  "try_parse_private_key ssl bio =
     (case PEM_read_bio_PrivateKey ssl bio of
        None \<Rightarrow> None
      | Some pkey \<Rightarrow>
        let buf = (case EVP_PKEY2PKCS8 ssl pkey of Some p8 \<Rightarrow> i2d_PKCS8_PRIV_KEY_INFO ssl p8 | None \<Rightarrow> []);
            attrs = pkey_attributes ssl (Some pkey) ''private_key'' in
        if buf = [] then None else Some (new_ClientKey PrivateKey buf attrs))"

definition try_parse_public_key :: "('x, 'k, 'p) openssl \<Rightarrow> string \<Rightarrow> ClientKey option" where
  "try_parse_public_key ssl bio =
     (case PEM_read_bio_PUBKEY ssl bio of
        None \<Rightarrow> None
      | Some pkey \<Rightarrow>
        let buf = i2d_PUBKEY ssl pkey; attrs = pkey_attributes ssl (Some pkey) ''public_key'' in
        if buf = [] then None else Some (new_ClientKey PublicKey buf attrs))"

definition kSymmetricKeyBegin :: string where
  "kSymmetricKeyBegin = ''-----BEGIN SYMMETRIC KEY-----''"

definition kSymmetricKeyEnd :: string where
  "kSymmetricKeyEnd = ''-----END SYMMETRIC KEY-----''"

abbreviation line_feed :: char where
  "line_feed \<equiv> CHR 0x0A"

definition trim_trailing_whitespace :: "string \<Rightarrow> string" where
  "trim_trailing_whitespace line =
     rev (dropWhile (\<lambda>c. c \<in> {CHR '' '', CHR 0x09, CHR 0x0D}) (rev line))"

text \<open>The loop over the lines: the Base64 text collected so far, and whether the END line was seen.\<close>

function scan_lines :: "string \<Rightarrow> bool \<Rightarrow> string \<Rightarrow> string \<times> bool" where
  "scan_lines pem in_pem b64 =
     (if pem = [] then (b64, False)
      else let line = trim_trailing_whitespace (takeWhile (\<lambda>c. c \<noteq> line_feed) pem);
               rest = tl (dropWhile (\<lambda>c. c \<noteq> line_feed) pem) in
      if \<not> in_pem then scan_lines rest (line = kSymmetricKeyBegin) b64
      else if line = kSymmetricKeyEnd then (b64, True)
      else scan_lines rest True (b64 @ line))"
  by pat_completeness auto
termination
proof (relation "measure (\<lambda>(pem, _, _). length pem)")
  fix pem :: string assume "pem \<noteq> []"
  moreover have "length (dropWhile (\<lambda>c. c \<noteq> line_feed) pem) \<le> length pem" by (rule length_dropWhile_le)
  moreover have "0 < length pem" using \<open>pem \<noteq> []\<close> by simp
  ultimately have "length (tl (dropWhile (\<lambda>c. c \<noteq> line_feed) pem)) < length pem"
    unfolding length_tl by linarith
  then show "\<And>in_pem b64 x xa. x = trim_trailing_whitespace (takeWhile (\<lambda>c. c \<noteq> line_feed) pem) \<Longrightarrow>
      xa = tl (dropWhile (\<lambda>c. c \<noteq> line_feed) pem) \<Longrightarrow> \<not> in_pem \<Longrightarrow>
      ((xa, x = kSymmetricKeyBegin, b64), pem, in_pem, b64) \<in> measure (\<lambda>(pem, _, _). length pem)"
    "\<And>in_pem b64 x xa. x = trim_trailing_whitespace (takeWhile (\<lambda>c. c \<noteq> line_feed) pem) \<Longrightarrow>
      xa = tl (dropWhile (\<lambda>c. c \<noteq> line_feed) pem) \<Longrightarrow> \<not> \<not> in_pem \<Longrightarrow> x \<noteq> kSymmetricKeyEnd \<Longrightarrow>
      ((xa, True, b64 @ x), pem, in_pem, b64) \<in> measure (\<lambda>(pem, _, _). length pem)"
    by simp_all
qed simp

declare scan_lines.simps [simp del]

definition try_parse_aes_from_pem_text :: "string \<Rightarrow> ClientKey option res" where
  "try_parse_aes_from_pem_text pem =
     (let (b64, complete) = scan_lines pem False [] in
      if \<not> complete \<or> b64 = [] then Inr None
      else case aes_from_base64 b64 of
          Inr key \<Rightarrow> Inr (Some key)
        | Inl (KmipException code msg) \<Rightarrow> Inr None
        | Inl err \<Rightarrow> Inl err)"

definition unsupported_pem :: failure where
  "unsupported_pem = kmip_exception_code KMIP_NOT_IMPLEMENTED ''Unsupported PEM format or not implemented''"

text \<open>The three OpenSSL readers are tried in turn, each on the whole text (\<open>BIO_reset\<close>).\<close>

definition from_PEM :: "('x, 'k, 'p) openssl \<Rightarrow> string \<Rightarrow> ClientKey res" where
  "from_PEM ssl pem =
     (if pem = [] then Inl unsupported_pem
      else if length pem > int32_max then Inl (kmip_exception ''PEM data is too large'')
      else if \<not> BIO_new_mem_buf_ok ssl then Inl (kmip_exception ''Failed to create BIO for PEM data'')
      else case try_parse_x509_certificate ssl pem of Some key \<Rightarrow> Inr key
        | None \<Rightarrow>
          (case try_parse_private_key ssl pem of Some key \<Rightarrow> Inr key
           | None \<Rightarrow>
             (case try_parse_public_key ssl pem of Some key \<Rightarrow> Inr key
              | None \<Rightarrow> bind_res (try_parse_aes_from_pem_text pem) (\<lambda>parsed.
                  case parsed of Some key \<Rightarrow> Inr key | None \<Rightarrow> Inl unsupported_pem))))"

section \<open>Writing PEM\<close>

definition invalid_pem :: "('x, 'k, 'p) openssl \<Rightarrow> string \<Rightarrow> failure" where
  "invalid_pem ssl what = kmip_exception (''Cannot write '' @ what @ '' as PEM: '' @ last_error ssl)"

definition bio_contents :: "string \<Rightarrow> string res" where
  "bio_contents data =
     (if data = [] then Inl (kmip_exception ''PEM encoding produced no output'') else Inr data)"

text \<open>The whole of the bytes must be consumed.\<close>

definition d2i_whole :: "(byte list \<Rightarrow> ('a \<times> nat) option) \<Rightarrow> byte list \<Rightarrow> 'a option" where
  "d2i_whole d2i der =
     (if der \<noteq> [] \<and> length der < 2 ^ 63 then
        (case d2i der of Some (obj, n) \<Rightarrow> if n = length der then Some obj else None | None \<Rightarrow> None)
      else None)"

definition write_pem :: "('x, 'k, 'p) openssl \<Rightarrow> ('a \<Rightarrow> string option) \<Rightarrow> string \<Rightarrow> 'a option \<Rightarrow> string res" where
  "write_pem ssl write what obj =
     (case obj of
        None \<Rightarrow> Inl (invalid_pem ssl what)
      | Some x \<Rightarrow>
        if \<not> BIO_new_secmem_ok ssl then Inl (kmip_exception ''Failed to create BIO for PEM output'')
        else case write x of None \<Rightarrow> Inl (invalid_pem ssl what) | Some data \<Rightarrow> bio_contents data)"

definition certificate_to_pem :: "('x, 'k, 'p) openssl \<Rightarrow> ClientKey \<Rightarrow> string res" where
  "certificate_to_pem ssl key =
     write_pem ssl (PEM_write_bio_X509 ssl) ''certificate'' (d2i_whole (d2i_X509 ssl) (ck_value key))"

definition private_key_to_pem :: "('x, 'k, 'p) openssl \<Rightarrow> ClientKey \<Rightarrow> string res" where
  "private_key_to_pem ssl key =
     write_pem ssl (PEM_write_bio_PrivateKey ssl) ''private key'' (d2i_whole (d2i_AutoPrivateKey ssl) (ck_value key))"

definition public_key_to_pem :: "('x, 'k, 'p) openssl \<Rightarrow> ClientKey \<Rightarrow> string res" where
  "public_key_to_pem ssl key =
     (let pkey = d2i_whole (d2i_PUBKEY ssl) (ck_value key);
          pkey = (if pkey = None then d2i_whole (d2i_PublicKey_RSA ssl) (ck_value key) else pkey) in
      write_pem ssl (PEM_write_bio_PUBKEY ssl) ''public key'' pkey)"

definition is_aes_key :: "ClientKey \<Rightarrow> bool" where
  "is_aes_key key \<longleftrightarrow> attr_algorithm (ck_attributes key) = KMIP_CRYPTOALG_AES \<and>
     (let n = length (ck_value key) in n = 16 \<or> n = 24 \<or> n = 32)"

definition symmetric_key_to_pem :: "ClientKey \<Rightarrow> string res" where
  "symmetric_key_to_pem key =
     (if \<not> is_aes_key key then
        Inl (kmip_exception ''Cannot write symmetric key as PEM: only 128, 192 or 256-bit AES keys are supported'')
      else Inr (''-----BEGIN SYMMETRIC KEY-----'' @ [line_feed] @ to_base64 (ck_value key) @ [line_feed] @
        ''-----END SYMMETRIC KEY-----'' @ [line_feed]))"

definition KeyWriter_to_hex :: "ClientKey \<Rightarrow> string" where
  "KeyWriter_to_hex key = to_hex (ck_value key)"

definition KeyWriter_to_base64 :: "ClientKey \<Rightarrow> string" where
  "KeyWriter_to_base64 key = to_base64 (ck_value key)"

definition to_PEM :: "('x, 'k, 'p) openssl \<Rightarrow> ClientKey \<Rightarrow> string res" where
  "to_PEM ssl key =
     (case ck_type key of
        CERTIFICATE \<Rightarrow> certificate_to_pem ssl key
      | PRIVATE_KEY \<Rightarrow> private_key_to_pem ssl key
      | PUBLIC_KEY \<Rightarrow> public_key_to_pem ssl key
      | SYMMETRIC_KEY \<Rightarrow> symmetric_key_to_pem key
      | KT_UNSET \<Rightarrow> Inl (kmip_exception ''Cannot write key as PEM: unsupported key type''))"

section \<open>Symmetric keys as PEM\<close>

definition symmetric_block :: "string \<Rightarrow> string" where
  "symmetric_block b64 = kSymmetricKeyBegin @ [line_feed] @ b64 @ [line_feed] @ kSymmetricKeyEnd @ [line_feed]"

text \<open>OpenSSL reads a PEM block only under a label of the type that is asked for, and there is none for
  raw symmetric keys.\<close>

definition rejects_symmetric_blocks :: "('x, 'k, 'p) openssl \<Rightarrow> bool" where
  "rejects_symmetric_blocks ssl \<longleftrightarrow> (\<forall>bytes. let pem = symmetric_block (to_base64 bytes) in
     PEM_read_bio_X509 ssl pem = None \<and> PEM_read_bio_PrivateKey ssl pem = None \<and> PEM_read_bio_PUBKEY ssl pem = None)"

lemma to_base64_chars: "set (to_base64 bytes) \<subseteq> insert CHR ''='' (set kBase64Alphabet)"
proof -
  have "base64_char n k \<in> set kBase64Alphabet" for n k
    using sextet_unat [OF sextet_sext [of n k]] by (simp add: base64_char_alph alph_def alphabet_facts(2))
  then show ?thesis by (induction bytes rule: to_base64.induct) (auto simp: Let_def)
qed

lemma to_base64_Nil_iff [simp]: "to_base64 bytes = [] \<longleftrightarrow> bytes = []"
  by (cases bytes rule: to_base64.cases) (simp_all add: Let_def)

lemma base64_plain:
  assumes "c \<in> set (to_base64 bytes)"
  shows "c \<notin> {CHR '' '', CHR 0x09, CHR 0x0D, line_feed, CHR ''-''}"
proof -
  have "\<forall>c\<in>insert CHR ''='' (set kBase64Alphabet). c \<notin> {CHR '' '', CHR 0x09, CHR 0x0D, line_feed, CHR ''-''}"
    by code_simp
  with assms to_base64_chars show ?thesis by blast
qed

lemma trim_plain: "line = [] \<or> last line \<notin> {CHR '' '', CHR 0x09, CHR 0x0D} \<Longrightarrow> trim_trailing_whitespace line = line"
  by (cases line rule: rev_cases) (auto simp: trim_trailing_whitespace_def)

lemma scan_line:
  assumes "line_feed \<notin> set line" "trim_trailing_whitespace line = line"
  shows "scan_lines (line @ [line_feed] @ rest) in_pem b64 =
    (if \<not> in_pem then scan_lines rest (line = kSymmetricKeyBegin) b64
     else if line = kSymmetricKeyEnd then (b64, True) else scan_lines rest True (b64 @ line))"
proof -
  have "takeWhile (\<lambda>c. c \<noteq> line_feed) (line @ [line_feed] @ rest) = line"
    "dropWhile (\<lambda>c. c \<noteq> line_feed) (line @ [line_feed] @ rest) = line_feed # rest"
    using assms(1) by (auto simp: takeWhile_append dropWhile_append)
  then show ?thesis by (subst scan_lines.simps) (simp add: assms(2) Let_def)
qed

lemma label_facts:
  "line_feed \<notin> set kSymmetricKeyBegin" "line_feed \<notin> set kSymmetricKeyEnd"
  "trim_trailing_whitespace kSymmetricKeyBegin = kSymmetricKeyBegin"
  "trim_trailing_whitespace kSymmetricKeyEnd = kSymmetricKeyEnd" "CHR ''-'' \<in> set kSymmetricKeyEnd"
  by code_simp+

lemma scan_block: "scan_lines (symmetric_block (to_base64 bytes)) False [] = (to_base64 bytes, True)"
proof -
  have "line_feed \<notin> set (to_base64 bytes)" "trim_trailing_whitespace (to_base64 bytes) = to_base64 bytes"
    using base64_plain [of _ bytes] last_in_set [of "to_base64 bytes"] by (auto intro!: trim_plain)
  moreover have "to_base64 bytes \<noteq> kSymmetricKeyEnd"
    using base64_plain [of "CHR ''-''" bytes] label_facts(5) by (metis insertI1 insertI2)
  ultimately have b: "line_feed \<notin> set (to_base64 bytes)" "trim_trailing_whitespace (to_base64 bytes) = to_base64 bytes"
    "to_base64 bytes \<noteq> kSymmetricKeyEnd" by simp_all
  show ?thesis unfolding symmetric_block_def
    using scan_line [OF b(1,2)] scan_line [OF label_facts(1,3)] scan_line [OF label_facts(2,4), of "[]"] b(3)
    by simp
qed

lemma make_aes_key_value:
  "make_aes_key bytes = Inr key \<Longrightarrow> ck_value key = bytes \<and> ck_class key = SymmetricKey \<and> is_aes_key key \<and>
     attr_algo (ck_attributes key) = Some KMIP_CRYPTOALG_AES \<and>
     attr_crypto_length (ck_attributes key) = Some (word_of_nat (8 * length bytes)) \<and> ck_format key = None"
  by (auto simp: make_aes_key_def new_ClientKey_def is_aes_key_def set_usage_mask_def set_crypto_length_def
      set_algorithm_def attr_algorithm_def no_attributes_def Let_def KMIP_CRYPTOALG_AES_def KMIP_CRYPTOALG_UNSET_def
      KMIP_CRYPTOMASK_UNSET_def mult.commute split: if_splits)

lemma make_aes_key_ok: "length bytes \<in> {16, 24, 32} \<Longrightarrow> \<exists>key. make_aes_key bytes = Inr key"
  by (auto simp: make_aes_key_def Let_def)

lemma aes_from_base64_text [simp]: "aes_from_base64 (to_base64 bytes) = make_aes_key bytes"
proof -
  have "filter (\<lambda>c. \<not> is_base64_whitespace c) (to_base64 bytes) = to_base64 bytes"
    using base64_plain [of _ bytes] by (auto simp: filter_id_conv is_base64_whitespace_def)
  then show ?thesis by (simp add: aes_from_base64_def from_base64_iff [THEN iffD2])
qed


lemma symmetric_block_nonempty [simp]: "symmetric_block b64 \<noteq> []"
  by (simp add: symmetric_block_def)

lemma length_to_base64: "length (to_base64 bytes) \<le> 2 * length bytes + 4"
  by (induction bytes rule: to_base64.induct) (simp_all add: Let_def)

lemma read_symmetric_block:
  assumes "make_aes_key bytes = Inr key" "rejects_symmetric_blocks ssl" "BIO_new_mem_buf_ok ssl"
  shows "from_PEM ssl (symmetric_block (to_base64 bytes)) = Inr key"
proof -
  let ?pem = "symmetric_block (to_base64 bytes)"
  from make_aes_key_value [OF assms(1)] have len: "length bytes \<in> {16, 24, 32}"
    by (auto simp: is_aes_key_def Let_def)
  then have "length ?pem \<le> 2 * 32 + 4 + 62"
    using length_to_base64 [of bytes]
    by (auto simp: symmetric_block_def kSymmetricKeyBegin_def kSymmetricKeyEnd_def)
  then have "\<not> length ?pem > int32_max" by (simp add: int32_max_def)
  with assms len show ?thesis
    by (auto simp: from_PEM_def rejects_symmetric_blocks_def Let_def try_parse_x509_certificate_def
        try_parse_private_key_def try_parse_public_key_def try_parse_aes_from_pem_text_def scan_block)
qed

text \<open>C26. A symmetric key that \<open>to_PEM\<close> accepts, an AES key of 128, 192 or 256 bits, survives PEM: \<open>from_PEM\<close> reads exactly
  the text that \<open>to_PEM\<close> wrote back as a symmetric key with the same bytes, the AES algorithm and the length of the
  bytes, provided OpenSSL makes the memory BIO and takes the block for none of its own types.\<close>

theorem pem_symmetric_round_trip:
  assumes "ck_class key = SymmetricKey" "is_aes_key key"
    and "rejects_symmetric_blocks ssl" "BIO_new_mem_buf_ok ssl"
  shows "\<exists>key'. bind_res (to_PEM ssl key) (from_PEM ssl) = Inr key' \<and> ck_value key' = ck_value key \<and>
    ck_class key' = SymmetricKey \<and> attr_algo (ck_attributes key') = Some KMIP_CRYPTOALG_AES \<and>
    attr_crypto_length (ck_attributes key') = Some (word_of_nat (8 * length (ck_value key)))"
proof -
  from assms(2) obtain key' where k: "make_aes_key (ck_value key) = Inr key'"
    using make_aes_key_ok [of "ck_value key"] by (auto simp: is_aes_key_def Let_def)
  have "to_PEM ssl key = Inr (symmetric_block (to_base64 (ck_value key)))"
    using assms(1,2) by (simp add: to_PEM_def ck_type_def symmetric_key_to_pem_def symmetric_block_def
        kSymmetricKeyBegin_def kSymmetricKeyEnd_def)
  with read_symmetric_block [OF k assms(3,4)] make_aes_key_value [OF k] show ?thesis by auto
qed

text \<open>An OpenSSL that reads nothing, for concrete evaluations.\<close>

definition deaf_openssl :: "(unit, unit, unit) openssl" where
  "deaf_openssl =
     \<lparr>PEM_read_bio_X509 = (\<lambda>_. None), i2d_X509 = (\<lambda>_. []), X509_get0_pubkey = (\<lambda>_. None),
      PEM_read_bio_PrivateKey = (\<lambda>_. None), EVP_PKEY2PKCS8 = (\<lambda>_. None), i2d_PKCS8_PRIV_KEY_INFO = (\<lambda>_. []),
      PEM_read_bio_PUBKEY = (\<lambda>_. None), i2d_PUBKEY = (\<lambda>_. []), EVP_PKEY_base_id = (\<lambda>_. EVP_PKEY_OTHER 0),
      EVP_PKEY_bits = (\<lambda>_. 0), d2i_X509 = (\<lambda>_. None), PEM_write_bio_X509 = (\<lambda>_. None),
      d2i_AutoPrivateKey = (\<lambda>_. None), PEM_write_bio_PrivateKey = (\<lambda>_. None), d2i_PUBKEY = (\<lambda>_. None),
      d2i_PublicKey_RSA = (\<lambda>_. None), PEM_write_bio_PUBKEY = (\<lambda>_. None), BIO_new_mem_buf_ok = True,
      BIO_new_secmem_ok = True, RAND_bytes = (\<lambda>_. None), last_error = ''unknown error''\<rparr>"

definition sample_aes_key :: ClientKey where
  "sample_aes_key = new_ClientKey SymmetricKey (replicate 16 7) (set_algorithm KMIP_CRYPTOALG_AES no_attributes)"

lemma sample_aes_key_ok: "ck_class sample_aes_key = SymmetricKey" "is_aes_key sample_aes_key"
  "ck_value sample_aes_key = replicate 16 7"
  by (simp_all add: sample_aes_key_def new_ClientKey_def is_aes_key_def attr_algorithm_def set_algorithm_def
      KMIP_CRYPTOALG_UNSET_def KMIP_CRYPTOALG_AES_def)

theorem pem_symmetric_round_trip_witness:
  "\<exists>key'. bind_res (to_PEM deaf_openssl sample_aes_key) (from_PEM deaf_openssl) = Inr key' \<and>
     ck_value key' = replicate 16 7 \<and> attr_crypto_length (ck_attributes key') = Some 128"
proof -
  have "rejects_symmetric_blocks deaf_openssl" "BIO_new_mem_buf_ok deaf_openssl"
    by (simp_all add: rejects_symmetric_blocks_def deaf_openssl_def Let_def)
  from pem_symmetric_round_trip [OF sample_aes_key_ok(1,2) this] show ?thesis
    by (auto simp: sample_aes_key_ok(3))
qed

lemma pkey_attributes_paired:
  "has_attribute KMIP_ATTR_NAME_NAME (pkey_attributes ssl pk name)"
  "attr_algo (pkey_attributes ssl pk name) = None \<longleftrightarrow> attr_crypto_length (pkey_attributes ssl pk name) = None"
  "case attr_crypto_length (pkey_attributes ssl pk name) of None \<Rightarrow> True | Some n \<Rightarrow> sint n > 0"
  by (auto simp: pkey_attributes_def has_attribute_def set_string_def put_generic_def set_crypto_length_def
      set_algorithm_def no_attributes_def kmip_consts Let_def split: option.splits)

lemma from_PEM_cases:
  assumes "from_PEM ssl pem = Inr key"
  obtains pk name where "ck_attributes key = pkey_attributes ssl pk name" "ck_value key \<noteq> []"
      "ck_format key = None" "ck_class key \<noteq> SymmetricKey"
    | bytes where "make_aes_key bytes = Inr key"
proof -
  from assms consider "try_parse_x509_certificate ssl pem = Some key \<or> try_parse_private_key ssl pem = Some key \<or>
      try_parse_public_key ssl pem = Some key" | "try_parse_aes_from_pem_text pem = Inr (Some key)"
    by (auto simp: from_PEM_def bind_res_Inr_iff split: if_splits option.splits)
  then show ?thesis
  proof cases
    case 1
    then show ?thesis
      by (auto simp: try_parse_x509_certificate_def try_parse_private_key_def try_parse_public_key_def
          new_ClientKey_def Let_def split: option.splits if_splits intro!: that(1))
  next
    case 2
    then show ?thesis
      by (auto simp: try_parse_aes_from_pem_text_def aes_from_base64_def bind_res_Inr_iff
          split: prod.splits if_splits sum.splits failure.splits intro: that(2))
  qed
qed

text \<open>Whatever OpenSSL returns, a key read from PEM is fit for registration: it has bytes, no format of
  its own, a name unless it is symmetric, its algorithm and its length are both set or both unset, a set
  length is positive, and a symmetric key is an AES key of 128, 192 or 256 bits.\<close>

theorem pem_key_attributes:
  assumes "from_PEM ssl pem = Inr key"
  shows "ck_value key \<noteq> [] \<and> ck_format key = None \<and>
    (attr_algo (ck_attributes key) = None \<longleftrightarrow> attr_crypto_length (ck_attributes key) = None) \<and>
    (case attr_crypto_length (ck_attributes key) of None \<Rightarrow> True | Some n \<Rightarrow> sint n > 0) \<and>
    (if ck_class key = SymmetricKey then is_aes_key key else has_attribute KMIP_ATTR_NAME_NAME (ck_attributes key))"
  using assms
proof (cases rule: from_PEM_cases)
  case (1 pk name)
  then show ?thesis using pkey_attributes_paired [of ssl pk name] by simp
next
  case (2 bytes)
  then show ?thesis using make_aes_key_value [OF 2] by (auto simp: is_aes_key_def Let_def)
qed

theorem pem_key_attributes_witness:
  "\<exists>key. from_PEM deaf_openssl (symmetric_block (to_base64 (replicate 16 7))) = Inr key \<and> is_aes_key key"
proof -
  obtain key where k: "make_aes_key (replicate 16 7) = Inr key"
    using make_aes_key_ok [of "replicate 16 7"] by auto
  have r: "from_PEM deaf_openssl (symmetric_block (to_base64 (replicate 16 7))) = Inr key"
    by (rule read_symmetric_block [OF k]) (simp_all add: rejects_symmetric_blocks_def deaf_openssl_def Let_def)
  with pem_key_attributes [OF r] make_aes_key_value [OF k] show ?thesis by auto
qed

end
