(* ===== verification/Client_Pool.thy ===== *)
theory Client_Pool
  imports Kmip_Errors "HOL-Library.Multiset"
begin

text \<open>
  \<open>src/kmipclient/src/KmipClientPool.cpp\<close>: a bounded pool of connections that threads borrow and return
  under a mutex, with a condition variable for the threads that wait.

  The critical sections are functions on the record \<open>pool\<close>: the wait predicate, the locked part of
  \<open>acquire_locked\<close>, its error path and \<open>return_slot\<close>.  A slot is known by the identity of its connection.
  The threads are interleaved by the step relation \<open>pool_step\<close>, whose state holds besides the pool the
  multiset of the calls in progress: a call that sleeps in \<open>cv_.wait\<close> (with or without a time limit), one
  that was woken and has not yet looked, one that connects outside the lock, and a borrowed client.
  \<open>notify_one\<close> wakes one sleeping call, if there is one; calls may also wake up by themselves.

  Reachable states keep an exact account of the connections (\<open>pool_ok\<close>) and never leave a call asleep
  while a connection is free and nobody is on the way to take it (\<open>no_lost_wakeup\<close>).
\<close>

section \<open>The pool\<close>

type_synonym slot = nat

record pool =
  max_connections :: nat
  available :: "slot list"
  total_count :: nat

definition new_pool :: "nat \<Rightarrow> pool res" where
  "new_pool max_conns =
     (if max_conns = 0 then
        Inl (kmip_exception_code (- 1) ''KmipClientPool: max_connections must be greater than zero'')
      else Inr \<lparr>max_connections = max_conns, available = [], total_count = 0\<rparr>)"

text \<open>The decrement of a \<open>size_t\<close>.\<close>

definition sz_dec :: "nat \<Rightarrow> nat" where
  "sz_dec n = (n + 2 ^ 64 - 1) mod 2 ^ 64"

text \<open>The predicate of the waits and of \<open>try_borrow\<close>.\<close>

definition slot_ready :: "pool \<Rightarrow> bool" where
  "slot_ready p \<longleftrightarrow> available p \<noteq> [] \<or> total_count p < max_connections p"

text \<open>The locked part of \<open>acquire_locked\<close>: an idle slot, or a reservation for a new connection.\<close>

definition acquire_locked :: "pool \<Rightarrow> slot option \<times> pool" where
  "acquire_locked p =
     (if available p \<noteq> [] then (Some (last (available p)), p\<lparr>available := butlast (available p)\<rparr>)
      else (None, p\<lparr>total_count := sz_add (total_count p) 1\<rparr>))"

text \<open>The handler that gives a reservation back when the connection fails.\<close>

definition connect_failed :: "pool \<Rightarrow> pool" where
  "connect_failed p = p\<lparr>total_count := sz_dec (total_count p)\<rparr>"

definition return_slot :: "slot \<Rightarrow> bool \<Rightarrow> bool \<Rightarrow> pool \<Rightarrow> pool" where
  "return_slot s healthy is_connected p =
     (let discard = \<not> healthy \<or> \<not> is_connected in
      if \<not> discard then p\<lparr>available := available p @ [s]\<rparr>
      else p\<lparr>total_count := sz_dec (total_count p)\<rparr>)"

definition available_count :: "pool \<Rightarrow> nat" where
  "available_count p = length (available p)"

definition borrow_timeout_error :: "int \<Rightarrow> pool \<Rightarrow> failure" where
  "borrow_timeout_error timeout_ms p = kmip_exception_code (- 1)
     (''KmipClientPool: no connection available after '' @ int_to_string timeout_ms @ ''ms (pool size: '' @
      nat_to_string (max_connections p) @ '', all '' @ nat_to_string (total_count p) @ '' connections in use)'')"

section \<open>Borrowed clients\<close>

text \<open>The handle returned by a borrow; \<open>bc_pool\<close> tells whether its pool pointer is set.  An operation that
  gives a slot back to the pool returns it with the health flag.\<close>

record BorrowedClient =
  bc_pool :: bool
  bc_slot :: "slot option"
  bc_healthy :: bool

definition new_BorrowedClient :: "slot \<Rightarrow> BorrowedClient" where
  "new_BorrowedClient s = \<lparr>bc_pool = True, bc_slot = Some s, bc_healthy = True\<rparr>"

definition markUnhealthy :: "BorrowedClient \<Rightarrow> BorrowedClient" where
  "markUnhealthy b = b\<lparr>bc_healthy := False\<rparr>"

definition move_construct :: "BorrowedClient \<Rightarrow> BorrowedClient \<times> BorrowedClient" where
  "move_construct other =
     (\<lparr>bc_pool = bc_pool other, bc_slot = bc_slot other, bc_healthy = bc_healthy other\<rparr>,
      other\<lparr>bc_pool := False, bc_slot := None\<rparr>)"

definition give_back :: "BorrowedClient \<Rightarrow> (slot \<times> bool) option" where
  "give_back b = (if bc_pool b then map_option (\<lambda>s. (s, bc_healthy b)) (bc_slot b) else None)"

text \<open>Assignment between two different objects.\<close>

definition move_assign ::
    "BorrowedClient \<Rightarrow> BorrowedClient \<Rightarrow> (slot \<times> bool) option \<times> BorrowedClient \<times> BorrowedClient" where
  "move_assign this other =
     (give_back this,
      \<lparr>bc_pool = bc_pool other, bc_slot = bc_slot other, bc_healthy = bc_healthy other\<rparr>,
      other\<lparr>bc_pool := False, bc_slot := None\<rparr>)"

definition destroy_BorrowedClient :: "BorrowedClient \<Rightarrow> (slot \<times> bool) option" where
  "destroy_BorrowedClient b = give_back b"

section \<open>Threads\<close>

datatype call =
    Asleep (timed: bool)
  | Woken (timed: bool)
  | Connecting
  | Holding (held_slot: slot) (healthy: bool)

type_synonym pool_state = "pool \<times> call multiset"

text \<open>What becomes of a call that acquires: it holds the idle slot, or connects for its reservation.\<close>

definition acquired :: "slot option \<Rightarrow> call" where
  "acquired got = (case got of Some s \<Rightarrow> Holding s True | None \<Rightarrow> Connecting)"

definition sleeping :: "call multiset \<Rightarrow> call multiset" where
  "sleeping A = filter_mset (\<lambda>c. case c of Asleep _ \<Rightarrow> True | _ \<Rightarrow> False) A"

definition woken :: "call multiset \<Rightarrow> call multiset" where
  "woken A = filter_mset (\<lambda>c. case c of Woken _ \<Rightarrow> True | _ \<Rightarrow> False) A"

definition in_use :: "call multiset \<Rightarrow> call multiset" where
  "in_use A = filter_mset (\<lambda>c. case c of Connecting \<Rightarrow> True | Holding _ _ \<Rightarrow> True | _ \<Rightarrow> False) A"

text \<open>The slots held by borrowed clients.\<close>

definition held :: "call multiset \<Rightarrow> slot multiset" where
  "held A = image_mset held_slot (filter_mset (\<lambda>c. case c of Holding _ _ \<Rightarrow> True | _ \<Rightarrow> False) A)"

inductive notify_one :: "call multiset \<Rightarrow> call multiset \<Rightarrow> bool" where
  notify_nobody: "sleeping A = {#} \<Longrightarrow> notify_one A A"
| notify_sleeper: "notify_one (add_mset (Asleep t) A) (add_mset (Woken t) A)"

inductive pool_step :: "pool_state \<Rightarrow> pool_state \<Rightarrow> bool" where
  borrow_now: "slot_ready p \<Longrightarrow> acquire_locked p = (got, p') \<Longrightarrow>
    pool_step (p, A) (p', add_mset (acquired got) A)"
| borrow_wait: "\<not> slot_ready p \<Longrightarrow> pool_step (p, A) (p, add_mset (Asleep t) A)"
| wake_up: "pool_step (p, add_mset (Asleep t) A) (p, add_mset (Woken t) A)"
| woken_acquire: "slot_ready p \<Longrightarrow> acquire_locked p = (got, p') \<Longrightarrow>
    pool_step (p, add_mset (Woken t) A) (p', add_mset (acquired got) A)"
| woken_wait: "\<not> slot_ready p \<Longrightarrow> pool_step (p, add_mset (Woken t) A) (p, add_mset (Asleep t) A)"
| woken_timeout: "\<not> slot_ready p \<Longrightarrow> pool_step (p, add_mset (Woken True) A) (p, A)"
| connected: "s \<notin> set (available p) \<Longrightarrow> s \<notin># held A \<Longrightarrow>
    pool_step (p, add_mset Connecting A) (p, add_mset (Holding s True) A)"
| connect_error: "notify_one A A' \<Longrightarrow> pool_step (p, add_mset Connecting A) (connect_failed p, A')"
| mark_unhealthy: "pool_step (p, add_mset (Holding s h) A) (p, add_mset (Holding s False) A)"
| give_back: "notify_one A A' \<Longrightarrow> pool_step (p, add_mset (Holding s h) A) (return_slot s h c p, A')"

inductive pool_reachable :: "nat \<Rightarrow> pool_state \<Rightarrow> bool" for max_conns where
  pool_start: "new_pool max_conns = Inr p \<Longrightarrow> pool_reachable max_conns (p, {#})"
| pool_next: "pool_reachable max_conns s \<Longrightarrow> pool_step s s' \<Longrightarrow> pool_reachable max_conns s'"

inductive_cases notify_oneE: "notify_one A A'"
inductive_cases pool_stepE: "pool_step s s'"

section \<open>The account of the connections\<close>

text \<open>No slot is owned twice.\<close>

definition unshared :: "slot multiset \<Rightarrow> bool" where
  "unshared M \<longleftrightarrow> (\<forall>s. count M s \<le> 1)"

definition pool_ok :: "pool_state \<Rightarrow> bool" where
  "pool_ok s \<longleftrightarrow> (case s of (p, A) \<Rightarrow>
     total_count p = length (available p) + size (in_use A) \<and> total_count p \<le> max_connections p \<and>
     max_connections p < 2 ^ 64 \<and> unshared (mset (available p) + held A))"

definition free_slots :: "pool \<Rightarrow> nat" where
  "free_slots p = length (available p) + (max_connections p - total_count p)"

definition no_lost_wakeup :: "pool_state \<Rightarrow> bool" where
  "no_lost_wakeup s \<longleftrightarrow> (case s of (p, A) \<Rightarrow> sleeping A \<noteq> {#} \<longrightarrow> free_slots p \<le> size (woken A))"

lemmas call_sets = sleeping_def woken_def in_use_def held_def

lemma call_sets_simps [simp]:
  "sleeping {#} = {#}" "woken {#} = {#}" "in_use {#} = {#}" "held {#} = {#}"
  "sleeping (add_mset c A) = (case c of Asleep _ \<Rightarrow> add_mset c (sleeping A) | _ \<Rightarrow> sleeping A)"
  "woken (add_mset c A) = (case c of Woken _ \<Rightarrow> add_mset c (woken A) | _ \<Rightarrow> woken A)"
  "in_use (add_mset c A) = (case c of Connecting \<Rightarrow> add_mset c (in_use A) | Holding _ _ \<Rightarrow> add_mset c (in_use A) | _ \<Rightarrow> in_use A)"
  "held (add_mset c A) = (case c of Holding s _ \<Rightarrow> add_mset s (held A) | _ \<Rightarrow> held A)"
  by (auto simp: call_sets split: call.splits)

lemma notify_one_sets:
  assumes "notify_one A A'"
  shows "in_use A' = in_use A" "held A' = held A"
    "sleeping A \<noteq> {#} \<Longrightarrow> size (woken A') = size (woken A) + 1" "sleeping A = {#} \<Longrightarrow> A' = A"
  using assms by (auto elim!: notify_oneE)

lemma unshared_simps [simp]: "unshared {#}" "unshared (add_mset s M) \<longleftrightarrow> s \<notin># M \<and> unshared M"
proof -
  show "unshared (add_mset s M) \<longleftrightarrow> s \<notin># M \<and> unshared M"
  proof
    assume u: "unshared (add_mset s M)"
    have "count M x \<le> 1" for x
      using u [unfolded unshared_def, rule_format, of x] by (auto split: if_splits)
    with u [unfolded unshared_def, rule_format, of s] show "s \<notin># M \<and> unshared M"
      by (simp add: unshared_def not_in_iff)
  qed (auto simp: unshared_def not_in_iff)
qed (simp add: unshared_def)

lemma sz_dec_pos: "0 < n \<Longrightarrow> n < 2 ^ 64 \<Longrightarrow> sz_dec n = n - 1"
proof -
  assume "0 < n" "n < 2 ^ 64"
  then have "n + 2 ^ 64 - 1 = (n - 1) + 2 ^ 64" "n - 1 < 2 ^ 64" by simp_all
  then show ?thesis unfolding sz_dec_def by (simp only: mod_add_self2 mod_less)
qed

lemma mset_butlast: "xs \<noteq> [] \<Longrightarrow> add_mset (last xs) (mset (butlast xs)) = mset xs"
  by (metis append_butlast_last_id mset_append mset.simps union_mset_add_mset_right add.right_neutral)

text \<open>What acquiring, giving up and returning do to the account.\<close>

lemma acquire_cases:
  assumes "slot_ready p" "acquire_locked p = (got, p')" "total_count p \<le> max_connections p" "max_connections p < 2 ^ 64"
  obtains "available p \<noteq> []" "acquired got = Holding (last (available p)) True" "p' = p\<lparr>available := butlast (available p)\<rparr>"
  | "available p = []" "acquired got = Connecting" "p' = p\<lparr>total_count := total_count p + 1\<rparr>"
      "total_count p < max_connections p"
  using assms by (auto simp: slot_ready_def acquire_locked_def acquired_def sz_add_def split: if_splits)

lemma pool_ok_acquire:
  assumes "slot_ready p" "acquire_locked p = (got, p')" "pool_ok (p, A)"
  shows "pool_ok (p', add_mset (acquired got) A)"
proof (rule acquire_cases [OF assms(1,2)])
  assume a: "available p \<noteq> []" "acquired got = Holding (last (available p)) True" "p' = p\<lparr>available := butlast (available p)\<rparr>"
  have "unshared (mset (available p) + held A)" using assms(3) by (simp add: pool_ok_def)
  then have "unshared (add_mset (last (available p)) (mset (butlast (available p))) + held A)"
    by (simp only: mset_butlast [OF a(1)])
  moreover have "length (available p) = Suc (length (butlast (available p)))" using a(1) by simp
  ultimately show ?thesis using assms(3) a by (simp add: pool_ok_def)
qed (use assms(3) in \<open>simp_all add: pool_ok_def\<close>)

lemma pool_ok_step:
  assumes "pool_step s s'" "pool_ok s"
  shows "pool_ok s'"
  using assms
proof (cases rule: pool_step.cases)
  case (connect_error A A' p)
  then show ?thesis using assms(2) notify_one_sets [OF connect_error(3)]
    by (auto simp: pool_ok_def connect_failed_def sz_dec_pos)
next
  case (give_back A A' p s h c)
  have "sz_dec (total_count p) = total_count p - 1" using assms(2) give_back by (auto simp: pool_ok_def sz_dec_pos)
  then show ?thesis using assms(2) give_back notify_one_sets [OF give_back(3)]
    by (auto simp: pool_ok_def return_slot_def Let_def)
next
  case (connected s p A)
  then show ?thesis using assms(2) by (auto simp: pool_ok_def)
qed (auto intro!: pool_ok_acquire, auto simp: pool_ok_def)


lemma free_not_ready: "\<not> slot_ready p \<Longrightarrow> free_slots p = 0"
  by (simp add: slot_ready_def free_slots_def)

lemma free_acquire:
  assumes "slot_ready p" "acquire_locked p = (got, p')" "pool_ok (p, A)"
  shows "free_slots p = free_slots p' + 1"
proof (rule acquire_cases [OF assms(1,2)])
  assume "available p \<noteq> []" "p' = p\<lparr>available := butlast (available p)\<rparr>"
  then show ?thesis by (cases "available p" rule: rev_cases) (simp_all add: free_slots_def)
qed (use assms(3) in \<open>simp_all add: pool_ok_def free_slots_def\<close>)

lemma free_returned:
  assumes "pool_ok (p, add_mset c A)" "c = Connecting \<or> (\<exists>s h. c = Holding s h)"
  shows "free_slots (connect_failed p) = free_slots p + 1" "free_slots (return_slot s h conn p) = free_slots p + 1"
  using assms by (auto simp: pool_ok_def free_slots_def connect_failed_def return_slot_def sz_dec_pos Let_def)

lemma acquired_awake [simp]:
  "(case acquired got of Asleep t \<Rightarrow> x t | Woken t \<Rightarrow> y | Connecting \<Rightarrow> y | Holding s h \<Rightarrow> y) = y"
  "(case acquired got of Asleep t \<Rightarrow> y | Woken t \<Rightarrow> x t | Connecting \<Rightarrow> y | Holding s h \<Rightarrow> y) = y"
  by (simp_all add: acquired_def split: option.split)

lemma notify_keeps_wakeup:
  assumes "notify_one A A'" "sleeping A \<noteq> {#} \<Longrightarrow> free_slots p \<le> size (woken A)" "free_slots p' = free_slots p + 1"
  shows "no_lost_wakeup (p', A')"
  using assms notify_one_sets [OF assms(1)] by (cases "sleeping A = {#}") (auto simp: no_lost_wakeup_def)

lemma no_lost_wakeup_step:
  assumes "pool_step s s'" "pool_ok s" "no_lost_wakeup s"
  shows "no_lost_wakeup s'"
  using assms(1)
proof (cases rule: pool_step.cases)
  case (borrow_now p got p' A)
  then show ?thesis using assms(2,3) free_acquire [of p got p' A] by (auto simp: no_lost_wakeup_def)
next
  case (woken_acquire p got p' t A)
  have "pool_ok (p, A)" using assms(2) woken_acquire by (simp add: pool_ok_def)
  then show ?thesis using assms(3) woken_acquire free_acquire [of p got p' A] by (auto simp: no_lost_wakeup_def)
next
  case (connect_error A A' p)
  have "sleeping A \<noteq> {#} \<Longrightarrow> free_slots p \<le> size (woken A)" using assms(3) connect_error by (simp add: no_lost_wakeup_def)
  moreover have "free_slots (connect_failed p) = free_slots p + 1"
    using assms(2) connect_error by (intro free_returned(1) [of p Connecting A]) auto
  ultimately show ?thesis unfolding connect_error using connect_error(3) by (intro notify_keeps_wakeup) auto
next
  case (give_back A A' p s h c)
  have "sleeping A \<noteq> {#} \<Longrightarrow> free_slots p \<le> size (woken A)" using assms(3) give_back by (simp add: no_lost_wakeup_def)
  moreover have "free_slots (return_slot s h c p) = free_slots p + 1"
    using assms(2) give_back by (intro free_returned(2) [of p "Holding s h" A]) auto
  ultimately show ?thesis unfolding give_back using give_back(3) by (intro notify_keeps_wakeup) auto
qed (use assms(3) in \<open>auto simp: no_lost_wakeup_def free_not_ready\<close>)

lemma pool_reachable_ok:
  assumes "pool_reachable max_conns s" "max_conns < 2 ^ 64"
  shows "pool_ok s \<and> no_lost_wakeup s \<and> max_connections (fst s) = max_conns"
  using assms(1)
proof induction
  case (pool_start p)
  with assms(2) show ?case
    by (auto simp: new_pool_def pool_ok_def no_lost_wakeup_def split: if_splits)
next
  case (pool_next s s')
  have "max_connections (fst s') = max_connections (fst s)"
    using pool_next(2) by (cases rule: pool_step.cases)
      (auto simp: acquire_locked_def connect_failed_def return_slot_def Let_def split: if_splits)
  with pool_next pool_ok_step no_lost_wakeup_step show ?case by metis
qed

text \<open>One connection at most: a call that connects, with two more asleep behind it, and what is left when
  its connection fails.\<close>

lemma sample_pool_reachable:
  "pool_reachable 1 (\<lparr>max_connections = 1, available = [], total_count = 1\<rparr>, {#Asleep False, Asleep True, Connecting#})"
  "pool_reachable 1 (\<lparr>max_connections = 1, available = [], total_count = 0\<rparr>, {#Woken False, Asleep True#})"
proof -
  let ?p = "\<lambda>n. \<lparr>max_connections = 1, available = [], total_count = n\<rparr>"
  have "pool_reachable 1 (?p 0, {#})" by (rule pool_start) (simp add: new_pool_def)
  then have "pool_reachable 1 (?p 1, {#Connecting#})"
    by (rule pool_next) (use borrow_now [of "?p 0" None "?p 1" "{#}"] in
        \<open>simp add: slot_ready_def acquire_locked_def acquired_def sz_add_def\<close>)
  moreover have busy: "\<not> slot_ready (?p 1)" by (simp add: slot_ready_def)
  ultimately have "pool_reachable 1 (?p 1, {#Asleep True, Connecting#})" by (blast intro: pool_next borrow_wait)
  then show r: "pool_reachable 1 (?p 1, {#Asleep False, Asleep True, Connecting#})"
    using busy by (blast intro: pool_next borrow_wait)
  have "pool_step (?p 1, add_mset Connecting {#Asleep False, Asleep True#}) (connect_failed (?p 1), {#Woken False, Asleep True#})"
    by (intro connect_error notify_sleeper)
  then have "pool_step (?p 1, {#Asleep False, Asleep True, Connecting#}) (?p 0, {#Woken False, Asleep True#})"
    by (simp add: connect_failed_def sz_dec_def add_mset_commute)
  with r show "pool_reachable 1 (?p 0, {#Woken False, Asleep True#})" by (rule pool_next)
qed

text \<open>C15. In every state the threads can reach, the count of connections is exact: idle ones, borrowed ones and
  those being set up, never more than the configured maximum; no connection is lent twice or lent while
  idle; and the idle list never outgrows the capacity reserved for it, so that returning a client does
  not allocate.\<close>

theorem pool_account:
  assumes "pool_reachable max_conns (p, A)" "max_conns < 2 ^ 64"
  shows "total_count p = available_count p + size (in_use A) \<and> total_count p \<le> max_conns \<and>
    (\<forall>s. count (mset (available p) + held A) s \<le> 1) \<and> available_count p \<le> max_conns"
  using pool_reachable_ok [OF assms] by (auto simp: pool_ok_def unshared_def available_count_def)

theorem pool_account_witness:
  "total_count \<lparr>max_connections = 1, available = [], total_count = 1\<rparr> =
     available_count \<lparr>max_connections = 1, available = [], total_count = 1\<rparr> +
     size (in_use {#Asleep False, Asleep True, Connecting#})"
  using pool_account [OF sample_pool_reachable(1)] by simp

text \<open>C14. No wake-up is lost: whenever a call sleeps although a connection is free or may be opened, another
  call has been woken and its next step takes a connection.\<close>

theorem pool_no_lost_wakeup:
  assumes "pool_reachable max_conns (p, A)" "max_conns < 2 ^ 64" "slot_ready p" "Asleep t \<in># A"
  shows "\<exists>t' B got p'. A = add_mset (Woken t') B \<and> acquire_locked p = (got, p') \<and>
    pool_step (p, A) (p', add_mset (acquired got) B)"
proof -
  have "sleeping A \<noteq> {#}" using assms(4) by (force simp: sleeping_def)
  moreover have "0 < free_slots p" using assms(3) by (auto simp: slot_ready_def free_slots_def)
  ultimately have "woken A \<noteq> {#}" using pool_reachable_ok [OF assms(1,2)] by (auto simp: no_lost_wakeup_def)
  then obtain c where "c \<in># woken A" by (meson multiset_nonemptyE)
  then obtain t' where "Woken t' \<in># A" by (cases c) (auto simp: woken_def)
  then obtain B where B: "A = add_mset (Woken t') B" by (meson multi_member_split)
  obtain got p' where a: "acquire_locked p = (got, p')" by (cases "acquire_locked p")
  with assms(3) have "pool_step (p, A) (p', add_mset (acquired got) B)" unfolding B by (rule woken_acquire)
  with B a show ?thesis by blast
qed

theorem pool_no_lost_wakeup_witness:
  "\<exists>t' B got p'. {#Woken False, Asleep True#} = add_mset (Woken t') B \<and>
     acquire_locked \<lparr>max_connections = 1, available = [], total_count = 0\<rparr> = (got, p') \<and>
     pool_step (\<lparr>max_connections = 1, available = [], total_count = 0\<rparr>, {#Woken False, Asleep True#})
       (p', add_mset (acquired got) B)"
  by (rule pool_no_lost_wakeup [OF sample_pool_reachable(2), of True]) (simp_all add: slot_ready_def)

definition option_list :: "'a option \<Rightarrow> 'a list" where
  "option_list x = (case x of None \<Rightarrow> [] | Some y \<Rightarrow> [y])"

text \<open>Moving borrowed clients around neither loses nor duplicates a slot: what the two objects of a move
  own before it is what they own or have given back after it.\<close>

lemma borrowed_moves_linear:
  "(case move_assign this other of (returned, this', other') \<Rightarrow>
      mset (map fst (option_list (give_back this) @ option_list (give_back other))) =
      mset (map fst (option_list returned @ option_list (destroy_BorrowedClient this') @
        option_list (destroy_BorrowedClient other')))) \<and>
   (case move_construct other of (new, other') \<Rightarrow>
      destroy_BorrowedClient new = give_back other \<and> destroy_BorrowedClient other' = None)"
  by (auto simp: move_assign_def move_construct_def destroy_BorrowedClient_def give_back_def option_list_def)

end
