(* ===== verification/Kmip_IO.thy ===== *)
theory Kmip_IO
  imports Kmip_Formatter
begin

text \<open>
  \<open>src/kmipclient/src/IOUtils.cpp\<close>: sending a request, receiving a framed response, best-effort logging
  and the closing of the connection after an I/O error, over the interface of \<open>NetClient.hpp\<close>.

  The abstract class \<open>NetClient\<close> is the record \<open>net_client\<close> of its virtual functions over a state \<open>'n\<close> of
  the transport.  \<open>recv\<close> gets the size of the span and returns the count together with the bytes it
  wrote to the front of the span.  An operation is a state transformer that returns its result with the
  state reached, so that the transport is known on error paths too.

  \<open>peer_stream\<close> states what a working connection does, partial reads and writes included: the peer's
  answer is a function of the bytes it was sent.  Under it an exchange returns, and returns exactly
  the framed answer.  Without it the bounds and the closing of the connection still hold.
\<close>

section \<open>Actions\<close>

type_synonym ('s, 'a) action = "'s \<Rightarrow> 'a res \<times> 's"

definition bind_act :: "('s, 'a) action \<Rightarrow> ('a \<Rightarrow> ('s, 'b) action) \<Rightarrow> ('s, 'b) action" where
  "bind_act m f s = (case m s of (Inl err, s') \<Rightarrow> (Inl err, s') | (Inr x, s') \<Rightarrow> f x s')"

definition lift_res :: "'a res \<Rightarrow> ('s, 'a) action" where
  "lift_res r s = (r, s)"

section \<open>The transport\<close>

record 'n net_client =
  nc_send :: "byte list \<Rightarrow> ('n, int) action"
  nc_recv :: "nat \<Rightarrow> ('n, int \<times> byte list) action"
  nc_close :: "'n \<Rightarrow> 'n"
  nc_is_connected :: "'n \<Rightarrow> bool"

datatype LogLevel = Debug | Info | Warning | Error

record LogRecord =
  log_level :: LogLevel
  log_component :: string
  log_event :: string
  log_message :: string

text \<open>The members of \<open>IOUtils\<close>: the transport, and the logger when there is one, by the levels it wants.\<close>

record 'n ioutils =
  io_net_client :: "'n net_client"
  io_logger :: "(LogLevel \<Rightarrow> bool) option"

text \<open>The state: the transport and the records handed to the logger.\<close>

record 'n io_state =
  io_net :: 'n
  io_log :: "LogRecord list"

definition on_net :: "('n, 'a) action \<Rightarrow> ('n io_state, 'a) action" where
  "on_net m s = (case m (io_net s) of (r, n) \<Rightarrow> (r, s\<lparr>io_net := n\<rparr>))"

section \<open>Operations\<close>

definition KMIP_MSG_LENGTH_BYTES :: nat where
  "KMIP_MSG_LENGTH_BYTES = 8"

definition read_int32_be :: "byte list \<Rightarrow> i32" where
  "read_int32_be bytes =
     push_bit 24 (ucast (bytes ! 0)) OR push_bit 16 (ucast (bytes ! 1)) OR push_bit 8 (ucast (bytes ! 2)) OR
     ucast (bytes ! 3)"

text \<open>Everything the logger or the formatter throws is swallowed; an abort is not an exception.\<close>

definition log_debug :: "platform \<Rightarrow> 'n ioutils \<Rightarrow> string \<Rightarrow> byte list \<Rightarrow> ('n io_state, unit) action" where
  "log_debug pl io event ttlv s =
     (case io_logger io of
        None \<Rightarrow> (Inr (), s)
      | Some shouldLog \<Rightarrow>
        if \<not> shouldLog Debug then (Inr (), s)
        else case format_ttlv pl ttlv of
            Inr message \<Rightarrow>
              (Inr (), s\<lparr>io_log := io_log s @ [\<lparr>log_level = Debug, log_component = ''kmip.protocol'',
                 log_event = event, log_message = message\<rparr>]\<rparr>)
          | Inl err \<Rightarrow> if is_exception err then (Inr (), s) else (Inl err, s))"

text \<open>\<open>static_cast<int>\<close> of a size.\<close>

definition int_of_size :: "nat \<Rightarrow> int" where
  "int_of_size n = sint (word_of_nat n :: i32)"

text \<open>The addition of two numbers of type \<open>int\<close> that are not negative; a sum outside the type is undefined.\<close>

definition int_plus :: "int \<Rightarrow> int \<Rightarrow> int res" where
  "int_plus a b = (if a + b \<le> 2147483647 then Inr (a + b) else Inl Int_overflow)"

text \<open>The loop of \<open>send\<close>: \<open>sent\<close> is positive in every further round, so the loop ends.  Nothing keeps a transport
  from reporting more bytes than it was given.\<close>

function send_loop :: "'n net_client \<Rightarrow> byte list \<Rightarrow> int \<Rightarrow> int \<Rightarrow> ('n, unit) action" where
  "send_loop nc request_bytes dlen total_sent s =
     (if total_sent < dlen then
        (case nc_send nc (drop (nat total_sent) request_bytes) s of
           (Inl err, s') \<Rightarrow> (Inl err, s')
         | (Inr sent, s') \<Rightarrow>
           if sent \<le> 0 then
             (Inl (kmip_io_exception_code KMIP_IO_FAILURE
                (''Can not send request. Bytes total: '' @ int_to_string dlen @
                 '', bytes sent: '' @ int_to_string total_sent)), s')
           else case int_plus total_sent sent of
               Inl err \<Rightarrow> (Inl err, s')
             | Inr total_sent \<Rightarrow> send_loop nc request_bytes dlen total_sent s')
      else (Inr (), s))"
  by pat_completeness auto
termination
  by (relation "measure (\<lambda>(_, _, dlen, total_sent, _). nat (dlen - total_sent))")
     (auto simp: int_plus_def split: if_splits)

declare send_loop.simps [simp del]

definition io_send :: "'n net_client \<Rightarrow> byte list \<Rightarrow> ('n, unit) action" where
  "io_send nc request_bytes s =
     (let dlen = int_of_size (length request_bytes) in
      if dlen \<le> 0 then
        (Inl (kmip_io_exception_code KMIP_IO_FAILURE ''Can not send empty KMIP request.''), s)
      else send_loop nc request_bytes dlen 0 s)"

text \<open>What \<open>recv\<close> wrote replaces the front of the span at \<open>total_read\<close>; it cannot write behind it.\<close>

definition fill_span :: "nat \<Rightarrow> byte list \<Rightarrow> byte list \<Rightarrow> byte list" where
  "fill_span pos data buf =
     (let data = take (length buf - pos) data in take pos buf @ data @ drop (pos + length data) buf)"

function read_loop :: "'n net_client \<Rightarrow> int \<Rightarrow> int \<Rightarrow> byte list \<Rightarrow> ('n, byte list) action" where
  "read_loop nc n total_read buf s =
     (if total_read < n then
        (case nc_recv nc (length buf - nat total_read) s of
           (Inl err, s') \<Rightarrow> (Inl err, s')
         | (Inr (received, data), s') \<Rightarrow>
           if received \<le> 0 then
             (Inl (kmip_io_exception_code KMIP_IO_FAILURE
                (''Connection closed or error while reading. Expected '' @ int_to_string n @
                 '', got '' @ int_to_string total_read)), s')
           else case int_plus total_read received of
               Inl err \<Rightarrow> (Inl err, s')
             | Inr total_read' \<Rightarrow> read_loop nc n total_read' (fill_span (nat total_read) data buf) s')
      else (Inr buf, s))"
  by pat_completeness auto
termination
  by (relation "measure (\<lambda>(_, n, total_read, _, _). nat (n - total_read))")
     (auto simp: int_plus_def split: if_splits)

declare read_loop.simps [simp del]

definition read_exact :: "'n net_client \<Rightarrow> byte list \<Rightarrow> ('n, byte list) action" where
  "read_exact nc buf = read_loop nc (int_of_size (length buf)) 0 buf"

definition receive_message :: "'n net_client \<Rightarrow> nat \<Rightarrow> ('n, byte list) action" where
  "receive_message nc max_message_size =
     bind_act (read_exact nc (replicate KMIP_MSG_LENGTH_BYTES 0)) (\<lambda>msg_len_buf.
       let len = sint (read_int32_be (drop 4 msg_len_buf));
           effective_limit = min max_message_size KMIP_MAX_MESSAGE_HARD_LIMIT in
       if len < 0 \<or> nat len > effective_limit then
         lift_res (Inl (kmip_io_exception_code KMIP_EXCEED_MAX_MESSAGE_SIZE
           (''Message too long. Length: '' @ int_to_string len @ '', allowed: '' @ nat_to_string effective_limit)))
       else bind_act (read_exact nc (replicate (nat len) 0)) (\<lambda>body. lift_res (Inr (msg_len_buf @ body))))"

definition exchange_body :: "platform \<Rightarrow> 'n ioutils \<Rightarrow> byte list \<Rightarrow> nat \<Rightarrow> ('n io_state, byte list) action" where
  "exchange_body pl io request_bytes max_message_size =
     bind_act (log_debug pl io ''request'' request_bytes) (\<lambda>_.
     bind_act (on_net (io_send (io_net_client io) request_bytes)) (\<lambda>_.
     bind_act (on_net (receive_message (io_net_client io) max_message_size)) (\<lambda>response_bytes.
     bind_act (log_debug pl io ''response'' response_bytes) (\<lambda>_. lift_res (Inr response_bytes)))))"

definition do_exchange :: "platform \<Rightarrow> 'n ioutils \<Rightarrow> byte list \<Rightarrow> nat \<Rightarrow> ('n io_state, byte list) action" where
  "do_exchange pl io request_bytes max_message_size s =
     (case exchange_body pl io request_bytes max_message_size s of
        (Inl (KmipIOException code msg), s') \<Rightarrow>
          (Inl (KmipIOException code msg), s'\<lparr>io_net := nc_close (io_net_client io) (io_net s')\<rparr>)
      | r \<Rightarrow> r)"

section \<open>Actions\<close>

lemma bind_act_Inr_iff:
  "bind_act m f s = (Inr y, s') \<longleftrightarrow> (\<exists>x t. m s = (Inr x, t) \<and> f x t = (Inr y, s'))"
  by (auto simp: bind_act_def split: prod.splits sum.splits)

lemma bind_act_run [simp]: "m s = (Inr x, t) \<Longrightarrow> bind_act m f s = f x t"
  by (simp add: bind_act_def)

lemma bind_act_assoc: "bind_act (bind_act m f) g = bind_act m (\<lambda>x. bind_act (f x) g)"
  by (rule ext) (auto simp: bind_act_def split: prod.splits sum.splits)

lemma lift_res_simps [simp]: "lift_res r s = (r, s)" "bind_act (lift_res (Inr x)) f = f x"
  by (auto simp: lift_res_def bind_act_def fun_eq_iff)

lemma on_net_run: "m (io_net s) = (r, n) \<Longrightarrow> on_net m s = (r, s\<lparr>io_net := n\<rparr>)"
  by (simp add: on_net_def)

lemma bind_act_Inl_iff:
  "bind_act m f s = (Inl e, s') \<longleftrightarrow> m s = (Inl e, s') \<or> (\<exists>x t. m s = (Inr x, t) \<and> f x t = (Inl e, s'))"
  by (auto simp: bind_act_def split: prod.splits sum.splits)

lemma on_net_Inl_iff:
  "on_net m s = (Inl e, t) \<longleftrightarrow> (\<exists>n. m (io_net s) = (Inl e, n) \<and> t = s\<lparr>io_net := n\<rparr>)"
  by (auto simp: on_net_def split: prod.splits)

lemma on_net_Inr_iff:
  "on_net m s = (Inr x, t) \<longleftrightarrow> (\<exists>n. m (io_net s) = (Inr x, n) \<and> t = s\<lparr>io_net := n\<rparr>)"
  by (auto simp: on_net_def split: prod.splits)

section \<open>A working connection\<close>

text \<open>
  \<open>reply sent\<close> are all bytes the peer has answered once it was sent \<open>sent\<close>; \<open>out\<close> and \<open>got\<close> read off the
  transport what was sent and how much of the answer was received.  Both directions may move fewer
  bytes than asked for, but at least one.  This is so in the states \<open>up\<close> of the transport, which the calls
  keep: a connection that was established and not closed.  Spans are shorter than \<open>2 ^ 31\<close> bytes, since the
  transports count in \<open>int\<close>.
\<close>

definition peer_stream ::
  "'n net_client \<Rightarrow> ('n \<Rightarrow> bool) \<Rightarrow> (byte list \<Rightarrow> byte list) \<Rightarrow> ('n \<Rightarrow> byte list) \<Rightarrow> ('n \<Rightarrow> nat) \<Rightarrow> bool" where
  "peer_stream nc up reply out got \<longleftrightarrow>
     (\<forall>s data. up s \<and> data \<noteq> [] \<and> length data < 2 ^ 31 \<longrightarrow> (\<exists>k s'. nc_send nc data s = (Inr (int k), s') \<and> up s' \<and> 0 < k \<and> k \<le> length data \<and>
        out s' = out s @ take k data \<and> got s' = got s)) \<and>
     (\<forall>s n. up s \<and> 0 < n \<and> n < 2 ^ 31 \<and> got s < length (reply (out s)) \<longrightarrow>
        (\<exists>k s'. nc_recv nc n s = (Inr (int k, take k (drop (got s) (reply (out s)))), s') \<and> up s' \<and> 0 < k \<and> k \<le> n \<and>
           got s + k \<le> length (reply (out s)) \<and> out s' = out s \<and> got s' = got s + k))"

lemma peer_send:
  assumes "peer_stream nc up reply out got" "up s" "data \<noteq> []" "length data < 2 ^ 31"
  obtains k s' where "nc_send nc data s = (Inr (int k), s')" "up s'" "0 < k" "k \<le> length data"
    "out s' = out s @ take k data" "got s' = got s"
  using assms unfolding peer_stream_def by blast

lemma peer_recv:
  assumes "peer_stream nc up reply out got" "up s" "0 < n" "n < 2 ^ 31" "got s < length (reply (out s))"
  obtains k s' where "nc_recv nc n s = (Inr (int k, take k (drop (got s) (reply (out s)))), s')" "up s'" "0 < k" "k \<le> n"
    "got s + k \<le> length (reply (out s))" "out s' = out s" "got s' = got s + k"
  using assms unfolding peer_stream_def by blast

text \<open>A message whose header announces its length.\<close>

definition framed :: "nat \<Rightarrow> byte list \<Rightarrow> bool" where
  "framed limit m \<longleftrightarrow> 8 \<le> length m \<and> sint (read_int32_be (drop 4 m)) = int (length m - 8) \<and> length m - 8 \<le> limit"

lemma framed_length: "framed (min limit KMIP_MAX_MESSAGE_HARD_LIMIT) m \<Longrightarrow> length m < 2 ^ 63"
  by (auto simp: framed_def KMIP_MAX_MESSAGE_HARD_LIMIT_def)

lemma int_of_size_small: "n < 2 ^ 31 \<Longrightarrow> int_of_size n = int n"
  by (simp add: int_of_size_def sint_word_of_nat32)

lemma int_plus_small: "a + b \<le> n \<Longrightarrow> n < 2 ^ 31 \<Longrightarrow> int_plus (int a) (int b) = Inr (int (a + b))"
  by (simp add: int_plus_def)

lemma send_loop_ok:
  assumes "peer_stream nc up reply out got" "j \<le> length req" "up s" "length req < 2 ^ 31"
  shows "\<exists>s'. send_loop nc req (int (length req)) (int j) s = (Inr (), s') \<and> up s' \<and> out s' = out s @ drop j req \<and> got s' = got s"
  using assms(2,3)
proof (induction "length req - j" arbitrary: j s rule: less_induct)
  case less
  show ?case
  proof (cases "j < length req")
    case True
    then have "drop j req \<noteq> []" "length (drop j req) < 2 ^ 31" using assms(4) by simp_all
    with assms(1) less.prems(2) obtain k s1 where k: "nc_send nc (drop j req) s = (Inr (int k), s1)" "up s1" "0 < k"
        "k \<le> length (drop j req)" "out s1 = out s @ take k (drop j req)" "got s1 = got s"
      by (rule peer_send)
    then have "length req - (j + k) < length req - j" "j + k \<le> length req" using True by simp_all
    with less.hyps [of "j + k" s1] k(2) obtain s' where "send_loop nc req (int (length req)) (int (j + k)) s1 = (Inr (), s')"
        "up s'" "out s' = out s1 @ drop (j + k) req" "got s' = got s1" by blast
    moreover have "take k (drop j req) @ drop (j + k) req = drop j req"
      by (metis append_take_drop_id drop_drop add.commute)
    moreover have "int_plus (int j) (int k) = Inr (int (j + k))"
      using k(4) True assms(4) by (intro int_plus_small [of _ _ "length req"]) simp_all
    ultimately show ?thesis
      using k True by (subst send_loop.simps) simp
  qed (use less.prems in \<open>simp add: send_loop.simps\<close>)
qed

lemma fill_span_append:
  assumes "j + length data \<le> length buf"
  shows "length (fill_span j data buf) = length buf" "take (j + length data) (fill_span j data buf) = take j buf @ data"
  using assms by (simp_all add: fill_span_def Let_def)

lemma read_loop_ok:
  assumes "peer_stream nc up reply out got" "j \<le> length buf" "got s + (length buf - j) \<le> length (reply (out s))"
    and "up s" "length buf < 2 ^ 31"
  shows "\<exists>s'. read_loop nc (int (length buf)) (int j) buf s =
      (Inr (take j buf @ take (length buf - j) (drop (got s) (reply (out s)))), s') \<and>
    up s' \<and> out s' = out s \<and> got s' = got s + (length buf - j)"
  using assms(2-5)
proof (induction "length buf - j" arbitrary: j buf s rule: less_induct)
  case less
  show ?case
  proof (cases "j < length buf")
    case True
    let ?d = "drop (got s) (reply (out s))"
    from True less.prems have "0 < length buf - j" "length buf - j < 2 ^ 31" "got s < length (reply (out s))" by simp_all
    with assms(1) less.prems(3) obtain k s1 where k: "nc_recv nc (length buf - j) s = (Inr (int k, take k ?d), s1)" "up s1" "0 < k"
        "k \<le> length buf - j" "got s + k \<le> length (reply (out s))" "out s1 = out s" "got s1 = got s + k"
      by (rule peer_recv)
    have len: "length (take k ?d) = k" using k(5) by simp
    let ?b = "fill_span j (take k ?d) buf"
    have b: "length ?b = length buf" "take (j + k) ?b = take j buf @ take k ?d"
      using fill_span_append [of j "take k ?d" buf] len k(4) True by simp_all
    have "length ?b - (j + k) < length buf - j" "j + k \<le> length ?b" "length ?b < 2 ^ 31"
      "got s1 + (length ?b - (j + k)) \<le> length (reply (out s1))"
      using less.prems k b True by simp_all
    with less.hyps [of ?b "j + k" s1] k(2) obtain s' where s': "read_loop nc (int (length ?b)) (int (j + k)) ?b s1 =
        (Inr (take (j + k) ?b @ take (length ?b - (j + k)) (drop (got s1) (reply (out s1)))), s')"
        "up s'" "out s' = out s1" "got s' = got s1 + (length ?b - (j + k))"
      by blast
    have "k + (length buf - (j + k)) = length buf - j" using k(4) by simp
    then have "take k ?d @ take (length buf - (j + k)) (drop (got s + k) (reply (out s))) = take (length buf - j) ?d"
      using take_add [of k "length buf - (j + k)" ?d] by (simp add: add.commute)
    moreover have "int_plus (int j) (int k) = Inr (int (j + k))"
      using k(4) True less.prems(4) by (intro int_plus_small [of _ _ "length buf"]) simp_all
    ultimately show ?thesis
      using s' k b True by (subst read_loop.simps) (simp add: b)
  qed (use less.prems in \<open>simp add: read_loop.simps\<close>)
qed


lemma io_send_ok:
  assumes "peer_stream nc up reply out got" "up s" "req \<noteq> []" "length req < 2 ^ 31"
  obtains s' where "io_send nc req s = (Inr (), s')" "up s'" "out s' = out s @ req" "got s' = got s"
  using send_loop_ok [OF assms(1), of 0 req s] assms(2-4)
  by (auto simp: io_send_def int_of_size_small Let_def)

lemma read_exact_ok:
  assumes "peer_stream nc up reply out got" "up s" "length buf < 2 ^ 31" "got s + length buf \<le> length (reply (out s))"
  obtains s' where "read_exact nc buf s = (Inr (take (length buf) (drop (got s) (reply (out s)))), s')"
    "up s'" "out s' = out s" "got s' = got s + length buf"
  using read_loop_ok [OF assms(1), of 0 buf s] assms(2-4)
  by (auto simp: read_exact_def int_of_size_small)

lemma receive_message_ok:
  assumes "peer_stream nc up reply out got" "framed (min max_message_size KMIP_MAX_MESSAGE_HARD_LIMIT) m"
    and "drop (got s) (reply (out s)) = m @ rest" "up s"
  obtains s' where "receive_message nc max_message_size s = (Inr m, s')" "up s'" "out s' = out s" "got s' = got s + length m"
proof -
  have m: "8 \<le> length m" "sint (read_int32_be (drop 4 m)) = int (length m - 8)"
    "length m - 8 \<le> max_message_size" "length m - 8 \<le> KMIP_MAX_MESSAGE_HARD_LIMIT"
    using assms(2) by (simp_all add: framed_def)
  then have "nat (sint (read_int32_be (drop 4 m))) = length m - 8" "0 \<le> sint (read_int32_be (drop 4 m))" by simp_all
  note n = this m(3,4)
  have len: "length (reply (out s)) = got s + length m + length rest"
    using arg_cong [OF assms(3), of length] m(1) by simp
  obtain s1 where 1: "read_exact nc (replicate KMIP_MSG_LENGTH_BYTES 0) s = (Inr (take 8 m), s1)"
      "up s1" "out s1 = out s" "got s1 = got s + 8"
    using m(1) len assms(3,4)
    by (rule_tac read_exact_ok [OF assms(1), where buf = "replicate KMIP_MSG_LENGTH_BYTES 0" and s = s])
       (simp_all add: KMIP_MSG_LENGTH_BYTES_def)
  have rest: "drop (got s1) (reply (out s1)) = drop 8 m @ rest"
    using arg_cong [OF assms(3), of "drop 8"] m(1) 1 by (simp add: add.commute)
  obtain s2 where 2: "read_exact nc (replicate (length m - 8) 0) s1 = (Inr (drop 8 m), s2)"
      "up s2" "out s2 = out s1" "got s2 = got s1 + (length m - 8)"
    using m len 1 rest
    by (rule_tac read_exact_ok [OF assms(1), where buf = "replicate (length m - 8) 0" and s = s1])
       (simp_all add: KMIP_MAX_MESSAGE_HARD_LIMIT_def)
  have "read_int32_be (drop 4 (take 8 m)) = read_int32_be (drop 4 m)"
    using m(1) by (simp add: read_int32_be_def)
  then have "receive_message nc max_message_size s = (Inr m, s2)"
    using 1(1) 2(1) n by (simp add: receive_message_def Let_def)
  with 1 2 m(1) show ?thesis by (intro that) simp_all
qed

lemma log_debug_net:
  assumes "\<not> hardened pl" "length ttlv < 2 ^ 63"
  obtains l where "log_debug pl io event ttlv s = (Inr (), s\<lparr>io_log := io_log s @ l\<rparr>)"
proof -
  obtain message where "format_ttlv pl ttlv = Inr message" using format_ttlv_total [OF assms] by blast
  then have "\<exists>l. log_debug pl io event ttlv s = (Inr (), s\<lparr>io_log := io_log s @ l\<rparr>)"
    by (auto simp: log_debug_def split: option.splits intro: exI [of _ "[]"])
  then show ?thesis using that by blast
qed

lemma exchange_ok:
  assumes "peer_stream (io_net_client io) up reply out got" "up (io_net s)" "\<not> hardened pl" "request \<noteq> []" "length request < 2 ^ 31"
    and "drop (got (io_net s)) (reply (out (io_net s) @ request)) = response @ rest"
    and "framed (min max_message_size KMIP_MAX_MESSAGE_HARD_LIMIT) response"
  shows "\<exists>s'. do_exchange pl io request max_message_size s = (Inr response, s') \<and> up (io_net s') \<and>
    out (io_net s') = out (io_net s) @ request \<and> got (io_net s') = got (io_net s) + length response"
proof -
  have "length request < 2 ^ 63" using assms(5) by simp
  then obtain l1 where 1: "log_debug pl io ''request'' request s = (Inr (), s\<lparr>io_log := io_log s @ l1\<rparr>)"
    by (rule log_debug_net [OF assms(3)])
  obtain n2 where 2: "io_send (io_net_client io) request (io_net s) = (Inr (), n2)" "up n2"
      "out n2 = out (io_net s) @ request" "got n2 = got (io_net s)"
    by (rule io_send_ok [OF assms(1,2,4,5)])
  obtain n3 where 3: "receive_message (io_net_client io) max_message_size n2 = (Inr response, n3)" "up n3"
      "out n3 = out n2" "got n3 = got n2 + length response"
    using assms(6) 2 by (rule_tac receive_message_ok [OF assms(1,7), of n2 rest]) simp_all
  obtain l4 where 4: "log_debug pl io ''response'' response (s\<lparr>io_log := io_log s @ l1, io_net := n3\<rparr>) =
      (Inr (), s\<lparr>io_net := n3, io_log := (io_log s @ l1) @ l4\<rparr>)"
    by (rule log_debug_net [OF assms(3) framed_length [OF assms(7)], of io "''response''" "s\<lparr>io_log := io_log s @ l1, io_net := n3\<rparr>"]) simp
  have "exchange_body pl io request max_message_size s =
      (Inr response, s\<lparr>io_net := n3, io_log := (io_log s @ l1) @ l4\<rparr>)"
    using 1 2(1) 3(1) 4 by (simp add: exchange_body_def on_net_def)
  with 2 3 show ?thesis by (simp add: do_exchange_def)
qed


text \<open>A transport for concrete evaluations: it moves at most three bytes at a time to and from a peer \<open>reply\<close>.\<close>

definition chunk_client :: "(byte list \<Rightarrow> byte list) \<Rightarrow> (byte list \<times> nat) net_client" where
  "chunk_client reply =
     \<lparr>nc_send = (\<lambda>data (sent, n). (Inr (int (min 3 (length data))), (sent @ take 3 data, n))),
      nc_recv = (\<lambda>k (sent, n). let data = take (min 3 k) (drop n (reply sent)) in
        (Inr (int (length data), data), (sent, n + length data))),
      nc_close = (\<lambda>(sent, n). ([], length (reply []))), nc_is_connected = (\<lambda>_. True)\<rparr>"

lemma chunk_client_stream: "peer_stream (chunk_client reply) (\<lambda>_. True) reply fst snd"
proof -
  have "\<exists>k s'. nc_send (chunk_client reply) data s = (Inr (int k), s') \<and> 0 < k \<and> k \<le> length data \<and>
      fst s' = fst s @ take k data \<and> snd s' = snd s" if "data \<noteq> []" for data s
    using that by (intro exI [of _ "min 3 (length data)"]) (cases s, simp add: chunk_client_def min_def)
  moreover have "\<exists>k s'. nc_recv (chunk_client reply) n s = (Inr (int k, take k (drop (snd s) (reply (fst s)))), s') \<and>
      0 < k \<and> k \<le> n \<and> snd s + k \<le> length (reply (fst s)) \<and> fst s' = fst s \<and> snd s' = snd s + k"
    if "0 < n" "snd s < length (reply (fst s))" for n s
    using that by (intro exI [of _ "min (length (reply (fst s)) - snd s) (min 3 n)"])
      (cases s, auto simp: chunk_client_def Let_def min_def)
  ultimately show ?thesis by (simp add: peer_stream_def)
qed

definition sample_io :: "byte list \<Rightarrow> (byte list \<times> nat) ioutils" where
  "sample_io answer = \<lparr>io_net_client = chunk_client (\<lambda>_. answer), io_logger = Some (\<lambda>level. level = Debug)\<rparr>"

definition fresh_io :: "(byte list \<times> nat) io_state" where
  "fresh_io = \<lparr>io_net = ([], 0), io_log = []\<rparr>"

lemma sample_exchange:
  assumes "request \<noteq> []" "length request < 2 ^ 31" "framed (min max_message_size KMIP_MAX_MESSAGE_HARD_LIMIT) answer"
    and "\<not> hardened pl"
  obtains s' where "do_exchange pl (sample_io answer) request max_message_size fresh_io = (Inr answer, s')"
  using exchange_ok [of "sample_io answer" "\<lambda>_. True" "\<lambda>_. answer" fst snd fresh_io pl request answer "[]" max_message_size]
    chunk_client_stream [of "\<lambda>_. answer"] assms by (auto simp: sample_io_def fresh_io_def)

text \<open>C18. Liveness of an exchange: over a working connection, whatever its chunking, sending a request and
  receiving the answer returns; the peer is sent exactly the request, the result is exactly the framed
  message the peer answers with, and the bytes behind it are left for the next exchange.\<close>

theorem exchange_returns:
  assumes "peer_stream (io_net_client io) up reply out got" "up (io_net s)" "\<not> hardened pl" "request \<noteq> []" "length request < 2 ^ 31"
    and "drop (got (io_net s)) (reply (out (io_net s) @ request)) = response @ rest"
    and "framed (min max_message_size KMIP_MAX_MESSAGE_HARD_LIMIT) response"
  shows "\<exists>s'. do_exchange pl io request max_message_size s = (Inr response, s') \<and> up (io_net s') \<and>
    out (io_net s') = out (io_net s) @ request \<and> got (io_net s') = got (io_net s) + length response"
  using assms by (rule exchange_ok)

theorem exchange_returns_witness:
  "\<exists>s'. do_exchange \<lparr>native_endian = Little_endian, hardened = False\<rparr> (sample_io [0x42, 0, 0x7B, 1, 0, 0, 0, 0])
     [1, 2, 3, 4, 5] 100 fresh_io = (Inr [0x42, 0, 0x7B, 1, 0, 0, 0, 0], s') \<and>
     fst (io_net s') = fst (io_net fresh_io) @ [1, 2, 3, 4, 5] \<and> snd (io_net s') = snd (io_net fresh_io) + length [0x42 :: byte, 0, 0x7B, 1, 0, 0, 0, 0]"
  using exchange_returns [of "sample_io [0x42, 0, 0x7B, 1, 0, 0, 0, 0]" "\<lambda>_. True" "\<lambda>_. [0x42, 0, 0x7B, 1, 0, 0, 0, 0]" fst snd fresh_io
      "\<lparr>native_endian = Little_endian, hardened = False\<rparr>" "[1, 2, 3, 4, 5]" "[0x42, 0, 0x7B, 1, 0, 0, 0, 0]" "[]" 100]
    chunk_client_stream [of "\<lambda>_. [0x42, 0, 0x7B, 1, 0, 0, 0, 0]"]
  by (simp add: sample_io_def fresh_io_def framed_def read_int32_be_def)

section \<open>Any transport\<close>

lemma length_fill_span: "pos \<le> length buf \<Longrightarrow> length (fill_span pos data buf) = length buf"
  by (simp add: fill_span_def Let_def)

lemma read_loop_length:
  "read_loop nc n total_read buf s = (Inr b, s') \<Longrightarrow> n \<le> int (length buf) \<Longrightarrow> length b = length buf"
proof (induction nc n total_read buf s rule: read_loop.induct)
  case (1 nc n total_read buf s)
  show ?case
  proof (cases "total_read < n")
    case True
    with 1(2) obtain received data t cnt where r: "nc_recv nc (length buf - nat total_read) s = (Inr (received, data), t)"
        "\<not> received \<le> 0" "int_plus total_read received = Inr cnt"
        "read_loop nc n cnt (fill_span (nat total_read) data buf) t = (Inr b, s')"
      by (subst (asm) read_loop.simps) (auto split: prod.splits sum.splits if_splits)
    have len: "length (fill_span (nat total_read) data buf) = length buf"
      using True 1(3) by (intro length_fill_span) simp
    from 1(1) [OF True r(1) [symmetric] refl refl r(2,3)] r(4) 1(3) len show ?thesis by simp
  qed (use 1(2) in \<open>simp add: read_loop.simps\<close>)
qed

lemma read_exact_length: "read_exact nc buf s = (Inr b, s') \<Longrightarrow> length buf < 2 ^ 31 \<Longrightarrow> length b = length buf"
  unfolding read_exact_def by (erule read_loop_length) (simp add: int_of_size_small)

lemma receive_message_framed:
  assumes "receive_message nc max_message_size s = (Inr m, s')"
  shows "framed (min max_message_size KMIP_MAX_MESSAGE_HARD_LIMIT) m"
proof -
  from assms obtain h t body where h: "read_exact nc (replicate KMIP_MSG_LENGTH_BYTES 0) s = (Inr h, t)"
      "0 \<le> sint (read_int32_be (drop 4 h))"
      "nat (sint (read_int32_be (drop 4 h))) \<le> min max_message_size KMIP_MAX_MESSAGE_HARD_LIMIT"
      "read_exact nc (replicate (nat (sint (read_int32_be (drop 4 h)))) 0) t = (Inr body, s')" "m = h @ body"
    by (auto simp: receive_message_def bind_act_Inr_iff Let_def not_less split: if_splits)
  have "length h = 8" using read_exact_length [OF h(1)] by (simp add: KMIP_MSG_LENGTH_BYTES_def)
  moreover have "length body = nat (sint (read_int32_be (drop 4 h)))"
    using read_exact_length [OF h(4)] h(3) by (simp add: KMIP_MAX_MESSAGE_HARD_LIMIT_def)
  moreover from \<open>length h = 8\<close> have "read_int32_be (drop 4 (h @ body)) = read_int32_be (drop 4 h)"
    by (simp add: read_int32_be_def nth_append)
  ultimately show ?thesis using h(2,3,5) by (simp add: framed_def)
qed

text \<open>A transport that reports more bytes than it was given room for (or has an overflow of its own).\<close>

definition miscounts :: "'n net_client \<Rightarrow> bool" where
  "miscounts nc \<longleftrightarrow>
     (\<exists>data s r s'. nc_send nc data s = (r, s') \<and> (case r of Inl err \<Rightarrow> err = Int_overflow | Inr sent \<Rightarrow> int (length data) < sent)) \<or>
     (\<exists>n s r s'. nc_recv nc n s = (r, s') \<and> (case r of Inl err \<Rightarrow> err = Int_overflow | Inr (received, data) \<Rightarrow> int n < received))"

lemma miscounts_send:
  "nc_send nc data s = (Inl Int_overflow, s') \<Longrightarrow> miscounts nc"
  "nc_send nc data s = (Inr sent, s') \<Longrightarrow> int (length data) < sent \<Longrightarrow> miscounts nc"
  unfolding miscounts_def by (rule disjI1, intro exI conjI, assumption, simp)+

lemma miscounts_recv:
  "nc_recv nc n s = (Inl Int_overflow, s') \<Longrightarrow> miscounts nc"
  "nc_recv nc n s = (Inr (received, data), s') \<Longrightarrow> int n < received \<Longrightarrow> miscounts nc"
  unfolding miscounts_def by (rule disjI2, intro exI conjI, assumption, simp)+

lemma kmip_io_not_overflow [simp]: "kmip_io_exception_code c m \<noteq> Int_overflow"
  by (simp add: kmip_io_exception_code_def)

text \<open>A counter overflows only over such a transport.\<close>

lemma send_loop_overflow:
  assumes "send_loop nc req (int (length req)) cnt s = (Inl Int_overflow, s')" "0 \<le> cnt" "length req < 2 ^ 31"
  shows "miscounts nc"
  using assms(1,2)
proof (induction "nat (int (length req) - cnt)" arbitrary: cnt s rule: less_induct)
  case less
  have lt: "cnt < int (length req)" using less.prems(1) by (subst (asm) send_loop.simps) (auto split: if_splits)
  obtain r t where t: "nc_send nc (drop (nat cnt) req) s = (r, t)" by fastforce
  show ?case
  proof (cases r)
    case (Inl err)
    then show ?thesis using less.prems(1) lt t by (subst (asm) send_loop.simps) (auto dest: miscounts_send(1))
  next
    case (Inr sent)
    show ?thesis
    proof (cases "0 < sent \<and> cnt + sent \<le> 2147483647")
      case True
      then have "send_loop nc req (int (length req)) (cnt + sent) t = (Inl Int_overflow, s')"
        using less.prems(1) lt t Inr by (subst (asm) send_loop.simps) (simp add: int_plus_def)
      with less.hyps [of "cnt + sent" t] True lt less.prems(2) show ?thesis by simp
    next
      case False
      then have "0 < sent" using less.prems(1) lt t Inr by (subst (asm) send_loop.simps) (auto split: if_splits)
      with False have "int (length (drop (nat cnt) req)) < sent" using lt less.prems(2) assms(3) by simp
      with t Inr show ?thesis by (blast intro: miscounts_send(2))
    qed
  qed
qed

lemma read_loop_overflow:
  assumes "read_loop nc (int (length buf)) cnt buf s = (Inl Int_overflow, s')" "0 \<le> cnt" "length buf < 2 ^ 31"
  shows "miscounts nc"
  using assms
proof (induction "nat (int (length buf) - cnt)" arbitrary: cnt buf s rule: less_induct)
  case less
  have lt: "cnt < int (length buf)" using less.prems(1) by (subst (asm) read_loop.simps) (auto split: if_splits)
  obtain r t where t: "nc_recv nc (length buf - nat cnt) s = (r, t)" by fastforce
  show ?case
  proof (cases r)
    case (Inl err)
    then show ?thesis using less.prems(1) lt t by (subst (asm) read_loop.simps) (auto dest: miscounts_recv(1))
  next
    case (Inr rd)
    obtain received data where rd: "rd = (received, data)" by (cases rd)
    show ?thesis
    proof (cases "0 < received \<and> cnt + received \<le> 2147483647")
      case True
      have len: "length (fill_span (nat cnt) data buf) = length buf" using lt by (intro length_fill_span) simp
      have "read_loop nc (int (length buf)) (cnt + received) (fill_span (nat cnt) data buf) t = (Inl Int_overflow, s')"
        using True less.prems(1) lt t Inr rd by (subst (asm) read_loop.simps) (simp add: int_plus_def)
      with less.hyps [of "fill_span (nat cnt) data buf" "cnt + received" t] True lt len less.prems(2,3) show ?thesis by simp
    next
      case False
      then have "0 < received" using less.prems(1) lt t Inr rd by (subst (asm) read_loop.simps) (auto split: if_splits)
      with False have "int (length buf - nat cnt) < received" using lt less.prems(2,3) by simp
      with t Inr rd show ?thesis by (blast intro: miscounts_recv(2))
    qed
  qed
qed

lemma read_exact_overflow: "read_exact nc buf s = (Inl Int_overflow, s') \<Longrightarrow> length buf < 2 ^ 31 \<Longrightarrow> miscounts nc"
  using read_loop_overflow [of nc buf 0 s s'] by (simp add: read_exact_def int_of_size_small)

lemma io_send_overflow: "io_send nc req s = (Inl Int_overflow, s') \<Longrightarrow> length req < 2 ^ 31 \<Longrightarrow> miscounts nc"
  by (auto simp: io_send_def int_of_size_small Let_def split: if_splits dest: send_loop_overflow)

lemma receive_message_overflow:
  assumes "receive_message nc max_message_size s = (Inl Int_overflow, s')"
  shows "miscounts nc"
proof -
  from assms consider "read_exact nc (replicate KMIP_MSG_LENGTH_BYTES 0) s = (Inl Int_overflow, s')"
    | n t where "read_exact nc (replicate n 0) t = (Inl Int_overflow, s')" "n \<le> KMIP_MAX_MESSAGE_HARD_LIMIT"
    by (auto simp: receive_message_def bind_act_def Let_def split: prod.splits sum.splits if_splits)
  then show ?thesis by cases (auto dest: read_exact_overflow simp: KMIP_MAX_MESSAGE_HARD_LIMIT_def KMIP_MSG_LENGTH_BYTES_def)
qed

lemma log_debug_no_overflow:
  assumes "length ttlv < 2 ^ 63"
  shows "log_debug pl io event ttlv s \<noteq> (Inl Int_overflow, s')"
  using format_ttlv_Inl [of pl ttlv Int_overflow] assms by (auto simp: log_debug_def split: option.splits sum.splits if_splits)

lemma exchange_body_Inl:
  assumes "exchange_body pl io request max_message_size s = (Inl err, s')"
  shows "(\<exists>t. log_debug pl io ''request'' request s = (Inl err, t)) \<or>
    (\<exists>t u. io_send (io_net_client io) request t = (Inl err, u)) \<or>
    (\<exists>t u. receive_message (io_net_client io) max_message_size t = (Inl err, u)) \<or>
    (\<exists>response t u v w. receive_message (io_net_client io) max_message_size t = (Inr response, u) \<and>
       log_debug pl io ''response'' response v = (Inl err, w))"
  using assms
  unfolding exchange_body_def bind_act_Inl_iff on_net_Inl_iff on_net_Inr_iff lift_res_simps prod.inject sum.distinct
  by blast

text \<open>C25. Whatever the transport does, an exchange returns a message of exactly the announced length within
  the limit of the request and the absolute limit of 16 MiB, or fails; after an I/O error the
  connection has been closed.  The 32-bit counters of the loops overflow only when a transport reports more
  bytes than it was given, or for a request of at least 2 GiB.\<close>

theorem exchange_confined:
  "case do_exchange pl io request max_message_size s of
     (Inr response, s') \<Rightarrow> framed (min max_message_size KMIP_MAX_MESSAGE_HARD_LIMIT) response
   | (Inl err, s') \<Rightarrow>
       (case err of KmipIOException code msg \<Rightarrow> \<exists>n. io_net s' = nc_close (io_net_client io) n
        | Int_overflow \<Rightarrow> miscounts (io_net_client io) \<or> 2 ^ 31 \<le> length request
        | _ \<Rightarrow> True)"
proof -
  have "framed (min max_message_size KMIP_MAX_MESSAGE_HARD_LIMIT) response"
    if "exchange_body pl io request max_message_size s = (Inr response, s')" for response s'
    using that receive_message_framed
    by (auto simp: exchange_body_def bind_act_Inr_iff on_net_Inr_iff)
  moreover have "miscounts (io_net_client io) \<or> 2 ^ 31 \<le> length request"
    if "exchange_body pl io request max_message_size s = (Inl Int_overflow, s')" for s'
  proof (cases "length request < 2 ^ 31")
    case True
    then have "length request < 2 ^ 63" by simp
    note nolog = log_debug_no_overflow [OF this] log_debug_no_overflow [OF framed_length [OF receive_message_framed]]
    from exchange_body_Inl [OF that] nolog(1) consider
        t u where "io_send (io_net_client io) request t = (Inl Int_overflow, u)"
      | t u where "receive_message (io_net_client io) max_message_size t = (Inl Int_overflow, u)"
      | response t u v w where "receive_message (io_net_client io) max_message_size t = (Inr response, u)"
          "log_debug pl io ''response'' response v = (Inl Int_overflow, w)"
      by blast
    then have "miscounts (io_net_client io)"
    proof cases
      case 1
      then show ?thesis using True by (rule io_send_overflow)
    next
      case 2
      then show ?thesis by (rule receive_message_overflow)
    next
      case 3
      then show ?thesis using nolog(2) by metis
    qed
    then show ?thesis ..
  qed simp
  ultimately show ?thesis
    by (auto simp: do_exchange_def split: prod.splits sum.splits failure.splits)
qed


section \<open>The log\<close>

lemma format_ttlv_encode:
  assumes "ttlv_wf e" "height e \<le> 65" "\<not> hardened pl"
  shows "format_ttlv pl (encode e) =
    (case format_element (Some e) of
       Inr s \<Rightarrow> Inr s
     | Inl err \<Rightarrow> if is_exception err then Inr (''Unable to format KMIP TTLV safely: '' @ failure_what err @
         ''. Raw payload omitted to avoid leaking sensitive data.'' @ newline) else Inl err)"
proof -
  have "deserialize pl (encode e) 0 = Inr (e, length (encode e))"
    using deserialize_complete [of 0 "encode e" e "[]" 0 pl] assms by (simp add: deserialize_def)
  then show ?thesis by (simp add: format_ttlv_def split: sum.splits)
qed

lemma format_ttlv_redacted:
  assumes "redact e = redact e'" "ttlv_wf e" "ttlv_wf e'" "height e \<le> 65" "height e' \<le> 65" "\<not> hardened pl"
  shows "format_ttlv pl (encode e) = format_ttlv pl (encode e')"
proof -
  have "format_element (Some e) = format_element (Some e')"
    using format_redact [of e 0] format_redact [of e' 0] assms(1) by (simp add: format_element_def)
  then show ?thesis using assms by (simp add: format_ttlv_encode)
qed

text \<open>The records of one message.\<close>

definition debug_records :: "platform \<Rightarrow> 'n ioutils \<Rightarrow> string \<Rightarrow> byte list \<Rightarrow> LogRecord list" where
  "debug_records pl io event ttlv =
     (case (io_logger io, format_ttlv pl ttlv) of
        (Some shouldLog, Inr message) \<Rightarrow>
          if shouldLog Debug then [\<lparr>log_level = Debug, log_component = ''kmip.protocol'', log_event = event,
            log_message = message\<rparr>] else []
      | _ \<Rightarrow> [])"

lemma log_debug_records:
  "\<not> hardened pl \<Longrightarrow> length ttlv < 2 ^ 63 \<Longrightarrow>
     log_debug pl io event ttlv s = (Inr (), s\<lparr>io_log := io_log s @ debug_records pl io event ttlv\<rparr>)"
  using format_ttlv_total [of pl ttlv]
  by (auto simp: log_debug_def debug_records_def split: option.splits sum.splits)

text \<open>The log of an exchange: the request, and the response when one was received.\<close>

lemma exchange_log:
  assumes "do_exchange pl io request max_message_size s = (x, s')" "\<not> hardened pl" "length request < 2 ^ 63"
  shows "io_log s' = io_log s @ debug_records pl io ''request'' request @
    (case x of Inr response \<Rightarrow> debug_records pl io ''response'' response | Inl err \<Rightarrow> [])"
proof -
  obtain t where t: "exchange_body pl io request max_message_size s = (x, t)" "io_log s' = io_log t"
    using assms(1) by (auto simp: do_exchange_def split: prod.splits sum.splits failure.splits)
  show ?thesis
  proof (cases x)
    case (Inr response)
    then have "length response < 2 ^ 63"
      using t(1) framed_length [OF receive_message_framed]
      by (auto simp: exchange_body_def bind_act_Inr_iff on_net_Inr_iff)
    then show ?thesis
      using t Inr by (auto simp: exchange_body_def bind_act_Inr_iff on_net_Inr_iff log_debug_records [OF assms(2)] log_debug_records [OF assms(2,3)])
  next
    case (Inl err)
    show ?thesis
      using t Inl
      by (auto simp: exchange_body_def bind_act_Inl_iff on_net_Inl_iff on_net_Inr_iff log_debug_records [OF assms(2,3)]
          log_debug_records [OF assms(2) framed_length [OF receive_message_framed]])
  qed
qed

lemma wf_length: "ttlv_wf e \<Longrightarrow> length (encode e) < 2 ^ 63"
proof -
  assume "ttlv_wf e"
  moreover obtain t ty v where e: "e = Element t ty v" by (cases e)
  ultimately have "length (content v) < 2 ^ 32" by (cases v) (simp_all add: ttlv_wf.simps)
  then show ?thesis using pad8_less [of "length (content v)"] by (simp add: e length_encode)
qed

text \<open>Messages that are the same up to the contents of sensitive values; their lengths, which the log shows, are the same.\<close>

definition same_but_secrets :: "element \<Rightarrow> element \<Rightarrow> bool" where
  "same_but_secrets e e' \<longleftrightarrow> redact e = redact e' \<and> ttlv_wf e \<and> ttlv_wf e' \<and> height e \<le> 65 \<and> height e' \<le> 65"

definition same_answers :: "byte list res \<Rightarrow> byte list res \<Rightarrow> bool" where
  "same_answers x y \<longleftrightarrow>
     (case (x, y) of
        (Inr b, Inr b') \<Rightarrow> (\<exists>r r'. b = encode r \<and> b' = encode r' \<and> same_but_secrets r r')
      | (Inl _, Inl _) \<Rightarrow> True
      | _ \<Rightarrow> False)"

lemma same_records:
  "same_but_secrets e e' \<Longrightarrow> \<not> hardened pl \<Longrightarrow> debug_records pl io event (encode e) = debug_records pl io event (encode e')"
  using format_ttlv_redacted [of e e' pl] by (simp add: same_but_secrets_def debug_records_def)

text \<open>C24. The log of an exchange shows of secrets no more than their lengths: two exchanges of well-formed messages, over any
  transports, that agree up to the contents of the values below sensitive tags (not in the lengths of these
  values, which the log prints) leave the same log, whether both succeed or both fail.\<close>

theorem exchange_log_redacted:
  assumes "do_exchange pl io (encode e) max_message_size s = (x, s1)"
    and "do_exchange pl io (encode e') max_message_size t = (y, t1)"
    and "io_log s = io_log t" "same_but_secrets e e'" "same_answers x y" "\<not> hardened pl"
  shows "io_log s1 = io_log t1"
proof -
  have len: "length (encode e) < 2 ^ 63" "length (encode e') < 2 ^ 63"
    using assms(4) wf_length unfolding same_but_secrets_def by blast+
  note logs = exchange_log [OF assms(1,6) len(1)] exchange_log [OF assms(2,6) len(2)]
  have "(case x of Inr response \<Rightarrow> debug_records pl io ''response'' response | Inl err \<Rightarrow> []) =
      (case y of Inr response \<Rightarrow> debug_records pl io ''response'' response | Inl err \<Rightarrow> [])"
    using assms(5) same_records [OF _ assms(6)] by (auto simp: same_answers_def split: sum.splits)
  then show ?thesis using logs assms(3) same_records [OF assms(4,6)] by simp
qed

theorem exchange_log_redacted_witness:
  "\<exists>s1 t1. do_exchange \<lparr>native_endian = Little_endian, hardened = False\<rparr>
      (sample_io (encode (createStructure KMIP_TAG_RESPONSE_MESSAGE)))
      (encode (createByteString KMIP_TAG_KEY_MATERIAL [1, 2, 3])) 100 fresh_io =
      (Inr (encode (createStructure KMIP_TAG_RESPONSE_MESSAGE)), s1) \<and>
    do_exchange \<lparr>native_endian = Little_endian, hardened = False\<rparr>
      (sample_io (encode (createStructure KMIP_TAG_RESPONSE_MESSAGE)))
      (encode (createByteString KMIP_TAG_KEY_MATERIAL [7, 8, 9])) 100 fresh_io =
      (Inr (encode (createStructure KMIP_TAG_RESPONSE_MESSAGE)), t1) \<and> io_log s1 = io_log t1"
proof -
  let ?pl = "\<lparr>native_endian = Little_endian, hardened = False\<rparr>"
  let ?r = "createStructure KMIP_TAG_RESPONSE_MESSAGE"
  let ?e = "\<lambda>k. createByteString KMIP_TAG_KEY_MATERIAL k"
  have small: "length (encode (?e [a, b, c])) < 2 ^ 31" for a b c
    by (simp add: createByteString_def length_encode pad8_def)
  have fr: "framed (min 100 KMIP_MAX_MESSAGE_HARD_LIMIT) (encode ?r)"
    by (simp add: framed_def createStructure_def encode_eq read_int32_be_def be_bytes32_def)
  obtain s1 where 1: "do_exchange ?pl (sample_io (encode ?r)) (encode (?e [1, 2, 3])) 100 fresh_io = (Inr (encode ?r), s1)"
    by (rule sample_exchange [where pl = ?pl and request = "encode (?e [1, 2, 3])", OF encode_nonempty small fr]) simp_all
  obtain t1 where 2: "do_exchange ?pl (sample_io (encode ?r)) (encode (?e [7, 8, 9])) 100 fresh_io = (Inr (encode ?r), t1)"
    by (rule sample_exchange [where pl = ?pl and request = "encode (?e [7, 8, 9])", OF encode_nonempty small fr]) simp_all
  have "io_log s1 = io_log t1"
  proof (rule exchange_log_redacted [OF 1 2])
    have "same_but_secrets ?r ?r"
      by (simp add: same_but_secrets_def createStructure_def ttlv_wf.simps height.simps type_of_value_def kmip_consts)
    then show "same_answers (Inr (encode ?r)) (Inr (encode ?r))" unfolding same_answers_def by auto
  qed (simp_all add: same_but_secrets_def createByteString_def redact.simps secret_tags_def ttlv_wf.simps
      height.simps type_of_value_def kmip_consts)
  with 1 2 show ?thesis by blast
qed

end
