(* ===== verification/Tls_Transport.thy ===== *)
theory Tls_Transport
  imports Kmip_IO "HOL-Library.Multiset"
begin

text \<open>
  \<open>src/kmipclient/src/NetClientOpenSSL.cpp\<close>, with the stored configuration of \<open>NetClient.hpp\<close>: the
  transport over TLS, on a POSIX system.

  OpenSSL, the socket calls and the clock are not part of the sources.  Every call to them is an event
  \<open>call\<close>, and what it returns is any function \<open>sys_call\<close> of the calls made before: the trace of calls and
  replies, newest first, is the state of the outside world.  Statements about what the transport asked
  of OpenSSL are statements about this trace, and they hold for every behaviour of the library.

  The three loops of the file (draining the error queue, an interrupted \<open>poll\<close>, the attempts to
  connect) depend on the outside world and may run forever; they are instances of one loop, whose
  divergence is the value \<open>Diverges\<close>.  A null pointer is \<open>0\<close>.
\<close>

section \<open>The calls to the outside\<close>

type_synonym handle = int

datatype verify_mode = SSL_VERIFY_NONE | SSL_VERIFY_PEER

datatype tls_method = TLS_method | SSLv23_method

datatype socket_option = SO_RCVTIMEO | SO_SNDTIMEO

datatype call =
    ERR_get_error
  | ERR_error_string_n int
  | ERR_clear_error
  | a2i_IPADDRESS string
  | ASN1_OCTET_STRING_free handle
  | SSL_CTX_new tls_method
  | SSL_CTX_free handle
  | SSL_CTX_set_verify handle verify_mode
  | SSL_CTX_use_certificate_file handle string
  | SSL_CTX_use_PrivateKey_file handle string
  | SSL_CTX_check_private_key handle
  | SSL_CTX_load_verify_locations handle string
  | SSL_set_tlsext_host_name handle string
  | SSL_get0_param handle
  | X509_VERIFY_PARAM_set1_ip_asc handle string
  | SSL_set1_host handle string
  | SSL_set_mode_auto_retry handle
  | SSL_get0_peer_certificate handle
  | SSL_get_peer_certificate handle
  | X509_free handle
  | SSL_get_verify_result handle
  | X509_verify_cert_error_string int
  | BIO_new_ssl_connect handle
  | BIO_free_all handle
  | BIO_get_ssl handle
  | BIO_set_conn_hostname handle string
  | BIO_set_conn_port handle string
  | BIO_set_nbio handle int
  | BIO_do_connect handle
  | BIO_should_retry handle
  | BIO_should_read handle
  | BIO_should_write handle
  | BIO_get_fd handle
  | BIO_write handle "byte list" int
  | BIO_read handle int
  | steady_clock_now
  | poll int int int
  | fcntl_F_GETFL int
  | fcntl_F_SETFL int int
  | setsockopt int socket_option int int
  | get_errno
  | set_errno int
  | strerror int

text \<open>The returned number or pointer, and what the call wrote through a pointer argument: a number, a
  text or the bytes of a buffer.\<close>

record reply =
  ret :: int
  out_value :: int
  out_text :: string
  out_bytes :: "byte list"

type_synonym trace = "(call \<times> reply) list"

text \<open>The outside world with the constants of its headers.\<close>

record tls_system =
  sys_call :: "trace \<Rightarrow> call \<Rightarrow> reply"
  OPENSSL_VERSION_NUMBER :: nat
  LIBRESSL :: bool
  EAGAIN :: int
  EWOULDBLOCK :: int
  ETIMEDOUT :: int
  EINTR :: int
  O_NONBLOCK :: int

definition invoke :: "tls_system \<Rightarrow> call \<Rightarrow> (trace, reply) action" where
  "invoke sys c tr = (let r = sys_call sys tr c in (Inr r, (c, r) # tr))"

definition return_act :: "'a \<Rightarrow> ('s, 'a) action" where
  "return_act x = lift_res (Inr x)"

definition throw_io :: "string \<Rightarrow> ('s, 'a) action" where
  "throw_io msg = lift_res (Inl (kmip_io_exception_code KMIP_IO_FAILURE msg))"

text \<open>A loop: the body continues with \<open>Inl\<close>, ends it with \<open>Inr\<close> or throws.\<close>

partial_function (option) loop_opt :: "('a \<Rightarrow> ('s, 'a + 'b) action) \<Rightarrow> 'a \<Rightarrow> 's \<Rightarrow> ('b res \<times> 's) option" where
  "loop_opt body a s =
     (case body a s of
        (Inl e, t) \<Rightarrow> Some (Inl e, t)
      | (Inr (Inr b), t) \<Rightarrow> Some (Inr b, t)
      | (Inr (Inl a'), t) \<Rightarrow> loop_opt body a' t)"

definition loop_act :: "('a \<Rightarrow> ('s, 'a + 'b) action) \<Rightarrow> 'a \<Rightarrow> ('s, 'b) action" where
  "loop_act body a s = (case loop_opt body a s of None \<Rightarrow> (Inl Diverges, s) | Some r \<Rightarrow> r)"

text \<open>The destructors that run when an exception leaves a block.\<close>

definition on_throw :: "('s, 'a) action \<Rightarrow> ('s, unit) action \<Rightarrow> ('s, 'a) action" where
  "on_throw m fin s = (case m s of (Inl e, t) \<Rightarrow> (Inl e, snd (fin t)) | r \<Rightarrow> r)"

section \<open>Errors and addresses\<close>

text \<open>\<open>c_str\<close> as a C function reads it.\<close>

definition c_str :: "string \<Rightarrow> string" where
  "c_str s = takeWhile (\<lambda>c. c \<noteq> CHR 0x00) s"

definition getOpenSslError :: "tls_system \<Rightarrow> (trace, string) action" where
  "getOpenSslError sys =
     loop_act (\<lambda>oss. bind_act (invoke sys ERR_get_error) (\<lambda>err.
       if ret err \<noteq> 0 then
         bind_act (invoke sys (ERR_error_string_n (ret err))) (\<lambda>buf. return_act (Inl (oss @ c_str (out_text buf) @ ''; '')))
       else return_act (Inr (if oss = [] then ''Unknown OpenSSL error'' else oss)))) []"

definition throw_openssl :: "tls_system \<Rightarrow> string \<Rightarrow> string \<Rightarrow> (trace, 'a) action" where
  "throw_openssl sys before after = bind_act (getOpenSslError sys) (\<lambda>err. throw_io (before @ err @ after))"

definition socket_error_string :: "tls_system \<Rightarrow> int \<Rightarrow> (trace, string) action" where
  "socket_error_string sys err = bind_act (invoke sys (strerror err)) (\<lambda>r. return_act (c_str (out_text r)))"

definition last_socket_error :: "tls_system \<Rightarrow> (trace, int) action" where
  "last_socket_error sys = bind_act (invoke sys get_errno) (\<lambda>r. return_act (ret r))"

definition clear_socket_error :: "tls_system \<Rightarrow> (trace, unit) action" where
  "clear_socket_error sys = bind_act (invoke sys (set_errno 0)) (\<lambda>_. return_act ())"

definition is_timeout_socket_error :: "tls_system \<Rightarrow> int \<Rightarrow> bool" where
  "is_timeout_socket_error sys err \<longleftrightarrow> err = EAGAIN sys \<or> err = EWOULDBLOCK sys \<or> err = ETIMEDOUT sys"

definition throw_socket :: "tls_system \<Rightarrow> string \<Rightarrow> (trace, 'a) action" where
  "throw_socket sys before =
     bind_act (last_socket_error sys) (\<lambda>err. bind_act (socket_error_string sys err) (\<lambda>text. throw_io (before @ text)))"

definition timeoutMessage :: "string \<Rightarrow> int \<Rightarrow> string" where
  "timeoutMessage op timeout_ms = ''KMIP '' @ op @ '' timed out after '' @ int_to_string timeout_ms @ ''ms''"

definition is_ip_address :: "tls_system \<Rightarrow> string \<Rightarrow> (trace, bool) action" where
  "is_ip_address sys host =
     bind_act (invoke sys (a2i_IPADDRESS (c_str host))) (\<lambda>addr.
       if ret addr = 0 then return_act False
       else bind_act (invoke sys (ASN1_OCTET_STRING_free (ret addr))) (\<lambda>_. return_act True))"

definition modern_openssl :: "tls_system \<Rightarrow> bool" where
  "modern_openssl sys \<longleftrightarrow> OPENSSL_VERSION_NUMBER sys \<ge> 0x30000000 \<and> \<not> LIBRESSL sys"

definition get_tls_client_method :: "tls_system \<Rightarrow> tls_method" where
  "get_tls_client_method sys =
     (if OPENSSL_VERSION_NUMBER sys < 0x10100000 \<or> LIBRESSL sys then SSLv23_method else TLS_method)"

definition get_peer_certificate :: "tls_system \<Rightarrow> handle \<Rightarrow> (trace, handle) action" where
  "get_peer_certificate sys ssl =
     bind_act (invoke sys (if modern_openssl sys then SSL_get0_peer_certificate ssl else SSL_get_peer_certificate ssl))
       (\<lambda>r. return_act (ret r))"

text \<open>A call that must return 1.\<close>

definition expect_one :: "tls_system \<Rightarrow> call \<Rightarrow> (trace, unit) action \<Rightarrow> (trace, unit) action" where
  "expect_one sys c fail = bind_act (invoke sys c) (\<lambda>r. if ret r \<noteq> 1 then fail else return_act ())"

section \<open>Verification of the peer\<close>

record TlsVerificationOptions =
  peer_verification :: bool
  hostname_verification :: bool

definition configure_tls_verification ::
  "tls_system \<Rightarrow> handle \<Rightarrow> handle \<Rightarrow> string \<Rightarrow> TlsVerificationOptions \<Rightarrow> (trace, unit) action" where
  "configure_tls_verification sys ctx ssl host options =
     (if hostname_verification options \<and> \<not> peer_verification options then
        throw_io ''TLS hostname verification requires TLS peer verification to be enabled''
      else
        bind_act (invoke sys (SSL_CTX_set_verify ctx (if peer_verification options then SSL_VERIFY_PEER else SSL_VERIFY_NONE)))
        (\<lambda>_. if host = [] then return_act ()
         else
           bind_act (is_ip_address sys host) (\<lambda>host_is_ip.
           bind_act (if \<not> host_is_ip then
               expect_one sys (SSL_set_tlsext_host_name ssl (c_str host))
                 (throw_openssl sys (''Failed to configure TLS SNI for host '' @ [CHR 0x27] @ host @ [CHR 0x27] @ '': '') [])
             else return_act ()) (\<lambda>_.
           if \<not> peer_verification options \<or> \<not> hostname_verification options then return_act ()
           else if host_is_ip then
             bind_act (invoke sys (SSL_get0_param ssl)) (\<lambda>param.
               expect_one sys (X509_VERIFY_PARAM_set1_ip_asc (ret param) (c_str host))
                 (throw_openssl sys (''Failed to configure TLS IP verification for '' @ [CHR 0x27] @ host @ [CHR 0x27] @ '': '') []))
           else
             expect_one sys (SSL_set1_host ssl (c_str host))
               (throw_openssl sys (''Failed to configure TLS hostname verification for '' @ [CHR 0x27] @ host @ [CHR 0x27] @ '': '') [])))))"

definition X509_V_OK :: int where
  "X509_V_OK = 0"

definition check_verify_result :: "tls_system \<Rightarrow> handle \<Rightarrow> (trace, unit) action" where
  "check_verify_result sys ssl =
     bind_act (invoke sys (SSL_get_verify_result ssl)) (\<lambda>verify_result.
     if ret verify_result \<noteq> X509_V_OK then
       bind_act (invoke sys (X509_verify_cert_error_string (ret verify_result))) (\<lambda>r.
         throw_io (''TLS peer verification failed: '' @ c_str (out_text r)))
     else return_act ())"

definition ensure_tls_peer_verified :: "tls_system \<Rightarrow> handle \<Rightarrow> TlsVerificationOptions \<Rightarrow> (trace, unit) action" where
  "ensure_tls_peer_verified sys ssl options =
     (if \<not> peer_verification options then return_act ()
      else
        bind_act (get_peer_certificate sys ssl) (\<lambda>peer_cert.
        if peer_cert = 0 then throw_io ''TLS peer verification failed: server did not present a certificate''
        else
          bind_act (if modern_openssl sys then return_act ()
            else bind_act (invoke sys (X509_free peer_cert)) (\<lambda>_. return_act ())) (\<lambda>_.
          check_verify_result sys ssl)))"

section \<open>Waiting and socket options\<close>

text \<open>\<open>BIO_get_fd (bio, &fd)\<close>: the descriptor, unless the call fails or leaves a negative one.\<close>

definition bio_fd :: "tls_system \<Rightarrow> handle \<Rightarrow> (trace, int option) action" where
  "bio_fd sys bio = bind_act (invoke sys (BIO_get_fd bio)) (\<lambda>r.
     return_act (if ret r < 0 \<or> out_value r < 0 then None else Some (out_value r)))"

definition POLLIN :: int where "POLLIN = 1"
definition POLLOUT :: int where "POLLOUT = 4"

definition cast_int :: "int \<Rightarrow> int" where
  "cast_int n = sint (word_of_int n :: i32)"

text \<open>Time is counted in nanoseconds, as \<open>steady_clock\<close> does.\<close>

definition poll_timeout :: "int \<Rightarrow> int \<Rightarrow> int" where
  "poll_timeout deadline now =
     (let remaining_ms = (deadline - now) div 1000000 in cast_int (if remaining_ms \<le> 0 then 1 else remaining_ms))"

definition poll_events :: "bool \<Rightarrow> bool \<Rightarrow> int" where
  "poll_events should_read should_write =
     (let events = (if should_read then POLLIN else 0) OR (if should_write then POLLOUT else 0) in
      if events = 0 then POLLIN OR POLLOUT else events)"

definition poll_loop :: "tls_system \<Rightarrow> int \<Rightarrow> int \<Rightarrow> int \<Rightarrow> (trace, int) action" where
  "poll_loop sys fd events remaining_ms =
     loop_act (\<lambda>_. bind_act (invoke sys (poll fd events remaining_ms)) (\<lambda>poll_ret.
       if ret poll_ret < 0 then
         bind_act (last_socket_error sys) (\<lambda>err.
           return_act (if err = EINTR sys then Inl () else Inr (ret poll_ret)))
       else return_act (Inr (ret poll_ret)))) ()"

definition wait_for_bio_retry :: "tls_system \<Rightarrow> handle \<Rightarrow> int \<Rightarrow> string \<Rightarrow> int \<Rightarrow> (trace, unit) action" where
  "wait_for_bio_retry sys bio deadline op timeout_ms =
     bind_act (bio_fd sys bio) (\<lambda>fd. case fd of
       None \<Rightarrow> throw_io (''Unable to obtain socket while waiting for '' @ op)
     | Some fd \<Rightarrow>
       bind_act (invoke sys steady_clock_now) (\<lambda>now.
       if ret now \<ge> deadline then throw_io (timeoutMessage op timeout_ms)
       else
         bind_act (invoke sys (BIO_should_read bio)) (\<lambda>rd.
         bind_act (invoke sys (BIO_should_write bio)) (\<lambda>wr.
         bind_act (poll_loop sys fd (poll_events (ret rd \<noteq> 0) (ret wr \<noteq> 0)) (poll_timeout deadline (ret now)))
         (\<lambda>poll_ret.
         if poll_ret = 0 then throw_io (timeoutMessage op timeout_ms)
         else if poll_ret < 0 then throw_socket sys (''poll failed while waiting for '' @ op @ '': '')
         else return_act ())))))"

definition clear_flag :: "int \<Rightarrow> int \<Rightarrow> int" where
  "clear_flag flags flag = (flags AND NOT flag)"

definition restore_socket_blocking :: "tls_system \<Rightarrow> handle \<Rightarrow> (trace, unit) action" where
  "restore_socket_blocking sys bio =
     bind_act (bio_fd sys bio) (\<lambda>fd. case fd of
       None \<Rightarrow> throw_io ''Unable to obtain socket fd for mode switch''
     | Some fd \<Rightarrow>
       bind_act (invoke sys (fcntl_F_GETFL fd)) (\<lambda>flags.
       if ret flags < 0 then throw_socket sys ''fcntl(F_GETFL) failed: ''
       else
         bind_act (invoke sys (fcntl_F_SETFL fd (clear_flag (ret flags) (O_NONBLOCK sys)))) (\<lambda>r.
         if ret r \<noteq> 0 then throw_socket sys ''fcntl(F_SETFL) failed: '' else return_act ())))"

definition set_timeout_option :: "tls_system \<Rightarrow> int \<Rightarrow> socket_option \<Rightarrow> string \<Rightarrow> int \<Rightarrow> (trace, unit) action" where
  "set_timeout_option sys fd opt_name label timeout_ms =
     bind_act (invoke sys (setsockopt fd opt_name (timeout_ms div 1000) ((timeout_ms mod 1000) * 1000))) (\<lambda>r.
       if ret r \<noteq> 0 then throw_socket sys (''Failed to set '' @ label @ '' ('' @ int_to_string timeout_ms @ ''ms): '')
       else return_act ())"

definition apply_socket_io_timeout :: "tls_system \<Rightarrow> handle \<Rightarrow> int \<Rightarrow> (trace, unit) action" where
  "apply_socket_io_timeout sys bio timeout_ms =
     (if timeout_ms \<le> 0 then return_act ()
      else
        bind_act (bio_fd sys bio) (\<lambda>fd. case fd of
          None \<Rightarrow> return_act ()
        | Some fd \<Rightarrow>
          bind_act (set_timeout_option sys fd SO_RCVTIMEO ''SO_RCVTIMEO'' timeout_ms) (\<lambda>_.
            set_timeout_option sys fd SO_SNDTIMEO ''SO_SNDTIMEO'' timeout_ms)))"

section \<open>The client\<close>

record NetClientOpenSSL =
  m_host :: string
  m_port :: string
  m_clientCertificateFn :: string
  m_clientKeyFn :: string
  m_serverCaCertificateFn :: string
  m_timeout_ms :: int
  m_tls_verification :: TlsVerificationOptions
  m_isConnected :: bool
  tls_ctx :: handle
  tls_bio :: handle
  made_calls :: trace

definition on_calls :: "(trace, 'a) action \<Rightarrow> (NetClientOpenSSL, 'a) action" where
  "on_calls m s = (case m (made_calls s) of (r, tr) \<Rightarrow> (r, s\<lparr>made_calls := tr\<rparr>))"

text \<open>\<open>unique_ptr::reset\<close> and the destructor: the deleter is called on a pointer that is not null.\<close>

definition free_bio :: "tls_system \<Rightarrow> handle \<Rightarrow> (trace, unit) action" where
  "free_bio sys bio = (if bio = 0 then return_act () else bind_act (invoke sys (BIO_free_all bio)) (\<lambda>_. return_act ()))"

definition free_ctx :: "tls_system \<Rightarrow> handle \<Rightarrow> (trace, unit) action" where
  "free_ctx sys ctx = (if ctx = 0 then return_act () else bind_act (invoke sys (SSL_CTX_free ctx)) (\<lambda>_. return_act ()))"

definition reset_handles :: "tls_system \<Rightarrow> (NetClientOpenSSL, unit) action" where
  "reset_handles sys s =
     (Inr (), s\<lparr>tls_bio := 0, tls_ctx := 0,
        made_calls := snd (free_ctx sys (tls_ctx s) (snd (free_bio sys (tls_bio s) (made_calls s))))\<rparr>)"

definition load_credentials :: "tls_system \<Rightarrow> NetClientOpenSSL \<Rightarrow> handle \<Rightarrow> (trace, unit) action" where
  "load_credentials sys c ctx =
     bind_act (expect_one sys (SSL_CTX_use_certificate_file ctx (c_str (m_clientCertificateFn c)))
       (throw_openssl sys (''Loading client certificate failed: '' @ m_clientCertificateFn c @ '' ('') '')'')) (\<lambda>_.
     bind_act (expect_one sys (SSL_CTX_use_PrivateKey_file ctx (c_str (m_clientKeyFn c)))
       (throw_openssl sys (''Loading client key failed: '' @ m_clientKeyFn c @ '' ('') '')'')) (\<lambda>_.
     bind_act (expect_one sys (SSL_CTX_check_private_key ctx)
       (throw_openssl sys ''Client certificate/private key mismatch: '' [])) (\<lambda>_.
     expect_one sys (SSL_CTX_load_verify_locations ctx (c_str (m_serverCaCertificateFn c)))
       (throw_openssl sys (''Loading server CA certificate failed: '' @ m_serverCaCertificateFn c @ '' ('') '')''))))"

definition connect_attempt :: "tls_system \<Rightarrow> handle \<Rightarrow> int \<Rightarrow> int \<Rightarrow> unit \<Rightarrow> (trace, unit + unit) action" where
  "connect_attempt sys bio deadline timeout_ms _ =
     bind_act (invoke sys ERR_clear_error) (\<lambda>_.
     bind_act (invoke sys (BIO_do_connect bio)) (\<lambda>connect_ret.
     if ret connect_ret = 1 then return_act (Inr ())
     else
       bind_act (invoke sys (BIO_should_retry bio)) (\<lambda>retry.
       if ret retry = 0 then throw_openssl sys ''BIO_do_connect failed: '' []
       else bind_act (wait_for_bio_retry sys bio deadline ''connect/handshake'' timeout_ms) (\<lambda>_. return_act (Inl ())))))"

definition timed_connect :: "tls_system \<Rightarrow> handle \<Rightarrow> int \<Rightarrow> (trace, unit) action" where
  "timed_connect sys bio timeout_ms =
     bind_act (expect_one sys (BIO_set_nbio bio 1) (throw_io ''BIO_set_nbio(1) failed before connect'')) (\<lambda>_.
     bind_act (invoke sys steady_clock_now) (\<lambda>now.
     bind_act (loop_act (connect_attempt sys bio (ret now + timeout_ms * 1000000) timeout_ms) ()) (\<lambda>_.
     bind_act (restore_socket_blocking sys bio) (\<lambda>_.
     expect_one sys (BIO_set_nbio bio 0) (throw_io ''BIO_set_nbio(0) failed after connect'')))))"

definition establish :: "tls_system \<Rightarrow> handle \<Rightarrow> int \<Rightarrow> (trace, unit) action" where
  "establish sys bio timeout_ms =
     (if timeout_ms > 0 then timed_connect sys bio timeout_ms
      else expect_one sys (BIO_do_connect bio) (throw_openssl sys ''BIO_do_connect failed: '' []))"

text \<open>What \<open>connect\<close> does while it owns \<open>new_bio\<close>.\<close>

definition connect_bio :: "tls_system \<Rightarrow> NetClientOpenSSL \<Rightarrow> handle \<Rightarrow> handle \<Rightarrow> (trace, unit) action" where
  "connect_bio sys c ctx bio =
     bind_act (invoke sys (BIO_get_ssl bio)) (\<lambda>r. let ssl = out_value r in
     if ssl = 0 then throw_openssl sys ''BIO_get_ssl failed: '' []
     else
       bind_act (configure_tls_verification sys ctx ssl (m_host c) (m_tls_verification c)) (\<lambda>_.
       bind_act (invoke sys (SSL_set_mode_auto_retry ssl)) (\<lambda>_.
       bind_act (invoke sys (BIO_set_conn_hostname bio (c_str (m_host c)))) (\<lambda>_.
       bind_act (invoke sys (BIO_set_conn_port bio (c_str (m_port c)))) (\<lambda>_.
       bind_act (establish sys bio (m_timeout_ms c)) (\<lambda>_.
       bind_act (ensure_tls_peer_verified sys ssl (m_tls_verification c)) (\<lambda>_.
       apply_socket_io_timeout sys bio (m_timeout_ms c))))))))"

text \<open>What it does while it owns \<open>new_ctx\<close>.\<close>

definition open_bio :: "tls_system \<Rightarrow> NetClientOpenSSL \<Rightarrow> handle \<Rightarrow> (trace, handle) action" where
  "open_bio sys c ctx =
     bind_act (configure_tls_verification sys ctx 0 [] (m_tls_verification c)) (\<lambda>_.
     bind_act (load_credentials sys c ctx) (\<lambda>_.
     bind_act (invoke sys (BIO_new_ssl_connect ctx)) (\<lambda>new_bio.
     if ret new_bio = 0 then throw_openssl sys ''BIO_new_ssl_connect failed: '' []
     else bind_act (on_throw (connect_bio sys c ctx (ret new_bio)) (free_bio sys (ret new_bio))) (\<lambda>_.
       return_act (ret new_bio)))))"

definition open_ctx :: "tls_system \<Rightarrow> NetClientOpenSSL \<Rightarrow> (trace, handle \<times> handle) action" where
  "open_ctx sys c =
     bind_act (invoke sys (SSL_CTX_new (get_tls_client_method sys))) (\<lambda>new_ctx.
     if ret new_ctx = 0 then throw_openssl sys ''SSL_CTX_new failed: '' []
     else bind_act (on_throw (open_bio sys c (ret new_ctx)) (free_ctx sys (ret new_ctx))) (\<lambda>new_bio.
       return_act (ret new_ctx, new_bio)))"

definition adopt_handles :: "tls_system \<Rightarrow> handle \<Rightarrow> handle \<Rightarrow> (NetClientOpenSSL, bool) action" where
  "adopt_handles sys new_ctx new_bio =
     bind_act (reset_handles sys) (\<lambda>_ s. (Inr True, s\<lparr>tls_bio := new_bio, tls_ctx := new_ctx, m_isConnected := True\<rparr>))"

definition connect :: "tls_system \<Rightarrow> (NetClientOpenSSL, bool) action" where
  "connect sys =
     bind_act (\<lambda>s. if \<not> m_isConnected s then reset_handles sys s else (Inr (), s)) (\<lambda>_.
     bind_act (\<lambda>s. on_calls (open_ctx sys s) s) (\<lambda>(new_ctx, new_bio). adopt_handles sys new_ctx new_bio))"

definition new_NetClientOpenSSL ::
  "string \<Rightarrow> string \<Rightarrow> string \<Rightarrow> string \<Rightarrow> string \<Rightarrow> int \<Rightarrow> TlsVerificationOptions \<Rightarrow> NetClientOpenSSL" where
  "new_NetClientOpenSSL host port clientCertificateFn clientKeyFn serverCaCertFn timeout_ms tls_verification =
     \<lparr>m_host = host, m_port = port, m_clientCertificateFn = clientCertificateFn, m_clientKeyFn = clientKeyFn,
      m_serverCaCertificateFn = serverCaCertFn, m_timeout_ms = timeout_ms, m_tls_verification = tls_verification,
      m_isConnected = False, tls_ctx = 0, tls_bio = 0, made_calls = []\<rparr>"

definition set_tls_verification :: "TlsVerificationOptions \<Rightarrow> NetClientOpenSSL \<Rightarrow> NetClientOpenSSL" where
  "set_tls_verification options s = s\<lparr>m_tls_verification := options\<rparr>"

definition checkConnected :: "tls_system \<Rightarrow> (NetClientOpenSSL, bool) action" where
  "checkConnected sys s = (if m_isConnected s then (Inr True, s) else connect sys s)"

definition tls_close :: "tls_system \<Rightarrow> NetClientOpenSSL \<Rightarrow> NetClientOpenSSL" where
  "tls_close sys s = snd (reset_handles sys (s\<lparr>m_isConnected := False\<rparr>))"

definition destroy_NetClientOpenSSL :: "tls_system \<Rightarrow> NetClientOpenSSL \<Rightarrow> NetClientOpenSSL" where
  "destroy_NetClientOpenSSL sys s = tls_close sys s"

text \<open>The check behind \<open>BIO_write\<close> and \<open>BIO_read\<close>.\<close>

definition check_timeout :: "tls_system \<Rightarrow> handle \<Rightarrow> int \<Rightarrow> string \<Rightarrow> int \<Rightarrow> (trace, unit) action" where
  "check_timeout sys bio r op timeout_ms =
     (if r \<le> 0 then
        bind_act (invoke sys (BIO_should_retry bio)) (\<lambda>retry.
        if ret retry \<noteq> 0 then
          bind_act (last_socket_error sys) (\<lambda>err.
            if is_timeout_socket_error sys err then throw_io (timeoutMessage op timeout_ms) else return_act ())
        else return_act ())
      else return_act ())"

definition tls_send :: "tls_system \<Rightarrow> byte list \<Rightarrow> (NetClientOpenSSL, int) action" where
  "tls_send sys data =
     bind_act (checkConnected sys) (\<lambda>connected s.
     if \<not> connected then (Inr (-1), s)
     else on_calls
       (bind_act (clear_socket_error sys) (\<lambda>_.
        bind_act (invoke sys (BIO_write (tls_bio s) data (int_of_size (length data)))) (\<lambda>r.
        bind_act (check_timeout sys (tls_bio s) (ret r) ''send'' (m_timeout_ms s)) (\<lambda>_. return_act (ret r))))) s)"

definition tls_recv :: "tls_system \<Rightarrow> nat \<Rightarrow> (NetClientOpenSSL, int \<times> byte list) action" where
  "tls_recv sys n =
     bind_act (checkConnected sys) (\<lambda>connected s.
     if \<not> connected then (Inr (-1, []), s)
     else on_calls
       (bind_act (clear_socket_error sys) (\<lambda>_.
        bind_act (invoke sys (BIO_read (tls_bio s) (int_of_size n))) (\<lambda>r.
        bind_act (check_timeout sys (tls_bio s) (ret r) ''receive'' (m_timeout_ms s)) (\<lambda>_.
          return_act (ret r, take (nat (ret r)) (out_bytes r)))))) s)"

text \<open>The transport as \<open>IOUtils\<close> uses it.\<close>

definition tls_net_client :: "tls_system \<Rightarrow> NetClientOpenSSL net_client" where
  "tls_net_client sys = \<lparr>nc_send = tls_send sys, nc_recv = tls_recv sys, nc_close = tls_close sys,
     nc_is_connected = m_isConnected\<rparr>"

end
