(* ===== verification/Tls_Sessions.thy ===== *)
theory Tls_Sessions
  imports Tls_Transport
begin

text \<open>
  What the transport of \<open>Tls_Transport\<close> guarantees, for every behaviour of OpenSSL, the sockets and the clock.

  \<open>keeps\<close> and \<open>yields\<close> are small calculi for the actions of the transport, with a rule for its loops; the
  collection \<open>keeps_rules\<close> decomposes an action.  On top of them: the ownership of the handles (\<open>ledger\<close>),
  the calls with which a session was set up (\<open>handshake_log\<close>), and the end of the loops under the documented
  progress of the error queue, of interrupted polls and of the clock.
\<close>

section \<open>Running actions\<close>

lemma invoke_bind [simp]: "bind_act (invoke sys c) f tr = f (sys_call sys tr c) ((c, sys_call sys tr c) # tr)"
  by (simp add: bind_act_def invoke_def Let_def)

lemma return_act_simps [simp]: "bind_act (return_act x) f = f x" "return_act x s = (Inr x, s)"
  by (auto simp: return_act_def)

lemma throw_io_simps [simp]: "bind_act (throw_io msg) f = throw_io msg" "throw_io msg s \<noteq> (Inr x, t)"
  by (auto simp: throw_io_def lift_res_def bind_act_def fun_eq_iff)

section \<open>Invariants of actions\<close>

text \<open>\<open>keeps I m\<close>: the action keeps \<open>I\<close>, whether it returns or throws.  A loop that does not return leaves
  the state where it started, so the rule for loops needs no termination.\<close>

definition keeps :: "('s \<Rightarrow> bool) \<Rightarrow> ('s, 'a) action \<Rightarrow> bool" where
  "keeps I m \<longleftrightarrow> (\<forall>s. I s \<longrightarrow> I (snd (m s)))"

named_theorems keeps_rules "rules that decompose an action"

lemma keeps_bind [keeps_rules]: "keeps I m \<Longrightarrow> (\<And>x. keeps I (f x)) \<Longrightarrow> keeps I (bind_act m f)"
  by (auto simp: keeps_def bind_act_def split: prod.splits sum.splits)

lemma keeps_basic [keeps_rules]: "keeps I (return_act x)" "keeps I (throw_io msg)"
  by (simp_all add: keeps_def return_act_def throw_io_def lift_res_def)

lemma keeps_if [keeps_rules]: "(b \<Longrightarrow> keeps I m) \<Longrightarrow> (\<not> b \<Longrightarrow> keeps I m') \<Longrightarrow> keeps I (if b then m else m')"
  by simp

lemma keeps_option [keeps_rules]:
  "(a = None \<Longrightarrow> keeps I m) \<Longrightarrow> (\<And>x. a = Some x \<Longrightarrow> keeps I (f x)) \<Longrightarrow> keeps I (case a of None \<Rightarrow> m | Some x \<Rightarrow> f x)"
  by (cases a) simp_all

lemma keeps_invoke: "(\<And>r tr. I tr \<Longrightarrow> I ((c, r) # tr)) \<Longrightarrow> keeps I (invoke sys c)"
  by (simp add: keeps_def invoke_def Let_def)

lemma loop_opt_keeps:
  assumes "\<And>a. keeps I (body a)"
  shows "loop_opt body a s = Some y \<Longrightarrow> I s \<Longrightarrow> I (snd y)"
proof (rule loop_opt.raw_induct [of "\<lambda>b _ s y. b = body \<longrightarrow> I s \<longrightarrow> I (snd y)", rule_format, of body a s y])
  fix f b a s y
  assume IH: "\<And>b a s y. f b a s = Some y \<Longrightarrow> b = body \<Longrightarrow> I s \<Longrightarrow> I (snd y)"
    and step: "(case b a s of (Inl e, t) \<Rightarrow> Some (Inl e, t) | (Inr (Inl a'), t) \<Rightarrow> f b a' t
        | (Inr (Inr x), t) \<Rightarrow> Some (Inr x, t)) = Some y" "b = body" "I s"
  then have "I (snd (b a s))" using assms by (simp add: keeps_def)
  with IH step show "I (snd y)" by (auto split: prod.splits sum.splits)
qed auto

lemma keeps_loop [keeps_rules]: "(\<And>a. keeps I (body a)) \<Longrightarrow> keeps I (loop_act body a)"
  using loop_opt_keeps [of I body] by (auto simp: keeps_def loop_act_def split: option.splits)

section \<open>Ownership of the handles\<close>

text \<open>
  The resources a trace has acquired and not yet released.  \<open>None\<close> is a trace that used or released a
  handle that was not held at that moment: a use after free or a double free.  A resource is held as
  often as it was acquired, since a freed address can be handed out again.
\<close>

datatype resource = Ctx handle | Bio handle | Cert handle | Addr handle

fun acquires :: "call \<Rightarrow> int \<Rightarrow> resource multiset" where
  "acquires (SSL_CTX_new _) p = (if p = 0 then {#} else {#Ctx p#})"
| "acquires (BIO_new_ssl_connect _) p = (if p = 0 then {#} else {#Bio p#})"
| "acquires (SSL_get_peer_certificate _) p = (if p = 0 then {#} else {#Cert p#})"
| "acquires (a2i_IPADDRESS _) p = (if p = 0 then {#} else {#Addr p#})"
| "acquires _ _ = {#}"

fun releases :: "call \<Rightarrow> resource multiset" where
  "releases (SSL_CTX_free p) = {#Ctx p#}"
| "releases (BIO_free_all p) = {#Bio p#}"
| "releases (X509_free p) = {#Cert p#}"
| "releases (ASN1_OCTET_STRING_free p) = {#Addr p#}"
| "releases _ = {#}"

fun needs :: "call \<Rightarrow> resource multiset" where
  "needs (SSL_CTX_set_verify p _) = {#Ctx p#}"
| "needs (SSL_CTX_use_certificate_file p _) = {#Ctx p#}"
| "needs (SSL_CTX_use_PrivateKey_file p _) = {#Ctx p#}"
| "needs (SSL_CTX_check_private_key p) = {#Ctx p#}"
| "needs (SSL_CTX_load_verify_locations p _) = {#Ctx p#}"
| "needs (BIO_new_ssl_connect p) = {#Ctx p#}"
| "needs (BIO_get_ssl p) = {#Bio p#}"
| "needs (BIO_set_conn_hostname p _) = {#Bio p#}"
| "needs (BIO_set_conn_port p _) = {#Bio p#}"
| "needs (BIO_set_nbio p _) = {#Bio p#}"
| "needs (BIO_do_connect p) = {#Bio p#}"
| "needs (BIO_should_retry p) = {#Bio p#}"
| "needs (BIO_should_read p) = {#Bio p#}"
| "needs (BIO_should_write p) = {#Bio p#}"
| "needs (BIO_get_fd p) = {#Bio p#}"
| "needs (BIO_write p _ _) = {#Bio p#}"
| "needs (BIO_read p _) = {#Bio p#}"
| "needs c = releases c"

fun ledger :: "trace \<Rightarrow> resource multiset option" where
  "ledger [] = Some {#}"
| "ledger ((c, r) # tr) =
     (case ledger tr of
        None \<Rightarrow> None
      | Some L \<Rightarrow> if needs c \<subseteq># L then Some (L - releases c + acquires c (ret r)) else None)"

text \<open>The trace holds exactly \<open>L\<close>.\<close>

definition holds :: "resource multiset \<Rightarrow> trace \<Rightarrow> bool" where
  "holds L tr \<longleftrightarrow> ledger tr = Some L"

lemma keeps_plain_call [keeps_rules]:
  "needs c \<subseteq># L \<Longrightarrow> releases c = {#} \<Longrightarrow> (\<And>p. acquires c p = {#}) \<Longrightarrow> keeps (holds L) (invoke sys c)"
  by (rule keeps_invoke) (simp add: holds_def)

lemma keeps_errors [keeps_rules]:
  "keeps (holds L) (getOpenSslError sys)" "keeps (holds L) (throw_openssl sys before after)"
  "keeps (holds L) (last_socket_error sys)" "keeps (holds L) (socket_error_string sys err)"
  "keeps (holds L) (clear_socket_error sys)" "keeps (holds L) (throw_socket sys before)"
  unfolding getOpenSslError_def throw_openssl_def last_socket_error_def socket_error_string_def
    clear_socket_error_def throw_socket_def
  by (intro keeps_rules; simp)+

lemma keeps_is_ip_address [keeps_rules]: "keeps (holds L) (is_ip_address sys host)"
  by (auto simp: keeps_def is_ip_address_def bind_act_def invoke_def Let_def return_act_def holds_def)

lemma keeps_expect_one [keeps_rules]:
  "keeps I (invoke sys c) \<Longrightarrow> keeps I fail \<Longrightarrow> keeps I (expect_one sys c fail)"
  unfolding expect_one_def by (intro keeps_rules)

lemma keeps_configure [keeps_rules]:
  "Ctx ctx \<in># L \<Longrightarrow> keeps (holds L) (configure_tls_verification sys ctx ssl host options)"
  unfolding configure_tls_verification_def by (intro keeps_rules; simp)

text \<open>The certificate that an older OpenSSL hands out as a counted reference is released on every path.\<close>

lemma keeps_ensure [keeps_rules]: "keeps (holds L) (ensure_tls_peer_verified sys ssl options)"
proof -
  have "keeps (holds L) (check_verify_result sys ssl)"
    unfolding check_verify_result_def by (intro keeps_rules; simp)
  then have "holds L tr \<Longrightarrow> holds L (snd (check_verify_result sys ssl tr))" for tr by (simp add: keeps_def)
  then show ?thesis
    by (auto simp: ensure_tls_peer_verified_def get_peer_certificate_def keeps_def invoke_bind holds_def throw_io_def)
qed

lemma keeps_socket [keeps_rules]:
  assumes "Bio bio \<in># L"
  shows "keeps (holds L) (bio_fd sys bio)" "keeps (holds L) (restore_socket_blocking sys bio)"
    "keeps (holds L) (apply_socket_io_timeout sys bio timeout_ms)"
    "keeps (holds L) (wait_for_bio_retry sys bio deadline op timeout_ms)"
  using assms
  unfolding bio_fd_def restore_socket_blocking_def apply_socket_io_timeout_def set_timeout_option_def
    wait_for_bio_retry_def poll_loop_def
  by (intro keeps_rules; simp)+

lemma keeps_connect_bio:
  "Ctx ctx \<in># L \<Longrightarrow> Bio bio \<in># L \<Longrightarrow> keeps (holds L) (connect_bio sys c ctx bio)"
  unfolding connect_bio_def establish_def timed_connect_def connect_attempt_def Let_def
  by (intro keeps_rules; simp)

text \<open>\<open>yields I m Q\<close>: a throw keeps \<open>I\<close>, a return establishes \<open>Q\<close>.\<close>

definition yields :: "('s \<Rightarrow> bool) \<Rightarrow> ('s, 'a) action \<Rightarrow> ('a \<Rightarrow> 's \<Rightarrow> bool) \<Rightarrow> bool" where
  "yields I m Q \<longleftrightarrow> (\<forall>s. I s \<longrightarrow> (case m s of (Inl _, t) \<Rightarrow> I t | (Inr x, t) \<Rightarrow> Q x t))"

lemma yieldsI:
  "(\<And>s e t. I s \<Longrightarrow> m s = (Inl e, t) \<Longrightarrow> I t) \<Longrightarrow> (\<And>s x t. I s \<Longrightarrow> m s = (Inr x, t) \<Longrightarrow> Q x t) \<Longrightarrow> yields I m Q"
  by (auto simp: yields_def split: prod.split sum.split)

lemma yields_throws: "yields I m Q \<Longrightarrow> I s \<Longrightarrow> m s = (Inl e, t) \<Longrightarrow> I t"
  by (fastforce simp: yields_def)

lemma yields_returns: "yields I m Q \<Longrightarrow> I s \<Longrightarrow> m s = (Inr x, t) \<Longrightarrow> Q x t"
  by (fastforce simp: yields_def)

lemma keeps_run: "keeps I m \<Longrightarrow> I s \<Longrightarrow> m s = (r, t) \<Longrightarrow> I t"
  by (metis keeps_def snd_conv)

lemma yields_keeps: "keeps I m \<Longrightarrow> yields I m (\<lambda>_. I)"
  by (rule yieldsI) (auto dest: keeps_run)

lemma yields_bind_keeps: "keeps I m \<Longrightarrow> (\<And>x. yields I (f x) Q) \<Longrightarrow> yields I (bind_act m f) Q"
  by (rule yieldsI) (auto simp: bind_act_Inr_iff bind_act_Inl_iff dest: keeps_run yields_throws yields_returns)

lemma throw_openssl_throws: "throw_openssl sys before after tr \<noteq> (Inr x, t)"
  by (auto simp: throw_openssl_def bind_act_Inr_iff)

lemma yields_throw: "yields (holds L) (throw_openssl sys before after) Q"
  using keeps_run [OF keeps_errors(2) [of L sys before after]] by (intro yieldsI) (auto simp: throw_openssl_throws)

lemma on_throw_Inr_iff: "on_throw m fin s = (Inr x, t) \<longleftrightarrow> m s = (Inr x, t)"
  by (auto simp: on_throw_def split: prod.splits sum.splits)

lemma on_throw_Inl_iff: "on_throw m fin s = (Inl e, t) \<longleftrightarrow> (\<exists>u. m s = (Inl e, u) \<and> t = snd (fin u))"
  by (auto simp: on_throw_def split: prod.splits sum.splits)

lemma yields_acquire:
  assumes c: "needs c \<subseteq># L" "releases c = {#}" "\<And>p. acquires c p = (if p = 0 then {#} else {#R p#})"
    and body: "\<And>p. p \<noteq> 0 \<Longrightarrow> yields (holds (add_mset (R p) L)) (body p) (\<lambda>x. Q (g p x))"
    and fin: "\<And>p tr. p \<noteq> 0 \<Longrightarrow> holds (add_mset (R p) L) tr \<Longrightarrow> holds L (snd (fin p tr))"
  shows "yields (holds L) (bind_act (invoke sys c) (\<lambda>r. if ret r = 0 then throw_openssl sys before after
      else bind_act (on_throw (body (ret r)) (fin (ret r))) (\<lambda>x. return_act (g (ret r) x)))) Q"
proof -
  have 0: "holds L ((c, r) # tr)" if "holds L tr" "ret r = 0" for r tr using c that by (simp add: holds_def)
  have 1: "holds (add_mset (R (ret r)) L) ((c, r) # tr)" if "holds L tr" "ret r \<noteq> 0" for r tr
    using c that by (simp add: holds_def)
  show ?thesis
    by (rule yieldsI)
      (auto simp: bind_act_Inl_iff bind_act_Inr_iff on_throw_Inl_iff on_throw_Inr_iff throw_openssl_throws split: if_splits
        dest: yields_throws [OF yields_throw 0] yields_throws [OF body 1] yields_returns [OF body 1] intro!: fin)
qed

lemma free_bio_holds: "bio \<noteq> 0 \<Longrightarrow> holds (add_mset (Bio bio) L) tr \<Longrightarrow> holds L (snd (free_bio sys bio tr))"
  by (simp add: free_bio_def holds_def)

lemma free_ctx_holds: "ctx \<noteq> 0 \<Longrightarrow> holds (add_mset (Ctx ctx) L) tr \<Longrightarrow> holds L (snd (free_ctx sys ctx tr))"
  by (simp add: free_ctx_def holds_def)

lemma open_bio_holds:
  assumes "Ctx ctx \<in># L"
  shows "yields (holds L) (open_bio sys c ctx) (\<lambda>bio tr. bio \<noteq> 0 \<and> holds (add_mset (Bio bio) L) tr)"
proof -
  have "yields (holds (add_mset (Bio bio) L)) (connect_bio sys c ctx bio) (\<lambda>_. holds (add_mset (Bio bio) L))" for bio
    using assms by (intro yields_keeps keeps_connect_bio) simp_all
  then have "yields (holds L) (bind_act (invoke sys (BIO_new_ssl_connect ctx)) (\<lambda>r.
     if ret r = 0 then throw_openssl sys ''BIO_new_ssl_connect failed: '' []
     else bind_act (on_throw (connect_bio sys c ctx (ret r)) (free_bio sys (ret r))) (\<lambda>_. return_act (ret r))))
     (\<lambda>bio tr. bio \<noteq> 0 \<and> holds (add_mset (Bio bio) L) tr)"
    using assms by (intro yields_acquire [where R = Bio and g = "\<lambda>p _. p" and body = "connect_bio sys c ctx"])
      (simp_all add: free_bio_holds)
  moreover have "keeps (holds L) (load_credentials sys c ctx)"
    using assms unfolding load_credentials_def by (intro keeps_rules; simp)
  ultimately show ?thesis
    unfolding open_bio_def using assms by (blast intro: yields_bind_keeps keeps_configure)
qed

lemma open_ctx_holds:
  "yields (holds L) (open_ctx sys c) (\<lambda>(ctx, bio) tr. ctx \<noteq> 0 \<and> bio \<noteq> 0 \<and> holds (add_mset (Bio bio) (add_mset (Ctx ctx) L)) tr)"
  unfolding open_ctx_def
  by (rule yields_acquire [where R = Ctx and g = Pair and body = "open_bio sys c"])
    (simp_all add: open_bio_holds free_ctx_holds)

text \<open>The client owns exactly what its two pointers say, and a connected client has both.\<close>

definition owned :: "NetClientOpenSSL \<Rightarrow> resource multiset" where
  "owned s = (if tls_bio s = 0 then {#} else {#Bio (tls_bio s)#}) + (if tls_ctx s = 0 then {#} else {#Ctx (tls_ctx s)#})"

definition tls_ok :: "NetClientOpenSSL \<Rightarrow> bool" where
  "tls_ok s \<longleftrightarrow> holds (owned s) (made_calls s) \<and> (m_isConnected s \<longrightarrow> tls_bio s \<noteq> 0 \<and> tls_ctx s \<noteq> 0)"

lemma owned_update [simp]:
  "owned (s\<lparr>made_calls := tr\<rparr>) = owned s" "owned (s\<lparr>m_isConnected := b\<rparr>) = owned s"
  "owned (s\<lparr>m_tls_verification := options\<rparr>) = owned s"
  by (simp_all add: owned_def)

lemma reset_handles_holds:
  assumes "holds (owned s + L) (made_calls s)"
  shows "holds L (made_calls (snd (reset_handles sys s)))"
proof -
  have "holds ((if tls_ctx s = 0 then {#} else {#Ctx (tls_ctx s)#}) + L) (snd (free_bio sys (tls_bio s) (made_calls s)))"
    using assms by (auto simp: owned_def free_bio_def holds_def)
  then show ?thesis by (auto simp: reset_handles_def free_ctx_def holds_def)
qed

lemma reset_handles_fields [simp]:
  "tls_bio (snd (reset_handles sys s)) = 0" "tls_ctx (snd (reset_handles sys s)) = 0"
  "m_isConnected (snd (reset_handles sys s)) = m_isConnected s" "fst (reset_handles sys s) = Inr ()"
  by (simp_all add: reset_handles_def)

lemma owned_reset [simp]: "owned (snd (reset_handles sys s)) = {#}"
  by (simp add: owned_def)

lemma reset_handles_ok: "tls_ok s \<Longrightarrow> \<not> m_isConnected s \<Longrightarrow> tls_ok (snd (reset_handles sys s))"
  using reset_handles_holds [of s "{#}" sys] by (simp add: tls_ok_def)

lemma adopt_handles_ok:
  assumes "holds (add_mset (Bio b) (add_mset (Ctx c) (owned s))) (made_calls s)" "c \<noteq> 0" "b \<noteq> 0"
  shows "\<exists>t. adopt_handles sys c b s = (Inr True, t) \<and> tls_ok t \<and> m_isConnected t"
proof -
  have "holds {#Bio b, Ctx c#} (made_calls (snd (reset_handles sys s)))"
    using assms(1) by (intro reset_handles_holds) (simp add: add_mset_commute)
  then show ?thesis
    using assms(2,3) by (simp add: adopt_handles_def bind_act_def reset_handles_def tls_ok_def owned_def add_mset_commute)
qed

lemma connect_ok:
  assumes "tls_ok s" "connect sys s = (r, t)"
  shows "tls_ok t" "r = Inr x \<Longrightarrow> x \<and> m_isConnected t" "r = Inl e \<Longrightarrow> m_isConnected t = m_isConnected s \<and>
    (m_isConnected s \<longrightarrow> tls_bio t = tls_bio s \<and> tls_ctx t = tls_ctx s)"
proof -
  define s1 where "s1 = (if m_isConnected s then s else snd (reset_handles sys s))"
  have s1: "tls_ok s1" "m_isConnected s1 = m_isConnected s" "m_isConnected s \<Longrightarrow> s1 = s"
    using assms(1) reset_handles_ok [of s sys] by (auto simp: s1_def)
  have run: "connect sys s = bind_act (\<lambda>s. on_calls (open_ctx sys s) s) (\<lambda>(new_ctx, new_bio). adopt_handles sys new_ctx new_bio) s1"
    by (simp add: connect_def bind_act_def s1_def reset_handles_def)
  obtain q tr where o: "open_ctx sys s1 (made_calls s1) = (q, tr)" by (cases "open_ctx sys s1 (made_calls s1)")
  have h: "holds (owned s1) (made_calls s1)" using s1 by (simp add: tls_ok_def)
  have "tls_ok t \<and> (r = Inr x \<longrightarrow> x \<and> m_isConnected t) \<and> (r = Inl e \<longrightarrow> m_isConnected t = m_isConnected s \<and>
      (m_isConnected s \<longrightarrow> tls_bio t = tls_bio s \<and> tls_ctx t = tls_ctx s))" for x e
  proof (cases q)
    case (Inl err)
    then have "holds (owned s1) tr" using yields_throws [OF open_ctx_holds h] o by simp
    moreover have "r = Inl err" "t = s1\<lparr>made_calls := tr\<rparr>"
      using run o Inl assms(2) by (simp_all add: bind_act_def on_calls_def)
    ultimately show ?thesis using s1 by (auto simp: tls_ok_def owned_def)
  next
    case (Inr hs)
    obtain c b where hs: "hs = (c, b)" by (cases hs)
    then have "c \<noteq> 0" "b \<noteq> 0" "holds (add_mset (Bio b) (add_mset (Ctx c) (owned s1))) tr"
      using yields_returns [OF open_ctx_holds h] o Inr by fastforce+
    then obtain u where "adopt_handles sys c b (s1\<lparr>made_calls := tr\<rparr>) = (Inr True, u)" "tls_ok u" "m_isConnected u"
      using adopt_handles_ok [of b c "s1\<lparr>made_calls := tr\<rparr>" sys] by auto
    then show ?thesis using run o Inr hs assms(2) by (simp add: bind_act_def on_calls_def)
  qed
  then show "tls_ok t" "r = Inr x \<Longrightarrow> x \<and> m_isConnected t" "r = Inl e \<Longrightarrow> m_isConnected t = m_isConnected s \<and>
    (m_isConnected s \<longrightarrow> tls_bio t = tls_bio s \<and> tls_ctx t = tls_ctx s)" by blast+
qed

lemma checkConnected_ok:
  assumes "tls_ok s" "checkConnected sys s = (r, t)"
  shows "tls_ok t" "r = Inr x \<Longrightarrow> x \<and> m_isConnected t"
  using assms connect_ok(1,2) [of s sys r t] by (auto simp: checkConnected_def split: if_splits)

lemma keeps_check_timeout: "Bio bio \<in># L \<Longrightarrow> keeps (holds L) (check_timeout sys bio r op timeout_ms)"
  unfolding check_timeout_def by (intro keeps_rules; simp)

text \<open>An action on the calls that keeps what the client owns.\<close>

lemma on_calls_ok: "keeps (holds (owned s)) m \<Longrightarrow> tls_ok s \<Longrightarrow> tls_ok (snd (on_calls m s))"
  by (auto simp: tls_ok_def on_calls_def owned_def keeps_def split: prod.splits)

lemma after_check_ok:
  assumes "tls_ok s" "\<And>t L. Bio (tls_bio t) \<in># L \<Longrightarrow> keeps (holds L) (m t)"
  shows "tls_ok (snd (bind_act (checkConnected sys) (\<lambda>connected s. if \<not> connected then (Inr x, s) else on_calls (m s) s) s))"
proof -
  obtain r t where c: "checkConnected sys s = (r, t)" by (cases "checkConnected sys s")
  note t = checkConnected_ok [OF assms(1) c]
  have "Bio (tls_bio t) \<in># owned t" if "m_isConnected t" using t(1) that by (simp add: tls_ok_def owned_def)
  then show ?thesis using t c on_calls_ok [OF assms(2)] by (cases r) (simp_all add: bind_act_def)
qed

lemma tls_send_ok: "tls_ok s \<Longrightarrow> tls_ok (snd (tls_send sys data s))"
  unfolding tls_send_def by (erule after_check_ok) (intro keeps_rules keeps_check_timeout; simp)

lemma tls_recv_ok: "tls_ok s \<Longrightarrow> tls_ok (snd (tls_recv sys n s))"
  unfolding tls_recv_def by (erule after_check_ok) (intro keeps_rules keeps_check_timeout; simp)

lemma tls_close_ok: "tls_ok s \<Longrightarrow> tls_ok (tls_close sys s)" "tls_ok s \<Longrightarrow> holds {#} (made_calls (tls_close sys s))"
  using reset_handles_ok [of "s\<lparr>m_isConnected := False\<rparr>" sys] reset_handles_holds [of "s\<lparr>m_isConnected := False\<rparr>" "{#}" sys]
  by (auto simp: tls_close_def tls_ok_def)

text \<open>The calls a user of the transport can make, in any order and with any outcome.\<close>

datatype transport_op = Connect | Close | Send "byte list" | Recv nat | Set_verification TlsVerificationOptions

fun run_op :: "tls_system \<Rightarrow> transport_op \<Rightarrow> NetClientOpenSSL \<Rightarrow> NetClientOpenSSL" where
  "run_op sys Connect s = snd (connect sys s)"
| "run_op sys Close s = tls_close sys s"
| "run_op sys (Send data) s = snd (tls_send sys data s)"
| "run_op sys (Recv n) s = snd (tls_recv sys n s)"
| "run_op sys (Set_verification options) s = set_tls_verification options s"

lemma run_op_ok: "tls_ok s \<Longrightarrow> tls_ok (run_op sys op s)"
  using connect_ok(1) [OF _ surjective_pairing, of s sys]
  by (cases op) (simp_all add: tls_send_ok tls_recv_ok tls_close_ok set_tls_verification_def, simp add: tls_ok_def)

lemma new_client_ok: "tls_ok (new_NetClientOpenSSL host port cert key ca timeout_ms options)"
  by (simp add: new_NetClientOpenSSL_def tls_ok_def owned_def holds_def)

lemma run_ops_ok: "tls_ok s \<Longrightarrow> tls_ok (fold (run_op sys) ops s)"
  by (induction ops arbitrary: s) (simp_all add: run_op_ok)

text \<open>C12. Ownership of the OpenSSL handles, for every behaviour of OpenSSL, the sockets and the clock: after
  any sequence of calls of a transport, failed ones included, every handle that was acquired is either
  released exactly once or owned by the object; no call ever used a handle after its release or released
  one twice; a connected object owns a BIO and a context; and when the object is destroyed nothing is
  left.\<close>

theorem tls_handles_owned:
  "let s = fold (run_op sys) ops (new_NetClientOpenSSL host port cert key ca timeout_ms options) in
   ledger (made_calls s) = Some (owned s) \<and> (m_isConnected s \<longrightarrow> tls_bio s \<noteq> 0 \<and> tls_ctx s \<noteq> 0) \<and>
   ledger (made_calls (destroy_NetClientOpenSSL sys s)) = Some {#}"
  using run_ops_ok [OF new_client_ok] tls_close_ok(2) [OF run_ops_ok [OF new_client_ok]]
  by (simp add: Let_def tls_ok_def holds_def destroy_NetClientOpenSSL_def)

section \<open>What a session was set up with\<close>

text \<open>
  The calls that decide whom the transport talks to, with what they returned: the context and its
  verification mode, the credentials, the BIO and its SSL object, the names to check, the completed
  handshake and the results of the verification.  Error queue, clock, polling, socket options and
  releases do not matter here, and neither does an attempt to connect that did not complete.
\<close>

fun handshake_event :: "call \<Rightarrow> reply \<Rightarrow> (call \<times> int) list" where
  "handshake_event (SSL_CTX_new m) r = [(SSL_CTX_new m, ret r)]"
| "handshake_event (SSL_CTX_set_verify p m) r = [(SSL_CTX_set_verify p m, 0)]"
| "handshake_event (SSL_CTX_use_certificate_file p f) r = [(SSL_CTX_use_certificate_file p f, ret r)]"
| "handshake_event (SSL_CTX_use_PrivateKey_file p f) r = [(SSL_CTX_use_PrivateKey_file p f, ret r)]"
| "handshake_event (SSL_CTX_check_private_key p) r = [(SSL_CTX_check_private_key p, ret r)]"
| "handshake_event (SSL_CTX_load_verify_locations p f) r = [(SSL_CTX_load_verify_locations p f, ret r)]"
| "handshake_event (BIO_new_ssl_connect p) r = [(BIO_new_ssl_connect p, ret r)]"
| "handshake_event (BIO_get_ssl p) r = [(BIO_get_ssl p, out_value r)]"
| "handshake_event (a2i_IPADDRESS h) r = [(a2i_IPADDRESS h, ret r)]"
| "handshake_event (SSL_set_tlsext_host_name p h) r = [(SSL_set_tlsext_host_name p h, ret r)]"
| "handshake_event (SSL_get0_param p) r = [(SSL_get0_param p, ret r)]"
| "handshake_event (X509_VERIFY_PARAM_set1_ip_asc p h) r = [(X509_VERIFY_PARAM_set1_ip_asc p h, ret r)]"
| "handshake_event (SSL_set1_host p h) r = [(SSL_set1_host p h, ret r)]"
| "handshake_event (BIO_set_conn_hostname p h) r = [(BIO_set_conn_hostname p h, 0)]"
| "handshake_event (BIO_set_conn_port p h) r = [(BIO_set_conn_port p h, 0)]"
| "handshake_event (BIO_do_connect p) r = (if ret r = 1 then [(BIO_do_connect p, 1)] else [])"
| "handshake_event (SSL_get0_peer_certificate p) r = [(SSL_get0_peer_certificate p, ret r)]"
| "handshake_event (SSL_get_peer_certificate p) r = [(SSL_get_peer_certificate p, ret r)]"
| "handshake_event (SSL_get_verify_result p) r = [(SSL_get_verify_result p, ret r)]"
| "handshake_event _ r = []"

fun handshake_log :: "trace \<Rightarrow> (call \<times> int) list" where
  "handshake_log [] = []"
| "handshake_log ((c, r) # tr) = handshake_log tr @ handshake_event c r"

text \<open>The set-up of one session, oldest call first.\<close>

definition name_log :: "TlsVerificationOptions \<Rightarrow> handle \<Rightarrow> string \<Rightarrow> int \<Rightarrow> int \<Rightarrow> (call \<times> int) list" where
  "name_log options ssl host ip param =
     (if host = [] then []
      else [(a2i_IPADDRESS (c_str host), ip)] @
        (if ip = 0 then [(SSL_set_tlsext_host_name ssl (c_str host), 1)] else []) @
        (if \<not> peer_verification options \<or> \<not> hostname_verification options then []
         else if ip \<noteq> 0 then [(SSL_get0_param ssl, param), (X509_VERIFY_PARAM_set1_ip_asc param (c_str host), 1)]
         else [(SSL_set1_host ssl (c_str host), 1)]))"

definition mode_of :: "TlsVerificationOptions \<Rightarrow> verify_mode" where
  "mode_of options = (if peer_verification options then SSL_VERIFY_PEER else SSL_VERIFY_NONE)"

definition peer_log :: "tls_system \<Rightarrow> TlsVerificationOptions \<Rightarrow> handle \<Rightarrow> int \<Rightarrow> (call \<times> int) list" where
  "peer_log sys options ssl cert =
     (if peer_verification options then
        [(if modern_openssl sys then SSL_get0_peer_certificate ssl else SSL_get_peer_certificate ssl, cert),
         (SSL_get_verify_result ssl, X509_V_OK)]
      else [])"

definition session_log ::
  "tls_system \<Rightarrow> NetClientOpenSSL \<Rightarrow> TlsVerificationOptions \<Rightarrow> handle \<Rightarrow> handle \<Rightarrow> handle \<Rightarrow> int \<Rightarrow> int \<Rightarrow> int \<Rightarrow> (call \<times> int) list" where
  "session_log sys c options ctx bio ssl ip param cert =
     [(SSL_CTX_new (get_tls_client_method sys), ctx), (SSL_CTX_set_verify ctx (mode_of options), 0),
      (SSL_CTX_use_certificate_file ctx (c_str (m_clientCertificateFn c)), 1),
      (SSL_CTX_use_PrivateKey_file ctx (c_str (m_clientKeyFn c)), 1), (SSL_CTX_check_private_key ctx, 1),
      (SSL_CTX_load_verify_locations ctx (c_str (m_serverCaCertificateFn c)), 1),
      (BIO_new_ssl_connect ctx, bio), (BIO_get_ssl bio, ssl), (SSL_CTX_set_verify ctx (mode_of options), 0)] @
     name_log options ssl (m_host c) ip param @
     [(BIO_set_conn_hostname bio (c_str (m_host c)), 0), (BIO_set_conn_port bio (c_str (m_port c)), 0),
      (BIO_do_connect bio, 1)] @
     peer_log sys options ssl cert"

text \<open>A call that does not decide about the session keeps the log.\<close>

abbreviation logged :: "(call \<times> int) list \<Rightarrow> trace \<Rightarrow> bool" where
  "logged l tr \<equiv> handshake_log tr = l"

lemma keeps_silent_call [keeps_rules]: "(\<And>r. handshake_event c r = []) \<Longrightarrow> keeps (logged l) (invoke sys c)"
  by (rule keeps_invoke) simp

lemma keeps_log_errors [keeps_rules]:
  "keeps (logged l) (last_socket_error sys)" "keeps (logged l) (socket_error_string sys err)"
  "keeps (logged l) (clear_socket_error sys)" "keeps (logged l) (throw_socket sys before)"
  unfolding last_socket_error_def socket_error_string_def clear_socket_error_def throw_socket_def
  by (intro keeps_rules; simp)+

lemma keeps_log_socket [keeps_rules]:
  "keeps (logged l) (bio_fd sys bio)" "keeps (logged l) (restore_socket_blocking sys bio)"
  "keeps (logged l) (apply_socket_io_timeout sys bio timeout_ms)"
  "keeps (logged l) (wait_for_bio_retry sys bio deadline op timeout_ms)"
  unfolding bio_fd_def restore_socket_blocking_def apply_socket_io_timeout_def set_timeout_option_def
    wait_for_bio_retry_def poll_loop_def
  by (intro keeps_rules; simp)+

lemma expect_one_Inr_iff:
  "(\<And>s x t. fail s \<noteq> (Inr x, t)) \<Longrightarrow> expect_one sys c fail tr = (Inr u, tr') \<longleftrightarrow>
     ret (sys_call sys tr c) = 1 \<and> tr' = (c, sys_call sys tr c) # tr"
  by (auto simp: expect_one_def)

lemmas success_simps = bind_act_Inr_iff expect_one_Inr_iff throw_openssl_throws

lemma is_ip_address_log:
  "is_ip_address sys host tr = (Inr b, tr') \<Longrightarrow>
     \<exists>ip. b = (ip \<noteq> 0) \<and> handshake_log tr' = handshake_log tr @ [(a2i_IPADDRESS (c_str host), ip)]"
  by (auto simp: is_ip_address_def split: if_splits)

lemma configure_log:
  assumes "configure_tls_verification sys ctx ssl host options tr = (Inr u, tr')"
  shows "\<exists>ip param. handshake_log tr' = handshake_log tr @ (SSL_CTX_set_verify ctx (mode_of options), 0) # name_log options ssl host ip param"
proof -
  let ?set = "SSL_CTX_set_verify ctx (mode_of options)"
  let ?tr = "(?set, sys_call sys tr ?set) # tr"
  have ok: "\<not> (hostname_verification options \<and> \<not> peer_verification options)"
  proof
    assume "hostname_verification options \<and> \<not> peer_verification options"
    with assms show False by (simp add: configure_tls_verification_def)
  qed
  show ?thesis
  proof (cases "host = []")
    case True
    then have "tr' = ?tr" using assms ok by (simp add: configure_tls_verification_def mode_of_def)
    with True show ?thesis by (simp add: name_log_def)
  next
    case False
    obtain b t1 where 1: "is_ip_address sys host ?tr = (Inr b, t1)"
      using assms ok False unfolding configure_tls_verification_def mode_of_def
      by (auto simp only: if_False invoke_bind bind_act_Inr_iff simp_thms)
    obtain ip where ip: "b = (ip \<noteq> 0)" "handshake_log t1 = handshake_log ?tr @ [(a2i_IPADDRESS (c_str host), ip)]"
      using is_ip_address_log [OF 1] by blast
    show ?thesis
      using assms ok False 1 ip unfolding configure_tls_verification_def mode_of_def
      by (cases "ip = 0"; cases "peer_verification options"; cases "hostname_verification options")
        (auto simp: bind_act_run success_simps name_log_def)
  qed
qed

lemma load_credentials_log:
  "load_credentials sys c ctx tr = (Inr u, tr') \<Longrightarrow> handshake_log tr' = handshake_log tr @
     [(SSL_CTX_use_certificate_file ctx (c_str (m_clientCertificateFn c)), 1),
      (SSL_CTX_use_PrivateKey_file ctx (c_str (m_clientKeyFn c)), 1), (SSL_CTX_check_private_key ctx, 1),
      (SSL_CTX_load_verify_locations ctx (c_str (m_serverCaCertificateFn c)), 1)]"
  by (auto simp: load_credentials_def success_simps)

lemma ensure_log:
  "ensure_tls_peer_verified sys ssl options tr = (Inr u, tr') \<Longrightarrow>
     \<exists>cert. cert \<noteq> 0 \<and> handshake_log tr' = handshake_log tr @ peer_log sys options ssl cert"
  by (auto simp: ensure_tls_peer_verified_def check_verify_result_def get_peer_certificate_def success_simps peer_log_def
      split: if_splits intro: exI [of _ 1])

text \<open>A loop that returns: the rounds before the last keep \<open>I\<close>, the last one establishes \<open>Q\<close>.\<close>

lemma loop_opt_returns:
  assumes "\<And>a s a' t. I s \<Longrightarrow> body a s = (Inr (Inl a'), t) \<Longrightarrow> I t"
    and "\<And>a s b t. I s \<Longrightarrow> body a s = (Inr (Inr b), t) \<Longrightarrow> Q b t"
  shows "loop_opt body a s = Some (Inr b, t) \<Longrightarrow> I s \<Longrightarrow> Q b t"
proof (rule loop_opt.raw_induct [of "\<lambda>bd _ s y. bd = body \<longrightarrow> I s \<longrightarrow> (\<forall>b t. y = (Inr b, t) \<longrightarrow> Q b t)", rule_format, of body a s "(Inr b, t)"])
  fix f bd a s y b t
  assume IH: "\<And>bd a s y b t. f bd a s = Some y \<Longrightarrow> bd = body \<Longrightarrow> I s \<Longrightarrow> y = (Inr b, t) \<Longrightarrow> Q b t"
    and step: "(case bd a s of (Inl e, t) \<Rightarrow> Some (Inl e, t) | (Inr (Inl a'), t) \<Rightarrow> f bd a' t
        | (Inr (Inr x), t) \<Rightarrow> Some (Inr x, t)) = Some y" "bd = body" "I s" "y = (Inr b, t)"
  then show "Q b t" using assms by (auto split: prod.splits sum.splits)
qed auto

lemma loop_act_returns:
  assumes "loop_act body a s = (Inr b, t)" "I s"
    and "\<And>a s a' t. I s \<Longrightarrow> body a s = (Inr (Inl a'), t) \<Longrightarrow> I t"
    and "\<And>a s b t. I s \<Longrightarrow> body a s = (Inr (Inr b), t) \<Longrightarrow> Q b t"
  shows "Q b t"
  using assms(1,2) loop_opt_returns [of I body Q a s b t, OF assms(3,4)] by (auto simp: loop_act_def split: option.splits)

lemma connect_attempt_log:
  assumes "connect_attempt sys bio deadline timeout_ms a tr = (Inr x, tr')"
  shows "handshake_log tr' = handshake_log tr @ (case x of Inl _ \<Rightarrow> [] | Inr _ \<Rightarrow> [(BIO_do_connect bio, 1)])"
proof -
  note wait = keeps_run [OF keeps_log_socket(4)]
  show ?thesis using assms
    by (auto simp: connect_attempt_def bind_act_Inr_iff throw_openssl_throws dest!: wait [OF refl] split: if_splits)
qed

lemma timed_connect_log:
  assumes "timed_connect sys bio timeout_ms tr = (Inr u, tr')"
  shows "handshake_log tr' = handshake_log tr @ [(BIO_do_connect bio, 1)]"
proof -
  let ?nb = "(BIO_set_nbio bio 1, sys_call sys tr (BIO_set_nbio bio 1)) # tr"
  let ?t0 = "(steady_clock_now, sys_call sys ?nb steady_clock_now) # ?nb"
  obtain t1 t2 u1 u2 where a:
      "loop_act (connect_attempt sys bio (ret (sys_call sys ?nb steady_clock_now) + timeout_ms * 1000000) timeout_ms) () ?t0 = (Inr u1, t1)"
      "restore_socket_blocking sys bio t1 = (Inr u2, t2)" "handshake_log tr' = handshake_log t2"
    using assms by (auto simp: timed_connect_def success_simps)
  have "handshake_log t1 = handshake_log tr @ [(BIO_do_connect bio, 1)]"
    using a(1) by (rule loop_act_returns [where I = "logged (handshake_log tr)"]) (auto dest: connect_attempt_log)
  with a(3) keeps_run [OF keeps_log_socket(2) refl a(2)] show ?thesis by simp
qed

lemma establish_log:
  "establish sys bio timeout_ms tr = (Inr u, tr') \<Longrightarrow> handshake_log tr' = handshake_log tr @ [(BIO_do_connect bio, 1)]"
  using timed_connect_log by (auto simp: establish_def success_simps split: if_splits)

lemma invoke_log: "invoke sys c tr = (Inr r, tr') \<Longrightarrow> handshake_log tr' = handshake_log tr @ handshake_event c r"
  by (auto simp: invoke_def Let_def)

lemma connect_bio_log:
  assumes "connect_bio sys c ctx bio tr = (Inr u, tr')"
  shows "\<exists>ssl ip param cert. ssl \<noteq> 0 \<and> cert \<noteq> 0 \<and> handshake_log tr' = handshake_log tr @
    [(BIO_get_ssl bio, ssl), (SSL_CTX_set_verify ctx (mode_of (m_tls_verification c)), 0)] @
    name_log (m_tls_verification c) ssl (m_host c) ip param @
    [(BIO_set_conn_hostname bio (c_str (m_host c)), 0), (BIO_set_conn_port bio (c_str (m_port c)), 0), (BIO_do_connect bio, 1)] @
    peer_log sys (m_tls_verification c) ssl cert"
proof -
  define r where "r = sys_call sys tr (BIO_get_ssl bio)"
  define t0 where "t0 = (BIO_get_ssl bio, r) # tr"
  have 0: "invoke sys (BIO_get_ssl bio) tr = (Inr r, t0)" by (simp add: invoke_def r_def t0_def Let_def)
  have nz: "out_value r \<noteq> 0"
    using assms by (auto simp: connect_bio_def Let_def throw_openssl_throws r_def)
  then have "bind_act (configure_tls_verification sys ctx (out_value r) (m_host c) (m_tls_verification c)) (\<lambda>_.
       bind_act (invoke sys (SSL_set_mode_auto_retry (out_value r))) (\<lambda>_.
       bind_act (invoke sys (BIO_set_conn_hostname bio (c_str (m_host c)))) (\<lambda>_.
       bind_act (invoke sys (BIO_set_conn_port bio (c_str (m_port c)))) (\<lambda>_.
       bind_act (establish sys bio (m_timeout_ms c)) (\<lambda>_.
       bind_act (ensure_tls_peer_verified sys (out_value r) (m_tls_verification c)) (\<lambda>_.
       apply_socket_io_timeout sys bio (m_timeout_ms c))))))) t0 = (Inr u, tr')"
    using assms by (simp only: connect_bio_def invoke_bind Let_def if_False flip: r_def t0_def)
  then obtain t1 t2 t3 t4 t5 t6 r2 r3 r4 u1 u5 u6 where
      "configure_tls_verification sys ctx (out_value r) (m_host c) (m_tls_verification c) t0 = (Inr u1, t1)"
      "invoke sys (SSL_set_mode_auto_retry (out_value r)) t1 = (Inr r2, t2)"
      "invoke sys (BIO_set_conn_hostname bio (c_str (m_host c))) t2 = (Inr r3, t3)"
      "invoke sys (BIO_set_conn_port bio (c_str (m_port c))) t3 = (Inr r4, t4)"
      "establish sys bio (m_timeout_ms c) t4 = (Inr u5, t5)"
      "ensure_tls_peer_verified sys (out_value r) (m_tls_verification c) t5 = (Inr u6, t6)"
      "apply_socket_io_timeout sys bio (m_timeout_ms c) t6 = (Inr u, tr')"
    unfolding bind_act_Inr_iff by blast
  note a = configure_log [OF this(1)] invoke_log [OF this(2)] invoke_log [OF this(3)] invoke_log [OF this(4)]
    establish_log [OF this(5)] ensure_log [OF this(6)] keeps_run [OF keeps_log_socket(3) refl this(7)]
  from a(1,6) obtain ip param cert where "cert \<noteq> 0"
      "handshake_log t1 = handshake_log t0 @ (SSL_CTX_set_verify ctx (mode_of (m_tls_verification c)), 0) #
         name_log (m_tls_verification c) (out_value r) (m_host c) ip param"
      "handshake_log t6 = handshake_log t5 @ peer_log sys (m_tls_verification c) (out_value r) cert" by blast
  then show ?thesis using nz invoke_log [OF 0] a(2-5,7) by (intro exI [of _ "out_value r"] exI [of _ ip] exI [of _ param] exI [of _ cert]) simp
qed

lemma open_ctx_log:
  assumes "open_ctx sys c tr = (Inr (ctx, bio), tr')"
  shows "\<exists>ssl ip param cert. ssl \<noteq> 0 \<and> cert \<noteq> 0 \<and>
    handshake_log tr' = handshake_log tr @ session_log sys c (m_tls_verification c) ctx bio ssl ip param cert"
proof -
  obtain t0 r where 0: "invoke sys (SSL_CTX_new (get_tls_client_method sys)) tr = (Inr r, t0)" "ret r = ctx"
      "open_bio sys c ctx t0 = (Inr bio, tr')"
    using assms unfolding open_ctx_def bind_act_Inr_iff by (auto simp: throw_openssl_throws on_throw_Inr_iff bind_act_Inr_iff simp del: invoke_bind split: if_splits)
  obtain t1 t2 t3 r3 u1 u2 u4 where
      "configure_tls_verification sys ctx 0 [] (m_tls_verification c) t0 = (Inr u1, t1)"
      "load_credentials sys c ctx t1 = (Inr u2, t2)"
      "invoke sys (BIO_new_ssl_connect ctx) t2 = (Inr r3, t3)" "ret r3 = bio" "connect_bio sys c ctx bio t3 = (Inr u4, tr')"
    using 0(3) unfolding open_bio_def bind_act_Inr_iff by (auto simp: throw_openssl_throws on_throw_Inr_iff bind_act_Inr_iff simp del: invoke_bind split: if_splits)
  note a = configure_log [OF this(1)] load_credentials_log [OF this(2)] invoke_log [OF this(3)] this(4) connect_bio_log [OF this(5)]
  have "handshake_log t1 = handshake_log t0 @ [(SSL_CTX_set_verify ctx (mode_of (m_tls_verification c)), 0)]"
    using a(1) by (simp add: name_log_def)
  with a(2-5) invoke_log [OF 0(1)] 0(2) show ?thesis by (fastforce simp: session_log_def)
qed

text \<open>The log only grows.\<close>

definition extends :: "(call \<times> int) list \<Rightarrow> trace \<Rightarrow> bool" where
  "extends l tr \<longleftrightarrow> (\<exists>l'. handshake_log tr = l @ l')"

lemma extends_self [simp]: "extends (handshake_log tr) tr"
  by (simp add: extends_def)

lemma keeps_extends_invoke: "keeps (extends l) (invoke sys c)"
  by (rule keeps_invoke) (auto simp: extends_def)

lemma keeps_on_throw [keeps_rules]: "keeps I m \<Longrightarrow> keeps I fin \<Longrightarrow> keeps I (on_throw m fin)"
  unfolding keeps_def by (auto simp: on_throw_def split: prod.split sum.split)

text \<open>Calls that neither make nor free a BIO nor move data over one, and what every invariant of these calls gains.\<close>

fun setup_call :: "call \<Rightarrow> bool" where
  "setup_call (BIO_new_ssl_connect _) = False"
| "setup_call (BIO_free_all _) = False"
| "setup_call (BIO_write _ _ _) = False"
| "setup_call (BIO_read _ _) = False"
| "setup_call _ = True"

locale setup_invariant =
  fixes I :: "trace \<Rightarrow> bool"
  assumes setup_step: "setup_call c \<Longrightarrow> I tr \<Longrightarrow> I ((c, r) # tr)"
begin

lemma keeps_setup: "setup_call c \<Longrightarrow> keeps I (invoke sys c)"
  by (rule keeps_invoke) (rule setup_step)

lemma keeps_setup_errors:
  "keeps I (getOpenSslError sys)" "keeps I (throw_openssl sys before after)" "keeps I (last_socket_error sys)"
  "keeps I (throw_socket sys before)" "keeps I (bio_fd sys bio)" "keeps I (clear_socket_error sys)"
  unfolding getOpenSslError_def throw_openssl_def last_socket_error_def throw_socket_def socket_error_string_def
    bio_fd_def clear_socket_error_def
  by (intro keeps_rules keeps_setup; simp)+

lemma keeps_setup_steps:
  "keeps I (configure_tls_verification sys ctx ssl host options)"
  "keeps I (ensure_tls_peer_verified sys ssl options)"
  "keeps I (wait_for_bio_retry sys bio deadline op timeout_ms)"
  "keeps I (restore_socket_blocking sys bio)"
  "keeps I (apply_socket_io_timeout sys bio timeout_ms)"
  "keeps I (load_credentials sys c ctx)"
  "keeps I (free_ctx sys ctx)" "keeps I (check_timeout sys bio r op timeout_ms)"
  unfolding configure_tls_verification_def ensure_tls_peer_verified_def wait_for_bio_retry_def
    restore_socket_blocking_def apply_socket_io_timeout_def load_credentials_def free_ctx_def
    is_ip_address_def get_peer_certificate_def check_verify_result_def poll_loop_def set_timeout_option_def expect_one_def
    check_timeout_def
  by (intro keeps_rules keeps_setup keeps_setup_errors; simp)+

lemma keeps_setup_connect: "keeps I (connect_bio sys c ctx bio)"
  unfolding connect_bio_def establish_def timed_connect_def connect_attempt_def expect_one_def Let_def
  by (intro keeps_rules keeps_setup keeps_setup_errors keeps_setup_steps; simp)

end

interpretation log_growth: setup_invariant "extends l" for l
  by unfold_locales (auto simp: extends_def)

lemma keeps_extends_open: "keeps (extends l) (open_ctx sys c)"
  unfolding open_ctx_def open_bio_def free_bio_def
  by (intro keeps_rules keeps_extends_invoke log_growth.keeps_setup_errors log_growth.keeps_setup_connect
      log_growth.keeps_setup_steps)

lemma keeps_logged_free: "keeps (logged l) (free_bio sys bio)" "keeps (logged l) (free_ctx sys ctx)"
  unfolding free_bio_def free_ctx_def by (intro keeps_rules; simp)+

lemma handshake_log_reset [simp]: "handshake_log (made_calls (snd (reset_handles sys s))) = handshake_log (made_calls s)"
  using keeps_logged_free by (simp add: reset_handles_def keeps_def)

lemma options_accepted:
  assumes "open_ctx sys c tr = (Inr x, tr')" "hostname_verification (m_tls_verification c)"
  shows "peer_verification (m_tls_verification c)"
  using assms by (rule_tac ccontr)
    (auto simp: open_ctx_def open_bio_def configure_tls_verification_def throw_openssl_throws bind_act_Inr_iff on_throw_Inr_iff split: if_splits)

text \<open>A session with these handles, set up and verified under \<open>options\<close>, is in the log.\<close>

definition session_in :: "tls_system \<Rightarrow> TlsVerificationOptions \<Rightarrow> NetClientOpenSSL \<Rightarrow> bool" where
  "session_in sys options s \<longleftrightarrow> (hostname_verification options \<longrightarrow> peer_verification options) \<and>
     (\<exists>before after ssl ip param peer. ssl \<noteq> 0 \<and> peer \<noteq> 0 \<and> handshake_log (made_calls s) =
        before @ session_log sys s options (tls_ctx s) (tls_bio s) ssl ip param peer @ after)"

lemma session_log_cong:
  "m_host t = m_host s \<Longrightarrow> m_port t = m_port s \<Longrightarrow> m_clientCertificateFn t = m_clientCertificateFn s \<Longrightarrow>
   m_clientKeyFn t = m_clientKeyFn s \<Longrightarrow> m_serverCaCertificateFn t = m_serverCaCertificateFn s \<Longrightarrow>
   session_log sys t = session_log sys s"
  by (simp add: session_log_def fun_eq_iff)

lemma connect_cases:
  assumes "connect sys s = (r, t)"
  obtains (failed) e bio ctx tr where "r = Inl e" "t = s\<lparr>tls_bio := bio, tls_ctx := ctx, made_calls := tr\<rparr>"
      "m_isConnected s \<Longrightarrow> bio = tls_bio s \<and> ctx = tls_ctx s" "extends (handshake_log (made_calls s)) tr"
  | (connected) bio ctx tr where "r = Inr True" "t = s\<lparr>tls_bio := bio, tls_ctx := ctx, made_calls := tr, m_isConnected := True\<rparr>"
      "session_in sys (m_tls_verification s) t"
proof -
  define s1 where "s1 = (if m_isConnected s then s else snd (reset_handles sys s))"
  have run: "connect sys s = bind_act (\<lambda>s. on_calls (open_ctx sys s) s) (\<lambda>(new_ctx, new_bio). adopt_handles sys new_ctx new_bio) s1"
    by (simp add: connect_def bind_act_def s1_def reset_handles_def)
  have log: "handshake_log (made_calls s1) = handshake_log (made_calls s)" by (simp add: s1_def)
  have s1: "s1\<lparr>made_calls := x\<rparr> = s\<lparr>tls_bio := tls_bio s1, tls_ctx := tls_ctx s1, made_calls := x\<rparr>"
    "m_isConnected s \<Longrightarrow> s1 = s" for x by (simp_all add: s1_def reset_handles_def)
  obtain q tr where o: "open_ctx sys s1 (made_calls s1) = (q, tr)" by (cases "open_ctx sys s1 (made_calls s1)")
  show ?thesis
  proof (cases q)
    case (Inl err)
    have "extends (handshake_log (made_calls s)) tr"
      using keeps_run [OF keeps_extends_open _ o, of "handshake_log (made_calls s)"] log by (simp add: extends_def)
    moreover have "r = Inl err" "t = s1\<lparr>made_calls := tr\<rparr>"
      using run o Inl assms by (simp_all add: bind_act_def on_calls_def)
    ultimately show ?thesis using s1 by (intro failed [where e = err and bio = "tls_bio s1" and ctx = "tls_ctx s1" and tr = tr]) simp_all
  next
    case (Inr hs)
    obtain c b where hs: "hs = (c, b)" by (cases hs)
    have t: "r = Inr True" "t = (snd (reset_handles sys (s1\<lparr>made_calls := tr\<rparr>)))\<lparr>tls_bio := b, tls_ctx := c, m_isConnected := True\<rparr>"
      using run o Inr hs assms by (simp_all add: bind_act_def on_calls_def adopt_handles_def reset_handles_def)
    define tr' where "tr' = made_calls t"
    have t': "t = s\<lparr>tls_bio := b, tls_ctx := c, made_calls := tr', m_isConnected := True\<rparr>" "handshake_log tr' = handshake_log tr"
      using handshake_log_reset [of sys "s1\<lparr>made_calls := tr\<rparr>"] by (simp_all add: tr'_def t(2)) (simp_all add: s1_def reset_handles_def)
    have c1: "session_log sys s1 = session_log sys s" "session_log sys t = session_log sys s" "m_tls_verification s1 = m_tls_verification s"
      using s1(1) t'(1) by (auto intro!: session_log_cong simp: s1_def reset_handles_def)
    have "session_in sys (m_tls_verification s) t"
      using open_ctx_log [of sys s1 "made_calls s1" c b tr] options_accepted [of sys s1 "made_calls s1" hs tr] o Inr hs t' c1 log
      unfolding session_in_def by (auto simp: c1) (metis append_Nil2)
    with t(1) t'(1) show ?thesis by (rule connected)
  qed
qed

lemma session_in_extend:
  assumes "session_in sys options s" "extends (handshake_log (made_calls s)) tr"
  shows "session_in sys options (s\<lparr>made_calls := tr\<rparr>)"
proof -
  have "session_log sys (s\<lparr>made_calls := tr\<rparr>) = session_log sys s" by (rule session_log_cong) simp_all
  with assms show ?thesis unfolding session_in_def extends_def by simp (metis append_assoc)
qed

text \<open>The invariant of a transport whose options were all among \<open>O\<close>.\<close>

definition sessions_ok :: "tls_system \<Rightarrow> TlsVerificationOptions set \<Rightarrow> NetClientOpenSSL \<Rightarrow> bool" where
  "sessions_ok sys opts s \<longleftrightarrow> m_tls_verification s \<in> opts \<and> (m_isConnected s \<longrightarrow> (\<exists>options\<in>opts. session_in sys options s))"

lemma connect_sessions: "sessions_ok sys opts s \<Longrightarrow> connect sys s = (r, t) \<Longrightarrow> sessions_ok sys opts t"
proof -
  assume s: "sessions_ok sys opts s" and c: "connect sys s = (r, t)"
  from c show ?thesis
  proof (cases rule: connect_cases)
    case (failed e bio ctx tr)
    show ?thesis
    proof (cases "m_isConnected s")
      case True
      with failed have "t = s\<lparr>made_calls := tr\<rparr>" by simp
      with True s failed(4) show ?thesis unfolding sessions_ok_def by (auto intro: session_in_extend)
    next
      case False
      with failed s show ?thesis by (simp add: sessions_ok_def)
    qed
  next
    case (connected bio ctx tr)
    with s show ?thesis by (auto simp: sessions_ok_def)
  qed
qed

lemma checkConnected_sessions: "sessions_ok sys opts s \<Longrightarrow> checkConnected sys s = (r, t) \<Longrightarrow> sessions_ok sys opts t"
  by (auto simp: checkConnected_def connect_sessions split: if_splits)

lemma on_calls_sessions:
  assumes "keeps (extends (handshake_log (made_calls s))) m" "sessions_ok sys opts s"
  shows "sessions_ok sys opts (snd (on_calls m s))"
proof -
  have "extends (handshake_log (made_calls s)) (snd (m (made_calls s)))" using assms(1) by (simp add: keeps_def)
  with assms(2) show ?thesis
    by (auto simp: sessions_ok_def on_calls_def split: prod.split intro!: session_in_extend bexI)
qed

lemma after_check_sessions:
  assumes "sessions_ok sys opts s" "\<And>t l. keeps (extends l) (m t)"
  shows "sessions_ok sys opts (snd (bind_act (checkConnected sys) (\<lambda>connected s. if \<not> connected then (Inr x, s) else on_calls (m s) s) s))"
proof -
  obtain r t where c: "checkConnected sys s = (r, t)" by (cases "checkConnected sys s")
  then show ?thesis
    using checkConnected_sessions [OF assms(1) c] on_calls_sessions [OF assms(2)] by (cases r) (simp_all add: bind_act_def)
qed

lemma run_op_sessions:
  assumes "sessions_ok sys opts s" "\<And>options. op = Set_verification options \<Longrightarrow> options \<in> opts"
  shows "sessions_ok sys opts (run_op sys op s)"
proof -
  note io = keeps_rules keeps_extends_invoke log_growth.keeps_setup_steps log_growth.keeps_setup_errors
  show ?thesis
  proof (cases op)
    case Connect
    then show ?thesis using connect_sessions [OF assms(1) surjective_pairing] by simp
  next
    case Close
    then show ?thesis using assms(1) by (simp add: tls_close_def reset_handles_def sessions_ok_def)
  next
    case (Send data)
    then show ?thesis using assms(1)
      by (simp only: run_op.simps tls_send_def) (erule after_check_sessions, intro io)
  next
    case (Recv n)
    then show ?thesis using assms(1)
      by (simp only: run_op.simps tls_recv_def) (erule after_check_sessions, intro io)
  next
    case (Set_verification options)
    then show ?thesis using assms session_log_cong [of "s\<lparr>m_tls_verification := options\<rparr>" s]
      by (auto simp: set_tls_verification_def sessions_ok_def session_in_def)
  qed
qed

lemma run_ops_sessions:
  "sessions_ok sys opts s \<Longrightarrow> {options. Set_verification options \<in> set ops} \<subseteq> opts \<Longrightarrow> sessions_ok sys opts (fold (run_op sys) ops s)"
proof (induction ops arbitrary: s)
  case (Cons op ops)
  then have "sessions_ok sys opts (run_op sys op s)" by (intro run_op_sessions) auto
  with Cons show ?case by auto
qed simp

text \<open>C4. Verification of the peer, for every behaviour of OpenSSL and the network: whenever a transport is
  connected, after any sequence of calls, its context and BIO were set up by exactly the calls
  \<open>session_log\<close>, in this order and with these results, under options that were configured: the
  verification mode set before the BIO was made, own certificate, key and trusted CA loaded and matching, with
  peer verification a certificate presented and verified as \<open>X509_V_OK\<close> after the completed handshake,
  and with host name verification the host given to the check, as an IP address or as a name.  Host name
  verification is never in force without peer verification.\<close>

theorem tls_session_verified:
  assumes "s = fold (run_op sys) ops (new_NetClientOpenSSL host port cert key ca timeout_ms options)" "m_isConnected s"
  shows "\<exists>opts \<in> insert options {opts. Set_verification opts \<in> set ops}.
    (hostname_verification opts \<longrightarrow> peer_verification opts) \<and>
    (\<exists>before after ssl ip param peer. ssl \<noteq> 0 \<and> peer \<noteq> 0 \<and>
       handshake_log (made_calls s) = before @ session_log sys s opts (tls_ctx s) (tls_bio s) ssl ip param peer @ after)"
proof -
  let ?opts = "insert options {opts. Set_verification opts \<in> set ops}"
  have "sessions_ok sys ?opts (new_NetClientOpenSSL host port cert key ca timeout_ms options)"
    by (simp add: sessions_ok_def new_NetClientOpenSSL_def)
  then have "sessions_ok sys ?opts s" unfolding assms(1) by (rule run_ops_sessions) auto
  with assms(2) show ?thesis by (auto simp: sessions_ok_def session_in_def)
qed

text \<open>A system on which every call succeeds, for concrete evaluations; the host is not an IP address.\<close>

fun quiet_reply :: "call \<Rightarrow> int" where
  "quiet_reply ERR_get_error = 0"
| "quiet_reply (a2i_IPADDRESS _) = 0"
| "quiet_reply (SSL_get_verify_result _) = 0"
| "quiet_reply (fcntl_F_GETFL _) = 0"
| "quiet_reply (fcntl_F_SETFL _ _) = 0"
| "quiet_reply (setsockopt _ _ _ _) = 0"
| "quiet_reply steady_clock_now = 0"
| "quiet_reply _ = 1"

definition quiet_system :: tls_system where
  "quiet_system = \<lparr>sys_call = (\<lambda>tr c. \<lparr>ret = quiet_reply c, out_value = 1, out_text = [], out_bytes = [7]\<rparr>),
     OPENSSL_VERSION_NUMBER = 0x30000000, LIBRESSL = False, EAGAIN = 11, EWOULDBLOCK = 11, ETIMEDOUT = 110,
     EINTR = 4, O_NONBLOCK = 2048\<rparr>"

definition quiet_client :: NetClientOpenSSL where
  "quiet_client = new_NetClientOpenSSL ''kmip.example'' ''5696'' ''c.pem'' ''k.pem'' ''ca.pem'' 0
     \<lparr>peer_verification = True, hostname_verification = True\<rparr>"

lemma quiet_connected: "m_isConnected (fold (run_op quiet_system) [Connect] quiet_client)"
  by (simp add: quiet_client_def new_NetClientOpenSSL_def connect_def bind_act_def [of "\<lambda>s. on_calls (open_ctx quiet_system s) s"]
      reset_handles_def free_bio_def free_ctx_def open_ctx_def open_bio_def connect_bio_def establish_def
      configure_tls_verification_def load_credentials_def expect_one_def is_ip_address_def ensure_tls_peer_verified_def
      get_peer_certificate_def check_verify_result_def apply_socket_io_timeout_def X509_V_OK_def on_throw_def
      on_calls_def adopt_handles_def quiet_system_def Let_def bind_act_def invoke_def return_act_def modern_openssl_def)

theorem tls_handles_owned_witness:
  "let s = fold (run_op quiet_system) [Connect] quiet_client in
   ledger (made_calls s) = Some (owned s) \<and> tls_bio s \<noteq> 0 \<and> tls_ctx s \<noteq> 0 \<and>
   ledger (made_calls (destroy_NetClientOpenSSL quiet_system s)) = Some {#}"
  using quiet_connected tls_handles_owned [of quiet_system "[Connect]" "''kmip.example''" "''5696''" "''c.pem''" "''k.pem''" "''ca.pem''" 0
      "\<lparr>peer_verification = True, hostname_verification = True\<rparr>", folded quiet_client_def]
  unfolding Let_def by blast

theorem tls_session_verified_witness:
  "let s = fold (run_op quiet_system) [Connect] quiet_client in
   \<exists>opts \<in> insert \<lparr>peer_verification = True, hostname_verification = True\<rparr> {opts. Set_verification opts \<in> set [Connect]}.
    (hostname_verification opts \<longrightarrow> peer_verification opts) \<and>
    (\<exists>before after ssl ip param peer. ssl \<noteq> 0 \<and> peer \<noteq> 0 \<and>
       handshake_log (made_calls s) = before @ session_log quiet_system s opts (tls_ctx s) (tls_bio s) ssl ip param peer @ after)"
  unfolding Let_def by (rule tls_session_verified [OF _ quiet_connected]) (simp only: quiet_client_def)

section \<open>The loops end\<close>

text \<open>The last reading of the clock, and whether \<open>poll\<close> was called since.\<close>

fun clock_read :: "trace \<Rightarrow> int option" where
  "clock_read [] = None"
| "clock_read ((steady_clock_now, r) # tr) = Some (ret r)"
| "clock_read (_ # tr) = clock_read tr"

fun polled :: "trace \<Rightarrow> bool" where
  "polled [] = False"
| "polled ((steady_clock_now, r) # tr) = False"
| "polled ((poll _ _ _, r) # tr) = True"
| "polled (_ # tr) = polled tr"

text \<open>
  The progress the code relies on.  \<open>queue\<close> bounds the OpenSSL error queue, which \<open>ERR_get_error\<close> empties;
  \<open>signals\<close> bounds the signals that still interrupt a \<open>poll\<close>; the steady clock never goes back, and it
  moves on between two readings with a \<open>poll\<close> between them.
\<close>

definition settles :: "tls_system \<Rightarrow> (trace \<Rightarrow> nat) \<Rightarrow> (trace \<Rightarrow> nat) \<Rightarrow> bool" where
  "settles sys queue signals \<longleftrightarrow>
     (\<forall>tr e r. ret (sys_call sys tr ERR_get_error) \<noteq> 0 \<longrightarrow>
        queue ((ERR_error_string_n e, r) # (ERR_get_error, sys_call sys tr ERR_get_error) # tr) < queue tr) \<and>
     (\<forall>tr fd events ms. let p = (poll fd events ms, sys_call sys tr (poll fd events ms)) in
        ret (snd p) < 0 \<and> ret (sys_call sys (p # tr) get_errno) = EINTR sys \<longrightarrow>
        signals ((get_errno, sys_call sys (p # tr) get_errno) # p # tr) < signals tr) \<and>
     (\<forall>tr t. clock_read tr = Some t \<longrightarrow> t \<le> ret (sys_call sys tr steady_clock_now) \<and>
        (polled tr \<longrightarrow> t < ret (sys_call sys tr steady_clock_now)))"

definition total_act :: "('s, 'a) action \<Rightarrow> bool" where
  "total_act m \<longleftrightarrow> (\<forall>s t. m s \<noteq> (Inl Diverges, t))"

named_theorems total_rules "rules for actions that do not run forever"

lemma total_bind [total_rules]: "total_act m \<Longrightarrow> (\<And>x. total_act (f x)) \<Longrightarrow> total_act (bind_act m f)"
  by (auto simp: total_act_def bind_act_Inl_iff)

lemma total_basic [total_rules]: "total_act (return_act x)" "total_act (throw_io msg)" "total_act (invoke sys c)"
  by (simp_all add: total_act_def throw_io_def lift_res_def kmip_io_exception_code_def invoke_def Let_def)

lemma total_if [total_rules]: "(b \<Longrightarrow> total_act m) \<Longrightarrow> (\<not> b \<Longrightarrow> total_act m') \<Longrightarrow> total_act (if b then m else m')"
  by simp

lemma total_option [total_rules]:
  "total_act m \<Longrightarrow> (\<And>x. total_act (f x)) \<Longrightarrow> total_act (case a of None \<Rightarrow> m | Some x \<Rightarrow> f x)"
  by (cases a) simp_all

lemma total_on_throw [total_rules]: "total_act m \<Longrightarrow> total_act (on_throw m fin)"
  by (auto simp: total_act_def on_throw_Inl_iff)

lemma total_expect_one [total_rules]: "total_act fail \<Longrightarrow> total_act (expect_one sys c fail)"
  unfolding expect_one_def by (intro total_rules)

text \<open>A loop whose rounds decrease a measure from the states of an invariant.\<close>

lemma loop_ends:
  assumes "\<And>a. total_act (body a)"
    and "\<And>a s a' t. I s \<Longrightarrow> body a s = (Inr (Inl a'), t) \<Longrightarrow> I t \<and> \<mu> t < (\<mu> s :: nat)"
    and "I s"
  shows "loop_act body a s \<noteq> (Inl Diverges, u)"
proof -
  have "I s \<Longrightarrow> \<exists>r t. loop_opt body a s = Some (r, t) \<and> r \<noteq> Inl Diverges" for a s
  proof (induction "\<mu> s" arbitrary: a s rule: less_induct)
    case less
    obtain q t where b: "body a s = (q, t)" by (cases "body a s")
    then have "q \<noteq> Inl Diverges" using assms(1) [of a] by (auto simp: total_act_def)
    with less b assms(2) [of s a] show ?case
      by (subst loop_opt.simps) (auto split: sum.splits)
  qed
  from this [OF assms(3), of a] show ?thesis by (auto simp: loop_act_def)
qed

lemma total_loop:
  assumes "\<And>a. total_act (body a)" "\<And>a s a' t. body a s = (Inr (Inl a'), t) \<Longrightarrow> \<mu> t < (\<mu> s :: nat)"
  shows "total_act (loop_act body a)"
  using loop_ends [of body "\<lambda>_. True" \<mu>] assms by (simp add: total_act_def)

text \<open>Everything below is for a system that settles.\<close>

lemma getOpenSslError_total:
  assumes "settles sys queue signals"
  shows "total_act (getOpenSslError sys)"
  unfolding getOpenSslError_def
proof (rule total_loop [where \<mu> = queue])
  show "queue t < queue s" if "bind_act (invoke sys ERR_get_error) (\<lambda>err. if ret err \<noteq> 0 then
      bind_act (invoke sys (ERR_error_string_n (ret err))) (\<lambda>buf. return_act (Inl (a @ c_str (out_text buf) @ ''; '')))
      else return_act (Inr (if a = [] then ''Unknown OpenSSL error'' else a))) s = (Inr (Inl a'), t)" for a a' s t
    using that assms by (auto simp: settles_def split: if_splits)
qed (intro total_rules)

lemma poll_loop_total:
  assumes "settles sys queue signals"
  shows "total_act (poll_loop sys fd events ms)"
  unfolding poll_loop_def
proof (rule total_loop [where \<mu> = signals])
  show "signals t < signals s" if "bind_act (invoke sys (poll fd events ms)) (\<lambda>poll_ret. if ret poll_ret < 0 then
      bind_act (last_socket_error sys) (\<lambda>err. return_act (if err = EINTR sys then Inl () else Inr (ret poll_ret)))
      else return_act (Inr (ret poll_ret))) s = (Inr (Inl a'), t)" for a a' s t
    using that assms by (auto simp: settles_def last_socket_error_def bind_act_assoc Let_def split: if_splits)
qed (unfold last_socket_error_def, intro total_rules)

lemma throws_total [total_rules]:
  "settles sys queue signals \<Longrightarrow> total_act (throw_openssl sys before after)"
  "total_act (last_socket_error sys)" "total_act (throw_socket sys before)" "total_act (bio_fd sys bio)"
  "total_act (clear_socket_error sys)"
  unfolding throw_openssl_def last_socket_error_def throw_socket_def socket_error_string_def bio_fd_def clear_socket_error_def
  by (intro total_rules getOpenSslError_total | assumption)+

lemma steps_total [total_rules]:
  "settles sys queue signals \<Longrightarrow> total_act (configure_tls_verification sys ctx ssl host options)"
  "total_act (ensure_tls_peer_verified sys ssl options)"
  "settles sys queue signals \<Longrightarrow> total_act (wait_for_bio_retry sys bio deadline op timeout_ms)"
  "total_act (restore_socket_blocking sys bio)"
  "total_act (apply_socket_io_timeout sys bio timeout_ms)"
  "settles sys queue signals \<Longrightarrow> total_act (load_credentials sys c ctx)"
  "total_act (check_timeout sys bio r op timeout_ms)"
  unfolding configure_tls_verification_def ensure_tls_peer_verified_def wait_for_bio_retry_def
    restore_socket_blocking_def apply_socket_io_timeout_def load_credentials_def is_ip_address_def
    get_peer_certificate_def check_verify_result_def set_timeout_option_def check_timeout_def
  by (intro total_rules poll_loop_total | assumption)+

text \<open>The attempts to connect: what a round that goes on leaves of the time.\<close>

lemma poll_loop_polls: "poll_loop sys fd events ms tr = (Inr x, tr') \<Longrightarrow> clock_read tr' = clock_read tr \<and> polled tr'"
  unfolding poll_loop_def
  by (erule loop_act_returns [where I = "\<lambda>t. clock_read t = clock_read tr"])
    (auto simp: last_socket_error_def bind_act_assoc split: if_splits)

lemma wait_reads_clock:
  assumes "wait_for_bio_retry sys bio deadline op timeout_ms tr = (Inr u, tr')" "settles sys queue signals" "clock_read tr = Some t"
  shows "\<exists>now. clock_read tr' = Some now \<and> polled tr' \<and> now < deadline \<and> t \<le> now \<and> (polled tr \<longrightarrow> t < now)"
  using assms(1,3) assms(2) [unfolded settles_def]
  by (auto simp: wait_for_bio_retry_def bio_fd_def bind_act_assoc bind_act_Inr_iff throw_socket_def last_socket_error_def
      socket_error_string_def dest!: poll_loop_polls split: if_splits)

definition time_left :: "int \<Rightarrow> trace \<Rightarrow> nat" where
  "time_left deadline tr = nat (deadline - the (clock_read tr)) + (if polled tr then 0 else 1)"

lemma connect_attempt_progress:
  assumes "connect_attempt sys bio deadline timeout_ms a tr = (Inr (Inl a'), tr')" "settles sys queue signals" "clock_read tr \<noteq> None"
  shows "clock_read tr' \<noteq> None \<and> time_left deadline tr' < time_left deadline tr"
proof -
  define tr1 where "tr1 = (ERR_clear_error, sys_call sys tr ERR_clear_error) # tr"
  define tr2 where "tr2 = (BIO_do_connect bio, sys_call sys tr1 (BIO_do_connect bio)) # tr1"
  define tr3 where "tr3 = (BIO_should_retry bio, sys_call sys tr2 (BIO_should_retry bio)) # tr2"
  obtain t where t: "clock_read tr = Some t" using assms(3) by blast
  then have 3: "clock_read tr3 = Some t" "polled tr3 = polled tr" by (simp_all add: tr3_def tr2_def tr1_def)
  have "wait_for_bio_retry sys bio deadline ''connect/handshake'' timeout_ms tr3 = (Inr (), tr')"
    using assms(1) by (auto simp: connect_attempt_def tr3_def tr2_def tr1_def bind_act_Inr_iff throw_openssl_throws split: if_splits)
  from wait_reads_clock [OF this assms(2) 3(1)] 3 t show ?thesis by (auto simp: time_left_def)
qed

lemma timed_connect_total [total_rules]:
  assumes "settles sys queue signals"
  shows "total_act (timed_connect sys bio timeout_ms)"
proof -
  let ?nb = "\<lambda>tr. (BIO_set_nbio bio 1, sys_call sys tr (BIO_set_nbio bio 1)) # tr"
  let ?now = "\<lambda>tr. (steady_clock_now, sys_call sys (?nb tr) steady_clock_now) # ?nb tr"
  have att: "total_act (connect_attempt sys bio d timeout_ms a)" for d a
    unfolding connect_attempt_def using assms by (intro total_rules)
  have loop: "loop_act (connect_attempt sys bio d timeout_ms) () (?now tr) \<noteq> (Inl Diverges, u)" for d tr u
    by (rule loop_ends [where I = "\<lambda>tr. clock_read tr \<noteq> None" and \<mu> = "time_left d", OF att])
      (use assms in \<open>auto dest: connect_attempt_progress\<close>)
  have "total_act (bind_act (restore_socket_blocking sys bio) (\<lambda>_. expect_one sys (BIO_set_nbio bio 0) (throw_io ''BIO_set_nbio(0) failed after connect'')))"
    by (intro total_rules)
  then show ?thesis
    using loop by (auto simp: total_act_def timed_connect_def expect_one_def bind_act_Inl_iff throw_io_def lift_res_def
        kmip_io_exception_code_def)
qed

lemma open_ctx_total:
  "settles sys queue signals \<Longrightarrow> total_act (open_ctx sys c)"
  unfolding open_ctx_def open_bio_def connect_bio_def establish_def Let_def by (intro total_rules)

lemma connect_returns: "settles sys queue signals \<Longrightarrow> connect sys s \<noteq> (Inl Diverges, t)"
  using open_ctx_total [of sys queue signals] unfolding total_act_def
  by (auto simp: connect_def bind_act_Inl_iff on_calls_def adopt_handles_def reset_handles_def split: prod.splits if_splits)

lemma after_check_returns:
  assumes "settles sys queue signals" "\<And>t. total_act (m t)"
  shows "bind_act (checkConnected sys) (\<lambda>connected s. if \<not> connected then (Inr x, s) else on_calls (m s) s) s \<noteq> (Inl Diverges, t)"
  using connect_returns [OF assms(1)] assms(2)
  by (auto simp: bind_act_Inl_iff checkConnected_def on_calls_def total_act_def split: prod.splits if_splits)

text \<open>C30. The transport comes back: on a system whose error queue is finite, whose signals end and whose clock
  moves on, \<open>connect\<close> with its retries, \<open>send\<close> and \<open>recv\<close> return or throw; none of the loops runs forever,
  however often the peer lets the handshake be retried.\<close>

theorem tls_calls_return:
  assumes "settles sys queue signals"
  shows "fst (connect sys s) \<noteq> Inl Diverges \<and> fst (tls_send sys data s) \<noteq> Inl Diverges \<and> fst (tls_recv sys n s) \<noteq> Inl Diverges"
proof (intro conjI)
  show "fst (connect sys s) \<noteq> Inl Diverges"
    using connect_returns [OF assms, of s "snd (connect sys s)"] by (metis prod.collapse)
  have "tls_send sys data s \<noteq> (Inl Diverges, t)" for t
    unfolding tls_send_def by (rule after_check_returns [OF assms]) (intro total_rules)
  then show "fst (tls_send sys data s) \<noteq> Inl Diverges" by (metis prod.collapse)
  have "tls_recv sys n s \<noteq> (Inl Diverges, t)" for t
    unfolding tls_recv_def by (rule after_check_returns [OF assms]) (intro total_rules)
  then show "fst (tls_recv sys n s) \<noteq> Inl Diverges" by (metis prod.collapse)
qed

text \<open>A peer that never completes the handshake: every attempt is to be retried and every poll is ready at
  once, while the clock moves on by a nanosecond per reading.\<close>

fun stalling_reply :: "trace \<Rightarrow> call \<Rightarrow> int" where
  "stalling_reply tr (BIO_do_connect _) = -1"
| "stalling_reply tr steady_clock_now = (case clock_read tr of None \<Rightarrow> 0 | Some t \<Rightarrow> t + 1)"
| "stalling_reply tr c = quiet_reply c"

definition stalling_system :: tls_system where
  "stalling_system = quiet_system\<lparr>sys_call := (\<lambda>tr c. \<lparr>ret = stalling_reply tr c, out_value = 1, out_text = [], out_bytes = []\<rparr>)\<rparr>"

lemma stalling_settles: "settles stalling_system (\<lambda>_. 0) (\<lambda>_. 0)"
  by (simp add: settles_def stalling_system_def)

theorem tls_calls_return_witness:
  "fst (connect stalling_system (quiet_client\<lparr>m_timeout_ms := 500\<rparr>)) \<noteq> Inl Diverges \<and>
   fst (tls_send stalling_system [1, 2] (quiet_client\<lparr>m_timeout_ms := 500\<rparr>)) \<noteq> Inl Diverges \<and>
   fst (tls_recv stalling_system 8 (quiet_client\<lparr>m_timeout_ms := 500\<rparr>)) \<noteq> Inl Diverges"
  by (rule tls_calls_return [OF stalling_settles])

end
