(* ===== verification/Locate_Paging.thy ===== *)
theory Locate_Paging
  imports Kmip_IO
begin

text \<open>
  The search of \<open>src/kmipclient/src/KmipClient.cpp\<close>: \<open>locate_all\<close> pages through the answer of a server,
  falls back to a single growing page when offsets are not honoured or ids are missing, and \<open>probe_all\<close>
  looks again with smaller pages.  The member \<open>locate_page\<close> they call is the argument \<open>page\<close>: offset, page
  size and response limit to the ids of the page and the number of located items, if reported.

  The set \<open>seen\<close> of \<open>std::unordered_set\<close> is a set.  The fallback loop doubles its page size; its measure is the
  distance to \<open>max_ids\<close>, which shrinks because the page size is positive.  A page size of zero would
  repeat forever: that branch is the value \<open>Diverges\<close>, and the lemmas show it is not reached.

  For every server the result has no duplicates, stays within the limit, holds only ids the server sent
  and takes a bounded number of requests.  For every server that answers with a slice of a fixed list,
  whether it honours offsets or not and whatever it reports as total, the result is that list.
\<close>

section \<open>Definitions\<close>

definition MAX_BATCHES_IN_SEARCH :: nat where
  "MAX_BATCHES_IN_SEARCH = 256"

definition MAX_ITEMS_IN_BATCH :: nat where
  "MAX_ITEMS_IN_BATCH = 256"

definition LOCATE_RESPONSE_BYTES_PER_ID :: nat where
  "LOCATE_RESPONSE_BYTES_PER_ID = DEFAULT_MAX_RESPONSE_SIZE div MAX_ITEMS_IN_BATCH"

type_synonym 's page_source = "nat \<Rightarrow> nat \<Rightarrow> nat \<Rightarrow> ('s, string list \<times> nat option) action"

record LocateOutcome =
  lo_ids :: "string list"
  lo_seen :: "string set"
  lo_confirmed_complete :: bool

definition locate_response_size_limit :: "nat \<Rightarrow> nat" where
  "locate_response_size_limit page_size =
     (if page_size > KMIP_MAX_MESSAGE_HARD_LIMIT div LOCATE_RESPONSE_BYTES_PER_ID then KMIP_MAX_MESSAGE_HARD_LIMIT
      else max (page_size * LOCATE_RESPONSE_BYTES_PER_ID) DEFAULT_MAX_RESPONSE_SIZE)"

definition located_total :: "nat option \<Rightarrow> nat \<Rightarrow> nat option" where
  "located_total located_items page_count =
     (case located_items of
        Some n \<Rightarrow> if n > page_count then Some n else None
      | None \<Rightarrow> None)"

text \<open>Appends the new ids of a page up to the limit; the flag tells whether anything was added.\<close>

fun merge_new_ids :: "nat \<Rightarrow> string list \<Rightarrow> string list \<times> string set \<times> bool \<Rightarrow> string list \<times> string set \<times> bool" where
  "merge_new_ids max_ids [] st = st"
| "merge_new_ids max_ids (i # page) (result, seen, added_any) =
     (if length result \<ge> max_ids then (result, seen, added_any)
      else if i \<notin> seen then merge_new_ids max_ids page (result @ [i], insert i seen, True)
      else merge_new_ids max_ids page (result, seen, added_any))"

definition merge_page :: "nat \<Rightarrow> string list \<Rightarrow> LocateOutcome \<Rightarrow> LocateOutcome" where
  "merge_page max_ids page out =
     (let (result, seen, _) = merge_new_ids max_ids page (lo_ids out, lo_seen out, False) in
      out\<lparr>lo_ids := result, lo_seen := seen\<rparr>)"

definition same_ids :: "string list \<Rightarrow> string list \<Rightarrow> bool" where
  "same_ids a b \<longleftrightarrow> set a = set b"

text \<open>The variables of the paging loop.\<close>

record search =
  se_outcome :: LocateOutcome
  se_offset :: nat
  se_known_total :: "nat option"
  se_finished :: bool
  se_stalled :: bool

text \<open>The loop body after the page was received; the flag tells whether the loop goes on.\<close>

definition paging_step :: "nat \<Rightarrow> nat \<Rightarrow> string list \<Rightarrow> nat option \<Rightarrow> search \<Rightarrow> search \<times> bool" where
  "paging_step max_ids page_size got located_items st =
     (if got = [] then
        (let stalled = (case se_known_total st of Some n \<Rightarrow> length (lo_ids (se_outcome st)) < n | None \<Rightarrow> False) in
         (st\<lparr>se_stalled := stalled, se_finished := \<not> stalled\<rparr>, False))
      else
        let known_before = length (lo_ids (se_outcome st));
            outcome = merge_page max_ids got (se_outcome st);
            size_now = length (lo_ids outcome);
            first_page = (se_offset st = 0);
            offset = se_offset st + length got;
            known_total = (case located_total located_items (length got) of
               Some n \<Rightarrow> Some n | None \<Rightarrow> se_known_total st);
            st = st\<lparr>se_outcome := outcome, se_offset := offset, se_known_total := known_total\<rparr> in
        if (case known_total of Some n \<Rightarrow> size_now \<ge> n | None \<Rightarrow> False) then
          (st\<lparr>se_outcome := outcome\<lparr>lo_confirmed_complete := True\<rparr>, se_finished := True\<rparr>, False)
        else if size_now \<ge> max_ids then (st\<lparr>se_finished := True\<rparr>, False)
        else if size_now - known_before < length got then (st\<lparr>se_stalled := True\<rparr>, False)
        else if (case known_total of Some n \<Rightarrow> offset \<ge> n | None \<Rightarrow> False) then
          (st\<lparr>se_stalled := True\<rparr>, False)
        else if length got < page_size \<and> known_total = None then
          (st\<lparr>se_outcome := outcome\<lparr>lo_confirmed_complete := first_page\<rparr>, se_finished := True\<rparr>, False)
        else (st, True))"

fun paging_loop :: "'s page_source \<Rightarrow> nat \<Rightarrow> nat \<Rightarrow> search \<Rightarrow> ('s, search) action" where
  "paging_loop page max_ids 0 st = lift_res (Inr st)"
| "paging_loop page max_ids (Suc batches) st =
     (if length (lo_ids (se_outcome st)) \<ge> max_ids then lift_res (Inr st)
      else
        let page_size = min (max_ids - length (lo_ids (se_outcome st))) MAX_ITEMS_IN_BATCH in
        bind_act (page (se_offset st) page_size DEFAULT_MAX_RESPONSE_SIZE) (\<lambda>(got, located_items).
          let (st', go_on) = paging_step max_ids page_size got located_items st in
          if go_on then paging_loop page max_ids batches st' else lift_res (Inr st')))"

text \<open>The body of the fallback after the page was received: the outcome, an error, or another round.\<close>

definition fallback_step ::
    "nat \<Rightarrow> nat \<Rightarrow> nat option \<Rightarrow> string list \<Rightarrow> nat option \<Rightarrow> LocateOutcome \<Rightarrow> LocateOutcome res option \<times> LocateOutcome" where
  "fallback_step max_ids page_size known_total got located_items out =
     (let known_before = length (lo_ids out);
          known_in_page = length (filter (\<lambda>i. i \<in> lo_seen out) (remdups got));
          out = merge_page max_ids got out;
          size_now = length (lo_ids out);
          total = (case located_total located_items (length got) of Some n \<Rightarrow> Some n | None \<Rightarrow> known_total) in
      if size_now \<ge> max_ids then (Some (Inr out), out)
      else if (case total of Some n \<Rightarrow> size_now \<ge> n | None \<Rightarrow> False) then
        (Some (Inr (out\<lparr>lo_confirmed_complete := True\<rparr>)), out)
      else if length got < page_size then
        (if known_in_page < known_before then
           (Some (Inl (kmip_exception (''Locate: a single page at offset 0 omits '' @
              nat_to_string (known_before - known_in_page) @ '' of the '' @ nat_to_string known_before @
              '' objects the server returned earlier; cannot determine the complete list''))), out)
         else case total of
             Some n \<Rightarrow> (Some (Inl (kmip_exception (''Locate: server reports '' @ nat_to_string n @
               '' located objects but returned only '' @ nat_to_string size_now @ '' distinct identifiers''))), out)
           | None \<Rightarrow> (Some (Inr (out\<lparr>lo_confirmed_complete := True\<rparr>)), out))
      else if page_size \<ge> max_ids then
        (Some (Inl (kmip_exception (''Locate: server returned a full page of '' @ nat_to_string page_size @
           '' identifiers containing only '' @ nat_to_string size_now @ '' distinct values''))), out)
      else (None, out))"

function fallback_loop ::
    "'s page_source \<Rightarrow> nat \<Rightarrow> nat option \<Rightarrow> nat \<Rightarrow> LocateOutcome \<Rightarrow> ('s, LocateOutcome) action" where
  "fallback_loop page max_ids known_total page_size out s =
     (if page_size = 0 then (Inl Diverges, s)
      else case page 0 page_size (locate_response_size_limit page_size) s of
          (Inl err, s') \<Rightarrow> (Inl err, s')
        | (Inr (got, located_items), s') \<Rightarrow>
          (case fallback_step max_ids page_size known_total got located_items out of
             (Some r, out') \<Rightarrow> (r, s')
           | (None, out') \<Rightarrow>
             if page_size < max_ids then
               fallback_loop page max_ids known_total
                 (if page_size > max_ids div 2 then max_ids else page_size * 2) out' s'
             else (Inl Diverges, s')))"
  by pat_completeness auto
termination
  by (relation "measure (\<lambda>(_, max_ids, _, page_size, _, _). max_ids - page_size)") auto

declare fallback_loop.simps [simp del]

definition empty_outcome :: LocateOutcome where
  "empty_outcome = \<lparr>lo_ids = [], lo_seen = {}, lo_confirmed_complete = False\<rparr>"

definition start_search :: search where
  "start_search =
     \<lparr>se_outcome = empty_outcome, se_offset = 0, se_known_total = None, se_finished = False, se_stalled = False\<rparr>"

definition fallback_start :: "nat \<Rightarrow> nat \<Rightarrow> nat" where
  "fallback_start max_ids known =
     min (if known > max_ids div 2 then max_ids else max (MAX_ITEMS_IN_BATCH * 2) (known * 2)) max_ids"

definition locate_all :: "'s page_source \<Rightarrow> nat \<Rightarrow> ('s, LocateOutcome) action" where
  "locate_all page max_ids =
     (if max_ids = 0 then lift_res (Inr (empty_outcome\<lparr>lo_confirmed_complete := True\<rparr>))
      else bind_act (paging_loop page max_ids MAX_BATCHES_IN_SEARCH start_search) (\<lambda>st.
        let known = length (lo_ids (se_outcome st));
            stalled = (se_stalled st \<or> \<not> se_finished st \<and> known < max_ids) in
        if \<not> stalled then lift_res (Inr (se_outcome st))
        else fallback_loop page max_ids (se_known_total st) (fallback_start max_ids known) (se_outcome st)))"

text \<open>One pass of \<open>probe_all\<close> with a fixed page size.\<close>

fun probe_loop :: "'s page_source \<Rightarrow> nat \<Rightarrow> nat \<Rightarrow> nat \<Rightarrow> nat \<Rightarrow> string list \<Rightarrow> LocateOutcome \<Rightarrow> ('s, LocateOutcome) action" where
  "probe_loop page max_ids probe_page_size 0 offset prev_page out = lift_res (Inr out)"
| "probe_loop page max_ids probe_page_size (Suc batches) offset prev_page out =
     (if length (lo_ids out) \<ge> max_ids then lift_res (Inr out)
      else bind_act (page offset probe_page_size DEFAULT_MAX_RESPONSE_SIZE) (\<lambda>(got, located_items).
        if got = [] then lift_res (Inr out)
        else
          let (result, seen, added_any) = merge_new_ids max_ids got (lo_ids out, lo_seen out, False);
              out' = out\<lparr>lo_ids := result, lo_seen := seen\<rparr> in
          if (case located_total located_items (length got) of
                Some n \<Rightarrow> offset + probe_page_size \<ge> n | None \<Rightarrow> False) then lift_res (Inr out')
          else if \<not> added_any \<and> (length got < probe_page_size \<or> same_ids got prev_page) then lift_res (Inr out')
          else probe_loop page max_ids probe_page_size batches (offset + probe_page_size) got out'))"

fun probe_passes :: "'s page_source \<Rightarrow> nat \<Rightarrow> nat list \<Rightarrow> LocateOutcome \<Rightarrow> ('s, LocateOutcome) action" where
  "probe_passes page max_ids [] out = lift_res (Inr out)"
| "probe_passes page max_ids (probe_page_size # sizes) out =
     bind_act (probe_loop page max_ids probe_page_size MAX_BATCHES_IN_SEARCH 0 [] out) (\<lambda>out'.
       if length (lo_ids out') \<ge> max_ids then lift_res (Inr out') else probe_passes page max_ids sizes out')"

definition probe_all :: "'s page_source \<Rightarrow> nat \<Rightarrow> LocateOutcome \<Rightarrow> ('s, LocateOutcome) action" where
  "probe_all page max_ids out = probe_passes page max_ids [256, 64, 16] out"

text \<open>\<open>op_all\<close> with its page function.\<close>

definition search_all :: "'s page_source \<Rightarrow> nat \<Rightarrow> ('s, string list) action" where
  "search_all page max_ids =
     (if max_ids = 0 then lift_res (Inr [])
      else bind_act (locate_all page max_ids) (\<lambda>out.
        if length (lo_ids out) \<ge> max_ids \<or> lo_confirmed_complete out then lift_res (Inr (lo_ids out))
        else bind_act (probe_all page max_ids out) (\<lambda>out'. lift_res (Inr (lo_ids out')))))"


section \<open>Merging pages\<close>

lemma merge_new_ids_sound:
  assumes "merge_new_ids max_ids page (r, seen, a) = (r', seen', a')" "distinct r" "seen = set r" "length r \<le> max_ids"
  shows "distinct r' \<and> seen' = set r' \<and> length r' \<le> max_ids \<and> set r' \<subseteq> set r \<union> set page \<and> length r \<le> length r' \<and>
    (a' \<longleftrightarrow> a \<or> r' \<noteq> r)"
  using assms
proof (induction page arbitrary: r seen a)
  case (Cons i page)
  show ?case
  proof (cases "length r < max_ids \<and> i \<notin> seen")
    case True
    with Cons.IH [of "r @ [i]" "insert i seen" True] Cons.prems show ?thesis by fastforce
  next
    case False
    with Cons.IH [of r seen a] Cons.prems show ?thesis by (auto split: if_splits)
  qed
qed auto

lemma merge_new_ids_distinct:
  assumes "distinct page"
  defines "new \<equiv> \<lambda>max_ids r. take (max_ids - length r) (filter (\<lambda>i. i \<notin> set r) page)"
  shows "\<exists>a'. merge_new_ids max_ids page (r, set r, a) = (r @ new max_ids r, set (r @ new max_ids r), a')"
  unfolding new_def using assms(1)
proof (induction page arbitrary: r a)
  case (Cons i page)
  have f: "filter (\<lambda>j. j \<notin> set (r @ [i])) page = filter (\<lambda>j. j \<notin> set r) page"
    using Cons.prems by (auto intro!: filter_cong)
  have d: "length r < max_ids \<Longrightarrow> max_ids - length r = Suc (max_ids - length (r @ [i]))" by simp
  show ?case
  proof (cases "length r < max_ids \<and> i \<notin> set r")
    case True
    with Cons.IH [of "r @ [i]" True] Cons.prems f d show ?thesis by auto
  next
    case False
    with Cons.IH [of r a] Cons.prems show ?thesis by auto
  qed
qed simp

section \<open>Any server\<close>

definition outcome_ok :: "(string \<Rightarrow> bool) \<Rightarrow> nat \<Rightarrow> LocateOutcome \<Rightarrow> bool" where
  "outcome_ok P max_ids out \<longleftrightarrow>
     distinct (lo_ids out) \<and> lo_seen out = set (lo_ids out) \<and> length (lo_ids out) \<le> max_ids \<and> list_all P (lo_ids out)"

lemma outcome_ok_merge:
  assumes "outcome_ok P max_ids out" "list_all P got"
  shows "outcome_ok P max_ids (merge_page max_ids got out)"
proof -
  obtain r seen a where m: "merge_new_ids max_ids got (lo_ids out, lo_seen out, False) = (r, seen, a)"
    by (cases "merge_new_ids max_ids got (lo_ids out, lo_seen out, False)") auto
  then have "merge_page max_ids got out = out\<lparr>lo_ids := r, lo_seen := seen\<rparr>" by (simp add: merge_page_def)
  then show ?thesis using merge_new_ids_sound [OF m] assms by (auto simp: outcome_ok_def list_all_iff)
qed

lemma outcome_ok_update [simp]:
  "outcome_ok P max_ids (out\<lparr>lo_confirmed_complete := b\<rparr>) = outcome_ok P max_ids out"
  by (simp add: outcome_ok_def)

lemma paging_step_ok:
  assumes "outcome_ok P max_ids (se_outcome st)" "list_all P got"
  shows "outcome_ok P max_ids (se_outcome (fst (paging_step max_ids page_size got located_items st)))"
  using assms(1) outcome_ok_merge [OF assms]
  by (simp add: paging_step_def Let_def split: option.splits)

definition sends :: "'s page_source \<Rightarrow> (string \<Rightarrow> bool) \<Rightarrow> bool" where
  "sends page P \<longleftrightarrow> (\<forall>off n lim s got total s'. page off n lim s = (Inr (got, total), s') \<longrightarrow> list_all P got)"

lemma paging_loop_ok:
  assumes "sends page P"
  shows "paging_loop page max_ids batches st s = (Inr st', s') \<Longrightarrow> outcome_ok P max_ids (se_outcome st) \<Longrightarrow>
    outcome_ok P max_ids (se_outcome st')"
proof (induction batches arbitrary: st s)
  case (Suc batches)
  show ?case
  proof (cases "max_ids \<le> length (lo_ids (se_outcome st))")
    case False
    let ?n = "min (max_ids - length (lo_ids (se_outcome st))) MAX_ITEMS_IN_BATCH"
    from Suc.prems(1) False obtain got total t where t: "page (se_offset st) ?n DEFAULT_MAX_RESPONSE_SIZE s = (Inr (got, total), t)"
        "(let (st1, go_on) = paging_step max_ids ?n got total st in
          if go_on then paging_loop page max_ids batches st1 else lift_res (Inr st1)) t = (Inr st', s')"
      by (auto simp: bind_act_Inr_iff Let_def)
    have "list_all P got" using assms t(1) unfolding sends_def by blast
    with Suc.prems(2) paging_step_ok have "outcome_ok P max_ids (se_outcome (fst (paging_step max_ids ?n got total st)))"
      by blast
    with t(2) Suc.IH show ?thesis by (auto split: prod.splits if_splits)
  qed (use Suc.prems in simp)
qed simp

lemma fallback_step_ok:
  assumes "fallback_step max_ids page_size known_total got located_items out = (r, out')"
    "outcome_ok P max_ids out" "list_all P got"
  shows "outcome_ok P max_ids out'" "r = Some (Inr out'') \<Longrightarrow> outcome_ok P max_ids out''"
    "r = None \<Longrightarrow> page_size < max_ids"
  using assms(1) outcome_ok_merge [OF assms(2,3)]
  by (auto simp: fallback_step_def Let_def split: if_splits option.splits)

lemma fallback_loop_cases:
  assumes "fallback_loop page max_ids known_total page_size out s = (Inr out', s')"
  obtains (stop) got total t out1 where "page_size \<noteq> 0"
      "page 0 page_size (locate_response_size_limit page_size) s = (Inr (got, total), t)"
      "fallback_step max_ids page_size known_total got total out = (Some (Inr out'), out1)"
  | (again) got total t out1 where "page_size \<noteq> 0"
      "page 0 page_size (locate_response_size_limit page_size) s = (Inr (got, total), t)"
      "fallback_step max_ids page_size known_total got total out = (None, out1)" "page_size < max_ids"
      "fallback_loop page max_ids known_total (if page_size > max_ids div 2 then max_ids else page_size * 2) out1 t = (Inr out', s')"
  using assms by (subst (asm) fallback_loop.simps) (auto split: prod.splits sum.splits if_splits option.splits)

lemma fallback_loop_ok:
  "fallback_loop page max_ids known_total page_size out s = (Inr out', s') \<Longrightarrow> sends page P \<Longrightarrow>
    outcome_ok P max_ids out \<Longrightarrow> outcome_ok P max_ids out'"
proof (induction page max_ids known_total page_size out s rule: fallback_loop.induct)
  case (1 page max_ids known_total page_size out s)
  from 1(2) show ?case
  proof (cases rule: fallback_loop_cases)
    case (stop got total t out1)
    then have "list_all P got" using 1(3) unfolding sends_def by blast
    with fallback_step_ok(2) [OF stop(3) 1(4)] show ?thesis by blast
  next
    case (again got total t out1)
    then have "list_all P got" using 1(3) unfolding sends_def by blast
    with fallback_step_ok(1) [OF again(3) 1(4)] again(5) 1(3)
    show ?thesis using 1(1) [OF again(1) again(2) [symmetric] refl refl again(3) [symmetric] refl again(4)] by blast
  qed
qed

lemma probe_loop_ok:
  assumes "sends page P"
  shows "probe_loop page max_ids n batches offset prev out s = (Inr out', s') \<Longrightarrow> outcome_ok P max_ids out \<Longrightarrow>
    outcome_ok P max_ids out'"
proof (induction batches arbitrary: offset prev out s)
  case (Suc batches)
  show ?case
  proof (cases "max_ids \<le> length (lo_ids out)")
    case False
    with Suc.prems(1) obtain got total t where t: "page offset n DEFAULT_MAX_RESPONSE_SIZE s = (Inr (got, total), t)"
      by (auto simp: bind_act_Inr_iff)
    have got: "list_all P got" using assms t unfolding sends_def by blast
    obtain r seen a where m: "merge_new_ids max_ids got (lo_ids out, lo_seen out, False) = (r, seen, a)"
      by (cases "merge_new_ids max_ids got (lo_ids out, lo_seen out, False)") auto
    have "outcome_ok P max_ids (out\<lparr>lo_ids := r, lo_seen := seen\<rparr>)"
      using outcome_ok_merge [OF Suc.prems(2) got] by (simp add: merge_page_def m)
    then show ?thesis using Suc.prems False Suc.IH by (auto simp: t m Let_def split: if_splits)
  qed (use Suc.prems in simp)
qed simp

lemma probe_passes_ok:
  assumes "sends page P"
  shows "probe_passes page max_ids sizes out s = (Inr out', s') \<Longrightarrow> outcome_ok P max_ids out \<Longrightarrow> outcome_ok P max_ids out'"
  by (induction sizes arbitrary: out s) (auto simp: bind_act_Inr_iff dest: probe_loop_ok [OF assms] split: if_splits)

lemma locate_all_ok:
  assumes "locate_all page max_ids s = (Inr out, s')" "sends page P"
  shows "outcome_ok P max_ids out"
proof (cases "max_ids = 0")
  case False
  have "outcome_ok P max_ids (se_outcome start_search)"
    by (simp add: start_search_def empty_outcome_def outcome_ok_def)
  with assms False show ?thesis
    by (auto simp: locate_all_def bind_act_Inr_iff Let_def split: if_splits
        dest!: paging_loop_ok [OF assms(2)] fallback_loop_ok)
qed (use assms in \<open>auto simp: locate_all_def empty_outcome_def outcome_ok_def\<close>)

lemma search_all_ok:
  assumes "search_all page max_ids s = (Inr ids, s')" "sends page P"
  shows "\<exists>out. outcome_ok P max_ids out \<and> ids = lo_ids out"
proof (cases "max_ids = 0")
  case True
  with assms show ?thesis by (auto simp: search_all_def outcome_ok_def intro!: exI [of _ empty_outcome] simp: empty_outcome_def)
next
  case False
  with assms(1) obtain out t where out: "locate_all page max_ids s = (Inr out, t)"
      "ids = lo_ids out \<or> (\<exists>out'. probe_passes page max_ids [256, 64, 16] out t = (Inr out', s') \<and> ids = lo_ids out')"
    by (auto simp: search_all_def probe_all_def bind_act_Inr_iff split: if_splits)
  have ok: "outcome_ok P max_ids out" by (rule locate_all_ok [OF out(1) assms(2)])
  from out(2) show ?thesis
  proof (elim disjE exE conjE)
    fix out' assume "probe_passes page max_ids [256, 64, 16] out t = (Inr out', s')" "ids = lo_ids out'"
    with probe_passes_ok [OF assms(2) _ ok] show ?thesis by blast
  qed (use ok in blast)
qed

text \<open>C32. A search never returns more than it was asked for: for every server the ids of \<open>op_all\<close> and of \<open>locate_all\<close>
  are distinct, at most \<open>max_ids\<close>, and each was sent by the server.\<close>

theorem search_sound:
  assumes "sends page P"
  shows "(\<forall>out s'. locate_all page max_ids s = (Inr out, s') \<longrightarrow>
      distinct (lo_ids out) \<and> length (lo_ids out) \<le> max_ids \<and> list_all P (lo_ids out)) \<and>
    (\<forall>ids s'. search_all page max_ids s = (Inr ids, s') \<longrightarrow> distinct ids \<and> length ids \<le> max_ids \<and> list_all P ids)"
  using locate_all_ok [OF _ assms] search_all_ok [OF _ assms] unfolding outcome_ok_def by blast

section \<open>Bounded number of requests\<close>

lemma paging_loop_count:
  assumes "\<forall>off n lim s. requests (snd (page off n lim s)) = requests s + (1 :: nat)"
  shows "requests (snd (paging_loop page max_ids batches st s)) \<le> requests s + batches"
proof (induction batches arbitrary: st s)
  case (Suc batches)
  let ?n = "min (max_ids - length (lo_ids (se_outcome st))) MAX_ITEMS_IN_BATCH"
  obtain r t where t: "page (se_offset st) ?n DEFAULT_MAX_RESPONSE_SIZE s = (r, t)" by fastforce
  with assms have "requests t = requests s + 1" by (metis snd_conv)
  then show ?case using Suc [of _ t] t
    by (auto simp: bind_act_def Let_def split: sum.splits prod.splits intro: le_SucI)
qed simp

lemma fallback_loop_count:
  "\<forall>off n lim s. requests (snd (page off n lim s)) = requests s + (1 :: nat) \<Longrightarrow> max_ids \<le> page_size * 2 ^ k \<Longrightarrow>
   requests (snd (fallback_loop page max_ids known_total page_size out s)) \<le> requests s + k + 1"
proof (induction page max_ids known_total page_size out s arbitrary: k rule: fallback_loop.induct)
  case (1 page max_ids known_total page_size out s)
  obtain r t where t: "page 0 page_size (locate_response_size_limit page_size) s = (r, t)" by fastforce
  with 1(2) have n: "requests t = requests s + 1" by (metis snd_conv)
  show ?case
  proof (cases "page_size \<noteq> 0 \<and> (\<exists>got total out1. r = Inr (got, total) \<and> page_size < max_ids \<and>
      fallback_step max_ids page_size known_total got total out = (None, out1))")
    case True
    then obtain got total out1 where g: "r = Inr (got, total)" "page_size < max_ids" "page_size \<noteq> 0"
      "fallback_step max_ids page_size known_total got total out = (None, out1)" by blast
    from g(2) 1(3) obtain k' where k: "k = Suc k'" by (cases k) auto
    let ?p = "if page_size > max_ids div 2 then max_ids else page_size * 2"
    have "max_ids \<le> ?p * 2 ^ k'" using 1(3) k by (simp add: mult.assoc)
    from 1(1) [OF g(3) t [symmetric] g(1) refl g(4) [symmetric] refl g(2) 1(2) this] n k g t
    show ?thesis by (subst fallback_loop.simps) simp
  next
    case False
    then show ?thesis using n t
      by (subst fallback_loop.simps) (auto split: sum.splits prod.splits option.splits)
  qed
qed

lemma fallback_loop_no_divergence:
  "\<forall>off n lim s. fst (page off n lim s) \<noteq> Inl Diverges \<Longrightarrow> 0 < page_size \<Longrightarrow>
   fst (fallback_loop page max_ids known_total page_size out s) \<noteq> Inl Diverges"
proof (induction page max_ids known_total page_size out s rule: fallback_loop.induct)
  case (1 page max_ids known_total page_size out s)
  obtain r t where t: "page 0 page_size (locate_response_size_limit page_size) s = (r, t)" by fastforce
  with 1(2) have "r \<noteq> Inl Diverges" by (metis fst_conv)
  then show ?case
  proof (cases r)
    case (Inr gt)
    obtain got total where g: "gt = (got, total)" by fastforce
    obtain x out1 where f: "fallback_step max_ids page_size known_total got total out = (x, out1)" by fastforce
    then have f': "x \<noteq> Some (Inl Diverges)" "x = None \<Longrightarrow> page_size < max_ids"
      by (auto simp: fallback_step_def Let_def kmip_exception_def split: if_splits option.splits)
    show ?thesis
    proof (cases x)
      case None
      have p: "0 < (if page_size > max_ids div 2 then max_ids else page_size * 2)" using 1(3) f'(2) None by simp
      have "page_size \<noteq> 0" using 1(3) by simp
      from 1(1) [OF this t [symmetric] Inr g [symmetric] f [symmetric] None f'(2) [OF None] 1(2) p] f'(2) [OF None]
      show ?thesis using 1(3) t Inr g f None by (subst fallback_loop.simps) simp
    qed (use t Inr g f f' 1(3) in \<open>subst fallback_loop.simps, simp\<close>)
  qed (use t 1(3) in \<open>subst fallback_loop.simps, simp\<close>)
qed

lemma fallback_start_pos: "0 < max_ids \<Longrightarrow> 0 < fallback_start max_ids known"
  by (simp add: fallback_start_def MAX_ITEMS_IN_BATCH_def less_max_iff_disj)

lemma fallback_start_large:
  assumes "max_ids < 2 ^ 64"
  shows "max_ids \<le> fallback_start max_ids known * 2 ^ 55"
proof (cases "fallback_start max_ids known = max_ids")
  case False
  then have "512 \<le> fallback_start max_ids known"
    by (auto simp: fallback_start_def MAX_ITEMS_IN_BATCH_def min_def split: if_splits)
  then have "512 * 2 ^ 55 \<le> fallback_start max_ids known * 2 ^ 55" by (rule mult_le_mono1)
  with assms show ?thesis by simp
qed simp

lemma paging_loop_no_divergence:
  assumes "\<forall>off n lim s. fst (page off n lim s) \<noteq> Inl Diverges"
  shows "fst (paging_loop page max_ids batches st s) \<noteq> Inl Diverges"
proof (induction batches arbitrary: st s)
  case (Suc batches)
  let ?n = "min (max_ids - length (lo_ids (se_outcome st))) MAX_ITEMS_IN_BATCH"
  obtain r t where t: "page (se_offset st) ?n DEFAULT_MAX_RESPONSE_SIZE s = (r, t)" by fastforce
  with assms have "r \<noteq> Inl Diverges" by (metis fst_conv)
  with Suc [of _ t] t show ?case by (auto simp: bind_act_def Let_def split: sum.splits prod.splits)
qed simp

lemma locate_all_count:
  assumes "\<forall>off n lim s. requests (snd (page off n lim s)) = requests s + (1 :: nat)"
    and "\<forall>off n lim s. fst (page off n lim s) \<noteq> Inl Diverges" "max_ids < 2 ^ 64"
  shows "requests (snd (locate_all page max_ids s)) \<le> requests s + 312 \<and> fst (locate_all page max_ids s) \<noteq> Inl Diverges"
proof (cases "max_ids = 0")
  case False
  obtain r t where r: "paging_loop page max_ids MAX_BATCHES_IN_SEARCH start_search s = (r, t)" by fastforce
  then have c: "requests t \<le> requests s + 256" "r \<noteq> Inl Diverges"
    using paging_loop_count [OF assms(1), of max_ids MAX_BATCHES_IN_SEARCH start_search s]
      paging_loop_no_divergence [OF assms(2), of max_ids MAX_BATCHES_IN_SEARCH start_search s]
    by (simp_all add: MAX_BATCHES_IN_SEARCH_def)
  have "requests (snd (fallback_loop page max_ids kt (fallback_start max_ids known) out t)) \<le> requests t + 55 + 1"
    "fst (fallback_loop page max_ids kt (fallback_start max_ids known) out t) \<noteq> Inl Diverges" for kt known out
    using fallback_loop_count [OF assms(1) fallback_start_large [OF assms(3)]]
      fallback_loop_no_divergence [OF assms(2) fallback_start_pos] False by blast+
  note f = this
  show ?thesis
  proof (cases r)
    case (Inr st)
    have "requests (snd (locate_all page max_ids s)) \<le> 56 + requests t \<and> fst (locate_all page max_ids s) \<noteq> Inl Diverges"
      using f r Inr False by (simp add: locate_all_def Let_def)
    with c show ?thesis by linarith
  qed (use r c False in \<open>auto simp: locate_all_def bind_act_def\<close>)
qed (simp add: locate_all_def)

text \<open>An action that ends after at most \<open>n\<close> requests.\<close>

definition ends_within :: "('s \<Rightarrow> nat) \<Rightarrow> nat \<Rightarrow> ('s, 'a) action \<Rightarrow> bool" where
  "ends_within requests n m \<longleftrightarrow> (\<forall>s. requests (snd (m s)) \<le> requests s + n \<and> fst (m s) \<noteq> Inl Diverges)"

lemma ends_bind:
  assumes "ends_within requests a m" "\<And>x. ends_within requests b (f x)"
  shows "ends_within requests (a + b) (bind_act m f)"
  unfolding ends_within_def
proof
  fix s
  obtain r t where t: "m s = (r, t)" by fastforce
  with assms(1) have m: "requests t \<le> requests s + a" "r \<noteq> Inl Diverges" by (auto simp: ends_within_def dest: spec [of _ s])
  show "requests (snd (bind_act m f s)) \<le> requests s + (a + b) \<and> fst (bind_act m f s) \<noteq> Inl Diverges"
  proof (cases r)
    case (Inr x)
    have "requests (snd (f x t)) \<le> requests t + b \<and> fst (f x t) \<noteq> Inl Diverges" using assms(2) by (simp add: ends_within_def)
    with m t Inr show ?thesis by simp
  qed (use m t in \<open>simp add: bind_act_def\<close>)
qed

lemma ends_return: "ends_within requests n (lift_res (Inr x))"
  by (simp add: ends_within_def)

lemma ends_if: "(b \<Longrightarrow> ends_within requests n m) \<Longrightarrow> (\<not> b \<Longrightarrow> ends_within requests n m') \<Longrightarrow> ends_within requests n (if b then m else m')"
  by simp

lemma probe_loop_ends:
  assumes "\<And>off n lim. ends_within requests 1 (page off n lim)"
  shows "ends_within requests batches (probe_loop page max_ids page_size batches off prev out)"
proof (induction batches arbitrary: off prev out)
  case (Suc batches)
  have "ends_within requests (1 + batches) (probe_loop page max_ids page_size (Suc batches) off prev out)"
    unfolding probe_loop.simps Let_def
    by (intro ends_if ends_return ends_bind assms) (auto intro: ends_return Suc split: prod.split)
  then show ?case by simp
qed (simp add: ends_return)

lemma probe_passes_ends:
  assumes "\<And>off n lim. ends_within requests 1 (page off n lim)"
  shows "ends_within requests (256 * length sizes) (probe_passes page max_ids sizes out)"
proof (induction sizes arbitrary: out)
  case (Cons page_size sizes)
  have "ends_within requests (MAX_BATCHES_IN_SEARCH + 256 * length sizes) (probe_passes page max_ids (page_size # sizes) out)"
    unfolding probe_passes.simps by (intro ends_if ends_return ends_bind probe_loop_ends assms Cons)
  then show ?case by (simp add: MAX_BATCHES_IN_SEARCH_def)
qed (simp add: ends_return)

text \<open>C31. A search ends: for any server, \<open>locate_all\<close> sends at most 312 requests, 256 of the paging loop and at most
  56 of the doubling fallback; the search of \<open>op_all\<close>, which may probe in three passes of at most 256 requests after it, sends at most
  1080; and neither runs into an endless loop of its own.\<close>

theorem locate_all_requests:
  assumes "\<forall>off n lim s. requests (snd (page off n lim s)) = requests s + (1 :: nat)"
    and "\<forall>off n lim s. fst (page off n lim s) \<noteq> Inl Diverges" "max_ids < 2 ^ 64"
  shows "requests (snd (locate_all page max_ids s)) \<le> requests s + 312 \<and> fst (locate_all page max_ids s) \<noteq> Inl Diverges \<and>
    requests (snd (search_all page max_ids s)) \<le> requests s + 1080 \<and> fst (search_all page max_ids s) \<noteq> Inl Diverges"
proof -
  have page: "ends_within requests 1 (page off n lim)" for off n lim using assms(1,2) by (simp add: ends_within_def)
  have l: "ends_within requests 312 (locate_all page max_ids)" using locate_all_count [OF assms] by (simp add: ends_within_def)
  have "ends_within requests 768 (probe_all page max_ids out)" for out
    using probe_passes_ends [of requests page "[256, 64, 16]", OF page] by (simp add: probe_all_def)
  from ends_bind [OF this ends_return [of requests 0]] have
    "ends_within requests 768 (bind_act (probe_all page max_ids out) (\<lambda>out'. lift_res (Inr (lo_ids out'))))" for out by simp
  from this have "ends_within requests (312 + 768) (search_all page max_ids)"
    unfolding search_all_def by (intro ends_if ends_return ends_bind [OF l])
  with l show ?thesis by (simp add: ends_within_def)
qed

section \<open>Servers that answer with slices of a list\<close>

text \<open>What a server reports as Located Items: nothing, the number of all matches (KMIP), or the number of
  ids in the response (as Cosmian KMS does).\<close>

datatype reporting = No_total | Match_count | Page_count

fun reported :: "reporting \<Rightarrow> string list \<Rightarrow> string list \<Rightarrow> nat option" where
  "reported No_total db got = None"
| "reported Match_count db got = Some (length db)"
| "reported Page_count db got = Some (length got)"

definition page_slice :: "bool \<Rightarrow> string list \<Rightarrow> nat \<Rightarrow> nat \<Rightarrow> string list" where
  "page_slice honours_offset db off n = take n (drop (if honours_offset then off else 0) db)"

text \<open>The pages a search with limit \<open>max_ids\<close> asks for, and a connection with invariant \<open>ok\<close> that serves them.\<close>

definition page_range :: "nat \<Rightarrow> nat \<Rightarrow> nat \<Rightarrow> bool" where
  "page_range max_ids off n \<longleftrightarrow> 0 < n \<and> n \<le> max max_ids MAX_ITEMS_IN_BATCH \<and>
     off \<le> max max_ids (MAX_BATCHES_IN_SEARCH * MAX_ITEMS_IN_BATCH)"

definition serves_list ::
    "('s \<Rightarrow> bool) \<Rightarrow> nat \<Rightarrow> 's page_source \<Rightarrow> bool \<Rightarrow> reporting \<Rightarrow> string list \<Rightarrow> bool" where
  "serves_list ok max_ids page honours_offset mode db \<longleftrightarrow> (\<forall>off n s. page_range max_ids off n \<and> ok s \<longrightarrow>
     (\<exists>s'. page off n (locate_response_size_limit n) s =
        (Inr (page_slice honours_offset db off n, reported mode db (page_slice honours_offset db off n)), s') \<and> ok s'))"

lemma served_page:
  assumes "serves_list ok max_ids page h mode db" "ok s" "page_range max_ids off n" "g = page_slice h db off n"
  obtains s' where "page off n (locate_response_size_limit n) s = (Inr (g, reported mode db g), s')" "ok s'"
  using assms unfolding serves_list_def by blast

lemma response_limit_small: "n \<le> MAX_ITEMS_IN_BATCH \<Longrightarrow> locate_response_size_limit n = DEFAULT_MAX_RESPONSE_SIZE"
  by (simp add: locate_response_size_limit_def LOCATE_RESPONSE_BYTES_PER_ID_def MAX_ITEMS_IN_BATCH_def
      KMIP_MAX_MESSAGE_HARD_LIMIT_def kmip_consts max_def)

definition slice_ok :: "string list \<Rightarrow> nat \<Rightarrow> LocateOutcome \<Rightarrow> bool" where
  "slice_ok db k out \<longleftrightarrow> k \<le> length db \<and> lo_ids out = take k db \<and> lo_seen out = set (take k db)"

definition total_ok :: "string list \<Rightarrow> nat option \<Rightarrow> bool" where
  "total_ok db t \<longleftrightarrow> t = None \<or> t = Some (length db)"

lemma located_total_reported: "total_ok db (located_total (reported mode db got) (length got))"
  by (cases mode) (simp_all add: located_total_def total_ok_def)

lemma slice_ok_length: "slice_ok db k out \<Longrightarrow> length (lo_ids out) = k"
  by (simp add: slice_ok_def)

lemma filter_slice:
  assumes "distinct db" "off \<le> k" "k \<le> length db"
  shows "filter (\<lambda>i. i \<notin> set (take k db)) (take n (drop off db)) = take (off + n - k) (drop k db)"
proof (cases "off + n \<le> k")
  case True
  have "set (take n (drop off db)) \<subseteq> set (take k db)"
    using True set_take_subset_set_take [of "off + n" k db] set_drop_subset [of off "take (off + n) db"]
    by (auto simp: take_drop add.commute)
  then show ?thesis using True by (auto simp: filter_empty_conv)
next
  case False
  let ?a = "take (k - off) (drop off db)" and ?b = "take (off + n - k) (drop k db)"
  have "n = (k - off) + (off + n - k)" using assms(2) False by simp
  then have "take n (drop off db) = take ((k - off) + (off + n - k)) (drop off db)" by simp
  also have "\<dots> = ?a @ ?b" unfolding take_add using assms(2) by simp
  finally have split: "take n (drop off db) = ?a @ ?b" .
  have "set ?a \<subseteq> set (take k db)"
    using set_drop_subset [of off "take k db"] assms(2) by (simp add: take_drop)
  moreover have "set ?b \<inter> set (take k db) = {}"
    using assms(1) set_take_disj_set_drop_if_distinct [of db k k] set_take_subset [of "off + n - k" "drop k db"] by blast
  ultimately have "filter (\<lambda>i. i \<notin> set (take k db)) ?a = []" "filter (\<lambda>i. i \<notin> set (take k db)) ?b = ?b"
    by (auto simp: filter_empty_conv filter_id_conv)
  then show ?thesis unfolding split by simp
qed

lemma merge_slice:
  assumes "distinct db" "slice_ok db k out" "off \<le> k" "k \<le> max_ids"
  shows "slice_ok db (min (min max_ids (max k (off + n))) (length db)) (merge_page max_ids (take n (drop off db)) out) \<and>
    lo_confirmed_complete (merge_page max_ids (take n (drop off db)) out) = lo_confirmed_complete out"
proof -
  have o: "lo_ids out = take k db" "lo_seen out = set (take k db)" "k \<le> length db" "length (take k db) = k"
    using assms(2) by (simp_all add: slice_ok_def)
  let ?new = "take (max_ids - k) (take (off + n - k) (drop k db))"
  have new: "take k db @ ?new = take (min max_ids (max k (off + n))) db"
  proof -
    have "take k db @ ?new = take (k + min (max_ids - k) (off + n - k)) db" by (simp add: take_add)
    also have "k + min (max_ids - k) (off + n - k) = min max_ids (max k (off + n))" using assms(4) by simp
    finally show ?thesis .
  qed
  obtain a where "merge_new_ids max_ids (take n (drop off db)) (take k db, set (take k db), False) =
      (take k db @ ?new, set (take k db @ ?new), a)"
    using merge_new_ids_distinct [of "take n (drop off db)" max_ids "take k db" False] assms(1)
    by (auto simp: filter_slice [OF assms(1,3) o(3)] min_absorb2 [OF o(3)])
  then show ?thesis unfolding new merge_page_def o(1,2)
    by (simp add: slice_ok_def min_def)
qed

text \<open>The invariant of the paging loop, and what holds when it ends.\<close>

definition paging_inv :: "bool \<Rightarrow> string list \<Rightarrow> nat \<Rightarrow> nat \<Rightarrow> search \<Rightarrow> bool" where
  "paging_inv honours_offset db max_ids k st \<longleftrightarrow>
     slice_ok db k (se_outcome st) \<and> k \<le> max_ids \<and> total_ok db (se_known_total st) \<and>
     \<not> se_finished st \<and> \<not> se_stalled st \<and>
     se_offset st = k \<and> (honours_offset \<or> k = 0 \<or> MAX_ITEMS_IN_BATCH \<le> k)"

definition search_done :: "string list \<Rightarrow> nat \<Rightarrow> search \<Rightarrow> bool" where
  "search_done db max_ids st \<longleftrightarrow>
     (\<exists>k. slice_ok db k (se_outcome st) \<and> k \<le> max_ids \<and> total_ok db (se_known_total st) \<and>
       (se_stalled st \<or> \<not> se_finished st \<and> k < max_ids \<or> lo_ids (se_outcome st) = take max_ids db))"

lemma slice_ok_update [simp]: "slice_ok db k (out\<lparr>lo_confirmed_complete := b\<rparr>) = slice_ok db k out"
  by (simp add: slice_ok_def)

lemma search_doneI:
  assumes "slice_ok db k (se_outcome st)" "k \<le> max_ids" "total_ok db (se_known_total st)"
    and "se_stalled st \<or> \<not> se_finished st \<and> k < max_ids \<or> k = max_ids \<or> k = length db"
  shows "search_done db max_ids st"
  using assms unfolding search_done_def by (intro exI [of _ k]) (auto simp: slice_ok_def)

lemma paging_step_slice:
  assumes inv: "paging_inv h db max_ids k st" and "distinct db" "k < max_ids"
    and n: "n = min (max_ids - k) MAX_ITEMS_IN_BATCH"
    and g: "g = page_slice h db (se_offset st) n"
    and step: "paging_step max_ids n g (reported mode db g) st = (st', go_on)"
  shows "if go_on then \<exists>k'. paging_inv h db max_ids k' st' else search_done db max_ids st'"
proof -
  define off where "off = (if h then se_offset st else 0)"
  have off: "off \<le> k" "g = take n (drop off db)"
    using inv by (auto simp: paging_inv_def g page_slice_def off_def split: if_splits)
  have sl: "slice_ok db k (se_outcome st)" "k \<le> length db" "total_ok db (se_known_total st)" "\<not> se_finished st" "\<not> se_stalled st"
    using inv by (simp_all add: paging_inv_def slice_ok_def)
  have n0: "0 < n" "k + n \<le> max_ids" "n \<le> MAX_ITEMS_IN_BATCH" using \<open>k < max_ids\<close> by (simp_all add: n MAX_ITEMS_IN_BATCH_def)
  show ?thesis
  proof (cases "g = []")
    case True
    then have "k = length db" using off n0 sl(2) by simp
    moreover from this have "st' = st\<lparr>se_stalled := False, se_finished := True\<rparr>" "\<not> go_on"
      using step True sl by (auto simp: paging_step_def slice_ok_length total_ok_def)
    ultimately show ?thesis using sl \<open>k < max_ids\<close> by (auto intro: search_doneI)
  next
    case False
    define out where "out = merge_page max_ids g (se_outcome st)"
    define k' where "k' = min (max k (off + n)) (length db)"
    define t where "t = (case located_total (reported mode db g) (length g) of Some n \<Rightarrow> Some n | None \<Rightarrow> se_known_total st)"
    define st1 where "st1 = st\<lparr>se_outcome := out, se_offset := se_offset st + length g, se_known_total := t\<rparr>"
    have "min max_ids (max k (off + n)) = max k (off + n)" using off(1) n0(2) by simp
    then have m: "slice_ok db k' out"
      using merge_slice [OF \<open>distinct db\<close> sl(1) off(1), of max_ids n] off(2) \<open>k < max_ids\<close> by (simp add: out_def k'_def)
    have k': "k' \<le> max_ids" "k' \<le> length db" using off(1) n0(2) by (simp_all add: k'_def)
    have tot: "total_ok db t"
      using located_total_reported [of db mode g] sl(3) by (auto simp: total_ok_def t_def split: option.split)
    have lg: "length g = min n (length db - off)" "0 < length g" using off(2) False by simp_all
    have fin: "search_done db max_ids (st1\<lparr>se_finished := True\<rparr>)"
        "search_done db max_ids (st1\<lparr>se_outcome := out\<lparr>lo_confirmed_complete := c\<rparr>, se_finished := True\<rparr>)"
      if "k' = max_ids \<or> k' = length db" for c
      using that m k' tot by (auto intro!: search_doneI [of db k'] simp: st1_def)
    have fin_stalled: "search_done db max_ids (st1\<lparr>se_stalled := True\<rparr>)"
      using m k' tot by (auto intro!: search_doneI [of db k'] simp: st1_def)
    have stp: "(st', go_on) =
       (if (case t of Some n \<Rightarrow> k' \<ge> n | None \<Rightarrow> False) then
          (st1\<lparr>se_outcome := out\<lparr>lo_confirmed_complete := True\<rparr>, se_finished := True\<rparr>, False)
        else if k' \<ge> max_ids then (st1\<lparr>se_finished := True\<rparr>, False)
        else if k' - k < length g then (st1\<lparr>se_stalled := True\<rparr>, False)
        else if (case t of Some n \<Rightarrow> se_offset st + length g \<ge> n | None \<Rightarrow> False) then (st1\<lparr>se_stalled := True\<rparr>, False)
        else if length g < n \<and> t = None then
          (st1\<lparr>se_outcome := out\<lparr>lo_confirmed_complete := (se_offset st = 0)\<rparr>, se_finished := True\<rparr>, False)
        else (st1, True))"
      using step False
      by (simp only: paging_step_def Let_def if_False slice_ok_length [OF m] slice_ok_length [OF sl(1)] eq_commute
            flip: out_def t_def st1_def)
    have stay: "paging_inv h db max_ids k' st1"
      if "k' < max_ids" "length g \<le> k' - k" "t = None \<longrightarrow> n \<le> length g"
        "\<forall>m. t = Some m \<longrightarrow> se_offset st + length g < m \<and> k' < m"
    proof (cases h)
      case True
      then have "off = k" "se_offset st = k" using inv by (simp_all add: off_def paging_inv_def)
      then have "se_offset st + length g = k'" using lg(1) sl(2) by (auto simp: k'_def)
      then show ?thesis using True m k' tot sl by (simp add: paging_inv_def st1_def)
    next
      case False
      then have "off = 0" by (simp add: off_def)
      then have "k = 0" using that(2) lg(2) n0(3) inv False by (auto simp: paging_inv_def k'_def)
      then have "n \<le> k'" using that(3,4) tot \<open>off = 0\<close> lg(1) by (auto simp: k'_def total_ok_def)
      moreover from this have "n = MAX_ITEMS_IN_BATCH" using that(1) n \<open>k = 0\<close> by (simp add: min_def split: if_splits)
      moreover have "se_offset st + length g = k'"
        using inv \<open>off = 0\<close> \<open>k = 0\<close> lg(1) by (simp add: paging_inv_def k'_def)
      ultimately show ?thesis using False m k' tot sl lg(2) by (simp add: paging_inv_def st1_def)
    qed
    have full: "k' = length db" if "t = None" "length g < n" "length g \<le> k' - k"
      using that(2,3) lg sl(2) off(1) by (auto simp: k'_def)
    show ?thesis
      using stp fin fin_stalled stay full tot k' by (auto simp: total_ok_def split: if_splits option.splits)
  qed
qed

lemma paging_loop_slice:
  assumes "serves_list ok max_ids page h mode db" "distinct db" "paging_inv h db max_ids k st" "ok s"
  shows "\<exists>st' s'. paging_loop page max_ids batches st s = (Inr st', s') \<and> search_done db max_ids st' \<and> ok s'"
  using assms(3,4)
proof (induction batches arbitrary: k st s)
  case 0
  then show ?case by (auto simp: paging_inv_def intro!: search_doneI [of db k])
next
  case (Suc batches)
  have len: "length (lo_ids (se_outcome st)) = k" using Suc.prems by (auto simp: paging_inv_def dest: slice_ok_length)
  show ?case
  proof (cases "k < max_ids")
    case True
    define n where "n = min (max_ids - k) MAX_ITEMS_IN_BATCH"
    define g where "g = page_slice h db (se_offset st) n"
    have "page_range max_ids (se_offset st) n" "n \<le> MAX_ITEMS_IN_BATCH"
      using True Suc.prems(1) by (auto simp: n_def page_range_def paging_inv_def MAX_ITEMS_IN_BATCH_def)
    with served_page [OF assms(1) Suc.prems(2) _ g_def]
    obtain s' where p: "page (se_offset st) n DEFAULT_MAX_RESPONSE_SIZE s = (Inr (g, reported mode db g), s')" "ok s'"
      by (metis response_limit_small)
    obtain st' go_on where step: "paging_step max_ids n g (reported mode db g) st = (st', go_on)" by fastforce
    from paging_step_slice [OF Suc.prems(1) assms(2) True n_def g_def step]
    have next_inv: "if go_on then \<exists>k'. paging_inv h db max_ids k' st' else search_done db max_ids st'" .
    have "paging_loop page max_ids (Suc batches) st s =
        (if go_on then paging_loop page max_ids batches st' s' else (Inr st', s'))"
      using True p(1) step by (simp add: len bind_act_def flip: n_def)
    with next_inv Suc.IH [OF _ p(2)] p(2) show ?thesis by (auto split: if_splits)
  next
    case False
    then have "search_done db max_ids st" using Suc.prems by (auto simp: paging_inv_def intro!: search_doneI [of db k])
    then show ?thesis using False len Suc.prems(2) by simp
  qed
qed

lemma filter_take: "distinct db \<Longrightarrow> filter (\<lambda>i. i \<in> set (take k db)) db = take k db"
proof -
  assume "distinct db"
  then have "set (drop k db) \<inter> set (take k db) = {}" using set_take_disj_set_drop_if_distinct [of db k k] by blast
  then have "filter (\<lambda>i. i \<in> set (take k db)) (take k db @ drop k db) = take k db"
    by (auto simp: filter_empty_conv simp del: append_take_drop_id)
  then show ?thesis by simp
qed

lemma fallback_step_slice:
  assumes "distinct db" "slice_ok db k out" "k \<le> max_ids" "total_ok db t" "0 < n" "n \<le> max_ids"
  shows "case fallback_step max_ids n t (take n db) (reported mode db (take n db)) out of
      (Some r, out') \<Rightarrow> \<exists>out'. r = Inr out' \<and> slice_ok db (min max_ids (length db)) out'
    | (None, out') \<Rightarrow> n < max_ids \<and> (\<exists>k'. slice_ok db k' out' \<and> k' \<le> max_ids)"
proof -
  define out' where "out' = merge_page max_ids (take n db) out"
  define k' where "k' = min (max k n) (length db)"
  have "min max_ids (max k n) = max k n" using assms(3,6) by simp
  then have m: "slice_ok db k' out'"
    using merge_slice [OF assms(1,2), of 0 max_ids n] assms(3) by (simp add: out'_def k'_def)
  have k': "k' \<le> max_ids" "k' \<le> length db" using assms(3,6) by (auto simp: k'_def)
  have o: "lo_seen out = set (take k db)" "k \<le> length db" "length (lo_ids out) = k" using assms(2) by (simp_all add: slice_ok_def)
  define t' where "t' = (case located_total (reported mode db (take n db)) (length (take n db)) of Some n \<Rightarrow> Some n | None \<Rightarrow> t)"
  have t': "total_ok db t'"
    using located_total_reported [of db mode "take n db"] assms(4) by (auto simp: total_ok_def t'_def split: option.split)
  have known: "length (filter (\<lambda>i. i \<in> set (take k db)) (remdups (take n db))) = k" if "length db < n"
    using that assms(1) o(2) by (simp add: filter_take distinct_remdups_id)
  have res: "slice_ok db (min max_ids (length db)) out'" if "k' = max_ids \<or> k' = length db"
    using that m k' by (auto simp: min_def)
  have reach: "length db < n \<Longrightarrow> k' = length db" "n \<le> length db \<Longrightarrow> n \<le> k'" by (simp_all add: k'_def)
  show ?thesis
    using m k' t' res known reach assms(6) unfolding fallback_step_def Let_def out'_def [symmetric] t'_def [symmetric]
    by (auto simp: slice_ok_length [OF m] o(1,3) total_ok_def split: option.splits if_splits)
qed

lemma fallback_loop_slice:
  assumes "distinct db"
  shows "\<lbrakk>slice_ok db k out; k \<le> max_ids; total_ok db t; 0 < n; n \<le> max_ids; serves_list ok max_ids page h mode db; ok s\<rbrakk> \<Longrightarrow>
    \<exists>out' s'. fallback_loop page max_ids t n out s = (Inr out', s') \<and> slice_ok db (min max_ids (length db)) out' \<and> ok s'"
proof (induction page max_ids t n out s arbitrary: k rule: fallback_loop.induct)
  case (1 page max_ids t n out s)
  have "page_range max_ids 0 n" using 1(5,6) by (simp add: page_range_def)
  then obtain s' where p: "page 0 n (locate_response_size_limit n) s = (Inr (take n db, reported mode db (take n db)), s')" "ok s'"
    using served_page [OF 1(7,8), of 0 n "take n db"] by (auto simp: page_slice_def)
  note step = fallback_step_slice [OF assms 1(2-6), of mode]
  obtain x out' where f: "fallback_step max_ids n t (take n db) (reported mode db (take n db)) out = (x, out')"
    by fastforce
  show ?case
  proof (cases x)
    case None
    then obtain k' where k': "n < max_ids" "slice_ok db k' out'" "k' \<le> max_ids" using step f by auto
    let ?n' = "if n > max_ids div 2 then max_ids else n * 2"
    have "0 < ?n'" "?n' \<le> max_ids" using 1(5) k'(1) by auto
    moreover have "n \<noteq> 0" using 1(5) by simp
    ultimately have "\<exists>out'' s''. fallback_loop page max_ids t ?n' out' s' = (Inr out'', s'') \<and>
        slice_ok db (min max_ids (length db)) out'' \<and> ok s''"
      using 1(1) [OF _ p(1) [symmetric] refl refl f [symmetric] None k'(1,2,3) 1(4) _ _ 1(7) p(2)] by blast
    then show ?thesis using p f None k'(1) 1(5) by (subst fallback_loop.simps) simp
  next
    case (Some r)
    then have "\<exists>out'. r = Inr out' \<and> slice_ok db (min max_ids (length db)) out'" using step f by simp
    then show ?thesis using p f Some 1(5) by (subst fallback_loop.simps) simp
  qed
qed

lemma locate_all_slice:
  assumes "serves_list ok max_ids page h mode db" "distinct db" "ok s"
  shows "\<exists>out s'. locate_all page max_ids s = (Inr out, s') \<and> slice_ok db (min max_ids (length db)) out \<and> ok s'"
proof (cases "max_ids = 0")
  case False
  have "paging_inv h db max_ids 0 start_search"
    by (simp add: paging_inv_def start_search_def slice_ok_def empty_outcome_def total_ok_def)
  then obtain st s' where p: "paging_loop page max_ids MAX_BATCHES_IN_SEARCH start_search s = (Inr st, s')"
      "search_done db max_ids st" "ok s'"
    using paging_loop_slice [OF assms(1,2) _ assms(3)] by blast
  obtain k where k: "slice_ok db k (se_outcome st)" "k \<le> max_ids" "total_ok db (se_known_total st)"
    "se_stalled st \<or> \<not> se_finished st \<and> k < max_ids \<or> lo_ids (se_outcome st) = take max_ids db"
    using p(2) by (auto simp: search_done_def)
  have start: "0 < fallback_start max_ids k" "fallback_start max_ids k \<le> max_ids"
    using fallback_start_pos False by (simp_all add: fallback_start_def)
  show ?thesis
  proof (cases "se_stalled st \<or> \<not> se_finished st \<and> k < max_ids")
    case True
    then show ?thesis
      using fallback_loop_slice [OF assms(2) k(1-3) start assms(1) p(3)] p False
      by (auto simp: locate_all_def bind_act_def slice_ok_length [OF k(1)])
  next
    case fin: False
    then have "lo_ids (se_outcome st) = take max_ids db" using k(4) by blast
    then have "k = min max_ids (length db)" using slice_ok_length [OF k(1)] by simp
    then have "slice_ok db (min max_ids (length db)) (se_outcome st)" using k(1) by simp
    then show ?thesis using p False fin by (simp add: locate_all_def bind_act_def slice_ok_length [OF k(1)])
  qed
qed (use assms(3) in \<open>simp add: locate_all_def slice_ok_def empty_outcome_def\<close>)

text \<open>Probing a server whose list is already complete adds nothing.\<close>

lemma merge_known: "set g \<subseteq> seen \<Longrightarrow> merge_new_ids max_ids g (result, seen, a) = (result, seen, a)"
  by (induction g) auto

lemma probe_loop_slice:
  assumes "serves_list ok max_ids page h mode db" "0 < n" "n \<le> MAX_ITEMS_IN_BATCH" "slice_ok db (min max_ids (length db)) out"
  shows "off + batches * n \<le> MAX_BATCHES_IN_SEARCH * MAX_ITEMS_IN_BATCH \<Longrightarrow> ok s \<Longrightarrow>
    \<exists>s'. probe_loop page max_ids n batches off prev out s = (Inr out, s') \<and> ok s'"
proof (induction batches arbitrary: off prev s)
  case (Suc batches)
  show ?case
  proof (cases "max_ids \<le> length db")
    case False
    define g where "g = page_slice h db off n"
    have o: "lo_ids out = db" "lo_seen out = set db" using assms(4) False by (simp_all add: slice_ok_def)
    have "page_range max_ids off n" using assms(2,3) Suc.prems(1) by (simp add: page_range_def le_max_iff_disj)
    with served_page [OF assms(1) Suc.prems(2) _ g_def]
    obtain s' where p: "page off n DEFAULT_MAX_RESPONSE_SIZE s = (Inr (g, reported mode db g), s')" "ok s'"
      by (metis response_limit_small assms(3))
    have "set g \<subseteq> set db" by (auto simp: g_def page_slice_def dest: in_set_takeD in_set_dropD)
    then have m: "merge_new_ids max_ids g (db, set db, False) = (db, set db, False)" by (rule merge_known)
    have [simp]: "out\<lparr>lo_ids := db, lo_seen := set db\<rparr> = out" using o by (cases out) simp
    have "\<exists>s''. probe_loop page max_ids n batches (off + n) g out s' = (Inr out, s'') \<and> ok s''"
      using Suc.IH [of "off + n" s' g] Suc.prems(1) p(2) by (simp add: algebra_simps)
    then show ?thesis using False p m o by (auto simp: bind_act_def Let_def)
  qed (use assms(4) slice_ok_length Suc.prems(2) in auto)
qed simp

lemma probe_passes_slice:
  assumes "serves_list ok max_ids page h mode db" "slice_ok db (min max_ids (length db)) out"
  shows "list_all (\<lambda>n. 0 < n \<and> n \<le> MAX_ITEMS_IN_BATCH) sizes \<Longrightarrow> ok s \<Longrightarrow>
    \<exists>s'. probe_passes page max_ids sizes out s = (Inr out, s') \<and> ok s'"
proof (induction sizes arbitrary: s)
  case (Cons n sizes)
  have "0 + MAX_BATCHES_IN_SEARCH * n \<le> MAX_BATCHES_IN_SEARCH * MAX_ITEMS_IN_BATCH" using Cons.prems(1) by simp
  then obtain s' where "probe_loop page max_ids n MAX_BATCHES_IN_SEARCH 0 [] out s = (Inr out, s')" "ok s'"
    using probe_loop_slice [OF assms(1) _ _ assms(2), of n 0 MAX_BATCHES_IN_SEARCH s "[]"] Cons.prems by auto
  with Cons.IH [of s'] Cons.prems(1) show ?case by (auto simp: bind_act_def)
qed simp

lemma search_all_slice:
  assumes "serves_list ok max_ids page h mode db" "distinct db" "ok s"
  shows "\<exists>s'. search_all page max_ids s = (Inr (take max_ids db), s') \<and> ok s'"
proof -
  obtain out s' where l: "locate_all page max_ids s = (Inr out, s')" "slice_ok db (min max_ids (length db)) out" "ok s'"
    using locate_all_slice [OF assms] by blast
  have ids: "lo_ids out = take max_ids db" using l(2) by (auto simp: slice_ok_def min_def)
  obtain s'' where p: "probe_all page max_ids out s' = (Inr out, s'')" "ok s''"
    using probe_passes_slice [OF assms(1) l(2), of "[256, 64, 16]" s'] l(3) by (auto simp: probe_all_def MAX_ITEMS_IN_BATCH_def)
  show ?thesis using l p ids assms(3) by (simp add: search_all_def bind_act_def)
qed

text \<open>C11. Against a server that answers with slices of one list of distinct identifiers, the search finds the whole
  list up to the limit: whether the server honours Offset Items or always starts at the beginning, and whether it
  reports no total, the number of matches or the number of ids in the page.  Neither the fallback nor the
  probing of \<open>op_all\<close> fails, loses an identifier or adds one.  The server need only answer the pages a search
  can ask for, in the states it reaches.\<close>

theorem locate_all_complete:
  assumes "serves_list ok max_ids page honours_offset mode db" "distinct db" "ok s"
  shows "(\<exists>out s'. locate_all page max_ids s = (Inr out, s') \<and> lo_ids out = take max_ids db \<and> ok s') \<and>
    (\<exists>s'. search_all page max_ids s = (Inr (take max_ids db), s') \<and> ok s')"
proof -
  obtain out s' where l: "locate_all page max_ids s = (Inr out, s')" "slice_ok db (min max_ids (length db)) out" "ok s'"
    using locate_all_slice [OF assms] by blast
  have "lo_ids out = take max_ids db" using l(2) by (auto simp: slice_ok_def min_def)
  with l search_all_slice [OF assms] show ?thesis by blast
qed

text \<open>A server of a fixed list that counts its requests.\<close>

definition list_server :: "bool \<Rightarrow> reporting \<Rightarrow> string list \<Rightarrow> nat page_source" where
  "list_server honours_offset mode db off n lim s =
     (Inr (page_slice honours_offset db off n, reported mode db (page_slice honours_offset db off n)), Suc s)"

lemma list_server_serves: "serves_list (\<lambda>_. True) max_ids (list_server h mode db) h mode db"
  by (simp add: serves_list_def list_server_def)

lemma distinct_list_server: "distinct [''a'', ''b'', ''c'']"
  by simp

theorem locate_all_complete_witness:
  "fst (search_all (list_server False Page_count [''a'', ''b'', ''c'']) 2 0) = Inr [''a'', ''b''] \<and>
   fst (search_all (list_server True No_total [''a'', ''b'', ''c'']) 9 0) = Inr [''a'', ''b'', ''c'']"
  using locate_all_complete [OF list_server_serves [of 2 False Page_count "[''a'', ''b'', ''c'']"] distinct_list_server, of 0]
    locate_all_complete [OF list_server_serves [of 9 True No_total "[''a'', ''b'', ''c'']"] distinct_list_server, of 0]
  by (auto simp: numeral_eq_Suc)

theorem locate_all_requests_witness:
  "snd (locate_all (list_server False Match_count [''a'', ''b'', ''c'']) 700 0) \<le> 312 \<and>
   snd (search_all (list_server False Match_count [''a'', ''b'', ''c'']) 700 0) \<le> 1080"
  using locate_all_requests [of "\<lambda>s. s" "list_server False Match_count [''a'', ''b'', ''c'']" 700 0]
  by (simp add: list_server_def)

theorem search_sound_witness:
  "\<exists>out s'. locate_all (list_server False No_total [''a'', ''b'', ''c'']) 2 0 = (Inr out, s') \<and>
     distinct (lo_ids out) \<and> length (lo_ids out) \<le> 2 \<and> list_all (\<lambda>i. i \<in> {''a'', ''b'', ''c''}) (lo_ids out)"
proof -
  have s: "sends (list_server False No_total [''a'', ''b'', ''c'']) (\<lambda>i. i \<in> {''a'', ''b'', ''c''})"
    by (auto simp: sends_def list_server_def page_slice_def list_all_iff dest: in_set_takeD)
  obtain out s' where "locate_all (list_server False No_total [''a'', ''b'', ''c'']) 2 0 = (Inr out, s')"
    using locate_all_slice [OF list_server_serves [of 2 False No_total "[''a'', ''b'', ''c'']"] distinct_list_server, of 0]
    by blast
  with search_sound [OF s] show ?thesis by blast
qed

end
