(* ===== verification/Kmip_Client.thy ===== *)
theory Kmip_Client
  imports Response_Parser Client_Keys Locate_Paging
begin

text \<open>
  \<open>src/kmipclient/src/KmipClient.cpp\<close> and \<open>KmipClient.hpp\<close>: the client object and its operations.  An
  operation builds a request, sends it through \<open>do_exchange\<close> of \<open>Kmip_IO\<close>, parses the answer with the
  \<open>ResponseParser\<close> of \<open>Response_Parser\<close> and reads it through the typed view; a search uses the paging of
  \<open>Locate_Paging\<close> with the client's \<open>locate_page\<close>.

  The code not in the sources is the record \<open>client_env\<close>: the build, the wall clock (read off the state of
  the transport, the only state outside the client) and the number of bytes that \<open>d2i_X509_PUBKEY\<close>
  consumes.  The error queue of OpenSSL, which \<open>is_subject_public_key_info\<close> leaves as it found it, is not
  modelled.  A moved-from client has no \<open>IOUtils\<close>; using it dereferences a null \<open>unique_ptr\<close>, the branch
  \<open>Assertion_abort\<close>.
\<close>

section \<open>The client object\<close>

record 'n client_env =
  ce_platform :: platform
  ce_time :: "'n \<Rightarrow> i64"
  ce_d2i_X509_PUBKEY :: "byte list \<Rightarrow> nat option"

record 'n KmipClient =
  kc_net_client :: "'n net_client option"
  kc_net_client_owner :: "'n net_client option"
  kc_io :: "'n ioutils option"
  kc_version :: ProtocolVersion
  kc_close_on_destroy :: bool

definition new_KmipClient ::
    "'n net_client \<Rightarrow> (LogLevel \<Rightarrow> bool) option \<Rightarrow> ProtocolVersion \<Rightarrow> bool \<Rightarrow> 'n KmipClient" where
  "new_KmipClient net_client logger version close_on_destroy =
     \<lparr>kc_net_client = Some net_client, kc_net_client_owner = None,
      kc_io = Some \<lparr>io_net_client = net_client, io_logger = logger\<rparr>,
      kc_version = version, kc_close_on_destroy = close_on_destroy\<rparr>"

text \<open>The owning constructor; \<open>None\<close> is the \<open>std::invalid_argument\<close> for a null pointer.\<close>

definition new_KmipClient_shared ::
    "'n net_client option \<Rightarrow> (LogLevel \<Rightarrow> bool) option \<Rightarrow> ProtocolVersion \<Rightarrow> bool \<Rightarrow> 'n KmipClient option" where
  "new_KmipClient_shared net_client logger version close_on_destroy =
     (case net_client of
        None \<Rightarrow> None
      | Some nc \<Rightarrow> Some \<lparr>kc_net_client = Some nc, kc_net_client_owner = Some nc,
          kc_io = Some \<lparr>io_net_client = nc, io_logger = logger\<rparr>,
          kc_version = version, kc_close_on_destroy = close_on_destroy\<rparr>)"

text \<open>The move constructor: the new client and what is left of the other one.\<close>

definition move_client :: "'n KmipClient \<Rightarrow> 'n KmipClient \<times> 'n KmipClient" where
  "move_client other =
     (\<lparr>kc_net_client = kc_net_client other, kc_net_client_owner = kc_net_client_owner other,
       kc_io = kc_io other, kc_version = kc_version other, kc_close_on_destroy = kc_close_on_destroy other\<rparr>,
      other\<lparr>kc_net_client := None, kc_net_client_owner := None, kc_io := None, kc_close_on_destroy := False\<rparr>)"

definition assign_client :: "bool \<Rightarrow> 'n KmipClient \<Rightarrow> 'n KmipClient \<Rightarrow> 'n KmipClient \<times> 'n KmipClient" where
  "assign_client same_object this other = (if same_object then (this, this) else move_client other)"

definition destroy_client :: "'n KmipClient \<Rightarrow> 'n \<Rightarrow> 'n" where
  "destroy_client c n =
     (case kc_net_client c of
        Some nc \<Rightarrow> if kc_close_on_destroy c then nc_close nc n else n
      | None \<Rightarrow> n)"

definition set_protocol_version :: "ProtocolVersion \<Rightarrow> 'n KmipClient \<Rightarrow> 'n KmipClient" where
  "set_protocol_version version c = c\<lparr>kc_version := version\<rparr>"

section \<open>One exchange\<close>

definition make_request_message :: "'n KmipClient \<Rightarrow> RequestMessage res" where
  "make_request_message c = new_RequestMessage (kc_version c) DEFAULT_MAX_RESPONSE_SIZE"

text \<open>\<open>do_exchange(request.serialize(), ...)\<close> and the parser of the answer.\<close>

definition exchange_request ::
    "'n client_env \<Rightarrow> 'n KmipClient \<Rightarrow> RequestMessage \<Rightarrow> ('n io_state, ResponseParser) action" where
  "exchange_request env c request s =
     (case kc_io c of
        None \<Rightarrow> (Inl Assertion_abort, s)
      | Some io \<Rightarrow>
        bind_act (lift_res (RequestMessage_serialize (ce_platform env) (ce_time env (io_net s)) request))
          (\<lambda>request_bytes.
        bind_act (do_exchange (ce_platform env) io request_bytes (getMaxResponseSize request)) (\<lambda>response_bytes.
        lift_res (Inr (new_ResponseParser_for response_bytes request)))) s)"

text \<open>A request with one batch item: add it, exchange, and look the typed answer up by its identifier.\<close>

definition perform ::
    "'n client_env \<Rightarrow> 'n KmipClient \<Rightarrow> RequestMessage \<Rightarrow> RequestBatchItem \<Rightarrow> (ResponseBatchItem \<Rightarrow> 'a res) \<Rightarrow>
     ('n io_state, 'a) action" where
  "perform env c request item view =
     (let (batch_item_id, request) = add_batch_item item request in
      bind_act (exchange_request env c request) (\<lambda>rf.
      lift_res (fst (getResponseByBatchItemId view (ce_platform env) batch_item_id rf))))"

text \<open>The operations whose answer is the identifier of an object.\<close>

definition perform_id ::
    "'n client_env \<Rightarrow> 'n KmipClient \<Rightarrow> i32 \<Rightarrow> (ProtocolVersion \<Rightarrow> RequestBatchItem res) \<Rightarrow> ('n io_state, string) action" where
  "perform_id env c op build =
     bind_act (lift_res (make_request_message c)) (\<lambda>request.
     bind_act (lift_res (build (rqh_protocolVersion (rqm_header request)))) (\<lambda>item.
     bind_act (perform env c request item (SimpleIdResponse_fromBatchItem op)) (\<lambda>response.
     lift_res (Inr (sid_uniqueIdentifier response)))))"

section \<open>Operations on one object\<close>

definition op_register_key ::
    "'n client_env \<Rightarrow> 'n KmipClient \<Rightarrow> string \<Rightarrow> string \<Rightarrow> ClientKey \<Rightarrow> ('n io_state, string) action" where
  "op_register_key env c name grp k =
     perform_id env c KMIP_OP_REGISTER (RegisterKeyRequest name grp (to_core_key k))"

definition op_register_secret ::
    "'n client_env \<Rightarrow> 'n KmipClient \<Rightarrow> string \<Rightarrow> string \<Rightarrow> Secret \<Rightarrow> ('n io_state, string) action" where
  "op_register_secret env c name grp secret =
     perform_id env c KMIP_OP_REGISTER
       (\<lambda>version. Inr (RegisterSecretRequest name grp (secret_value secret) (secret_type secret) version))"

text \<open>The key size is the value of the enumeration \<open>aes_key_size\<close>, in bits.\<close>

definition op_create_aes_key ::
    "'n client_env \<Rightarrow> 'n KmipClient \<Rightarrow> string \<Rightarrow> string \<Rightarrow> i32 \<Rightarrow> u32 \<Rightarrow> ('n io_state, string) action" where
  "op_create_aes_key env c name grp key_size usage_mask =
     perform_id env c KMIP_OP_CREATE
       (\<lambda>version. Inr (CreateSymmetricKeyRequest name grp key_size usage_mask version))"

definition op_activate :: "'n client_env \<Rightarrow> 'n KmipClient \<Rightarrow> string \<Rightarrow> ('n io_state, string) action" where
  "op_activate env c uid = perform_id env c KMIP_OP_ACTIVATE (\<lambda>_. Inr (ActivateRequest uid))"

definition op_destroy :: "'n client_env \<Rightarrow> 'n KmipClient \<Rightarrow> string \<Rightarrow> ('n io_state, string) action" where
  "op_destroy env c uid = perform_id env c KMIP_OP_DESTROY (\<lambda>_. Inr (DestroyRequest uid))"

definition op_revoke ::
    "'n client_env \<Rightarrow> 'n KmipClient \<Rightarrow> string \<Rightarrow> u32 \<Rightarrow> string \<Rightarrow> i64 \<Rightarrow> ('n io_state, string) action" where
  "op_revoke env c uid reason message occurrence_time =
     perform_id env c KMIP_OP_REVOKE (\<lambda>_. Inr (RevokeRequest uid reason message occurrence_time))"

definition op_get_attribute_list ::
    "'n client_env \<Rightarrow> 'n KmipClient \<Rightarrow> string \<Rightarrow> ('n io_state, string list) action" where
  "op_get_attribute_list env c uid =
     bind_act (lift_res (make_request_message c)) (\<lambda>request.
     bind_act (perform env c request (GetAttributeListRequest uid) GetAttributeListResponse_fromBatchItem) (\<lambda>response.
     lift_res (Inr (gal_attributeNames response))))"

section \<open>Reading keys, secrets and attributes\<close>

definition default_get_key_attrs :: "bool \<Rightarrow> string list" where
  "default_get_key_attrs all_attributes =
     (if all_attributes then []
      else [KMIP_ATTR_NAME_STATE, KMIP_ATTR_NAME_NAME, KMIP_ATTR_NAME_OPERATION_POLICY_NAME,
        KMIP_ATTR_NAME_CRYPTO_ALG, KMIP_ATTR_NAME_CRYPTO_LEN, KMIP_ATTR_NAME_CRYPTO_USAGE_MASK])"

definition default_get_secret_attrs :: "bool \<Rightarrow> string list" where
  "default_get_secret_attrs all_attributes =
     (if all_attributes then []
      else [KMIP_ATTR_NAME_STATE, KMIP_ATTR_NAME_NAME, KMIP_ATTR_NAME_OPERATION_POLICY_NAME])"

definition preferred_key_formats :: "i32 \<Rightarrow> i32 list" where
  "preferred_key_formats obj_type =
     (if obj_type = KMIP_OBJTYPE_PRIVATE_KEY then [KMIP_KEYFORMAT_PKCS8]
      else if obj_type = KMIP_OBJTYPE_PUBLIC_KEY then [KMIP_KEYFORMAT_X509, KMIP_KEYFORMAT_PKCS8]
      else [])"

definition is_subject_public_key_info :: "'n client_env \<Rightarrow> byte list \<Rightarrow> bool" where
  "is_subject_public_key_info env der \<longleftrightarrow>
     \<not> (der = [] \<or> length der > 2 ^ 63 - 1) \<and> ce_d2i_X509_PUBKEY env der = Some (length der)"

text \<open>\<open>None\<close> is the null pointer: the key counts as not converted.\<close>

definition in_preferred_format :: "'n client_env \<Rightarrow> ClientKey \<Rightarrow> ClientKey option" where
  "in_preferred_format env key =
     (if ck_type key = PUBLIC_KEY \<and> ck_format key = Some KMIP_KEYFORMAT_PKCS8 then
        (if \<not> is_subject_public_key_info env (ck_value key) then None
         else Some (set_key_format (Some KMIP_KEYFORMAT_X509) key))
      else Some key)"

definition should_retry_get_attributes_with_legacy_v2_encoding :: "failure \<Rightarrow> bool" where
  "should_retry_get_attributes_with_legacy_v2_encoding e \<longleftrightarrow>
     is_exception e \<and>
     exc_code e \<in> {KMIP_REASON_INVALID_MESSAGE, KMIP_REASON_INVALID_FIELD, KMIP_REASON_FEATURE_NOT_SUPPORTED}"

text \<open>The two \<open>catch (const KmipException &)\<close> clauses around the attempts; what is not an exception passes.\<close>

definition with_legacy_retries ::
    "ProtocolVersion \<Rightarrow> string list \<Rightarrow> (string list \<Rightarrow> bool \<Rightarrow> ('s, 'a) action) \<Rightarrow> ('s, 'a) action" where
  "with_legacy_retries version names execute s =
     (case execute names False s of
        (Inl first_error, s1) \<Rightarrow>
          if \<not> is_at_least version 2 0 \<or> \<not> should_retry_get_attributes_with_legacy_v2_encoding first_error
          then (Inl first_error, s1)
          else (case execute names True s1 of
              (Inl second_error, s2) \<Rightarrow>
                if names = [] \<or> \<not> should_retry_get_attributes_with_legacy_v2_encoding second_error
                then (Inl second_error, s2)
                else execute [] True s2
            | (Inr x, s2) \<Rightarrow> (Inr x, s2))
      | (Inr x, s1) \<Rightarrow> (Inr x, s1))"

text \<open>The lambda \<open>parse\<close> of \<open>key_from_get_response\<close>.\<close>

definition parse_client_key :: "GetResponseBatchItem \<Rightarrow> ClientKey res" where
  "parse_client_key r = bind_res (parseGetKeyResponse r) from_core_key"

text \<open>The loop over the preferred formats; \<open>response\<close> is the answer to the plain Get.\<close>

fun refetch_key ::
    "'n client_env \<Rightarrow> 'n KmipClient \<Rightarrow> string \<Rightarrow> GetResponseBatchItem \<Rightarrow> i32 list \<Rightarrow> ('n io_state, ClientKey) action" where
  "refetch_key env c uid response [] = lift_res (parse_client_key response)"
| "refetch_key env c uid response (fmt # formats) =
     bind_act (lift_res (make_request_message c)) (\<lambda>request.
     let (get_item_id, request) = add_batch_item (GetRequest uid (Some fmt)) request in
     bind_act (exchange_request env c request) (\<lambda>rf.
     case getOperationResultByBatchItemId (ce_platform env) get_item_id rf of
       (Inl err, rf) \<Rightarrow> lift_res (Inl err)
     | (Inr result, rf) \<Rightarrow>
       if or_resultStatus result \<noteq> KMIP_STATUS_SUCCESS then refetch_key env c uid response formats
       else
         bind_act (lift_res (fst (getResponseByBatchItemId GetResponse_fromBatchItem (ce_platform env) get_item_id rf)))
           (\<lambda>refetched.
         bind_act (lift_res (keyFormatType refetched)) (\<lambda>got.
         if got = Some fmt then
           bind_act (lift_res (parse_client_key refetched)) (\<lambda>key.
           case in_preferred_format env key of
             Some key \<Rightarrow> lift_res (Inr key)
           | None \<Rightarrow> refetch_key env c uid response formats)
         else refetch_key env c uid response formats))))"

definition key_from_get_response ::
    "'n client_env \<Rightarrow> 'n KmipClient \<Rightarrow> string \<Rightarrow> GetResponseBatchItem \<Rightarrow> ('n io_state, ClientKey) action" where
  "key_from_get_response env c uid response =
     (let formats = preferred_key_formats (get_objectType response) in
      if formats = [] then lift_res (parse_client_key response)
      else
        bind_act (lift_res (keyFormatType response)) (\<lambda>got.
        if (case got of Some fmt \<Rightarrow> fmt \<in> set formats | None \<Rightarrow> False) then
          bind_act (lift_res (parse_client_key response)) (\<lambda>key.
          case in_preferred_format env key of
            Some key \<Rightarrow> lift_res (Inr key)
          | None \<Rightarrow> refetch_key env c uid response formats)
        else refetch_key env c uid response formats))"

text \<open>The request with a Get and a Get Attributes item: the parser of the answer and the two identifiers.\<close>

definition get_with_attributes ::
    "'n client_env \<Rightarrow> 'n KmipClient \<Rightarrow> string \<Rightarrow> string list \<Rightarrow> bool \<Rightarrow> ('n io_state, ResponseParser \<times> u32 \<times> u32) action" where
  "get_with_attributes env c uid requested_attrs legacy =
     bind_act (lift_res (make_request_message c)) (\<lambda>request.
     let (get_item_id, request) = add_batch_item (GetRequest uid None) request;
         (attributes_item_id, request) = add_batch_item
           (GetAttributesRequest uid requested_attrs (rqh_protocolVersion (rqm_header request)) legacy) request in
     bind_act (exchange_request env c request) (\<lambda>rf. lift_res (Inr (rf, get_item_id, attributes_item_id))))"

definition attributes_answer ::
    "'n client_env \<Rightarrow> u32 \<Rightarrow> ResponseParser \<Rightarrow> Attributes res" where
  "attributes_answer env attributes_item_id rf =
     bind_res (fst (getResponseByBatchItemId GetAttributesResponse_fromBatchItem (ce_platform env) attributes_item_id rf))
       (\<lambda>attrs_response. AttributesParser_parse (map Some (gat_attributes attrs_response)))"

definition state_missing :: failure where
  "state_missing = kmip_exception (''Required attribute '' @ [CHR 39] @ ''State'' @ [CHR 39] @ '' missing from server response'')"

definition get_key_once ::
    "'n client_env \<Rightarrow> 'n KmipClient \<Rightarrow> string \<Rightarrow> string list \<Rightarrow> bool \<Rightarrow> ('n io_state, ClientKey) action" where
  "get_key_once env c uid requested_attrs legacy =
     bind_act (get_with_attributes env c uid requested_attrs legacy) (\<lambda>(rf, get_item_id, attributes_item_id).
     case getResponseByBatchItemId GetResponse_fromBatchItem (ce_platform env) get_item_id rf of
       (Inl err, rf) \<Rightarrow> lift_res (Inl err)
     | (Inr get_response, rf) \<Rightarrow>
       bind_act (lift_res (attributes_answer env attributes_item_id rf)) (\<lambda>server_attrs.
       bind_act (lift_res (guard_res (has_attribute KMIP_ATTR_NAME_STATE server_attrs) state_missing)) (\<lambda>_.
       bind_act (key_from_get_response env c uid get_response) (\<lambda>key.
       lift_res (Inr (key\<lparr>ck_attributes := merge (ck_attributes key) server_attrs\<rparr>))))))"

definition op_get_key :: "'n client_env \<Rightarrow> 'n KmipClient \<Rightarrow> string \<Rightarrow> bool \<Rightarrow> ('n io_state, ClientKey) action" where
  "op_get_key env c uid all_attributes =
     with_legacy_retries (kc_version c) (default_get_key_attrs all_attributes) (get_key_once env c uid)"

definition secret_with_attributes :: "bool \<Rightarrow> Attributes \<Rightarrow> Secret \<Rightarrow> Secret res" where
  "secret_with_attributes all_attributes server_attrs secret =
     (if all_attributes then Inr (secret\<lparr>secret_attributes := merge (secret_attributes secret) server_attrs\<rparr>)
      else bind_res (guard_res (has_attribute KMIP_ATTR_NAME_STATE server_attrs) state_missing) (\<lambda>_.
        let attrs = set_state (object_state server_attrs) (secret_attributes secret) in
        Inr (secret\<lparr>secret_attributes :=
          (if has_attribute KMIP_ATTR_NAME_NAME server_attrs
           then set_string KMIP_ATTR_NAME_NAME (get_string KMIP_ATTR_NAME_NAME server_attrs) attrs else attrs)\<rparr>)))"

definition get_secret_once ::
    "'n client_env \<Rightarrow> 'n KmipClient \<Rightarrow> string \<Rightarrow> bool \<Rightarrow> string list \<Rightarrow> bool \<Rightarrow> ('n io_state, Secret) action" where
  "get_secret_once env c uid all_attributes requested_attrs legacy =
     bind_act (get_with_attributes env c uid requested_attrs legacy) (\<lambda>(rf, get_item_id, attributes_item_id).
     case getResponseByBatchItemId GetResponse_fromBatchItem (ce_platform env) get_item_id rf of
       (Inl err, rf) \<Rightarrow> lift_res (Inl err)
     | (Inr get_response, rf) \<Rightarrow>
       bind_act (lift_res (parseGetSecretResponse get_response)) (\<lambda>secret.
       bind_act (lift_res (attributes_answer env attributes_item_id rf)) (\<lambda>server_attrs.
       lift_res (secret_with_attributes all_attributes server_attrs secret))))"

definition op_get_secret :: "'n client_env \<Rightarrow> 'n KmipClient \<Rightarrow> string \<Rightarrow> bool \<Rightarrow> ('n io_state, Secret) action" where
  "op_get_secret env c uid all_attributes =
     with_legacy_retries (kc_version c) (default_get_secret_attrs all_attributes) (get_secret_once env c uid all_attributes)"

definition get_attributes_once ::
    "'n client_env \<Rightarrow> 'n KmipClient \<Rightarrow> string \<Rightarrow> string list \<Rightarrow> bool \<Rightarrow> ('n io_state, Attributes) action" where
  "get_attributes_once env c uid selectors legacy =
     bind_act (lift_res (make_request_message c)) (\<lambda>request.
     bind_act (perform env c request
       (GetAttributesRequest uid selectors (rqh_protocolVersion (rqm_header request)) legacy)
       GetAttributesResponse_fromBatchItem) (\<lambda>response.
     lift_res (AttributesParser_parse (map Some (gat_attributes response)))))"

definition op_get_attributes ::
    "'n client_env \<Rightarrow> 'n KmipClient \<Rightarrow> string \<Rightarrow> string list \<Rightarrow> ('n io_state, Attributes) action" where
  "op_get_attributes env c uid attr_names =
     with_legacy_retries (kc_version c) attr_names (get_attributes_once env c uid)"

section \<open>Searching\<close>

definition locate_page ::
    "'n client_env \<Rightarrow> 'n KmipClient \<Rightarrow> bool \<Rightarrow> string \<Rightarrow> u32 \<Rightarrow> 'n io_state page_source" where
  "locate_page env c by_group flt o_type offset page_size max_response_size =
     (if page_size = 0 then lift_res (Inr ([], None))
      else
        bind_act (lift_res (make_request_message c)) (\<lambda>request.
        bind_act (lift_res (setMaxResponseSize max_response_size request)) (\<lambda>request.
        bind_act (lift_res (LocateRequest by_group flt o_type page_size offset
          (rqh_protocolVersion (rqm_header request)))) (\<lambda>item.
        bind_act (perform env c request item LocateResponse_fromBatchItem) (\<lambda>response.
        let payload = loc_locatePayload response;
            located_items = (case lrs_locatedItems payload of
              Some total_items \<Rightarrow> if 0 \<le> sint total_items then Some (nat (sint total_items)) else None
            | None \<Rightarrow> None) in
        lift_res (Inr (lrs_uniqueIdentifiers payload, located_items)))))))"

definition op_locate_by_name ::
    "'n client_env \<Rightarrow> 'n KmipClient \<Rightarrow> string \<Rightarrow> u32 \<Rightarrow> ('n io_state, string list) action" where
  "op_locate_by_name env c name o_type =
     bind_act (locate_all (locate_page env c False name o_type) (MAX_BATCHES_IN_SEARCH * MAX_ITEMS_IN_BATCH))
       (\<lambda>out. lift_res (Inr (lo_ids out)))"

definition op_locate_by_group ::
    "'n client_env \<Rightarrow> 'n KmipClient \<Rightarrow> string \<Rightarrow> u32 \<Rightarrow> nat \<Rightarrow> ('n io_state, string list) action" where
  "op_locate_by_group env c grp o_type max_ids =
     bind_act (locate_all (locate_page env c True grp o_type) max_ids) (\<lambda>out. lift_res (Inr (lo_ids out)))"

definition op_locate_page_by_group ::
    "'n client_env \<Rightarrow> 'n KmipClient \<Rightarrow> string \<Rightarrow> u32 \<Rightarrow> nat \<Rightarrow> nat \<Rightarrow> ('n io_state, string list \<times> nat option) action" where
  "op_locate_page_by_group env c grp o_type offset page_size =
     locate_page env c True grp o_type offset page_size DEFAULT_MAX_RESPONSE_SIZE"

definition op_all :: "'n client_env \<Rightarrow> 'n KmipClient \<Rightarrow> u32 \<Rightarrow> nat \<Rightarrow> ('n io_state, string list) action" where
  "op_all env c o_type max_ids = search_all (locate_page env c True [] o_type) max_ids"

definition op_all_page ::
    "'n client_env \<Rightarrow> 'n KmipClient \<Rightarrow> u32 \<Rightarrow> nat \<Rightarrow> nat \<Rightarrow> ('n io_state, string list \<times> nat option) action" where
  "op_all_page env c o_type offset page_size = op_locate_page_by_group env c [] o_type offset page_size"

section \<open>Asking the server\<close>

definition op_discover_versions :: "'n client_env \<Rightarrow> 'n KmipClient \<Rightarrow> ('n io_state, ProtocolVersion list) action" where
  "op_discover_versions env c =
     bind_act (lift_res (make_request_message c)) (\<lambda>request.
     bind_act (perform env c request (make_request KMIP_OP_DISCOVER_VERSIONS [])
       DiscoverVersionsResponse_fromBatchItem) (\<lambda>response.
     lift_res (Inr (dv_protocolVersions response))))"

record QueryServerInfo =
  qi_supported_operations :: "i32 list"
  qi_supported_object_types :: "i32 list"
  qi_server_name :: string
  qi_vendor_name :: string
  qi_product_name :: string
  qi_server_version :: string
  qi_build_level :: string
  qi_build_date :: string
  qi_server_serial_number :: string
  qi_server_load :: string
  qi_cluster_info :: string

definition op_query :: "'n client_env \<Rightarrow> 'n KmipClient \<Rightarrow> ('n io_state, QueryServerInfo) action" where
  "op_query env c =
     bind_act (lift_res (make_request_message c)) (\<lambda>request.
     bind_act (perform env c request
       (make_request KMIP_OP_QUERY
          [createEnumeration KMIP_TAG_QUERY_FUNCTION KMIP_QUERY_OPERATIONS,
           createEnumeration KMIP_TAG_QUERY_FUNCTION KMIP_QUERY_OBJECTS,
           createEnumeration KMIP_TAG_QUERY_FUNCTION KMIP_QUERY_SERVER_INFORMATION])
       QueryResponse_fromBatchItem) (\<lambda>response.
     lift_res (Inr
       \<lparr>qi_supported_operations = q_operations response, qi_supported_object_types = q_objectTypes response,
        qi_server_name = q_serverName response, qi_vendor_name = q_vendorIdentification response,
        qi_product_name = q_productName response, qi_server_version = q_serverVersion response,
        qi_build_level = q_buildLevel response, qi_build_date = q_buildDate response,
        qi_server_serial_number = q_serverSerialNumber response, qi_server_load = q_serverLoad response,
        qi_cluster_info = q_clusterInfo response\<rparr>)))"

end
