(* ===== verification/Client_Sessions.thy ===== *)
theory Client_Sessions
  imports Kmip_Client
begin

text \<open>
  The client against a peer.  \<open>serve_stream\<close> is what a KMIP server does with the bytes it is sent: decode one
  request after the other, hand each to a handler with a state of its own and encode the responses.
  \<open>serving\<close> says that the transport of a client is a working connection to such a peer, \<open>in_step\<close> that
  everything sent so far was whole requests and every answer was read.  \<open>exchange_request\<close> keeps this
  invariant, so operations can follow each other on one connection.

  The locale \<open>client_operation\<close> is the contract of an operation with one batch item; it is interpreted on
  the operations of the client.  A search is the paging of \<open>Locate_Paging\<close> over \<open>locate_page\<close>, which
  serves the pages of a list whenever the peer does.
\<close>

section \<open>A conforming peer\<close>

definition wire_request :: "RequestMessage \<Rightarrow> byte list" where
  "wire_request rm = encode (request_element rm)"

definition wire_response :: "ResponseMessage \<Rightarrow> byte list" where
  "wire_response rm = encode (response_element rm)"

record ('n, 'q) peer =
  peer_platform :: platform
  peer_handler :: "'q \<Rightarrow> RequestMessage \<Rightarrow> ResponseMessage \<times> 'q"
  peer_start :: 'q
  peer_up :: "'n \<Rightarrow> bool"
  peer_out :: "'n \<Rightarrow> byte list"
  peer_got :: "'n \<Rightarrow> nat"

function serve_stream ::
    "platform \<Rightarrow> ('q \<Rightarrow> RequestMessage \<Rightarrow> ResponseMessage \<times> 'q) \<Rightarrow> 'q \<Rightarrow> byte list \<Rightarrow> byte list \<times> 'q" where
  "serve_stream pl handler q bytes =
     (case deserialize pl bytes 0 of
        Inl err \<Rightarrow> ([], q)
      | Inr (root, n) \<Rightarrow>
        if n = 0 \<or> bytes = [] then ([], q)
        else case RequestMessage_fromElement (Some root) of
            Inl err \<Rightarrow> ([], q)
          | Inr rm \<Rightarrow>
            (case handler q rm of (response, q') \<Rightarrow>
               (case serve_stream pl handler q' (drop n bytes) of (rest, q'') \<Rightarrow> (wire_response response @ rest, q''))))"
  by pat_completeness auto
termination
  by (relation "measure (\<lambda>(_, _, _, bytes). length bytes)") auto

declare serve_stream.simps [simp del]

definition serving :: "'n client_env \<Rightarrow> 'n KmipClient \<Rightarrow> ('n, 'q) peer \<Rightarrow> bool" where
  "serving env c p \<longleftrightarrow>
     \<not> hardened (ce_platform env) \<and> \<not> hardened (peer_platform p) \<and>
     (case kc_io c of None \<Rightarrow> False
      | Some io \<Rightarrow> peer_stream (io_net_client io) (peer_up p)
          (\<lambda>sent. fst (serve_stream (peer_platform p) (peer_handler p) (peer_start p) sent)) (peer_out p) (peer_got p))"

definition in_step :: "('n, 'q) peer \<Rightarrow> 'n \<Rightarrow> 'q \<Rightarrow> bool" where
  "in_step p n q \<longleftrightarrow> peer_up p n \<and>
     (\<exists>rms. list_all request_wire_valid rms \<and> peer_out p n = concat (map wire_request rms)) \<and>
     (case serve_stream (peer_platform p) (peer_handler p) (peer_start p) (peer_out p n) of (answered, q') \<Rightarrow>
        peer_got p n = length answered \<and> q' = q)"

section \<open>Streams of requests\<close>

lemma wire_request_nonempty [simp]: "wire_request rm \<noteq> []" "wire_response rs \<noteq> []"
  by (simp_all add: wire_request_def wire_response_def)

lemma request_element_of:
  assumes "request_wire_valid rm"
  shows "RequestMessage_toElement rm = Inr (request_element rm)" "ttlv_wf (request_element rm)"
    "height (request_element rm) \<le> 65" "RequestMessage_fromElement (Some (request_element rm)) = Inr rm"
proof -
  show e: "RequestMessage_toElement rm = Inr (request_element rm)"
    using assms by (auto simp: RequestMessage_toElement_eq request_wire_valid_def request_message_valid_def)
  show "ttlv_wf (request_element rm)" "height (request_element rm) \<le> 65"
    using request_wire.element_wf [OF assms e] by simp_all
  show "RequestMessage_fromElement (Some (request_element rm)) = Inr rm"
    by (rule request_wire.from_to [OF assms e])
qed

lemma serve_empty [simp]: "serve_stream pl handler q [] = ([], q)"
  by (subst serve_stream.simps) (auto split: sum.splits)

lemma serve_request:
  assumes "request_wire_valid rm" "\<not> hardened pl" "handler q rm = (response, q')"
    and "serve_stream pl handler q' rest = (answered, q'')"
  shows "serve_stream pl handler q (wire_request rm @ rest) = (wire_response response @ answered, q'')"
proof -
  have "deserialize pl (wire_request rm @ rest) 0 = Inr (request_element rm, length (wire_request rm))"
    using deserialize_complete [of 0 "wire_request rm @ rest" "request_element rm" rest 0 pl]
      request_element_of [OF assms(1)] assms(2) by (simp add: deserialize_def wire_request_def)
  then show ?thesis
    using request_element_of(4) [OF assms(1)] assms(3,4) by (subst serve_stream.simps) simp
qed

lemma serve_append:
  assumes "list_all request_wire_valid rms" "\<not> hardened pl"
    and "serve_stream pl handler q (concat (map wire_request rms)) = (answered, q')"
    and "serve_stream pl handler q' rest = (more_answered, q'')"
  shows "serve_stream pl handler q (concat (map wire_request rms) @ rest) = (answered @ more_answered, q'')"
  using assms(1,3)
proof (induction rms arbitrary: q answered)
  case Nil
  then show ?case using assms(4) by simp
next
  case (Cons rm rms)
  obtain response q1 where h: "handler q rm = (response, q1)" by fastforce
  obtain b q2 where b: "serve_stream pl handler q1 (concat (map wire_request rms)) = (b, q2)" by fastforce
  have "answered = wire_response response @ b" "q2 = q'"
    using Cons.prems serve_request [of rm pl handler q, OF _ assms(2) h b] by simp_all
  moreover from this have "serve_stream pl handler q1 (concat (map wire_request rms) @ rest) = (b @ more_answered, q'')"
    using Cons.IH [of q1 b] Cons.prems(1) b by simp
  ultimately show ?case
    using Cons.prems(1) serve_request [of rm pl handler q, OF _ assms(2) h] by simp
qed

lemma read_int32_be_bytes: "read_int32_be (be_bytes32 w @ rest) = w"
  using be_word32_bytes [of w] by (simp add: read_int32_be_def be_bytes32_def be_word32_def)

lemma wire_response_framed:
  assumes "length (wire_response rs) \<le> limit + 8" "limit < 2 ^ 31"
  shows "framed limit (wire_response rs)"
proof -
  obtain items where e: "response_element rs = Element KMIP_TAG_RESPONSE_MESSAGE KMIP_TYPE_STRUCTURE (Structure items)"
    by (simp add: response_element_def make_structure_eq)
  let ?n = "length (content (Structure items))"
  have pad: "pad8 ?n = 0" by (simp add: pad8_def)
  have len: "length (wire_response rs) = 8 + ?n"
    by (simp add: wire_response_def e length_encode pad del: content_simps)
  have "read_int32_be (drop 4 (wire_response rs)) = word_of_nat ?n"
    by (simp add: wire_response_def e encode_eq read_int32_be_bytes del: content_simps)
  then show ?thesis
    using assms len by (simp add: framed_def sint_word_of_nat32 del: content_simps)
qed

section \<open>One exchange with a conforming peer\<close>

lemma in_step_answer:
  assumes "in_step p n q" "\<not> hardened (peer_platform p)" "request_wire_valid rm" "peer_handler p q rm = (response, q')"
  shows "fst (serve_stream (peer_platform p) (peer_handler p) (peer_start p) (peer_out p n @ wire_request rm)) =
      fst (serve_stream (peer_platform p) (peer_handler p) (peer_start p) (peer_out p n)) @ wire_response response"
    and "peer_up p n' \<Longrightarrow> peer_out p n' = peer_out p n @ wire_request rm \<Longrightarrow> peer_got p n' = peer_got p n + length (wire_response response) \<Longrightarrow>
      in_step p n' q'"
proof -
  obtain rms where rms: "list_all request_wire_valid rms" "peer_out p n = concat (map wire_request rms)"
    using assms(1) by (auto simp: in_step_def)
  obtain answered where a: "serve_stream (peer_platform p) (peer_handler p) (peer_start p) (peer_out p n) = (answered, q)"
      "peer_got p n = length answered"
    using assms(1) by (auto simp: in_step_def split: prod.splits)
  have "serve_stream (peer_platform p) (peer_handler p) q (wire_request rm) = (wire_response response, q')"
    using serve_request [of rm "peer_platform p" "peer_handler p" q response q' "[]" "[]" q'] assms(2-4) by simp
  from serve_append [OF rms(1) assms(2) a(1) [unfolded rms(2)] this]
  have b: "serve_stream (peer_platform p) (peer_handler p) (peer_start p) (peer_out p n @ wire_request rm) =
      (answered @ wire_response response, q')" by (simp add: rms(2))
  with a(1) show "fst (serve_stream (peer_platform p) (peer_handler p) (peer_start p) (peer_out p n @ wire_request rm)) =
      fst (serve_stream (peer_platform p) (peer_handler p) (peer_start p) (peer_out p n)) @ wire_response response" by simp
  show "in_step p n' q'" if "peer_up p n'" "peer_out p n' = peer_out p n @ wire_request rm"
      "peer_got p n' = peer_got p n + length (wire_response response)"
    unfolding in_step_def that(2,3) b using that(1) rms assms(3) a(2) by (auto intro!: exI [of _ "rms @ [rm]"])
qed

lemma exchange_request_served:
  assumes "serving env c p" "in_step p (io_net s) q" "sendable (ce_time env (io_net s)) request"
    and "peer_handler p q (prepare_request (ce_time env (io_net s)) request) = (response, q')"
    and "length (wire_response response) \<le> min (getMaxResponseSize request) KMIP_MAX_MESSAGE_HARD_LIMIT + 8"
  shows "\<exists>s'. exchange_request env c request s = (Inr (new_ResponseParser_for (wire_response response) request), s') \<and>
    in_step p (io_net s') q'"
proof -
  let ?rm = "prepare_request (ce_time env (io_net s)) request"
  obtain io where io: "kc_io c = Some io" "peer_stream (io_net_client io) (peer_up p)
      (\<lambda>sent. fst (serve_stream (peer_platform p) (peer_handler p) (peer_start p) sent)) (peer_out p) (peer_got p)"
      "\<not> hardened (ce_platform env)" "\<not> hardened (peer_platform p)"
    using assms(1) by (auto simp: serving_def split: option.splits)
  have valid: "request_wire_valid ?rm" using assms(3) by (rule sendable_wire_valid)
  note answer = in_step_answer [OF assms(2) io(4) valid assms(4)]
  have up: "peer_up p (io_net s)" using assms(2) by (simp add: in_step_def)
  have got: "peer_got p (io_net s) =
      length (fst (serve_stream (peer_platform p) (peer_handler p) (peer_start p) (peer_out p (io_net s))))"
    using assms(2) by (auto simp: in_step_def split: prod.splits)
  have len: "length (wire_request ?rm) < 2 ^ 31" using assms(3) by (simp add: sendable_def wire_request_def)
  have "framed (min (getMaxResponseSize request) KMIP_MAX_MESSAGE_HARD_LIMIT) (wire_response response)"
    by (rule wire_response_framed [OF assms(5)]) (simp add: KMIP_MAX_MESSAGE_HARD_LIMIT_def min_less_iff_disj)
  from exchange_ok [OF io(2) up io(3) wire_request_nonempty(1) len _ this, of "[]"] answer(1) got
  obtain s' where s': "do_exchange (ce_platform env) io (wire_request ?rm) (getMaxResponseSize request) s =
      (Inr (wire_response response), s')" "peer_up p (io_net s')" "peer_out p (io_net s') = peer_out p (io_net s) @ wire_request ?rm"
      "peer_got p (io_net s') = peer_got p (io_net s) + length (wire_response response)"
    by auto
  then have "exchange_request env c request s = (Inr (new_ResponseParser_for (wire_response response) request), s')"
    by (simp add: exchange_request_def io(1) RequestMessage_serialize_eq [OF assms(3)] wire_request_def)
  with answer(2) [OF s'(2-4)] show ?thesis by blast
qed

text \<open>The request with one item that \<open>perform\<close> sends, and a response with one item.\<close>

definition request_of :: "ProtocolVersion \<Rightarrow> nat \<Rightarrow> RequestBatchItem \<Rightarrow> RequestMessage" where
  "request_of version limit item =
     \<lparr>rqm_header = default_RequestHeader\<lparr>rqh_protocolVersion := version, rqh_maximumResponseSize := Some (word_of_nat limit)\<rparr>,
      rqm_batchItems = [item\<lparr>rqb_uniqueBatchItemId := 1\<rparr>], rqm_nextBatchItemId = 2\<rparr>"

definition response_of :: "ProtocolVersion \<Rightarrow> ResponseBatchItem \<Rightarrow> ResponseMessage" where
  "response_of version item =
     \<lparr>rsm_header = default_ResponseHeader\<lparr>rsh_protocolVersion := version, rsh_batchCount := 1\<rparr>, rsm_batchItems = [item]\<rparr>"

lemma getMaxResponseSize_of: "limit \<le> int32_max \<Longrightarrow> getMaxResponseSize (request_of version limit item) = limit"
proof -
  assume "limit \<le> int32_max"
  then have "sint (word_of_nat limit :: i32) = int limit" by (simp add: sint_word_of_nat32 int32_max_def)
  moreover have "unat (word_of_nat limit :: 64 word) = limit"
    using \<open>limit \<le> int32_max\<close> by (simp add: unat_of_nat int32_max_def)
  ultimately show ?thesis by (simp add: getMaxResponseSize_def request_of_def scast_eq)
qed

definition item_ok :: "RequestBatchItem \<Rightarrow> bool" where
  "item_ok item \<longleftrightarrow> request_item_valid item \<and> payload_fits (rqb_requestPayload item) \<and>
     (\<forall>e version. rqb_requestPayload item = Some e \<longrightarrow> allowed_types version e)"

lemma item_ok_library: "library_request item \<Longrightarrow> item_ok item"
  using library_request_item by (simp add: item_ok_def)

lemma sendable_request_of:
  assumes "item_ok item" "length (wire_request (prepare_request now (request_of version limit item))) \<le> 2 ^ 26"
  shows "sendable now (request_of version limit item)"
  using assms
  by (simp add: sendable_def item_ok_def batch_numbered_def request_item_valid_def wire_request_def)
     (simp add: request_of_def)

text \<open>What the client makes of a response item to a request for \<open>op\<close>.\<close>

definition answer_of :: "(ResponseBatchItem \<Rightarrow> 'a res) \<Rightarrow> i32 \<Rightarrow> ResponseBatchItem \<Rightarrow> 'a res" where
  "answer_of view op ri =
     (if rsb_resultStatus ri = KMIP_STATUS_SUCCESS then view ri
      else Inl (KmipException (get_result_reason_or_default ri)
        (formatOperationResult ri (if rsb_operation ri \<noteq> 0 then rsb_operation ri else op))))"

lemma lookup_single:
  assumes "response_wire_valid response" "\<not> hardened pl" "rsm_batchItems response = [ri]"
    and "rsb_uniqueBatchItemId ri \<in> {0, 1}"
  shows "fst (getResponseByBatchItemId view pl 1
      (new_ResponseParser_for (wire_response response) (request_of version limit item))) =
    answer_of view (rqb_operation item) ri"
proof -
  let ?p = "new_ResponseParser_for (wire_response response) (request_of version limit item)"
  have p: "rp_responseBytes ?p = wire_response response" "rp_batchItemPositions ?p = [(1, 0)]"
      "rp_operationHints ?p = [(1, rqb_operation item)]" "cache_ok pl ?p"
    by (simp_all add: new_ResponseParser_for_def new_ResponseParser_def request_of_def cache_ok_def)
  have "item_by_id [ri] [(1, 0)] 1 = Inr ri" using assms(4) by (auto simp: item_by_id_def)
  then show ?thesis
    using assms(4) decode_response_encode [OF assms(1,2)] p
    by (auto simp: response_id_query.query_spec wire_response_def assms(3) ensureSuccess_def answer_of_def
        effectiveOperation_def kmip_exception_code_def Let_def)
qed

definition fresh_request :: "ProtocolVersion \<Rightarrow> nat \<Rightarrow> RequestMessage" where
  "fresh_request version limit =
     \<lparr>rqm_header = default_RequestHeader\<lparr>rqh_protocolVersion := version, rqh_maximumResponseSize := Some (word_of_nat limit)\<rparr>,
      rqm_batchItems = [], rqm_nextBatchItemId = 1\<rparr>"

lemma make_request_message_eq: "make_request_message c = Inr (fresh_request (kc_version c) DEFAULT_MAX_RESPONSE_SIZE)"
  by (simp add: make_request_message_def new_RequestMessage_def setMaxResponseSize_def fresh_request_def kmip_consts)

lemma fresh_request_simps [simp]:
  "rqh_protocolVersion (rqm_header (fresh_request version limit)) = version"
  "add_batch_item item (fresh_request version limit) = (1, request_of version limit item)"
  "limit' \<le> int32_max \<Longrightarrow> setMaxResponseSize limit' (fresh_request version limit) = Inr (fresh_request version limit')"
  by (simp_all add: fresh_request_def add_batch_item_def request_of_def setMaxResponseSize_def)

lemma perform_served:
  assumes "serving env c p" "in_step p (io_net s) q" "item_ok item" "limit \<le> int32_max"
    and "rm = prepare_request (ce_time env (io_net s)) (request_of version limit item)"
    and "length (wire_request rm) \<le> 2 ^ 26" "peer_handler p q rm = (response, q')" "response_wire_valid response"
    and "rsm_batchItems response = [ri]" "rsb_uniqueBatchItemId ri \<in> {0, 1}"
    and "length (wire_response response) \<le> min limit KMIP_MAX_MESSAGE_HARD_LIMIT + 8"
  shows "\<exists>s'. perform env c (fresh_request version limit) item view s = (answer_of view (rqb_operation item) ri, s') \<and>
    in_step p (io_net s') q'"
proof -
  have h: "\<not> hardened (ce_platform env)" using assms(1) by (simp add: serving_def)
  have "sendable (ce_time env (io_net s)) (request_of version limit item)"
    using assms(3,5,6) by (simp add: sendable_request_of)
  from exchange_request_served [OF assms(1,2) this] assms(4,5,7,11)
  obtain s' where "exchange_request env c (request_of version limit item) s =
      (Inr (new_ResponseParser_for (wire_response response) (request_of version limit item)), s')"
      "in_step p (io_net s') q'"
    by (auto simp: getMaxResponseSize_of)
  then show ?thesis by (simp add: perform_def lookup_single [OF assms(8) h assms(9,10)])
qed

section \<open>The contract of an operation\<close>

locale client_operation =
  fixes run :: "'n client_env \<Rightarrow> 'n KmipClient \<Rightarrow> ('n io_state, 'a) action"
    and build :: "ProtocolVersion \<Rightarrow> RequestBatchItem res"
    and view :: "ResponseBatchItem \<Rightarrow> 'b res"
    and post :: "'b \<Rightarrow> 'a res"
  assumes run_eq: "run env c =
      bind_act (lift_res (make_request_message c)) (\<lambda>request.
      bind_act (lift_res (build (rqh_protocolVersion (rqm_header request)))) (\<lambda>item.
      bind_act (perform env c request item view) (\<lambda>r. lift_res (post r))))"
    and build_ok: "build version = Inr item \<Longrightarrow> item_ok item"
begin

lemma nothing_sent: "build (kc_version c) = Inl err \<Longrightarrow> run env c s = (Inl err, s)"
  by (simp add: run_eq make_request_message_eq) (simp add: bind_act_def)

lemma served:
  assumes "serving env c p" "in_step p (io_net s) q" "build (kc_version c) = Inr item"
    and "rm = prepare_request (ce_time env (io_net s)) (request_of (kc_version c) DEFAULT_MAX_RESPONSE_SIZE item)"
    and "length (wire_request rm) \<le> 2 ^ 26" "peer_handler p q rm = (response, q')" "response_wire_valid response"
    and "rsm_batchItems response = [ri]" "rsb_uniqueBatchItemId ri \<in> {0, 1}"
    and "length (wire_response response) \<le> DEFAULT_MAX_RESPONSE_SIZE"
  shows "\<exists>s'. run env c s = (bind_res (answer_of view (rqb_operation item) ri) post, s') \<and> in_step p (io_net s') q'"
proof -
  have "length (wire_response response) \<le> min DEFAULT_MAX_RESPONSE_SIZE KMIP_MAX_MESSAGE_HARD_LIMIT + 8"
    using assms(10) by (simp add: kmip_consts KMIP_MAX_MESSAGE_HARD_LIMIT_def)
  from perform_served [OF assms(1,2) build_ok [OF assms(3)] _ assms(4-9) this, of view]
  obtain s' where "perform env c (fresh_request (kc_version c) DEFAULT_MAX_RESPONSE_SIZE) item view s =
      (answer_of view (rqb_operation item) ri, s')" "in_step p (io_net s') q'"
    by (auto simp: kmip_consts)
  then show ?thesis
    using assms(3) by (auto simp: run_eq make_request_message_eq bind_act_def bind_res_def split: sum.splits)
qed

end

text \<open>Every operation that sends one item satisfies the contract.\<close>

lemma id_operationI:
  assumes "\<And>version item. build version = Inr item \<Longrightarrow> item_ok item"
  shows "client_operation (\<lambda>env c. perform_id env c op build) build (SimpleIdResponse_fromBatchItem op)
    (\<lambda>r. Inr (sid_uniqueIdentifier r))"
  by (unfold_locales) (simp_all add: perform_id_def assms)

interpretation register_key_op: client_operation "\<lambda>env c. op_register_key env c name grp k"
  "RegisterKeyRequest name grp (to_core_key k)" "SimpleIdResponse_fromBatchItem KMIP_OP_REGISTER"
  "\<lambda>r. Inr (sid_uniqueIdentifier r)" for name grp k
  unfolding op_register_key_def by (intro id_operationI item_ok_library library_request.register_key)

interpretation register_secret_op: client_operation "\<lambda>env c. op_register_secret env c name grp secret"
  "\<lambda>version. Inr (RegisterSecretRequest name grp (secret_value secret) (secret_type secret) version)"
  "SimpleIdResponse_fromBatchItem KMIP_OP_REGISTER" "\<lambda>r. Inr (sid_uniqueIdentifier r)" for name grp secret
  unfolding op_register_secret_def
  by (rule id_operationI) (auto intro: item_ok_library library_request.register_secret)

interpretation create_op: client_operation "\<lambda>env c. op_create_aes_key env c name grp key_size usage_mask"
  "\<lambda>version. Inr (CreateSymmetricKeyRequest name grp key_size usage_mask version)"
  "SimpleIdResponse_fromBatchItem KMIP_OP_CREATE" "\<lambda>r. Inr (sid_uniqueIdentifier r)" for name grp key_size usage_mask
  unfolding op_create_aes_key_def
  by (rule id_operationI) (auto intro: item_ok_library library_request.create)

interpretation activate_op: client_operation "\<lambda>env c. op_activate env c uid" "\<lambda>_. Inr (ActivateRequest uid)"
  "SimpleIdResponse_fromBatchItem KMIP_OP_ACTIVATE" "\<lambda>r. Inr (sid_uniqueIdentifier r)" for uid
  unfolding op_activate_def ActivateRequest_def
  by (rule id_operationI) (auto intro: item_ok_library library_request.simple_id)

interpretation destroy_op: client_operation "\<lambda>env c. op_destroy env c uid" "\<lambda>_. Inr (DestroyRequest uid)"
  "SimpleIdResponse_fromBatchItem KMIP_OP_DESTROY" "\<lambda>r. Inr (sid_uniqueIdentifier r)" for uid
  unfolding op_destroy_def DestroyRequest_def
  by (rule id_operationI) (auto intro: item_ok_library library_request.simple_id)

interpretation revoke_op: client_operation "\<lambda>env c. op_revoke env c uid reason message at"
  "\<lambda>_. Inr (RevokeRequest uid reason message at)"
  "SimpleIdResponse_fromBatchItem KMIP_OP_REVOKE" "\<lambda>r. Inr (sid_uniqueIdentifier r)" for uid reason message at
  unfolding op_revoke_def by (rule id_operationI) (auto intro: item_ok_library library_request.revoke)

interpretation attribute_list_op: client_operation "\<lambda>env c. op_get_attribute_list env c uid"
  "\<lambda>_. Inr (GetAttributeListRequest uid)" GetAttributeListResponse_fromBatchItem
  "\<lambda>r. Inr (gal_attributeNames r)" for uid
  by unfold_locales
     (auto simp: op_get_attribute_list_def GetAttributeListRequest_def intro: item_ok_library library_request.simple_id)

interpretation attributes_op: client_operation "\<lambda>env c. get_attributes_once env c uid selectors legacy"
  "\<lambda>version. Inr (GetAttributesRequest uid selectors version legacy)" GetAttributesResponse_fromBatchItem
  "\<lambda>r. AttributesParser_parse (map Some (gat_attributes r))" for uid selectors legacy
  by unfold_locales (auto simp: get_attributes_once_def intro: item_ok_library library_request.get_attributes)

interpretation discover_op: client_operation op_discover_versions "\<lambda>_. Inr (make_request KMIP_OP_DISCOVER_VERSIONS [])"
  DiscoverVersionsResponse_fromBatchItem "\<lambda>r. Inr (dv_protocolVersions r)"
  by unfold_locales (auto simp: op_discover_versions_def intro: item_ok_library library_request.discover_versions)

interpretation query_op: client_operation op_query
  "\<lambda>_. Inr (make_request KMIP_OP_QUERY
    [createEnumeration KMIP_TAG_QUERY_FUNCTION KMIP_QUERY_OPERATIONS,
     createEnumeration KMIP_TAG_QUERY_FUNCTION KMIP_QUERY_OBJECTS,
     createEnumeration KMIP_TAG_QUERY_FUNCTION KMIP_QUERY_SERVER_INFORMATION])"
  QueryResponse_fromBatchItem
  "\<lambda>response. Inr \<lparr>qi_supported_operations = q_operations response, qi_supported_object_types = q_objectTypes response,
     qi_server_name = q_serverName response, qi_vendor_name = q_vendorIdentification response,
     qi_product_name = q_productName response, qi_server_version = q_serverVersion response,
     qi_build_level = q_buildLevel response, qi_build_date = q_buildDate response,
     qi_server_serial_number = q_serverSerialNumber response, qi_server_load = q_serverLoad response,
     qi_cluster_info = q_clusterInfo response\<rparr>"
  by unfold_locales (auto simp: op_query_def intro: item_ok_library library_request.query)

text \<open>The operations that return an identifier, with the operation code and the item they send.\<close>

inductive id_operation ::
    "'n client_env \<Rightarrow> 'n KmipClient \<Rightarrow> ('n io_state, string) action \<Rightarrow> i32 \<Rightarrow> RequestBatchItem \<Rightarrow> bool" for env c where
  "id_operation env c (op_activate env c uid) KMIP_OP_ACTIVATE (ActivateRequest uid)"
| "id_operation env c (op_destroy env c uid) KMIP_OP_DESTROY (DestroyRequest uid)"
| "id_operation env c (op_revoke env c uid reason message at) KMIP_OP_REVOKE (RevokeRequest uid reason message at)"
| "id_operation env c (op_create_aes_key env c name grp key_size usage_mask) KMIP_OP_CREATE
     (CreateSymmetricKeyRequest name grp key_size usage_mask (kc_version c))"
| "id_operation env c (op_register_secret env c name grp secret) KMIP_OP_REGISTER
     (RegisterSecretRequest name grp (secret_value secret) (secret_type secret) (kc_version c))"
| "RegisterKeyRequest name grp (to_core_key k) (kc_version c) = Inr item \<Longrightarrow>
     id_operation env c (op_register_key env c name grp k) KMIP_OP_REGISTER item"

lemmas id_operation_defs = op_activate_def op_destroy_def op_revoke_def op_create_aes_key_def
  op_register_secret_def op_register_key_def

lemma built:
  assumes "\<And>version. item_ok (f version)" "f (kc_version c) = item"
  shows "\<exists>build. perform_id env c op (\<lambda>version. Inr (f version)) = perform_id env c op build \<and>
    build (kc_version c) = Inr item \<and> (\<forall>version i. build version = Inr i \<longrightarrow> item_ok i)"
  using assms by (intro exI [of _ "\<lambda>version. Inr (f version)"]) auto

lemma id_operation_perform:
  assumes "id_operation env c run op item"
  shows "\<exists>build. run = perform_id env c op build \<and> build (kc_version c) = Inr item \<and>
    (\<forall>version i. build version = Inr i \<longrightarrow> item_ok i)"
  using assms
proof (cases rule: id_operation.cases)
  case (6 name grp k)
  then show ?thesis
    by (auto simp: op_register_key_def intro: item_ok_library library_request.register_key
        intro!: exI [of _ "RegisterKeyRequest name grp (to_core_key k)"])
qed (simp_all only: id_operation_defs, (rule built; simp add: item_ok_library library_request.intros ActivateRequest_def DestroyRequest_def)+)

lemma rqb_operation_of [simp]: "rqb_operation (make_request op cs) = op"
  by (simp add: make_request_def)

lemma id_operation_item: "id_operation env c run op item \<Longrightarrow> rqb_operation item = op"
  by (induction rule: id_operation.induct)
     (auto simp: ActivateRequest_def DestroyRequest_def SimpleIdRequest_def RevokeRequest_def
        CreateSymmetricKeyRequest_def RegisterSecretRequest_def RegisterKeyRequest_def bind_res_Inr_iff)

lemma id_operation_served:
  assumes "serving env c p" "in_step p (io_net s) q" "id_operation env c run op item"
    and "rm = prepare_request (ce_time env (io_net s)) (request_of (kc_version c) DEFAULT_MAX_RESPONSE_SIZE item)"
    and "length (wire_request rm) \<le> 2 ^ 26" "peer_handler p q rm = (response, q')" "response_wire_valid response"
    and "rsm_batchItems response = [ri]" "rsb_uniqueBatchItemId ri \<in> {0, 1}"
    and "length (wire_response response) \<le> DEFAULT_MAX_RESPONSE_SIZE"
  shows "\<exists>s'. run s = (bind_res (answer_of (SimpleIdResponse_fromBatchItem op) op ri) (\<lambda>r. Inr (sid_uniqueIdentifier r)), s') \<and>
    in_step p (io_net s') q'"
proof -
  obtain build where b: "run = perform_id env c op build" "build (kc_version c) = Inr item"
      "\<And>version i. build version = Inr i \<Longrightarrow> item_ok i"
    using id_operation_perform [OF assms(3)] by blast
  have "client_operation (\<lambda>env c. perform_id env c op build) build (SimpleIdResponse_fromBatchItem op)
      (\<lambda>r. Inr (sid_uniqueIdentifier r))" by (rule id_operationI) (rule b(3))
  from client_operation.served [OF this assms(1,2) b(2) assms(4-10)] show ?thesis
    unfolding b(1) id_operation_item [OF assms(3)] .
qed

section \<open>Properties\<close>

text \<open>C5. The operations end to end: against any peer that decodes the byte stream it is sent and answers each
  request with a valid response of one item, over a transport that may split the streams anywhere,
  Activate, Destroy, Revoke, Create and Register deliver exactly the request item of the call in the
  protocol version of the client, and return the identifier of the answer, or raise an exception with the
  result reason when the peer reports a failure.  The connection stays in step for the next operation.\<close>

theorem operation_end_to_end:
  assumes "serving env c p" "in_step p (io_net s) q" "id_operation env c run op item"
    and "rm = prepare_request (ce_time env (io_net s)) (request_of (kc_version c) DEFAULT_MAX_RESPONSE_SIZE item)"
    and "length (wire_request rm) \<le> 2 ^ 26" "peer_handler p q rm = (response, q')" "response_wire_valid response"
    and "rsm_batchItems response = [ri]" "rsb_uniqueBatchItemId ri \<in> {0, 1}"
    and "length (wire_response response) \<le> DEFAULT_MAX_RESPONSE_SIZE"
  shows "\<exists>s'. run s = (bind_res (answer_of (SimpleIdResponse_fromBatchItem op) op ri) (\<lambda>r. Inr (sid_uniqueIdentifier r)), s') \<and>
    in_step p (io_net s') q'"
  using assms by (rule id_operation_served)

section \<open>Sizes of messages\<close>

lemma size_structure [simp]:
  "length (encode (make_structure t cs)) = 8 + sum_list (map (\<lambda>e. length (encode e)) cs)"
  using concat_encode_aligned [of cs] by (simp add: make_structure_eq length_encode length_concat comp_def)

lemma size_create [simp]:
  "length (encode (createInteger t i)) = 16" "length (encode (createEnumeration t j)) = 16"
  "length (encode (createDateTime t l)) = 16"
  "length (encode (createTextString t str)) = 8 + length str + pad8 (length str)"
  "length (encode (createByteString t bs)) = 8 + length bs + pad8 (length bs)"
  by (simp_all add: create_defs length_encode)

lemma wire_request_size:
  assumes "rqb_requestPayload item = Some e"
  shows "length (wire_request (prepare_request now (request_of version limit item))) = 144 + length (encode e)"
  using assms
  by (simp add: wire_request_def request_element_def prepare_request_def request_of_def RequestHeader_toElement_def
      ProtocolVersion_toElement_def RequestBatchItem_toElement_def default_RequestHeader_def encode_batch_item_id_def pad8_def)

lemma wire_response_size:
  "length (wire_response (response_of version (success_item op e))) = 144 + length (encode e)"
  by (simp add: wire_response_def response_element_def response_of_def ResponseHeader_toElement_def
      ProtocolVersion_toElement_def ResponseBatchItem_toElement_def success_item_def default_ResponseHeader_def
      encode_batch_item_id_def pad8_def)

lemma success_response_valid:
  assumes "fits 63 e" "elem_tag e = KMIP_TAG_RESPONSE_PAYLOAD" "length (encode e) < 2 ^ 31"
  shows "response_wire_valid (response_of version (success_item op e))"
proof -
  have "length (encode (response_element (response_of version (success_item op e)))) < 2 ^ 32"
    using wire_response_size [of version op e] assms(3) by (simp add: wire_response_def)
  then show ?thesis
    using assms(1,2)
    by (auto simp: response_wire_valid_def response_message_valid_def response_items_valid_def response_item_valid_def
        payload_tagged_def payload_fits_def fits_def response_of_def success_item_def kmip_consts)
qed

section \<open>A peer that answers Locate\<close>

text \<open>The search criteria of a Locate payload: what remains without the paging numbers.\<close>

definition locate_criteria :: "bool \<Rightarrow> string \<Rightarrow> u32 \<Rightarrow> ProtocolVersion \<Rightarrow> element list" where
  "locate_criteria by_group name obj_type version =
     (if use_attributes_container version then
        [make_structure KMIP_TAG_ATTRIBUTES
           ([createEnumeration KMIP_TAG_OBJECT_TYPE obj_type] @
            nonempty_child (if by_group then createTextString KMIP_TAG_OBJECT_GROUP else make_v2_name_struct) name)]
      else
        [make_enum_attribute ''Object Type'' obj_type] @
        nonempty_child (if by_group then make_text_attribute ''Object Group'' else make_name_attribute) name)"

definition paging_number :: "u32 \<Rightarrow> element list \<Rightarrow> nat" where
  "paging_number tag items =
     (case struct_find tag items of None \<Rightarrow> 0
      | Some e \<Rightarrow> (case toInt e of Inr v \<Rightarrow> nat (sint v) | Inl _ \<Rightarrow> 0))"

text \<open>The answer of a server whose objects that meet the criteria are the list \<open>catalog criteria\<close>.\<close>

definition locate_answer :: "(element list \<Rightarrow> string list) \<Rightarrow> bool \<Rightarrow> reporting \<Rightarrow> RequestMessage \<Rightarrow> ResponseMessage" where
  "locate_answer catalog honours_offset mode rm =
     (let items = concat (map (\<lambda>i. case rqb_requestPayload i of Some e \<Rightarrow> the (asStructure e) | None \<Rightarrow> []) (rqm_batchItems rm));
          db = catalog (filter (\<lambda>e. elem_tag e \<noteq> KMIP_TAG_MAXIMUM_ITEMS \<and> elem_tag e \<noteq> KMIP_TAG_OFFSET_ITEMS) items);
          got = page_slice honours_offset db (paging_number KMIP_TAG_OFFSET_ITEMS items)
            (paging_number KMIP_TAG_MAXIMUM_ITEMS items) in
      response_of (rqh_protocolVersion (rqm_header rm)) (success_item KMIP_OP_LOCATE
        (LocateResponsePayload_toElement
           \<lparr>lrs_locatedItems = map_option word_of_nat (reported mode db got), lrs_uniqueIdentifiers = got\<rparr>)))"

definition locating :: "('n, 'q) peer \<Rightarrow> (element list \<Rightarrow> string list) \<Rightarrow> bool \<Rightarrow> reporting \<Rightarrow> bool" where
  "locating p catalog honours_offset mode \<longleftrightarrow>
     (\<forall>q rm. map rqb_operation (rqm_batchItems rm) = [KMIP_OP_LOCATE] \<longrightarrow>
        peer_handler p q rm = (locate_answer catalog honours_offset mode rm, q)) \<and>
     (\<forall>criteria. distinct (catalog criteria) \<and> length (catalog criteria) \<le> int32_max \<and>
        (\<forall>uid\<in>set (catalog criteria). length uid \<le> 200))"

lemma LocateRequest_eq:
  assumes "n \<le> int32_max" "off \<le> int32_max"
  shows "LocateRequest by_group name obj_type n off version = Inr (make_request KMIP_OP_LOCATE
     ((if n > 0 then [createInteger KMIP_TAG_MAXIMUM_ITEMS (word_of_nat n)] else []) @
      (if off > 0 then [createInteger KMIP_TAG_OFFSET_ITEMS (word_of_nat off)] else []) @
      locate_criteria by_group name obj_type version))"
  using assms by (simp add: LocateRequest_def locate_criteria_def)

lemma criteria_tags: "e \<in> set (locate_criteria by_group name obj_type version) \<Longrightarrow>
    elem_tag e \<noteq> KMIP_TAG_MAXIMUM_ITEMS \<and> elem_tag e \<noteq> KMIP_TAG_OFFSET_ITEMS"
  by (auto simp: locate_criteria_def attribute_element_defs nonempty_child_def kmip_consts split: if_splits)

lemma criteria_paging:
  assumes "items = (if n > 0 then [createInteger KMIP_TAG_MAXIMUM_ITEMS (word_of_nat n)] else []) @
      (if off > 0 then [createInteger KMIP_TAG_OFFSET_ITEMS (word_of_nat off)] else []) @
      locate_criteria by_group name obj_type version"
    and "n \<le> int32_max" "off \<le> int32_max"
  shows "paging_number KMIP_TAG_MAXIMUM_ITEMS items = n" "paging_number KMIP_TAG_OFFSET_ITEMS items = off"
    "filter (\<lambda>e. elem_tag e \<noteq> KMIP_TAG_MAXIMUM_ITEMS \<and> elem_tag e \<noteq> KMIP_TAG_OFFSET_ITEMS) items =
       locate_criteria by_group name obj_type version"
proof -
  let ?cs = "locate_criteria by_group name obj_type version"
  have none: "struct_find KMIP_TAG_MAXIMUM_ITEMS ?cs = None" "struct_find KMIP_TAG_OFFSET_ITEMS ?cs = None"
    using criteria_tags [of _ by_group name obj_type version] by (auto simp: struct_find_def find_None_iff)
  have "filter (\<lambda>e. elem_tag e \<noteq> KMIP_TAG_MAXIMUM_ITEMS \<and> elem_tag e \<noteq> KMIP_TAG_OFFSET_ITEMS) ?cs = ?cs"
    using criteria_tags by (simp add: filter_id_conv)
  then show "filter (\<lambda>e. elem_tag e \<noteq> KMIP_TAG_MAXIMUM_ITEMS \<and> elem_tag e \<noteq> KMIP_TAG_OFFSET_ITEMS) items = ?cs"
    by (simp add: assms(1))
  show "paging_number KMIP_TAG_MAXIMUM_ITEMS items = n" "paging_number KMIP_TAG_OFFSET_ITEMS items = off"
    using none assms(2,3) sint_word_of_nat32 [of n] sint_word_of_nat32 [of off]
    by (auto simp: assms(1) paging_number_def int32_max_def kmip_consts)
qed

lemma pad8_le_7: "pad8 n \<le> 7"
  by (simp add: pad8_def)

lemma criteria_size: "sum_list (map (\<lambda>e. length (encode e)) (locate_criteria by_group name obj_type version)) \<le> 200 + length name"
  using pad8_le_7 [of "length name"]
  by (auto simp: locate_criteria_def nonempty_child_def attribute_element_defs pad8_def)

lemma ids_size:
  assumes "\<forall>uid\<in>set ids. length uid \<le> (200 :: nat)"
  shows "sum_list (map (\<lambda>uid. length (encode (createTextString t uid))) ids) \<le> 215 * length ids"
  using assms
proof (induction ids)
  case (Cons uid ids)
  then show ?case using pad8_le_7 [of "length uid"] by simp
qed simp

lemma locate_payload_size:
  assumes "\<forall>uid\<in>set ids. length uid \<le> (200 :: nat)"
  shows "length (encode (LocateResponsePayload_toElement \<lparr>lrs_locatedItems = l, lrs_uniqueIdentifiers = ids\<rparr>)) \<le>
    24 + 215 * length ids"
  using ids_size [OF assms, of KMIP_TAG_UNIQUE_IDENTIFIER]
  by (cases l) (simp_all add: LocateResponsePayload_toElement_def comp_def)

lemma locate_payload_fits: "fits 63 (LocateResponsePayload_toElement resp)"
  by (cases "lrs_locatedItems resp") (simp_all add: LocateResponsePayload_toElement_def list_all_iff kmip_consts)

text \<open>Sixteen mebibytes are enough for the largest page a search by name asks for.\<close>

lemma page_fits_limit:
  assumes "n \<le> 65536" "m \<le> n"
  shows "168 + 215 * m \<le> min (locate_response_size_limit n) KMIP_MAX_MESSAGE_HARD_LIMIT"
proof (cases "n > 4096")
  case True
  then show ?thesis
    using assms by (simp add: locate_response_size_limit_def LOCATE_RESPONSE_BYTES_PER_ID_def MAX_ITEMS_IN_BATCH_def
      KMIP_MAX_MESSAGE_HARD_LIMIT_def kmip_consts)
next
  case False
  then have "168 + 215 * m \<le> max (n * 4096) 1048576" "n * 4096 \<le> 16777216" using assms by auto
  with False show ?thesis
    by (simp add: locate_response_size_limit_def LOCATE_RESPONSE_BYTES_PER_ID_def MAX_ITEMS_IN_BATCH_def
      KMIP_MAX_MESSAGE_HARD_LIMIT_def kmip_consts)
qed

lemma reported_small: "length db \<le> int32_max \<Longrightarrow> length got \<le> length db \<Longrightarrow> reported mode db got = Some m \<Longrightarrow> m \<le> int32_max"
  by (cases mode) auto

definition located_payload :: "reporting \<Rightarrow> string list \<Rightarrow> string list \<Rightarrow> LocateResponsePayload" where
  "located_payload mode db got =
     \<lparr>lrs_locatedItems = map_option word_of_nat (reported mode db got), lrs_uniqueIdentifiers = got\<rparr>"

definition located_item :: "reporting \<Rightarrow> string list \<Rightarrow> string list \<Rightarrow> ResponseBatchItem" where
  "located_item mode db got = success_item KMIP_OP_LOCATE (LocateResponsePayload_toElement (located_payload mode db got))"

lemma located_item_response:
  assumes "\<forall>uid\<in>set got. length uid \<le> 200" "length got \<le> n" "n \<le> 65536"
  shows "response_wire_valid (response_of version (located_item mode db got))"
    "length (wire_response (response_of version (located_item mode db got))) \<le>
       min (locate_response_size_limit n) KMIP_MAX_MESSAGE_HARD_LIMIT + 8"
proof -
  let ?e = "LocateResponsePayload_toElement (located_payload mode db got)"
  have size: "length (encode ?e) \<le> 24 + 215 * length got"
    unfolding located_payload_def by (rule locate_payload_size [OF assms(1)])
  have "elem_tag ?e = KMIP_TAG_RESPONSE_PAYLOAD" by (simp add: LocateResponsePayload_toElement_def)
  moreover have "length (encode ?e) < 2 ^ 31" using size assms(2,3) by simp
  ultimately show "response_wire_valid (response_of version (located_item mode db got))"
    unfolding located_item_def by (intro success_response_valid locate_payload_fits)
  show "length (wire_response (response_of version (located_item mode db got))) \<le>
      min (locate_response_size_limit n) KMIP_MAX_MESSAGE_HARD_LIMIT + 8"
    using size page_fits_limit [OF assms(3,2)] unfolding located_item_def wire_response_size by linarith
qed

lemma located_item_view:
  assumes "length db \<le> int32_max" "length got \<le> length db"
  shows "answer_of LocateResponse_fromBatchItem op (located_item mode db got) =
      Inr (ResponseBatchItem.extend (located_item mode db got) (LocateResponseBatchItem.fields (located_payload mode db got)))"
    "(case lrs_locatedItems (located_payload mode db got) of
        Some total_items \<Rightarrow> if 0 \<le> sint total_items then Some (nat (sint total_items)) else None | None \<Rightarrow> None) =
      reported mode db got"
  using reported_small [OF assms, of mode] sint_word_of_nat32
  by (auto simp: answer_of_def located_item_def success_item_def LocateResponse_fromBatchItem_def expect_operation_def
      require_response_payload_def LocateResponsePayload_from_to located_payload_def int32_max_def split: option.splits)

lemma locate_item_sent:
  assumes "n \<le> int32_max" "off \<le> int32_max" "LocateRequest by_group flt o_type n off version = Inr item"
    and "rm = prepare_request now (request_of version limit item)" "db = catalog (locate_criteria by_group flt o_type version)"
  shows "locate_answer catalog h mode rm = response_of version (located_item mode db (page_slice h db off n))"
    "map rqb_operation (rqm_batchItems rm) = [KMIP_OP_LOCATE]"
    "length (wire_request rm) \<le> 500 + length flt"
proof -
  define items where "items = (if n > 0 then [createInteger KMIP_TAG_MAXIMUM_ITEMS (word_of_nat n)] else []) @
      (if off > 0 then [createInteger KMIP_TAG_OFFSET_ITEMS (word_of_nat off)] else []) @
      locate_criteria by_group flt o_type version"
  have item: "item = make_request KMIP_OP_LOCATE items"
    using assms(3) unfolding LocateRequest_eq [OF assms(1,2)] items_def by (simp only: sum.inject)
  show "locate_answer catalog h mode rm = response_of version (located_item mode db (page_slice h db off n))"
    using criteria_paging [OF items_def assms(1,2)]
    by (simp add: locate_answer_def assms(4,5) request_of_def item make_request_def Let_def located_item_def located_payload_def)
  show "map rqb_operation (rqm_batchItems rm) = [KMIP_OP_LOCATE]"
    by (simp add: assms(4) request_of_def item)
  have "length (encode (make_structure KMIP_TAG_REQUEST_PAYLOAD items)) \<le> 300 + length flt"
    using criteria_size [of by_group flt o_type version] by (simp add: items_def)
  then show "length (wire_request rm) \<le> 500 + length flt"
    by (simp add: assms(4) wire_request_size item make_request_def del: size_structure)
qed

lemma locate_page_served:
  assumes "serving env c p" "in_step p (io_net s) q" "locating p catalog h mode" "length flt \<le> 2 ^ 20"
    and "0 < n" "n \<le> 65536" "off \<le> 65536"
    and db: "db = catalog (locate_criteria by_group flt o_type (kc_version c))" and g: "g = page_slice h db off n"
  shows "\<exists>s'. locate_page env c by_group flt o_type off n (locate_response_size_limit n) s =
      (Inr (g, reported mode db g), s') \<and> in_step p (io_net s') q"
proof -
  let ?v = "kc_version c" and ?lim = "locate_response_size_limit n"
  have small: "n \<le> int32_max" "off \<le> int32_max" using assms(6,7) by (simp_all add: int32_max_def)
  obtain item where build: "LocateRequest by_group flt o_type n off ?v = Inr item"
    by (simp add: LocateRequest_eq [OF small])
  define rm where "rm = prepare_request (ce_time env (io_net s)) (request_of ?v ?lim item)"
  note sent = locate_item_sent [where catalog = catalog, OF small build rm_def db]
  have lim: "?lim \<le> int32_max"
    by (simp add: locate_response_size_limit_def LOCATE_RESPONSE_BYTES_PER_ID_def MAX_ITEMS_IN_BATCH_def
        KMIP_MAX_MESSAGE_HARD_LIMIT_def int32_max_def kmip_consts)
  have cat: "length db \<le> int32_max" "\<forall>uid\<in>set g. length uid \<le> 200"
    using assms(3) by (auto simp: locating_def db g page_slice_def dest!: in_set_takeD in_set_dropD)
  have len_g: "length g \<le> n" "length g \<le> length db" by (simp_all add: g page_slice_def)
  note resp = located_item_response [OF cat(2) len_g(1) assms(6), of ?v mode db]
  have handler: "peer_handler p q rm = (response_of ?v (located_item mode db g), q)"
    using assms(3) sent(1,2) g by (simp add: locating_def)
  have req: "length (wire_request rm) \<le> 2 ^ 26" using sent(3) assms(4) by simp
  have ok: "item_ok item" by (rule item_ok_library [OF library_request.locate [OF build]])
  from perform_served [OF assms(1,2) ok lim rm_def req handler resp(1) _ _ resp(2), of "located_item mode db g"
      LocateResponse_fromBatchItem]
  obtain s' where s': "perform env c (fresh_request ?v ?lim) item LocateResponse_fromBatchItem s =
      (answer_of LocateResponse_fromBatchItem (rqb_operation item) (located_item mode db g), s')" "in_step p (io_net s') q"
    by (auto simp: response_of_def located_item_def success_item_def)
  have "locate_page env c by_group flt o_type off n ?lim s = (Inr (g, reported mode db g), s')"
    using s'(1) assms(5) lim build located_item_view [OF cat(1) len_g(2)]
    by (simp add: locate_page_def make_request_message_eq bind_act_def Let_def ResponseBatchItem.extend_def
        LocateResponseBatchItem.fields_def) (simp add: located_payload_def)
  with s'(2) show ?thesis by blast
qed

lemma client_serves_list:
  assumes "serving env c p" "locating p catalog h mode" "length flt \<le> 2 ^ 20" "max_ids \<le> 65536"
  shows "serves_list (\<lambda>s. in_step p (io_net s) q) max_ids (locate_page env c by_group flt o_type) h mode
    (catalog (locate_criteria by_group flt o_type (kc_version c)))"
  unfolding serves_list_def
proof (intro allI impI)
  fix off n and s :: "'a io_state"
  assume "page_range max_ids off n \<and> in_step p (io_net s) q"
  then have "in_step p (io_net s) q" "0 < n" "n \<le> 65536" "off \<le> 65536"
    using assms(4) by (auto simp: page_range_def MAX_ITEMS_IN_BATCH_def MAX_BATCHES_IN_SEARCH_def)
  from locate_page_served [OF assms(1) this(1) assms(2,3) this(2-4) refl refl] show
    "\<exists>s'. locate_page env c by_group flt o_type off n (locate_response_size_limit n) s =
       (Inr (page_slice h (catalog (locate_criteria by_group flt o_type (kc_version c))) off n,
         reported mode (catalog (locate_criteria by_group flt o_type (kc_version c)))
           (page_slice h (catalog (locate_criteria by_group flt o_type (kc_version c))) off n)), s') \<and>
       in_step p (io_net s') q" .
qed


text \<open>A peer behind the transport that moves at most three bytes at a time, for concrete evaluations.\<close>

definition sample_peer :: "(unit \<Rightarrow> RequestMessage \<Rightarrow> ResponseMessage \<times> unit) \<Rightarrow> (byte list \<times> nat, unit) peer" where
  "sample_peer handler =
     \<lparr>peer_platform = \<lparr>native_endian = Big_endian, hardened = False\<rparr>, peer_handler = handler, peer_start = (),
      peer_up = (\<lambda>_. True), peer_out = fst, peer_got = snd\<rparr>"

definition sample_client :: "(byte list \<times> nat, unit) peer \<Rightarrow> (byte list \<times> nat) KmipClient" where
  "sample_client p = new_KmipClient
     (chunk_client (\<lambda>sent. fst (serve_stream (peer_platform p) (peer_handler p) (peer_start p) sent))) None KMIP_VERSION_1_4 False"

definition sample_env :: "(byte list \<times> nat) client_env" where
  "sample_env = \<lparr>ce_platform = \<lparr>native_endian = Little_endian, hardened = False\<rparr>, ce_time = (\<lambda>_. 7),
     ce_d2i_X509_PUBKEY = (\<lambda>_. None)\<rparr>"

lemma sample_session:
  "serving sample_env (sample_client (sample_peer handler)) (sample_peer handler)"
  "in_step (sample_peer handler) (io_net fresh_io) ()"
  using chunk_client_stream [of "\<lambda>sent. fst (serve_stream \<lparr>native_endian = Big_endian, hardened = False\<rparr> handler () sent)"]
  by (auto simp: serving_def in_step_def sample_env_def sample_client_def new_KmipClient_def sample_peer_def fresh_io_def
      intro!: exI [of _ "[]"])

lemma destroyed_response_size: "length (wire_response destroyed_response) \<le> DEFAULT_MAX_RESPONSE_SIZE"
  by (simp add: destroyed_response_def destroyed_item_def success_item_def wire_response_def response_element_def
        ResponseHeader_toElement_def ProtocolVersion_toElement_def ResponseBatchItem_toElement_def
        default_ResponseHeader_def encode_batch_item_id_def pad8_def kmip_consts)

theorem operation_end_to_end_witness:
  "fst (op_destroy sample_env (sample_client (sample_peer (\<lambda>_ _. (destroyed_response, ())))) ''k'' fresh_io) = Inr ''k''"
proof -
  let ?p = "sample_peer (\<lambda>_ _. (destroyed_response, ()))"
  let ?c = "sample_client ?p"
  have "length (wire_request (prepare_request (ce_time sample_env (io_net fresh_io))
      (request_of (kc_version ?c) DEFAULT_MAX_RESPONSE_SIZE (DestroyRequest ''k'')))) \<le> 2 ^ 26"
    by (simp add: wire_request_size DestroyRequest_def SimpleIdRequest_def make_request_def pad8_def)
  moreover have "length (wire_response destroyed_response) \<le> DEFAULT_MAX_RESPONSE_SIZE"
    by (rule destroyed_response_size)
  ultimately show ?thesis
    using operation_end_to_end [OF sample_session id_operation.intros(2) refl, of "\<lambda>_ _. (destroyed_response, ())" "''k''"
        destroyed_response "()" destroyed_item] destroyed_response_valid
    by (auto simp: sample_peer_def destroyed_response_def destroyed_item_def success_item_def answer_of_def
        SimpleIdResponse_fromBatchItem_def expect_operation_def require_response_payload_def
        ResponseBatchItem.extend_def SimpleIdResponseBatchItem.fields_def)
qed


end
