(* ===== verification/Tls_Client.thy ===== *)
theory Tls_Client
  imports Tls_Sessions Client_Sessions
begin

text \<open>
  The client over the TLS transport: the operations of \<open>KmipClient.cpp\<close> through \<open>IOUtils.cpp\<close> and
  \<open>NetClientOpenSSL.cpp\<close> down to the calls to OpenSSL.

  \<open>tls_stream\<close> states what OpenSSL documents about reading and writing on a BIO whose handshake has completed:
  a call may fail, and then returns a number that is not positive; otherwise it moves at most the bytes it was
  asked for, and the bytes arrive in order.  Nothing is assumed of a BIO that was freed or on which a call failed.

  A transport that may fail is compared with a mended one, on which the failing calls succeed (the locale
  \<open>mended_transport\<close>): an operation over it does what it does over the mended one, until a call fails, and
  then it raises an I/O error.  The mended transport is a working connection in the sense of \<open>Kmip_IO\<close>, and
  the theorems about the operations of the client apply to it.
\<close>

section \<open>The data on a BIO\<close>

text \<open>What was written to a BIO, how much was read from it, and whether a call on it failed or it was freed, since it
  was made.\<close>

fun sent_on :: "handle \<Rightarrow> trace \<Rightarrow> byte list" where
  "sent_on b [] = []"
| "sent_on b ((BIO_new_ssl_connect p, r) # tr) = (if ret r = b then [] else sent_on b tr)"
| "sent_on b ((BIO_write p data n, r) # tr) = sent_on b tr @ (if p = b then take (nat (ret r)) data else [])"
| "sent_on b (_ # tr) = sent_on b tr"

fun read_on :: "handle \<Rightarrow> trace \<Rightarrow> nat" where
  "read_on b [] = 0"
| "read_on b ((BIO_new_ssl_connect p, r) # tr) = (if ret r = b then 0 else read_on b tr)"
| "read_on b ((BIO_read p n, r) # tr) = read_on b tr + (if p = b then nat (ret r) else 0)"
| "read_on b (_ # tr) = read_on b tr"

fun failed_on :: "handle \<Rightarrow> trace \<Rightarrow> bool" where
  "failed_on b [] = False"
| "failed_on b ((BIO_new_ssl_connect p, r) # tr) = (ret r \<noteq> b \<and> failed_on b tr)"
| "failed_on b ((BIO_write p data n, r) # tr) = (p = b \<and> ret r \<le> 0 \<or> failed_on b tr)"
| "failed_on b ((BIO_read p n, r) # tr) = (p = b \<and> ret r \<le> 0 \<or> failed_on b tr)"
| "failed_on b (_ # tr) = failed_on b tr"

fun freed_on :: "handle \<Rightarrow> trace \<Rightarrow> bool" where
  "freed_on b [] = False"
| "freed_on b ((BIO_new_ssl_connect p, r) # tr) = (ret r \<noteq> b \<and> freed_on b tr)"
| "freed_on b ((BIO_free_all p, r) # tr) = (p = b \<or> freed_on b tr)"
| "freed_on b (_ # tr) = freed_on b tr"

text \<open>The handshake has completed on a BIO, its address was not handed out again since, it was not freed, and no
  call on it failed.\<close>

definition open_on :: "handle \<Rightarrow> trace \<Rightarrow> bool" where
  "open_on b tr \<longleftrightarrow> \<not> failed_on b tr \<and> \<not> freed_on b tr \<and>
     (\<exists>l l'. handshake_log tr = l @ (BIO_do_connect b, 1) # l' \<and> (\<forall>p. (BIO_new_ssl_connect p, b) \<notin> set l'))"

definition tls_stream :: "tls_system \<Rightarrow> (byte list \<Rightarrow> byte list) \<Rightarrow> bool" where
  "tls_stream sys reply \<longleftrightarrow>
     (\<forall>tr b data. open_on b tr \<and> length data < 2 ^ 31 \<longrightarrow>
        ret (sys_call sys tr (BIO_write b data (int (length data)))) \<le> int (length data)) \<and>
     (\<forall>tr b n. let r = sys_call sys tr (BIO_read b (int n)); arrived = drop (read_on b tr) (reply (sent_on b tr)) in
        open_on b tr \<and> n < 2 ^ 31 \<and> 0 < ret r \<longrightarrow>
        ret r \<le> int n \<and> nat (ret r) \<le> length arrived \<and> take (nat (ret r)) (out_bytes r) = take (nat (ret r)) arrived)"

definition tls_up :: "NetClientOpenSSL \<Rightarrow> bool" where
  "tls_up s \<longleftrightarrow> m_isConnected s \<and> open_on (tls_bio s) (made_calls s)"

definition tls_out :: "NetClientOpenSSL \<Rightarrow> byte list" where
  "tls_out s = sent_on (tls_bio s) (made_calls s)"

definition tls_got :: "NetClientOpenSSL \<Rightarrow> nat" where
  "tls_got s = read_on (tls_bio s) (made_calls s)"

text \<open>The system on which no read and no write fails: a failing write takes a byte, a failing read delivers the
  next byte of the answer.\<close>

fun mended_reply :: "(byte list \<Rightarrow> byte list) \<Rightarrow> trace \<Rightarrow> call \<Rightarrow> reply \<Rightarrow> reply" where
  "mended_reply reply tr (BIO_write b data n) r = (if 0 < ret r then r else r\<lparr>ret := 1\<rparr>)"
| "mended_reply reply tr (BIO_read b n) r =
     (if 0 < ret r then r else r\<lparr>ret := 1, out_bytes := take 1 (drop (read_on b tr) (reply (sent_on b tr)))\<rparr>)"
| "mended_reply reply tr c r = r"

definition mended_system :: "(byte list \<Rightarrow> byte list) \<Rightarrow> tls_system \<Rightarrow> tls_system" where
  "mended_system reply sys = sys\<lparr>sys_call := \<lambda>tr c. mended_reply reply tr c (sys_call sys tr c)\<rparr>"

lemma mended_call [simp]: "sys_call (mended_system reply sys) tr c = mended_reply reply tr c (sys_call sys tr c)"
  by (simp add: mended_system_def)

definition tls_flow :: "tls_system \<Rightarrow> (byte list \<Rightarrow> byte list) \<Rightarrow> bool" where
  "tls_flow sys reply \<longleftrightarrow>
     (\<forall>tr b data. open_on b tr \<and> data \<noteq> [] \<and> length data < 2 ^ 31 \<longrightarrow>
        (let r = sys_call sys tr (BIO_write b data (int (length data))) in 0 < ret r \<and> ret r \<le> int (length data))) \<and>
     (\<forall>tr b n. open_on b tr \<and> 0 < n \<and> n < 2 ^ 31 \<and> read_on b tr < length (reply (sent_on b tr)) \<longrightarrow>
        (let r = sys_call sys tr (BIO_read b (int n)); arrived = drop (read_on b tr) (reply (sent_on b tr)) in
         0 < ret r \<and> ret r \<le> int n \<and> nat (ret r) \<le> length arrived \<and> take (nat (ret r)) (out_bytes r) = take (nat (ret r)) arrived))"

lemma mended_flow:
  assumes "tls_stream sys reply"
  shows "tls_flow (mended_system reply sys) reply"
  using assms unfolding tls_flow_def tls_stream_def Let_def by (auto simp: Suc_le_eq simp flip: length_greater_0_conv)

section \<open>A fresh connection\<close>

definition untouched :: "handle \<Rightarrow> trace \<Rightarrow> bool" where
  "untouched b tr \<longleftrightarrow> sent_on b tr = [] \<and> read_on b tr = 0 \<and> \<not> failed_on b tr \<and> \<not> freed_on b tr"

interpretation no_data: setup_invariant "untouched b" for b
proof
  show "untouched b ((c, r) # tr)" if "setup_call c" "untouched b tr" for c r tr
    using that by (cases c) (simp_all add: untouched_def)
qed

lemma open_bio_untouched:
  assumes "open_bio sys c ctx tr = (Inr bio, tr')"
  shows "untouched bio tr'"
proof -
  obtain t r u where "invoke sys (BIO_new_ssl_connect ctx) t = (Inr r, (BIO_new_ssl_connect ctx, r) # t)" "ret r = bio"
      "connect_bio sys c ctx bio ((BIO_new_ssl_connect ctx, r) # t) = (Inr u, tr')"
    using assms unfolding open_bio_def bind_act_Inr_iff
    by (auto simp: throw_openssl_throws on_throw_Inr_iff bind_act_Inr_iff simp del: invoke_bind split: if_splits)
      (auto simp: invoke_def Let_def)
  then show ?thesis
    using keeps_run [OF no_data.keeps_setup_connect, of bio "(BIO_new_ssl_connect ctx, r) # t" sys c ctx bio]
    by (simp add: untouched_def)
qed

lemma peer_log_no_bio: "(BIO_new_ssl_connect p, b) \<notin> set (peer_log sys options ssl cert)"
  by (simp add: peer_log_def)

lemma open_ctx_fresh:
  assumes "open_ctx sys c tr = (Inr (ctx, bio), tr')"
  shows "open_on bio tr'" "untouched bio tr'"
proof -
  obtain ssl ip param cert where
      "handshake_log tr' = handshake_log tr @ session_log sys c (m_tls_verification c) ctx bio ssl ip param cert"
    using open_ctx_log [OF assms] by blast
  then have "\<exists>l l'. handshake_log tr' = l @ (BIO_do_connect bio, 1) # l' \<and> (\<forall>p. (BIO_new_ssl_connect p, bio) \<notin> set l')"
    unfolding session_log_def using peer_log_no_bio by (metis append.assoc append_Cons append_Nil)
  moreover obtain t where "open_bio sys c ctx t = (Inr bio, tr')"
    using assms unfolding open_ctx_def bind_act_Inr_iff
    by (auto simp: throw_openssl_throws on_throw_Inr_iff bind_act_Inr_iff simp del: invoke_bind split: if_splits)
  then show "untouched bio tr'" by (rule open_bio_untouched)
  ultimately show "open_on bio tr'" by (simp add: open_on_def untouched_def)
qed

lemma free_untouched: "b' \<noteq> b \<Longrightarrow> untouched b tr \<Longrightarrow> untouched b (snd (free_ctx sys c (snd (free_bio sys b' tr))))"
  by (simp add: free_bio_def free_ctx_def untouched_def)

lemma open_bio_nonzero: "open_ctx sys c tr = (Inr (ctx, bio), tr') \<Longrightarrow> bio \<noteq> 0"
  unfolding open_ctx_def open_bio_def bind_act_Inr_iff
  by (auto simp: throw_openssl_throws on_throw_Inr_iff bind_act_Inr_iff simp del: invoke_bind split: if_splits)

text \<open>An address that is in use is not handed out again.\<close>

lemma connect_fresh:
  assumes "connect sys s = (Inr x, t)" "m_isConnected s \<Longrightarrow> tls_bio s \<noteq> tls_bio t"
  shows "tls_up t" "tls_out t = []" "tls_got t = 0"
proof -
  define old where "old = (if m_isConnected s then tls_bio s else 0)"
  obtain s1 tr0 tr c where t: "open_ctx sys s1 tr0 = (Inr (tls_ctx t, tls_bio t), tr)" "m_isConnected t"
      "made_calls t = snd (free_ctx sys c (snd (free_bio sys old tr)))"
    using assms(1) unfolding connect_def bind_act_Inr_iff old_def
    by (auto simp: on_calls_def adopt_handles_def bind_act_def reset_handles_def split: if_splits prod.splits)
  have "handshake_log (made_calls t) = handshake_log tr"
    using keeps_logged_free unfolding t(3) keeps_def by blast
  moreover have "untouched (tls_bio t) (made_calls t)"
    using open_ctx_fresh(2) [OF t(1)] open_bio_nonzero [OF t(1)] assms(2) unfolding t(3) old_def by (simp add: free_untouched)
  ultimately show "tls_up t" "tls_out t = []" "tls_got t = 0"
    using t(2) open_ctx_fresh(1) [OF t(1)] by (simp_all add: tls_up_def tls_out_def tls_got_def untouched_def open_on_def)
qed

section \<open>A connected transport\<close>

lemma tls_send_run:
  assumes "tls_up s" "tls_flow sys reply" "data \<noteq> []" "length data < 2 ^ 31"
  shows "\<exists>k s'. tls_send sys data s = (Inr (int k), s') \<and> tls_up s' \<and> 0 < k \<and> k \<le> length data \<and>
    tls_out s' = tls_out s @ take k data \<and> tls_got s' = tls_got s"
proof -
  let ?tr = "(set_errno 0, sys_call sys (made_calls s) (set_errno 0)) # made_calls s"
  let ?w = "BIO_write (tls_bio s) data (int (length data))"
  let ?r = "sys_call sys ?tr ?w"
  have "open_on (tls_bio s) ?tr" using assms(1) by (simp add: tls_up_def open_on_def)
  then have r: "0 < ret ?r" "ret ?r \<le> int (length data)"
    using assms(2-4) unfolding tls_flow_def by (metis (lifting))+
  have "tls_send sys data s = (Inr (int (nat (ret ?r))), s\<lparr>made_calls := (?w, ?r) # ?tr\<rparr>)"
    using assms(1,4) r by (simp add: tls_send_def checkConnected_def tls_up_def bind_act_def [of "checkConnected sys"] on_calls_def
        clear_socket_error_def bind_act_assoc int_of_size_small check_timeout_def)
  moreover have "tls_up (s\<lparr>made_calls := (?w, ?r) # ?tr\<rparr>)" using assms(1) r(1) by (simp add: tls_up_def open_on_def)
  ultimately show ?thesis
    using r by (intro exI [of _ "nat (ret ?r)"] exI [of _ "s\<lparr>made_calls := (?w, ?r) # ?tr\<rparr>"]) (simp add: tls_out_def tls_got_def nat_le_iff)
qed

lemma tls_recv_run:
  assumes "tls_up s" "tls_flow sys reply" "0 < n" "n < 2 ^ 31" "tls_got s < length (reply (tls_out s))"
  shows "\<exists>k s'. tls_recv sys n s = (Inr (int k, take k (drop (tls_got s) (reply (tls_out s)))), s') \<and> tls_up s' \<and> 0 < k \<and> k \<le> n \<and>
    tls_got s + k \<le> length (reply (tls_out s)) \<and> tls_out s' = tls_out s \<and> tls_got s' = tls_got s + k"
proof -
  let ?tr = "(set_errno 0, sys_call sys (made_calls s) (set_errno 0)) # made_calls s"
  let ?c = "BIO_read (tls_bio s) (int n)"
  let ?r = "sys_call sys ?tr ?c"
  let ?a = "drop (tls_got s) (reply (tls_out s))"
  have "open_on (tls_bio s) ?tr" "read_on (tls_bio s) ?tr = tls_got s" "sent_on (tls_bio s) ?tr = tls_out s"
    using assms(1) by (simp_all add: tls_up_def open_on_def tls_got_def tls_out_def)
  then have r: "0 < ret ?r" "ret ?r \<le> int n" "nat (ret ?r) \<le> length ?a" "take (nat (ret ?r)) (out_bytes ?r) = take (nat (ret ?r)) ?a"
    using assms(2-5) unfolding tls_flow_def by (metis (lifting))+
  have "tls_recv sys n s = (Inr (int (nat (ret ?r)), take (nat (ret ?r)) ?a), s\<lparr>made_calls := (?c, ?r) # ?tr\<rparr>)"
    using assms(1,4) r by (simp add: tls_recv_def checkConnected_def tls_up_def bind_act_def [of "checkConnected sys"] on_calls_def
        clear_socket_error_def bind_act_assoc int_of_size_small check_timeout_def)
  moreover have "tls_up (s\<lparr>made_calls := (?c, ?r) # ?tr\<rparr>)" using assms(1) r(1) by (simp add: tls_up_def open_on_def)
  moreover have "tls_got s + nat (ret ?r) \<le> length (reply (tls_out s))" "nat (ret ?r) \<le> n" using r(1-3) assms(5) by simp_all
  ultimately show ?thesis
    using r(1) by (intro exI [of _ "nat (ret ?r)"] exI [of _ "s\<lparr>made_calls := (?c, ?r) # ?tr\<rparr>"]) (simp add: tls_out_def tls_got_def)
qed

lemma tls_peer_stream: "tls_flow sys reply \<Longrightarrow> peer_stream (tls_net_client sys) tls_up reply tls_out tls_got"
  unfolding peer_stream_def tls_net_client_def using tls_send_run tls_recv_run by simp

section \<open>A transport that may fail\<close>

text \<open>An action follows another one: it does the same, or it raises an I/O error in a state \<open>failed\<close>.  The states \<open>up\<close>
  are kept.\<close>

definition follows :: "('s \<Rightarrow> bool) \<Rightarrow> ('s \<Rightarrow> bool) \<Rightarrow> ('s, 'a) action \<Rightarrow> ('s, 'a) action \<Rightarrow> bool" where
  "follows up failed m m' \<longleftrightarrow>
     (\<forall>s. up s \<longrightarrow> m s = m' s \<and> (\<forall>x t. m s = (Inr x, t) \<longrightarrow> up t) \<or>
        (\<exists>code msg t. m s = (Inl (KmipIOException code msg), t) \<and> failed t))"

lemma followsI:
  assumes "\<And>s. up s \<Longrightarrow> m s = m' s \<and> (\<forall>x t. m s = (Inr x, t) \<longrightarrow> up t) \<or>
    (\<exists>code msg t. m s = (Inl (KmipIOException code msg), t) \<and> failed t)"
  shows "follows up failed m m'"
  using assms by (simp add: follows_def)

lemma follows_cases:
  assumes "follows up failed m m'" "up s"
  obtains (same) "m s = m' s" "\<And>x t. m s = (Inr x, t) \<Longrightarrow> up t"
    | (broke) code msg t where "m s = (Inl (KmipIOException code msg), t)" "failed t"
  using assms unfolding follows_def by blast

lemma follows_bind:
  assumes "follows up failed m m'" "\<And>x. follows up failed (f x) (f' x)"
  shows "follows up failed (bind_act m f) (bind_act m' f')"
proof (rule followsI)
  fix s assume "up s"
  with assms(1) consider
      x t where "m s = (Inr x, t)" "m' s = (Inr x, t)" "up t"
    | err t where "m s = (Inl err, t)" "m' s = (Inl err, t)"
    | code msg t where "m s = (Inl (KmipIOException code msg), t)" "failed t"
    unfolding follows_def by (metis old.prod.exhaust sum.exhaust)
  then show "bind_act m f s = bind_act m' f' s \<and> (\<forall>x t. bind_act m f s = (Inr x, t) \<longrightarrow> up t) \<or>
      (\<exists>code msg t. bind_act m f s = (Inl (KmipIOException code msg), t) \<and> failed t)"
  proof cases
    case 1
    then show ?thesis using assms(2) [of x] by (simp add: follows_def)
  qed (simp_all add: bind_act_def)
qed

lemma follows_same: "(\<And>s x t. up s \<Longrightarrow> m s = (Inr x, t) \<Longrightarrow> up t) \<Longrightarrow> follows up failed m m"
  by (simp add: follows_def)

lemma follows_lift: "follows up failed (lift_res r) (lift_res r)"
  by (rule follows_same) simp

lemma follows_on_net:
  assumes "follows up failed m m'"
  shows "follows (\<lambda>s. up (io_net s)) (\<lambda>s. failed (io_net s)) (on_net m) (on_net m')"
proof (rule followsI)
  fix s :: "'a io_state"
  assume "up (io_net s)"
  with assms show "on_net m s = on_net m' s \<and> (\<forall>x t. on_net m s = (Inr x, t) \<longrightarrow> up (io_net t)) \<or>
      (\<exists>code msg t. on_net m s = (Inl (KmipIOException code msg), t) \<and> failed (io_net t))"
    by (cases rule: follows_cases) (auto simp: on_net_def split: prod.splits)
qed

lemma follows_log: "follows (\<lambda>s. up (io_net s)) failed (log_debug pl io event ttlv) (log_debug pl io event ttlv)"
  by (rule follows_same) (auto simp: log_debug_def split: option.splits sum.splits if_splits)

text \<open>A transport and a mended one: each call does the same on both, or fails on the first.\<close>

locale mended_transport =
  fixes nc nc' :: "'n net_client" and up failed :: "'n \<Rightarrow> bool"
  assumes send_mended: "up s \<Longrightarrow> nc_send nc data s = (r, t) \<Longrightarrow>
      nc_send nc' data s = (r, t) \<and> up t \<or>
      failed t \<and> (case r of Inl err \<Rightarrow> \<exists>code msg. err = KmipIOException code msg | Inr sent \<Rightarrow> sent \<le> 0)"
    and recv_mended: "up s \<Longrightarrow> nc_recv nc n s = (x, t) \<Longrightarrow>
      nc_recv nc' n s = (x, t) \<and> up t \<or>
      failed t \<and> (case x of Inl err \<Rightarrow> \<exists>code msg. err = KmipIOException code msg | Inr (received, data) \<Rightarrow> received \<le> 0)"
    and close_mended: "nc_close nc = nc_close nc'"
begin

lemma send_round:
  "follows up failed (bind_act (nc_send nc data) (\<lambda>sent. lift_res (if sent \<le> 0 then Inl (kmip_io_exception_code code msg) else Inr sent)))
     (bind_act (nc_send nc' data) (\<lambda>sent. lift_res (if sent \<le> 0 then Inl (kmip_io_exception_code code msg) else Inr sent)))"
proof (rule followsI, goal_cases)
  case (1 s)
  obtain r t where "nc_send nc data s = (r, t)" by fastforce
  with send_mended [OF 1 this] show ?case
    by (cases r) (auto simp: bind_act_def kmip_io_exception_code_def)
qed

lemma recv_round:
  "follows up failed (bind_act (nc_recv nc n) (\<lambda>x. lift_res (if fst x \<le> 0 then Inl (kmip_io_exception_code code msg) else Inr x)))
     (bind_act (nc_recv nc' n) (\<lambda>x. lift_res (if fst x \<le> 0 then Inl (kmip_io_exception_code code msg) else Inr x)))"
proof (rule followsI, goal_cases)
  case (1 s)
  obtain x t where "nc_recv nc n s = (x, t)" by fastforce
  with recv_mended [OF 1 this] show ?case
    by (cases x) (auto simp: bind_act_def kmip_io_exception_code_def)
qed

lemma send_loop_follows: "follows up failed (send_loop nc request dlen cnt) (send_loop nc' request dlen cnt)"
proof (induction "nat (dlen - cnt)" arbitrary: cnt rule: less_induct)
  case less
  have "follows up failed (bind_act (lift_res (int_plus cnt sent)) (send_loop nc request dlen))
      (bind_act (lift_res (int_plus cnt sent)) (send_loop nc' request dlen))" if "0 < sent" "cnt < dlen" for sent
    using less.hyps [of "cnt + sent"] that
    by (simp add: int_plus_def) (simp add: follows_def bind_act_def lift_res_def)
  moreover have "send_loop nc'' request dlen cnt =
      (if cnt < dlen then bind_act (bind_act (nc_send nc'' (drop (nat cnt) request)) (\<lambda>sent. lift_res
           (if sent \<le> 0 then Inl (kmip_io_exception_code KMIP_IO_FAILURE (''Can not send request. Bytes total: '' @ int_to_string dlen @
              '', bytes sent: '' @ int_to_string cnt)) else Inr sent)))
         (\<lambda>sent. if 0 < sent then bind_act (lift_res (int_plus cnt sent)) (send_loop nc'' request dlen) else lift_res (Inr ()))
       else lift_res (Inr ()))" for nc'' :: "'n net_client"
    by (rule ext, subst send_loop.simps) (auto simp: bind_act_def lift_res_def split: prod.splits sum.splits)
  ultimately show ?case
    by (auto intro!: follows_bind send_round follows_lift)
qed

lemma read_loop_follows: "follows up failed (read_loop nc n cnt buf) (read_loop nc' n cnt buf)"
proof (induction "nat (n - cnt)" arbitrary: cnt buf rule: less_induct)
  case less
  have "follows up failed (bind_act (lift_res (int_plus cnt k)) (\<lambda>cnt'. read_loop nc n cnt' (fill_span (nat cnt) data buf)))
      (bind_act (lift_res (int_plus cnt k)) (\<lambda>cnt'. read_loop nc' n cnt' (fill_span (nat cnt) data buf)))" if "0 < k" "cnt < n" for k data
    using less.hyps [of "cnt + k"] that
    by (simp add: int_plus_def) (simp add: follows_def bind_act_def lift_res_def)
  moreover have "read_loop nc'' n cnt buf =
      (if cnt < n then bind_act (bind_act (nc_recv nc'' (length buf - nat cnt)) (\<lambda>x. lift_res
           (if fst x \<le> 0 then Inl (kmip_io_exception_code KMIP_IO_FAILURE
              (''Connection closed or error while reading. Expected '' @ int_to_string n @ '', got '' @ int_to_string cnt)) else Inr x)))
         (\<lambda>x. if 0 < fst x then bind_act (lift_res (int_plus cnt (fst x))) (\<lambda>cnt'. read_loop nc'' n cnt' (fill_span (nat cnt) (snd x) buf))
            else lift_res (Inr buf))
       else lift_res (Inr buf))" for nc'' :: "'n net_client"
    by (rule ext, subst read_loop.simps) (auto simp: bind_act_def lift_res_def split: prod.splits sum.splits)
  ultimately show ?case
    by (auto intro!: follows_bind recv_round follows_lift)
qed

lemma receive_follows: "follows up failed (receive_message nc limit) (receive_message nc' limit)"
  unfolding receive_message_def read_exact_def Let_def
  by (intro follows_bind read_loop_follows) (auto intro: follows_bind read_loop_follows follows_lift)

lemma io_send_follows: "follows up failed (io_send nc request) (io_send nc' request)"
  using send_loop_follows [of request "int_of_size (length request)" 0] by (auto simp: follows_def io_send_def Let_def)

lemma exchange_follows:
  assumes "io_net_client io = nc"
  shows "follows (\<lambda>s. up (io_net s)) (\<lambda>s. \<exists>n. failed n \<and> io_net s = nc_close nc n) (do_exchange pl io request limit)
    (do_exchange pl (io\<lparr>io_net_client := nc'\<rparr>) request limit)"
proof -
  have log: "log_debug pl (io\<lparr>io_net_client := nc'\<rparr>) = log_debug pl io"
    by (intro ext) (simp add: log_debug_def)
  have net: "io_net_client (io\<lparr>io_net_client := nc'\<rparr>) = nc'" by simp
  have "follows (\<lambda>s. up (io_net s)) (\<lambda>s. failed (io_net s)) (exchange_body pl io request limit)
      (exchange_body pl (io\<lparr>io_net_client := nc'\<rparr>) request limit)"
    unfolding exchange_body_def log assms net
    by (intro follows_bind follows_on_net io_send_follows receive_follows follows_lift follows_log)
  note body = this
  show ?thesis
  proof (rule followsI, goal_cases)
    case (1 s)
    with body show ?case
    proof (cases rule: follows_cases)
      case same
      then show ?thesis
        by (auto simp: do_exchange_def assms close_mended split: prod.splits sum.splits failure.splits)
    next
      case broke
      then show ?thesis by (auto simp: do_exchange_def assms)
    qed
  qed
qed

lemma operation_follows:
  assumes "kc_io c = Some io" "io_net_client io = nc"
  shows "follows (\<lambda>s. up (io_net s)) (\<lambda>s. \<exists>n. failed n \<and> io_net s = nc_close nc n) (perform_id env c op build)
    (perform_id env (c\<lparr>kc_io := Some (io\<lparr>io_net_client := nc'\<rparr>)\<rparr>) op build)"
proof -
  let ?c = "c\<lparr>kc_io := Some (io\<lparr>io_net_client := nc'\<rparr>)\<rparr>"
  have "follows (\<lambda>s. up (io_net s)) (\<lambda>s. \<exists>n. failed n \<and> io_net s = nc_close nc n) (exchange_request env c request)
      (exchange_request env ?c request)" for request
  proof (rule followsI, goal_cases)
    case (1 s)
    have "follows (\<lambda>s. up (io_net s)) (\<lambda>s. \<exists>n. failed n \<and> io_net s = nc_close nc n)
        (bind_act (lift_res r) (\<lambda>bytes. bind_act (do_exchange (ce_platform env) io bytes (getMaxResponseSize request))
           (\<lambda>response. lift_res (Inr (new_ResponseParser_for response request)))))
        (bind_act (lift_res r) (\<lambda>bytes. bind_act (do_exchange (ce_platform env) (io\<lparr>io_net_client := nc'\<rparr>) bytes (getMaxResponseSize request))
           (\<lambda>response. lift_res (Inr (new_ResponseParser_for response request)))))" for r
      by (intro follows_bind exchange_follows follows_lift assms(2))
    then show ?case using 1 by (simp add: follows_def exchange_request_def assms(1))
  qed
  moreover have "make_request_message ?c = make_request_message c" by (simp add: make_request_message_def)
  ultimately show ?thesis
    unfolding perform_id_def perform_def by (auto split: prod.split intro!: follows_bind follows_lift)
qed

end

section \<open>The operations over TLS\<close>

definition tls_peer :: "platform \<Rightarrow> ('q \<Rightarrow> RequestMessage \<Rightarrow> ResponseMessage \<times> 'q) \<Rightarrow> 'q \<Rightarrow> (NetClientOpenSSL, 'q) peer" where
  "tls_peer pl handler q =
     \<lparr>peer_platform = pl, peer_handler = handler, peer_start = q, peer_up = tls_up, peer_out = tls_out, peer_got = tls_got\<rparr>"

lemma tls_peer_simps [simp]:
  "peer_platform (tls_peer pl handler q) = pl" "peer_handler (tls_peer pl handler q) = handler"
  "peer_start (tls_peer pl handler q) = q" "peer_up (tls_peer pl handler q) = tls_up"
  "peer_out (tls_peer pl handler q) = tls_out" "peer_got (tls_peer pl handler q) = tls_got"
  by (simp_all add: tls_peer_def)

lemma tls_serving:
  assumes "tls_flow sys (\<lambda>sent. fst (serve_stream pl handler q sent))" "\<not> hardened pl" "\<not> hardened (ce_platform env)"
    and "kc_io c = Some io" "io_net_client io = tls_net_client sys"
  shows "serving env c (tls_peer pl handler q)"
  using assms tls_peer_stream [OF assms(1)] by (simp add: serving_def)

lemma tls_in_step:
  assumes "connect sys n = (Inr x, io_net s)" "m_isConnected n \<Longrightarrow> tls_bio n \<noteq> tls_bio (io_net s)"
  shows "in_step (tls_peer pl handler q) (io_net s) q"
proof -
  have "serve_stream pl handler q [] = ([], q)"
    by (subst serve_stream.simps) (simp split: sum.split prod.split)
  with connect_fresh [OF assms] show ?thesis by (simp add: in_step_def exI [of _ "[]"])
qed

text \<open>The transport over TLS and the one over the mended system.\<close>

lemma throw_io_run: "throw_io msg s = (Inl (KmipIOException KMIP_IO_FAILURE msg), s)"
  by (simp add: throw_io_def kmip_io_exception_code_def)

definition bound_to :: "handle \<Rightarrow> NetClientOpenSSL \<Rightarrow> bool" where
  "bound_to b s \<longleftrightarrow> m_isConnected s \<and> tls_bio s = b"

definition broken :: "handle \<Rightarrow> NetClientOpenSSL \<Rightarrow> bool" where
  "broken b s \<longleftrightarrow> failed_on b (made_calls s)"

lemma tls_send_mended:
  assumes "bound_to b s" "tls_send sys data s = (r, t)"
  shows "tls_send (mended_system reply sys) data s = (r, t) \<and> bound_to b t \<or>
    broken b t \<and> (case r of Inl err \<Rightarrow> \<exists>code msg. err = KmipIOException code msg | Inr sent \<Rightarrow> sent \<le> 0)"
  using assms
  by (cases "0 < ret (sys_call sys ((set_errno 0, sys_call sys (made_calls s) (set_errno 0)) # made_calls s)
        (BIO_write (tls_bio s) data (int_of_size (length data))))")
     (auto simp: tls_send_def bound_to_def broken_def checkConnected_def bind_act_def [of "checkConnected _"] on_calls_def
        clear_socket_error_def bind_act_assoc check_timeout_def last_socket_error_def throw_io_run
        split: if_splits)

lemma tls_recv_mended:
  assumes "bound_to b s" "tls_recv sys n s = (x, t)"
  shows "tls_recv (mended_system reply sys) n s = (x, t) \<and> bound_to b t \<or>
    broken b t \<and> (case x of Inl err \<Rightarrow> \<exists>code msg. err = KmipIOException code msg | Inr (received, data) \<Rightarrow> received \<le> 0)"
  using assms
  by (cases "0 < ret (sys_call sys ((set_errno 0, sys_call sys (made_calls s) (set_errno 0)) # made_calls s)
        (BIO_read (tls_bio s) (int_of_size n)))")
     (auto simp: tls_recv_def bound_to_def broken_def checkConnected_def bind_act_def [of "checkConnected _"] on_calls_def
        clear_socket_error_def bind_act_assoc check_timeout_def last_socket_error_def throw_io_run
        split: if_splits)

lemma tls_close_mended: "tls_close sys = tls_close (mended_system reply sys)"
  by (rule ext) (simp add: tls_close_def reset_handles_def free_bio_def free_ctx_def)

interpretation tls_mended: mended_transport "tls_net_client sys" "tls_net_client (mended_system reply sys)" "bound_to b" "broken b"
  for sys reply b
  by unfold_locales (auto simp: tls_net_client_def tls_close_mended [of sys reply] dest: tls_send_mended tls_recv_mended)

lemma tls_close_simps [simp]:
  "m_isConnected (tls_close sys s) = False" "failed_on b (made_calls (tls_close sys s)) = failed_on b (made_calls s)"
  by (simp_all add: tls_close_def reset_handles_def free_bio_def free_ctx_def)

lemma mended_operation:
  assumes "tls_stream sys (\<lambda>sent. fst (serve_stream pl handler q sent))" "\<not> hardened pl" "\<not> hardened (ce_platform env)"
    and "kc_io c = Some io" "in_step (tls_peer pl handler q) (io_net s) q"
    and "\<forall>version i. build version = Inr i \<longrightarrow> item_ok i" "build (kc_version c) = Inr item" "rqb_operation item = op"
    and "rm = prepare_request (ce_time env (io_net s)) (request_of (kc_version c) DEFAULT_MAX_RESPONSE_SIZE item)"
    and "length (wire_request rm) \<le> 2 ^ 26" "handler q rm = (response, q')" "response_wire_valid response"
    and "rsm_batchItems response = [ri]" "rsb_uniqueBatchItemId ri \<in> {0, 1}"
    and "length (wire_response response) \<le> DEFAULT_MAX_RESPONSE_SIZE"
    and "c' = c\<lparr>kc_io := Some (io\<lparr>io_net_client := tls_net_client (mended_system (\<lambda>sent. fst (serve_stream pl handler q sent)) sys)\<rparr>)\<rparr>"
  shows "\<exists>s'. perform_id env c' op build s =
      (bind_res (answer_of (SimpleIdResponse_fromBatchItem op) op ri) (\<lambda>r. Inr (sid_uniqueIdentifier r)), s') \<and>
    in_step (tls_peer pl handler q) (io_net s') q'"
proof -
  have "serving env c' (tls_peer pl handler q)"
    using tls_serving [OF mended_flow [OF assms(1)] assms(2,3)] by (simp add: assms(16))
  moreover have "peer_handler (tls_peer pl handler q) q rm = (response, q')" using assms(11) by simp
  moreover have "client_operation (\<lambda>env c. perform_id env c op build) build (SimpleIdResponse_fromBatchItem op)
      (\<lambda>r. Inr (sid_uniqueIdentifier r))" by (rule id_operationI) (use assms(6) in blast)
  ultimately show ?thesis
    using client_operation.served [of "\<lambda>env c. perform_id env c op build" build "SimpleIdResponse_fromBatchItem op"
        "\<lambda>r. Inr (sid_uniqueIdentifier r)" env c' "tls_peer pl handler q" s q item rm response q' ri] assms(5,7-10,12-16)
    by simp
qed


text \<open>A system whose peer answers with \<open>reply\<close>, a byte at a time, for concrete evaluations.\<close>

fun answering_reply :: "(byte list \<Rightarrow> byte list) \<Rightarrow> trace \<Rightarrow> call \<Rightarrow> reply" where
  "answering_reply reply tr (BIO_read b n) =
     (let data = take (min 1 (nat n)) (drop (read_on b tr) (reply (sent_on b tr))) in
      \<lparr>ret = int (length data), out_value = 0, out_text = [], out_bytes = data\<rparr>)"
| "answering_reply reply tr (BIO_write b data n) =
     \<lparr>ret = int (length (take 1 data)), out_value = 0, out_text = [], out_bytes = []\<rparr>"
| "answering_reply reply tr c = \<lparr>ret = quiet_reply c, out_value = 1, out_text = [], out_bytes = []\<rparr>"

definition answering_system :: "(byte list \<Rightarrow> byte list) \<Rightarrow> tls_system" where
  "answering_system reply = quiet_system\<lparr>sys_call := answering_reply reply\<rparr>"

lemma answering_stream: "tls_stream (answering_system reply) reply" "tls_flow (answering_system reply) reply"
  by (auto simp: tls_stream_def tls_flow_def answering_system_def Let_def Suc_le_eq min_def)

lemma answering_connected: "fst (connect (answering_system reply) quiet_client) = Inr True"
  by (simp add: quiet_client_def new_NetClientOpenSSL_def connect_def bind_act_def [of "\<lambda>s. on_calls (open_ctx (answering_system reply) s) s"]
      reset_handles_def free_bio_def free_ctx_def open_ctx_def open_bio_def connect_bio_def establish_def
      configure_tls_verification_def load_credentials_def expect_one_def is_ip_address_def ensure_tls_peer_verified_def
      get_peer_certificate_def check_verify_result_def apply_socket_io_timeout_def X509_V_OK_def on_throw_def
      on_calls_def adopt_handles_def answering_system_def quiet_system_def Let_def bind_act_def invoke_def return_act_def modern_openssl_def)

definition answering_client :: "(byte list \<Rightarrow> byte list) \<Rightarrow> NetClientOpenSSL KmipClient" where
  "answering_client reply = new_KmipClient (tls_net_client (answering_system reply)) None KMIP_VERSION_1_4 False"

definition answering_env :: "NetClientOpenSSL client_env" where
  "answering_env = \<lparr>ce_platform = \<lparr>native_endian = Little_endian, hardened = False\<rparr>, ce_time = (\<lambda>_. 7),
     ce_d2i_X509_PUBKEY = (\<lambda>_. None)\<rparr>"

definition destroying_reply :: "byte list \<Rightarrow> byte list" where
  "destroying_reply sent =
     fst (serve_stream \<lparr>native_endian = Big_endian, hardened = False\<rparr> (\<lambda>_ _. (destroyed_response, ())) () sent)"

definition connected_io :: "NetClientOpenSSL io_state" where
  "connected_io = \<lparr>io_net = snd (connect (answering_system destroying_reply) quiet_client), io_log = []\<rparr>"


end
