(* ===== verification/Pool_Slots.thy ===== *)
theory Pool_Slots
  imports Client_Pool Tls_Client
begin

text \<open>
  The connections of the pool: \<open>create_slot\<close> of \<open>src/kmipclient/src/KmipClientPool.cpp\<close> and the life of a slot, a TLS transport and the
  client over it, from its creation over borrowing and returning to its destruction.

  \<open>slots_step\<close> puts the transports beside the threads of \<open>Client_Pool\<close>: each step of it is a step of the pool, or a
  call of a borrower on its connection, or the destruction of a slot that was given up.  \<open>return_slot\<close> gives up a slot under
  the lock and destroys it after the lock is released, so other threads may move in between.  Every connection has a system
  of its own: OpenSSL and the network may do something else each time.
\<close>

section \<open>Slots\<close>

record Config =
  cfg_host :: string
  cfg_port :: string
  cfg_client_cert :: string
  cfg_client_key :: string
  cfg_server_ca_cert :: string
  cfg_logger :: "(LogLevel \<Rightarrow> bool) option"
  cfg_timeout_ms :: int
  cfg_max_connections :: nat
  cfg_version :: ProtocolVersion
  cfg_tls_verification :: TlsVerificationOptions

record Slot =
  slot_net_client :: NetClientOpenSSL
  slot_kmip_client :: "NetClientOpenSSL KmipClient"

text \<open>The default of the options that the constructor of the transport takes.\<close>

definition default_tls_verification :: TlsVerificationOptions where
  "default_tls_verification = \<lparr>peer_verification = True, hostname_verification = True\<rparr>"

text \<open>The slot that is made, or the exception and the transport as its destructor leaves it: when \<open>connect\<close> throws,
  the slot dies before it has a client.\<close>

definition create_slot :: "tls_system \<Rightarrow> Config \<Rightarrow> failure \<times> NetClientOpenSSL + Slot" where
  "create_slot sys cfg =
     (let net_client = new_NetClientOpenSSL (cfg_host cfg) (cfg_port cfg) (cfg_client_cert cfg) (cfg_client_key cfg)
          (cfg_server_ca_cert cfg) (cfg_timeout_ms cfg) default_tls_verification;
        net_client = set_tls_verification (cfg_tls_verification cfg) net_client in
      case connect sys net_client of
        (Inl err, n) \<Rightarrow> Inl (err, destroy_NetClientOpenSSL sys n)
      | (Inr _, n) \<Rightarrow> Inr \<lparr>slot_net_client = n,
          slot_kmip_client = new_KmipClient (tls_net_client sys) (cfg_logger cfg) (cfg_version cfg) False\<rparr>)"

text \<open>The members are destroyed in reverse order, the client first.\<close>

definition destroy_Slot :: "tls_system \<Rightarrow> Slot \<Rightarrow> NetClientOpenSSL" where
  "destroy_Slot sys slot = destroy_NetClientOpenSSL sys (destroy_client (slot_kmip_client slot) (slot_net_client slot))"

text \<open>What a borrower can do with its client: the exchanges send, receive and close (a call on a closed
  transport connects it again), and the version can be set.\<close>

datatype borrower_op = Transport_send "byte list" | Transport_recv nat | Transport_close | Set_version ProtocolVersion

fun use_slot :: "tls_system \<Rightarrow> borrower_op \<Rightarrow> Slot \<Rightarrow> Slot" where
  "use_slot sys (Transport_send data) slot = slot\<lparr>slot_net_client := snd (tls_send sys data (slot_net_client slot))\<rparr>"
| "use_slot sys (Transport_recv n) slot = slot\<lparr>slot_net_client := snd (tls_recv sys n (slot_net_client slot))\<rparr>"
| "use_slot sys Transport_close slot = slot\<lparr>slot_net_client := tls_close sys (slot_net_client slot)\<rparr>"
| "use_slot sys (Set_version version) slot = slot\<lparr>slot_kmip_client := set_protocol_version version (slot_kmip_client slot)\<rparr>"

section \<open>Threads with connections\<close>

text \<open>The slots of the pool, idle or lent, with their systems; the slots that a thread has given up and not destroyed yet;
  and the transports of those that died.\<close>

type_synonym slots_state =
  "pool_state \<times> (slot \<rightharpoonup> tls_system \<times> Slot) \<times> (tls_system \<times> Slot) multiset \<times> NetClientOpenSSL list"

definition live_slots :: "pool_state \<Rightarrow> slot multiset" where
  "live_slots st = mset (available (fst st)) + held (snd st)"

text \<open>A step of the pool that only moves calls: nothing is created, returned or given up.\<close>

definition call_step :: "pool_state \<Rightarrow> pool_state \<Rightarrow> bool" where
  "call_step st st' \<longleftrightarrow> pool_step st st' \<and> live_slots st' = live_slots st \<and>
     set (available (fst st')) \<subseteq> set (available (fst st)) \<and> total_count (fst st) \<le> total_count (fst st')"

inductive slots_step :: "Config \<Rightarrow> slots_state \<Rightarrow> slots_state \<Rightarrow> bool" for cfg where
  slots_call: "call_step st st' \<Longrightarrow> slots_step cfg (st, slots, dying, gone) (st', slots, dying, gone)"
| slot_created: "s \<notin> set (available p) \<Longrightarrow> s \<notin># held A \<Longrightarrow> create_slot sys cfg = Inr slot \<Longrightarrow>
    slots_step cfg ((p, add_mset Connecting A), slots, dying, gone)
      ((p, add_mset (Holding s True) A), slots(s \<mapsto> (sys, slot)), dying, gone)"
| slot_failed: "notify_one A A' \<Longrightarrow> create_slot sys cfg = Inl (err, n) \<Longrightarrow>
    slots_step cfg ((p, add_mset Connecting A), slots, dying, gone) ((connect_failed p, A'), slots, dying, n # gone)"
| slot_used: "Holding s h \<in># A \<Longrightarrow> slots s = Some (sys, slot) \<Longrightarrow>
    slots_step cfg ((p, A), slots, dying, gone) ((p, A), slots(s \<mapsto> (sys, use_slot sys op slot)), dying, gone)"
| slot_kept: "notify_one A A' \<Longrightarrow> slots s = Some (sys, slot) \<Longrightarrow> h \<Longrightarrow> m_isConnected (slot_net_client slot) \<Longrightarrow>
    slots_step cfg ((p, add_mset (Holding s h) A), slots, dying, gone)
      ((return_slot s h (m_isConnected (slot_net_client slot)) p, A'), slots, dying, gone)"
| slot_discarded: "notify_one A A' \<Longrightarrow> slots s = Some (sys, slot) \<Longrightarrow> \<not> h \<or> \<not> m_isConnected (slot_net_client slot) \<Longrightarrow>
    slots_step cfg ((p, add_mset (Holding s h) A), slots, dying, gone)
      ((return_slot s h (m_isConnected (slot_net_client slot)) p, A'), slots(s := None), add_mset (sys, slot) dying, gone)"
| slot_destroyed: "slots_step cfg (st, slots, add_mset (sys, slot) dying, gone) (st, slots, dying, destroy_Slot sys slot # gone)"

inductive slots_reachable :: "Config \<Rightarrow> slots_state \<Rightarrow> bool" for cfg where
  slots_start: "new_pool (cfg_max_connections cfg) = Inr p \<Longrightarrow> slots_reachable cfg ((p, {#}), Map.empty, {#}, [])"
| slots_next: "slots_reachable cfg w \<Longrightarrow> slots_step cfg w w' \<Longrightarrow> slots_reachable cfg w'"

inductive_cases slots_stepE: "slots_step cfg w w'"

text \<open>Refinement: the pool behind the connections moves as \<open>Client_Pool\<close> says.\<close>

lemma slots_step_pool: "slots_step cfg w w' \<Longrightarrow> pool_step (fst w) (fst w') \<or> fst w' = fst w"
  by (erule slots_step.cases) (auto simp: call_step_def intro: pool_step.intros)

lemma slots_reachable_pool: "slots_reachable cfg w \<Longrightarrow> pool_reachable (cfg_max_connections cfg) (fst w)"
proof (induction rule: slots_reachable.induct)
  case (slots_start p)
  then show ?case by (simp add: pool_start)
next
  case (slots_next w w')
  from slots_step_pool [OF slots_next(2)] slots_next(3) show ?case by (auto intro: pool_next)
qed

section \<open>What a connection keeps\<close>

text \<open>A live slot: its handles are accounted for, its client has this transport and does not close it, and when it is
  connected the session was set up under the options of the pool.\<close>

definition slot_ok :: "Config \<Rightarrow> tls_system \<Rightarrow> Slot \<Rightarrow> bool" where
  "slot_ok cfg sys slot \<longleftrightarrow> tls_ok (slot_net_client slot) \<and> sessions_ok sys {cfg_tls_verification cfg} (slot_net_client slot) \<and>
     kc_net_client (slot_kmip_client slot) = Some (tls_net_client sys) \<and> \<not> kc_close_on_destroy (slot_kmip_client slot)"

lemma create_slot_ok:
  shows "create_slot sys cfg = Inr slot \<Longrightarrow> slot_ok cfg sys slot \<and> m_isConnected (slot_net_client slot)"
    and "create_slot sys cfg = Inl (err, n) \<Longrightarrow> ledger (made_calls n) = Some {#}"
proof -
  let ?n = "new_NetClientOpenSSL (cfg_host cfg) (cfg_port cfg) (cfg_client_cert cfg) (cfg_client_key cfg)
    (cfg_server_ca_cert cfg) (cfg_timeout_ms cfg) (cfg_tls_verification cfg)"
  have n: "set_tls_verification (cfg_tls_verification cfg) (new_NetClientOpenSSL (cfg_host cfg) (cfg_port cfg) (cfg_client_cert cfg)
      (cfg_client_key cfg) (cfg_server_ca_cert cfg) (cfg_timeout_ms cfg) default_tls_verification) = ?n"
    by (simp add: set_tls_verification_def new_NetClientOpenSSL_def)
  obtain r t where c: "connect sys ?n = (r, t)" by (cases "connect sys ?n")
  have "sessions_ok sys {cfg_tls_verification cfg} ?n" by (simp add: sessions_ok_def new_NetClientOpenSSL_def)
  then have s: "sessions_ok sys {cfg_tls_verification cfg} t" using c by (rule connect_sessions)
  note t = connect_ok [OF new_client_ok c]
  show "create_slot sys cfg = Inr slot \<Longrightarrow> slot_ok cfg sys slot \<and> m_isConnected (slot_net_client slot)"
    using c s t(1,2) by (auto simp: create_slot_def n Let_def slot_ok_def new_KmipClient_def split: sum.splits)
  show "create_slot sys cfg = Inl (err, n) \<Longrightarrow> ledger (made_calls n) = Some {#}"
    using c tls_close_ok(2) [OF t(1)] by (auto simp: create_slot_def n Let_def destroy_NetClientOpenSSL_def holds_def split: sum.splits)
qed

lemma use_slot_ok:
  assumes "slot_ok cfg sys slot"
  shows "slot_ok cfg sys (use_slot sys op slot)"
proof -
  have "tls_ok (run_op sys tr (slot_net_client slot)) \<and> sessions_ok sys {cfg_tls_verification cfg} (run_op sys tr (slot_net_client slot))"
    if "tr \<in> {Send data, Recv n, Close}" for tr data n
    using assms that by (auto simp: slot_ok_def simp del: run_op.simps intro!: run_op_ok run_op_sessions)
  from this [of "Send _"] this [of "Recv _"] this [of Close] show ?thesis
    using assms by (cases op) (auto simp: slot_ok_def set_protocol_version_def)
qed

lemma destroy_Slot_empty: "slot_ok cfg sys slot \<Longrightarrow> ledger (made_calls (destroy_Slot sys slot)) = Some {#}"
  using tls_close_ok(2) by (simp add: slot_ok_def destroy_Slot_def destroy_client_def destroy_NetClientOpenSSL_def holds_def)

section \<open>Invariant\<close>

definition slots_inv :: "Config \<Rightarrow> slots_state \<Rightarrow> bool" where
  "slots_inv cfg w \<longleftrightarrow> (case w of (st, slots, dying, gone) \<Rightarrow>
     dom slots = set_mset (live_slots st) \<and>
     (\<forall>s sys slot. slots s = Some (sys, slot) \<longrightarrow>
        slot_ok cfg sys slot \<and> (s \<in> set (available (fst st)) \<longrightarrow> m_isConnected (slot_net_client slot))) \<and>
     (\<forall>(sys, slot) \<in># dying. slot_ok cfg sys slot) \<and> (\<forall>n \<in> set gone. ledger (made_calls n) = Some {#}))"

lemma live_slots_simps [simp]:
  "live_slots (p, add_mset c A) = (case c of Holding s _ \<Rightarrow> add_mset s (live_slots (p, A)) | _ \<Rightarrow> live_slots (p, A))"
  "live_slots (connect_failed p, A) = live_slots (p, A)"
  "live_slots (p\<lparr>available := available p @ [s]\<rparr>, A) = add_mset s (live_slots (p, A))"
  "live_slots (p\<lparr>total_count := n\<rparr>, A) = live_slots (p, A)"
  by (auto simp: live_slots_def connect_failed_def split: Client_Pool.call.splits)

lemma live_slots_notify: "notify_one A A' \<Longrightarrow> live_slots (p, A') = live_slots (p, A)"
  by (simp add: live_slots_def notify_one_sets)

lemma held_unshared:
  assumes "pool_ok (p, add_mset (Holding s h) A)"
  shows "s \<notin> set (available p)" "s \<notin># live_slots (p, A)"
  using assms by (auto simp: pool_ok_def live_slots_def)

lemma slots_inv_step:
  assumes "slots_step cfg w w'" "pool_ok (fst w)" "slots_inv cfg w"
  shows "slots_inv cfg w'"
  using assms(1)
proof (cases rule: slots_step.cases)
  case (slots_call st st' slots dying gone)
  then show ?thesis using assms(3) by (auto simp: slots_inv_def call_step_def)
next
  case (slot_created s p A sys slot slots dying gone)
  then show ?thesis using assms(3) create_slot_ok(1) by (auto simp: slots_inv_def)
next
  case (slot_failed A A' sys err n p slots dying gone)
  then show ?thesis using assms(3) create_slot_ok(2) [OF slot_failed(4)] live_slots_notify [OF slot_failed(3)]
    by (auto simp: slots_inv_def connect_failed_def)
next
  case (slot_used s h A slots sys slot p dying gone op)
  then obtain B where B: "A = add_mset (Holding s h) B" by (meson multi_member_split)
  have "s \<notin> set (available p)" using assms(2) slot_used(1) held_unshared(1) [of p s h B] by (simp add: B)
  then show ?thesis using assms(3) slot_used use_slot_ok by (auto simp: slots_inv_def B)
next
  case (slot_kept A A' slots s sys slot h p dying gone)
  then show ?thesis using assms(3) live_slots_notify [OF slot_kept(3)]
    by (auto simp: slots_inv_def return_slot_def)
next
  case (slot_discarded A A' slots s sys slot h p dying gone)
  have "s \<notin># live_slots (p, A)" "s \<notin> set (available p)" using assms(2) held_unshared slot_discarded(1) by auto
  moreover have "slot_ok cfg sys slot" using assms(3) slot_discarded by (auto simp: slots_inv_def)
  ultimately show ?thesis using assms(3) slot_discarded live_slots_notify [OF slot_discarded(3)]
    by (auto simp: slots_inv_def return_slot_def)
next
  case (slot_destroyed st slots sys slot dying gone)
  then show ?thesis using assms(3) destroy_Slot_empty by (auto simp: slots_inv_def)
qed

lemma slots_reachable_inv:
  assumes "slots_reachable cfg w" "cfg_max_connections cfg < 2 ^ 64"
  shows "slots_inv cfg w"
  using assms(1)
proof induction
  case (slots_start p)
  then show ?case by (auto simp: slots_inv_def live_slots_def new_pool_def split: if_splits)
next
  case (slots_next w w')
  have "pool_ok (fst w)" using pool_reachable_ok [OF slots_reachable_pool [OF slots_next(1)] assms(2)] by blast
  with slots_next show ?case by (blast intro: slots_inv_step)
qed

text \<open>Connections are counted by the pool, those being set up too.\<close>

lemma live_slots_bounded:
  assumes "slots_reachable cfg (st, slots, dying, gone)" "cfg_max_connections cfg < 2 ^ 64"
  shows "card (dom slots) + count (snd st) Connecting \<le> cfg_max_connections cfg"
proof -
  have d: "dom slots = set_mset (live_slots st)" using slots_reachable_inv [OF assms] by (simp add: slots_inv_def)
  have ok: "pool_ok st" "max_connections (fst st) = cfg_max_connections cfg"
    using pool_reachable_ok [OF slots_reachable_pool [OF assms(1)] assms(2)] by simp_all
  have "size (held A) + count A Connecting = size (in_use A)" for A
    by (induction A) (auto split: Client_Pool.call.split)
  from this [of "snd st"] have "size (live_slots st) + count (snd st) Connecting \<le> cfg_max_connections cfg"
    using ok by (cases st) (simp add: pool_ok_def live_slots_def)
  moreover have "card (set_mset M) \<le> size M" for M :: "slot multiset"
    by (induction M) (auto simp: card_insert_if)
  ultimately show ?thesis using d by (metis add_right_mono le_trans)
qed

text \<open>A version that a borrower sets stays with the connection when it is returned.\<close>

lemma version_kept_in_pool:
  "kc_version (slot_kmip_client (use_slot sys (Set_version version) slot)) = version"
  "m_isConnected (slot_net_client slot) \<Longrightarrow> m_isConnected (slot_net_client (use_slot sys (Set_version version) slot))"
  by (simp_all add: set_protocol_version_def)

section \<open>A pool of one connection\<close>

definition quiet_config :: Config where
  "quiet_config = \<lparr>cfg_host = ''kmip.example'', cfg_port = ''5696'', cfg_client_cert = ''c.pem'', cfg_client_key = ''k.pem'',
     cfg_server_ca_cert = ''ca.pem'', cfg_logger = None, cfg_timeout_ms = 0, cfg_max_connections = 1,
     cfg_version = KMIP_VERSION_1_4, cfg_tls_verification = \<lparr>peer_verification = True, hostname_verification = True\<rparr>\<rparr>"

lemma quiet_slot: "\<exists>slot. create_slot quiet_system quiet_config = Inr slot"
proof (cases "connect quiet_system quiet_client")
  case (Pair r t)
  have "m_isConnected t" using quiet_connected Pair by simp
  moreover have "\<not> m_isConnected quiet_client" by (simp add: quiet_client_def new_NetClientOpenSSL_def)
  ultimately obtain x where "r = Inr x"
    using connect_ok(3) [OF _ Pair] new_client_ok unfolding quiet_client_def by (cases r) auto
  moreover have "set_tls_verification (cfg_tls_verification quiet_config) (new_NetClientOpenSSL (cfg_host quiet_config) (cfg_port quiet_config)
      (cfg_client_cert quiet_config) (cfg_client_key quiet_config) (cfg_server_ca_cert quiet_config) (cfg_timeout_ms quiet_config)
      default_tls_verification) = quiet_client"
    by (simp add: set_tls_verification_def new_NetClientOpenSSL_def quiet_config_def quiet_client_def)
  ultimately show ?thesis using Pair by (simp add: create_slot_def Let_def)
qed

text \<open>The pool of one connection at work: a slot is connected, given up, and while its thread has not destroyed it yet,
  another thread connects.\<close>

lemma quiet_pool_reachable:
  assumes slot: "create_slot quiet_system quiet_config = Inr slot"
  shows "slots_reachable quiet_config ((\<lparr>max_connections = 1, available = [], total_count = 1\<rparr>, {#Holding 1 True#}),
    [1 \<mapsto> (quiet_system, slot)], {#(quiet_system, slot)#}, [])"
proof -
  let ?p = "\<lambda>n. \<lparr>max_connections = 1, available = [], total_count = n\<rparr>"
  have borrow: "slots_reachable quiet_config ((?p 1, {#Holding s True#}), slots(s \<mapsto> (quiet_system, slot)), dying, [])"
    if r: "slots_reachable quiet_config ((?p 0, {#}), slots, dying, [])" for s slots dying
  proof -
    have "pool_step (?p 0, {#}) (?p 1, add_mset (acquired None) {#})"
      by (rule borrow_now) (simp_all add: slot_ready_def acquire_locked_def sz_add_def)
    then have "call_step (?p 0, {#}) (?p 1, {#Connecting#})" by (simp add: call_step_def acquired_def live_slots_def)
    with r have "slots_reachable quiet_config ((?p 1, {#Connecting#}), slots, dying, [])"
      by (blast intro: slots_next slots_call)
    moreover have "slots_step quiet_config ((?p 1, {#Connecting#}), slots, dying, [])
        ((?p 1, {#Holding s True#}), slots(s \<mapsto> (quiet_system, slot)), dying, [])"
      by (rule slot_created) (simp_all add: slot)
    ultimately show ?thesis by (rule slots_next)
  qed
  have "slots_reachable quiet_config ((?p 0, {#}), Map.empty, {#}, [])"
    by (rule slots_start) (simp add: new_pool_def quiet_config_def)
  then have r1: "slots_reachable quiet_config ((?p 1, {#Holding 0 True#}), [0 \<mapsto> (quiet_system, slot)], {#}, [])" by (rule borrow)
  have "call_step (?p 1, {#Holding 0 True#}) (?p 1, {#Holding 0 False#})"
    using mark_unhealthy [of "?p 1" 0 True "{#}"] by (simp add: call_step_def live_slots_def)
  with r1 have r2: "slots_reachable quiet_config ((?p 1, {#Holding 0 False#}), [0 \<mapsto> (quiet_system, slot)], {#}, [])"
    by (blast intro: slots_next slots_call)
  have "slots_step quiet_config ((?p 1, {#Holding 0 False#}), [0 \<mapsto> (quiet_system, slot)], {#}, [])
      ((return_slot 0 False (m_isConnected (slot_net_client slot)) (?p 1), {#}), [0 \<mapsto> (quiet_system, slot)](0 := None),
       {#(quiet_system, slot)#}, [])"
    by (intro slot_discarded) (simp_all add: notify_nobody)
  with r2 have "slots_reachable quiet_config ((?p 0, {#}), Map.empty, {#(quiet_system, slot)#}, [])"
    by (auto simp: return_slot_def sz_dec_def intro: slots_next)
  then show ?thesis by (rule borrow)
qed

section \<open>Properties\<close>

text \<open>C13. The pool hands out verified connections and leaks none, for every interleaving of the threads and every behaviour of
  OpenSSL and the network.  An idle connection is connected; every one that is connected was set up by exactly the calls of
  \<open>session_log\<close> under the options of the pool, also when it was closed and connected again while it was lent; the connections
  that are idle, lent or being set up are never more than the configured maximum; and a connection that failed to come up, was
  given up or is destroyed with the pool releases every handle exactly once, although its client does not close it.  A
  connection that was given up is not counted any more, and stays open until its thread has destroyed it: the witness has
  two open connections in a pool of one.\<close>

theorem pool_connections_verified:
  assumes "slots_reachable cfg ((p, A), slots, dying, gone)" "cfg_max_connections cfg < 2 ^ 64"
  shows "(\<forall>s \<in> set (available p). \<exists>sys slot. slots s = Some (sys, slot) \<and> m_isConnected (slot_net_client slot)) \<and>
    (\<forall>s \<in># held A. slots s \<noteq> None) \<and> card (dom slots) + count A Connecting \<le> cfg_max_connections cfg \<and>
    (\<forall>sys slot. (\<exists>s. slots s = Some (sys, slot)) \<or> (sys, slot) \<in># dying \<longrightarrow>
       (m_isConnected (slot_net_client slot) \<longrightarrow> session_in sys (cfg_tls_verification cfg) (slot_net_client slot)) \<and>
       ledger (made_calls (destroy_Slot sys slot)) = Some {#}) \<and>
    (\<forall>n \<in> set gone. ledger (made_calls n) = Some {#})"
proof -
  have inv: "slots_inv cfg ((p, A), slots, dying, gone)" by (rule slots_reachable_inv [OF assms])
  then have live: "dom slots = set (available p) \<union> set_mset (held A)" by (simp add: slots_inv_def live_slots_def)
  then have "slots s \<noteq> None" if "s \<in> set (available p) \<union> set_mset (held A)" for s using that by blast
  moreover have "slot_ok cfg sys slot" if "(\<exists>s. slots s = Some (sys, slot)) \<or> (sys, slot) \<in># dying" for sys slot
    using inv that by (auto simp: slots_inv_def)
  ultimately show ?thesis
    using inv live_slots_bounded [OF assms] destroy_Slot_empty
    by (fastforce simp: slots_inv_def slot_ok_def sessions_ok_def)
qed

theorem pool_connections_verified_witness:
  "\<exists>sys slot. slots_reachable quiet_config ((\<lparr>max_connections = 1, available = [], total_count = 1\<rparr>, {#Holding 1 True#}),
       [1 \<mapsto> (sys, slot)], {#(sys, slot)#}, []) \<and> m_isConnected (slot_net_client slot) \<and>
     session_in sys \<lparr>peer_verification = True, hostname_verification = True\<rparr> (slot_net_client slot) \<and>
     ledger (made_calls (destroy_Slot sys slot)) = Some {#}"
proof -
  obtain slot where slot: "create_slot quiet_system quiet_config = Inr slot" using quiet_slot by blast
  note r = quiet_pool_reachable [OF slot]
  have "cfg_max_connections quiet_config < 2 ^ 64" by (simp add: quiet_config_def)
  from pool_connections_verified [OF r this] r create_slot_ok(1) [OF slot] show ?thesis
    by (auto simp: quiet_config_def)
qed

end
