(* ===== verification/Kmip_Facade.thy ===== *)
theory Kmip_Facade
  imports Tls_Client
begin

text \<open>
  \<open>src/kmipclient/include/kmipclient/Kmip.hpp\<close>: the class that makes, connects and owns a TLS transport and the client
  over it.

  The object has two members that share the ownership of the transport, \<open>m_net_client\<close> and the owner inside
  \<open>m_client\<close>; no function hands out a share, so when the object dies, or its constructor throws, the last
  share dies with it and the transport is destroyed.
\<close>

section \<open>The facade\<close>

record Kmip =
  kmip_net_client :: "NetClientOpenSSL net_client option"
  kmip_client :: "NetClientOpenSSL KmipClient"

definition default_kmip_verification :: TlsVerificationOptions where
  "default_kmip_verification = \<lparr>peer_verification = False, hostname_verification = False\<rparr>"

text \<open>Destruction of the members in reverse order: the client, then the last shares of the transport.\<close>

definition owns_transport :: "Kmip \<Rightarrow> bool" where
  "owns_transport k \<longleftrightarrow> kmip_net_client k \<noteq> None \<or> kc_net_client_owner (kmip_client k) \<noteq> None"

definition destroy_Kmip :: "tls_system \<Rightarrow> Kmip \<Rightarrow> NetClientOpenSSL \<Rightarrow> NetClientOpenSSL" where
  "destroy_Kmip sys k n =
     (let n1 = destroy_client (kmip_client k) n in
      if owns_transport k then destroy_NetClientOpenSSL sys n1 else n1)"

text \<open>The constructor.  When \<open>connect\<close> throws, the members are destroyed.\<close>

definition kmip_members ::
  "tls_system \<Rightarrow> (LogLevel \<Rightarrow> bool) option \<Rightarrow> ProtocolVersion \<Rightarrow> bool \<Rightarrow> Kmip option" where
  "kmip_members sys logger version close_on_destroy =
     map_option (\<lambda>c. \<lparr>kmip_net_client = Some (tls_net_client sys), kmip_client = c\<rparr>)
       (new_KmipClient_shared (Some (tls_net_client sys)) logger version close_on_destroy)"

definition new_Kmip ::
  "tls_system \<Rightarrow> string \<Rightarrow> string \<Rightarrow> string \<Rightarrow> string \<Rightarrow> string \<Rightarrow> int \<Rightarrow> ProtocolVersion \<Rightarrow> (LogLevel \<Rightarrow> bool) option \<Rightarrow>
     TlsVerificationOptions \<Rightarrow> bool \<Rightarrow> (Kmip option) res \<times> NetClientOpenSSL" where
  "new_Kmip sys host port clientCertificateFn clientKeyFn serverCaCertFn timeout_ms version logger tls_verification close_on_destroy =
     (let n = new_NetClientOpenSSL (c_str host) (c_str port) (c_str clientCertificateFn) (c_str clientKeyFn)
          (c_str serverCaCertFn) timeout_ms tls_verification in
      case kmip_members sys logger version close_on_destroy of
        None \<Rightarrow> (Inr None, destroy_NetClientOpenSSL sys n)
      | Some k \<Rightarrow>
        (case connect sys n of
           (Inl err, n') \<Rightarrow> (Inl err, destroy_Kmip sys k n')
         | (Inr _, n') \<Rightarrow> (Inr (Some k), n')))"

text \<open>The defaulted move constructor: the new object and what is left of the other one.\<close>

definition move_Kmip :: "Kmip \<Rightarrow> Kmip \<times> Kmip" where
  "move_Kmip other = (case move_client (kmip_client other) of (c, rest) \<Rightarrow>
     (\<lparr>kmip_net_client = kmip_net_client other, kmip_client = c\<rparr>,
      other\<lparr>kmip_net_client := None, kmip_client := rest\<rparr>))"

definition kmip_close_on_destroy :: "Kmip \<Rightarrow> bool" where
  "kmip_close_on_destroy k = kc_close_on_destroy (kmip_client k)"

section \<open>Lifetime\<close>

lemma kmip_members_eq: "\<exists>k. kmip_members sys logger version b = Some k \<and> owns_transport k \<and> kmip_close_on_destroy k = b \<and>
    kc_net_client (kmip_client k) = Some (tls_net_client sys)"
  by (simp add: kmip_members_def new_KmipClient_shared_def owns_transport_def kmip_close_on_destroy_def)

lemma destroy_Kmip_empty:
  assumes "tls_ok n" "owns_transport k" "kc_net_client (kmip_client k) \<in> {None, Some (tls_net_client sys)}"
  shows "ledger (made_calls (destroy_Kmip sys k n)) = Some {#}"
proof -
  have "tls_ok (destroy_client (kmip_client k) n)"
    using assms(1,3) by (auto simp: destroy_client_def tls_net_client_def tls_close_ok)
  then show ?thesis
    using assms(2) tls_close_ok(2) by (simp add: destroy_Kmip_def Let_def destroy_NetClientOpenSSL_def holds_def)
qed

lemma move_Kmip_owner:
  assumes "move_Kmip k = (k', rest)"
  shows "owns_transport k' = owns_transport k" "\<not> owns_transport rest" "destroy_Kmip sys rest n = n"
    "kc_net_client (kmip_client k') = kc_net_client (kmip_client k)"
  using assms by (auto simp: move_Kmip_def move_client_def owns_transport_def destroy_Kmip_def destroy_client_def)

text \<open>C22. The life of a \<open>Kmip\<close>, for every behaviour of OpenSSL and the network.  A constructor that throws leaves
  nothing behind.  One that returns has a connected transport whose session was set up by exactly the calls
  of \<open>session_log\<close> under the options given; the default options are the unverified ones.  Whatever was
  done with the transport afterwards, also through a moved object, the destructor releases every handle, whether
  \<open>close_on_destroy\<close> was set or not, and the moved-from object releases nothing.\<close>

theorem kmip_lifetime:
  "case new_Kmip sys host port cert key ca timeout_ms version logger options close_on_destroy of
     (Inl err, n) \<Rightarrow> ledger (made_calls n) = Some {#}
   | (Inr None, n) \<Rightarrow> False
   | (Inr (Some k), n) \<Rightarrow>
       m_isConnected n \<and> kmip_close_on_destroy k = close_on_destroy \<and> session_in sys options n \<and>
       (\<forall>ops. ledger (made_calls (destroy_Kmip sys k (fold (run_op sys) ops n))) = Some {#}) \<and>
       (case move_Kmip k of (k', rest) \<Rightarrow>
          \<forall>ops. let n' = fold (run_op sys) ops n in
            destroy_Kmip sys rest n' = n' \<and> ledger (made_calls (destroy_Kmip sys k' n')) = Some {#})"
proof -
  let ?n = "new_NetClientOpenSSL (c_str host) (c_str port) (c_str cert) (c_str key) (c_str ca) timeout_ms options"
  obtain k where k: "kmip_members sys logger version close_on_destroy = Some k" "owns_transport k"
      "kmip_close_on_destroy k = close_on_destroy" "kc_net_client (kmip_client k) = Some (tls_net_client sys)"
    using kmip_members_eq by blast
  obtain k' rest where m: "move_Kmip k = (k', rest)" by (cases "move_Kmip k")
  note mv = move_Kmip_owner [OF m]
  obtain r n where c: "connect sys ?n = (r, n)" by (cases "connect sys ?n")
  have ok: "tls_ok n" by (rule connect_ok(1) [OF new_client_ok c])
  have opt: "m_tls_verification ?n = options" by (simp add: new_NetClientOpenSSL_def)
  show ?thesis
  proof (cases r)
    case (Inl err)
    then show ?thesis using c k destroy_Kmip_empty [OF ok k(2)] by (simp add: new_Kmip_def)
  next
    case (Inr x)
    then have "session_in sys options n" "m_isConnected n"
      using c opt by (auto elim: connect_cases)
    then show ?thesis
      using Inr c k m mv destroy_Kmip_empty [OF run_ops_ok [OF ok]] by (simp add: new_Kmip_def Let_def)
  qed
qed

text \<open>With the default options of the facade the transport is told not to verify the peer and never asks for the
  result of a verification.\<close>

lemma default_session_unverified:
  assumes "e \<in> set (session_log sys c default_kmip_verification ctx bio ssl ip param cert)"
  shows "e \<noteq> (SSL_get_verify_result p, v)" "e \<noteq> (SSL_CTX_set_verify q SSL_VERIFY_PEER, w)" "e \<noteq> (SSL_set1_host p h, v)"
  using assms by (auto simp: session_log_def name_log_def peer_log_def mode_of_def default_kmip_verification_def split: if_splits)

end
