(* ===== verification/Key_Formats.thy ===== *)
theory Key_Formats
  imports Client_Sessions
begin

text \<open>
  The negotiation of key formats in \<open>key_from_get_response\<close> of \<open>KmipClient.cpp\<close> against any server: what the loop over the
  formats may return, and what a key that \<open>op_get_key\<close> returns satisfies.
\<close>

section \<open>Formats\<close>

lemma key_accepted:
  assumes "parse_client_key g = Inr key" "keyFormatType g = Inr (ck_format key)"
    and "preferred_key_formats (get_objectType g) = [] \<or>
      (\<exists>f \<in> set (preferred_key_formats (get_objectType g)). ck_format key = Some f) \<and> in_preferred_format env key = Some key"
  shows "key_from_get_response env c uid g s = (Inr key, s)"
  using assms by (auto simp: key_from_get_response_def Let_def)

text \<open>The typed view of a Get response agrees with its payload.\<close>

lemma get_view_payload:
  assumes "GetResponse_fromBatchItem item = Inr g"
  shows "\<exists>payload t obj. rsb_responsePayload g = Some payload \<and> getChild KMIP_TAG_OBJECT_TYPE payload = Some t \<and>
    toEnum t = Inr (get_objectType g) \<and> get_objectElement g = Some obj \<and> get_object_element_for_type payload (get_objectType g) = Some obj"
  using assms
  by (auto simp: GetResponse_fromBatchItem_def bind_res_Inr_iff require_response_payload_def ResponseBatchItem.extend_def
      GetResponseBatchItem.fields_def split: option.splits)

lemma parse_block_format:
  assumes "parse_key_from_key_block_holder obj k name = Inr key"
  shows "key_type key = k \<and> (\<exists>kb kf f. getChild KMIP_TAG_KEY_BLOCK obj = Some kb \<and> getChild KMIP_TAG_KEY_FORMAT_TYPE kb = Some kf \<and>
    toEnum kf = Inr f \<and> key_format key = Some f)"
  using assms
  by (auto simp: parse_key_from_key_block_holder_def bind_res_Inr_iff require_child_def new_Key_def split: option.splits)

lemma parse_key_view:
  assumes "GetResponse_fromBatchItem item = Inr g" "parse_client_key g = Inr key"
  shows "keyFormatType g = Inr (ck_format key) \<and> object_type_from_key_type (ck_type key) = Inr (get_objectType g)"
proof -
  obtain payload t obj where v: "rsb_responsePayload g = Some payload" "getChild KMIP_TAG_OBJECT_TYPE payload = Some t"
      "toEnum t = Inr (get_objectType g)" "get_objectElement g = Some obj" "get_object_element_for_type payload (get_objectType g) = Some obj"
    using get_view_payload [OF assms(1)] by blast
  obtain core where core: "parseGetKeyResponse g = Inr core" "from_core_key core = Inr key"
    using assms(2) by (auto simp: parse_client_key_def bind_res_Inr_iff)
  obtain ot tag k name where m: "find (\<lambda>(obj_type, _). get_objectType g = obj_type) key_mappings = Some (ot, tag, k, name)"
      "getChild tag payload \<noteq> None" "parse_key_from_key_block_holder (the (getChild tag payload)) k name = Inr core"
    using core(1) v(1-3) unfolding parseGetKeyResponse_def KeyParser_parseResponse_def
    by (auto simp: bind_res_Inr_iff require_child_def split: option.splits prod.splits if_splits)
  then have t: "ot = get_objectType g" "getChild tag payload = Some obj" "object_type_from_key_type k = Inr (get_objectType g)"
    using v(5) by (auto simp: key_mappings_def get_object_element_for_type_def object_type_from_key_type_def kmip_consts split: if_splits)
  from parse_block_format [OF m(3)] t core(2) v(4) show ?thesis
    by (auto simp: keyFormatType_def from_core_key_Inr)
qed

section \<open>Keys read from any server\<close>

lemma with_legacy_retries_Inr:
  "with_legacy_retries version names execute s = (Inr x, s') \<Longrightarrow> \<exists>names' legacy t. execute names' legacy t = (Inr x, s')"
  unfolding with_legacy_retries_def by (auto split: prod.splits sum.splits if_splits)

lemma response_view_item:
  "fst (getResponseByBatchItemId view pl i rf) = Inr r \<Longrightarrow> \<exists>item. view item = Inr r"
  by (auto simp: getResponseByBatchItemId_def bind_query_def bind_res_Inr_iff split: prod.splits sum.splits)

text \<open>One round of the loop over the formats goes on to the next one, or returns the key of an answer
  it has converted.\<close>

definition converted_answer :: "'n client_env \<Rightarrow> ClientKey \<Rightarrow> bool" where
  "converted_answer env key \<longleftrightarrow>
     (\<exists>item g key'. GetResponse_fromBatchItem item = Inr g \<and> parse_client_key g = Inr key' \<and> in_preferred_format env key' = Some key)"

lemma refetch_key_step:
  assumes "refetch_key env c uid g (fmt # formats) s = (Inr key, s')"
  shows "(\<exists>t. refetch_key env c uid g formats t = (Inr key, s')) \<or> converted_answer env key"
proof -
  define again where "again = refetch_key env c uid g formats"
  obtain rf t where rest: "(case getOperationResultByBatchItemId (ce_platform env) 1 rf of
       (Inl err, rf) \<Rightarrow> lift_res (Inl err)
     | (Inr result, rf) \<Rightarrow>
       if or_resultStatus result \<noteq> KMIP_STATUS_SUCCESS then again
       else
         bind_act (lift_res (fst (getResponseByBatchItemId GetResponse_fromBatchItem (ce_platform env) 1 rf)))
           (\<lambda>refetched.
         bind_act (lift_res (keyFormatType refetched)) (\<lambda>got.
         if got = Some fmt then
           bind_act (lift_res (parse_client_key refetched)) (\<lambda>key.
           case in_preferred_format env key of
             Some key \<Rightarrow> lift_res (Inr key)
           | None \<Rightarrow> again)
         else again))) t = (Inr key, s')"
    using assms unfolding refetch_key.simps(2) again_def
    by (auto simp: bind_act_Inr_iff make_request_message_eq Let_def)
  have "(\<exists>t. again t = (Inr key, s')) \<or> converted_answer env key"
    using rest unfolding converted_answer_def
    by (cases "getOperationResultByBatchItemId (ce_platform env) 1 rf"; cases "fst (getOperationResultByBatchItemId (ce_platform env) 1 rf)")
       (auto simp: bind_act_Inr_iff dest!: response_view_item split: if_splits option.splits)
  then show ?thesis by (simp add: again_def)
qed

lemma refetch_key_source:
  "refetch_key env c uid g formats s = (Inr key, s') \<Longrightarrow> parse_client_key g = Inr key \<or> converted_answer env key"
proof (induction formats arbitrary: s)
  case (Cons fmt formats)
  then show ?case using refetch_key_step by blast
qed simp

text \<open>Converted keys, and keys of a plain answer that could not be converted: no SubjectPublicKeyInfo
  keeps the PKCS#8 label.\<close>

definition relabelled :: "'n client_env \<Rightarrow> ClientKey \<Rightarrow> bool" where
  "relabelled env key \<longleftrightarrow> \<not> (ck_type key = PUBLIC_KEY \<and> ck_format key = Some KMIP_KEYFORMAT_PKCS8 \<and> is_subject_public_key_info env (ck_value key))"

lemma in_preferred_relabelled: "in_preferred_format env key = Some key' \<Longrightarrow> relabelled env key'"
  by (auto simp: in_preferred_format_def relabelled_def set_key_format_def ck_type_def kmip_consts split: if_splits)

lemma plain_answer_relabelled:
  assumes "GetResponse_fromBatchItem item = Inr g" "parse_client_key g = Inr key" "key_from_get_response env c uid g s = (Inr key, s')"
  shows "relabelled env key"
proof (rule ccontr)
  assume "\<not> relabelled env key"
  then have k: "ck_type key = PUBLIC_KEY" "ck_format key = Some KMIP_KEYFORMAT_PKCS8" "is_subject_public_key_info env (ck_value key)"
    by (simp_all add: relabelled_def)
  with parse_key_view [OF assms(1,2)] have "get_objectType g = KMIP_OBJTYPE_PUBLIC_KEY" "keyFormatType g = Inr (Some KMIP_KEYFORMAT_PKCS8)"
    by (simp_all add: object_type_from_key_type_def)
  with k assms(2,3) have "ck_format key = ck_format (set_key_format (Some KMIP_KEYFORMAT_X509) key)"
    by (auto simp: key_from_get_response_def preferred_key_formats_def in_preferred_format_def kmip_consts)
  with k(2) show False by (simp add: set_key_format_def kmip_consts)
qed

text \<open>What the parsers promise of a client key.\<close>

definition parsed_key :: "ClientKey \<Rightarrow> bool" where
  "parsed_key key \<longleftrightarrow> attrs_valid (ck_attributes key) \<and> ck_format key \<noteq> None \<and>
     (ck_class key = SymmetricKey \<and> ck_format key = Some KMIP_KEYFORMAT_RAW \<or> ck_class key \<in> {PrivateKey, PublicKey})"

lemma parse_client_key_valid: "parse_client_key g = Inr key \<Longrightarrow> parsed_key key"
  by (auto simp: parse_client_key_def parseGetKeyResponse_def bind_res_Inr_iff from_core_key_Inr parsed_key_def ck_type_def
      dest!: parsed_key_valid) (cases "ck_class key"; simp)+

lemma in_preferred_valid: "in_preferred_format env key = Some key' \<Longrightarrow> parsed_key key \<Longrightarrow> parsed_key key'"
  by (auto simp: in_preferred_format_def parsed_key_def set_key_format_def ck_type_def split: if_splits)

lemma key_from_get_response_sound:
  assumes "GetResponse_fromBatchItem item = Inr g" "key_from_get_response env c uid g s = (Inr key, s')"
  shows "parsed_key key \<and> relabelled env key"
proof -
  have "parse_client_key g = Inr key \<or> converted_answer env key"
    using assms unfolding key_from_get_response_def converted_answer_def Let_def
    by (auto simp: bind_act_Inr_iff converted_answer_def dest!: refetch_key_source split: if_splits option.splits)
  then show ?thesis
    unfolding converted_answer_def
    by (blast intro: plain_answer_relabelled [OF assms(1) _ assms(2)] parse_client_key_valid in_preferred_relabelled in_preferred_valid)
qed

lemma merge_valid: "attrs_valid a \<Longrightarrow> attrs_valid b \<Longrightarrow> attrs_valid (merge a b)"
  using routed_merge [of a b] by (auto simp: attrs_valid_def merge_def)

lemma merge_state: "has_attribute KMIP_ATTR_NAME_STATE b \<Longrightarrow> has_attribute KMIP_ATTR_NAME_STATE (merge a b)"
  by (simp add: has_attribute_def merge_def kmip_consts)

lemma get_key_once_sound:
  assumes "get_key_once env c uid names legacy s = (Inr key, s')"
  shows "parsed_key key \<and> relabelled env key \<and> has_attribute KMIP_ATTR_NAME_STATE (ck_attributes key)"
proof -
  obtain rf i j t where run: "(case getResponseByBatchItemId GetResponse_fromBatchItem (ce_platform env) i rf of
       (Inl err, rf) \<Rightarrow> lift_res (Inl err)
     | (Inr get_response, rf) \<Rightarrow>
       bind_act (lift_res (attributes_answer env j rf)) (\<lambda>server_attrs.
       bind_act (lift_res (guard_res (has_attribute KMIP_ATTR_NAME_STATE server_attrs) state_missing)) (\<lambda>_.
       bind_act (key_from_get_response env c uid get_response) (\<lambda>key.
       lift_res (Inr (key\<lparr>ck_attributes := merge (ck_attributes key) server_attrs\<rparr>)))))) t = (Inr key, s')"
    using assms unfolding get_key_once_def by (auto simp: bind_act_Inr_iff)
  then obtain g rf' where q: "getResponseByBatchItemId GetResponse_fromBatchItem (ce_platform env) i rf = (Inr g, rf')"
    by (cases "getResponseByBatchItemId GetResponse_fromBatchItem (ce_platform env) i rf") (auto split: sum.splits)
  then obtain item where g1: "GetResponse_fromBatchItem item = Inr g" using response_view_item by (metis fst_conv)
  obtain k attrs where g2: "key_from_get_response env c uid g t = (Inr k, s')"
    and attrs: "attrs_valid attrs" "has_attribute KMIP_ATTR_NAME_STATE attrs"
    and key: "key = k\<lparr>ck_attributes := merge (ck_attributes k) attrs\<rparr>"
    using run parse_attributes_valid by (auto simp: q bind_act_Inr_iff guard_res_Inr_iff attributes_answer_def bind_res_Inr_iff)
  with key_from_get_response_sound [OF g1 g2] attrs merge_valid merge_state show ?thesis
    by (auto simp: key parsed_key_def relabelled_def ck_type_def)
qed

end
