(* ===== verification/Object_Lifecycle.thy ===== *)
theory Object_Lifecycle
  imports Key_Formats
begin

text \<open>
  Keys and secrets through the client and back: registering objects, reading them and destroying them with the
  operations of \<open>KmipClient.cpp\<close>, against a server that keeps what is registered.

  A Get of the client is a request of two items, Get and Get Attributes; \<open>lookup_pair\<close> is the lookup of both
  answers in one cached parser.  \<open>object_server\<close> is what the server promises, with any representation of its
  state: \<open>contents\<close> are the objects it holds.  \<open>vault_peer\<close> is such a server, for concrete sessions.
\<close>

section \<open>Requests of two items\<close>

definition pair_request :: "ProtocolVersion \<Rightarrow> nat \<Rightarrow> RequestBatchItem \<Rightarrow> RequestBatchItem \<Rightarrow> RequestMessage" where
  "pair_request version limit i1 i2 =
     \<lparr>rqm_header = default_RequestHeader\<lparr>rqh_protocolVersion := version, rqh_maximumResponseSize := Some (word_of_nat limit)\<rparr>,
      rqm_batchItems = [i1\<lparr>rqb_uniqueBatchItemId := 1\<rparr>, i2\<lparr>rqb_uniqueBatchItemId := 2\<rparr>], rqm_nextBatchItemId = 3\<rparr>"

lemma add_second_item: "add_batch_item i2 (request_of version limit i1) = (2, pair_request version limit i1 i2)"
  by (simp add: add_batch_item_def request_of_def pair_request_def)

lemma request_of_version [simp]: "rqh_protocolVersion (rqm_header (request_of version limit item)) = version"
  by (simp add: request_of_def)

lemma pair_request_limit: "limit \<le> int32_max \<Longrightarrow> getMaxResponseSize (pair_request version limit i1 i2) = limit"
  using getMaxResponseSize_of [of limit version i1] by (simp add: getMaxResponseSize_def request_of_def pair_request_def)

lemma sendable_pair:
  assumes "item_ok i1" "item_ok i2" "length (wire_request (prepare_request now (pair_request version limit i1 i2))) \<le> 2 ^ 26"
  shows "sendable now (pair_request version limit i1 i2)"
  using assms
  by (simp add: sendable_def item_ok_def batch_numbered_def request_item_valid_def wire_request_def)
     (simp add: pair_request_def)

text \<open>The identifiers of the answers: those of the request, or none at all.\<close>

definition pair_answered :: "ResponseBatchItem \<Rightarrow> ResponseBatchItem \<Rightarrow> bool" where
  "pair_answered r1 r2 \<longleftrightarrow> (rsb_uniqueBatchItemId r1, rsb_uniqueBatchItemId r2) \<in> {(1, 2), (0, 0)}"

lemma lookup_pair:
  assumes "response_wire_valid response" "\<not> hardened pl" "rsm_batchItems response = [r1, r2]" "pair_answered r1 r2"
    and "rf = new_ResponseParser_for (wire_response response) (pair_request version limit i1 i2)"
  shows "fst (getResponseByBatchItemId view pl 1 rf) = answer_of view (rqb_operation i1) r1"
    "fst (getResponseByBatchItemId view' pl 2 (snd (getResponseByBatchItemId view pl 1 rf))) = answer_of view' (rqb_operation i2) r2"
proof -
  have p: "rp_responseBytes rf = wire_response response" "rp_batchItemPositions rf = [(1, 0), (2, 1)]"
      "rp_operationHints rf = [(1, rqb_operation i1), (2, rqb_operation i2)]" "cache_ok pl rf"
    by (simp_all add: assms(5) new_ResponseParser_for_def new_ResponseParser_def pair_request_def cache_ok_def)
  have ids: "item_by_id [r1, r2] [(1, 0), (2, 1)] 1 = Inr r1" "item_by_id [r1, r2] [(1, 0), (2, 1)] 2 = Inr r2"
    using assms(4) by (auto simp: item_by_id_def pair_answered_def)
  note d = decode_response_encode [OF assms(1,2)]
  show "fst (getResponseByBatchItemId view pl 1 rf) = answer_of view (rqb_operation i1) r1"
    using assms(4) d p ids
    by (auto simp: response_id_query.query_spec wire_response_def assms(3) ensureSuccess_def answer_of_def
        effectiveOperation_def kmip_exception_code_def Let_def pair_answered_def)
  have "fst (getResponseByBatchItemId view' pl 2 rf) = answer_of view' (rqb_operation i2) r2"
    using assms(4) d p ids
    by (auto simp: response_id_query.query_spec wire_response_def assms(3) ensureSuccess_def answer_of_def
        effectiveOperation_def kmip_exception_code_def Let_def pair_answered_def)
  moreover have "fst (getResponseByBatchItemId view' pl 2 (snd (getResponseByBatchItemId view pl 1 rf))) =
      fst (getResponseByBatchItemId view' pl 2 rf)"
    using response_id_query.query_state [OF p(4)] by (intro response_id_query.query_after [OF p(4)]) auto
  ultimately show "fst (getResponseByBatchItemId view' pl 2 (snd (getResponseByBatchItemId view pl 1 rf))) = answer_of view' (rqb_operation i2) r2"
    by simp
qed

section \<open>Reading a key from a server\<close>

definition get_pair :: "'n KmipClient \<Rightarrow> string \<Rightarrow> string list \<Rightarrow> bool \<Rightarrow> RequestMessage" where
  "get_pair c uid names legacy = pair_request (kc_version c) DEFAULT_MAX_RESPONSE_SIZE (GetRequest uid None)
     (GetAttributesRequest uid names (kc_version c) legacy)"

lemma get_with_attributes_served:
  assumes "serving env c p" "in_step p (io_net s) q"
    and "length (wire_request (prepare_request (ce_time env (io_net s)) (get_pair c uid names legacy))) \<le> 2 ^ 26"
    and "peer_handler p q (prepare_request (ce_time env (io_net s)) (get_pair c uid names legacy)) = (response, q')"
    and "length (wire_response response) \<le> DEFAULT_MAX_RESPONSE_SIZE"
  shows "\<exists>s'. get_with_attributes env c uid names legacy s =
      (Inr (new_ResponseParser_for (wire_response response) (get_pair c uid names legacy), 1, 2), s') \<and> in_step p (io_net s') q'"
proof -
  have "sendable (ce_time env (io_net s)) (get_pair c uid names legacy)"
    using assms(3) unfolding get_pair_def by (intro sendable_pair item_ok_library library_request.get library_request.get_attributes)
  moreover have "length (wire_response response) \<le> min (getMaxResponseSize (get_pair c uid names legacy)) KMIP_MAX_MESSAGE_HARD_LIMIT + 8"
    using assms(5) by (simp add: get_pair_def pair_request_limit kmip_consts)
  ultimately obtain s' where "exchange_request env c (get_pair c uid names legacy) s =
      (Inr (new_ResponseParser_for (wire_response response) (get_pair c uid names legacy)), s')" "in_step p (io_net s') q'"
    using exchange_request_served [OF assms(1,2) _ assms(4)] by blast
  then show ?thesis
    by (simp add: get_with_attributes_def make_request_message_eq add_second_item Let_def get_pair_def)
qed

text \<open>The two answers as the client looks them up.\<close>

lemma get_pair_answers:
  assumes "serving env c p" "in_step p (io_net s) q"
    and "length (wire_request (prepare_request (ce_time env (io_net s)) (get_pair c uid names legacy))) \<le> 2 ^ 26"
    and "peer_handler p q (prepare_request (ce_time env (io_net s)) (get_pair c uid names legacy)) = (response, q')"
    and "length (wire_response response) \<le> DEFAULT_MAX_RESPONSE_SIZE" "response_wire_valid response"
    and "rsm_batchItems response = [r1, r2]" "pair_answered r1 r2"
  shows "\<exists>rf rf' s1. get_with_attributes env c uid names legacy s = (Inr (rf, 1, 2), s1) \<and> in_step p (io_net s1) q' \<and>
    getResponseByBatchItemId GetResponse_fromBatchItem (ce_platform env) 1 rf = (answer_of GetResponse_fromBatchItem KMIP_OP_GET r1, rf') \<and>
    attributes_answer env 2 rf' = bind_res (answer_of GetAttributesResponse_fromBatchItem KMIP_OP_GET_ATTRIBUTES r2)
      (\<lambda>ga. AttributesParser_parse (map Some (gat_attributes ga)))"
proof -
  have h: "\<not> hardened (ce_platform env)" using assms(1) by (simp add: serving_def)
  let ?rf = "new_ResponseParser_for (wire_response response) (get_pair c uid names legacy)"
  obtain s1 where s1: "get_with_attributes env c uid names legacy s = (Inr (?rf, 1, 2), s1)" "in_step p (io_net s1) q'"
    using get_with_attributes_served [OF assms(1-5)] by blast
  note pair = lookup_pair [OF assms(6) h assms(7,8) refl, where version = "kc_version c" and limit = DEFAULT_MAX_RESPONSE_SIZE
    and ?i1.0 = "GetRequest uid None" and ?i2.0 = "GetAttributesRequest uid names (kc_version c) legacy"]
  obtain rf' where "getResponseByBatchItemId GetResponse_fromBatchItem (ce_platform env) 1 ?rf =
      (answer_of GetResponse_fromBatchItem KMIP_OP_GET r1, rf')"
      "fst (getResponseByBatchItemId GetAttributesResponse_fromBatchItem (ce_platform env) 2 rf') =
       answer_of GetAttributesResponse_fromBatchItem KMIP_OP_GET_ATTRIBUTES r2"
    using pair unfolding get_pair_def [symmetric]
    by (metis (no_types, lifting) GetRequest_def GetAttributesRequest_def prod.collapse rqb_operation_of)
  with s1 show ?thesis by (auto simp: attributes_answer_def)
qed

section \<open>Objects\<close>

datatype managed = Managed_key string string ClientKey | Managed_secret string string Secret

fun register_request :: "ProtocolVersion \<Rightarrow> managed \<Rightarrow> RequestBatchItem res" where
  "register_request version (Managed_key name grp key) = RegisterKeyRequest name grp (to_core_key key) version"
| "register_request version (Managed_secret name grp secret) =
     Inr (RegisterSecretRequest name grp (secret_value secret) (secret_type secret) version)"

fun op_register :: "'n client_env \<Rightarrow> 'n KmipClient \<Rightarrow> managed \<Rightarrow> ('n io_state, string) action" where
  "op_register env c (Managed_key name grp key) = op_register_key env c name grp key"
| "op_register env c (Managed_secret name grp secret) = op_register_secret env c name grp secret"

text \<open>Objects that the client reads back without a further request: keys in the formats it prefers, secrets of a
  defined type.\<close>

fun readable :: "managed \<Rightarrow> bool" where
  "readable (Managed_key _ _ key) \<longleftrightarrow>
     attrs_valid (ck_attributes key) \<and>
     (case ck_class key of SymmetricKey \<Rightarrow> ck_format key \<in> {None, Some KMIP_KEYFORMAT_RAW}
      | PrivateKey \<Rightarrow> ck_format key = Some KMIP_KEYFORMAT_PKCS8
      | PublicKey \<Rightarrow> ck_format key = Some KMIP_KEYFORMAT_X509
      | X509Certificate \<Rightarrow> False)"
| "readable (Managed_secret _ _ secret) \<longleftrightarrow> is_valid_secret_data_type (secret_type secret)"

text \<open>And small enough for one message.\<close>

definition registrable :: "ProtocolVersion \<Rightarrow> managed \<Rightarrow> bool" where
  "registrable version m \<longleftrightarrow> readable m \<and>
     (case register_request version m of Inl _ \<Rightarrow> False
      | Inr item \<Rightarrow> (case rqb_requestPayload item of None \<Rightarrow> False | Some e \<Rightarrow> length (encode e) \<le> 2 ^ 19))"

definition stored_as :: "ProtocolVersion \<Rightarrow> managed \<Rightarrow> i32 \<times> element \<Rightarrow> bool" where
  "stored_as version m ob \<longleftrightarrow> registrable version m \<and>
     (\<exists>item. register_request version m = Inr item \<and> registered_object item = Some ob)"

lemma op_register_operation:
  "register_request (kc_version c) m = Inr item \<Longrightarrow> id_operation env c (op_register env c m) KMIP_OP_REGISTER item"
  by (cases m) (auto intro: id_operation.intros)

lemma register_request_payload:
  "register_request version m = Inr item \<Longrightarrow> \<exists>cs. item = make_request KMIP_OP_REGISTER cs \<and> list_all (fits 5) cs"
  by (cases m) (use register_key_request.build_payload register_secret_request.build_payload in fastforce)+

lemma register_request_object: "register_request version m = Inr item \<Longrightarrow> \<exists>ob. registered_object item = Some ob"
  by (cases m) (auto simp: RegisterKeyRequest_def RegisterSecretRequest_def bind_res_Inr_iff registered_object_def make_request_def)

lemma stored_object_fits:
  assumes "stored_as version m (ot, obj)"
  shows "fits 62 obj" "length (encode obj) \<le> 2 ^ 19"
proof -
  obtain item e where item: "register_request version m = Inr item" "registered_object item = Some (ot, obj)"
      "rqb_requestPayload item = Some e" "length (encode e) \<le> 2 ^ 19"
    using assms by (auto simp: stored_as_def registrable_def split: option.splits)
  obtain cs where cs: "item = make_request KMIP_OP_REGISTER cs" "list_all (fits 5) cs"
    using register_request_payload [OF item(1)] by blast
  then have obj: "obj \<in> set cs" "e = make_structure KMIP_TAG_REQUEST_PAYLOAD cs"
    using item(2,3) by (auto simp: registered_object_def make_request_def split: option.splits sum.splits if_splits)
  with cs(2) show "fits 62 obj" by (force simp: list_all_iff fits_def)
  show "length (encode obj) \<le> 2 ^ 19"
    using obj item(4) member_le_sum_list [of "length (encode obj)" "map (\<lambda>e. length (encode e)) cs"] by simp
qed

section \<open>A server that keeps objects\<close>

definition id_payload :: "string \<Rightarrow> element" where
  "id_payload uid = make_structure KMIP_TAG_RESPONSE_PAYLOAD [createTextString KMIP_TAG_UNIQUE_IDENTIFIER uid]"

definition pair_response :: "ProtocolVersion \<Rightarrow> element \<Rightarrow> element \<Rightarrow> ResponseMessage" where
  "pair_response version e1 e2 =
     \<lparr>rsm_header = default_ResponseHeader\<lparr>rsh_protocolVersion := version, rsh_batchCount := 2\<rparr>,
      rsm_batchItems = [success_item KMIP_OP_GET e1, (success_item KMIP_OP_GET_ATTRIBUTES e2)\<lparr>rsb_uniqueBatchItemId := 2\<rparr>]\<rparr>"

text \<open>A payload of at most 64 kibibytes that the client reads as the attributes \<open>bag\<close>.\<close>

definition describes :: "element \<Rightarrow> Attributes \<Rightarrow> bool" where
  "describes e bag \<longleftrightarrow> fits 63 e \<and> elem_tag e = KMIP_TAG_RESPONSE_PAYLOAD \<and> length (encode e) \<le> 2 ^ 16 \<and>
     bind_res (GetAttributesResponse_fromBatchItem ((success_item KMIP_OP_GET_ATTRIBUTES e)\<lparr>rsb_uniqueBatchItemId := 2\<rparr>))
       (\<lambda>ga. AttributesParser_parse (map Some (gat_attributes ga))) = Inr bag"

text \<open>An item that reports that there is no such object.\<close>

definition not_found :: "u32 \<Rightarrow> i32 \<Rightarrow> ResponseBatchItem" where
  "not_found n op =
     \<lparr>rsb_uniqueBatchItemId = n, rsb_operation = op, rsb_resultStatus = KMIP_STATUS_OPERATION_FAILED,
      rsb_resultReason = Some KMIP_REASON_ITEM_NOT_FOUND, rsb_resultMessage = None, rsb_responsePayload = None\<rparr>"

definition pair_not_found :: "ProtocolVersion \<Rightarrow> ResponseMessage" where
  "pair_not_found version =
     \<lparr>rsm_header = default_ResponseHeader\<lparr>rsh_protocolVersion := version, rsh_batchCount := 2\<rparr>,
      rsm_batchItems = [not_found 1 KMIP_OP_GET, not_found 2 KMIP_OP_GET_ATTRIBUTES]\<rparr>"

text \<open>The server: in state \<open>q\<close> it holds \<open>contents q\<close> and has room for \<open>room q\<close> more objects.  It gives a
  new object an unused identifier, answers Get with the object and its attributes \<open>bag\<close> or reports that there is
  none, and forgets an object that is destroyed.\<close>

type_synonym 'q contents = "'q \<Rightarrow> string \<Rightarrow> (i32 \<times> element) option"

definition files_objects :: "('n, 'q) peer \<Rightarrow> 'n KmipClient \<Rightarrow> 'q contents \<Rightarrow> ('q \<Rightarrow> nat) \<Rightarrow> bool" where
  "files_objects p c contents room \<longleftrightarrow>
     (\<forall>q now item ob. registered_object item = Some ob \<longrightarrow> 0 < room q \<longrightarrow>
        (\<exists>uid q'. peer_handler p q (prepare_request now (request_of (kc_version c) DEFAULT_MAX_RESPONSE_SIZE item)) =
            (response_of (kc_version c) (success_item KMIP_OP_REGISTER (id_payload uid)), q') \<and>
           length uid \<le> 200 \<and> contents q uid = None \<and> contents q' = (contents q)(uid \<mapsto> ob) \<and> room q \<le> Suc (room q')))"

definition serves_objects :: "('n, 'q) peer \<Rightarrow> 'n KmipClient \<Rightarrow> 'q contents \<Rightarrow> (string \<Rightarrow> Attributes) \<Rightarrow> bool" where
  "serves_objects p c contents bag \<longleftrightarrow>
     (\<forall>q now uid names legacy.
        case contents q uid of
          Some (ot, obj) \<Rightarrow> (\<exists>e. peer_handler p q (prepare_request now (get_pair c uid names legacy)) =
            (pair_response (kc_version c) (get_payload uid ot obj) e, q) \<and> describes e (bag uid))
        | None \<Rightarrow> peer_handler p q (prepare_request now (get_pair c uid names legacy)) = (pair_not_found (kc_version c), q))"

definition destroys_objects :: "('n, 'q) peer \<Rightarrow> 'n KmipClient \<Rightarrow> 'q contents \<Rightarrow> bool" where
  "destroys_objects p c contents \<longleftrightarrow>
     (\<forall>q now uid. contents q uid \<noteq> None \<longrightarrow>
        (\<exists>q'. peer_handler p q (prepare_request now (request_of (kc_version c) DEFAULT_MAX_RESPONSE_SIZE (DestroyRequest uid))) =
            (response_of (kc_version c) (success_item KMIP_OP_DESTROY (id_payload uid)), q') \<and>
           contents q' = (contents q)(uid := None)))"

definition object_server ::
    "('n, 'q) peer \<Rightarrow> 'n KmipClient \<Rightarrow> 'q contents \<Rightarrow> ('q \<Rightarrow> nat) \<Rightarrow> (string \<Rightarrow> Attributes) \<Rightarrow> bool" where
  "object_server p c contents room bag \<longleftrightarrow>
     files_objects p c contents room \<and> serves_objects p c contents bag \<and> destroys_objects p c contents"

lemma size_boolean [simp]: "length (encode (createBoolean t b)) = 16"
  by (simp add: create_defs length_encode)

lemma size_reference: "length (encode (make_v2_attribute_reference n)) \<le> 31 + length n"
  using pad8_le_7 [of "length n"] by (simp add: make_v2_attribute_reference_def split: option.split)

lemma pair_request_size:
  assumes "rqb_requestPayload i1 = Some e1" "rqb_requestPayload i2 = Some e2"
  shows "length (wire_request (prepare_request now (pair_request version limit i1 i2))) \<le> 300 + length (encode e1) + length (encode e2)"
  using assms
  by (simp add: wire_request_def request_element_def prepare_request_def pair_request_def RequestHeader_toElement_def
      ProtocolVersion_toElement_def RequestBatchItem_toElement_def default_RequestHeader_def encode_batch_item_id_def pad8_def)

lemma pair_response_size:
  "length (wire_response (pair_response version e1 e2)) \<le> 300 + length (encode e1) + length (encode e2)"
  by (simp add: wire_response_def response_element_def pair_response_def ResponseHeader_toElement_def
      ProtocolVersion_toElement_def ResponseBatchItem_toElement_def success_item_def default_ResponseHeader_def
      encode_batch_item_id_def pad8_def)

lemma pair_response_valid:
  assumes "fits 63 e1" "elem_tag e1 = KMIP_TAG_RESPONSE_PAYLOAD" "fits 63 e2" "elem_tag e2 = KMIP_TAG_RESPONSE_PAYLOAD"
    and "length (encode e1) \<le> 2 ^ 20" "length (encode e2) \<le> 2 ^ 20"
  shows "response_wire_valid (pair_response version e1 e2)"
proof -
  have "length (encode (response_element (pair_response version e1 e2))) < 2 ^ 32"
    using pair_response_size [of version e1 e2] assms(5,6) by (simp add: wire_response_def)
  then show ?thesis
    using assms(1-4)
    by (auto simp: response_wire_valid_def response_message_valid_def response_items_valid_def response_item_valid_def
        payload_tagged_def payload_fits_def fits_def pair_response_def success_item_def kmip_consts)
qed

lemma serves_object:
  assumes "serves_objects p c contents bag"
  shows "contents q uid = Some (ot, obj) \<Longrightarrow> \<exists>e. peer_handler p q (prepare_request now (get_pair c uid names legacy)) =
      (pair_response (kc_version c) (get_payload uid ot obj) e, q) \<and> describes e (bag uid)"
    "contents q uid = None \<Longrightarrow> peer_handler p q (prepare_request now (get_pair c uid names legacy)) = (pair_not_found (kc_version c), q)"
proof -
  have "case contents q uid of
      Some (ot, obj) \<Rightarrow> (\<exists>e. peer_handler p q (prepare_request now (get_pair c uid names legacy)) =
        (pair_response (kc_version c) (get_payload uid ot obj) e, q) \<and> describes e (bag uid))
    | None \<Rightarrow> peer_handler p q (prepare_request now (get_pair c uid names legacy)) = (pair_not_found (kc_version c), q)"
    using assms unfolding serves_objects_def by blast
  then show "contents q uid = Some (ot, obj) \<Longrightarrow> \<exists>e. peer_handler p q (prepare_request now (get_pair c uid names legacy)) =
      (pair_response (kc_version c) (get_payload uid ot obj) e, q) \<and> describes e (bag uid)"
    "contents q uid = None \<Longrightarrow> peer_handler p q (prepare_request now (get_pair c uid names legacy)) = (pair_not_found (kc_version c), q)"
    by simp_all
qed

lemma pair_not_found_answer:
  "length (wire_response (pair_not_found version)) \<le> DEFAULT_MAX_RESPONSE_SIZE" "response_wire_valid (pair_not_found version)"
  "rsm_batchItems (pair_not_found version) = [not_found 1 KMIP_OP_GET, not_found 2 KMIP_OP_GET_ATTRIBUTES]"
  "pair_answered (not_found 1 KMIP_OP_GET) (not_found 2 KMIP_OP_GET_ATTRIBUTES)"
proof -
  show size: "length (wire_response (pair_not_found version)) \<le> DEFAULT_MAX_RESPONSE_SIZE"
    by (simp add: wire_response_def response_element_def pair_not_found_def not_found_def ResponseHeader_toElement_def
        ProtocolVersion_toElement_def ResponseBatchItem_toElement_def default_ResponseHeader_def encode_batch_item_id_def pad8_def kmip_consts)
  then have "length (encode (response_element (pair_not_found version))) < 2 ^ 32" by (simp add: wire_response_def kmip_consts)
  then show "response_wire_valid (pair_not_found version)"
    by (simp add: response_wire_valid_def response_message_valid_def response_items_valid_def response_item_valid_def
        payload_tagged_def payload_fits_def pair_not_found_def not_found_def)
qed (simp_all add: pair_not_found_def pair_answered_def not_found_def)

definition default_names :: "string list \<Rightarrow> bool" where
  "default_names names \<longleftrightarrow> (\<exists>all. names = default_get_key_attrs all \<or> names = default_get_secret_attrs all)"

lemma get_pair_size:
  assumes "length uid \<le> 200" "default_names names"
  shows "length (wire_request (prepare_request now (get_pair c uid names legacy))) \<le> 2 ^ 26"
proof -
  obtain e1 e2 where e: "rqb_requestPayload (GetRequest uid None) = Some e1"
      "rqb_requestPayload (GetAttributesRequest uid names (kc_version c) legacy) = Some e2"
    by (simp add: GetRequest_def GetAttributesRequest_def make_request_def)
  have "length (encode e1) \<le> 1000" "length (encode e2) \<le> 2000"
    using e assms pad8_le_7 [of "length uid"] size_reference [of KMIP_ATTR_NAME_STATE] size_reference [of KMIP_ATTR_NAME_NAME]
      size_reference [of KMIP_ATTR_NAME_OPERATION_POLICY_NAME] size_reference [of KMIP_ATTR_NAME_CRYPTO_ALG]
      size_reference [of KMIP_ATTR_NAME_CRYPTO_LEN] size_reference [of KMIP_ATTR_NAME_CRYPTO_USAGE_MASK]
    by (auto simp: GetRequest_def GetAttributesRequest_def make_request_def default_names_def default_get_key_attrs_def
        default_get_secret_attrs_def unique_names_def unique_names_step_def Let_def pad8_def kmip_consts)
  with pair_request_size [OF e, of now "kc_version c" DEFAULT_MAX_RESPONSE_SIZE] show ?thesis
    by (simp add: get_pair_def)
qed

text \<open>The answers of the server to a Get of the client.\<close>

lemma held_object_answers:
  assumes "serving env c p" "in_step p (io_net s) q" "object_server p c contents room bag" "length uid \<le> 200" "default_names names"
    and "contents q uid = Some (ot, obj)" "stored_as (kc_version c) m (ot, obj)"
    and "GetResponse_fromBatchItem (success_item KMIP_OP_GET (get_payload uid ot obj)) = Inr g"
  shows "\<exists>rf rf' s1. get_with_attributes env c uid names legacy s = (Inr (rf, 1, 2), s1) \<and> in_step p (io_net s1) q \<and>
    getResponseByBatchItemId GetResponse_fromBatchItem (ce_platform env) 1 rf = (Inr g, rf') \<and> attributes_answer env 2 rf' = Inr (bag uid)"
proof -
  let ?e1 = "get_payload uid ot obj"
  obtain e where h: "peer_handler p q (prepare_request (ce_time env (io_net s)) (get_pair c uid names legacy)) =
      (pair_response (kc_version c) ?e1 e, q)" "describes e (bag uid)"
    using assms(3) serves_object(1) [where contents = contents] assms(6) unfolding object_server_def by blast
  note obj = stored_object_fits [OF assms(7)]
  have e1: "fits 63 ?e1" "elem_tag ?e1 = KMIP_TAG_RESPONSE_PAYLOAD" "length (encode ?e1) \<le> 600000"
    using obj assms(4) pad8_le_7 [of "length uid"] by (simp_all add: get_payload_def kmip_consts)
  have e: "fits 63 e" "elem_tag e = KMIP_TAG_RESPONSE_PAYLOAD" "length (encode e) \<le> 2 ^ 16"
    "bind_res (GetAttributesResponse_fromBatchItem ((success_item KMIP_OP_GET_ATTRIBUTES e)\<lparr>rsb_uniqueBatchItemId := 2\<rparr>))
       (\<lambda>ga. AttributesParser_parse (map Some (gat_attributes ga))) = Inr (bag uid)"
    using h(2) by (simp_all add: describes_def)
  have size: "length (wire_response (pair_response (kc_version c) ?e1 e)) \<le> DEFAULT_MAX_RESPONSE_SIZE"
    using pair_response_size [of "kc_version c" ?e1 e] e1(3) e(3) by (simp add: kmip_consts)
  have valid: "response_wire_valid (pair_response (kc_version c) ?e1 e)" using e1 e by (intro pair_response_valid) simp_all
  have items: "rsm_batchItems (pair_response (kc_version c) ?e1 e) =
      [success_item KMIP_OP_GET ?e1, (success_item KMIP_OP_GET_ATTRIBUTES e)\<lparr>rsb_uniqueBatchItemId := 2\<rparr>]"
    "pair_answered (success_item KMIP_OP_GET ?e1) ((success_item KMIP_OP_GET_ATTRIBUTES e)\<lparr>rsb_uniqueBatchItemId := 2\<rparr>)"
    by (simp_all add: pair_response_def pair_answered_def success_item_def)
  have ans: "answer_of GetResponse_fromBatchItem KMIP_OP_GET (success_item KMIP_OP_GET ?e1) = Inr g"
    "answer_of GetAttributesResponse_fromBatchItem KMIP_OP_GET_ATTRIBUTES ((success_item KMIP_OP_GET_ATTRIBUTES e)\<lparr>rsb_uniqueBatchItemId := 2\<rparr>) =
     GetAttributesResponse_fromBatchItem ((success_item KMIP_OP_GET_ATTRIBUTES e)\<lparr>rsb_uniqueBatchItemId := 2\<rparr>)"
    using assms(8) by (simp_all add: answer_of_def) (simp_all add: success_item_def)
  from get_pair_answers [OF assms(1,2) get_pair_size [OF assms(4,5)] h(1) size valid items] show ?thesis
    unfolding ans e(4) .
qed

lemma missing_object_answers:
  assumes "serving env c p" "in_step p (io_net s) q" "object_server p c contents room bag" "length uid \<le> 200" "default_names names"
    and "contents q uid = None"
  shows "\<exists>rf rf' s1 msg. get_with_attributes env c uid names legacy s = (Inr (rf, 1, 2), s1) \<and> in_step p (io_net s1) q \<and>
    getResponseByBatchItemId GetResponse_fromBatchItem (ce_platform env) 1 rf = (Inl (KmipException KMIP_REASON_ITEM_NOT_FOUND msg), rf')"
proof -
  have h: "peer_handler p q (prepare_request (ce_time env (io_net s)) (get_pair c uid names legacy)) = (pair_not_found (kc_version c), q)"
    using assms(3) serves_object(2) [where contents = contents] assms(6) unfolding object_server_def by blast
  obtain msg where "answer_of GetResponse_fromBatchItem KMIP_OP_GET (not_found 1 KMIP_OP_GET) = Inl (KmipException KMIP_REASON_ITEM_NOT_FOUND msg)"
    by (simp add: answer_of_def not_found_def get_result_reason_or_default_def kmip_consts)
  with get_pair_answers [OF assms(1,2) get_pair_size [OF assms(4,5)] h pair_not_found_answer] show ?thesis by metis
qed

section \<open>Storing, reading and destroying one object\<close>

lemma id_payload_answer:
  assumes "length uid \<le> 200"
  shows "response_wire_valid (response_of version (success_item op (id_payload uid)))"
    "length (wire_response (response_of version (success_item op (id_payload uid)))) \<le> DEFAULT_MAX_RESPONSE_SIZE"
    "bind_res (answer_of (SimpleIdResponse_fromBatchItem op) op (success_item op (id_payload uid))) (\<lambda>r. Inr (sid_uniqueIdentifier r)) = Inr uid"
proof -
  have size: "length (encode (id_payload uid)) \<le> 300" using assms pad8_le_7 [of "length uid"] by (simp add: id_payload_def)
  then show "response_wire_valid (response_of version (success_item op (id_payload uid)))"
    by (intro success_response_valid) (simp_all add: id_payload_def kmip_consts)
  show "length (wire_response (response_of version (success_item op (id_payload uid)))) \<le> DEFAULT_MAX_RESPONSE_SIZE"
    using size wire_response_size [of version op "id_payload uid"] by (simp add: kmip_consts)
qed (simp add: answer_of_def SimpleIdResponse_fromBatchItem_def expect_operation_def require_response_payload_def
    id_payload_def ResponseBatchItem.extend_def SimpleIdResponseBatchItem.fields_def success_item_def)

lemma id_answered:
  assumes "serving env c p" "in_step p (io_net s) q" "id_operation env c run op item" "rqb_requestPayload item = Some e"
    and "length (encode e) \<le> 2 ^ 19" "length uid \<le> 200"
    and "peer_handler p q (prepare_request (ce_time env (io_net s)) (request_of (kc_version c) DEFAULT_MAX_RESPONSE_SIZE item)) =
      (response_of (kc_version c) (success_item op (id_payload uid)), q')"
  shows "\<exists>s'. run s = (Inr uid, s') \<and> in_step p (io_net s') q'"
proof -
  have "length (wire_request (prepare_request (ce_time env (io_net s)) (request_of (kc_version c) DEFAULT_MAX_RESPONSE_SIZE item))) \<le> 2 ^ 26"
    using assms(4,5) by (simp add: wire_request_size)
  from id_operation_served [OF assms(1-3) refl this assms(7) id_payload_answer(1) [OF assms(6)], of "success_item op (id_payload uid)"]
  show ?thesis using id_payload_answer(2,3) [OF assms(6)] by (simp add: response_of_def success_item_def)
qed

lemma store_object:
  assumes "serving env c p" "in_step p (io_net s) q" "object_server p c contents room bag" "0 < room q" "registrable (kc_version c) m"
  shows "\<exists>uid q' ob s'. op_register env c m s = (Inr uid, s') \<and> in_step p (io_net s') q' \<and>
    stored_as (kc_version c) m ob \<and> length uid \<le> 200 \<and> contents q uid = None \<and>
    contents q' = (contents q)(uid \<mapsto> ob) \<and> room q \<le> Suc (room q')"
proof -
  obtain item e where item: "register_request (kc_version c) m = Inr item" "rqb_requestPayload item = Some e" "length (encode e) \<le> 2 ^ 19"
    using assms(5) by (auto simp: registrable_def split: sum.splits option.splits)
  obtain ob where ob: "registered_object item = Some ob" using register_request_object [OF item(1)] by blast
  have "files_objects p c contents room" using assms(3) by (simp add: object_server_def)
  then obtain uid q' where h: "peer_handler p q (prepare_request (ce_time env (io_net s)) (request_of (kc_version c) DEFAULT_MAX_RESPONSE_SIZE item)) =
      (response_of (kc_version c) (success_item KMIP_OP_REGISTER (id_payload uid)), q')"
    and uid: "length uid \<le> 200" "contents q uid = None" "contents q' = (contents q)(uid \<mapsto> ob)" "room q \<le> Suc (room q')"
    using assms(4) ob unfolding files_objects_def by metis
  have "stored_as (kc_version c) m ob" using assms(5) item(1) ob by (simp add: stored_as_def)
  with id_answered [OF assms(1,2) op_register_operation [OF item(1)] item(2,3) uid(1) h] uid show ?thesis by blast
qed

lemma destroy_object:
  assumes "serving env c p" "in_step p (io_net s) q" "object_server p c contents room bag" "contents q uid \<noteq> None" "length uid \<le> 200"
  shows "\<exists>q' s'. op_destroy env c uid s = (Inr uid, s') \<and> in_step p (io_net s') q' \<and> contents q' = (contents q)(uid := None)"
proof -
  have "destroys_objects p c contents" using assms(3) by (simp add: object_server_def)
  then obtain q' where h: "peer_handler p q (prepare_request (ce_time env (io_net s))
        (request_of (kc_version c) DEFAULT_MAX_RESPONSE_SIZE (DestroyRequest uid))) =
      (response_of (kc_version c) (success_item KMIP_OP_DESTROY (id_payload uid)), q')" "contents q' = (contents q)(uid := None)"
    using assms(4) unfolding destroys_objects_def by metis
  obtain e where "rqb_requestPayload (DestroyRequest uid) = Some e" "length (encode e) \<le> 2 ^ 19"
    using assms(5) pad8_le_7 [of "length uid"] by (simp add: DestroyRequest_def SimpleIdRequest_def make_request_def)
  from id_answered [OF assms(1,2) id_operation.intros(2) this assms(5) h(1)] h(2) show ?thesis by blast
qed

text \<open>The key that comes back: the bytes, class and format of the one sent, and its algorithm and length,
  under the attributes the server reports.\<close>

definition returned :: "ProtocolVersion \<Rightarrow> Attributes \<Rightarrow> ClientKey \<Rightarrow> ClientKey \<Rightarrow> bool" where
  "returned version server_attrs key key' \<longleftrightarrow>
     ck_value key' = ck_value key \<and> ck_class key' = ck_class key \<and> ck_format key \<in> {None, ck_format key'} \<and>
     (\<exists>own. ck_attributes key' = merge own server_attrs \<and>
        attr_algo own = map_option al_algorithm (algorithm_and_length (to_core_key key) version) \<and>
        attr_crypto_length own = map_option al_length (algorithm_and_length (to_core_key key) version))"

text \<open>A stored key is read from the Get answer without a further request.\<close>

lemma stored_key_read:
  assumes "stored_as version (Managed_key name grp key) (ot, obj)"
  shows "\<exists>g key'. GetResponse_fromBatchItem (success_item KMIP_OP_GET (get_payload uid ot obj)) = Inr g \<and>
    (\<forall>env c s. key_from_get_response env c uid g s = (Inr key', s)) \<and>
    returned version server_attrs key (key'\<lparr>ck_attributes := merge (ck_attributes key') server_attrs\<rparr>)"
proof -
  obtain item where item: "RegisterKeyRequest name grp (to_core_key key) version = Inr item" "registered_object item = Some (ot, obj)"
    and st: "readable (Managed_key name grp key)"
    using assms by (auto simp: stored_as_def registrable_def)
  have attrs: "attrs_valid (key_attributes (to_core_key key))" using st by simp
  have sym: "key_type (to_core_key key) = SYMMETRIC_KEY \<Longrightarrow> key_format (to_core_key key) \<in> {None, Some KMIP_KEYFORMAT_RAW}"
    using st by (cases "ck_class key") (auto simp: ck_type_def)
  obtain g core where g: "GetResponse_fromBatchItem (success_item KMIP_OP_GET (get_payload uid ot obj)) = Inr g"
      "get_objectType g = ot" "object_type_from_key_type (ck_type key) = Inr ot" "parseGetKeyResponse g = Inr core"
    and core: "key_value core = ck_value key" "key_type core = ck_type key" "ck_format key \<in> {None, key_format core}"
      "keyFormatType g = Inr (key_format core)"
      "attr_algo (key_attributes core) = map_option al_algorithm (algorithm_and_length (to_core_key key) version)"
      "attr_crypto_length (key_attributes core) = map_option al_length (algorithm_and_length (to_core_key key) version)"
    using registered_key_parsed [OF item(1) attrs sym, of uid] item(2) by auto
  have "\<exists>key'. from_core_key core = Inr key'"
    using core(2) by (cases "ck_class key") (simp_all add: ck_type_def from_core_key_def client_key_of_type_def)
  then obtain key' where key': "from_core_key core = Inr key'" "core = to_core_key key'" by (auto simp: from_core_key_Inr)
  have cls: "ck_class key' = ck_class key"
    using core(2) key'(2) by (cases "ck_class key'"; cases "ck_class key") (simp_all add: ck_type_def)
  have "key_from_get_response env c uid g s = (Inr key', s)" for env c s
  proof (rule key_accepted)
    show "parse_client_key g = Inr key'" using g(4) key'(1) by (simp add: parse_client_key_def)
    show "keyFormatType g = Inr (ck_format key')" using core(4) key'(2) by simp
    show "preferred_key_formats (get_objectType g) = [] \<or>
      (\<exists>f \<in> set (preferred_key_formats (get_objectType g)). ck_format key' = Some f) \<and> in_preferred_format env key' = Some key'"
      using st g(2,3) core(3) key'(2) cls
      by (cases "ck_class key") (auto simp: preferred_key_formats_def object_type_from_key_type_def ck_type_def in_preferred_format_def kmip_consts)
  qed
  then show ?thesis
    using g(1) core key'(2) cls by (auto simp: returned_def)
qed

lemma stored_secret_read:
  assumes "stored_as version (Managed_secret name grp secret) (ot, obj)"
  shows "\<exists>g. GetResponse_fromBatchItem (success_item KMIP_OP_GET (get_payload uid ot obj)) = Inr g \<and>
    parseGetSecretResponse g = Inr (new_Secret (secret_value secret) (secret_type secret) no_attributes)"
  using assms register_then_get_secret [of "secret_type secret" name grp "secret_value secret" version uid]
  by (auto simp: stored_as_def registrable_def)

definition secret_attributes_of :: "bool \<Rightarrow> Attributes \<Rightarrow> Attributes \<Rightarrow> bool" where
  "secret_attributes_of all bag attrs \<longleftrightarrow>
     (if all then attrs = merge no_attributes bag
      else attr_state attrs = attr_state bag \<and> get_string KMIP_ATTR_NAME_NAME attrs = get_string KMIP_ATTR_NAME_NAME bag)"

lemma read_secret_attributes:
  assumes "has_attribute KMIP_ATTR_NAME_STATE bag"
  shows "\<exists>attrs. secret_with_attributes all bag (new_Secret val kind no_attributes) =
      Inr \<lparr>secret_value = val, secret_attributes = attrs, secret_type = kind\<rparr> \<and> secret_attributes_of all bag attrs"
  using assms
  by (auto simp: secret_with_attributes_def new_Secret_def secret_attributes_of_def object_state_def set_state_def set_string_def
      put_generic_def get_string_def has_attribute_def no_attributes_def Let_def kmip_consts split: option.splits)

text \<open>The result of reading an object back: \<open>op_get_key\<close> returns the key sent, \<open>op_get_secret\<close> the value and the type
  of the secret, with all attributes of the server or with its state and name only.\<close>

fun fetches :: "'n client_env \<Rightarrow> 'n KmipClient \<Rightarrow> bool \<Rightarrow> string \<Rightarrow> Attributes \<Rightarrow> managed \<Rightarrow> 'n io_state \<Rightarrow> 'n io_state \<Rightarrow> bool" where
  "fetches env c all uid bag (Managed_key _ _ key) s s' \<longleftrightarrow>
     (\<exists>key'. op_get_key env c uid all s = (Inr key', s') \<and> returned (kc_version c) bag key key')"
| "fetches env c all uid bag (Managed_secret _ _ secret) s s' \<longleftrightarrow>
     (\<exists>attrs. op_get_secret env c uid all s = (Inr \<lparr>secret_value = secret_value secret, secret_attributes = attrs, secret_type = secret_type secret\<rparr>, s') \<and>
        secret_attributes_of all bag attrs)"

lemma fetch_object:
  assumes "serving env c p" "in_step p (io_net s) q" "object_server p c contents room bag"
    and "has_attribute KMIP_ATTR_NAME_STATE (bag uid)" "length uid \<le> 200"
    and "contents q uid = Some ob" "stored_as (kc_version c) m ob"
  shows "\<exists>s'. fetches env c all uid (bag uid) m s s' \<and> in_step p (io_net s') q"
proof -
  obtain ot obj where ob: "ob = (ot, obj)" by (cases ob)
  note answers = held_object_answers [OF assms(1-3,5) _ assms(6) [unfolded ob] assms(7) [unfolded ob], where legacy = False]
  show ?thesis
  proof (cases m)
    case (Managed_key name grp key)
    obtain g key' where g: "GetResponse_fromBatchItem (success_item KMIP_OP_GET (get_payload uid ot obj)) = Inr g"
        "\<And>env c (s :: 'a io_state). key_from_get_response env c uid g s = (Inr key', s)"
        "returned (kc_version c) (bag uid) key (key'\<lparr>ck_attributes := merge (ck_attributes key') (bag uid)\<rparr>)"
      using stored_key_read [where server_attrs = "bag uid" and uid = uid] assms(7) unfolding Managed_key ob by metis
    have "default_names (default_get_key_attrs all)" unfolding default_names_def by blast
    from answers [OF this g(1)] g(2,3) assms(4) show ?thesis
      by (auto simp: Managed_key op_get_key_def with_legacy_retries_def get_key_once_def bind_act_def)
  next
    case (Managed_secret name grp secret)
    obtain g where g: "GetResponse_fromBatchItem (success_item KMIP_OP_GET (get_payload uid ot obj)) = Inr g"
        "parseGetSecretResponse g = Inr (new_Secret (secret_value secret) (secret_type secret) no_attributes)"
      using stored_secret_read [where uid = uid] assms(7) unfolding Managed_secret ob by metis
    have "default_names (default_get_secret_attrs all)" unfolding default_names_def by blast
    from answers [OF this g(1)] g(2) read_secret_attributes [OF assms(4), of all "secret_value secret" "secret_type secret"] show ?thesis
      by (fastforce simp: Managed_secret op_get_secret_def with_legacy_retries_def get_secret_once_def bind_act_def)
  qed
qed

text \<open>Reading an object that is not there.\<close>

fun fetch_fails :: "'n client_env \<Rightarrow> 'n KmipClient \<Rightarrow> bool \<Rightarrow> string \<Rightarrow> managed \<Rightarrow> 'n io_state \<Rightarrow> 'n io_state \<Rightarrow> bool" where
  "fetch_fails env c all uid (Managed_key _ _ _) s s' \<longleftrightarrow>
     (\<exists>msg. op_get_key env c uid all s = (Inl (KmipException KMIP_REASON_ITEM_NOT_FOUND msg), s'))"
| "fetch_fails env c all uid (Managed_secret _ _ _) s s' \<longleftrightarrow>
     (\<exists>msg. op_get_secret env c uid all s = (Inl (KmipException KMIP_REASON_ITEM_NOT_FOUND msg), s'))"

lemma fetch_missing:
  assumes "serving env c p" "in_step p (io_net s) q" "object_server p c contents room bag" "length uid \<le> 200" "contents q uid = None"
  shows "\<exists>s'. fetch_fails env c all uid m s s' \<and> in_step p (io_net s') q"
proof -
  note answers = missing_object_answers [OF assms(1-4) _ assms(5), where legacy = False]
  have "default_names (default_get_key_attrs all)" "default_names (default_get_secret_attrs all)" unfolding default_names_def by blast+
  from answers [OF this(1)] answers [OF this(2)] show ?thesis
    by (cases m)
       (auto simp: op_get_key_def op_get_secret_def with_legacy_retries_def get_key_once_def get_secret_once_def bind_act_def
         should_retry_get_attributes_with_legacy_v2_encoding_def kmip_consts)
qed

section \<open>Sessions\<close>

text \<open>A session that registers a list of objects.\<close>

fun register_all :: "'n client_env \<Rightarrow> 'n KmipClient \<Rightarrow> managed list \<Rightarrow> ('n io_state, string list) action" where
  "register_all env c [] = lift_res (Inr [])"
| "register_all env c (m # ms) =
     bind_act (op_register env c m) (\<lambda>uid.
     bind_act (register_all env c ms) (\<lambda>uids. lift_res (Inr (uid # uids))))"

definition kept :: "ProtocolVersion \<Rightarrow> (string \<Rightarrow> (i32 \<times> element) option) \<Rightarrow> managed \<Rightarrow> string \<Rightarrow> bool" where
  "kept version held m uid \<longleftrightarrow> length uid \<le> 200 \<and> (\<exists>ob. held uid = Some ob \<and> stored_as version m ob)"

lemma kept_mono: "kept version held m uid \<Longrightarrow> held \<subseteq>\<^sub>m held' \<Longrightarrow> kept version held' m uid"
  by (force simp: kept_def map_le_def)

lemma register_all_served:
  assumes "serving env c p" "object_server p c contents room bag" "list_all (registrable (kc_version c)) ms"
    and "in_step p (io_net s) q" "length ms \<le> room q"
  shows "\<exists>uids q' s'. register_all env c ms s = (Inr uids, s') \<and> in_step p (io_net s') q' \<and>
    list_all2 (kept (kc_version c) (contents q')) ms uids \<and> distinct uids \<and> contents q \<subseteq>\<^sub>m contents q' \<and>
    (\<forall>uid \<in> set uids. contents q uid = None)"
  using assms(3-5)
proof (induction ms arbitrary: s q)
  case Nil
  then show ?case by auto
next
  case (Cons m ms)
  have "0 < room q" "registrable (kc_version c) m" using Cons.prems by auto
  from store_object [OF assms(1) Cons.prems(2) assms(2) this] obtain uid q1 ob s1 where
    one: "op_register env c m s = (Inr uid, s1)" "in_step p (io_net s1) q1"
      "stored_as (kc_version c) m ob" "length uid \<le> 200" "contents q uid = None"
      "contents q1 = (contents q)(uid \<mapsto> ob)" "room q \<le> Suc (room q1)"
    by blast
  have "list_all (registrable (kc_version c)) ms" "length ms \<le> room q1" using Cons.prems one(7) by auto
  from Cons.IH [OF this(1) one(2) this(2)] obtain uids q' s' where
    rest: "register_all env c ms s1 = (Inr uids, s')" "in_step p (io_net s') q'"
      "list_all2 (kept (kc_version c) (contents q')) ms uids" "distinct uids" "contents q1 \<subseteq>\<^sub>m contents q'"
      "\<forall>uid \<in> set uids. contents q1 uid = None"
    by blast
  have "kept (kc_version c) (contents q1) m uid" using one by (simp add: kept_def)
  then have "kept (kc_version c) (contents q') m uid" using rest(5) by (rule kept_mono)
  moreover have "contents q \<subseteq>\<^sub>m contents q1" using one(5,6) by (auto simp: map_le_def)
  then have "contents q \<subseteq>\<^sub>m contents q'" using rest(5) by (rule map_le_trans)
  moreover have "uid \<notin> set uids" "\<forall>u \<in> set (uid # uids). contents q u = None"
    using one(5,6) rest(6) by (auto, metis fun_upd_apply option.distinct(1))
  moreover have "register_all env c (m # ms) s = (Inr (uid # uids), s')" using one(1) rest(1) by simp
  ultimately show ?case using rest(2,3,4) by (intro exI [of _ "uid # uids"] exI [of _ q'] exI [of _ s']) simp
qed

lemma kept_fetched:
  assumes "serving env c p" "in_step p (io_net s) q" "object_server p c contents room bag"
    and "has_attribute KMIP_ATTR_NAME_STATE (bag uid)" "kept (kc_version c) (contents q) m uid"
  shows "\<exists>s'. fetches env c all uid (bag uid) m s s' \<and> in_step p (io_net s') q"
  using assms(5) fetch_object [OF assms(1-4)] unfolding kept_def by blast

section \<open>A vault\<close>

text \<open>A server that numbers its objects, behind the transport that moves at most three bytes at a time.\<close>

type_synonym vault = "(i32 \<times> element) option list"

definition vault_contents :: "vault \<Rightarrow> string \<Rightarrow> (i32 \<times> element) option" where
  "vault_contents v uid = (if uid = replicate (length uid) CHR ''k'' \<and> length uid < length v then v ! length uid else None)"

definition requested_id :: "RequestBatchItem \<Rightarrow> string" where
  "requested_id i =
     (case Option.bind (rqb_requestPayload i) (getChild KMIP_TAG_UNIQUE_IDENTIFIER) of None \<Rightarrow> []
      | Some e \<Rightarrow> (case toString e of Inr uid \<Rightarrow> uid | Inl _ \<Rightarrow> []))"

definition vault_attributes :: element where
  "vault_attributes = make_structure KMIP_TAG_RESPONSE_PAYLOAD [make_enum_attribute KMIP_ATTR_NAME_STATE KMIP_STATE_ACTIVE]"

definition vault_handler :: "vault \<Rightarrow> RequestMessage \<Rightarrow> ResponseMessage \<times> vault" where
  "vault_handler v rm =
     (case rqm_batchItems rm of
        [i] \<Rightarrow> (case registered_object i of
            None \<Rightarrow> (response_of KMIP_VERSION_1_4 (success_item KMIP_OP_DESTROY (id_payload (requested_id i))),
              v[length (requested_id i) := None])
          | Some ob \<Rightarrow> (response_of KMIP_VERSION_1_4 (success_item KMIP_OP_REGISTER (id_payload (replicate (length v) CHR ''k''))), v @ [Some ob]))
      | i # _ \<Rightarrow> (case vault_contents v (requested_id i) of None \<Rightarrow> (pair_not_found KMIP_VERSION_1_4, v)
          | Some (ot, obj) \<Rightarrow> (pair_response KMIP_VERSION_1_4 (get_payload (requested_id i) ot obj) vault_attributes, v))
      | [] \<Rightarrow> (pair_not_found KMIP_VERSION_1_4, v))"

definition vault_peer :: "(byte list \<times> nat, vault) peer" where
  "vault_peer =
     \<lparr>peer_platform = \<lparr>native_endian = Big_endian, hardened = False\<rparr>, peer_handler = vault_handler, peer_start = [],
      peer_up = (\<lambda>_. True), peer_out = fst, peer_got = snd\<rparr>"

definition vault_client :: "(byte list \<times> nat) KmipClient" where
  "vault_client = new_KmipClient
     (chunk_client (\<lambda>sent. fst (serve_stream (peer_platform vault_peer) vault_handler [] sent))) None KMIP_VERSION_1_4 False"

lemma vault_session: "serving sample_env vault_client vault_peer" "in_step vault_peer (io_net fresh_io) []"
  using chunk_client_stream [of "\<lambda>sent. fst (serve_stream \<lparr>native_endian = Big_endian, hardened = False\<rparr> vault_handler [] sent)"]
  by (auto simp: serving_def in_step_def sample_env_def vault_client_def new_KmipClient_def vault_peer_def fresh_io_def
      intro!: exI [of _ "[]"])

lemma vault_version [simp]: "kc_version vault_client = KMIP_VERSION_1_4"
  by (simp add: vault_client_def new_KmipClient_def)

abbreviation active_bag :: Attributes where
  "active_bag \<equiv> set_state KMIP_STATE_ACTIVE no_attributes"

lemma vault_attributes_describe: "describes vault_attributes active_bag"
  by (simp add: describes_def vault_attributes_def make_enum_attribute_def GetAttributesResponse_fromBatchItem_def
      success_item_def expect_operation_def require_response_payload_def ResponseBatchItem.extend_def
      GetAttributesResponseBatchItem.fields_def AttributesParser_parse_def parse_attribute_def
      parse_named_attribute_def checked_state_def is_valid_state_def pad8_def Let_def kmip_consts)

lemma vault_files: "files_objects vault_peer vault_client vault_contents (\<lambda>v. 200 - length v)"
  unfolding files_objects_def vault_version
proof (intro allI impI)
  fix v :: vault and now item ob
  assume ob: "registered_object item = Some ob" and room: "0 < 200 - length v"
  have "vault_handler v (prepare_request now (request_of KMIP_VERSION_1_4 lim item)) =
      (response_of KMIP_VERSION_1_4 (success_item KMIP_OP_REGISTER (id_payload (replicate (length v) CHR ''k''))), v @ [Some ob])" for lim
    using ob by (simp add: vault_handler_def prepare_request_def request_of_def registered_object_def)
  moreover have "vault_contents (v @ [Some ob]) = (vault_contents v)(replicate (length v) CHR ''k'' \<mapsto> ob)"
    by (rule ext) (auto simp: vault_contents_def nth_append less_Suc_eq)
  moreover have "vault_contents v (replicate (length v) CHR ''k'') = None" by (simp add: vault_contents_def)
  ultimately show "\<exists>uid q'. peer_handler vault_peer v (prepare_request now (request_of KMIP_VERSION_1_4 DEFAULT_MAX_RESPONSE_SIZE item)) =
      (response_of KMIP_VERSION_1_4 (success_item KMIP_OP_REGISTER (id_payload uid)), q') \<and>
     length uid \<le> 200 \<and> vault_contents v uid = None \<and> vault_contents q' = (vault_contents v)(uid \<mapsto> ob) \<and>
     200 - length v \<le> Suc (200 - length q')"
    using room by (intro exI [of _ "replicate (length v) CHR ''k''"] exI [of _ "v @ [Some ob]"]) (simp add: vault_peer_def)
qed

lemma requested_id_of [simp]:
  "requested_id (GetRequest uid fmt\<lparr>rqb_uniqueBatchItemId := n\<rparr>) = uid" "requested_id (DestroyRequest uid\<lparr>rqb_uniqueBatchItemId := n\<rparr>) = uid"
  by (simp_all add: requested_id_def GetRequest_def DestroyRequest_def SimpleIdRequest_def make_request_def Let_def)

lemma vault_serves: "serves_objects vault_peer vault_client vault_contents (\<lambda>_. active_bag)"
proof -
  have "vault_handler v (prepare_request now (get_pair vault_client uid names legacy)) =
      (case vault_contents v uid of None \<Rightarrow> (pair_not_found KMIP_VERSION_1_4, v)
       | Some (ot, obj) \<Rightarrow> (pair_response KMIP_VERSION_1_4 (get_payload uid ot obj) vault_attributes, v))" for v now uid names legacy
    by (simp add: vault_handler_def prepare_request_def get_pair_def pair_request_def Let_def split: option.split)
  then show ?thesis
    using vault_attributes_describe by (auto simp: serves_objects_def vault_peer_def split: option.splits)
qed

lemma vault_destroys: "destroys_objects vault_peer vault_client vault_contents"
proof -
  have "registered_object (DestroyRequest uid\<lparr>rqb_uniqueBatchItemId := 1\<rparr>) = None" for uid
    by (simp add: registered_object_def DestroyRequest_def SimpleIdRequest_def make_request_def kmip_consts)
  then have "vault_handler v (prepare_request now (request_of KMIP_VERSION_1_4 lim (DestroyRequest uid))) =
      (response_of KMIP_VERSION_1_4 (success_item KMIP_OP_DESTROY (id_payload uid)), v[length uid := None])" for v now lim uid
    by (simp add: vault_handler_def prepare_request_def request_of_def)
  moreover have "vault_contents (v[length uid := None]) = (vault_contents v)(uid := None)" if "vault_contents v uid \<noteq> None" for v uid
  proof
    fix x
    have "uid = replicate (length uid) CHR ''k''" using that by (simp add: vault_contents_def split: if_splits)
    then have "x = uid \<longleftrightarrow> x = replicate (length x) CHR ''k'' \<and> length x = length uid" by metis
    then show "vault_contents (v[length uid := None]) x = ((vault_contents v)(uid := None)) x"
      by (auto simp: vault_contents_def nth_list_update)
  qed
  ultimately show ?thesis by (simp add: destroys_objects_def vault_peer_def)
qed

lemma vault_server: "object_server vault_peer vault_client vault_contents (\<lambda>v. 200 - length v) (\<lambda>_. active_bag)"
  by (simp add: object_server_def vault_files vault_serves vault_destroys)

text \<open>Two keys and a secret for it.\<close>

definition aes_key :: ClientKey where
  "aes_key = new_ClientKey SymmetricKey [1, 2, 3] (set_crypto_length 24 (set_algorithm KMIP_CRYPTOALG_AES no_attributes))"

definition public_key :: ClientKey where
  "public_key = set_key_format (Some KMIP_KEYFORMAT_X509) (new_ClientKey PublicKey [7] no_attributes)"

definition vault_objects :: "managed list" where
  "vault_objects = [Managed_key ''a'' [] aes_key, Managed_key ''b'' ''g'' public_key,
     Managed_secret ''c'' [] (new_Secret [5, 6] KMIP_SECDATA_PASSWORD no_attributes)]"

lemma vault_key_sizes:
  "algorithm_and_length (to_core_key aes_key) KMIP_VERSION_1_4 = Some \<lparr>al_algorithm = KMIP_CRYPTOALG_AES, al_length = 24\<rparr>"
  "algorithm_and_length (to_core_key public_key) KMIP_VERSION_1_4 = None"
  by (simp_all add: algorithm_and_length_def aes_key_def public_key_def new_ClientKey_def set_key_format_def attr_algorithm_def
      last_crypto_algorithm_def is_at_least_def KMIP_VERSION_1_4_def no_attributes_def set_crypto_length_def set_algorithm_def kmip_consts)

lemma vault_key_fields:
  "ck_class aes_key = SymmetricKey" "ck_format aes_key = None" "ck_value aes_key = [1, 2, 3]"
  "ck_class public_key = PublicKey" "ck_format public_key = Some KMIP_KEYFORMAT_X509" "ck_value public_key = [7]"
  "attr_generic (ck_attributes aes_key) = []" "attr_generic (ck_attributes public_key) = []"
  "attr_usage (ck_attributes aes_key) = KMIP_CRYPTOMASK_UNSET" "attr_usage (ck_attributes public_key) = KMIP_CRYPTOMASK_UNSET"
  by (simp_all add: aes_key_def public_key_def new_ClientKey_def set_key_format_def attr_usage_def set_crypto_length_def
      set_algorithm_def no_attributes_def)

lemma vault_keys_valid: "attrs_valid (ck_attributes aes_key)" "attrs_valid (ck_attributes public_key)"
  by (simp_all add: aes_key_def public_key_def new_ClientKey_def set_key_format_def attrs_valid_typed
      is_valid_cryptographic_algorithm_def kmip_consts)

lemma vault_keys_registrable:
  "registrable KMIP_VERSION_1_4 (Managed_key ''a'' [] aes_key)" "registrable KMIP_VERSION_1_4 (Managed_key ''b'' ''g'' public_key)"
  by (simp_all add: registrable_def vault_key_fields vault_keys_valid RegisterKeyRequest_def make_key_object_from_key_def object_type_from_key_type_def
      ck_type_def Let_def make_request_def v1_register_key_attrs_def attribute_element_defs vault_key_sizes use_attributes_container_def
      is_at_least_def pad8_def) (simp_all add: KMIP_VERSION_1_4_def nonempty_child_def pad8_def)

lemma vault_secret_registrable:
  "registrable KMIP_VERSION_1_4 (Managed_secret ''c'' [] (new_Secret [5, 6] KMIP_SECDATA_PASSWORD no_attributes))"
  by (simp add: registrable_def new_Secret_def is_valid_secret_data_type_def RegisterSecretRequest_def make_secret_data_def make_request_def
      attribute_element_defs use_attributes_container_def is_at_least_def pad8_def)
     (simp add: KMIP_VERSION_1_4_def nonempty_child_def pad8_def)

lemma vault_objects_registrable: "list_all (registrable (kc_version vault_client)) vault_objects"
  by (simp add: vault_objects_def vault_keys_registrable vault_secret_registrable)

lemma active_bag_state: "has_attribute KMIP_ATTR_NAME_STATE active_bag"
  by (simp add: has_attribute_def set_state_def kmip_consts)

lemma vault_objects_room: "length vault_objects \<le> 200 - length ([] :: vault)"
  by (simp add: vault_objects_def)

section \<open>Properties\<close>

text \<open>C1. Keys and secrets survive the trip to the server and back.  The objects are those the client can read back
  (\<open>registrable\<close>): symmetric keys without a format or with RAW, private keys with PKCS#8 and public keys with X.509, all with
  attributes in range, and secrets of a defined type, each in a request of at most 512 KiB.  Against any server that files
  each registered object under an unused identifier, answers Get with it and reports a State, over a working connection
  that may split the streams anywhere, a session that registers a list of such objects gets distinct identifiers.
  Each of them fetches the bytes and the class of its key, its format if it had one, and the algorithm and length that were
  sent, over which the attributes that the server reports take precedence; or the bytes and type of its secret, with the
  attributes that the server reports.\<close>

theorem objects_stored_and_fetched:
  assumes "serving env c p" "in_step p (io_net s) q" "object_server p c contents room bag"
    and "\<And>uid. has_attribute KMIP_ATTR_NAME_STATE (bag uid)"
    and "list_all (registrable (kc_version c)) ms" "length ms \<le> room q"
  shows "\<exists>uids q' s'. register_all env c ms s = (Inr uids, s') \<and> in_step p (io_net s') q' \<and> distinct uids \<and>
    list_all2 (\<lambda>m uid. \<exists>s''. fetches env c all uid (bag uid) m s' s'' \<and> in_step p (io_net s'') q') ms uids"
proof -
  obtain uids q' s' where r: "register_all env c ms s = (Inr uids, s')" "in_step p (io_net s') q'"
      "list_all2 (kept (kc_version c) (contents q')) ms uids" "distinct uids"
    using register_all_served [OF assms(1,3,5,2,6)] by blast
  from list_all2_mono [OF r(3) kept_fetched [OF assms(1) r(2) assms(3) assms(4)]] show ?thesis
    using r(1,2,4) by (intro exI conjI) assumption+
qed

theorem objects_stored_and_fetched_witness:
  "\<exists>u1 u2 u3 s' key s2 secret s3. register_all sample_env vault_client vault_objects fresh_io = (Inr [u1, u2, u3], s') \<and> distinct [u1, u2, u3] \<and>
     op_get_key sample_env vault_client u2 False s' = (Inr key, s2) \<and> ck_value key = [7] \<and> ck_class key = PublicKey \<and>
     op_get_secret sample_env vault_client u3 False s' = (Inr secret, s3) \<and> secret_value secret = [5, 6]"
proof -
  obtain uids q' s' where run: "register_all sample_env vault_client vault_objects fresh_io = (Inr uids, s')" "distinct uids"
    "list_all2 (\<lambda>m uid. \<exists>s''. fetches sample_env vault_client False uid active_bag m s' s'' \<and> in_step vault_peer (io_net s'') q') vault_objects uids"
    using objects_stored_and_fetched [OF vault_session vault_server active_bag_state vault_objects_registrable vault_objects_room, of False] by blast
  then obtain u1 u2 u3 key s2 secret s3 where "uids = [u1, u2, u3]" "op_get_key sample_env vault_client u2 False s' = (Inr key, s2)"
      "returned KMIP_VERSION_1_4 active_bag public_key key"
      "op_get_secret sample_env vault_client u3 False s' = (Inr secret, s3)" "secret_value secret = [5, 6]"
    by (force simp: vault_objects_def list_all2_Cons1 new_Secret_def)
  with run(1,2) show ?thesis
    by (auto simp: returned_def vault_key_fields)
qed



text \<open>C10. What \<open>op_get_key\<close> returns is well formed, whatever the server and the transport do: a raw symmetric key, a private key or a
  public key, with a format, attributes in range and a lifecycle state among them; and no
  SubjectPublicKeyInfo keeps the PKCS#8 label.\<close>

theorem get_key_well_formed:
  assumes "op_get_key env c uid all s = (Inr key, s')"
  shows "parsed_key key \<and> relabelled env key \<and> has_attribute KMIP_ATTR_NAME_STATE (ck_attributes key)"
  using with_legacy_retries_Inr [OF assms [unfolded op_get_key_def]] get_key_once_sound by blast

theorem get_key_well_formed_witness:
  "\<exists>uid s key s'. op_get_key sample_env vault_client uid True s = (Inr key, s') \<and> parsed_key key \<and> relabelled sample_env key"
proof -
  have m: "registrable (kc_version vault_client) (Managed_key ''a'' [] aes_key)" by (simp add: vault_keys_registrable)
  from store_object [OF vault_session vault_server _ m] obtain uid q' ob and s :: "(byte list \<times> nat) io_state" where
    s: "in_step vault_peer (io_net s) q'" "stored_as (kc_version vault_client) (Managed_key ''a'' [] aes_key) ob"
      "length uid \<le> 200" "vault_contents q' = (vault_contents [])(uid \<mapsto> ob)"
    by (auto simp del: vault_version)
  then have "vault_contents q' uid = Some ob" by simp
  from fetch_object [OF vault_session(1) s(1) vault_server active_bag_state s(3) this s(2), of True] show ?thesis
    using get_key_well_formed by fastforce
qed

end
