(* ===== verification/Secure_Memory.thy ===== *)
theory Secure_Memory
  imports Kmip_Prelude
begin

text \<open>
  \<open>src/kmipcore/src/secure_memory.cpp\<close> and \<open>src/kmipcore/include/kmipcore/secure_memory.hpp\<close>: the allocator behind
  \<open>secure_bytes\<close> and \<open>secure_string\<close>, which hold keys, passwords and serialized messages.

  Memory is a map from addresses to bytes.  \<open>::operator new\<close> is outside the sources: it may return any block that
  does not overlap a live one, with whatever the memory holds there, or fail.  A container is any sequence of
  allocations, writes into its live blocks and deallocations with the size of the allocation, which is what
  the standard containers promise an allocator.  What a container keeps inside itself does not pass through the
  allocator: \<open>std::basic_string\<close> may hold a short text in a buffer of its own, which nothing here clears.
\<close>

section \<open>The allocator\<close>

type_synonym memory = "nat \<Rightarrow> byte"

text \<open>The portable loop; the primitives of the platforms have the same effect.\<close>

fun clear_loop :: "nat \<Rightarrow> nat \<Rightarrow> memory \<Rightarrow> memory" where
  "clear_loop vp 0 mem = mem"
| "clear_loop vp (Suc n) mem = clear_loop (Suc vp) n (mem(vp := 0))"

definition secure_clear :: "nat \<Rightarrow> nat \<Rightarrow> memory \<Rightarrow> memory" where
  "secure_clear p n mem = (if p = 0 \<or> n = 0 then mem else clear_loop p n mem)"

text \<open>The memory, and the blocks in use by address and length.\<close>

record secure_heap =
  heap_bytes :: memory
  heap_blocks :: "(nat \<times> nat) set"

definition block_range :: "nat \<Rightarrow> nat \<Rightarrow> nat set" where
  "block_range p len = {p..<p + len}"

definition in_use :: "secure_heap \<Rightarrow> nat set" where
  "in_use h = (\<Union>(p, len) \<in> heap_blocks h. block_range p len)"

text \<open>\<open>allocate\<close>: \<open>None\<close> is \<open>std::bad_alloc\<close>.  The request that reaches \<open>::operator new\<close>.\<close>

definition allocation_bytes :: "nat \<Rightarrow> nat \<Rightarrow> nat option" where
  "allocation_bytes sizeof_T n = (if n > (2 ^ 64 - 1) div sizeof_T then None else Some (sz_mul n sizeof_T))"

text \<open>What \<open>::operator new\<close> can answer: a block that is not null, ends within the address space and is
  not in use.\<close>

definition new_block :: "secure_heap \<Rightarrow> nat \<Rightarrow> nat \<Rightarrow> bool" where
  "new_block h len p \<longleftrightarrow> 0 < p \<and> p + len \<le> 2 ^ 64 \<and> block_range p len \<inter> in_use h = {} \<and> (\<forall>len'. (p, len') \<notin> heap_blocks h)"

definition allocate :: "nat \<Rightarrow> nat \<Rightarrow> nat option \<Rightarrow> secure_heap \<Rightarrow> (nat \<times> secure_heap) option" where
  "allocate sizeof_T n answer h =
     (case allocation_bytes sizeof_T n of
        None \<Rightarrow> None
      | Some len \<Rightarrow> (case answer of None \<Rightarrow> None | Some p \<Rightarrow> Some (p, h\<lparr>heap_blocks := insert (p, len) (heap_blocks h)\<rparr>)))"

text \<open>\<open>::operator delete\<close> gives up the block that starts at the address.\<close>

definition operator_delete :: "nat \<Rightarrow> secure_heap \<Rightarrow> secure_heap" where
  "operator_delete p h = h\<lparr>heap_blocks := {b \<in> heap_blocks h. fst b \<noteq> p}\<rparr>"

definition deallocate :: "nat \<Rightarrow> nat \<Rightarrow> nat \<Rightarrow> secure_heap \<Rightarrow> secure_heap" where
  "deallocate sizeof_T p n h =
     (if p \<noteq> 0 then operator_delete p (h\<lparr>heap_bytes := secure_clear p (sz_mul n sizeof_T) (heap_bytes h)\<rparr>) else h)"

text \<open>The comparisons of secure with plain containers: \<open>std::equal\<close> over both ranges.\<close>

fun std_equal :: "'a list \<Rightarrow> 'a list \<Rightarrow> bool" where
  "std_equal [] [] = True"
| "std_equal (x # xs) (y # ys) = (x = y \<and> std_equal xs ys)"
| "std_equal _ _ = False"

definition equal_secure_plain :: "'a list \<Rightarrow> 'a list \<Rightarrow> bool" where
  "equal_secure_plain a b = std_equal a b"

definition equal_plain_secure :: "'a list \<Rightarrow> 'a list \<Rightarrow> bool" where
  "equal_plain_secure a b = equal_secure_plain b a"

lemma equal_secure_iff [simp]: "equal_secure_plain a b \<longleftrightarrow> a = b" "equal_plain_secure a b \<longleftrightarrow> a = b"
proof -
  have "std_equal a b \<longleftrightarrow> a = b" for a b :: "'a list" by (induction a b rule: std_equal.induct) auto
  then show "equal_secure_plain a b \<longleftrightarrow> a = b" "equal_plain_secure a b \<longleftrightarrow> a = b"
    by (auto simp: equal_secure_plain_def equal_plain_secure_def)
qed

section \<open>Containers over the allocator\<close>

text \<open>
  A step of the containers of a program, for elements of \<open>sizeof_T\<close> bytes.  The state is the heap, the arrays that
  were allocated and not yet deallocated with their element counts, and every address that ever belonged to
  one of them.
\<close>

record containers =
  ct_heap :: secure_heap
  ct_arrays :: "(nat \<times> nat) set"
  ct_touched :: "nat set"

definition start_containers :: "memory \<Rightarrow> containers" where
  "start_containers mem = \<lparr>ct_heap = \<lparr>heap_bytes = mem, heap_blocks = {}\<rparr>, ct_arrays = {}, ct_touched = {}\<rparr>"

inductive container_step :: "nat \<Rightarrow> containers \<Rightarrow> containers \<Rightarrow> bool" for sizeof_T where
  alloc_step: "allocate sizeof_T n (Some p) (ct_heap s) = Some (p, h) \<Longrightarrow> new_block (ct_heap s) (n * sizeof_T) p \<Longrightarrow>
    container_step sizeof_T s (s\<lparr>ct_heap := h, ct_arrays := insert (p, n) (ct_arrays s),
      ct_touched := ct_touched s \<union> block_range p (n * sizeof_T)\<rparr>)"
| write_step: "(p, n) \<in> ct_arrays s \<Longrightarrow> a \<in> block_range p (n * sizeof_T) \<Longrightarrow>
    container_step sizeof_T s (s\<lparr>ct_heap := (ct_heap s)\<lparr>heap_bytes := (heap_bytes (ct_heap s))(a := v)\<rparr>\<rparr>)"
| release_step: "(p, n) \<in> ct_arrays s \<Longrightarrow>
    container_step sizeof_T s (s\<lparr>ct_heap := deallocate sizeof_T p n (ct_heap s), ct_arrays := ct_arrays s - {(p, n)}\<rparr>)"

lemma clear_loop_spec: "clear_loop p n mem = (\<lambda>a. if p \<le> a \<and> a < p + n then 0 else mem a)"
  by (induction n arbitrary: p mem) (auto simp: fun_eq_iff)

lemma secure_clear_spec: "0 < p \<Longrightarrow> secure_clear p n mem = (\<lambda>a. if a \<in> block_range p n then 0 else mem a)"
  by (auto simp: secure_clear_def clear_loop_spec block_range_def fun_eq_iff)

text \<open>The check of \<open>allocate\<close> is exact, and no accepted size wraps in \<open>deallocate\<close>.\<close>

lemma allocation_bytes_iff:
  "0 < sizeof_T \<Longrightarrow> allocation_bytes sizeof_T n = (if n * sizeof_T < 2 ^ 64 then Some (n * sizeof_T) else None)"
proof -
  assume s: "0 < sizeof_T"
  have "n \<le> (2 ^ 64 - 1) div sizeof_T \<longleftrightarrow> n * sizeof_T < 2 ^ 64"
    using s less_eq_div_iff_mult_less_eq [of sizeof_T n "2 ^ 64 - 1"] by auto
  then show ?thesis by (auto simp: allocation_bytes_def sz_mul_def)
qed

definition array_range :: "nat \<Rightarrow> nat \<times> nat \<Rightarrow> nat set" where
  "array_range sizeof_T b = block_range (fst b) (snd b * sizeof_T)"

definition apart :: "nat \<Rightarrow> (nat \<times> nat) set \<Rightarrow> bool" where
  "apart sizeof_T A \<longleftrightarrow> (\<forall>b \<in> A. \<forall>c \<in> A. b \<noteq> c \<longrightarrow> fst b \<noteq> fst c \<and> array_range sizeof_T b \<inter> array_range sizeof_T c = {})"

lemma apart_insert:
  "apart sizeof_T A \<Longrightarrow> (\<And>c. c \<in> A \<Longrightarrow> fst b \<noteq> fst c \<and> array_range sizeof_T b \<inter> array_range sizeof_T c = {}) \<Longrightarrow>
     apart sizeof_T (insert b A)"
  unfolding apart_def by (metis Int_commute insert_iff)

lemma apart_subset: "apart sizeof_T A \<Longrightarrow> B \<subseteq> A \<Longrightarrow> apart sizeof_T B"
  unfolding apart_def by blast

text \<open>The invariant: the live blocks are the arrays, they are disjoint and not null, and every byte
  that was in an array and is not any more is zero.\<close>

definition scrubbed :: "nat \<Rightarrow> memory \<Rightarrow> containers \<Rightarrow> bool" where
  "scrubbed sizeof_T mem s \<longleftrightarrow>
     heap_blocks (ct_heap s) = (\<lambda>b. (fst b, snd b * sizeof_T)) ` ct_arrays s \<and>
     (\<forall>b \<in> ct_arrays s. 0 < fst b \<and> snd b * sizeof_T < 2 ^ 64 \<and> array_range sizeof_T b \<subseteq> ct_touched s) \<and>
     apart sizeof_T (ct_arrays s) \<and>
     (\<forall>a. a \<notin> in_use (ct_heap s) \<longrightarrow> heap_bytes (ct_heap s) a = (if a \<in> ct_touched s then 0 else mem a))"

lemma in_use_arrays: "scrubbed sizeof_T mem s \<Longrightarrow> in_use (ct_heap s) = (\<Union>b \<in> ct_arrays s. array_range sizeof_T b)"
  by (auto simp: scrubbed_def in_use_def array_range_def)

lemma scrubbed_start: "scrubbed sizeof_T mem (start_containers mem)"
  by (simp add: scrubbed_def start_containers_def in_use_def apart_def)

lemma scrubbed_alloc:
  assumes "scrubbed sizeof_T mem s" "0 < sizeof_T" "allocate sizeof_T n (Some p) (ct_heap s) = Some (p, h)"
    and "new_block (ct_heap s) (n * sizeof_T) p"
  shows "scrubbed sizeof_T mem (s\<lparr>ct_heap := h, ct_arrays := insert (p, n) (ct_arrays s),
    ct_touched := ct_touched s \<union> block_range p (n * sizeof_T)\<rparr>)"
proof -
  have h: "h = (ct_heap s)\<lparr>heap_blocks := insert (p, n * sizeof_T) (heap_blocks (ct_heap s))\<rparr>" "n * sizeof_T < 2 ^ 64"
    using assms(2,3) by (auto simp: allocate_def allocation_bytes_iff split: if_splits)
  have p: "0 < p" "block_range p (n * sizeof_T) \<inter> in_use (ct_heap s) = {}" "\<forall>len'. (p, len') \<notin> heap_blocks (ct_heap s)"
    using assms(4) by (simp_all add: new_block_def)
  have use: "in_use h = block_range p (n * sizeof_T) \<union> in_use (ct_heap s)" by (simp add: h in_use_def)
  have "apart sizeof_T (insert (p, n) (ct_arrays s))"
  proof (rule apart_insert)
    show "apart sizeof_T (ct_arrays s)" using assms(1) by (simp add: scrubbed_def)
    show "fst (p, n) \<noteq> fst c \<and> array_range sizeof_T (p, n) \<inter> array_range sizeof_T c = {}" if "c \<in> ct_arrays s" for c
    proof -
      have "(fst c, snd c * sizeof_T) \<in> heap_blocks (ct_heap s)" using assms(1) that by (auto simp: scrubbed_def)
      moreover have "array_range sizeof_T c \<subseteq> in_use (ct_heap s)" using that by (auto simp: in_use_arrays [OF assms(1)])
      ultimately show ?thesis using p(2,3) by (auto simp: array_range_def)
    qed
  qed
  moreover have "heap_bytes h a = (if a \<in> ct_touched s \<union> block_range p (n * sizeof_T) then 0 else mem a)" if "a \<notin> in_use h" for a
    using assms(1) that use by (simp add: scrubbed_def h(1))
  moreover have "heap_blocks h = (\<lambda>b. (fst b, snd b * sizeof_T)) ` insert (p, n) (ct_arrays s)"
    using assms(1) by (simp add: scrubbed_def h(1))
  ultimately show ?thesis
    using assms(1) h(2) p(1) unfolding scrubbed_def by (simp add: array_range_def) blast
qed

lemma scrubbed_write:
  assumes "scrubbed sizeof_T mem s" "(p, n) \<in> ct_arrays s" "a \<in> block_range p (n * sizeof_T)"
  shows "scrubbed sizeof_T mem (s\<lparr>ct_heap := (ct_heap s)\<lparr>heap_bytes := (heap_bytes (ct_heap s))(a := v)\<rparr>\<rparr>)"
proof -
  have "a \<in> in_use (ct_heap s)" using assms(2,3) in_use_arrays [OF assms(1)] by (force simp: array_range_def)
  then show ?thesis using assms(1) by (auto simp: scrubbed_def in_use_def)
qed

lemma scrubbed_release:
  assumes "scrubbed sizeof_T mem s" "0 < sizeof_T" "(p, n) \<in> ct_arrays s"
  shows "scrubbed sizeof_T mem (s\<lparr>ct_heap := deallocate sizeof_T p n (ct_heap s), ct_arrays := ct_arrays s - {(p, n)}\<rparr>)"
    (is "scrubbed _ _ ?t")
proof -
  have p: "0 < p" "n * sizeof_T < 2 ^ 64" "array_range sizeof_T (p, n) \<subseteq> ct_touched s"
    using assms(1,3) by (auto simp: scrubbed_def)
  have other: "fst b \<noteq> p" if "b \<in> ct_arrays s" "b \<noteq> (p, n)" for b
    using assms(1,3) that unfolding scrubbed_def apart_def by (metis fst_conv)
  have blocks: "heap_blocks (ct_heap ?t) = (\<lambda>b. (fst b, snd b * sizeof_T)) ` ct_arrays ?t"
  proof -
    have "ct_arrays s - {(p, n)} = {b \<in> ct_arrays s. fst b \<noteq> p}" using other assms(3) by auto
    moreover have "heap_blocks (ct_heap s) = (\<lambda>b. (fst b, snd b * sizeof_T)) ` ct_arrays s" using assms(1) by (simp add: scrubbed_def)
    ultimately show ?thesis using p(1) by (auto simp: deallocate_def operator_delete_def)
  qed
  have bytes: "heap_bytes (ct_heap ?t) = (\<lambda>a. if a \<in> array_range sizeof_T (p, n) then 0 else heap_bytes (ct_heap s) a)"
    using p(1,2) by (simp add: deallocate_def operator_delete_def secure_clear_spec sz_mul_def array_range_def)
  have "in_use (ct_heap ?t) = (\<Union>b \<in> ct_arrays ?t. array_range sizeof_T b)"
    using blocks by (auto simp: in_use_def array_range_def)
  then have use: "in_use (ct_heap s) \<subseteq> in_use (ct_heap ?t) \<union> array_range sizeof_T (p, n)"
    using in_use_arrays [OF assms(1)] by auto
  have "heap_bytes (ct_heap ?t) a = (if a \<in> ct_touched s then 0 else mem a)" if "a \<notin> in_use (ct_heap ?t)" for a
  proof (cases "a \<in> array_range sizeof_T (p, n)")
    case False
    then have "a \<notin> in_use (ct_heap s)" using that use by blast
    with False assms(1) show ?thesis unfolding bytes scrubbed_def by simp
  next
    case True
    then show ?thesis using p(3) unfolding bytes by auto
  qed
  moreover have "apart sizeof_T (ct_arrays ?t)" using assms(1) apart_subset by (auto simp: scrubbed_def)
  ultimately show ?thesis using assms(1) blocks unfolding scrubbed_def by auto
qed

lemma scrubbed_step: "container_step sizeof_T s t \<Longrightarrow> 0 < sizeof_T \<Longrightarrow> scrubbed sizeof_T mem s \<Longrightarrow> scrubbed sizeof_T mem t"
  by (induction rule: container_step.induct) (auto intro: scrubbed_alloc scrubbed_write scrubbed_release)

lemma scrubbed_reachable:
  "(container_step sizeof_T)\<^sup>*\<^sup>* (start_containers mem) s \<Longrightarrow> 0 < sizeof_T \<Longrightarrow> scrubbed sizeof_T mem s"
  by (induction rule: rtranclp_induct) (auto intro: scrubbed_start scrubbed_step)

text \<open>C21. Secrets do not outlive their containers, for the memory that comes from the allocator (a short
  \<open>secure_string\<close> may lie in the string object and never reach it): after any sequence of allocations, writes
  and deallocations through the allocator, every byte that once belonged to a secure container and does not any more is zero, every
  byte that never did is as it was, and live containers never overlap.\<close>

theorem secure_memory_scrubbed:
  assumes "(container_step sizeof_T)\<^sup>*\<^sup>* (start_containers mem) s" "0 < sizeof_T"
    and "\<forall>b \<in> ct_arrays s. a \<notin> array_range sizeof_T b"
  shows "heap_bytes (ct_heap s) a = (if a \<in> ct_touched s then 0 else mem a) \<and> apart sizeof_T (ct_arrays s)"
proof -
  have s: "scrubbed sizeof_T mem s" using assms(1,2) by (rule scrubbed_reachable)
  have "a \<notin> in_use (ct_heap s)" using assms(3) in_use_arrays [OF s] by simp
  with s show ?thesis by (simp add: scrubbed_def)
qed

text \<open>A key byte is written at address 100 and its container released.\<close>

lemma sample_containers:
  "\<exists>s. (container_step 1)\<^sup>*\<^sup>* (start_containers (\<lambda>_. 9)) s \<and> ct_arrays s = {} \<and> ct_touched s = {100, 101}"
proof -
  let ?s0 = "start_containers (\<lambda>_. 9 :: byte)"
  let ?h1 = "(ct_heap ?s0)\<lparr>heap_blocks := {(100, 2)}\<rparr>"
  let ?s1 = "?s0\<lparr>ct_heap := ?h1, ct_arrays := {(100, 2)}, ct_touched := {100, 101}\<rparr>"
  have "block_range 100 2 = {100, 101}" by (auto simp: block_range_def)
  then have 1: "container_step 1 ?s0 ?s1"
    using alloc_step [of 1 2 100 ?s0 ?h1]
    by (simp add: start_containers_def allocate_def allocation_bytes_iff new_block_def in_use_def)
  let ?s2 = "?s1\<lparr>ct_heap := (ct_heap ?s1)\<lparr>heap_bytes := (heap_bytes (ct_heap ?s1))(100 := 77)\<rparr>\<rparr>"
  have 2: "container_step 1 ?s1 ?s2"
    using write_step [of 100 2 ?s1 100 1 77] by (simp add: block_range_def)
  let ?s3 = "?s2\<lparr>ct_heap := deallocate 1 100 2 (ct_heap ?s2), ct_arrays := {}\<rparr>"
  have "container_step 1 ?s2 ?s3"
    using release_step [of 100 2 ?s2 1] by simp
  with 1 2 show ?thesis
    by (intro exI [of _ ?s3] conjI converse_rtranclp_into_rtranclp [of _ ?s0 ?s1] converse_rtranclp_into_rtranclp [of _ ?s1 ?s2]) auto
qed

theorem secure_memory_scrubbed_witness:
  "\<exists>s. (container_step 1)\<^sup>*\<^sup>* (start_containers (\<lambda>_. 9)) s \<and> 100 \<in> ct_touched s \<and> heap_bytes (ct_heap s) 100 = 0"
proof -
  obtain s where s: "(container_step 1)\<^sup>*\<^sup>* (start_containers (\<lambda>_. 9)) s" "ct_arrays s = {}" "ct_touched s = {100, 101}"
    using sample_containers by blast
  with secure_memory_scrubbed [OF s(1), of 100] show ?thesis by auto
qed

end
