(* ===== verification/Openssl_Errors.thy ===== *)
theory Openssl_Errors
  imports Kmip_Prelude "HOL-Library.Countable"
begin

text \<open>
  \<open>src/kmiputil/src/OpenSSLUtils.hpp\<close>: the scope that confines the OpenSSL errors of a call to that call.

  The error queue belongs to OpenSSL: \<open>err_api\<close> are the functions of it that the class calls, on any
  representation of the queue, and \<open>err_stack\<close> is their documented effect on the entries, the latest one first, each with
  its marks.  OpenSSL 3 counts the marks of an entry, OpenSSL 1.1.1 has one flag for them.  Library and reason are the numbers
  that were raised; OpenSSL packs them into the bits of one code, which the numbers raised here, a library for
  applications and a reason below 4096, fit.
\<close>

section \<open>The queue\<close>

record 'q err_api =
  ERR_set_mark :: "'q \<Rightarrow> 'q"
  ERR_pop_to_mark :: "'q \<Rightarrow> 'q"
  ERR_raise :: "nat \<Rightarrow> nat \<Rightarrow> 'q \<Rightarrow> 'q"
  ERR_peek_last_error :: "'q \<Rightarrow> nat"
  ERR_GET_LIB :: "nat \<Rightarrow> nat"
  ERR_GET_REASON :: "nat \<Rightarrow> nat"
  ERR_error_string_n :: "nat \<Rightarrow> nat \<Rightarrow> string"
  ERR_LIB_USER :: nat

type_synonym err_entries = "(nat \<times> nat) list"

fun mark_top :: "bool \<Rightarrow> err_entries \<Rightarrow> err_entries" where
  "mark_top counted [] = []"
| "mark_top counted ((err, marks) # rest) = (err, if counted then Suc marks else 1) # rest"

fun pop_marked :: "err_entries \<Rightarrow> err_entries" where
  "pop_marked [] = []"
| "pop_marked ((err, marks) # rest) = (if marks = 0 then pop_marked rest else (err, marks - 1) # rest)"

text \<open>The queue is a ring: when it holds \<open>cap\<close> entries, a new one drops the oldest.\<close>

definition err_stack :: "'q err_api \<Rightarrow> bool \<Rightarrow> nat \<Rightarrow> ('q \<Rightarrow> err_entries) \<Rightarrow> bool" where
  "err_stack api counted cap entries \<longleftrightarrow> 0 < cap \<and> (\<forall>q. length (entries q) \<le> cap) \<and>
     (\<forall>q. entries (ERR_set_mark api q) = mark_top counted (entries q)) \<and>
     (\<forall>q. entries (ERR_pop_to_mark api q) = pop_marked (entries q)) \<and>
     (\<forall>q lib reason. \<exists>err. err \<noteq> 0 \<and> ERR_GET_LIB api err = lib \<and> ERR_GET_REASON api err = reason \<and>
        entries (ERR_raise api lib reason q) = take cap ((err, 0) # entries q)) \<and>
     (\<forall>q. ERR_peek_last_error api q = (case entries q of [] \<Rightarrow> 0 | (err, _) # _ \<Rightarrow> err))"

section \<open>The scope\<close>

definition kPlaceholderReason :: nat where
  "kPlaceholderReason = 0xA5A"

definition is_placeholder :: "'q err_api \<Rightarrow> nat \<Rightarrow> bool" where
  "is_placeholder api err \<longleftrightarrow> ERR_GET_LIB api err = ERR_LIB_USER api \<and> ERR_GET_REASON api err = kPlaceholderReason"

definition scope_mark :: "'q err_api \<Rightarrow> 'q \<Rightarrow> 'q" where
  "scope_mark api q = ERR_raise api (ERR_LIB_USER api) kPlaceholderReason (ERR_set_mark api q)"

definition new_OpenSslErrorScope :: "'q err_api \<Rightarrow> 'q \<Rightarrow> 'q" where
  "new_OpenSslErrorScope api q = scope_mark api q"

text \<open>The client marks the queue the same way before it parses a public key.\<close>

definition mark_openssl_errors :: "'q err_api \<Rightarrow> 'q \<Rightarrow> 'q" where
  "mark_openssl_errors api q = ERR_raise api (ERR_LIB_USER api) 0xA5A (ERR_set_mark api q)"

lemma mark_openssl_errors_scope: "mark_openssl_errors api q = new_OpenSslErrorScope api q"
  by (simp add: mark_openssl_errors_def new_OpenSslErrorScope_def scope_mark_def kPlaceholderReason_def)

definition destroy_OpenSslErrorScope :: "'q err_api \<Rightarrow> 'q \<Rightarrow> 'q" where
  "destroy_OpenSslErrorScope api q = ERR_pop_to_mark api q"

definition scope_reset :: "'q err_api \<Rightarrow> 'q \<Rightarrow> 'q" where
  "scope_reset api q = scope_mark api (ERR_pop_to_mark api q)"

definition last_error :: "'q err_api \<Rightarrow> 'q \<Rightarrow> string" where
  "last_error api q =
     (let err = ERR_peek_last_error api q in
      if err = 0 \<or> is_placeholder api err then ''unknown error'' else ERR_error_string_n api err 256)"

section \<open>Calls of OpenSSL\<close>

text \<open>What happens inside a scope: OpenSSL raises errors; it sets a mark, raises errors and pops to its mark;
  the library resets its scope.\<close>

datatype err_call = Raise nat nat | Trial "(nat \<times> nat) list" | Reset

fun raise_all :: "'q err_api \<Rightarrow> (nat \<times> nat) list \<Rightarrow> 'q \<Rightarrow> 'q" where
  "raise_all api [] q = q"
| "raise_all api ((lib, reason) # es) q = raise_all api es (ERR_raise api lib reason q)"

fun run_call :: "'q err_api \<Rightarrow> err_call \<Rightarrow> 'q \<Rightarrow> 'q" where
  "run_call api (Raise lib reason) q = ERR_raise api lib reason q"
| "run_call api (Trial es) q = ERR_pop_to_mark api (raise_all api es (ERR_set_mark api q))"
| "run_call api Reset q = scope_reset api q"

fun call_room :: "err_call \<Rightarrow> nat" where
  "call_room (Raise lib reason) = 1"
| "call_room (Trial es) = length es"
| "call_room Reset = 1"

text \<open>The errors that are pending in the scope after a call, latest first.\<close>

fun pending :: "err_call \<Rightarrow> (nat \<times> nat) list \<Rightarrow> (nat \<times> nat) list" where
  "pending (Raise lib reason) es = (lib, reason) # es"
| "pending (Trial _) es = es"
| "pending Reset es = []"

section \<open>What a scope keeps\<close>

text \<open>Inside a scope the entries are unmarked ones of the scope above the marked entries of the caller, of
  which the oldest may be lost.\<close>

definition unmarked :: "err_entries \<Rightarrow> bool" where
  "unmarked zs \<longleftrightarrow> list_all (\<lambda>z. snd z = 0) zs"

definition confined :: "err_entries \<Rightarrow> err_entries \<Rightarrow> err_entries \<Rightarrow> nat \<Rightarrow> bool" where
  "confined marked st zs n \<longleftrightarrow> st = zs @ take n marked \<and> unmarked zs \<and> (zs = [] \<longrightarrow> n = 0)"

definition coded :: "'q err_api \<Rightarrow> nat \<times> nat \<Rightarrow> nat \<times> nat \<Rightarrow> bool" where
  "coded api z e \<longleftrightarrow> fst z \<noteq> 0 \<and> ERR_GET_LIB api (fst z) = fst e \<and> ERR_GET_REASON api (fst z) = snd e"

lemma pop_unmarked: "unmarked zs \<Longrightarrow> pop_marked (zs @ rest) = pop_marked rest"
  by (induction zs) (auto simp: unmarked_def)

text \<open>Popping to the mark of a scope undoes it; with flags, a mark of the caller on the same entry is lost.\<close>

fun unmark :: "bool \<Rightarrow> err_entries \<Rightarrow> err_entries" where
  "unmark counted [] = []"
| "unmark counted ((err, m) # rest) = (err, if counted then m else 0) # rest"

lemma pop_marked_top: "pop_marked (take n (mark_top counted base)) = take n (unmark counted base)"
  by (cases "(counted, base)" rule: unmark.cases; cases n) auto

lemma mark_unmark: "mark_top counted (take n (unmark counted base)) = take n (mark_top counted base)"
  by (cases "(counted, base)" rule: unmark.cases; cases n) auto

lemma unmark_errors [simp]: "map fst (unmark counted base) = map fst base" "unmark True base = base"
  by (cases "(counted, base)" rule: unmark.cases; simp)+

lemma raise_entries:
  assumes "err_stack api counted cap entries"
  shows "\<exists>z. coded api z (lib, reason) \<and> snd z = 0 \<and> entries (ERR_raise api lib reason q) = take cap (z # entries q)"
  using assms unfolding err_stack_def coded_def by (metis fst_conv snd_conv)

lemma raise_all_entries:
  assumes "err_stack api counted cap entries"
  shows "\<exists>ys. entries (raise_all api es q) = take cap (ys @ entries q) \<and> unmarked ys \<and> length ys = length es"
proof (induction es arbitrary: q)
  case Nil
  have "length (entries q) \<le> cap" using assms by (simp add: err_stack_def)
  then show ?case by (simp add: unmarked_def)
next
  case (Cons e es)
  obtain lib reason where e: "e = (lib, reason)" by fastforce
  obtain z where z: "snd z = 0" "entries (ERR_raise api lib reason q) = take cap (z # entries q)"
    using raise_entries [OF assms] by blast
  obtain ys where ys: "entries (raise_all api es (ERR_raise api lib reason q)) = take cap (ys @ take cap (z # entries q))"
      "unmarked ys" "length ys = length es"
    using Cons [of "ERR_raise api lib reason q"] z(2) by auto
  then show ?case
    using z(1) by (intro exI [of _ "ys @ [z]"]) (simp add: e unmarked_def take_Cons' min_def)
qed

text \<open>How a call changes the entries of the scope; \<open>es\<close> are the pending errors, \<open>ph\<close> is the placeholder.\<close>

abbreviation ph :: "'q err_api \<Rightarrow> nat \<times> nat" where
  "ph api \<equiv> (ERR_LIB_USER api, kPlaceholderReason)"

definition keeps_scope :: "'q err_api \<Rightarrow> nat \<Rightarrow> err_entries \<Rightarrow> err_call \<Rightarrow> err_entries \<Rightarrow> nat \<Rightarrow> err_entries \<Rightarrow> bool" where
  "keeps_scope api cap marked c zs n st' \<longleftrightarrow>
     (\<exists>zs' n'. confined marked st' zs' n' \<and>
        (length marked \<le> n \<and> length zs + length marked + call_room c \<le> cap \<longrightarrow>
           length marked \<le> n' \<and> length zs' \<le> length zs + call_room c \<and>
           (\<forall>es. list_all2 (coded api) zs (es @ [ph api]) \<longrightarrow> list_all2 (coded api) zs' (pending c es @ [ph api]))))"

lemma raise_keeps:
  assumes "err_stack api counted cap entries" "confined marked (entries q) zs n"
  shows "keeps_scope api cap marked (Raise lib reason) zs n (entries (ERR_raise api lib reason q))"
proof -
  obtain z where z: "coded api z (lib, reason)" "snd z = 0" "entries (ERR_raise api lib reason q) = take cap (z # entries q)"
    using raise_entries [OF assms(1)] by blast
  have "0 < cap" using assms(1) by (simp add: err_stack_def)
  then have "confined marked (entries (ERR_raise api lib reason q)) (take cap (z # zs)) (min (cap - Suc (length zs)) n)"
    using assms(2) z(2,3) by (cases cap) (auto simp: confined_def unmarked_def list_all_iff dest: in_set_takeD)
  with z(1) show ?thesis
    unfolding keeps_scope_def by (intro exI [of _ "take cap (z # zs)"] exI [of _ "min (cap - Suc (length zs)) n"]) auto
qed

lemma trial_keeps:
  assumes "err_stack api counted cap entries" "confined marked (entries q) zs n"
  shows "keeps_scope api cap marked (Trial es) zs n (entries (run_call api (Trial es) q))"
proof -
  obtain ys where ys: "entries (raise_all api es (ERR_set_mark api q)) = take cap (ys @ mark_top counted (entries q))"
      "unmarked ys" "length ys = length es"
    using raise_all_entries [OF assms(1), of es "ERR_set_mark api q"] assms(1) by (auto simp: err_stack_def)
  have pop: "entries (run_call api (Trial es) q) = pop_marked (take cap (ys @ mark_top counted (entries q)))"
    using assms(1) ys(1) by (simp add: err_stack_def)
  have unm: "unmarked (take cap ys)" using ys(2) by (auto simp: unmarked_def list_all_iff dest: in_set_takeD)
  show ?thesis
  proof (cases "zs = [] \<or> cap \<le> length ys")
    case True
    then have "pop_marked (take cap (ys @ mark_top counted (entries q))) = []"
      using assms(2) pop_unmarked [OF unm, of "[]"] by (auto simp: confined_def)
    moreover have "zs = [] \<and> marked = []" if "length marked \<le> n" "length zs + length marked + length es \<le> cap"
    proof (cases "zs = []")
      case True
      with that assms(2) show ?thesis by (simp add: confined_def)
    next
      case False
      with True that ys(3) have "length zs = 0" by linarith
      with False show ?thesis by simp
    qed
    ultimately show ?thesis
      unfolding pop keeps_scope_def by (intro exI [of _ "[]"] exI [of _ 0]) (auto simp: confined_def unmarked_def)
  next
    case False
    then obtain err zs' where zs: "zs = (err, 0) # zs'" using assms(2) by (cases zs) (auto simp: confined_def unmarked_def)
    define k where "k = cap - length ys - 1"
    have eq: "take cap (ys @ mark_top counted (entries q)) = ys @ (err, 1) # take k (zs' @ take n marked)"
      using False assms(2) by (simp add: confined_def zs k_def take_Cons')
    have "entries (run_call api (Trial es) q) = (err, 0) # take k zs' @ take (k - length zs') (take n marked)"
      unfolding pop eq using pop_unmarked [OF ys(2)] by simp
    then have "confined marked (entries (run_call api (Trial es) q)) ((err, 0) # take k zs') (min (k - length zs') n)"
      using assms(2) by (auto simp: confined_def unmarked_def zs list_all_iff dest: in_set_takeD)
    then show ?thesis
      unfolding keeps_scope_def zs
      by (intro exI [of _ "(err, 0) # take k zs'"] exI [of _ "min (k - length zs') n"]) (auto simp: k_def ys(3))
  qed
qed

lemma reset_keeps:
  assumes "err_stack api counted cap entries" "marked = mark_top counted base" "confined marked (entries q) zs n"
  shows "keeps_scope api cap marked Reset zs n (entries (run_call api Reset q))"
proof -
  have "entries (ERR_set_mark api (ERR_pop_to_mark api q)) = mark_top counted (pop_marked (entries q))"
    using assms(1) by (simp add: err_stack_def)
  also have "\<dots> = take n marked"
    using assms(2,3) pop_unmarked [of zs "take n marked"] by (simp add: confined_def pop_marked_top mark_unmark)
  finally obtain z where z: "coded api z (ph api)" "snd z = 0" "entries (run_call api Reset q) = take cap (z # take n marked)"
    using raise_entries [OF assms(1), of "ERR_LIB_USER api" kPlaceholderReason "ERR_set_mark api (ERR_pop_to_mark api q)"]
    by (auto simp: scope_reset_def scope_mark_def)
  have "0 < cap" using assms(1) by (simp add: err_stack_def)
  then have "confined marked (entries (run_call api Reset q)) [z] (min (cap - 1) n)"
    using z(2,3) by (simp add: confined_def unmarked_def take_Cons')
  with z(1) show ?thesis
    unfolding keeps_scope_def by (intro exI [of _ "[z]"] exI [of _ "min (cap - 1) n"]) auto
qed

lemma call_keeps:
  assumes "err_stack api counted cap entries" "marked = mark_top counted base" "confined marked (entries q) zs n"
  shows "keeps_scope api cap marked c zs n (entries (run_call api c q))"
  using raise_keeps [OF assms(1,3)] trial_keeps [OF assms(1,3)] reset_keeps [OF assms] by (cases c) auto

definition run_calls :: "'q err_api \<Rightarrow> err_call list \<Rightarrow> 'q \<Rightarrow> 'q" where
  "run_calls api = fold (run_call api)"

lemma calls_keep:
  assumes "err_stack api counted cap entries" "marked = mark_top counted base" "confined marked (entries q) zs n"
  shows "\<exists>zs' n'. confined marked (entries (run_calls api cs q)) zs' n' \<and>
    (length marked \<le> n \<and> length zs + length marked + sum_list (map call_room cs) \<le> cap \<longrightarrow> length marked \<le> n' \<and>
       (\<forall>es. list_all2 (coded api) zs (es @ [ph api]) \<longrightarrow> list_all2 (coded api) zs' (fold pending cs es @ [ph api])))"
  using assms(3)
proof (induction cs arbitrary: q zs n)
  case Nil
  then show ?case by (auto simp: run_calls_def)
next
  case (Cons c cs)
  obtain zs1 n1 where one: "confined marked (entries (run_call api c q)) zs1 n1"
      "length marked \<le> n \<Longrightarrow> length zs + length marked + call_room c \<le> cap \<Longrightarrow>
         length marked \<le> n1 \<and> length zs1 \<le> length zs + call_room c \<and>
         (\<forall>es. list_all2 (coded api) zs (es @ [ph api]) \<longrightarrow> list_all2 (coded api) zs1 (pending c es @ [ph api]))"
    using call_keeps [OF assms(1,2) Cons.prems] unfolding keeps_scope_def by blast
  from Cons.IH [OF one(1)] obtain zs' n' where rest: "confined marked (entries (run_calls api cs (run_call api c q))) zs' n'"
      "length marked \<le> n1 \<Longrightarrow> length zs1 + length marked + sum_list (map call_room cs) \<le> cap \<Longrightarrow> length marked \<le> n' \<and>
         (\<forall>es. list_all2 (coded api) zs1 (es @ [ph api]) \<longrightarrow> list_all2 (coded api) zs' (fold pending cs es @ [ph api]))"
    by blast
  show ?case
  proof (intro exI conjI impI)
    show "confined marked (entries (run_calls api (c # cs) q)) zs' n'" using rest(1) by (simp add: run_calls_def)
    assume room: "length marked \<le> n \<and> length zs + length marked + sum_list (map call_room (c # cs)) \<le> cap"
    then have *: "length marked \<le> n1" "length zs1 + length marked + sum_list (map call_room cs) \<le> cap"
      using one(2) by auto
    show "length marked \<le> n'" using rest(2) [OF *] by blast
    show "\<forall>es. list_all2 (coded api) zs (es @ [ph api]) \<longrightarrow> list_all2 (coded api) zs' (fold pending (c # cs) es @ [ph api])"
      using rest(2) [OF *] one(2) room by auto
  qed
qed

section \<open>Properties\<close>

text \<open>C36. An error scope confines the errors of a call.  Whatever OpenSSL raises inside it, with marks of its own or not and also
  when the ring overflows, and however often the scope is reset: once it is destroyed, only errors of the caller are pending, of
  which the ring may have lost the oldest.  While the ring has room all of them are pending, with their marks when OpenSSL
  counts marks, and the text of the scope is that of the latest error raised since the last reset.\<close>

theorem error_scope_confines:
  assumes "err_stack api counted cap entries" "q' = run_calls api cs (new_OpenSslErrorScope api q)"
  shows "(\<exists>n. map fst (entries (destroy_OpenSslErrorScope api q')) = take n (map fst (entries q))) \<and>
    (length (entries q) + 1 + sum_list (map call_room cs) \<le> cap \<longrightarrow>
       map fst (entries (destroy_OpenSslErrorScope api q')) = map fst (entries q) \<and>
       (counted \<longrightarrow> entries (destroy_OpenSslErrorScope api q') = entries q) \<and>
       (case fold pending cs [] of [] \<Rightarrow> last_error api q' = ''unknown error''
        | (lib, reason) # _ \<Rightarrow> (lib, reason) \<noteq> ph api \<longrightarrow>
            (\<exists>err. ERR_GET_LIB api err = lib \<and> ERR_GET_REASON api err = reason \<and> last_error api q' = ERR_error_string_n api err 256)))"
proof -
  let ?m = "mark_top counted (entries q)" and ?left = "entries (destroy_OpenSslErrorScope api q')"
  have len: "length ?m = length (entries q)" by (cases "(counted, entries q)" rule: unmark.cases) simp_all
  obtain z where z: "coded api z (ph api)" "snd z = 0" "entries (new_OpenSslErrorScope api q) = take cap (z # ?m)"
    using raise_entries [OF assms(1), of "ERR_LIB_USER api" kPlaceholderReason "ERR_set_mark api q"] assms(1)
    by (auto simp: new_OpenSslErrorScope_def scope_mark_def err_stack_def)
  have "0 < cap" using assms(1) by (simp add: err_stack_def)
  then have "confined ?m (entries (new_OpenSslErrorScope api q)) [z] (cap - 1)"
    using z(2,3) by (simp add: confined_def unmarked_def take_Cons')
  from calls_keep [OF assms(1) refl this, of cs] obtain zs n where c: "confined ?m (entries q') zs n"
    and room: "length (entries q) + 1 + sum_list (map call_room cs) \<le> cap \<Longrightarrow>
      length ?m \<le> n \<and> list_all2 (coded api) zs (fold pending cs [] @ [ph api])"
    unfolding assms(2) [symmetric] using z(1) len by force
  have fin: "?left = take n (unmark counted (entries q))"
    using c assms(1) pop_unmarked [of zs "take n ?m"]
    by (simp add: confined_def destroy_OpenSslErrorScope_def err_stack_def pop_marked_top)
  have peek: "ERR_peek_last_error api q' = (case entries q' of [] \<Rightarrow> 0 | (err, _) # _ \<Rightarrow> err)"
    using assms(1) by (simp add: err_stack_def)
  have latest: "case fold pending cs [] of [] \<Rightarrow> last_error api q' = ''unknown error''
        | (lib, reason) # _ \<Rightarrow> (lib, reason) \<noteq> ph api \<longrightarrow>
            (\<exists>err. ERR_GET_LIB api err = lib \<and> ERR_GET_REASON api err = reason \<and> last_error api q' = ERR_error_string_n api err 256)"
    if own: "list_all2 (coded api) zs (fold pending cs [] @ [ph api])"
  proof -
    obtain err m rest where zs: "entries q' = (err, m) # rest" "coded api (err, m) (hd (fold pending cs [] @ [ph api]))"
      using own c by (cases "fold pending cs []") (auto simp: confined_def list_all2_Cons2)
    then have "last_error api q' = (if is_placeholder api err then ''unknown error'' else ERR_error_string_n api err 256)"
      by (simp add: last_error_def peek coded_def)
    with zs(2) show ?thesis
      by (cases "fold pending cs []") (auto simp: coded_def is_placeholder_def intro!: exI [of _ err])
  qed
  have "length (unmark counted (entries q)) = length (entries q)" using map_eq_imp_length_eq unmark_errors(1) by blast
  then show ?thesis
    using fin latest room len by (auto simp: take_map [symmetric])
qed

text \<open>A queue with flags, as in OpenSSL 1.1.1.\<close>

definition flag_api :: "err_entries err_api" where
  "flag_api =
     \<lparr>ERR_set_mark = \<lambda>q. mark_top False (take 16 q), ERR_pop_to_mark = \<lambda>q. pop_marked (take 16 q),
      ERR_raise = \<lambda>lib reason q. (Suc (to_nat (lib, reason)), 0) # q,
      ERR_peek_last_error = \<lambda>q. (case take 16 q of [] \<Rightarrow> 0 | (err, _) # _ \<Rightarrow> err),
      ERR_GET_LIB = \<lambda>err. fst (from_nat (err - 1) :: nat \<times> nat), ERR_GET_REASON = \<lambda>err. snd (from_nat (err - 1) :: nat \<times> nat),
      ERR_error_string_n = \<lambda>_ _. ''error'', ERR_LIB_USER = 128\<rparr>"

lemma mark_top_take: "mark_top counted (take n es) = take n (mark_top counted es)"
  by (cases "(counted, es)" rule: unmark.cases; cases n) auto

lemma pop_marked_length: "length (pop_marked es) \<le> length es"
  by (induction es rule: pop_marked.induct) auto

lemma flag_queue: "err_stack flag_api False 16 (take 16)"
proof -
  have "take 16 (pop_marked (take 16 q)) = pop_marked (take 16 q)" for q :: err_entries
    using pop_marked_length [of "take 16 q"] by simp
  moreover have "take 16 ((e, 0) # take 16 q) = take 16 ((e, 0) # q)" for e and q :: err_entries
    by (simp add: min_def)
  ultimately show ?thesis
    by (auto simp: err_stack_def flag_api_def mark_top_take intro!: exI [of _ "Suc _"])
qed

theorem error_scope_confines_witness:
  "map fst (take 16 (destroy_OpenSslErrorScope flag_api
     (run_calls flag_api [Raise 13 7, Trial [(13, 8), (13, 9)], Reset, Trial [(4, 4)]] (new_OpenSslErrorScope flag_api [(5, 0), (9, 0)])))) = [5, 9]"
  using error_scope_confines [OF flag_queue refl,
      of "[Raise 13 7, Trial [(13, 8), (13, 9)], Reset, Trial [(4, 4)]]" "[(5, 0), (9, 0)]"]
  by simp

text \<open>The placeholder is needed: with flags, a trial on the entry that the mark is on clears it, and the errors of the caller go too.\<close>

lemma placeholder_needed:
  "ERR_pop_to_mark flag_api (run_call flag_api (Trial [(13, 8)]) (ERR_set_mark flag_api [(5, 0), (9, 0)])) = []"
  by (simp add: flag_api_def)

end
