(* ===== verification/Spec2Isabelle.thy ===== *)
theory Spec2Isabelle
  imports Kmip_Enumerations Response_Parser Key_Files Pool_Slots Kmip_Facade Object_Lifecycle Secure_Memory Openssl_Errors
begin

text \<open>
  A verification development for libkmip, a C++ client library for the Key Management Interoperability
  Protocol (KMIP) versions 1.0 to 2.1.

  \<^bold>\<open>The program.\<close>  The library has three layers.  \<open>kmipcore\<close> (\<open>src/kmipcore\<close>) knows the protocol: TTLV elements
  and their bytes, messages, attributes, managed objects, requests, typed responses and the parsers of
  answers.  \<open>kmipclient\<close> (\<open>src/kmipclient\<close>) talks to a server: a transport, the framing of messages on it,
  the operations of the client with the paging of searches, and a pool of connections for threads.
  \<open>kmiputil\<close> (\<open>src/kmiputil\<close>) reads, writes and generates key files.  An operation of the client builds a request
  (requests, messages), serializes it (TTLV, buffer), exchanges it for an answer (framing, transport), decodes
  the answer (TTLV, messages), finds its batch item (response parser) and reads the typed view (responses,
  key parser, attributes parser).

  \<^bold>\<open>Theories and sources.\<close>
  \<^item> \<open>Kmip_Prelude\<close>: integers of fixed width, sizes modulo \<open>2 ^ 64\<close>, results \<open>failure + 'a\<close>, bytes and strings.
  \<^item> \<open>Kmip_Enums\<close>, \<open>Kmip_Errors\<close>: \<open>kmip_enums.hpp\<close>, \<open>kmip_errors.cpp\<close>; \<open>Kmip_Enumerations\<close>: all enumerations of the
    header as tables, with its block of constants for plain integers.
  \<^item> \<open>Serialization_Buffer\<close>: \<open>serialization_buffer.cpp\<close>, as contents, capacity and write position.
  \<^item> \<open>Kmip_Basics\<close>: \<open>kmip_basics.cpp\<close>, elements, serialization and the recursive decoder.
  \<^item> \<open>Kmip_Protocol\<close>, \<open>Kmip_Payloads\<close>: \<open>kmip_protocol.cpp\<close>, \<open>kmip_payloads.cpp\<close>, messages and headers.
  \<^item> \<open>Kmip_Formatter\<close>: \<open>kmip_formatter.cpp\<close>, the text of the log.
  \<^item> \<open>Kmip_Attributes\<close>, \<open>Attributes_Parser\<close>, \<open>Kmip_Objects\<close>: \<open>kmip_attributes.cpp\<close>, \<open>attributes_parser.cpp\<close>,
    \<open>key.hpp\<close>, \<open>secret.hpp\<close>.
  \<^item> \<open>Kmip_Requests\<close>, \<open>Kmip_Responses\<close>, \<open>Key_Parser\<close>, \<open>Response_Parser\<close>: the sources of the same names.
  \<^item> \<open>Kmip_IO\<close>: \<open>IOUtils.cpp\<close> over the interface \<open>NetClient.hpp\<close>; \<open>Client_Keys\<close>: \<open>Key.cpp\<close> and the key classes.
  \<^item> \<open>Locate_Paging\<close>, \<open>Kmip_Client\<close>: \<open>KmipClient.cpp\<close>, the searches and the operations.
  \<^item> \<open>Client_Pool\<close>: \<open>KmipClientPool.cpp\<close>, critical sections and a step relation for the threads; \<open>Pool_Slots\<close>: its
    connections, over the TLS transport.
  \<^item> \<open>Kmip_Encoding\<close>, \<open>Key_Files\<close>: \<open>Encoding.cpp\<close>; \<open>AesKey.cpp\<close>, \<open>KeyReader.cpp\<close>, \<open>KeyWriter.cpp\<close>,
    \<open>KeyGenerator.cpp\<close>.
  \<^item> \<open>Client_Sessions\<close>: the client against a peer, the theorems that span the layers; \<open>Key_Formats\<close>: the
    negotiation of key formats against any server; \<open>Object_Lifecycle\<close>: registering keys and secrets, reading them
    back and destroying them.
  \<^item> \<open>Tls_Transport\<close>, \<open>Tls_Sessions\<close>: \<open>NetClientOpenSSL.cpp\<close>, over the trace of its calls to OpenSSL, the sockets
    and the clock; \<open>Tls_Client\<close>: the client over this transport; \<open>Kmip_Facade\<close>: \<open>Kmip.hpp\<close>.
  \<^item> \<open>Secure_Memory\<close>: \<open>secure_memory.cpp\<close> and the allocator of \<open>secure_memory.hpp\<close>; \<open>Openssl_Errors\<close>: the error
    scopes of \<open>OpenSSLUtils.hpp\<close>, over the documented behaviour of the error queue.

  \<^bold>\<open>How code becomes definitions.\<close>  A function of the source is a definition of the same name; a class is a record
  of its members; a method that changes its object takes and returns it; an exception is a value of
  \<open>failure\<close>, which also has values for an access out of range, for an overflow of \<open>int\<close>, for a tripped precondition of a
  hardened build and for a loop that does not end.  Integers that may wrap are words or reduced modulo their width.  A call that touches the
  transport is an \<open>action\<close>, a function from a state to a result and the state reached, so that the state
  after an error is known.  Code that is not in the sources is a parameter: the transport (\<open>net_client\<close>),
  OpenSSL for key files (\<open>openssl\<close>, the results of the calls), OpenSSL, sockets and clock for the transport
  (\<open>tls_system\<close>, any function of the calls made before), the wall clock and \<open>d2i_X509_PUBKEY\<close> (\<open>client_env\<close>).

  \<^bold>\<open>What the lemmas show.\<close>
  \<^item> Bytes: serialization is the wire format, on machines of either byte order, up to the effective limit of
    the buffer; decoding accepts exactly canonical encodings, inverts it, and what it accepts is well formed; it never reads
    outside its input, but for positions so close to \<open>2 ^ 64\<close> that the sum of its header check wraps.
  \<^item> Messages: requests and responses survive the way through the wire; identifiers of batch items are
    unique; each answer goes to its question, and where the positional fallback does not.
  \<^item> Objects: what is registered comes back; algorithm and length are sent together or not at all; the
    attribute bag is a map, and merging is override; both protocol generations say the same.
  \<^item> Secrecy: the log depends on redacted elements only, down to the log of an exchange; it shows the lengths of secrets,
    not their contents.
  \<^item> Transport: over a working connection an exchange returns the answer of the peer, however the streams
    are split; without any assumption it is confined to the announced length and the limits, and its counters overflow
    only with a transport that reports more bytes than it was given, or a request of at least 2 GiB.
  \<^item> TLS: whatever OpenSSL and the network do, a connected transport was set up and verified by exactly the
    right calls; every handle is released once, on every path; the loops end when the clock moves on; and
    with a BIO that moves data in order or fails, an operation of the client does what it does over a working connection, or
    raises an I/O error after a failed call and leaves the connection closed.
  \<^item> Memory: a byte that a secure container got from its allocator is zero once it does not belong to it any more.
  \<^item> Errors: a scope leaves the caller of the library the OpenSSL errors it had, and none of the library.
  \<^item> Client: the operations deliver their request and return the identifier or the reason of the answer;
    searches end after at most 312 requests, those for all objects after at most 1080, return no more than the server sent, and return the whole
    list of a server that holds one, whether it honours offsets or not.
  \<^item> Enumerations: the constants repeat the enumerators; predicates and tables of names know exactly those, and the names
    spell them.
  \<^item> Keys and secrets: every object of a list that is registered is fetched again under its own identifier, through
    requests of two items and one cached parser; destroying one of them makes its reading raise Item Not Found
    and leaves the others; and whatever a server answers, a key that is returned is well formed,
    has a lifecycle state, and no SubjectPublicKeyInfo keeps the PKCS#8 label.
  \<^item> Pool: connections are accounted for exactly, and no call sleeps while a connection is free and nobody
    is on the way to it; every connection it lends was verified under its options, and none leaks.  The maximum holds for the
    connections that are idle, lent or being set up; one that was given up stays open until its thread has destroyed it.
  \<^item> Key files: Base64 and hexadecimal accept exactly their canonical texts; an AES key survives its PEM text.

  \<^bold>\<open>Interfaces.\<close>  \<open>wire_codec\<close> and \<open>wire_message\<close> (a pair of \<open>toElement\<close> and \<open>fromElement\<close>) are interpreted on
  every message class; \<open>request_builder\<close> on every request constructor; \<open>cached_query\<close> on every query of the
  response parser; \<open>client_operation\<close> on the operations of the client that send one item; \<open>setup_invariant\<close>
  on what the set-up calls of the transport keep; \<open>mended_transport\<close> on the TLS transport beside one on which no call
  fails; the contract of
  writers on the serialization of elements.  The theorems on requests in general, on
  queries in any order and on operations against a peer are proved once, in these locales.

  \<^bold>\<open>Bounds.\<close>  The buffer doubles from 1024 or 8192 bytes and refuses more than 100 MiB, so its effective limit is
  64 MiB; the doubling loop is a \<open>partial_function\<close> with a proof that it returns up to \<open>2 ^ 63\<close>.  Elements
  nest at most 65 levels, the depth the decoder admits.  A received message has at most 16 MiB.  The fallback of a
  search doubles its page, which takes at most 56 requests for a 64-bit limit; a page of zero ids would repeat
  forever, is the value \<open>Diverges\<close> and is shown not to occur.  The end-to-end theorem on searches takes
  identifiers of at most 200 bytes and at most 65536 of them, for which every page fits its limit; that on keys
  and secrets takes payloads of at most 512 KiB and attributes of at most 64 KiB, for which the answer fits the default
  limit of 1 MiB.

  The loops of the transport depend on the outside world and have no bound of their own: each is an instance of
  one loop with the value \<open>Diverges\<close>, and is shown to end under the progress of the system they rely on.

  \<^bold>\<open>Not modelled.\<close>  The Windows branches of the transport; the error queue of OpenSSL in the key files beyond its
  last text (the scopes that guard it are modelled on their own); the buffer inside a short \<open>std::basic_string\<close>; trivial accessors,
  which are the fields of the records; version headers, examples and tests.
\<close>

end
